(* ===== verification/Prelude.thy ===== *)
theory Prelude
  imports Main "HOL-Library.Code_Target_Nat"
begin

text \<open>
  Prelude of the development: the Go runtime notions every component uses (error values with
  wrapping, the three ways a call can end, state passing programs) and the generic lemmas and
  collections the component proofs share.

  A Go call \<open>x, err := f(...)\<close> ends in one of three ways: it returns a value (\<open>Ok\<close>), it
  returns a non-nil error (\<open>Err\<close>), or it panics (\<open>Panic\<close>).  A call with effects is a function of
  the state that returns its outcome with the next state.
\<close>

section \<open>Types of the model\<close>

type_synonym time = int \<comment> \<open>\<open>time.Time\<close>: nanoseconds on the Unix time line\<close>
type_synonym duration = int \<comment> \<open>\<open>time.Duration\<close>: nanoseconds\<close>
type_synonym uuid = string \<comment> \<open>canonical text of a PostgreSQL \<open>uuid\<close>\<close>

abbreviation second :: duration where
  "second \<equiv> 1000000000"

section \<open>Error values\<close>

text \<open>The \<open>Message interface{}\<close> field of \<open>echo.HTTPError\<close>: a string, or any other value.\<close>

datatype echo_message = MsgString string | MsgOther

text \<open>
  \<open>ErrPlain\<close> is \<open>errors.New\<close> (or \<open>fmt.Errorf\<close> without \<open>%w\<close>), \<open>ErrWrap\<close> is \<open>fmt.Errorf\<close> with a
  trailing \<open>: %w\<close>.  The three HTTP error types carry an optional internal error.
\<close>

datatype go_error =
    ErrPlain string
  | ErrWrap string go_error
  | ErrNoRows
  | ErrTxDone
  | ErrDriver string
  | HTTPError (he_code: int) (he_type: string) (he_title: string) (he_detail: string)
      (he_internal: "go_error option") (he_data: "(string \<times> string) list")
  | HTTPValidationError (hv_code: int) (hv_type: string) (hv_title: string) (hv_detail: string)
      (hv_errors: "(string \<times> string \<times> string) list")
      (hv_internal: "go_error option") (hv_data: "(string \<times> string) list")
  | EchoHTTPError (ee_code: int) (ee_message: echo_message) (ee_internal: "go_error option")

text \<open>\<open>errors.Unwrap\<close>: only \<open>%w\<close> errors and \<open>echo.HTTPError\<close> have an \<open>Unwrap\<close> method.\<close>

fun unwrap :: "go_error \<Rightarrow> go_error option" where
  "unwrap (ErrWrap _ e) = Some e"
| "unwrap (EchoHTTPError _ _ i) = i"
| "unwrap _ = None"

text \<open>The chain of an error: the error itself and what it wraps, outermost first.\<close>

fun err_chain :: "go_error \<Rightarrow> go_error list" where
  "err_chain (ErrWrap m e) = ErrWrap m e # err_chain e"
| "err_chain (EchoHTTPError c m (Some e)) = EchoHTTPError c m (Some e) # err_chain e"
| "err_chain e = [e]"

definition errors_is :: "go_error \<Rightarrow> go_error \<Rightarrow> bool" where
  "errors_is e target \<longleftrightarrow> target \<in> set (err_chain e)"

definition errors_as :: "(go_error \<Rightarrow> bool) \<Rightarrow> go_error \<Rightarrow> go_error option" where
  "errors_as is_kind e = find is_kind (err_chain e)"

lemma err_chain_not_Nil [simp]: "err_chain e \<noteq> []"
  by (cases e rule: err_chain.cases) auto

lemma err_chain_unwrap:
  "err_chain e = e # (case unwrap e of None \<Rightarrow> [] | Some e' \<Rightarrow> err_chain e')"
  by (cases e rule: err_chain.cases) auto

lemma errors_is_refl [simp]: "errors_is e e"
  by (subst errors_is_def, subst err_chain_unwrap) simp

lemma errors_is_wrap [simp]:
  "t \<noteq> ErrWrap m e \<Longrightarrow> errors_is (ErrWrap m e) t \<longleftrightarrow> errors_is e t"
  by (auto simp: errors_is_def)

lemma errors_as_wrap [simp]:
  "\<not> P (ErrWrap m e) \<Longrightarrow> errors_as P (ErrWrap m e) = errors_as P e"
  by (simp add: errors_as_def)

lemma errors_as_here [simp]: "P e \<Longrightarrow> errors_as P e = Some e"
  by (subst errors_as_def, subst err_chain_unwrap) simp

section \<open>Outcomes and programs\<close>

datatype 'a outcome = Ok 'a | Err go_error | Panic string

type_synonym ('s, 'a) prog = "'s \<Rightarrow> 'a outcome \<times> 's"

fun is_ok :: "'a outcome \<Rightarrow> bool" where
  "is_ok (Ok _) = True"
| "is_ok _ = False"

definition okP :: "'a \<Rightarrow> ('s, 'a) prog" where
  "okP x = (\<lambda>s. (Ok x, s))"

definition errP :: "go_error \<Rightarrow> ('s, 'a) prog" where
  "errP e = (\<lambda>s. (Err e, s))"

definition panicP :: "string \<Rightarrow> ('s, 'a) prog" where
  "panicP c = (\<lambda>s. (Panic c, s))"

text \<open>
  \<open>bindP\<close> is \<open>x, err := m; if err != nil { return err }\<close> and then the rest; \<open>tryP\<close> hands the error
  to the rest, for the handlers that inspect it; \<open>wrapP\<close> wraps it with \<open>fmt.Errorf\<close>.
\<close>

definition bindP :: "('s, 'a) prog \<Rightarrow> ('a \<Rightarrow> ('s, 'b) prog) \<Rightarrow> ('s, 'b) prog" where
  "bindP m f = (\<lambda>s. case m s of
      (Ok x, t) \<Rightarrow> f x t
    | (Err e, t) \<Rightarrow> (Err e, t)
    | (Panic c, t) \<Rightarrow> (Panic c, t))"

definition tryP :: "('s, 'a) prog \<Rightarrow> (go_error + 'a \<Rightarrow> ('s, 'b) prog) \<Rightarrow> ('s, 'b) prog" where
  "tryP m k = (\<lambda>s. case m s of
      (Ok x, t) \<Rightarrow> k (Inr x) t
    | (Err e, t) \<Rightarrow> k (Inl e) t
    | (Panic c, t) \<Rightarrow> (Panic c, t))"

definition wrapP :: "string \<Rightarrow> ('s, 'a) prog \<Rightarrow> ('s, 'a) prog" where
  "wrapP msg m = tryP m (\<lambda>r. case r of Inl e \<Rightarrow> errP (ErrWrap msg e) | Inr x \<Rightarrow> okP x)"

definition thenP :: "('s, 'a) prog \<Rightarrow> ('s, 'b) prog \<Rightarrow> ('s, 'b) prog" where
  "thenP m n = bindP m (\<lambda>_. n)"

named_theorems outcome_simps
  \<open>which outcomes a program can have, as equivalences that the simplifier unfolds\<close>

named_theorems frame_intros
  \<open>composition rules for the parts of the state a program leaves alone\<close>

lemma okP_iff [outcome_simps]: "okP x s = (r, t) \<longleftrightarrow> r = Ok x \<and> t = s"
  by (auto simp: okP_def)

lemma errP_iff [outcome_simps]: "errP e s = (r, t) \<longleftrightarrow> r = Err e \<and> t = s"
  by (auto simp: errP_def)

lemma panicP_iff [outcome_simps]: "panicP c s = (r, t) \<longleftrightarrow> r = Panic c \<and> t = s"
  by (auto simp: panicP_def)

lemma bindP_Ok_iff [outcome_simps]:
  "bindP m f s = (Ok y, t) \<longleftrightarrow> (\<exists>x u. m s = (Ok x, u) \<and> f x u = (Ok y, t))"
  by (auto simp: bindP_def split: prod.splits outcome.splits)

lemma thenP_Ok_iff [outcome_simps]:
  "thenP m n s = (Ok y, t) \<longleftrightarrow> (\<exists>x u. m s = (Ok x, u) \<and> n u = (Ok y, t))"
  by (simp add: thenP_def bindP_Ok_iff)

lemma tryP_Ok_iff [outcome_simps]:
  "tryP m k s = (Ok y, t) \<longleftrightarrow>
    (\<exists>x u. m s = (Ok x, u) \<and> k (Inr x) u = (Ok y, t)) \<or>
    (\<exists>e u. m s = (Err e, u) \<and> k (Inl e) u = (Ok y, t))"
  by (auto simp: tryP_def split: prod.splits outcome.splits)

lemma wrapP_Ok_iff [outcome_simps]: "wrapP msg m s = (Ok y, t) \<longleftrightarrow> m s = (Ok y, t)"
  by (auto simp: wrapP_def outcome_simps split: sum.splits)

lemma if_prog_Ok_iff [outcome_simps]:
  "(if b then m else n) s = (Ok y, t) \<longleftrightarrow> (b \<and> m s = (Ok y, t)) \<or> (\<not> b \<and> n s = (Ok y, t))"
  by simp

lemma bindP_fail:
  "bindP m f s = (r, t) \<Longrightarrow> \<not> is_ok r \<Longrightarrow>
    (\<exists>r'. m s = (r', t) \<and> \<not> is_ok r') \<or> (\<exists>x u. m s = (Ok x, u) \<and> f x u = (r, t))"
  by (auto simp: bindP_def split: prod.splits outcome.splits)

lemma tryP_fail:
  "tryP m k s = (r, t) \<Longrightarrow> \<not> is_ok r \<Longrightarrow>
    (\<exists>x u. m s = (Ok x, u) \<and> k (Inr x) u = (r, t)) \<or> (\<exists>x u. m s = (Err x, u) \<and> k (Inl x) u = (r, t)) \<or>
    (\<exists>c. m s = (Panic c, t))"
  by (auto simp: tryP_def split: prod.splits outcome.splits)

lemma wrapP_fail: "wrapP msg m s = (r, t) \<Longrightarrow> \<not> is_ok r \<Longrightarrow> \<exists>r'. m s = (r', t) \<and> \<not> is_ok r'"
  by (auto simp: wrapP_def tryP_def errP_def okP_def split: prod.splits outcome.splits)

lemma ok_run: "is_ok (fst (m s)) \<Longrightarrow> \<exists>r t. m s = (Ok r, t)"
  by (cases "m s"; cases "fst (m s)") auto

text \<open>For the witnesses: what holds of every normal return holds of one that is computed.\<close>

lemma run_instance:
  "is_ok (fst (m s)) \<Longrightarrow> (\<And>r t. m s = (Ok r, t) \<Longrightarrow> P r t) \<Longrightarrow> \<exists>r t. m s = (Ok r, t) \<and> P r t"
  by (meson ok_run)

section \<open>Frames: what a program leaves unchanged\<close>

definition frame :: "('s \<Rightarrow> 'x) \<Rightarrow> ('s, 'a) prog \<Rightarrow> bool" where
  "frame g m \<longleftrightarrow> (\<forall>s. g (snd (m s)) = g s)"

lemma frameI: "(\<And>s r t. m s = (r, t) \<Longrightarrow> g t = g s) \<Longrightarrow> frame g m"
  by (auto simp: frame_def intro: prod.collapse [symmetric])

lemma frameD: "frame g m \<Longrightarrow> m s = (r, t) \<Longrightarrow> g t = g s"
  unfolding frame_def by (metis snd_conv)

lemma frame_okP [frame_intros]: "frame g (okP x)"
  by (simp add: frame_def okP_def)

lemma frame_errP [frame_intros]: "frame g (errP e)"
  by (simp add: frame_def errP_def)

lemma frame_panicP [frame_intros]: "frame g (panicP c)"
  by (simp add: frame_def panicP_def)

lemma frame_bindP [frame_intros]:
  "frame g m \<Longrightarrow> (\<And>x. frame g (f x)) \<Longrightarrow> frame g (bindP m f)"
  by (auto simp: frame_def bindP_def split: prod.split outcome.split) (metis snd_conv)+

lemma frame_thenP [frame_intros]: "frame g m \<Longrightarrow> frame g n \<Longrightarrow> frame g (thenP m n)"
  by (simp add: thenP_def frame_bindP)

lemma frame_tryP [frame_intros]:
  "frame g m \<Longrightarrow> (\<And>r. frame g (k r)) \<Longrightarrow> frame g (tryP m k)"
  by (auto simp: frame_def tryP_def split: prod.split outcome.split) (metis snd_conv)+

lemma frame_wrapP [frame_intros]: "frame g m \<Longrightarrow> frame g (wrapP msg m)"
  by (auto simp: wrapP_def intro!: frame_tryP split: sum.split intro: frame_okP frame_errP)

lemma frame_if [frame_intros]:
  "(b \<Longrightarrow> frame g m) \<Longrightarrow> (\<not> b \<Longrightarrow> frame g n) \<Longrightarrow> frame g (if b then m else n)"
  by simp

lemma frame_case_option [frame_intros]:
  "frame g m \<Longrightarrow> (\<And>x. frame g (f x)) \<Longrightarrow> frame g (case z of None \<Rightarrow> m | Some x \<Rightarrow> f x)"
  by (cases z) auto

lemma frame_case_sum [frame_intros]:
  "(\<And>x. frame g (f x)) \<Longrightarrow> (\<And>x. frame g (h x)) \<Longrightarrow>
    frame g (case z of Inl x \<Rightarrow> f x | Inr x \<Rightarrow> h x)"
  by (cases z) auto

lemma frame_case_prod [frame_intros]:
  "(\<And>x y. frame g (f x y)) \<Longrightarrow> frame g (case z of (x, y) \<Rightarrow> f x y)"
  by (cases z) auto

lemma frame_Let [frame_intros]: "(\<And>x. frame g (f x)) \<Longrightarrow> frame g (let x = e in f x)"
  by simp

section \<open>Invariants: what a program keeps\<close>

definition keeps :: "('s \<Rightarrow> bool) \<Rightarrow> ('s, 'a) prog \<Rightarrow> bool" where
  "keeps P m \<longleftrightarrow> (\<forall>s. P s \<longrightarrow> P (snd (m s)))"

named_theorems keeps_intros \<open>composition rules for invariants\<close>

lemma keepsI: "(\<And>s r t. m s = (r, t) \<Longrightarrow> P s \<Longrightarrow> P t) \<Longrightarrow> keeps P m"
  by (auto simp: keeps_def intro: prod.collapse [symmetric])

lemma keepsD: "keeps P m \<Longrightarrow> m s = (r, t) \<Longrightarrow> P s \<Longrightarrow> P t"
  unfolding keeps_def by (metis snd_conv)

lemma keeps_okP [keeps_intros]: "keeps P (okP x)"
  by (simp add: keeps_def okP_def)

lemma keeps_errP [keeps_intros]: "keeps P (errP e)"
  by (simp add: keeps_def errP_def)

lemma keeps_panicP [keeps_intros]: "keeps P (panicP c)"
  by (simp add: keeps_def panicP_def)

lemma keeps_bindP [keeps_intros]:
  "keeps P m \<Longrightarrow> (\<And>x. keeps P (f x)) \<Longrightarrow> keeps P (bindP m f)"
  by (auto simp: keeps_def bindP_def split: prod.split outcome.split)

lemma keeps_thenP [keeps_intros]: "keeps P m \<Longrightarrow> keeps P n \<Longrightarrow> keeps P (thenP m n)"
  by (simp add: thenP_def keeps_bindP)

lemma keeps_tryP [keeps_intros]:
  "keeps P m \<Longrightarrow> (\<And>r. keeps P (k r)) \<Longrightarrow> keeps P (tryP m k)"
  by (auto simp: keeps_def tryP_def split: prod.split outcome.split)

lemma keeps_wrapP [keeps_intros]: "keeps P m \<Longrightarrow> keeps P (wrapP msg m)"
  by (auto simp: wrapP_def intro!: keeps_tryP split: sum.split intro: keeps_okP keeps_errP)

lemma keeps_if [keeps_intros]:
  "(b \<Longrightarrow> keeps P m) \<Longrightarrow> (\<not> b \<Longrightarrow> keeps P n) \<Longrightarrow> keeps P (if b then m else n)"
  by simp

lemma keeps_case_option [keeps_intros]:
  "keeps P m \<Longrightarrow> (\<And>x. keeps P (f x)) \<Longrightarrow> keeps P (case z of None \<Rightarrow> m | Some x \<Rightarrow> f x)"
  by (cases z) auto

lemma keeps_case_sum [keeps_intros]:
  "(\<And>x. keeps P (f x)) \<Longrightarrow> (\<And>x. keeps P (h x)) \<Longrightarrow>
    keeps P (case z of Inl x \<Rightarrow> f x | Inr x \<Rightarrow> h x)"
  by (cases z) auto

lemma keeps_case_prod [keeps_intros]:
  "(\<And>x y. keeps P (f x y)) \<Longrightarrow> keeps P (case z of (x, y) \<Rightarrow> f x y)"
  by (cases z) auto

lemma keeps_Let [keeps_intros]: "(\<And>x. keeps P (f x)) \<Longrightarrow> keeps P (let x = e in f x)"
  by simp

section \<open>Lists and options\<close>

lemma find_Some_iff_ex: "(\<exists>x. find P xs = Some x) \<longleftrightarrow> (\<exists>x \<in> set xs. P x)"
  by (induction xs) auto

lemma find_SomeD: "find P xs = Some x \<Longrightarrow> x \<in> set xs \<and> P x"
  by (induction xs) (auto split: if_splits)

lemma find_NoneD: "find P xs = None \<Longrightarrow> x \<in> set xs \<Longrightarrow> \<not> P x"
  by (auto simp: find_None_iff)

text \<open>In a table with a unique key, a lookup by key returns the row that carries it.\<close>

lemma find_by_key:
  "distinct (map k xs) \<Longrightarrow> x \<in> set xs \<Longrightarrow> find (\<lambda>y. k y = k x) xs = Some x"
  by (induction xs) force+

lemma distinct_map_filter_key: "distinct (map k xs) \<Longrightarrow> distinct (map k (filter P xs))"
  by (induction xs) auto

end
