(* ===== verification/Models.thy ===== *)
theory Models
  imports Prelude
begin

text \<open>
  The persistent state: the rows of internal/models (one record per table, the fields of the Go
  struct), the database with the constraints of migrations/*.sql, and the statements the services
  issue.

  PostgreSQL and the driver are outside the repository, so what they decide is a parameter, the
  record \<open>env\<close>: whether statement number \<open>n\<close> fails, the value of a generated uuid, the clocks, the
  reading of a text as a uuid.  Every interaction (statement, clock reading, transaction control)
  takes the next number, so an arbitrary \<open>env\<close> is an arbitrary pattern of failures, clock readings
  and identifiers.  A table is a list of rows; a query without \<open>ORDER BY\<close> returns the rows in the
  order of the list, which is arbitrary.  A statement that fails changes nothing.

  A world has the committed database \<open>db\<close> and, inside a transaction, the transaction's view \<open>tx\<close>
  (READ COMMITTED: what other connections commit is visible in it).
\<close>

section \<open>Rows\<close>

record user_row =
  usr_id :: uuid
  usr_username :: "string option"
  usr_password :: "string option"
  usr_is_active :: bool
  usr_scopes :: "string list"
  usr_last_authenticated_at :: "time option"
  usr_created_at :: time
  usr_updated_at :: time
  usr_requires_confirmation :: bool

record app_user_profile_row =
  aup_user_id :: uuid
  aup_legal_accepted_at :: "time option"
  aup_created_at :: time
  aup_updated_at :: time

record access_token_row =
  atk_token :: uuid
  atk_valid_until :: time
  atk_user_id :: uuid
  atk_created_at :: time
  atk_updated_at :: time

record refresh_token_row =
  rtk_token :: uuid
  rtk_user_id :: uuid
  rtk_created_at :: time
  rtk_updated_at :: time

record password_reset_token_row =
  prt_token :: uuid
  prt_valid_until :: time
  prt_user_id :: uuid
  prt_created_at :: time
  prt_updated_at :: time

record confirmation_token_row =
  ctk_token :: uuid
  ctk_valid_until :: time
  ctk_user_id :: uuid
  ctk_created_at :: time
  ctk_updated_at :: time

record push_token_row =
  ptk_id :: uuid
  ptk_token :: string
  ptk_provider :: string
  ptk_user_id :: uuid
  ptk_created_at :: time
  ptk_updated_at :: time

record organization_row =
  org_id :: uuid
  org_name :: string
  org_owner_id :: uuid
  org_created_at :: "time option"
  org_updated_at :: "time option"

record organization_member_row =
  mem_organization_id :: uuid
  mem_user_id :: uuid
  mem_role :: string
  mem_created_at :: "time option"

record chain_row =
  chn_id :: string
  chn_name :: string
  chn_type :: string
  chn_chain_id :: "string option"
  chn_algorithm :: string
  chn_curve :: string
  chn_currency_symbol :: string
  chn_rpc_url :: "string option"
  chn_explorer_url :: "string option"
  chn_icon_url :: "string option"
  chn_is_testnet :: "bool option"
  chn_created_at :: "time option"
  chn_updated_at :: "time option"

record vault_row =
  vlt_id :: uuid
  vlt_organization_id :: "uuid option"
  vlt_name :: string
  vlt_threshold :: int
  vlt_created_at :: "time option"
  vlt_updated_at :: "time option"

record wallet_row =
  wal_id :: uuid
  wal_vault_id :: "uuid option"
  wal_chain_id :: "string option"
  wal_key_id :: string
  wal_address :: string
  wal_derive_path :: string
  wal_derive_index :: int
  wal_created_at :: "time option"
  wal_updated_at :: "time option"

record signing_request_row =
  srq_id :: uuid
  srq_vault_id :: "uuid option"
  srq_wallet_id :: "uuid option"
  srq_initiator_id :: "uuid option"
  srq_tx_data :: string
  srq_tx_hash :: "string option"
  srq_amount :: "string option"
  srq_to_address :: "string option"
  srq_note :: "string option"
  srq_status :: "string option"
  srq_mpc_session_id :: "string option"
  srq_signature :: "string option"
  srq_created_at :: "time option"
  srq_updated_at :: "time option"

record approval_row =
  apv_id :: uuid
  apv_request_id :: "uuid option"
  apv_user_id :: "uuid option"
  apv_action :: string
  apv_comment :: "string option"
  apv_created_at :: "time option"
  apv_updated_at :: "time option"

record user_credential_row =
  ucr_id :: uuid
  ucr_user_id :: uuid
  ucr_credential_id :: string
  ucr_public_key :: string
  ucr_attestation_type :: "string option"
  ucr_aaguid :: "string option"
  ucr_sign_count :: "int option"
  ucr_device_name :: "string option"
  ucr_last_used_at :: "time option"
  ucr_created_at :: "time option"
  ucr_updated_at :: "time option"

record database =
  users :: "user_row list"
  app_user_profiles :: "app_user_profile_row list"
  access_tokens :: "access_token_row list"
  refresh_tokens :: "refresh_token_row list"
  password_reset_tokens :: "password_reset_token_row list"
  confirmation_tokens :: "confirmation_token_row list"
  push_tokens :: "push_token_row list"
  organizations :: "organization_row list"
  organization_members :: "organization_member_row list"
  chains :: "chain_row list"
  vaults :: "vault_row list"
  wallets :: "wallet_row list"
  signing_requests :: "signing_request_row list"
  approvals :: "approval_row list"
  user_credentials :: "user_credential_row list"

definition empty_db :: database where
  "empty_db = \<lparr>users = [], app_user_profiles = [], access_tokens = [], refresh_tokens = [],
     password_reset_tokens = [], confirmation_tokens = [], push_tokens = [], organizations = [],
     organization_members = [], chains = [], vaults = [], wallets = [], signing_requests = [],
     approvals = [], user_credentials = []\<rparr>"

section \<open>The world and the environment\<close>

text \<open>A request the signing client sent to the MPC infrastructure (infra/mpc/signing_service.go).\<close>

record auth_token =
  tok_passkey_signature :: string
  tok_authenticator_data :: string
  tok_client_data_json :: string
  tok_credential_id :: string

record sign_call =
  sc_key_id :: string
  sc_message_hex :: string
  sc_chain_type :: string
  sc_auth_tokens :: "auth_token list"

record mail =
  mail_from :: string
  mail_to :: string
  mail_subject :: string
  mail_html :: string

record world =
  clk :: nat
  db :: database
  tx :: "database option"
  mails :: "mail list"
  sign_calls :: "sign_call list"
  key_calls :: "(string \<times> string \<times> string) list"

record env =
  env_fault :: "nat \<Rightarrow> string option"
  env_now :: "nat \<Rightarrow> time"
  env_sysnow :: "nat \<Rightarrow> time"
  env_uuid :: "nat \<Rightarrow> uuid"
  env_parse_uuid :: "string \<Rightarrow> uuid option"
  env_rand :: "nat \<Rightarrow> nat \<Rightarrow> string option"
  env_argon2 :: "string \<Rightarrow> string \<Rightarrow> nat \<Rightarrow> nat \<Rightarrow> nat \<Rightarrow> nat \<Rightarrow> string option"
  env_sign :: "nat \<Rightarrow> sign_call \<Rightarrow> go_error + string"
  env_key :: "nat \<Rightarrow> string \<times> string \<times> string \<Rightarrow> go_error + string"

datatype handle = Pool | Tx \<comment> \<open>\<open>s.db\<close> or the \<open>exec\<close> a transaction passes to its body\<close>

definition tick :: "world \<Rightarrow> world" where
  "tick w = w\<lparr>clk := Suc (clk w)\<rparr>"

lemma tick_simps [simp]:
  "clk (tick w) = Suc (clk w)" "db (tick w) = db w" "tx (tick w) = tx w"
  "mails (tick w) = mails w" "sign_calls (tick w) = sign_calls w" "key_calls (tick w) = key_calls w"
  by (simp_all add: tick_def)

text \<open>\<open>s.clock.Now()\<close> and \<open>time.Now()\<close>.\<close>

definition clock_now :: "env \<Rightarrow> (world, time) prog" where
  "clock_now e = (\<lambda>w. (Ok (env_now e (clk w)), tick w))"

definition sys_now :: "env \<Rightarrow> (world, time) prog" where
  "sys_now e = (\<lambda>w. (Ok (env_sysnow e (clk w)), tick w))"

text \<open>The zero \<open>time.Time\<close>, January 1 of the year 1, 00:00:00 UTC.\<close>

definition zero_time :: time where
  "zero_time = - 62135596800 * second"

section \<open>Statements\<close>

type_synonym 'a statement = "nat \<Rightarrow> database \<Rightarrow> go_error + ('a \<times> database)"

definition apply_stmt :: "'a statement \<Rightarrow> nat \<Rightarrow> database \<Rightarrow> database" where
  "apply_stmt f n d = (case f n d of Inl _ \<Rightarrow> d | Inr (_, d') \<Rightarrow> d')"

definition stmt :: "env \<Rightarrow> handle \<Rightarrow> 'a statement \<Rightarrow> (world, 'a) prog" where
  "stmt e h f = (\<lambda>w. case env_fault e (clk w) of
      Some msg \<Rightarrow> (Err (ErrDriver msg), tick w)
    | None \<Rightarrow> (case h of
        Pool \<Rightarrow> (case f (clk w) (db w) of
            Inl x \<Rightarrow> (Err x, tick w)
          | Inr (r, d) \<Rightarrow> (Ok r, (tick w)\<lparr>db := d, tx := map_option (apply_stmt f (clk w)) (tx w)\<rparr>))
      | Tx \<Rightarrow> (case tx w of
            None \<Rightarrow> (Err ErrTxDone, tick w)
          | Some t \<Rightarrow> (case f (clk w) t of
              Inl x \<Rightarrow> (Err x, tick w)
            | Inr (r, d) \<Rightarrow> (Ok r, (tick w)\<lparr>tx := Some d\<rparr>)))))"

definition query :: "env \<Rightarrow> handle \<Rightarrow> (database \<Rightarrow> go_error + 'a) \<Rightarrow> (world, 'a) prog" where
  "query e h q = stmt e h (\<lambda>n d. case q d of Inl x \<Rightarrow> Inl x | Inr r \<Rightarrow> Inr (r, d))"

text \<open>The view a handle reads, and the world after a statement that left it at \<open>d\<close>.\<close>

definition view :: "handle \<Rightarrow> world \<Rightarrow> database option" where
  "view h w = (case h of Pool \<Rightarrow> Some (db w) | Tx \<Rightarrow> tx w)"

lemma view_simps [simp]: "view Pool w = Some (db w)" "view Tx w = tx w"
  by (simp_all add: view_def)

lemma query_Ok_iff [outcome_simps]:
  "query e h q w = (Ok r, t) \<longleftrightarrow>
     (\<exists>d. env_fault e (clk w) = None \<and> view h w = Some d \<and> q d = Inr r \<and> t = tick w)"
proof (cases h)
  case Pool
  have "map_option (apply_stmt (\<lambda>n d. case q d of Inl x \<Rightarrow> Inl x | Inr r \<Rightarrow> Inr (r, d)) (clk w)) (tx w) = tx w"
    by (cases "tx w") (auto simp: apply_stmt_def split: sum.splits)
  with Pool show ?thesis
    by (auto simp: query_def stmt_def split: option.splits sum.splits)
next
  case Tx
  then show ?thesis
    by (auto simp: query_def stmt_def split: option.splits sum.splits)
qed

lemma stmt_Tx_Ok_iff [outcome_simps]:
  "stmt e Tx f w = (Ok r, t) \<longleftrightarrow>
     (\<exists>d d'. env_fault e (clk w) = None \<and> tx w = Some d \<and> f (clk w) d = Inr (r, d') \<and>
       t = (tick w)\<lparr>tx := Some d'\<rparr>)"
  by (auto simp: stmt_def split: option.splits sum.splits)

lemma stmt_Pool_Ok_iff [outcome_simps]:
  "stmt e Pool f w = (Ok r, t) \<longleftrightarrow>
     (\<exists>d'. env_fault e (clk w) = None \<and> f (clk w) (db w) = Inr (r, d') \<and>
       t = (tick w)\<lparr>db := d', tx := map_option (apply_stmt f (clk w)) (tx w)\<rparr>)"
  by (auto simp: stmt_def split: option.splits sum.splits)

lemma clock_now_iff [outcome_simps]: "clock_now e w = (r, t) \<longleftrightarrow> r = Ok (env_now e (clk w)) \<and> t = tick w"
  by (auto simp: clock_now_def)

lemma sys_now_iff [outcome_simps]: "sys_now e w = (r, t) \<longleftrightarrow> r = Ok (env_sysnow e (clk w)) \<and> t = tick w"
  by (auto simp: sys_now_def)

subsection \<open>Frames of statements\<close>

lemma frame_db_clock [frame_intros]:
  "frame db (clock_now e)" "frame db (sys_now e)"
  by (simp_all add: frame_def clock_now_def sys_now_def)

lemma frame_db_stmt_Tx [frame_intros]: "frame db (stmt e Tx f)"
  by (auto simp: frame_def stmt_def split: option.splits sum.splits)

lemma frame_db_query [frame_intros]: "frame db (query e h q)"
  by (cases h) (auto simp: frame_def query_def stmt_def split: option.splits sum.splits)

lemma frame_tx_query: "frame tx (query e h q)"
proof -
  have "map_option (apply_stmt (\<lambda>n d. case q d of Inl x \<Rightarrow> Inl x | Inr r \<Rightarrow> Inr (r, d)) n) t = t" for n t
    by (cases t) (auto simp: apply_stmt_def split: sum.splits)
  then show ?thesis
    by (cases h) (auto simp: frame_def query_def stmt_def split: option.splits sum.splits)
qed

lemma frame_tx_clock: "frame tx (clock_now e)" "frame tx (sys_now e)"
  by (simp_all add: frame_def clock_now_def sys_now_def)

text \<open>An invariant of databases, read as an invariant of worlds.\<close>

definition on_dbs :: "(database \<Rightarrow> bool) \<Rightarrow> world \<Rightarrow> bool" where
  "on_dbs P w \<longleftrightarrow> P (db w) \<and> (case tx w of None \<Rightarrow> True | Some d \<Rightarrow> P d)"

lemma keeps_clock [keeps_intros]: "keeps (on_dbs P) (clock_now e)" "keeps (on_dbs P) (sys_now e)"
  by (simp_all add: keeps_def clock_now_def sys_now_def on_dbs_def)

lemma keeps_stmt:
  assumes "\<And>n d r d'. P d \<Longrightarrow> f n d = Inr (r, d') \<Longrightarrow> P d'"
  shows "keeps (on_dbs P) (stmt e h f)"
proof (rule keepsI)
  fix w r t assume run: "stmt e h f w = (r, t)" and inv: "on_dbs P w"
  have ap: "P d \<Longrightarrow> P (apply_stmt f n d)" for n d
    using assms by (auto simp: apply_stmt_def split: sum.splits)
  show "on_dbs P t"
    using run inv ap
    by (cases h)
      (auto simp: stmt_def on_dbs_def split: option.splits sum.splits prod.splits dest: assms)
qed

lemma keeps_query [keeps_intros]: "keeps (on_dbs P) (query e h q)"
  unfolding query_def by (rule keeps_stmt) (auto split: sum.splits)

section \<open>Errors of the driver\<close>

definition unique_violation :: "string \<Rightarrow> go_error" where
  "unique_violation c = ErrDriver (''pq: duplicate key value violates unique constraint '' @ c)"

definition fk_violation :: "string \<Rightarrow> go_error" where
  "fk_violation c = ErrDriver (''pq: violates foreign key constraint '' @ c)"

definition too_long :: go_error where
  "too_long = ErrDriver ''pq: value too long for type character varying''"

definition bad_uuid :: go_error where
  "bad_uuid = ErrDriver ''pq: invalid input syntax for type uuid''"

definition bad_enum :: go_error where
  "bad_enum = ErrDriver ''pq: invalid input value for enum''"

text \<open>Characters of a UTF-8 text: the bytes that are not continuation bytes.\<close>

definition char_length :: "string \<Rightarrow> nat" where
  "char_length s = length (filter (\<lambda>c. (of_char c :: nat) div 64 \<noteq> 2) s)"

text \<open>The first failing check of a statement, in order.\<close>

fun first_error :: "(bool \<times> go_error) list \<Rightarrow> go_error option" where
  "first_error [] = None"
| "first_error ((bad, x) # cs) = (if bad then Some x else first_error cs)"

section \<open>Query finishers of the models\<close>

text \<open>\<open>One\<close>: \<open>sql.ErrNoRows\<close> is passed on as it is, any other error is wrapped.\<close>

definition one_row :: "string \<Rightarrow> env \<Rightarrow> handle \<Rightarrow> (database \<Rightarrow> 'r list) \<Rightarrow> ('r \<Rightarrow> bool) \<Rightarrow> (world, 'r) prog" where
  "one_row table e h tab p =
     tryP (query e h (\<lambda>d. case find p (tab d) of None \<Rightarrow> Inl ErrNoRows | Some r \<Rightarrow> Inr r))
       (\<lambda>res. case res of
          Inl x \<Rightarrow> if errors_is x ErrNoRows then errP ErrNoRows
                   else errP (ErrWrap (''models: failed to execute a one query for '' @ table) x)
        | Inr r \<Rightarrow> okP r)"

definition all_rows :: "string \<Rightarrow> env \<Rightarrow> handle \<Rightarrow> (database \<Rightarrow> 'r list) \<Rightarrow> ('r \<Rightarrow> bool) \<Rightarrow> (world, 'r list) prog" where
  "all_rows slice e h tab p =
     wrapP (''models: failed to assign all query results to '' @ slice)
       (query e h (\<lambda>d. Inr (filter p (tab d))))"

definition rows_exist :: "string \<Rightarrow> env \<Rightarrow> handle \<Rightarrow> (database \<Rightarrow> 'r list) \<Rightarrow> ('r \<Rightarrow> bool) \<Rightarrow> (world, bool) prog" where
  "rows_exist table e h tab p =
     wrapP (''models: failed to check if '' @ table @ '' exists'')
       (query e h (\<lambda>d. Inr (find p (tab d) \<noteq> None)))"

text \<open>A request-supplied text compared with a \<open>uuid\<close> column is read as a uuid by the server.\<close>

definition one_by_uuid ::
    "string \<Rightarrow> env \<Rightarrow> handle \<Rightarrow> (database \<Rightarrow> 'r list) \<Rightarrow> ('r \<Rightarrow> uuid) \<Rightarrow> string \<Rightarrow> ('r \<Rightarrow> bool) \<Rightarrow> (world, 'r) prog" where
  "one_by_uuid table e h tab key txt p =
     tryP (query e h (\<lambda>d. case env_parse_uuid e txt of
             None \<Rightarrow> Inl bad_uuid
           | Some u \<Rightarrow> (case find (\<lambda>r. key r = u \<and> p r) (tab d) of None \<Rightarrow> Inl ErrNoRows | Some r \<Rightarrow> Inr r)))
       (\<lambda>res. case res of
          Inl x \<Rightarrow> if errors_is x ErrNoRows then errP ErrNoRows
                   else errP (ErrWrap (''models: failed to execute a one query for '' @ table) x)
        | Inr r \<Rightarrow> okP r)"

lemma one_row_Ok_iff [outcome_simps]:
  "one_row tn e h tab p w = (Ok r, t) \<longleftrightarrow>
     (\<exists>d. env_fault e (clk w) = None \<and> view h w = Some d \<and> find p (tab d) = Some r \<and> t = tick w)"
  by (auto simp: one_row_def outcome_simps split: option.splits sum.splits if_splits)

lemma all_rows_Ok_iff [outcome_simps]:
  "all_rows tn e h tab p w = (Ok rs, t) \<longleftrightarrow>
     (\<exists>d. env_fault e (clk w) = None \<and> view h w = Some d \<and> rs = filter p (tab d) \<and> t = tick w)"
  by (auto simp: all_rows_def outcome_simps)

lemma rows_exist_Ok_iff [outcome_simps]:
  "rows_exist tn e h tab p w = (Ok b, t) \<longleftrightarrow>
     (\<exists>d. env_fault e (clk w) = None \<and> view h w = Some d \<and> b = (find p (tab d) \<noteq> None) \<and> t = tick w)"
  by (auto simp: rows_exist_def outcome_simps)

lemma one_by_uuid_Ok_iff [outcome_simps]:
  "one_by_uuid tn e h tab key txt p w = (Ok r, t) \<longleftrightarrow>
     (\<exists>d u. env_fault e (clk w) = None \<and> view h w = Some d \<and> env_parse_uuid e txt = Some u \<and>
        find (\<lambda>r. key r = u \<and> p r) (tab d) = Some r \<and> t = tick w)"
proof -
  have "(case env_parse_uuid e txt of
             None \<Rightarrow> Inl bad_uuid
           | Some u \<Rightarrow> (case find (\<lambda>r. key r = u \<and> p r) (tab d) of None \<Rightarrow> Inl ErrNoRows | Some r \<Rightarrow> Inr r)) = Inr r
        \<longleftrightarrow> (\<exists>u. env_parse_uuid e txt = Some u \<and> find (\<lambda>r. key r = u \<and> p r) (tab d) = Some r)" for d r
    by (auto split: option.splits)
  then show ?thesis
    by (simp only: one_by_uuid_def outcome_simps sum.case) (auto simp: outcome_simps)
qed

lemma frame_db_finishers [frame_intros]:
  "frame db (one_row tn e h tab p)" "frame db (all_rows tn e h tab p)"
  "frame db (rows_exist tn e h tab p)" "frame db (one_by_uuid tn e h tab key txt p)"
  unfolding one_row_def all_rows_def rows_exist_def one_by_uuid_def
  by (auto intro!: frame_intros)

lemma keeps_finishers [keeps_intros]:
  "keeps (on_dbs P) (one_row tn e h tab p)" "keeps (on_dbs P) (all_rows tn e h tab p)"
  "keeps (on_dbs P) (rows_exist tn e h tab p)" "keeps (on_dbs P) (one_by_uuid tn e h tab key txt p)"
  unfolding one_row_def all_rows_def rows_exist_def one_by_uuid_def
  by (auto intro!: keeps_intros)

section \<open>Insertion\<close>

text \<open>
  \<open>Insert\<close>: the row is completed (timestamps before the statement, defaults by the server), checked
  against the table's constraints and appended.
\<close>

definition insert_stmt :: "string \<Rightarrow> env \<Rightarrow> handle \<Rightarrow> (nat \<Rightarrow> 'r) \<Rightarrow> ('r \<Rightarrow> database \<Rightarrow> (bool \<times> go_error) list)
    \<Rightarrow> ('r \<Rightarrow> database \<Rightarrow> database) \<Rightarrow> (world, 'r) prog" where
  "insert_stmt table e h complete checks add =
     wrapP (''models: unable to insert into '' @ table)
       (stmt e h (\<lambda>n d. case first_error (checks (complete n) d) of
            Some x \<Rightarrow> Inl x
          | None \<Rightarrow> Inr (complete n, add (complete n) d)))"

lemma insert_stmt_Tx_Ok_iff [outcome_simps]:
  "insert_stmt tn e Tx c ch ad w = (Ok r, t) \<longleftrightarrow>
     (\<exists>d. env_fault e (clk w) = None \<and> tx w = Some d \<and> r = c (clk w) \<and>
        first_error (ch r d) = None \<and> t = (tick w)\<lparr>tx := Some (ad r d)\<rparr>)"
  by (auto simp: insert_stmt_def outcome_simps split: option.splits)

lemma insert_stmt_Pool_Ok_iff [outcome_simps]:
  "insert_stmt tn e Pool c ch ad w = (Ok r, t) \<longleftrightarrow>
     (env_fault e (clk w) = None \<and> r = c (clk w) \<and> first_error (ch r (db w)) = None \<and>
        t = (tick w)\<lparr>db := ad r (db w),
              tx := map_option (\<lambda>d. if first_error (ch r d) = None then ad r d else d) (tx w)\<rparr>)"
proof -
  have "apply_stmt (\<lambda>n d. case first_error (ch (c n) d) of
            Some x \<Rightarrow> Inl x | None \<Rightarrow> Inr (c n, ad (c n) d)) n
      = (\<lambda>d. if first_error (ch (c n) d) = None then ad (c n) d else d)" for n
    by (rule ext) (auto simp: apply_stmt_def split: option.splits)
  then show ?thesis
    by (auto simp: insert_stmt_def outcome_simps split: option.splits)
qed

lemma frame_db_insert_Tx [frame_intros]: "frame db (insert_stmt tn e Tx c ch ad)"
  unfolding insert_stmt_def by (intro frame_intros)

lemma keeps_insert_stmt:
  assumes "\<And>n d. P d \<Longrightarrow> first_error (ch (c n) d) = None \<Longrightarrow> P (ad (c n) d)"
  shows "keeps (on_dbs P) (insert_stmt tn e h c ch ad)"
  unfolding insert_stmt_def
  by (rule keeps_wrapP, rule keeps_stmt) (auto split: option.splits intro: assms)

section \<open>Deletion and update of rows\<close>

definition modify_stmt :: "string \<Rightarrow> env \<Rightarrow> handle \<Rightarrow> (database \<Rightarrow> database) \<Rightarrow> (world, unit) prog" where
  "modify_stmt msg e h f = wrapP msg (stmt e h (\<lambda>n d. Inr ((), f d)))"

lemma modify_stmt_Tx_Ok_iff [outcome_simps]:
  "modify_stmt msg e Tx f w = (Ok r, t) \<longleftrightarrow>
     (\<exists>d. env_fault e (clk w) = None \<and> tx w = Some d \<and> t = (tick w)\<lparr>tx := Some (f d)\<rparr>)"
  by (auto simp: modify_stmt_def outcome_simps)

lemma modify_stmt_Pool_Ok_iff [outcome_simps]:
  "modify_stmt msg e Pool f w = (Ok r, t) \<longleftrightarrow>
     (env_fault e (clk w) = None \<and> t = (tick w)\<lparr>db := f (db w), tx := map_option f (tx w)\<rparr>)"
proof -
  have "apply_stmt (\<lambda>n d. Inr ((), f d)) n = f" for n
    by (rule ext) (simp add: apply_stmt_def)
  then show ?thesis
    by (auto simp: modify_stmt_def outcome_simps)
qed

lemma frame_db_modify_Tx [frame_intros]: "frame db (modify_stmt msg e Tx f)"
  unfolding modify_stmt_def by (intro frame_intros)

lemma keeps_modify_stmt:
  assumes "\<And>d. P d \<Longrightarrow> P (f d)"
  shows "keeps (on_dbs P) (modify_stmt msg e h f)"
  unfolding modify_stmt_def by (rule keeps_wrapP, rule keeps_stmt) (auto intro: assms)

end
