(* ===== verification/Go_Strings.thy ===== *)
theory Go_Strings
  imports Prelude "HOL-Library.Sublist"
begin

text \<open>
  The functions of Go's \<open>strings\<close>, \<open>strconv\<close> and \<open>fmt\<close> packages that the repository calls, on
  byte strings.  Case mapping and white space are those of ASCII; bytes from 128 on are left alone,
  so the functions agree with Go on ASCII text.
\<close>

section \<open>Characters\<close>

definition code :: "char \<Rightarrow> nat" where
  "code c = of_char c"

definition is_space :: "char \<Rightarrow> bool" where
  "is_space c \<longleftrightarrow> code c = 32 \<or> (9 \<le> code c \<and> code c \<le> 13)"

definition is_digit :: "char \<Rightarrow> bool" where
  "is_digit c \<longleftrightarrow> 48 \<le> code c \<and> code c \<le> 57"

definition is_upper :: "char \<Rightarrow> bool" where
  "is_upper c \<longleftrightarrow> 65 \<le> code c \<and> code c \<le> 90"

definition is_lower :: "char \<Rightarrow> bool" where
  "is_lower c \<longleftrightarrow> 97 \<le> code c \<and> code c \<le> 122"

definition lower_char :: "char \<Rightarrow> char" where
  "lower_char c = (if is_upper c then char_of (code c + 32) else c)"

definition upper_char :: "char \<Rightarrow> char" where
  "upper_char c = (if is_lower c then char_of (code c - 32) else c)"

lemma code_char_of: "n < 256 \<Longrightarrow> code (char_of n) = n"
  by (simp add: code_def)

lemma code_less [simp]: "code c < 256"
  by (simp add: code_def of_char_def)

lemma char_of_code [simp]: "char_of (code c) = c"
  by (simp add: code_def)

lemma code_inject [simp]: "code c = code d \<longleftrightarrow> c = d"
  by (metis char_of_code)

lemma lower_char_idem [simp]: "lower_char (lower_char c) = lower_char c"
  by (auto simp: lower_char_def is_upper_def code_char_of)

lemma is_space_lower [simp]: "is_space (lower_char c) \<longleftrightarrow> is_space c"
  by (auto simp: lower_char_def is_space_def is_upper_def code_char_of)

section \<open>Package \<open>strings\<close>\<close>

definition strings_ToLower :: "string \<Rightarrow> string" where
  "strings_ToLower s = map lower_char s"

definition strings_ToUpper :: "string \<Rightarrow> string" where
  "strings_ToUpper s = map upper_char s"

definition trim_left :: "(char \<Rightarrow> bool) \<Rightarrow> string \<Rightarrow> string" where
  "trim_left p s = dropWhile p s"

definition trim_right :: "(char \<Rightarrow> bool) \<Rightarrow> string \<Rightarrow> string" where
  "trim_right p s = rev (dropWhile p (rev s))"

definition strings_TrimSpace :: "string \<Rightarrow> string" where
  "strings_TrimSpace s = trim_right is_space (trim_left is_space s)"

definition strings_HasPrefix :: "string \<Rightarrow> string \<Rightarrow> bool" where
  "strings_HasPrefix s p = prefix p s"

definition strings_HasSuffix :: "string \<Rightarrow> string \<Rightarrow> bool" where
  "strings_HasSuffix s p = suffix p s"

text \<open>\<open>strings.Split\<close> with a separator of one character.\<close>

fun split_char :: "char \<Rightarrow> string \<Rightarrow> string list" where
  "split_char c [] = [[]]"
| "split_char c (x # xs) =
     (if x = c then [] # split_char c xs
      else (case split_char c xs of [] \<Rightarrow> [[x]] | y # ys \<Rightarrow> (x # y) # ys))"

fun strings_Join :: "string list \<Rightarrow> string \<Rightarrow> string" where
  "strings_Join [] sep = []"
| "strings_Join [x] sep = x"
| "strings_Join (x # y # ys) sep = x @ sep @ strings_Join (y # ys) sep"

lemma split_char_not_Nil [simp]: "split_char c s \<noteq> []"
  by (cases s) (auto split: list.splits)

lemma split_char_none: "c \<notin> set s \<Longrightarrow> split_char c s = [s]"
  by (induction s) auto

lemma split_char_append:
  "c \<notin> set s \<Longrightarrow> split_char c (s @ c # t) = s # split_char c t"
  by (induction s) auto

lemma split_char_parts: "x \<in> set (split_char c s) \<Longrightarrow> c \<notin> set x"
  by (induction s arbitrary: x) (auto split: list.splits if_splits)

text \<open>Joining the parts with the separator gives the text back, and splitting a joined text of
  parts without the separator gives the parts back.\<close>

lemma join_split_char: "strings_Join (split_char c s) [c] = s"
proof (induction s)
  case (Cons x xs)
  then show ?case
  proof (cases "split_char c xs")
    case (Cons y ys)
    with Cons.IH show ?thesis by (cases ys) auto
  qed simp
qed simp

lemma split_char_join:
  "\<lbrakk>ys \<noteq> []; \<forall>y \<in> set ys. c \<notin> set y\<rbrakk> \<Longrightarrow> split_char c (strings_Join ys [c]) = ys"
proof (induction ys "[c]" rule: strings_Join.induct)
  case (3 x y ys)
  then show ?case by (simp add: split_char_append)
qed (auto simp: split_char_none)

lemma strings_ToLower_idem [simp]: "strings_ToLower (strings_ToLower s) = strings_ToLower s"
  by (simp add: strings_ToLower_def)

lemma trim_left_map_lower: "trim_left is_space (map lower_char s) = map lower_char (trim_left is_space s)"
  unfolding trim_left_def by (induction s) auto

lemma trim_right_map_lower: "trim_right is_space (map lower_char s) = map lower_char (trim_right is_space s)"
  unfolding trim_right_def
  by (simp add: rev_map trim_left_map_lower [unfolded trim_left_def])

lemma TrimSpace_ToLower: "strings_TrimSpace (strings_ToLower s) = strings_ToLower (strings_TrimSpace s)"
  by (simp add: strings_TrimSpace_def strings_ToLower_def trim_left_map_lower trim_right_map_lower)

lemma trim_left_idem [simp]: "trim_left p (trim_left p s) = trim_left p s"
  unfolding trim_left_def by (induction s) auto

lemma trim_left_hd: "trim_left p s = [] \<or> \<not> p (hd (trim_left p s))"
  unfolding trim_left_def by (induction s) auto

lemma trim_left_id: "s = [] \<or> \<not> p (hd s) \<Longrightarrow> trim_left p s = s"
  unfolding trim_left_def by (cases s) auto

lemma trim_right_rev: "trim_right p s = rev (trim_left p (rev s))"
  by (simp add: trim_right_def trim_left_def)

lemma trim_left_Nil_iff: "trim_left p s = [] \<longleftrightarrow> (\<forall>c \<in> set s. p c)"
  by (simp add: trim_left_def)

lemma trim_right_hd: "trim_right p s \<noteq> [] \<Longrightarrow> hd (trim_right p s) = hd s"
proof -
  obtain u where u: "s = trim_right p s @ u"
    unfolding trim_right_def
    by (metis dropWhile_eq_drop rev_rev_ident takeWhile_dropWhile_id rev_append)
  assume "trim_right p s \<noteq> []"
  with u show ?thesis by (metis hd_append2)
qed

lemma TrimSpace_hd: "strings_TrimSpace s = [] \<or> \<not> is_space (hd (strings_TrimSpace s))"
proof (cases "strings_TrimSpace s = []")
  case False
  then have ne: "trim_left is_space s \<noteq> []"
    by (auto simp: strings_TrimSpace_def trim_right_def)
  have "hd (strings_TrimSpace s) = hd (trim_left is_space s)"
    using False unfolding strings_TrimSpace_def by (rule trim_right_hd)
  moreover have "\<not> is_space (hd (trim_left is_space s))"
    using ne trim_left_hd [of is_space s] by blast
  ultimately show ?thesis by simp
qed simp

lemma TrimSpace_last: "strings_TrimSpace s = [] \<or> \<not> is_space (last (strings_TrimSpace s))"
  using trim_left_hd [of is_space "rev (trim_left is_space s)"]
  by (auto simp: strings_TrimSpace_def trim_right_rev last_rev)

lemma TrimSpace_idem [simp]: "strings_TrimSpace (strings_TrimSpace s) = strings_TrimSpace s"
proof -
  have "trim_left is_space (strings_TrimSpace s) = strings_TrimSpace s"
    using TrimSpace_hd [of s] by (rule trim_left_id)
  then have "strings_TrimSpace (strings_TrimSpace s) = trim_right is_space (strings_TrimSpace s)"
    by (simp add: strings_TrimSpace_def)
  also have "\<dots> = strings_TrimSpace s"
    by (simp add: strings_TrimSpace_def trim_right_rev)
  finally show ?thesis .
qed

section \<open>Decimal numbers\<close>

definition digit_char :: "nat \<Rightarrow> char" where
  "digit_char n = char_of (48 + n)"

definition digit_val :: "char \<Rightarrow> nat" where
  "digit_val c = code c - 48"

fun show_nat :: "nat \<Rightarrow> string" where
  "show_nat n = (if n < 10 then [digit_char n] else show_nat (n div 10) @ [digit_char (n mod 10)])"

declare show_nat.simps [simp del]

definition show_int :: "int \<Rightarrow> string" where
  "show_int i = (if i < 0 then CHR ''-'' # show_nat (nat (- i)) else show_nat (nat i))"

definition read_nat :: "string \<Rightarrow> nat" where
  "read_nat s = foldl (\<lambda>a c. 10 * a + digit_val c) 0 s"

lemma digit_char_props [simp]:
  "n < 10 \<Longrightarrow> is_digit (digit_char n)" "n < 10 \<Longrightarrow> digit_val (digit_char n) = n"
  by (simp_all add: is_digit_def digit_char_def digit_val_def code_char_of)

lemma show_nat_not_Nil [simp]: "show_nat n \<noteq> []"
  by (subst show_nat.simps) simp

lemma show_nat_digits: "c \<in> set (show_nat n) \<Longrightarrow> is_digit c"
proof (induction n rule: show_nat.induct)
  case (1 n)
  then show ?case by (cases "n < 10") (auto simp: show_nat.simps [of n])
qed

lemma read_show_nat [simp]: "read_nat (show_nat n) = n"
proof (induction n rule: show_nat.induct)
  case (1 n)
  then show ?case
    by (cases "n < 10") (auto simp: show_nat.simps [of n] read_nat_def)
qed

text \<open>\<open>strconv.ParseUint(s, 10, bits)\<close>: digits only, in range.\<close>

definition ParseUint10 :: "string \<Rightarrow> nat \<Rightarrow> nat option" where
  "ParseUint10 s bits =
     (if s \<noteq> [] \<and> (\<forall>c \<in> set s. is_digit c) \<and> read_nat s < 2 ^ bits then Some (read_nat s) else None)"

text \<open>\<open>strconv.Atoi\<close> on a 64-bit platform: an optional sign and digits, in range.\<close>

definition Atoi :: "string \<Rightarrow> int option" where
  "Atoi s = (let neg = (s \<noteq> [] \<and> hd s = CHR ''-'');
                 t = (if s \<noteq> [] \<and> (hd s = CHR ''-'' \<or> hd s = CHR ''+'') then tl s else s)
             in if t \<noteq> [] \<and> (\<forall>c \<in> set t. is_digit c)
                then (let v = (if neg then - int (read_nat t) else int (read_nat t))
                      in if - (2 ^ 63) \<le> v \<and> v < 2 ^ 63 then Some v else None)
                else None)"

lemma ParseUint10_show: "n < 2 ^ bits \<Longrightarrow> ParseUint10 (show_nat n) bits = Some n"
  using show_nat_digits by (auto simp: ParseUint10_def)

lemma ParseUint10_bound: "ParseUint10 s bits = Some n \<Longrightarrow> n < 2 ^ bits"
  by (auto simp: ParseUint10_def split: if_splits)

lemma hd_show_nat_digit: "is_digit (hd (show_nat n))"
  using show_nat_digits [of "hd (show_nat n)" n] by simp

lemma Atoi_show_int:
  assumes "- (2 ^ 63) \<le> i" and "i < 2 ^ 63"
  shows "Atoi (show_int i) = Some i"
proof -
  have ns: "hd (show_nat n) \<noteq> CHR ''-'' \<and> hd (show_nat n) \<noteq> CHR ''+''" for n
    using hd_show_nat_digit [of n] by (auto simp: is_digit_def code_def)
  show ?thesis
    using assms ns show_nat_digits
    by (auto simp: Atoi_def show_int_def Let_def)
qed

section \<open>\<open>fmt.Sscanf\<close>\<close>

text \<open>
  The scanner for \<open>%d\<close>: spaces are skipped (a newline is an error), then an optional sign for a
  signed target, then digits; what follows the last verb is not looked at.
\<close>

definition scan_spaces :: "string \<Rightarrow> string" where
  "scan_spaces s = dropWhile (\<lambda>c. is_space c \<and> code c \<noteq> 10) s"

definition scan_uint :: "nat \<Rightarrow> string \<Rightarrow> (nat \<times> string) option" where
  "scan_uint bits s =
     (let s1 = scan_spaces s; ds = takeWhile is_digit s1 in
      if ds = [] \<or> \<not> read_nat ds < 2 ^ bits then None
      else Some (read_nat ds, dropWhile is_digit s1))"

definition scan_int :: "string \<Rightarrow> (int \<times> string) option" where
  "scan_int s =
     (let s1 = scan_spaces s;
          neg = (s1 \<noteq> [] \<and> hd s1 = CHR ''-'');
          s2 = (if s1 \<noteq> [] \<and> (hd s1 = CHR ''-'' \<or> hd s1 = CHR ''+'') then tl s1 else s1);
          ds = takeWhile is_digit s2;
          v = (if neg then - int (read_nat ds) else int (read_nat ds)) in
      if ds = [] \<or> \<not> (- (2 ^ 63) \<le> v \<and> v < 2 ^ 63) then None
      else Some (v, dropWhile is_digit s2))"

definition scan_lit :: "string \<Rightarrow> string \<Rightarrow> string option" where
  "scan_lit lit s = (if prefix lit s then Some (drop (length lit) s) else None)"

lemma scan_lit_append [simp]: "scan_lit lit (lit @ s) = Some s"
  by (simp add: scan_lit_def)

lemma digit_not_space: "is_digit c \<Longrightarrow> \<not> is_space c"
  by (auto simp: is_digit_def is_space_def)

lemma scan_spaces_show: "scan_spaces (show_nat n @ s) = show_nat n @ s"
proof -
  obtain c cs where c: "show_nat n = c # cs" "is_digit c"
    using hd_show_nat_digit [of n] by (cases "show_nat n") auto
  then show ?thesis by (simp add: scan_spaces_def digit_not_space)
qed

lemma take_digits_show:
  assumes "s = [] \<or> \<not> is_digit (hd s)"
  shows "takeWhile is_digit (show_nat n @ s) = show_nat n" "dropWhile is_digit (show_nat n @ s) = s"
  using assms show_nat_digits
  by (auto simp: takeWhile_append dropWhile_append takeWhile_eq_Nil_iff intro: dropWhile_eq_Nil_conv)
     (cases s; simp)+

lemma scan_uint_show:
  assumes "n < 2 ^ bits" and "s = [] \<or> \<not> is_digit (hd s)"
  shows "scan_uint bits (show_nat n @ s) = Some (n, s)"
  using assms by (simp add: scan_uint_def scan_spaces_show take_digits_show)

lemma scan_int_show:
  assumes "n < 2 ^ 63" and "s = [] \<or> \<not> is_digit (hd s)"
  shows "scan_int (show_nat n @ s) = Some (int n, s)"
proof -
  have "hd (show_nat n @ s) \<noteq> CHR ''-'' \<and> hd (show_nat n @ s) \<noteq> CHR ''+''"
    using hd_show_nat_digit [of n] by (auto simp: is_digit_def code_def hd_append)
  moreover have "int n < 2 ^ 63"
    using assms(1) by (metis of_nat_less_iff of_nat_numeral of_nat_power)
  ultimately show ?thesis
    using assms by (simp add: scan_int_def scan_spaces_show take_digits_show Let_def)
qed

end
