(* ===== verification/Auth_Data.thy ===== *)
theory Auth_Data
  imports Models Go_Strings
begin

text \<open>
  The data the authentication service exchanges: internal/data/dto/users.go,
  internal/data/mapper/users.go, the errors of internal/api/httperrors/auth.go, the \<open>AuthServer\<close>
  part of the configuration, and the inserts and deletes of the token tables (internal/models).
\<close>

section \<open>Errors\<close>

definition NewHTTPError :: "int \<Rightarrow> string \<Rightarrow> string \<Rightarrow> go_error" where
  "NewHTTPError c errorType title = HTTPError c errorType title [] None []"

definition NewHTTPErrorWithDetail :: "int \<Rightarrow> string \<Rightarrow> string \<Rightarrow> string \<Rightarrow> go_error" where
  "NewHTTPErrorWithDetail c errorType title detail = HTTPError c errorType title detail None []"

definition ErrForbiddenUserDeactivated :: go_error where
  "ErrForbiddenUserDeactivated = NewHTTPError 403 ''USER_DEACTIVATED'' ''User account is deactivated''"

definition ErrBadRequestInvalidPassword :: go_error where
  "ErrBadRequestInvalidPassword = NewHTTPErrorWithDetail 400 ''INVALID_PASSWORD''
     ''The password provided was invalid'' ''Password was either too weak or did not match other criteria''"

definition ErrForbiddenNotLocalUser :: go_error where
  "ErrForbiddenNotLocalUser = NewHTTPError 403 ''NOT_LOCAL_USER''
     ''User account is not valid for local authentication''"

definition ErrNotFoundTokenNotFound :: go_error where
  "ErrNotFoundTokenNotFound = NewHTTPError 404 ''TOKEN_NOT_FOUND'' ''Provided token was not found''"

definition ErrConflictTokenExpired :: go_error where
  "ErrConflictTokenExpired = NewHTTPError 409 ''TOKEN_EXPIRED''
     ''Provided token has expired and is no longer valid''"

definition ErrConflictUserAlreadyExists :: go_error where
  "ErrConflictUserAlreadyExists = NewHTTPError 409 ''USER_ALREADY_EXISTS''
     ''User with given username already exists''"

text \<open>The error values of echo the services return.\<close>

definition echo_ErrUnauthorized :: go_error where
  "echo_ErrUnauthorized = EchoHTTPError 401 (MsgString ''Unauthorized'') None"

definition ErrNotFound :: go_error where
  "ErrNotFound = ErrPlain ''not found''"

section \<open>Configuration\<close>

record auth_config =
  ac_access_token_validity :: duration
  ac_password_reset_token_validity :: duration
  ac_password_reset_token_debounce :: duration
  ac_password_reset_token_reuse :: duration
  ac_default_user_scopes :: "string list"
  ac_last_authenticated_at_threshold :: duration
  ac_registration_requires_confirmation :: bool
  ac_confirmation_token_validity :: duration
  ac_confirmation_token_debounce :: duration

text \<open>\<open>int64(d.Seconds())\<close>: whole seconds, truncated towards zero.\<close>

definition duration_seconds :: "duration \<Rightarrow> int" where
  "duration_seconds d = sgn d * (\<bar>d\<bar> div second)"

section \<open>Data transfer objects\<close>

record dto_profile =
  dp_user_id :: uuid
  dp_legal_accepted_at :: "time option"
  dp_updated_at :: time

record dto_user =
  du_id :: uuid
  du_username :: "string option"
  du_password_hash :: "string option"
  du_is_active :: bool
  du_scopes :: "string list"
  du_last_authenticated_at :: "time option"
  du_updated_at :: time
  du_profile :: "dto_profile option"

record update_password_request =
  up_user :: dto_user
  up_current_password :: string
  up_skip_current_password_verification :: bool
  up_new_password :: string

record register_result =
  rr_requires_confirmation :: bool
  rr_confirmation_token :: "string option"

record login_result =
  lr_user_id :: string
  lr_access_token :: string
  lr_expires_in :: int
  lr_refresh_token :: string
  lr_token_type :: string

definition empty_login_result :: login_result where
  "empty_login_result = \<lparr>lr_user_id = [], lr_access_token = [], lr_expires_in = 0,
     lr_refresh_token = [], lr_token_type = []\<rparr>"

text \<open>\<open>Username.String()\<close> is \<open>util.ToUsernameFormat\<close>: lower case without surrounding white space.\<close>

definition ToUsernameFormat :: "string \<Rightarrow> string" where
  "ToUsernameFormat s = strings_TrimSpace (strings_ToLower s)"

definition LastUpdatedAt :: "dto_user \<Rightarrow> time" where
  "LastUpdatedAt u = (case du_profile u of
      Some p \<Rightarrow> if dp_updated_at p > du_updated_at u then dp_updated_at p else du_updated_at u
    | None \<Rightarrow> du_updated_at u)"

definition ToModels :: "dto_user \<Rightarrow> user_row" where
  "ToModels u = \<lparr>usr_id = du_id u, usr_username = du_username u, usr_password = du_password_hash u,
     usr_is_active = du_is_active u, usr_scopes = du_scopes u,
     usr_last_authenticated_at = du_last_authenticated_at u,
     usr_created_at = zero_time, usr_updated_at = zero_time, usr_requires_confirmation = False\<rparr>"

definition LocalAppUserProfileToDTO :: "app_user_profile_row \<Rightarrow> dto_profile" where
  "LocalAppUserProfileToDTO p = \<lparr>dp_user_id = aup_user_id p,
     dp_legal_accepted_at = aup_legal_accepted_at p, dp_updated_at = aup_updated_at p\<rparr>"

text \<open>The second argument is the eagerly loaded relation \<open>user.R.AppUserProfile\<close>, if any.\<close>

definition LocalUserToDTO :: "user_row \<Rightarrow> app_user_profile_row option \<Rightarrow> dto_user" where
  "LocalUserToDTO u profile = \<lparr>du_id = usr_id u, du_username = usr_username u,
     du_password_hash = usr_password u, du_is_active = usr_is_active u, du_scopes = usr_scopes u,
     du_last_authenticated_at = usr_last_authenticated_at u, du_updated_at = usr_updated_at u,
     du_profile = map_option LocalAppUserProfileToDTO profile\<rparr>"

lemma LocalUserToDTO_simps [simp]:
  "du_id (LocalUserToDTO u p) = usr_id u" "du_is_active (LocalUserToDTO u p) = usr_is_active u"
  "du_password_hash (LocalUserToDTO u p) = usr_password u" "du_scopes (LocalUserToDTO u p) = usr_scopes u"
  "du_last_authenticated_at (LocalUserToDTO u p) = usr_last_authenticated_at u"
  by (simp_all add: LocalUserToDTO_def)

lemma LastUpdatedAt_max:
  "LastUpdatedAt u = (case du_profile u of None \<Rightarrow> du_updated_at u
                      | Some p \<Rightarrow> max (dp_updated_at p) (du_updated_at u))"
  by (auto simp: LastUpdatedAt_def max_def split: option.split)

section \<open>Inserts\<close>

definition default_time :: "time \<Rightarrow> time \<Rightarrow> time" where
  "default_time now t = (if t = zero_time then now else t)"

definition default_id :: "uuid \<Rightarrow> uuid \<Rightarrow> uuid" where
  "default_id g i = (if i = [] then g else i)"

definition has_user :: "database \<Rightarrow> uuid \<Rightarrow> bool" where
  "has_user d i \<longleftrightarrow> (\<exists>u \<in> set (users d). usr_id u = i)"

definition user_insert :: "env \<Rightarrow> handle \<Rightarrow> user_row \<Rightarrow> (world, user_row) prog" where
  "user_insert e h u = bindP (sys_now e) (\<lambda>now.
     insert_stmt ''users'' e h
       (\<lambda>n. u\<lparr>usr_id := default_id (env_uuid e n) (usr_id u),
              usr_created_at := default_time now (usr_created_at u),
              usr_updated_at := default_time now (usr_updated_at u)\<rparr>)
       (\<lambda>r d. [(case usr_username r of None \<Rightarrow> False | Some s \<Rightarrow> char_length s > 255, too_long),
               (has_user d (usr_id r), unique_violation ''users_pkey''),
               (usr_username r \<noteq> None \<and> (\<exists>v \<in> set (users d). usr_username v = usr_username r),
                  unique_violation ''users_username_key'')])
       (\<lambda>r d. d\<lparr>users := users d @ [r]\<rparr>))"

definition app_user_profile_insert :: "env \<Rightarrow> handle \<Rightarrow> app_user_profile_row \<Rightarrow> (world, app_user_profile_row) prog" where
  "app_user_profile_insert e h p = bindP (sys_now e) (\<lambda>now.
     insert_stmt ''app_user_profiles'' e h
       (\<lambda>n. p\<lparr>aup_created_at := default_time now (aup_created_at p),
              aup_updated_at := default_time now (aup_updated_at p)\<rparr>)
       (\<lambda>r d. [(\<exists>q \<in> set (app_user_profiles d). aup_user_id q = aup_user_id r,
                  unique_violation ''app_user_profiles_pkey''),
               (\<not> has_user d (aup_user_id r), fk_violation ''app_user_profiles_user_id_fkey'')])
       (\<lambda>r d. d\<lparr>app_user_profiles := app_user_profiles d @ [r]\<rparr>))"

definition access_token_insert :: "env \<Rightarrow> handle \<Rightarrow> access_token_row \<Rightarrow> (world, access_token_row) prog" where
  "access_token_insert e h k = bindP (sys_now e) (\<lambda>now.
     insert_stmt ''access_tokens'' e h
       (\<lambda>n. k\<lparr>atk_token := default_id (env_uuid e n) (atk_token k),
              atk_created_at := default_time now (atk_created_at k),
              atk_updated_at := default_time now (atk_updated_at k)\<rparr>)
       (\<lambda>r d. [(\<exists>q \<in> set (access_tokens d). atk_token q = atk_token r, unique_violation ''access_tokens_pkey''),
               (\<not> has_user d (atk_user_id r), fk_violation ''access_tokens_user_id_fkey'')])
       (\<lambda>r d. d\<lparr>access_tokens := access_tokens d @ [r]\<rparr>))"

definition refresh_token_insert :: "env \<Rightarrow> handle \<Rightarrow> refresh_token_row \<Rightarrow> (world, refresh_token_row) prog" where
  "refresh_token_insert e h k = bindP (sys_now e) (\<lambda>now.
     insert_stmt ''refresh_tokens'' e h
       (\<lambda>n. k\<lparr>rtk_token := default_id (env_uuid e n) (rtk_token k),
              rtk_created_at := default_time now (rtk_created_at k),
              rtk_updated_at := default_time now (rtk_updated_at k)\<rparr>)
       (\<lambda>r d. [(\<exists>q \<in> set (refresh_tokens d). rtk_token q = rtk_token r, unique_violation ''refresh_tokens_pkey''),
               (\<not> has_user d (rtk_user_id r), fk_violation ''refresh_tokens_user_id_fkey'')])
       (\<lambda>r d. d\<lparr>refresh_tokens := refresh_tokens d @ [r]\<rparr>))"

definition password_reset_token_insert ::
    "env \<Rightarrow> handle \<Rightarrow> password_reset_token_row \<Rightarrow> (world, password_reset_token_row) prog" where
  "password_reset_token_insert e h k = bindP (sys_now e) (\<lambda>now.
     insert_stmt ''password_reset_tokens'' e h
       (\<lambda>n. k\<lparr>prt_token := default_id (env_uuid e n) (prt_token k),
              prt_created_at := default_time now (prt_created_at k),
              prt_updated_at := default_time now (prt_updated_at k)\<rparr>)
       (\<lambda>r d. [(\<exists>q \<in> set (password_reset_tokens d). prt_token q = prt_token r,
                  unique_violation ''password_reset_tokens_pkey''),
               (\<not> has_user d (prt_user_id r), fk_violation ''password_reset_tokens_user_id_fkey'')])
       (\<lambda>r d. d\<lparr>password_reset_tokens := password_reset_tokens d @ [r]\<rparr>))"

definition confirmation_token_insert ::
    "env \<Rightarrow> handle \<Rightarrow> confirmation_token_row \<Rightarrow> (world, confirmation_token_row) prog" where
  "confirmation_token_insert e h k = bindP (sys_now e) (\<lambda>now.
     insert_stmt ''confirmation_tokens'' e h
       (\<lambda>n. k\<lparr>ctk_token := default_id (env_uuid e n) (ctk_token k),
              ctk_created_at := default_time now (ctk_created_at k),
              ctk_updated_at := default_time now (ctk_updated_at k)\<rparr>)
       (\<lambda>r d. [(\<exists>q \<in> set (confirmation_tokens d). ctk_token q = ctk_token r,
                  unique_violation ''confirmation_tokens_pkey''),
               (\<not> has_user d (ctk_user_id r), fk_violation ''confirmation_tokens_user_id_fkey'')])
       (\<lambda>r d. d\<lparr>confirmation_tokens := confirmation_tokens d @ [r]\<rparr>))"

lemmas insert_defs = user_insert_def app_user_profile_insert_def access_token_insert_def
  refresh_token_insert_def password_reset_token_insert_def confirmation_token_insert_def

lemma frame_db_inserts_Tx [frame_intros]:
  "frame db (user_insert e Tx u)" "frame db (app_user_profile_insert e Tx p)"
  "frame db (access_token_insert e Tx a)" "frame db (refresh_token_insert e Tx r)"
  "frame db (password_reset_token_insert e Tx q)" "frame db (confirmation_token_insert e Tx c)"
  unfolding insert_defs by (auto intro!: frame_intros)

section \<open>Deletion of users\<close>

text \<open>
  Deleting a user cascades to the tables that reference \<open>users\<close> with \<open>ON DELETE CASCADE\<close>
  (profiles, the token tables, push tokens, organization memberships, passkeys).  The references of
  \<open>organizations.owner_id\<close>, \<open>signing_requests.initiator_id\<close> and \<open>approvals.user_id\<close> have no action,
  so the statement fails while one of them exists.  (\<open>address_book\<close> and \<open>audit_logs\<close>, which no code
  writes, are not modelled.)
\<close>

definition cascade_delete_user :: "uuid \<Rightarrow> database \<Rightarrow> database" where
  "cascade_delete_user i d = d\<lparr>
     users := filter (\<lambda>r. usr_id r \<noteq> i) (users d),
     app_user_profiles := filter (\<lambda>r. aup_user_id r \<noteq> i) (app_user_profiles d),
     access_tokens := filter (\<lambda>r. atk_user_id r \<noteq> i) (access_tokens d),
     refresh_tokens := filter (\<lambda>r. rtk_user_id r \<noteq> i) (refresh_tokens d),
     password_reset_tokens := filter (\<lambda>r. prt_user_id r \<noteq> i) (password_reset_tokens d),
     confirmation_tokens := filter (\<lambda>r. ctk_user_id r \<noteq> i) (confirmation_tokens d),
     push_tokens := filter (\<lambda>r. ptk_user_id r \<noteq> i) (push_tokens d),
     organization_members := filter (\<lambda>r. mem_user_id r \<noteq> i) (organization_members d),
     user_credentials := filter (\<lambda>r. ucr_user_id r \<noteq> i) (user_credentials d)\<rparr>"

definition user_delete_checks :: "uuid \<Rightarrow> database \<Rightarrow> (bool \<times> go_error) list" where
  "user_delete_checks i d = (if has_user d i then
     [(\<exists>r \<in> set (organizations d). org_owner_id r = i, fk_violation ''organizations_owner_id_fkey''),
      (\<exists>r \<in> set (signing_requests d). srq_initiator_id r = Some i, fk_violation ''signing_requests_initiator_id_fkey''),
      (\<exists>r \<in> set (approvals d). apv_user_id r = Some i, fk_violation ''approvals_user_id_fkey'')]
     else [])"

definition users_delete_all :: "env \<Rightarrow> handle \<Rightarrow> uuid \<Rightarrow> (world, unit) prog" where
  "users_delete_all e h i = wrapP ''models: unable to delete all from users''
     (stmt e h (\<lambda>n d. case first_error (user_delete_checks i d) of
          Some x \<Rightarrow> Inl x
        | None \<Rightarrow> Inr ((), cascade_delete_user i d)))"

lemma users_delete_all_Ok_iff [outcome_simps]:
  "users_delete_all e Tx i w = (Ok r, t) \<longleftrightarrow>
     (\<exists>d. env_fault e (clk w) = None \<and> tx w = Some d \<and> first_error (user_delete_checks i d) = None \<and>
        t = (tick w)\<lparr>tx := Some (cascade_delete_user i d)\<rparr>)"
  by (auto simp: users_delete_all_def outcome_simps split: option.splits)

lemma frame_db_users_delete_all [frame_intros]: "frame db (users_delete_all e Tx i)"
  unfolding users_delete_all_def by (intro frame_intros)

section \<open>Invariant of the user tables\<close>

definition table_ok :: "uuid set \<Rightarrow> ('r \<Rightarrow> uuid) \<Rightarrow> ('r \<Rightarrow> uuid) \<Rightarrow> 'r list \<Rightarrow> bool" where
  "table_ok ids key owner rows \<longleftrightarrow> distinct (map key rows) \<and> (\<forall>r \<in> set rows. owner r \<in> ids)"

lemma table_ok_Nil [simp]: "table_ok ids key owner []"
  by (simp add: table_ok_def)

lemma table_ok_append:
  "table_ok ids key owner rows \<Longrightarrow> \<forall>q \<in> set rows. key q \<noteq> key r \<Longrightarrow> owner r \<in> ids \<Longrightarrow>
    table_ok ids key owner (rows @ [r])"
  by (auto simp: table_ok_def)

lemma table_ok_filter: "table_ok ids key owner rows \<Longrightarrow> table_ok ids key owner (filter p rows)"
  by (auto simp: table_ok_def distinct_map_filter_key)

lemma table_ok_mono: "table_ok ids key owner rows \<Longrightarrow> ids \<subseteq> ids' \<Longrightarrow> table_ok ids' key owner rows"
  by (auto simp: table_ok_def)

lemma table_ok_filter_owner:
  "table_ok ids key owner rows \<Longrightarrow> table_ok (ids - {i}) key owner (filter (\<lambda>r. owner r \<noteq> i) rows)"
  by (auto simp: table_ok_def distinct_map_filter_key)

definition user_ids :: "database \<Rightarrow> uuid set" where
  "user_ids d = usr_id ` set (users d)"

lemma has_user_iff: "has_user d i \<longleftrightarrow> i \<in> user_ids d"
  by (auto simp: has_user_def user_ids_def)

definition users_ok :: "user_row list \<Rightarrow> bool" where
  "users_ok us \<longleftrightarrow> distinct (map usr_id us) \<and>
     distinct (map usr_username (filter (\<lambda>u. usr_username u \<noteq> None) us))"

lemma users_ok_filter:
  assumes "users_ok us"
  shows "users_ok (filter p us)"
proof -
  have "filter q (filter p us) = filter p (filter q us)" for q
    by (simp add: conj_commute)
  then show ?thesis
    using assms unfolding users_ok_def by (metis distinct_map_filter_key)
qed

definition auth_ok :: "database \<Rightarrow> bool" where
  "auth_ok d \<longleftrightarrow> users_ok (users d) \<and>
     table_ok (user_ids d) aup_user_id aup_user_id (app_user_profiles d) \<and>
     table_ok (user_ids d) atk_token atk_user_id (access_tokens d) \<and>
     table_ok (user_ids d) rtk_token rtk_user_id (refresh_tokens d) \<and>
     table_ok (user_ids d) prt_token prt_user_id (password_reset_tokens d) \<and>
     table_ok (user_ids d) ctk_token ctk_user_id (confirmation_tokens d) \<and>
     (\<forall>r \<in> set (push_tokens d). ptk_user_id r \<in> user_ids d) \<and> distinct (map ptk_token (push_tokens d)) \<and>
     (\<forall>r \<in> set (organization_members d). mem_user_id r \<in> user_ids d) \<and>
     (\<forall>r \<in> set (organizations d). org_owner_id r \<in> user_ids d)"

lemma auth_ok_empty: "auth_ok empty_db"
  by (simp add: auth_ok_def empty_db_def users_ok_def)

lemma user_ids_simps [simp]:
  "user_ids (d\<lparr>access_tokens := a\<rparr>) = user_ids d" "user_ids (d\<lparr>refresh_tokens := b\<rparr>) = user_ids d"
  "user_ids (d\<lparr>password_reset_tokens := c\<rparr>) = user_ids d"
  "user_ids (d\<lparr>confirmation_tokens := ct\<rparr>) = user_ids d"
  "user_ids (d\<lparr>app_user_profiles := p\<rparr>) = user_ids d" "user_ids (d\<lparr>push_tokens := q\<rparr>) = user_ids d"
  "user_ids (d\<lparr>organizations := os\<rparr>) = user_ids d" "user_ids (d\<lparr>organization_members := ms\<rparr>) = user_ids d"
  "user_ids (d\<lparr>users := us\<rparr>) = usr_id ` set us"
  by (simp_all add: user_ids_def)

lemma auth_ok_token_inserts:
  assumes "auth_ok d"
  shows "\<forall>q \<in> set (access_tokens d). atk_token q \<noteq> atk_token a \<Longrightarrow> has_user d (atk_user_id a) \<Longrightarrow>
      auth_ok (d\<lparr>access_tokens := access_tokens d @ [a]\<rparr>)"
    and "\<forall>q \<in> set (refresh_tokens d). rtk_token q \<noteq> rtk_token r \<Longrightarrow> has_user d (rtk_user_id r) \<Longrightarrow>
      auth_ok (d\<lparr>refresh_tokens := refresh_tokens d @ [r]\<rparr>)"
    and "\<forall>q \<in> set (password_reset_tokens d). prt_token q \<noteq> prt_token p \<Longrightarrow> has_user d (prt_user_id p) \<Longrightarrow>
      auth_ok (d\<lparr>password_reset_tokens := password_reset_tokens d @ [p]\<rparr>)"
    and "\<forall>q \<in> set (confirmation_tokens d). ctk_token q \<noteq> ctk_token c \<Longrightarrow> has_user d (ctk_user_id c) \<Longrightarrow>
      auth_ok (d\<lparr>confirmation_tokens := confirmation_tokens d @ [c]\<rparr>)"
    and "\<forall>q \<in> set (app_user_profiles d). aup_user_id q \<noteq> aup_user_id f \<Longrightarrow> has_user d (aup_user_id f) \<Longrightarrow>
      auth_ok (d\<lparr>app_user_profiles := app_user_profiles d @ [f]\<rparr>)"
  using assms by (simp_all add: auth_ok_def has_user_iff table_ok_append)

lemma auth_ok_filters:
  assumes "auth_ok d"
  shows "auth_ok (d\<lparr>access_tokens := filter pa (access_tokens d)\<rparr>)"
    and "auth_ok (d\<lparr>refresh_tokens := filter pr (refresh_tokens d)\<rparr>)"
    and "auth_ok (d\<lparr>confirmation_tokens := filter pc (confirmation_tokens d)\<rparr>)"
  using assms by (simp_all add: auth_ok_def table_ok_filter)

lemma auth_ok_user_insert:
  assumes ok: "auth_ok d" and new: "\<not> has_user d (usr_id u)"
    and name: "usr_username u = None \<or> (\<forall>v \<in> set (users d). usr_username v \<noteq> usr_username u)"
  shows "auth_ok (d\<lparr>users := users d @ [u]\<rparr>)"
proof -
  have sub: "user_ids d \<subseteq> usr_id ` set (users d @ [u])" by (auto simp: user_ids_def)
  have "users_ok (users d @ [u])"
    using ok new name by (auto simp: auth_ok_def users_ok_def has_user_def)
  then show ?thesis
    using ok sub unfolding auth_ok_def by (auto intro: table_ok_mono)
qed

lemma auth_ok_cascade:
  assumes ok: "auth_ok d" and free: "first_error (user_delete_checks i d) = None"
  shows "auth_ok (cascade_delete_user i d)"
proof -
  have ids: "usr_id ` set (filter (\<lambda>r. usr_id r \<noteq> i) (users d)) = user_ids d - {i}"
    by (auto simp: user_ids_def)
  have own: "i \<in> user_ids d \<Longrightarrow> \<forall>r \<in> set (organizations d). org_owner_id r \<noteq> i"
    using free by (auto simp: user_delete_checks_def has_user_iff split: if_splits)
  have "users_ok (filter (\<lambda>r. usr_id r \<noteq> i) (users d))"
    using ok by (simp add: auth_ok_def users_ok_filter)
  moreover have "user_ids (cascade_delete_user i d) = user_ids d - {i}"
    using ids by (simp add: cascade_delete_user_def user_ids_def)
  ultimately show ?thesis
    using ok own unfolding auth_ok_def
    by (auto simp: cascade_delete_user_def table_ok_filter_owner distinct_map_filter_key)
qed

lemma auth_ok_update_users:
  assumes "auth_ok d" and "\<And>u. usr_id (f u) = usr_id u" and "\<And>u. usr_username (f u) = usr_username u"
  shows "auth_ok (d\<lparr>users := map f (users d)\<rparr>)"
proof -
  have ids: "usr_id ` f ` set (users d) = user_ids d"
    using assms(2) by (auto simp: user_ids_def image_image)
  have "filter (\<lambda>u. usr_username u \<noteq> None) (map f (users d)) = map f (filter (\<lambda>u. usr_username u \<noteq> None) (users d))"
    using assms(3) by (simp add: filter_map comp_def)
  then have "users_ok (map f (users d))"
    using assms by (simp add: auth_ok_def users_ok_def comp_def)
  then show ?thesis using assms(1) by (simp add: auth_ok_def ids)
qed

end
