(* ===== verification/Base64.thy ===== *)
theory Base64
  imports Go_Strings
begin

text \<open>
  \<open>encoding/base64\<close> of the standard library, as far as the repository uses it: the standard and the
  URL alphabet without padding (password hashes, WebAuthn credential ids, PKCE) and with padding
  (byte slices in JSON).  Bytes are characters.
\<close>

definition std_alphabet :: string where
  "std_alphabet = ''ABCDEFGHIJKLMNOPQRSTUVWXYZabcdefghijklmnopqrstuvwxyz0123456789+/''"

definition url_alphabet :: string where
  "url_alphabet = ''ABCDEFGHIJKLMNOPQRSTUVWXYZabcdefghijklmnopqrstuvwxyz0123456789-_''"

definition sextet_char :: "string \<Rightarrow> nat \<Rightarrow> char" where
  "sextet_char alpha i = alpha ! i"

fun index_of :: "'a \<Rightarrow> 'a list \<Rightarrow> nat option" where
  "index_of x [] = None"
| "index_of x (y # ys) = (if x = y then Some 0 else map_option Suc (index_of x ys))"

definition char_sextet :: "string \<Rightarrow> char \<Rightarrow> nat option" where
  "char_sextet alpha c = index_of c alpha"

lemma index_of_nth: "distinct xs \<Longrightarrow> i < length xs \<Longrightarrow> index_of (xs ! i) xs = Some i"
proof (induction xs arbitrary: i)
  case (Cons y ys)
  then show ?case by (cases i) auto
qed simp

lemma alphabets [simp]:
  "length std_alphabet = 64" "distinct std_alphabet" "length url_alphabet = 64" "distinct url_alphabet"
  by (simp_all add: std_alphabet_def url_alphabet_def)

section \<open>Sextets\<close>

fun to_sextets :: "nat list \<Rightarrow> nat list" where
  "to_sextets [] = []"
| "to_sextets [a] = [a div 4, a mod 4 * 16]"
| "to_sextets [a, b] = [a div 4, a mod 4 * 16 + b div 16, b mod 16 * 4]"
| "to_sextets (a # b # c # xs) =
     [a div 4, a mod 4 * 16 + b div 16, b mod 16 * 4 + c div 64, c mod 64] @ to_sextets xs"

text \<open>The decoder is not the strict one: the unused bits of the last sextet are dropped.\<close>

fun of_sextets :: "nat list \<Rightarrow> nat list option" where
  "of_sextets [] = Some []"
| "of_sextets [w] = None"
| "of_sextets [w, x] = Some [w * 4 + x div 16]"
| "of_sextets [w, x, y] = Some [w * 4 + x div 16, x mod 16 * 16 + y div 4]"
| "of_sextets (w # x # y # z # xs) =
     map_option (\<lambda>r. [w * 4 + x div 16, x mod 16 * 16 + y div 4, y mod 4 * 64 + z] @ r) (of_sextets xs)"

lemma pack_div_mod:
  fixes q r n :: nat
  assumes "q < n"
  shows "(r * n + q) div n = r" "(r * n + q) mod n = q"
  using assms by simp_all

lemma part_bounds:
  fixes a b c :: nat
  assumes "a < 256" "b < 256" "c < 256"
  shows "a div 4 < 64" "b div 16 < 16" "c div 64 < 4" "a mod 4 < 4" "b mod 16 < 16" "c mod 64 < 64"
  using assms by (simp_all add: less_mult_imp_div_less)

lemma sextet_bounds:
  fixes a b c :: nat
  assumes "a < 256" "b < 256" "c < 256"
  shows "a div 4 < 64" "a mod 4 * 16 + b div 16 < 64" "b mod 16 * 4 + c div 64 < 64" "c mod 64 < 64"
    "a mod 4 * 16 < 64" "b mod 16 * 4 < 64"
  using part_bounds [OF assms] by linarith+

lemma to_sextets_bound: "\<forall>b \<in> set bs. b < 256 \<Longrightarrow> \<forall>s \<in> set (to_sextets bs). s < 64"
proof (induction bs rule: to_sextets.induct)
  case (2 a)
  then show ?case using sextet_bounds [of a 0 0] by simp
next
  case (3 a b)
  then show ?case using sextet_bounds [of a b 0] by simp
next
  case (4 a b c xs)
  then show ?case using sextet_bounds [of a b c] by simp
qed simp

lemma sextet_arith:
  fixes a b c :: nat
  assumes "a < 256" "b < 256" "c < 256"
  shows "a div 4 * 4 + (a mod 4 * 16 + b div 16) div 16 = a"
    and "(a mod 4 * 16 + b div 16) mod 16 * 16 + (b mod 16 * 4 + c div 64) div 4 = b"
    and "(b mod 16 * 4 + c div 64) mod 4 * 64 + c mod 64 = c"
    and "a div 4 * 4 + (a mod 4 * 16) div 16 = a"
    and "(a mod 4 * 16 + b div 16) mod 16 * 16 + (b mod 16 * 4) div 4 = b"
proof -
  note p = part_bounds [OF assms]
  show "a div 4 * 4 + (a mod 4 * 16 + b div 16) div 16 = a"
    by (simp only: pack_div_mod [OF p(2)] div_mult_mod_eq)
  show "(a mod 4 * 16 + b div 16) mod 16 * 16 + (b mod 16 * 4 + c div 64) div 4 = b"
    by (simp only: pack_div_mod [OF p(2)] pack_div_mod [OF p(3)] div_mult_mod_eq)
  show "(b mod 16 * 4 + c div 64) mod 4 * 64 + c mod 64 = c"
    by (simp only: pack_div_mod [OF p(3)] div_mult_mod_eq)
  show "a div 4 * 4 + (a mod 4 * 16) div 16 = a"
    by simp
  show "(a mod 4 * 16 + b div 16) mod 16 * 16 + (b mod 16 * 4) div 4 = b"
    by (simp only: pack_div_mod [OF p(2)] nonzero_mult_div_cancel_right mult.commute [of "b mod 16" 4]
        nonzero_mult_div_cancel_left div_mult_mod_eq)
qed

lemma of_to_sextets: "\<forall>b \<in> set bs. b < 256 \<Longrightarrow> of_sextets (to_sextets bs) = Some bs"
proof (induction bs rule: to_sextets.induct)
  case (2 a)
  then show ?case using sextet_arith(4) [of a 0 0] by simp
next
  case (3 a b)
  then show ?case using sextet_arith(1) [of a b 0] sextet_arith(5) [of a b 0] by simp
next
  case (4 a b c xs)
  then show ?case using sextet_arith(1-3) [of a b c] by simp
qed simp

section \<open>Encodings\<close>

definition raw_encode :: "string \<Rightarrow> string \<Rightarrow> string" where
  "raw_encode alpha s = map (sextet_char alpha) (to_sextets (map code s))"

text \<open>The decoder skips carriage returns and newlines.\<close>

definition raw_decode :: "string \<Rightarrow> string \<Rightarrow> string option" where
  "raw_decode alpha s =
     (case those (map (char_sextet alpha) (filter (\<lambda>c. code c \<noteq> 10 \<and> code c \<noteq> 13) s)) of
        None \<Rightarrow> None
      | Some ss \<Rightarrow> map_option (map char_of) (of_sextets ss))"

definition RawStd_EncodeToString :: "string \<Rightarrow> string" where
  "RawStd_EncodeToString = raw_encode std_alphabet"

definition RawStd_DecodeString :: "string \<Rightarrow> string option" where
  "RawStd_DecodeString = raw_decode std_alphabet"

definition RawURL_EncodeToString :: "string \<Rightarrow> string" where
  "RawURL_EncodeToString = raw_encode url_alphabet"

lemma those_map_Some: "(\<forall>x \<in> set xs. f x = Some (g x)) \<Longrightarrow> those (map f xs) = Some (map g xs)"
  by (induction xs) auto

lemma sextet_chars:
  assumes "s < 64" and "alpha = std_alphabet \<or> alpha = url_alphabet"
  shows "sextet_char alpha s \<in> set alpha" and "char_sextet alpha (sextet_char alpha s) = Some s"
  using assms by (auto simp: sextet_char_def char_sextet_def index_of_nth)

lemma alphabet_chars:
  "c \<in> set std_alphabet \<Longrightarrow> code c \<noteq> 10 \<and> code c \<noteq> 13 \<and> code c \<noteq> 36"
  "c \<in> set url_alphabet \<Longrightarrow> code c \<noteq> 10 \<and> code c \<noteq> 13 \<and> code c \<noteq> 36"
  by (auto simp: std_alphabet_def url_alphabet_def code_def)

lemma raw_encode_chars:
  assumes "alpha = std_alphabet \<or> alpha = url_alphabet"
  shows "set (raw_encode alpha s) \<subseteq> set alpha"
proof -
  have "\<forall>b \<in> set (map code s). b < 256" by simp
  then show ?thesis
    using to_sextets_bound [of "map code s"] sextet_chars(1) [OF _ assms] by (auto simp: raw_encode_def)
qed

theorem raw_roundtrip:
  assumes alpha: "alpha = std_alphabet \<or> alpha = url_alphabet"
  shows "raw_decode alpha (raw_encode alpha s) = Some s"
proof -
  let ?bs = "map code s" and ?enc = "raw_encode alpha s"
  have b: "\<forall>x \<in> set ?bs. x < 256" by simp
  have "\<forall>c \<in> set ?enc. code c \<noteq> 10 \<and> code c \<noteq> 13"
    using raw_encode_chars [OF alpha] alphabet_chars alpha by blast
  then have filt: "filter (\<lambda>c. code c \<noteq> 10 \<and> code c \<noteq> 13) ?enc = ?enc" by simp
  have "those (map (char_sextet alpha) ?enc) = Some (to_sextets ?bs)"
    unfolding raw_encode_def map_map comp_def
    using those_map_Some [of "to_sextets ?bs" "\<lambda>x. char_sextet alpha (sextet_char alpha x)" "\<lambda>x. x"]
      sextet_chars(2) [OF _ alpha] to_sextets_bound [OF b] by simp
  then show ?thesis
    by (simp add: raw_decode_def filt of_to_sextets [OF b] comp_def)
qed

lemma RawStd_roundtrip [simp]: "RawStd_DecodeString (RawStd_EncodeToString s) = Some s"
  by (simp add: RawStd_DecodeString_def RawStd_EncodeToString_def raw_roundtrip)

lemma RawStd_no_dollar: "CHR ''$'' \<notin> set (RawStd_EncodeToString s)"
  using raw_encode_chars [of std_alphabet s] alphabet_chars(1) [of "CHR ''$''"]
  by (auto simp: RawStd_EncodeToString_def code_def)

section \<open>Padded standard encoding\<close>

definition Std_EncodeToString :: "string \<Rightarrow> string" where
  "Std_EncodeToString s = raw_encode std_alphabet s @ replicate ((3 - length s mod 3) mod 3) (CHR ''='')"

definition strip_padding :: "string \<Rightarrow> string" where
  "strip_padding s = (case rev s of
      c # d # r \<Rightarrow> if c = CHR ''='' then (if d = CHR ''='' then rev r else rev (d # r)) else s
    | _ \<Rightarrow> s)"

definition Std_DecodeString :: "string \<Rightarrow> string option" where
  "Std_DecodeString s =
     (let t = filter (\<lambda>c. code c \<noteq> 10 \<and> code c \<noteq> 13) s in
      if length t mod 4 \<noteq> 0 then None else raw_decode std_alphabet (strip_padding t))"

lemma raw_encode_length:
  "length (raw_encode alpha s) = 4 * (length s div 3) + (if length s mod 3 = 0 then 0 else Suc (length s mod 3))"
proof -
  have "length (to_sextets bs) = 4 * (length bs div 3) + (if length bs mod 3 = 0 then 0 else Suc (length bs mod 3))" for bs
  proof (induction bs rule: to_sextets.induct)
    case (4 a b c xs)
    have len: "length (a # b # c # xs) = 3 + length xs" by simp
    have "(3 + length xs) div 3 = Suc (length xs div 3)" "(3 + length xs) mod 3 = length xs mod 3"
      using div_add_self1 [of 3 "length xs"] by (simp_all only: mod_add_self1)
    with 4 len show ?case by simp
  qed simp_all
  then show ?thesis by (simp add: raw_encode_def)
qed

lemma std_chars_not_padding: "c \<in> set std_alphabet \<Longrightarrow> c \<noteq> CHR ''=''"
  by (auto simp: std_alphabet_def)

lemma strip_padding_replicate:
  assumes "k \<le> 2" and "CHR ''='' \<notin> set s" and "s \<noteq> [] \<or> k = 0"
  shows "strip_padding (s @ replicate k (CHR ''='')) = s"
proof -
  consider "k = 0" | "k = 1" | "k = 2" using assms(1) by linarith
  then show ?thesis
  proof cases
    case 1
    with assms(2) show ?thesis
      by (auto simp: strip_padding_def split: list.split)
  next
    case 2
    with assms(3) obtain d r where "rev s = d # r"
      by (cases "rev s") auto
    moreover from this have "d \<noteq> CHR ''=''"
      using assms(2) by (metis list.set_intros(1) set_rev)
    moreover from \<open>rev s = d # r\<close> have "s = rev r @ [d]" by (metis rev.simps(2) rev_rev_ident)
    ultimately show ?thesis using 2 by (simp add: strip_padding_def)
  next
    case 3
    then show ?thesis by (simp add: strip_padding_def numeral_2_eq_2)
  qed
qed

theorem Std_roundtrip [simp]: "Std_DecodeString (Std_EncodeToString s) = Some s"
proof -
  let ?r = "raw_encode std_alphabet s" and ?k = "(3 - length s mod 3) mod 3"
  have chars: "set ?r \<subseteq> set std_alphabet" by (rule raw_encode_chars) simp
  then have "\<forall>c \<in> set (Std_EncodeToString s). code c \<noteq> 10 \<and> code c \<noteq> 13"
    using alphabet_chars(1) by (auto simp: Std_EncodeToString_def code_def)
  then have filt: "filter (\<lambda>c. code c \<noteq> 10 \<and> code c \<noteq> 13) (Std_EncodeToString s) = Std_EncodeToString s" by simp
  have "length s mod 3 = 0 \<or> length s mod 3 = 1 \<or> length s mod 3 = 2" by linarith
  then have len: "length (Std_EncodeToString s) mod 4 = 0"
    by (auto simp: Std_EncodeToString_def raw_encode_length)
  have "?k \<le> 2" by linarith
  moreover have "CHR ''='' \<notin> set ?r" using chars std_chars_not_padding by blast
  moreover have "?r \<noteq> [] \<or> ?k = 0"
    using raw_encode_length [of std_alphabet s] by (cases "s = []") auto
  ultimately have "strip_padding (Std_EncodeToString s) = ?r"
    unfolding Std_EncodeToString_def by (rule strip_padding_replicate)
  then show ?thesis
    using len by (simp add: Std_DecodeString_def filt Let_def raw_roundtrip)
qed

lemma Std_chars: "c \<in> set (Std_EncodeToString s) \<Longrightarrow> c \<in> set std_alphabet \<or> c = CHR ''=''"
  using raw_encode_chars [of std_alphabet s] by (auto simp: Std_EncodeToString_def)

end
