(* ===== verification/Hashing.thy ===== *)
theory Hashing
  imports Models Base64 "HOL-Library.Word"
begin

text \<open>
  internal/util/hashing: argon2id password hashes in modular crypt format.  The key derivation
  \<open>argon2.IDKey\<close> (golang.org/x/crypto) is the parameter \<open>env_argon2\<close>, with \<open>None\<close> for its panic on
  a zero time or parallelism; the random source is \<open>env_rand\<close>.
\<close>

definition Argon2HashID :: string where
  "Argon2HashID = ''argon2id''"

definition argon2_Version :: nat where
  "argon2_Version = 19"

definition ErrInvalidArgon2Hash :: go_error where
  "ErrInvalidArgon2Hash = ErrPlain ''invalid argon2id hash''"

definition ErrIncompatibleArgon2Version :: go_error where
  "ErrIncompatibleArgon2Version = ErrPlain ''incompatible argon2 version''"

record argon2_params =
  a2_time :: "32 word"
  a2_memory :: "32 word"
  a2_threads :: "8 word"
  a2_key_length :: "32 word"
  a2_salt_length :: "32 word"

definition DefaultArgon2Params :: argon2_params where
  "DefaultArgon2Params = \<lparr>a2_time = 1, a2_memory = 64 * 1024, a2_threads = 4,
     a2_key_length = 32, a2_salt_length = 16\<rparr>"

definition IDKey :: "env \<Rightarrow> string \<Rightarrow> string \<Rightarrow> argon2_params \<Rightarrow> string outcome" where
  "IDKey e password salt p =
     (case env_argon2 e password salt (unat (a2_time p)) (unat (a2_memory p)) (unat (a2_threads p))
             (unat (a2_key_length p)) of
        None \<Rightarrow> Panic ''argon2''
      | Some k \<Rightarrow> Ok k)"

definition generateSalt :: "env \<Rightarrow> 32 word \<Rightarrow> (world, string) prog" where
  "generateSalt e n = (\<lambda>w. case env_rand e (clk w) (unat n) of
      None \<Rightarrow> (Err (ErrWrap ''failed to generate salt'' (ErrPlain ''rand'')), tick w)
    | Some bytes \<Rightarrow> (Ok bytes, tick w))"

definition format_hash :: "argon2_params \<Rightarrow> string \<Rightarrow> string \<Rightarrow> string" where
  "format_hash p b64Salt b64Key =
     ''$'' @ Argon2HashID @ ''$v='' @ show_nat argon2_Version @ ''$m='' @ show_nat (unat (a2_memory p)) @
     '',t='' @ show_nat (unat (a2_time p)) @ '',p='' @ show_nat (unat (a2_threads p)) @
     ''$'' @ b64Salt @ ''$'' @ b64Key"

definition HashPassword :: "env \<Rightarrow> string \<Rightarrow> argon2_params \<Rightarrow> (world, string) prog" where
  "HashPassword e password p =
     bindP (generateSalt e (a2_salt_length p)) (\<lambda>salt.
       (\<lambda>w. case IDKey e password salt p of
          Panic c \<Rightarrow> (Panic c, w)
        | Err x \<Rightarrow> (Err x, w)
        | Ok key \<Rightarrow> (Ok (format_hash p (RawStd_EncodeToString salt) (RawStd_EncodeToString key)), w)))"

definition scan_params :: "string \<Rightarrow> (nat \<times> nat \<times> nat) option" where
  "scan_params s =
     Option.bind (scan_lit ''m='' s) (\<lambda>s1.
     Option.bind (scan_uint 32 s1) (\<lambda>(m, s2).
     Option.bind (scan_lit '',t='' s2) (\<lambda>s3.
     Option.bind (scan_uint 32 s3) (\<lambda>(t, s4).
     Option.bind (scan_lit '',p='' s4) (\<lambda>s5.
     Option.bind (scan_uint 8 s5) (\<lambda>(p, _). Some (m, t, p)))))))"

definition argon2HashParts :: nat where
  "argon2HashParts = 6"

definition decodeArgon2Hash :: "string \<Rightarrow> go_error + (argon2_params \<times> string \<times> string)" where
  "decodeArgon2Hash hash =
     (let vals = split_char (CHR ''$'') hash in
      if length vals \<noteq> argon2HashParts then Inl ErrInvalidArgon2Hash
      else if vals ! 1 \<noteq> Argon2HashID then Inl ErrInvalidArgon2Hash
      else (case Option.bind (scan_lit ''v='' (vals ! 2)) scan_int of
        None \<Rightarrow> Inl ErrIncompatibleArgon2Version
      | Some (version, _) \<Rightarrow>
          if version \<noteq> int argon2_Version then Inl ErrIncompatibleArgon2Version
          else (case scan_params (vals ! 3) of
            None \<Rightarrow> Inl ErrInvalidArgon2Hash
          | Some (m, t, p) \<Rightarrow>
              (case RawStd_DecodeString (vals ! 4) of
                None \<Rightarrow> Inl ErrInvalidArgon2Hash
              | Some salt \<Rightarrow>
                  (case RawStd_DecodeString (vals ! 5) of
                    None \<Rightarrow> Inl ErrInvalidArgon2Hash
                  | Some key \<Rightarrow>
                      if length key > 2147483647 then Inl ErrInvalidArgon2Hash
                      else Inr (\<lparr>a2_time = of_nat t, a2_memory = of_nat m, a2_threads = of_nat p,
                                 a2_key_length = of_nat (length key), a2_salt_length = 0\<rparr>, salt, key))))))"

definition ComparePasswordAndHash :: "env \<Rightarrow> string \<Rightarrow> string \<Rightarrow> bool outcome" where
  "ComparePasswordAndHash e password hash =
     (case decodeArgon2Hash hash of
        Inl x \<Rightarrow> Err x
      | Inr (p, salt, key) \<Rightarrow>
          (case IDKey e password salt p of
             Panic c \<Rightarrow> Panic c
           | Err x \<Rightarrow> Err x
           | Ok pKey \<Rightarrow>
               if length key > 2147483647 \<or> length pKey > 2147483647 then Err ErrInvalidArgon2Hash
               else if length key \<noteq> length pKey then Ok False
               else if key \<noteq> pKey then Ok False
               else Ok True))"

section \<open>Round trip\<close>

lemma scan_params_show:
  assumes "m < 2 ^ 32" "t < 2 ^ 32" "p < 2 ^ 8"
  shows "scan_params (''m='' @ show_nat m @ '',t='' @ show_nat t @ '',p='' @ show_nat p) = Some (m, t, p)"
proof -
  have d: "\<not> is_digit (CHR '','')" by (simp add: is_digit_def code_def)
  have m: "scan_uint 32 (show_nat m @ '',t='' @ s) = Some (m, '',t='' @ s)" for s
    using assms(1) d by (intro scan_uint_show) auto
  have t: "scan_uint 32 (show_nat t @ '',p='' @ s) = Some (t, '',p='' @ s)" for s
    using assms(2) d by (intro scan_uint_show) auto
  have p: "scan_uint 8 (show_nat p) = Some (p, [])"
    using scan_uint_show [of p 8 "[]"] assms(3) by simp
  show ?thesis
    unfolding scan_params_def by (simp only: scan_lit_append m t p bind.bind_lunit prod.case)
qed

lemma dollar_free:
  "CHR ''$'' \<notin> set (show_nat n)"
  using show_nat_digits [of "CHR ''$''" n] by (auto simp: is_digit_def code_def)

lemma split_format_hash:
  assumes "CHR ''$'' \<notin> set salt" and "CHR ''$'' \<notin> set key"
  shows "split_char (CHR ''$'') (format_hash p salt key) =
    [[], Argon2HashID, ''v='' @ show_nat argon2_Version,
     ''m='' @ show_nat (unat (a2_memory p)) @ '',t='' @ show_nat (unat (a2_time p)) @
       '',p='' @ show_nat (unat (a2_threads p)), salt, key]"
  (is "_ = ?parts")
proof -
  have "format_hash p salt key = strings_Join ?parts ''$''"
    by (simp add: format_hash_def)
  moreover have "\<forall>y \<in> set ?parts. CHR ''$'' \<notin> set y"
    using assms dollar_free by (simp add: Argon2HashID_def)
  ultimately show ?thesis
    using split_char_join [of ?parts "CHR ''$''"] by simp
qed

lemma decode_format_hash:
  assumes "length key \<le> 2147483647"
  shows "decodeArgon2Hash (format_hash p (RawStd_EncodeToString salt) (RawStd_EncodeToString key)) =
    Inr (p\<lparr>a2_key_length := of_nat (length key), a2_salt_length := 0\<rparr>, salt, key)"
proof -
  have v: "scan_int (show_nat argon2_Version) = Some (int argon2_Version, [])"
    using scan_int_show [of argon2_Version "[]"] by (simp add: argon2_Version_def)
  have sp: "scan_params (''m='' @ show_nat (unat (a2_memory p)) @ '',t='' @ show_nat (unat (a2_time p)) @
       '',p='' @ show_nat (unat (a2_threads p))) = Some (unat (a2_memory p), unat (a2_time p), unat (a2_threads p))"
    using unsigned_less [of "a2_memory p"] unsigned_less [of "a2_time p"] unsigned_less [of "a2_threads p"]
    by (intro scan_params_show) simp_all
  show ?thesis
    using assms
    by (simp add: decodeArgon2Hash_def split_format_hash RawStd_no_dollar argon2HashParts_def
        v sp Let_def del: append_Cons append.simps)
qed

end
