(* ===== verification/Transactions.thy ===== *)
theory Transactions
  imports Models
begin

text \<open>
  internal/util/db/db.go: running a handler inside a database transaction.

  \<open>WithConfiguredTransaction\<close> begins a transaction, runs the handler and, in a deferred function,
  rolls back when the handler returned an error or panicked and commits otherwise.  The value a
  handler leaves in a captured variable is the value of the program here.  The deferred function
  stores the error of \<open>tx.Commit()\<close> in the local variable \<open>err\<close>, which is not the function's result
  (the result is unnamed), so the caller does not see it: \<open>commit_swallows_failure\<close>.
\<close>

definition begin_tx :: "env \<Rightarrow> (world, unit) prog" where
  "begin_tx e = (\<lambda>w. case env_fault e (clk w) of
      Some msg \<Rightarrow> (Err (ErrDriver msg), tick w)
    | None \<Rightarrow> (Ok (), (tick w)\<lparr>tx := Some (db w)\<rparr>))"

definition commit_tx :: "env \<Rightarrow> (world, unit) prog" where
  "commit_tx e = (\<lambda>w. case env_fault e (clk w) of
      Some msg \<Rightarrow> (Err (ErrDriver msg), (tick w)\<lparr>tx := None\<rparr>)
    | None \<Rightarrow> (Ok (), (tick w)\<lparr>db := (case tx w of None \<Rightarrow> db w | Some d \<Rightarrow> d), tx := None\<rparr>))"

definition rollback_tx :: "world \<Rightarrow> world" where
  "rollback_tx w = (tick w)\<lparr>tx := None\<rparr>"

definition WithConfiguredTransaction :: "env \<Rightarrow> (world, 'a) prog \<Rightarrow> (world, 'a) prog" where
  "WithConfiguredTransaction e txHandler = (\<lambda>w. case begin_tx e w of
      (Err x, v) \<Rightarrow> (Err (ErrWrap ''failed to start transaction'' x), v)
    | (Panic c, v) \<Rightarrow> (Panic c, v)
    | (Ok _, v) \<Rightarrow> (case txHandler v of
        (Panic c, u) \<Rightarrow> (Panic c, rollback_tx u)
      | (Err x, u) \<Rightarrow> (Err (ErrWrap ''failed to execute transaction'' x), rollback_tx u)
      | (Ok r, u) \<Rightarrow> (Ok r, snd (commit_tx e u))))"

definition WithTransaction :: "env \<Rightarrow> (world, 'a) prog \<Rightarrow> (world, 'a) prog" where
  "WithTransaction e txHandler = WithConfiguredTransaction e txHandler"

section \<open>Outcomes\<close>

lemma commit_tx_db:
  "db (snd (commit_tx e u)) =
     (if env_fault e (clk u) = None then (case tx u of None \<Rightarrow> db u | Some d \<Rightarrow> d) else db u)"
  "tx (snd (commit_tx e u)) = None"
  "clk (snd (commit_tx e u)) = Suc (clk u)"
  "mails (snd (commit_tx e u)) = mails u"
  by (auto simp: commit_tx_def split: option.splits)

lemma rollback_tx_simps [simp]:
  "db (rollback_tx u) = db u" "tx (rollback_tx u) = None" "clk (rollback_tx u) = Suc (clk u)"
  by (simp_all add: rollback_tx_def)

lemma WithTransaction_Ok_iff [outcome_simps]:
  "WithTransaction e m w = (Ok r, t) \<longleftrightarrow>
     (\<exists>u. env_fault e (clk w) = None \<and> m ((tick w)\<lparr>tx := Some (db w)\<rparr>) = (Ok r, u) \<and>
        t = snd (commit_tx e u))"
  by (auto simp: WithTransaction_def WithConfiguredTransaction_def begin_tx_def
      split: option.splits prod.splits outcome.splits)

text \<open>
  A handler error reaches the caller wrapped once, so \<open>errors.Is\<close> and \<open>errors.As\<close> still find it.
\<close>

lemma WithTransaction_Err:
  assumes "WithTransaction e m w = (Err x, t)"
  shows "(\<exists>y. x = ErrWrap ''failed to start transaction'' y) \<or>
         (\<exists>y u. m ((tick w)\<lparr>tx := Some (db w)\<rparr>) = (Err y, u) \<and>
            x = ErrWrap ''failed to execute transaction'' y \<and> t = rollback_tx u)"
  using assms
  by (auto simp: WithTransaction_def WithConfiguredTransaction_def begin_tx_def
      split: option.splits prod.splits outcome.splits)

lemma WithTransaction_tx: "WithTransaction e m w = (r, t) \<Longrightarrow> tx w = None \<Longrightarrow> tx t = None"
  by (auto simp: WithTransaction_def WithConfiguredTransaction_def begin_tx_def commit_tx_db
      split: option.splits prod.splits outcome.splits)

section \<open>The contract of transaction handlers\<close>

text \<open>
  A handler that writes through its \<open>exec\<close> only leaves the committed database alone while it runs.
  For such a handler a transaction that does not return normally has changed nothing, and one that
  returns normally has either installed the handler's view as a whole or, when the commit failed,
  changed nothing.
\<close>

locale tx_handler =
  fixes handler :: "(world, 'a) prog"
  assumes writes_through_exec: "frame db handler"
begin

lemma error_changes_nothing:
  assumes "WithTransaction e handler w = (r, t)" and "\<not> is_ok r"
  shows "db t = db w"
proof -
  have fr: "handler v = (r', u) \<Longrightarrow> db u = db v" for v r' u
    by (rule frameD [OF writes_through_exec])
  show ?thesis
    using assms fr
    by (auto simp: WithTransaction_def WithConfiguredTransaction_def begin_tx_def
        split: option.splits prod.splits outcome.splits)
qed

lemma all_or_nothing:
  assumes run: "WithTransaction e handler w = (Ok r, t)"
  obtains (committed) u where "handler ((tick w)\<lparr>tx := Some (db w)\<rparr>) = (Ok r, u)"
      and "db t = (case tx u of None \<Rightarrow> db w | Some d \<Rightarrow> d)"
    | (lost) u where "handler ((tick w)\<lparr>tx := Some (db w)\<rparr>) = (Ok r, u)"
      and "db t = db w" and "env_fault e (clk u) \<noteq> None"
proof -
  from run obtain u where u: "handler ((tick w)\<lparr>tx := Some (db w)\<rparr>) = (Ok r, u)"
    and t: "t = snd (commit_tx e u)"
    by (auto simp: outcome_simps)
  have "db u = db w"
    using frameD [OF writes_through_exec u] by simp
  show thesis
  proof (cases "env_fault e (clk u)")
    case None
    with \<open>db u = db w\<close> t show thesis
      by (intro committed [OF u]) (simp add: commit_tx_db split: option.split)
  next
    case (Some msg)
    with \<open>db u = db w\<close> t show thesis
      by (intro lost [OF u]) (simp_all add: commit_tx_db)
  qed
qed

end

lemma keeps_WithTransaction [keeps_intros]:
  assumes "keeps (on_dbs P) m"
  shows "keeps (on_dbs P) (WithTransaction e m)"
proof (rule keepsI)
  fix w r t assume run: "WithTransaction e m w = (r, t)" and inv: "on_dbs P w"
  have st: "on_dbs P v \<Longrightarrow> m v = (r', u) \<Longrightarrow> on_dbs P u" for v r' u
    by (rule keepsD [OF assms])
  have "on_dbs P ((tick w)\<lparr>tx := Some (db w)\<rparr>)"
    using inv by (auto simp: on_dbs_def)
  note inner = st [OF this]
  show "on_dbs P t"
    using run inv inner
    by (auto simp: WithTransaction_def WithConfiguredTransaction_def begin_tx_def commit_tx_def
        rollback_tx_def on_dbs_def split: option.splits prod.splits outcome.splits)
qed

section \<open>Programs whose failures leave the database alone\<close>

definition fails_clean :: "(world, 'a) prog \<Rightarrow> bool" where
  "fails_clean m \<longleftrightarrow> (\<forall>w. is_ok (fst (m w)) \<or> db (snd (m w)) = db w)"

named_theorems clean_intros \<open>composition rules for programs whose failures change nothing\<close>

lemma fails_cleanI: "(\<And>w r t. m w = (r, t) \<Longrightarrow> \<not> is_ok r \<Longrightarrow> db t = db w) \<Longrightarrow> fails_clean m"
  by (auto simp: fails_clean_def intro: prod.collapse [symmetric])

lemma fails_cleanD: "fails_clean m \<Longrightarrow> m w = (r, t) \<Longrightarrow> \<not> is_ok r \<Longrightarrow> db t = db w"
  unfolding fails_clean_def by (metis fst_conv snd_conv)

lemma fails_clean_frame: "frame db m \<Longrightarrow> fails_clean m"
  by (auto simp: fails_clean_def frame_def)

lemma fails_clean_ends [clean_intros]:
  "fails_clean (okP x)" "fails_clean (errP e)" "fails_clean (panicP c)"
  by (auto intro!: fails_clean_frame frame_intros)

lemma fails_clean_bindP [clean_intros]:
  assumes "frame db m" and "\<And>x. fails_clean (f x)"
  shows "fails_clean (bindP m f)"
  using assms
  by (fastforce intro!: fails_cleanI simp: bindP_def dest: frameD fails_cleanD
      split: prod.splits outcome.splits)

lemma fails_clean_thenP [clean_intros]: "frame db m \<Longrightarrow> fails_clean n \<Longrightarrow> fails_clean (thenP m n)"
  by (simp add: thenP_def fails_clean_bindP)

lemma fails_clean_tryP [clean_intros]:
  assumes "frame db m" and "\<And>r. fails_clean (k r)"
  shows "fails_clean (tryP m k)"
  using assms
  by (fastforce intro!: fails_cleanI simp: tryP_def dest: frameD fails_cleanD
      split: prod.splits outcome.splits)

text \<open>A last write followed by code that cannot fail.\<close>

lemma fails_clean_last:
  assumes "fails_clean m" and "\<And>x s. is_ok (fst (f x s))"
  shows "fails_clean (bindP m f)"
  using assms(1) assms(2)
  by (auto simp: fails_clean_def bindP_def split: prod.splits outcome.splits)
    (metis fst_conv snd_conv is_ok.simps)+

lemma fails_clean_if [clean_intros]:
  "(b \<Longrightarrow> fails_clean m) \<Longrightarrow> (\<not> b \<Longrightarrow> fails_clean n) \<Longrightarrow> fails_clean (if b then m else n)"
  by simp

lemma fails_clean_cases [clean_intros]:
  "fails_clean m \<Longrightarrow> (\<And>x. fails_clean (f x)) \<Longrightarrow> fails_clean (case z of None \<Rightarrow> m | Some x \<Rightarrow> f x)"
  "(\<And>x. fails_clean (g x)) \<Longrightarrow> (\<And>x. fails_clean (h x)) \<Longrightarrow>
    fails_clean (case s of Inl x \<Rightarrow> g x | Inr x \<Rightarrow> h x)"
  "(\<And>x y. fails_clean (p x y)) \<Longrightarrow> fails_clean (case q of (x, y) \<Rightarrow> p x y)"
  by (auto split: option.split sum.split prod.split)

lemma fails_clean_stmt: "fails_clean (stmt e h f)"
  by (cases h) (auto intro!: fails_cleanI simp: stmt_def split: option.splits sum.splits)

lemma fails_clean_wrapP:
  assumes "fails_clean m" shows "fails_clean (wrapP msg m)"
  by (rule fails_cleanI)
    (auto simp: wrapP_def tryP_def okP_def errP_def dest: fails_cleanD [OF assms]
      split: prod.splits outcome.splits)

lemma fails_clean_statements [clean_intros]:
  "fails_clean (insert_stmt tn e h c ch ad)" "fails_clean (modify_stmt m e h g)"
  unfolding insert_stmt_def modify_stmt_def by (intro fails_clean_wrapP fails_clean_stmt)+

text \<open>
  \<open>saved e w t d\<close>: the call that took \<open>w\<close> to \<open>t\<close> has installed the database \<open>d\<close>, or some interaction
  after \<open>w\<close> failed (the commit) and the database is still that of \<open>w\<close>.
\<close>

definition saved :: "env \<Rightarrow> world \<Rightarrow> world \<Rightarrow> database \<Rightarrow> bool" where
  "saved e w t d \<longleftrightarrow> db t = d \<or> db t = db w \<and> (\<exists>n. env_fault e n \<noteq> None)"

lemma saved_no_fault: "saved e w t d \<Longrightarrow> (\<And>n. env_fault e n = None) \<Longrightarrow> db t = d"
  by (auto simp: saved_def)

lemma saved_start: "saved e v t d \<Longrightarrow> db v = db w \<Longrightarrow> saved e w t d"
  by (auto simp: saved_def)

context tx_handler
begin

lemma ok_saved:
  assumes "WithTransaction e handler w = (Ok r, t)"
  obtains u where "handler ((tick w)\<lparr>tx := Some (db w)\<rparr>) = (Ok r, u)"
    and "\<And>d. tx u = Some d \<Longrightarrow> saved e w t d"
  using assms by (rule all_or_nothing) (auto simp: saved_def intro: that)

lemma clean: "fails_clean (WithTransaction e handler)"
  by (rule fails_cleanI) (rule error_changes_nothing)

end

end
