(* ===== verification/Auth_Service.thy ===== *)
theory Auth_Service
  imports Auth_Data Hashing Transactions
begin

text \<open>
  internal/auth/service.go: the authentication service, one program per method.  The closures the
  methods hand to \<open>db.WithTransaction\<close> are the definitions ending in \<open>_tx\<close>; they run on the
  transaction's view and are instances of the contract \<open>tx_handler\<close>.  Identifiers that come from
  rows are compared as they are, texts from requests are read as uuids by the server
  (\<open>one_by_uuid\<close>, \<open>delete_by_uuid\<close>).
\<close>

section \<open>Statements of the service\<close>

definition liftP :: "'a outcome \<Rightarrow> ('s, 'a) prog" where
  "liftP r = (\<lambda>s. (r, s))"

definition deref :: "'a option \<Rightarrow> ('s, 'a) prog" where
  "deref x = (case x of None \<Rightarrow> panicP ''nil pointer dereference'' | Some v \<Rightarrow> okP v)"

lemma liftP_iff [outcome_simps]: "liftP r s = (r', t) \<longleftrightarrow> r' = r \<and> t = s"
  by (auto simp: liftP_def)

lemma deref_Ok_iff [outcome_simps]: "deref x s = (Ok v, t) \<longleftrightarrow> x = Some v \<and> t = s"
  by (auto simp: deref_def panicP_def okP_def split: option.splits)

lemma frame_liftP [frame_intros]: "frame g (liftP r)" "frame g (deref x)"
  by (auto simp: frame_def liftP_def deref_def panicP_def okP_def split: option.splits)

lemma keeps_liftP [keeps_intros]: "keeps P (liftP r)" "keeps P (deref x)"
  by (auto simp: keeps_def liftP_def deref_def panicP_def okP_def split: option.splits)

text \<open>A row found by a token, with the relation \<open>R.User\<close> that \<open>qm.Load\<close> fetches in a second query.\<close>

definition one_with_user :: "string \<Rightarrow> env \<Rightarrow> handle \<Rightarrow> (database \<Rightarrow> 'r list) \<Rightarrow> ('r \<Rightarrow> uuid) \<Rightarrow> string \<Rightarrow>
    ('r \<Rightarrow> bool) \<Rightarrow> ('r \<Rightarrow> uuid) \<Rightarrow> (world, 'r \<times> user_row option) prog" where
  "one_with_user table e h tab key txt p owner =
     bindP (one_by_uuid table e h tab key txt p) (\<lambda>r.
     bindP (wrapP (''models: failed to execute a one query for '' @ table)
             (wrapP ''failed to eager load User''
               (query e h (\<lambda>d. Inr (find (\<lambda>u. usr_id u = owner r) (users d))))))
       (\<lambda>u. okP (r, u)))"

definition delete_by_uuid :: "string \<Rightarrow> env \<Rightarrow> handle \<Rightarrow> string \<Rightarrow> (uuid \<Rightarrow> database \<Rightarrow> database) \<Rightarrow> (world, unit) prog" where
  "delete_by_uuid table e h txt f = wrapP (''models: unable to delete all from '' @ table)
     (stmt e h (\<lambda>n d. case env_parse_uuid e txt of None \<Rightarrow> Inl bad_uuid | Some u \<Rightarrow> Inr ((), f u d)))"

definition without_access_tokens :: "(access_token_row \<Rightarrow> bool) \<Rightarrow> database \<Rightarrow> database" where
  "without_access_tokens p d = d\<lparr>access_tokens := filter (\<lambda>r. \<not> p r) (access_tokens d)\<rparr>"

definition without_refresh_tokens :: "(refresh_token_row \<Rightarrow> bool) \<Rightarrow> database \<Rightarrow> database" where
  "without_refresh_tokens p d = d\<lparr>refresh_tokens := filter (\<lambda>r. \<not> p r) (refresh_tokens d)\<rparr>"

definition without_confirmation_tokens :: "(confirmation_token_row \<Rightarrow> bool) \<Rightarrow> database \<Rightarrow> database" where
  "without_confirmation_tokens p d = d\<lparr>confirmation_tokens := filter (\<lambda>r. \<not> p r) (confirmation_tokens d)\<rparr>"

text \<open>\<open>user.Update\<close> with a whitelist: the named columns and \<open>updated_at\<close> of the row with the id.\<close>

definition map_user :: "uuid \<Rightarrow> (user_row \<Rightarrow> user_row) \<Rightarrow> database \<Rightarrow> database" where
  "map_user i f d = d\<lparr>users := map (\<lambda>u. if usr_id u = i then f u else u) (users d)\<rparr>"

definition user_update :: "env \<Rightarrow> handle \<Rightarrow> uuid \<Rightarrow> (user_row \<Rightarrow> user_row) \<Rightarrow> (world, unit) prog" where
  "user_update e h i columns = bindP (sys_now e) (\<lambda>now.
     modify_stmt ''models: unable to update users row'' e h
       (map_user i (\<lambda>u. (columns u)\<lparr>usr_updated_at := now\<rparr>)))"

section \<open>Issuing tokens\<close>

definition TokenTypeBearer :: string where
  "TokenTypeBearer = ''bearer''"

definition authenticateUser :: "env \<Rightarrow> auth_config \<Rightarrow> dto_user \<Rightarrow> bool \<Rightarrow> (world, login_result) prog" where
  "authenticateUser e c u invalidateExistingTokens =
     thenP
       (if invalidateExistingTokens then
          thenP (modify_stmt ''models: unable to delete all from access_tokens'' e Tx
                   (without_access_tokens (\<lambda>r. atk_user_id r = du_id u)))
                (modify_stmt ''models: unable to delete all from refresh_tokens'' e Tx
                   (without_refresh_tokens (\<lambda>r. rtk_user_id r = du_id u)))
        else okP ())
     (bindP (clock_now e) (\<lambda>now.
      bindP (access_token_insert e Tx
               \<lparr>atk_token = [], atk_valid_until = now + ac_access_token_validity c, atk_user_id = du_id u,
                atk_created_at = zero_time, atk_updated_at = zero_time\<rparr>) (\<lambda>accessToken.
      bindP (refresh_token_insert e Tx
               \<lparr>rtk_token = [], rtk_user_id = du_id u,
                rtk_created_at = zero_time, rtk_updated_at = zero_time\<rparr>) (\<lambda>refreshToken.
      bindP (clock_now e) (\<lambda>now2.
      thenP (user_update e Tx (usr_id (ToModels u)) (\<lambda>r. r\<lparr>usr_last_authenticated_at := Some now2\<rparr>))
        (okP \<lparr>lr_user_id = [], lr_access_token = atk_token accessToken,
              lr_expires_in = duration_seconds (ac_access_token_validity c),
              lr_refresh_token = rtk_token refreshToken, lr_token_type = TokenTypeBearer\<rparr>))))))"

section \<open>Profiles\<close>

definition GetAppUserProfile :: "env \<Rightarrow> uuid \<Rightarrow> (world, dto_profile) prog" where
  "GetAppUserProfile e userID =
     tryP (one_row ''app_user_profiles'' e Pool app_user_profiles (\<lambda>p. aup_user_id p = userID))
       (\<lambda>res. case res of
          Inl x \<Rightarrow> if errors_is x ErrNoRows then errP ErrNotFound else errP x
        | Inr aup \<Rightarrow> okP (LocalAppUserProfileToDTO aup))"

section \<open>Passwords\<close>

definition UpdatePassword_tx :: "env \<Rightarrow> auth_config \<Rightarrow> dto_user \<Rightarrow> string \<Rightarrow> (world, login_result) prog" where
  "UpdatePassword_tx e c u hash =
     (let u' = u\<lparr>du_password_hash := Some hash\<rparr> in
      thenP (user_update e Tx (usr_id (ToModels u')) (\<lambda>r. r\<lparr>usr_password := usr_password (ToModels u')\<rparr>))
        (authenticateUser e c u' True))"

definition verify_current :: "env \<Rightarrow> update_password_request \<Rightarrow> string \<Rightarrow> (world, unit) prog" where
  "verify_current e request h =
     (if up_skip_current_password_verification request then okP ()
      else bindP (liftP (ComparePasswordAndHash e (up_current_password request) h))
        (\<lambda>match. if match then okP () else errP echo_ErrUnauthorized))"

definition UpdatePassword :: "env \<Rightarrow> auth_config \<Rightarrow> update_password_request \<Rightarrow> (world, login_result) prog" where
  "UpdatePassword e c request =
     (if \<not> du_is_active (up_user request) then errP ErrForbiddenUserDeactivated
      else (case du_password_hash (up_user request) of
        None \<Rightarrow> errP ErrForbiddenNotLocalUser
      | Some h \<Rightarrow> thenP (verify_current e request h)
          (tryP (HashPassword e (up_new_password request) DefaultArgon2Params) (\<lambda>res. case res of
             Inl _ \<Rightarrow> errP ErrBadRequestInvalidPassword
           | Inr hash \<Rightarrow> WithTransaction e (UpdatePassword_tx e c (up_user request) hash)))))"

definition ResetPassword :: "env \<Rightarrow> auth_config \<Rightarrow> string \<Rightarrow> string \<Rightarrow> (world, login_result) prog" where
  "ResetPassword e c resetToken newPassword =
     tryP (one_with_user ''password_reset_tokens'' e Pool password_reset_tokens prt_token resetToken
             (\<lambda>_. True) prt_user_id)
       (\<lambda>res. case res of
          Inl x \<Rightarrow> if errors_is x ErrNoRows then errP ErrNotFoundTokenNotFound else errP x
        | Inr (passwordResetToken, user) \<Rightarrow> bindP (clock_now e) (\<lambda>now.
            if now > prt_valid_until passwordResetToken then errP ErrConflictTokenExpired
            else bindP (deref user) (\<lambda>u. UpdatePassword e c
              \<lparr>up_user = LocalUserToDTO u None, up_current_password = [],
               up_skip_current_password_verification = True, up_new_password = newPassword\<rparr>)))"

definition live_reset_token :: "uuid \<Rightarrow> time \<Rightarrow> time \<Rightarrow> password_reset_token_row \<Rightarrow> bool" where
  "live_reset_token i created_after now r \<longleftrightarrow>
     prt_user_id r = i \<and> prt_created_at r > created_after \<and> prt_valid_until r > now"

definition InitPasswordReset_tx :: "env \<Rightarrow> auth_config \<Rightarrow> user_row \<Rightarrow> (world, string option) prog" where
  "InitPasswordReset_tx e c user =
     bindP (clock_now e) (\<lambda>now1. bindP (clock_now e) (\<lambda>now2.
     bindP (tryP (one_row ''password_reset_tokens'' e Tx password_reset_tokens
                    (live_reset_token (usr_id user) (now1 - ac_password_reset_token_reuse c) now2))
              (\<lambda>res. case res of
                 Inl x \<Rightarrow> if errors_is x ErrNoRows then
                     bindP (clock_now e) (\<lambda>now3. password_reset_token_insert e Tx
                       \<lparr>prt_token = [], prt_valid_until = now3 + ac_password_reset_token_validity c,
                        prt_user_id = usr_id user, prt_created_at = zero_time, prt_updated_at = zero_time\<rparr>)
                   else errP x
               | Inr t \<Rightarrow> okP t))
       (\<lambda>passwordResetToken. okP (Some (prt_token passwordResetToken)))))"

definition reset_debounced :: "env \<Rightarrow> auth_config \<Rightarrow> user_row \<Rightarrow> (world, bool) prog" where
  "reset_debounced e c user =
     (if ac_password_reset_token_debounce c > 0 then
        bindP (clock_now e) (\<lambda>now1. bindP (clock_now e) (\<lambda>now2.
          rows_exist ''password_reset_tokens'' e Pool password_reset_tokens
            (live_reset_token (usr_id user) (now1 - ac_password_reset_token_debounce c) now2)))
      else okP False)"

definition InitPasswordReset :: "env \<Rightarrow> auth_config \<Rightarrow> string \<Rightarrow> (world, string option) prog" where
  "InitPasswordReset e c username =
     tryP (one_row ''users'' e Pool users (\<lambda>u. usr_username u = Some (ToUsernameFormat username)))
       (\<lambda>res. case res of
          Inl x \<Rightarrow> if errors_is x ErrNoRows then okP None else errP x
        | Inr user \<Rightarrow>
            if \<not> usr_is_active user then okP None
            else if usr_password user = None then okP None
            else bindP (reset_debounced e c user) (\<lambda>exists.
              if exists then okP None else WithTransaction e (InitPasswordReset_tx e c user)))"

section \<open>Sessions\<close>

definition Logout_tx :: "env \<Rightarrow> string \<Rightarrow> string option \<Rightarrow> (world, unit) prog" where
  "Logout_tx e accessToken refreshToken =
     thenP (delete_by_uuid ''access_tokens'' e Tx accessToken (\<lambda>u. without_access_tokens (\<lambda>r. atk_token r = u)))
       (case refreshToken of
          None \<Rightarrow> okP ()
        | Some t \<Rightarrow> delete_by_uuid ''refresh_tokens'' e Tx t (\<lambda>u. without_refresh_tokens (\<lambda>r. rtk_token r = u)))"

definition Logout :: "env \<Rightarrow> string \<Rightarrow> string option \<Rightarrow> (world, unit) prog" where
  "Logout e accessToken refreshToken = WithTransaction e (Logout_tx e accessToken refreshToken)"

definition Login :: "env \<Rightarrow> auth_config \<Rightarrow> string \<Rightarrow> string \<Rightarrow> (world, login_result) prog" where
  "Login e c username password =
     tryP (one_row ''users'' e Pool users (\<lambda>u. usr_username u = Some (ToUsernameFormat username)))
       (\<lambda>res. case res of
          Inl _ \<Rightarrow> errP echo_ErrUnauthorized
        | Inr user \<Rightarrow>
            if \<not> usr_is_active user then errP ErrForbiddenUserDeactivated
            else (case usr_password user of
              None \<Rightarrow> errP echo_ErrUnauthorized
            | Some h \<Rightarrow> tryP (liftP (ComparePasswordAndHash e password h)) (\<lambda>res. case res of
                Inl _ \<Rightarrow> errP echo_ErrUnauthorized
              | Inr match \<Rightarrow>
                  if \<not> match then errP echo_ErrUnauthorized
                  else WithTransaction e (authenticateUser e c (LocalUserToDTO user None) False))))"

definition Refresh_tx :: "env \<Rightarrow> auth_config \<Rightarrow> refresh_token_row \<Rightarrow> user_row \<Rightarrow> (world, login_result) prog" where
  "Refresh_tx e c oldRefreshToken user =
     thenP (modify_stmt ''models: unable to delete from refresh_tokens'' e Tx
              (without_refresh_tokens (\<lambda>r. rtk_token r = rtk_token oldRefreshToken)))
       (authenticateUser e c (LocalUserToDTO user None) False)"

definition Refresh :: "env \<Rightarrow> auth_config \<Rightarrow> string \<Rightarrow> (world, login_result) prog" where
  "Refresh e c refreshToken =
     tryP (one_with_user ''refresh_tokens'' e Pool refresh_tokens rtk_token refreshToken (\<lambda>_. True) rtk_user_id)
       (\<lambda>res. case res of
          Inl x \<Rightarrow> if errors_is x ErrNoRows then errP echo_ErrUnauthorized else errP x
        | Inr (oldRefreshToken, R_User) \<Rightarrow> bindP (deref R_User) (\<lambda>user.
            if \<not> usr_is_active user then errP ErrForbiddenUserDeactivated
            else WithTransaction e (Refresh_tx e c oldRefreshToken user)))"

section \<open>Registration and deletion\<close>

definition Register_tx :: "env \<Rightarrow> auth_config \<Rightarrow> string \<Rightarrow> string \<Rightarrow> (world, register_result) prog" where
  "Register_tx e c username hash =
     (let requiresConfirmation = ac_registration_requires_confirmation c in
      bindP (clock_now e) (\<lambda>now.
      bindP (user_insert e Tx
               \<lparr>usr_id = [], usr_username = Some (ToUsernameFormat username), usr_password = Some hash,
                usr_is_active = (\<not> requiresConfirmation), usr_scopes = ac_default_user_scopes c,
                usr_last_authenticated_at = Some now, usr_created_at = zero_time,
                usr_updated_at = zero_time, usr_requires_confirmation = requiresConfirmation\<rparr>) (\<lambda>user.
      thenP (app_user_profile_insert e Tx
               \<lparr>aup_user_id = usr_id user, aup_legal_accepted_at = None,
                aup_created_at = zero_time, aup_updated_at = zero_time\<rparr>)
        (if requiresConfirmation then
           bindP (clock_now e) (\<lambda>now2.
           bindP (confirmation_token_insert e Tx
                    \<lparr>ctk_token = [], ctk_valid_until = now2 + ac_confirmation_token_validity c,
                     ctk_user_id = usr_id user, ctk_created_at = zero_time, ctk_updated_at = zero_time\<rparr>)
             (\<lambda>t. okP \<lparr>rr_requires_confirmation = True, rr_confirmation_token = Some (ctk_token t)\<rparr>))
         else okP \<lparr>rr_requires_confirmation = False, rr_confirmation_token = None\<rparr>))))"

definition live_confirmation_token :: "uuid \<Rightarrow> time \<Rightarrow> time \<Rightarrow> confirmation_token_row \<Rightarrow> bool" where
  "live_confirmation_token i created_after now r \<longleftrightarrow>
     ctk_user_id r = i \<and> ctk_created_at r > created_after \<and> ctk_valid_until r > now"

definition Register_existing :: "env \<Rightarrow> auth_config \<Rightarrow> user_row \<Rightarrow> (world, register_result) prog" where
  "Register_existing e c user =
     (if \<not> usr_requires_confirmation user then errP ErrConflictUserAlreadyExists
      else bindP (clock_now e) (\<lambda>now1. bindP (clock_now e) (\<lambda>now2.
        bindP (rows_exist ''confirmation_tokens'' e Pool confirmation_tokens
                 (live_confirmation_token (usr_id user) (now1 - ac_confirmation_token_debounce c) now2))
          (\<lambda>exists. if exists then
              okP \<lparr>rr_requires_confirmation = usr_requires_confirmation user, rr_confirmation_token = None\<rparr>
            else bindP (clock_now e) (\<lambda>now3.
              bindP (confirmation_token_insert e Pool
                       \<lparr>ctk_token = [], ctk_valid_until = now3 + ac_confirmation_token_validity c,
                        ctk_user_id = usr_id user, ctk_created_at = zero_time, ctk_updated_at = zero_time\<rparr>)
                (\<lambda>t. okP \<lparr>rr_requires_confirmation = usr_requires_confirmation user,
                           rr_confirmation_token = Some (ctk_token t)\<rparr>))))))"

definition Register :: "env \<Rightarrow> auth_config \<Rightarrow> string \<Rightarrow> string \<Rightarrow> (world, register_result) prog" where
  "Register e c username password =
     tryP (one_row ''users'' e Pool users (\<lambda>u. usr_username u = Some (ToUsernameFormat username)))
       (\<lambda>res. case res of
          Inr user \<Rightarrow> Register_existing e c user
        | Inl x \<Rightarrow>
            if \<not> errors_is x ErrNoRows then errP x
            else tryP (HashPassword e password DefaultArgon2Params) (\<lambda>res. case res of
              Inl _ \<Rightarrow> errP ErrBadRequestInvalidPassword
            | Inr hash \<Rightarrow> WithTransaction e (Register_tx e c username hash)))"

definition DeleteUserAccount :: "env \<Rightarrow> dto_user \<Rightarrow> string \<Rightarrow> (world, unit) prog" where
  "DeleteUserAccount e user currentPassword =
     (if \<not> du_is_active user then errP ErrForbiddenUserDeactivated
      else (case du_password_hash user of
        None \<Rightarrow> errP ErrForbiddenNotLocalUser
      | Some h \<Rightarrow> tryP (liftP (ComparePasswordAndHash e currentPassword h)) (\<lambda>res. case res of
          Inl _ \<Rightarrow> errP echo_ErrUnauthorized
        | Inr match \<Rightarrow>
            if \<not> match then errP echo_ErrUnauthorized
            else WithTransaction e (users_delete_all e Tx (du_id user)))))"

definition CompleteRegister_tx :: "env \<Rightarrow> auth_config \<Rightarrow> string \<Rightarrow> (world, login_result) prog" where
  "CompleteRegister_tx e c confirmationToken =
     bindP (clock_now e) (\<lambda>now.
     tryP (one_with_user ''confirmation_tokens'' e Pool confirmation_tokens ctk_token confirmationToken
             (\<lambda>r. ctk_valid_until r > now) ctk_user_id)
       (\<lambda>res. case res of
          Inl x \<Rightarrow> if errors_is x ErrNoRows then errP ErrNotFoundTokenNotFound else errP x
        | Inr (token, R_User) \<Rightarrow> bindP (deref R_User) (\<lambda>user.
            if usr_is_active user \<or> \<not> usr_requires_confirmation user then okP empty_login_result
            else
              (let user' = user\<lparr>usr_is_active := True, usr_requires_confirmation := False\<rparr> in
               thenP (user_update e Tx (usr_id user')
                        (\<lambda>r. r\<lparr>usr_is_active := True, usr_requires_confirmation := False\<rparr>))
              (thenP (modify_stmt ''models: unable to delete from confirmation_tokens'' e Tx
                        (without_confirmation_tokens (\<lambda>r. ctk_token r = ctk_token token)))
                 (authenticateUser e c (LocalUserToDTO user' None) False))))))"

definition CompleteRegister :: "env \<Rightarrow> auth_config \<Rightarrow> string \<Rightarrow> (world, login_result) prog" where
  "CompleteRegister e c confirmationToken = WithTransaction e (CompleteRegister_tx e c confirmationToken)"

end
