(* ===== verification/Auth_Facts.thy ===== *)
theory Auth_Facts
  imports Auth_Service
begin

text \<open>
  What the programs of the authentication service do to the database: the abstract operation
  \<open>issue_tokens\<close> that \<open>authenticateUser\<close> implements, the frames and the invariant of every method,
  and the transaction bodies as instances of \<open>tx_handler\<close>.
\<close>

section \<open>Frames\<close>

lemma frame_db_service_statements [frame_intros]:
  "frame db (one_with_user tn e h tab key txt p owner)" "frame db (delete_by_uuid tn e Tx txt f)"
  "frame db (user_update e Tx i g)"
  unfolding one_with_user_def delete_by_uuid_def user_update_def
  by (auto intro!: frame_intros)

lemma frame_db_authenticateUser [frame_intros]: "frame db (authenticateUser e c u rv)"
  unfolding authenticateUser_def by (intro frame_intros)

lemma frame_db_transaction_bodies [frame_intros]:
  "frame db (UpdatePassword_tx e c u hash)" "frame db (InitPasswordReset_tx e c user)"
  "frame db (Logout_tx e at rt)" "frame db (Refresh_tx e c tok user)"
  "frame db (Register_tx e c name hash)" "frame db (CompleteRegister_tx e c ct)"
  unfolding UpdatePassword_tx_def InitPasswordReset_tx_def Logout_tx_def Refresh_tx_def
    Register_tx_def CompleteRegister_tx_def
  by (intro frame_intros)+

lemma frame_db_hashing [frame_intros]: "frame db (HashPassword e pw p)"
proof -
  have "frame db (generateSalt e n)" for n
    by (rule frameI) (auto simp: generateSalt_def split: option.splits)
  moreover have "frame db (\<lambda>w. case IDKey e pw salt p of
      Panic c \<Rightarrow> (Panic c, w) | Err x \<Rightarrow> (Err x, w) | Ok key \<Rightarrow> (Ok (f key), w))" for salt f
    by (auto simp: frame_def split: outcome.split)
  ultimately show ?thesis unfolding HashPassword_def by (intro frame_intros)
qed

interpretation auth_issue: tx_handler "authenticateUser e c u rv" for e c u rv
  by unfold_locales (rule frame_intros)

interpretation auth_update: tx_handler "UpdatePassword_tx e c u hash" for e c u hash
  by unfold_locales (rule frame_intros)

interpretation auth_init_reset: tx_handler "InitPasswordReset_tx e c user" for e c user
  by unfold_locales (rule frame_intros)

interpretation auth_logout: tx_handler "Logout_tx e at rt" for e at rt
  by unfold_locales (rule frame_intros)

interpretation auth_refresh: tx_handler "Refresh_tx e c tok user" for e c tok user
  by unfold_locales (rule frame_intros)

interpretation auth_register: tx_handler "Register_tx e c name hash" for e c name hash
  by unfold_locales (rule frame_intros)

interpretation auth_delete: tx_handler "users_delete_all e Tx i" for e i
  by unfold_locales (rule frame_intros)

interpretation auth_complete: tx_handler "CompleteRegister_tx e c ct" for e c ct
  by unfold_locales (rule frame_intros)

section \<open>Issuing tokens, abstractly\<close>

definition issue_tokens :: "access_token_row \<Rightarrow> refresh_token_row \<Rightarrow> time \<Rightarrow> time \<Rightarrow> database \<Rightarrow> database" where
  "issue_tokens a k auth_at now d =
     map_user (atk_user_id a) (\<lambda>u. u\<lparr>usr_last_authenticated_at := Some auth_at, usr_updated_at := now\<rparr>)
       (d\<lparr>access_tokens := access_tokens d @ [a], refresh_tokens := refresh_tokens d @ [k]\<rparr>)"

definition revoke_tokens :: "uuid \<Rightarrow> database \<Rightarrow> database" where
  "revoke_tokens i d = without_refresh_tokens (\<lambda>r. rtk_user_id r = i)
     (without_access_tokens (\<lambda>r. atk_user_id r = i) d)"

lemma issue_tokens_simps [simp]:
  "access_tokens (issue_tokens a k x y d) = access_tokens d @ [a]"
  "refresh_tokens (issue_tokens a k x y d) = refresh_tokens d @ [k]"
  "app_user_profiles (issue_tokens a k x y d) = app_user_profiles d"
  "password_reset_tokens (issue_tokens a k x y d) = password_reset_tokens d"
  "confirmation_tokens (issue_tokens a k x y d) = confirmation_tokens d"
  by (simp_all add: issue_tokens_def map_user_def)

lemma map_user_ids [simp]:
  assumes "\<And>u. usr_id (f u) = usr_id u"
  shows "map usr_id (users (map_user i f d)) = map usr_id (users d)"
  using assms by (simp add: map_user_def)

lemma revoke_tokens_simps [simp]:
  "access_tokens (revoke_tokens i d) = filter (\<lambda>r. atk_user_id r \<noteq> i) (access_tokens d)"
  "refresh_tokens (revoke_tokens i d) = filter (\<lambda>r. rtk_user_id r \<noteq> i) (refresh_tokens d)"
  "users (revoke_tokens i d) = users d"
  by (auto simp: revoke_tokens_def without_refresh_tokens_def without_access_tokens_def)

lemma without_tokens_simps [simp]:
  "users (without_refresh_tokens p d) = users d" "users (without_access_tokens p' d) = users d"
  "users (without_confirmation_tokens q d) = users d"
  "access_tokens (without_refresh_tokens p d) = access_tokens d"
  "access_tokens (without_confirmation_tokens q d) = access_tokens d"
  "refresh_tokens (without_refresh_tokens p d) = filter (\<lambda>r. \<not> p r) (refresh_tokens d)"
  "refresh_tokens (without_access_tokens p' d) = refresh_tokens d"
  "refresh_tokens (without_confirmation_tokens q d) = refresh_tokens d"
  "access_tokens (without_access_tokens p' d) = filter (\<lambda>r. \<not> p' r) (access_tokens d)"
  "confirmation_tokens (without_confirmation_tokens q d) = filter (\<lambda>r. \<not> q r) (confirmation_tokens d)"
  by (simp_all add: without_refresh_tokens_def without_access_tokens_def without_confirmation_tokens_def)

text \<open>The pair of rows and the result of one call of \<open>authenticateUser\<close>.\<close>

definition issued :: "env \<Rightarrow> auth_config \<Rightarrow> uuid \<Rightarrow> database \<Rightarrow> login_result \<Rightarrow> access_token_row \<Rightarrow> refresh_token_row \<Rightarrow> bool" where
  "issued e c i d r a k \<longleftrightarrow>
     has_user d i \<and> atk_user_id a = i \<and> rtk_user_id k = i \<and>
     (\<forall>q \<in> set (access_tokens d). atk_token q \<noteq> atk_token a) \<and>
     (\<forall>q \<in> set (refresh_tokens d). rtk_token q \<noteq> rtk_token k) \<and>
     (\<exists>n. atk_valid_until a = env_now e n + ac_access_token_validity c) \<and>
     r = \<lparr>lr_user_id = [], lr_access_token = atk_token a,
          lr_expires_in = duration_seconds (ac_access_token_validity c),
          lr_refresh_token = rtk_token k, lr_token_type = TokenTypeBearer\<rparr>"

section \<open>Outcomes of the statements\<close>

lemma access_token_insert_Ok:
  assumes "access_token_insert e Tx k w = (Ok a, t)"
  obtains d where "tx w = Some d" "has_user d (atk_user_id a)"
    and "\<forall>q \<in> set (access_tokens d). atk_token q \<noteq> atk_token a"
    and "atk_user_id a = atk_user_id k" "atk_valid_until a = atk_valid_until k"
    and "t = (tick (tick w))\<lparr>tx := Some (d\<lparr>access_tokens := access_tokens d @ [a]\<rparr>)\<rparr>"
  using assms by (auto simp: access_token_insert_def outcome_simps split: if_splits)

lemma refresh_token_insert_Ok:
  assumes "refresh_token_insert e Tx k w = (Ok a, t)"
  obtains d where "tx w = Some d" "has_user d (rtk_user_id a)"
    and "\<forall>q \<in> set (refresh_tokens d). rtk_token q \<noteq> rtk_token a"
    and "rtk_user_id a = rtk_user_id k"
    and "t = (tick (tick w))\<lparr>tx := Some (d\<lparr>refresh_tokens := refresh_tokens d @ [a]\<rparr>)\<rparr>"
  using assms by (auto simp: refresh_token_insert_def outcome_simps split: if_splits)

lemma user_update_Ok_iff [outcome_simps]:
  "user_update e Tx i f w = (Ok r, t) \<longleftrightarrow>
    (\<exists>d. env_fault e (Suc (clk w)) = None \<and> tx w = Some d \<and>
       t = (tick (tick w))\<lparr>tx := Some (map_user i (\<lambda>u. (f u)\<lparr>usr_updated_at := env_sysnow e (clk w)\<rparr>) d)\<rparr>)"
  by (auto simp: user_update_def outcome_simps)

text \<open>The first half of \<open>authenticateUser\<close>.\<close>

definition revoke_if :: "bool \<Rightarrow> uuid \<Rightarrow> database \<Rightarrow> database" where
  "revoke_if b i d = (if b then revoke_tokens i d else d)"

lemma has_user_same_users: "users d' = users d \<Longrightarrow> has_user d' i = has_user d i"
  by (simp add: has_user_def)

lemma authenticateUser_Ok:
  assumes "authenticateUser e c u rv w = (Ok r, t)"
  obtains d a k x y where "tx w = Some d"
    and "issued e c (du_id u) (revoke_if rv (du_id u) d) r a k"
    and "tx t = Some (issue_tokens a k x y (revoke_if rv (du_id u) d))"
    and "db t = db w" "mails t = mails w" "clk w < clk t"
proof -
  obtain v a v2 k v3 where
    first: "(if rv then
          thenP (modify_stmt ''models: unable to delete all from access_tokens'' e Tx
                   (without_access_tokens (\<lambda>r. atk_user_id r = du_id u)))
                (modify_stmt ''models: unable to delete all from refresh_tokens'' e Tx
                   (without_refresh_tokens (\<lambda>r. rtk_user_id r = du_id u)))
        else okP ()) w = (Ok (), v)"
    and a: "access_token_insert e Tx
               \<lparr>atk_token = [], atk_valid_until = env_now e (clk v) + ac_access_token_validity c,
                atk_user_id = du_id u, atk_created_at = zero_time, atk_updated_at = zero_time\<rparr> (tick v) = (Ok a, v2)"
    and k: "refresh_token_insert e Tx
               \<lparr>rtk_token = [], rtk_user_id = du_id u,
                rtk_created_at = zero_time, rtk_updated_at = zero_time\<rparr> v2 = (Ok k, v3)"
    and last: "user_update e Tx (du_id u)
        (\<lambda>r. r\<lparr>usr_last_authenticated_at := Some (env_now e (clk v3))\<rparr>) (tick v3) = (Ok (), t)"
    and r: "r = \<lparr>lr_user_id = [], lr_access_token = atk_token a,
              lr_expires_in = duration_seconds (ac_access_token_validity c),
              lr_refresh_token = rtk_token k, lr_token_type = TokenTypeBearer\<rparr>"
    using assms unfolding authenticateUser_def thenP_Ok_iff bindP_Ok_iff clock_now_iff okP_iff
    by (auto simp: ToModels_def)
  from a obtain da where da: "tx v = Some da" "has_user da (atk_user_id a)"
      "\<forall>q \<in> set (access_tokens da). atk_token q \<noteq> atk_token a"
    and a_user: "atk_user_id a = du_id u"
    and a_until: "atk_valid_until a = env_now e (clk v) + ac_access_token_validity c"
    and v2: "v2 = (tick (tick (tick v)))\<lparr>tx := Some (da\<lparr>access_tokens := access_tokens da @ [a]\<rparr>)\<rparr>"
    by (elim access_token_insert_Ok) simp
  from k v2 obtain k_user: "rtk_user_id k = du_id u"
    and k_new: "\<forall>q \<in> set (refresh_tokens da). rtk_token q \<noteq> rtk_token k"
    and v3: "v3 = (tick (tick v2))\<lparr>tx := Some (da\<lparr>access_tokens := access_tokens da @ [a],
               refresh_tokens := refresh_tokens da @ [k]\<rparr>)\<rparr>"
    by (elim refresh_token_insert_Ok) auto
  obtain d where d: "tx w = Some d" and dd: "da = revoke_if rv (du_id u) d"
    and same: "db v = db w" "mails v = mails w" "clk w \<le> clk v"
    using first da
    by (cases rv) (auto simp: outcome_simps revoke_if_def revoke_tokens_def)
  show thesis
  proof (rule that [OF d])
    show "issued e c (du_id u) (revoke_if rv (du_id u) d) r a k"
      using da a_user a_until k_user k_new r by (auto simp: issued_def dd)
    show "tx t = Some (issue_tokens a k (env_now e (clk v3)) (env_sysnow e (Suc (clk v3))) (revoke_if rv (du_id u) d))"
      using last v3 a_user by (simp add: outcome_simps issue_tokens_def dd)
  qed (use last v3 v2 same in \<open>auto simp: outcome_simps\<close>)
qed

section \<open>The invariant\<close>

lemma auth_ok_without:
  assumes "auth_ok d"
  shows "auth_ok (without_access_tokens p d)" "auth_ok (without_refresh_tokens q d)"
    "auth_ok (without_confirmation_tokens r d)"
  using auth_ok_filters [OF assms]
  by (simp_all add: without_access_tokens_def without_refresh_tokens_def without_confirmation_tokens_def)

lemma auth_ok_map_user:
  assumes "auth_ok d" and "\<And>u. usr_id (f u) = usr_id u" and "\<And>u. usr_username (f u) = usr_username u"
  shows "auth_ok (map_user i f d)"
  unfolding map_user_def by (rule auth_ok_update_users [OF assms(1)]) (simp_all add: assms(2,3))

lemma keeps_auth_inserts [keeps_intros]:
  "keeps (on_dbs auth_ok) (access_token_insert e h a)"
  "keeps (on_dbs auth_ok) (refresh_token_insert e h r)"
  "keeps (on_dbs auth_ok) (password_reset_token_insert e h p)"
  "keeps (on_dbs auth_ok) (confirmation_token_insert e h c)"
  "keeps (on_dbs auth_ok) (app_user_profile_insert e h f)"
  "keeps (on_dbs auth_ok) (user_insert e h u)"
  unfolding insert_defs
  by (intro keeps_intros keeps_insert_stmt;
      auto intro!: auth_ok_token_inserts auth_ok_user_insert split: if_splits)+

lemma keeps_auth_statements [keeps_intros]:
  "keeps (on_dbs auth_ok) (modify_stmt m e h (without_access_tokens p))"
  "keeps (on_dbs auth_ok) (modify_stmt m e h (without_refresh_tokens q))"
  "keeps (on_dbs auth_ok) (modify_stmt m e h (without_confirmation_tokens r))"
  by (auto intro!: keeps_modify_stmt auth_ok_without)

lemma keeps_delete_by_uuid:
  assumes "\<And>u d. P d \<Longrightarrow> P (f u d)"
  shows "keeps (on_dbs P) (delete_by_uuid tn e h t f)"
  unfolding delete_by_uuid_def
  by (intro keeps_wrapP keeps_stmt) (auto split: option.splits intro: assms)

lemma keeps_auth_deletes [keeps_intros]:
  "keeps (on_dbs auth_ok) (delete_by_uuid tn e h t (\<lambda>u. without_access_tokens (p u)))"
  "keeps (on_dbs auth_ok) (delete_by_uuid tn e h t (\<lambda>u. without_refresh_tokens (q u)))"
  "keeps (on_dbs auth_ok) (users_delete_all e h i)"
  by (auto intro!: keeps_delete_by_uuid auth_ok_without)
    (auto simp: users_delete_all_def intro!: keeps_wrapP keeps_stmt auth_ok_cascade split: option.splits)

lemma keeps_user_update:
  assumes "\<And>u. usr_id (f u) = usr_id u" and "\<And>u. usr_username (f u) = usr_username u"
  shows "keeps (on_dbs auth_ok) (user_update e h i f)"
  unfolding user_update_def
  by (intro keeps_intros keeps_modify_stmt auth_ok_map_user) (simp_all add: assms)

lemma keeps_one_with_user [keeps_intros]:
  "keeps (on_dbs P) (one_with_user tn e h tab key t p owner)"
  unfolding one_with_user_def by (intro keeps_intros)

lemma keeps_HashPassword [keeps_intros]: "keeps (on_dbs P) (HashPassword e pw p)"
proof -
  have "keeps (on_dbs P) (generateSalt e n)" for n
    by (rule keepsI) (auto simp: generateSalt_def on_dbs_def split: option.splits)
  moreover have "keeps (on_dbs P) (\<lambda>w. case IDKey e pw salt p of
      Panic c \<Rightarrow> (Panic c, w) | Err x \<Rightarrow> (Err x, w) | Ok key \<Rightarrow> (Ok (f key), w))" for salt f
    by (auto simp: keeps_def split: outcome.split)
  ultimately show ?thesis unfolding HashPassword_def by (intro keeps_intros)
qed

lemma keeps_authenticateUser [keeps_intros]: "keeps (on_dbs auth_ok) (authenticateUser e c u rv)"
  unfolding authenticateUser_def by (intro keeps_intros keeps_user_update) simp_all

lemma keeps_service [keeps_intros]:
  "keeps (on_dbs auth_ok) (GetAppUserProfile e i)"
  "keeps (on_dbs auth_ok) (UpdatePassword e c request)"
  "keeps (on_dbs auth_ok) (InitPasswordReset e c name)"
  "keeps (on_dbs auth_ok) (Logout e at rt)"
  "keeps (on_dbs auth_ok) (Login e c name pw)"
  "keeps (on_dbs auth_ok) (Refresh e c rt')"
  "keeps (on_dbs auth_ok) (Register e c name pw)"
  "keeps (on_dbs auth_ok) (DeleteUserAccount e u pw)"
  "keeps (on_dbs auth_ok) (CompleteRegister e c ct)"
  unfolding GetAppUserProfile_def UpdatePassword_def UpdatePassword_tx_def verify_current_def
    InitPasswordReset_def InitPasswordReset_tx_def reset_debounced_def Logout_def Logout_tx_def
    Login_def Refresh_def Refresh_tx_def Register_def Register_tx_def Register_existing_def
    DeleteUserAccount_def CompleteRegister_def CompleteRegister_tx_def
  by (intro keeps_intros keeps_user_update; simp)+

lemma keeps_ResetPassword [keeps_intros]: "keeps (on_dbs auth_ok) (ResetPassword e c tok pw)"
  unfolding ResetPassword_def by (intro keeps_intros)

section \<open>Failures\<close>

text \<open>From the interpretations of \<open>tx_handler\<close>: a transaction of the service that fails changes nothing.\<close>

lemmas auth_tx_clean [clean_intros] =
  auth_issue.clean auth_update.clean auth_init_reset.clean auth_logout.clean auth_refresh.clean
  auth_register.clean auth_delete.clean auth_complete.clean

lemma fails_clean_liftP [clean_intros]: "fails_clean (liftP r)" "fails_clean (deref x)"
  by (auto intro!: fails_clean_frame frame_intros)

lemma frame_db_checks [frame_intros]:
  "frame db (verify_current e request h)" "frame db (reset_debounced e c user)"
  unfolding verify_current_def reset_debounced_def by (intro frame_intros)+

lemma fails_clean_confirmation_insert: "fails_clean (confirmation_token_insert e h c)"
  unfolding confirmation_token_insert_def by (intro clean_intros frame_intros)

lemma fails_clean_Register_existing [clean_intros]: "fails_clean (Register_existing e c user)"
  unfolding Register_existing_def
  by (intro clean_intros frame_intros fails_clean_last fails_clean_confirmation_insert)
    (simp_all add: okP_def)

lemma fails_clean_service [clean_intros]:
  "fails_clean (GetAppUserProfile e i)"
  "fails_clean (UpdatePassword e c request)"
  "fails_clean (InitPasswordReset e c name)"
  "fails_clean (Logout e at rt)"
  "fails_clean (Login e c name pw)"
  "fails_clean (Refresh e c rt')"
  "fails_clean (Register e c name pw)"
  "fails_clean (DeleteUserAccount e u pw)"
  "fails_clean (CompleteRegister e c ct)"
  unfolding GetAppUserProfile_def UpdatePassword_def InitPasswordReset_def Logout_def
    Login_def Refresh_def Register_def DeleteUserAccount_def CompleteRegister_def
  by (intro clean_intros frame_intros)+

lemma fails_clean_ResetPassword [clean_intros]: "fails_clean (ResetPassword e c tok pw)"
  unfolding ResetPassword_def by (intro clean_intros frame_intros)

end
