(* ===== verification/Approval_Params.thy ===== *)
theory Approval_Params
  imports Base64
begin

text \<open>
  The JSON texts of \<open>signing.ApprovalParams\<close> (internal/service/signing/service.go) that the signing
  service stores in the comment of an approval and reads back when it collects the credentials for
  the MPC call.  \<open>marshal_params\<close> is \<open>json.Marshal\<close> of the struct: members in the order of the
  fields, byte slices as padded base64, strings quoted with the escapes of \<open>encoding/json\<close> (for
  valid UTF-8 without U+2028 and U+2029).  \<open>unmarshal_params\<close> is \<open>json.Unmarshal\<close> on the texts of
  that form; any other text, which no code of the repository stores in an approval, is read as the
  zero value.
\<close>

record approval_params =
  ap_user_id :: string
  ap_credential_id :: string
  ap_signature :: string
  ap_authenticator_data :: string
  ap_client_data_json :: string

definition zero_params :: approval_params where
  "zero_params = \<lparr>ap_user_id = [], ap_credential_id = [], ap_signature = [],
     ap_authenticator_data = [], ap_client_data_json = []\<rparr>"

section \<open>Strings\<close>

definition hex_digit :: "nat \<Rightarrow> char" where
  "hex_digit n = ''0123456789abcdef'' ! n"

definition quote_char :: "char \<Rightarrow> string" where
  "quote_char c =
     (if code c = 34 then [CHR 0x5C, CHR 0x22]
      else if code c = 92 then [CHR 0x5C, CHR 0x5C]
      else if code c = 8 then [CHR 0x5C, CHR ''b'']
      else if code c = 9 then [CHR 0x5C, CHR ''t'']
      else if code c = 10 then [CHR 0x5C, CHR ''n'']
      else if code c = 12 then [CHR 0x5C, CHR ''f'']
      else if code c = 13 then [CHR 0x5C, CHR ''r'']
      else if code c < 32 \<or> code c = 60 \<or> code c = 62 \<or> code c = 38 then
        [CHR 0x5C, CHR ''u'', CHR ''0'', CHR ''0'', hex_digit (code c div 16), hex_digit (code c mod 16)]
      else [c])"

definition json_quote :: "string \<Rightarrow> string" where
  "json_quote s = CHR 0x22 # concat (map quote_char s) @ [CHR 0x22]"

definition hex_value :: "char \<Rightarrow> nat option" where
  "hex_value c = index_of c ''0123456789abcdef''"

definition unescape :: "char \<Rightarrow> char option" where
  "unescape c = map_of [(CHR 0x22, CHR 0x22), (CHR 0x5C, CHR 0x5C), (CHR ''b'', CHR 0x08),
     (CHR ''t'', CHR 0x09), (CHR ''n'', CHR 0x0A), (CHR ''f'', CHR 0x0C), (CHR ''r'', CHR 0x0D)] c"

text \<open>The text after an opening quote, up to the closing quote.\<close>

function json_body :: "string \<Rightarrow> (string \<times> string) option" where
  "json_body s = (case s of
      [] \<Rightarrow> None
    | c # r \<Rightarrow>
       if code c = 34 then Some ([], r)
       else if code c \<noteq> 92 then map_option (apfst (Cons c)) (json_body r)
       else (case r of
          [] \<Rightarrow> None
        | x # r1 \<Rightarrow>
           if x = CHR ''u'' then (case r1 of
               z0 # z1 # h # l # r2 \<Rightarrow>
                 (case (hex_value h, hex_value l) of
                    (Some a, Some b) \<Rightarrow>
                      if z0 = CHR ''0'' \<and> z1 = CHR ''0'' then
                        map_option (apfst (Cons (char_of (16 * a + b)))) (json_body r2)
                      else None
                  | _ \<Rightarrow> None)
             | _ \<Rightarrow> None)
           else (case unescape x of
               None \<Rightarrow> None
             | Some y \<Rightarrow> map_option (apfst (Cons y)) (json_body r1))))"
  by pat_completeness auto
termination
  by (relation "measure length") (auto split: list.splits)

declare json_body.simps [simp del]

definition json_string :: "string \<Rightarrow> (string \<times> string) option" where
  "json_string s = (case s of [] \<Rightarrow> None | c # r \<Rightarrow> if code c = 34 then json_body r else None)"

lemma hex_digits:
  assumes "n < 16" shows "hex_value (hex_digit n) = Some n"
  unfolding hex_value_def hex_digit_def by (rule index_of_nth) (use assms in simp_all)

lemma special_codes:
  "code (CHR 0x22) = 34" "code (CHR 0x5C) = 92" "code (CHR 0x08) = 8" "code (CHR 0x09) = 9"
  "code (CHR 0x0A) = 10" "code (CHR 0x0C) = 12" "code (CHR 0x0D) = 13"
  by (simp_all add: code_def)

lemma special_quotes:
  "\<forall>c \<in> {CHR 0x22, CHR 0x5C, CHR 0x08, CHR 0x09, CHR 0x0A, CHR 0x0C, CHR 0x0D}.
     \<exists>x. quote_char c = [CHR 0x5C, x] \<and> unescape x = Some c \<and> x \<noteq> CHR ''u''"
  by (simp add: quote_char_def special_codes unescape_def)

lemma json_body_quote_char:
  "json_body (quote_char c @ s) = map_option (apfst (Cons c)) (json_body s)"
proof -
  have special: "json_body (CHR 0x5C # x # s) = map_option (apfst (Cons c)) (json_body s)"
    if "unescape x = Some c" "x \<noteq> CHR ''u''" for x
    using that by (subst json_body.simps) (simp add: code_def)
  have u: "json_body (CHR 0x5C # CHR ''u'' # CHR ''0'' # CHR ''0'' # hex_digit (code c div 16) # hex_digit (code c mod 16) # s)
      = map_option (apfst (Cons c)) (json_body s)"
    using hex_digits [of "code c div 16"] hex_digits [of "code c mod 16"] code_less [of c]
    by (subst json_body.simps) (simp add: code_def less_mult_imp_div_less)
  have plain: "code c \<noteq> 34 \<Longrightarrow> code c \<noteq> 92 \<Longrightarrow> json_body (c # s) = map_option (apfst (Cons c)) (json_body s)"
    by (subst json_body.simps) simp
  have lit: "code c = code d \<Longrightarrow> c = d" for d by simp
  consider (esc) x where "quote_char c = [CHR 0x5C, x]" "unescape x = Some c" "x \<noteq> CHR ''u''"
    | (uni) "quote_char c = [CHR 0x5C, CHR ''u'', CHR ''0'', CHR ''0'', hex_digit (code c div 16), hex_digit (code c mod 16)]"
    | (same) "quote_char c = [c]" "code c \<noteq> 34" "code c \<noteq> 92"
  proof (cases "code c \<in> {34, 92, 8, 9, 10, 12, 13}")
    case True
    then have "c \<in> {CHR 0x22, CHR 0x5C, CHR 0x08, CHR 0x09, CHR 0x0A, CHR 0x0C, CHR 0x0D}"
      using special_codes lit by (metis insert_iff empty_iff)
    then obtain x where "quote_char c = [CHR 0x5C, x]" "unescape x = Some c" "x \<noteq> CHR ''u''"
      using special_quotes by auto
    then show thesis by (rule esc)
  next
    case False
    then show thesis
      using uni same
      by (cases "code c < 32 \<or> code c = 60 \<or> code c = 62 \<or> code c = 38") (auto simp: quote_char_def)
  qed
  then show ?thesis
    by cases (simp_all add: special u plain)
qed

lemma json_string_quote [simp]: "json_string (json_quote s @ r) = Some (s, r)"
proof -
  have "json_body (concat (map quote_char s) @ CHR 0x22 # r) = Some (s, r)"
    by (induction s) (simp_all add: json_body_quote_char json_body.simps [of "CHR 0x22 # r"] code_def)
  then show ?thesis by (simp add: json_string_def json_quote_def code_def)
qed

section \<open>The struct\<close>

definition key_text :: "string \<Rightarrow> string" where
  "key_text k = CHR 0x22 # k @ [CHR 0x22, CHR '':'']"

definition marshal_params :: "approval_params \<Rightarrow> string" where
  "marshal_params p =
     ''{'' @ key_text ''UserID'' @ json_quote (ap_user_id p) @
     '','' @ key_text ''CredentialID'' @ json_quote (Std_EncodeToString (ap_credential_id p)) @
     '','' @ key_text ''Signature'' @ json_quote (Std_EncodeToString (ap_signature p)) @
     '','' @ key_text ''AuthenticatorData'' @ json_quote (Std_EncodeToString (ap_authenticator_data p)) @
     '','' @ key_text ''ClientDataJSON'' @ json_quote (Std_EncodeToString (ap_client_data_json p)) @ ''}''"

definition member :: "string \<Rightarrow> string \<Rightarrow> (string \<times> string) option" where
  "member lit s = Option.bind (scan_lit lit s) json_string"

definition unmarshal_params :: "string \<Rightarrow> approval_params" where
  "unmarshal_params s =
     (case Option.bind (member (''{'' @ key_text ''UserID'') s) (\<lambda>(u, s1).
           Option.bind (member ('','' @ key_text ''CredentialID'') s1) (\<lambda>(c, s2).
           Option.bind (member ('','' @ key_text ''Signature'') s2) (\<lambda>(g, s3).
           Option.bind (member ('','' @ key_text ''AuthenticatorData'') s3) (\<lambda>(a, s4).
           Option.bind (member ('','' @ key_text ''ClientDataJSON'') s4) (\<lambda>(d, s5).
             if s5 \<noteq> ''}'' then None
             else (case (Std_DecodeString c, Std_DecodeString g, Std_DecodeString a, Std_DecodeString d) of
                (Some c', Some g', Some a', Some d') \<Rightarrow>
                  Some \<lparr>ap_user_id = u, ap_credential_id = c', ap_signature = g',
                        ap_authenticator_data = a', ap_client_data_json = d'\<rparr>
              | _ \<Rightarrow> None)))))) of
        Some p \<Rightarrow> p
      | None \<Rightarrow> zero_params)"

lemma member_quote: "member lit (lit @ json_quote v @ r) = Some (v, r)"
  by (simp add: member_def)

lemma unmarshal_marshal [simp]: "unmarshal_params (marshal_params p) = p"
proof -
  have m: "member ('','' @ key_text k) ('','' @ key_text k @ json_quote v @ r) = Some (v, r)" for k v r
    using member_quote [of "'','' @ key_text k" v r] by simp
  have f: "member (''{'' @ key_text k) (''{'' @ key_text k @ json_quote v @ r) = Some (v, r)" for k v r
    using member_quote [of "''{'' @ key_text k" v r] by simp
  show ?thesis
    unfolding unmarshal_params_def marshal_params_def
    by (simp only: m f bind.bind_lunit prod.case Std_roundtrip option.case) simp
qed

end
