(* ===== verification/Examples.thy ===== *)
theory Examples
  imports Auth_Service Approval_Params
begin

text \<open>
  Concrete environments, configurations and worlds: the inputs at which the properties with
  hypotheses are shown to apply.  Statement number \<open>n\<close> generates the uuid \<open>unary n\<close>, the clocks
  advance by one second per interaction.
\<close>

definition unary :: "nat \<Rightarrow> string" where
  "unary n = replicate (Suc n) (CHR ''u'')"

definition zero_byte :: char where
  "zero_byte = CHR 0x00"

definition example_env :: env where
  "example_env = \<lparr>env_fault = (\<lambda>_. None), env_now = (\<lambda>n. int n * second),
     env_sysnow = (\<lambda>n. int n * second), env_uuid = unary, env_parse_uuid = Some,
     env_rand = (\<lambda>_ n. Some (replicate n zero_byte)),
     env_argon2 = (\<lambda>pw _ t _ p k. if t = 0 \<or> p = 0 then None
         else if pw = ''secret'' then Some (replicate k zero_byte) else Some (replicate k (CHR 0x01))),
     env_sign = (\<lambda>_ c. Inr (''sig'' @ sc_message_hex c)),
     env_key = (\<lambda>_ _. Inr (replicate 66 (CHR ''a'')))\<rparr>"

text \<open>The same environment with statement \<open>n\<close> failing.\<close>

definition faulty_env :: "nat \<Rightarrow> env" where
  "faulty_env n = example_env\<lparr>env_fault := (\<lambda>m. if m = n then Some ''connection reset'' else None)\<rparr>"

lemma example_env_simps [simp]:
  "env_fault example_env n = None" "env_now example_env n = int n * second"
  "env_sysnow example_env n = int n * second" "env_uuid example_env n = unary n"
  "env_parse_uuid example_env s = Some s" "env_rand example_env n k = Some (replicate k zero_byte)"
  "env_argon2 example_env pw s t m p k = (if t = 0 \<or> p = 0 then None
         else if pw = ''secret'' then Some (replicate k zero_byte) else Some (replicate k (CHR 0x01)))"
  "env_sign example_env n c = Inr (''sig'' @ sc_message_hex c)"
  "env_key example_env n q = Inr (replicate 66 (CHR ''a''))"
  by (simp_all add: example_env_def)

lemma faulty_env_simps [simp]:
  "env_fault (faulty_env k) n = (if n = k then Some ''connection reset'' else None)"
  "env_now (faulty_env k) n = int n * second" "env_sysnow (faulty_env k) n = int n * second"
  "env_uuid (faulty_env k) n = unary n" "env_parse_uuid (faulty_env k) s = Some s"
  "env_argon2 (faulty_env k) = env_argon2 example_env"
  by (simp_all add: faulty_env_def)

lemma unary_eq [simp]: "unary m = unary n \<longleftrightarrow> m = n"
  by (auto simp: unary_def dest: arg_cong [where f = length])

lemma unary_not_Nil [simp]: "unary n \<noteq> []" "[] \<noteq> unary n"
  by (auto simp: unary_def)

definition example_auth_config :: auth_config where
  "example_auth_config = \<lparr>ac_access_token_validity = 86400 * second,
     ac_password_reset_token_validity = 900 * second, ac_password_reset_token_debounce = 60 * second,
     ac_password_reset_token_reuse = 0, ac_default_user_scopes = [''app''],
     ac_last_authenticated_at_threshold = 900 * second, ac_registration_requires_confirmation = True,
     ac_confirmation_token_validity = 900 * second, ac_confirmation_token_debounce = 60 * second\<rparr>"

text \<open>A stored hash whose three byte key is what \<open>example_env\<close> derives from \<open>secret\<close>.\<close>

definition secret_hash :: string where
  "secret_hash = ''$argon2id$v=19$m=1,t=1,p=1$AAAA$AAAA''"

definition alice :: user_row where
  "alice = \<lparr>usr_id = ''alice'', usr_username = Some ''alice'', usr_password = Some secret_hash,
     usr_is_active = True, usr_scopes = [''app''], usr_last_authenticated_at = None,
     usr_created_at = 0, usr_updated_at = 0, usr_requires_confirmation = False\<rparr>"

definition bob :: user_row where
  "bob = \<lparr>usr_id = ''bob'', usr_username = Some ''bob'', usr_password = Some secret_hash,
     usr_is_active = False, usr_scopes = [''app''], usr_last_authenticated_at = None,
     usr_created_at = 0, usr_updated_at = 0, usr_requires_confirmation = True\<rparr>"

definition example_db :: database where
  "example_db = empty_db\<lparr>users := [alice, bob],
     access_tokens := [\<lparr>atk_token = ''old'', atk_valid_until = 100, atk_user_id = ''alice'',
        atk_created_at = 0, atk_updated_at = 0\<rparr>],
     refresh_tokens := [\<lparr>rtk_token = ''fresh'', rtk_user_id = ''alice'', rtk_created_at = 0, rtk_updated_at = 0\<rparr>],
     password_reset_tokens := [\<lparr>prt_token = ''reset'', prt_valid_until = 1000 * second,
        prt_user_id = ''alice'', prt_created_at = - 3600 * second, prt_updated_at = 0\<rparr>],
     confirmation_tokens := [\<lparr>ctk_token = ''confirm'', ctk_valid_until = 1000 * second,
        ctk_user_id = ''bob'', ctk_created_at = 0, ctk_updated_at = 0\<rparr>]\<rparr>"

definition example_world :: world where
  "example_world = \<lparr>clk = 0, db = example_db, tx = None, mails = [], sign_calls = [], key_calls = []\<rparr>"

lemma example_world_simps [simp]:
  "clk example_world = 0" "db example_world = example_db" "tx example_world = None"
  by (simp_all add: example_world_def)

lemma alice_simps [simp]:
  "usr_id alice = ''alice''" "usr_username alice = Some ''alice''" "usr_password alice = Some secret_hash"
  "usr_is_active alice" "\<not> usr_requires_confirmation alice"
  by (simp_all add: alice_def)

lemma bob_simps [simp]:
  "usr_id bob = ''bob''" "usr_username bob = Some ''bob''" "usr_password bob = Some secret_hash"
  "\<not> usr_is_active bob" "usr_requires_confirmation bob"
  by (simp_all add: bob_def)

section \<open>Custody\<close>

definition example_params :: "string \<Rightarrow> approval_params" where
  "example_params u = \<lparr>ap_user_id = u, ap_credential_id = ''c'', ap_signature = ''s'',
     ap_authenticator_data = ''d'', ap_client_data_json = ''j''\<rparr>"

text \<open>An organization of alice with a vault, a wallet and a request that bob has approved.\<close>

definition custody_db :: database where
  "custody_db = example_db\<lparr>
     organizations := [\<lparr>org_id = ''org'', org_name = ''acme'', org_owner_id = ''alice'',
        org_created_at = None, org_updated_at = None\<rparr>],
     organization_members := [\<lparr>mem_organization_id = ''org'', mem_user_id = ''bob'', mem_role = ''operator'',
        mem_created_at = None\<rparr>],
     chains := [\<lparr>chn_id = ''ETH'', chn_name = ''Ethereum'', chn_type = ''EVM'', chn_chain_id = Some ''1'',
        chn_algorithm = ''ECDSA'', chn_curve = ''secp256k1'', chn_currency_symbol = ''ETH'', chn_rpc_url = None,
        chn_explorer_url = None, chn_icon_url = None, chn_is_testnet = None, chn_created_at = None, chn_updated_at = None\<rparr>],
     vaults := [\<lparr>vlt_id = ''vault'', vlt_organization_id = Some ''org'', vlt_name = ''main'', vlt_threshold = 2,
        vlt_created_at = None, vlt_updated_at = None\<rparr>],
     wallets := [\<lparr>wal_id = ''wallet'', wal_vault_id = Some ''vault'', wal_chain_id = Some ''ETH'',
        wal_key_id = ''wallet'', wal_address = ''0xabc'', wal_derive_path = ''m'', wal_derive_index = 0,
        wal_created_at = None, wal_updated_at = None\<rparr>],
     signing_requests := [\<lparr>srq_id = ''req'', srq_vault_id = None, srq_wallet_id = Some ''wallet'',
        srq_initiator_id = Some ''alice'', srq_tx_data = ''00ff'', srq_tx_hash = None, srq_amount = None,
        srq_to_address = None, srq_note = Some [], srq_status = Some ''pending'', srq_mpc_session_id = None,
        srq_signature = None, srq_created_at = None, srq_updated_at = None\<rparr>],
     approvals := [\<lparr>apv_id = ''a1'', apv_request_id = Some ''req'', apv_user_id = Some ''bob'',
        apv_action = ''approve'', apv_comment = Some (marshal_params (example_params ''bob'')),
        apv_created_at = None, apv_updated_at = None\<rparr>]\<rparr>"

definition custody_world :: world where
  "custody_world = example_world\<lparr>db := custody_db\<rparr>"

lemma custody_world_simps [simp]:
  "clk custody_world = 0" "db custody_world = custody_db" "tx custody_world = None"
  "sign_calls custody_world = []" "key_calls custody_world = []"
  by (simp_all add: custody_world_def example_world_def)

text \<open>Custody without the wallet and its request.\<close>

definition no_wallet_world :: world where
  "no_wallet_world = custody_world\<lparr>db := custody_db\<lparr>wallets := [], signing_requests := [], approvals := []\<rparr>\<rparr>"

lemma no_wallet_world_simps [simp]:
  "clk no_wallet_world = 0" "tx no_wallet_world = None" "key_calls no_wallet_world = []"
  by (simp_all add: no_wallet_world_def)

end
