(* ===== verification/Auth_Theorems.thy ===== *)
theory Auth_Theorems
  imports Auth_Facts Examples
begin

text \<open>
  The properties of the authentication service: what each method that returns normally has checked
  and done, what a failed call leaves behind, and the runs that show where the service does less
  than its callers may expect.
\<close>

section \<open>All methods\<close>


lemma example_auth_ok: "on_dbs auth_ok example_world"
  by (simp add: on_dbs_def auth_ok_def example_db_def empty_db_def users_ok_def table_ok_def user_ids_def)


text \<open>
  C6: a call of any method of the service that ends in an error or a panic has changed nothing in
  the committed database, whatever fails and wherever: the transactions make each method atomic.
\<close>

theorem auth_failure_changes_nothing:
  "fails_clean (GetAppUserProfile e i) \<and> fails_clean (UpdatePassword e c request) \<and>
   fails_clean (ResetPassword e c tok pw) \<and> fails_clean (InitPasswordReset e c name) \<and>
   fails_clean (Logout e at rt) \<and> fails_clean (Login e c name pw) \<and> fails_clean (Refresh e c tok) \<and>
   fails_clean (Register e c name pw) \<and> fails_clean (DeleteUserAccount e u pw) \<and>
   fails_clean (CompleteRegister e c tok)"
  by (intro conjI clean_intros)

section \<open>Login\<close>

lemma ComparePasswordAndHash_pure_Ok [outcome_simps]:
  "liftP (ComparePasswordAndHash e pw h) w = (Ok b, t) \<longleftrightarrow> ComparePasswordAndHash e pw h = Ok b \<and> t = w"
  by (auto simp: liftP_def)

lemma issue_tx_Ok:
  assumes "WithTransaction e (authenticateUser e c u rv) w = (Ok r, t)"
  obtains a k x y where "issued e c (du_id u) (revoke_if rv (du_id u) (db w)) r a k"
    and "saved e w t (issue_tokens a k x y (revoke_if rv (du_id u) (db w)))"
proof -
  from assms obtain v where run: "authenticateUser e c u rv ((tick w)\<lparr>tx := Some (db w)\<rparr>) = (Ok r, v)"
    and save: "\<And>d. tx v = Some d \<Longrightarrow> saved e w t d"
    by (rule auth_issue.ok_saved) blast
  from run show thesis
    by (elim authenticateUser_Ok) (auto dest!: save intro: that)
qed

lemma Login_Ok:
  assumes "Login e c username password w = (Ok r, t)"
  shows "\<exists>user h a k x y. find (\<lambda>u. usr_username u = Some (ToUsernameFormat username)) (users (db w)) = Some user \<and>
      usr_is_active user \<and> usr_password user = Some h \<and> ComparePasswordAndHash e password h = Ok True \<and>
      issued e c (usr_id user) (db w) r a k \<and> saved e w t (issue_tokens a k x y (db w))"
proof -
  from assms obtain user h v where
    find: "find (\<lambda>u. usr_username u = Some (ToUsernameFormat username)) (users (db w)) = Some user"
    and ok: "usr_is_active user" "usr_password user = Some h" "ComparePasswordAndHash e password h = Ok True"
    and v: "v = tick w"
    and run: "WithTransaction e (authenticateUser e c (LocalUserToDTO user None) False) v = (Ok r, t)"
    unfolding Login_def
    by (auto simp del: WithTransaction_Ok_iff simp: outcome_simps errP_def okP_def liftP_def tryP_def
        split: if_splits option.splits prod.splits outcome.splits)
  from run obtain a k x y where "issued e c (usr_id user) (db w) r a k"
    and "saved e v t (issue_tokens a k x y (db w))"
    by (elim issue_tx_Ok) (auto simp: revoke_if_def v)
  then show ?thesis using find ok v saved_start [of e v t _ w] by fastforce
qed

text \<open>
  C7: \<open>Login\<close> returns tokens only for the active user with the (normalised) user name whose stored
  hash matches the password, and then a new access and a new refresh token of that user have been
  stored and its last authentication updated, or the commit failed and nothing has changed.
\<close>

theorem Login_sound:
  assumes "Login e c username password w = (Ok r, t)"
  shows "\<exists>user h a k x y. find (\<lambda>u. usr_username u = Some (ToUsernameFormat username)) (users (db w)) = Some user \<and>
      usr_is_active user \<and> usr_password user = Some h \<and> ComparePasswordAndHash e password h = Ok True \<and>
      issued e c (usr_id user) (db w) r a k \<and> saved e w t (issue_tokens a k x y (db w))"
  using assms by (rule Login_Ok)

theorem Login_sound_witness:
  "\<exists>r t. Login example_env example_auth_config '' Alice'' ''secret'' example_world = (Ok r, t) \<and>
     (\<exists>user h a k x y. find (\<lambda>u. usr_username u = Some (ToUsernameFormat '' Alice'')) (users (db example_world)) = Some user \<and>
      usr_is_active user \<and> usr_password user = Some h \<and> ComparePasswordAndHash example_env ''secret'' h = Ok True \<and>
      issued example_env example_auth_config (usr_id user) (db example_world) r a k \<and>
      saved example_env example_world t (issue_tokens a k x y (db example_world)))"
  by (rule run_instance, code_simp, rule Login_sound)

section \<open>Enough for a login\<close>

lemma access_token_insert_run:
  assumes "\<And>n. env_fault e n = None" "tx w = Some d" "has_user d (atk_user_id k)" "atk_token k = []"
    and "\<And>n q. q \<in> set (access_tokens d) \<Longrightarrow> atk_token q \<noteq> env_uuid e n"
  shows "\<exists>a. access_token_insert e Tx k w = (Ok a, (tick (tick w))\<lparr>tx := Some (d\<lparr>access_tokens := access_tokens d @ [a]\<rparr>)\<rparr>)"
proof -
  define a where "a = k\<lparr>atk_token := default_id (env_uuid e (Suc (clk w))) (atk_token k),
              atk_created_at := default_time (env_sysnow e (clk w)) (atk_created_at k),
              atk_updated_at := default_time (env_sysnow e (clk w)) (atk_updated_at k)\<rparr>"
  have "access_token_insert e Tx k w = (Ok a, (tick (tick w))\<lparr>tx := Some (d\<lparr>access_tokens := access_tokens d @ [a]\<rparr>)\<rparr>)"
    using assms by (auto simp: access_token_insert_def outcome_simps a_def default_id_def)
  then show ?thesis ..
qed

lemma refresh_token_insert_run:
  assumes "\<And>n. env_fault e n = None" "tx w = Some d" "has_user d (rtk_user_id k)" "rtk_token k = []"
    and "\<And>n q. q \<in> set (refresh_tokens d) \<Longrightarrow> rtk_token q \<noteq> env_uuid e n"
  shows "\<exists>a. refresh_token_insert e Tx k w = (Ok a, (tick (tick w))\<lparr>tx := Some (d\<lparr>refresh_tokens := refresh_tokens d @ [a]\<rparr>)\<rparr>)"
proof -
  define a where "a = k\<lparr>rtk_token := default_id (env_uuid e (Suc (clk w))) (rtk_token k),
              rtk_created_at := default_time (env_sysnow e (clk w)) (rtk_created_at k),
              rtk_updated_at := default_time (env_sysnow e (clk w)) (rtk_updated_at k)\<rparr>"
  have "refresh_token_insert e Tx k w = (Ok a, (tick (tick w))\<lparr>tx := Some (d\<lparr>refresh_tokens := refresh_tokens d @ [a]\<rparr>)\<rparr>)"
    using assms by (auto simp: refresh_token_insert_def outcome_simps a_def default_id_def)
  then show ?thesis ..
qed

definition fresh_uuids :: "env \<Rightarrow> database \<Rightarrow> bool" where
  "fresh_uuids e d \<longleftrightarrow> (\<forall>n. \<forall>q \<in> set (access_tokens d). atk_token q \<noteq> env_uuid e n) \<and>
     (\<forall>n. \<forall>q \<in> set (refresh_tokens d). rtk_token q \<noteq> env_uuid e n)"

lemma authenticateUser_succeeds:
  assumes ok: "\<And>n. env_fault e n = None" and d: "tx w = Some d" and u: "has_user d (du_id u)"
    and fresh: "fresh_uuids e d"
  shows "\<exists>r t. authenticateUser e c u False w = (Ok r, t)"
proof -
  let ?a = "\<lparr>atk_token = [], atk_valid_until = env_now e (clk w) + ac_access_token_validity c,
     atk_user_id = du_id u, atk_created_at = zero_time, atk_updated_at = zero_time\<rparr>"
  obtain a v where a: "access_token_insert e Tx ?a (tick w) = (Ok a, v)"
    and v: "v = (tick (tick (tick w)))\<lparr>tx := Some (d\<lparr>access_tokens := access_tokens d @ [a]\<rparr>)\<rparr>"
    using access_token_insert_run [OF ok, of "tick w" d ?a] d u fresh by (auto simp: fresh_uuids_def)
  let ?k = "\<lparr>rtk_token = [], rtk_user_id = du_id u, rtk_created_at = zero_time, rtk_updated_at = zero_time\<rparr>"
  obtain k v2 where k: "refresh_token_insert e Tx ?k v = (Ok k, v2)" and v2: "tx v2 \<noteq> None"
    using refresh_token_insert_run [OF ok, of v "d\<lparr>access_tokens := access_tokens d @ [a]\<rparr>" ?k] v u fresh
    by (auto simp: fresh_uuids_def has_user_def)
  have "\<exists>t. user_update e Tx (du_id u) f (tick v2) = (Ok (), t)" for f
    using ok v2 by (auto simp: outcome_simps)
  then show ?thesis
    using a k by (auto simp: authenticateUser_def outcome_simps ToModels_def)
qed

text \<open>
  C8: with working statements and fresh uuids, \<open>Login\<close> of an active user with the right password
  returns tokens.
\<close>

theorem Login_complete:
  assumes "\<And>n. env_fault e n = None" and "fresh_uuids e (db w)"
    and "find (\<lambda>u. usr_username u = Some (ToUsernameFormat username)) (users (db w)) = Some user"
    and "usr_is_active user" and "usr_password user = Some h"
    and "ComparePasswordAndHash e password h = Ok True"
  shows "\<exists>r t. Login e c username password w = (Ok r, t)"
proof -
  have "has_user (db w) (usr_id user)"
    using find_SomeD [OF assms(3)] by (auto simp: has_user_def)
  then obtain r v where "authenticateUser e c (LocalUserToDTO user None) False
      ((tick (tick w))\<lparr>tx := Some (db w)\<rparr>) = (Ok r, v)"
    using authenticateUser_succeeds [OF assms(1), of "(tick (tick w))\<lparr>tx := Some (db w)\<rparr>" "db w"
        "LocalUserToDTO user None" c] assms(2) by auto
  then have "\<exists>t. WithTransaction e (authenticateUser e c (LocalUserToDTO user None) False) (tick w) = (Ok r, t)"
    using assms(1) by (auto simp: outcome_simps)
  then show ?thesis
    using assms by (auto simp del: WithTransaction_Ok_iff simp: Login_def outcome_simps)
qed

theorem Login_complete_witness:
  "\<exists>r t. Login example_env example_auth_config ''ALICE'' ''secret'' example_world = (Ok r, t)"
proof (rule Login_complete)
  show "find (\<lambda>u. usr_username u = Some (ToUsernameFormat ''ALICE'')) (users (db example_world)) = Some alice"
    by code_simp
  show "ComparePasswordAndHash example_env ''secret'' secret_hash = Ok True" by code_simp
  show "fresh_uuids example_env (db example_world)"
    by (auto simp: fresh_uuids_def example_db_def unary_def Cons_replicate_eq)
qed simp_all

section \<open>Passwords\<close>

lemma filter_map_other:
  "(\<And>u. usr_id (f u) = usr_id u) \<Longrightarrow>
    filter (\<lambda>u. usr_id u \<noteq> i) (map (\<lambda>u. if usr_id u = i then f u else u) us) = filter (\<lambda>u. usr_id u \<noteq> i) us"
  by (induction us) auto

definition set_password :: "uuid \<Rightarrow> string \<Rightarrow> time \<Rightarrow> database \<Rightarrow> database" where
  "set_password i hash now = map_user i (\<lambda>u. u\<lparr>usr_password := Some hash, usr_updated_at := now\<rparr>)"

lemma set_password_simps [simp]:
  "access_tokens (set_password i h now d) = access_tokens d"
  "refresh_tokens (set_password i h now d) = refresh_tokens d"
  "password_reset_tokens (set_password i h now d) = password_reset_tokens d"
  "users (set_password i h now d) =
     map (\<lambda>u. if usr_id u = i then u\<lparr>usr_password := Some h, usr_updated_at := now\<rparr> else u) (users d)"
  by (simp_all add: set_password_def map_user_def)

lemma map_user_tables [simp]:
  "access_tokens (map_user i f d) = access_tokens d" "refresh_tokens (map_user i f d) = refresh_tokens d"
  "password_reset_tokens (map_user i f d) = password_reset_tokens d"
  "confirmation_tokens (map_user i f d) = confirmation_tokens d"
  "app_user_profiles (map_user i f d) = app_user_profiles d"
  by (simp_all add: map_user_def)

lemma HashPassword_db:
  assumes "HashPassword e pw p w = (r, t)" shows "db t = db w"
  by (rule frameD [OF frame_db_hashing assms])

lemma UpdatePassword_Ok:
  assumes "UpdatePassword e c request w = (Ok r, t)"
  obtains h hash v v' now a k x y where "du_is_active (up_user request)"
    and "du_password_hash (up_user request) = Some h"
    and "up_skip_current_password_verification request \<or>
         ComparePasswordAndHash e (up_current_password request) h = Ok True"
    and "HashPassword e (up_new_password request) DefaultArgon2Params v = (Ok hash, v')"
    and "issued e c (du_id (up_user request))
           (revoke_tokens (du_id (up_user request)) (set_password (du_id (up_user request)) hash now (db w))) r a k"
    and "saved e w t (issue_tokens a k x y
           (revoke_tokens (du_id (up_user request)) (set_password (du_id (up_user request)) hash now (db w))))"
proof -
  let ?u = "up_user request"
  from assms obtain h hash v where
    pre: "du_is_active ?u" "du_password_hash ?u = Some h"
      "up_skip_current_password_verification request \<or>
         ComparePasswordAndHash e (up_current_password request) h = Ok True"
    and hash: "HashPassword e (up_new_password request) DefaultArgon2Params w = (Ok hash, v)"
    and run: "WithTransaction e (UpdatePassword_tx e c ?u hash) v = (Ok r, t)"
    by (auto simp: UpdatePassword_def verify_current_def outcome_simps
        simp del: WithTransaction_Ok_iff split: option.splits)
  have v: "db v = db w" by (rule HashPassword_db [OF hash])
  from run obtain v2 where tx: "UpdatePassword_tx e c ?u hash ((tick v)\<lparr>tx := Some (db v)\<rparr>) = (Ok r, v2)"
    and save: "\<And>d. tx v2 = Some d \<Longrightarrow> saved e v t d"
    by (rule auth_update.ok_saved) blast
  obtain now where now: "now = env_sysnow e (Suc (clk v))" by simp
  have "authenticateUser e c (?u\<lparr>du_password_hash := Some hash\<rparr>) True
      ((tick (tick ((tick v)\<lparr>tx := Some (db v)\<rparr>)))\<lparr>tx := Some (set_password (du_id ?u) hash now (db v))\<rparr>) = (Ok r, v2)"
    using tx by (simp add: UpdatePassword_tx_def outcome_simps set_password_def ToModels_def now)
  then obtain a k x y where
      "issued e c (du_id ?u) (revoke_tokens (du_id ?u) (set_password (du_id ?u) hash now (db v))) r a k"
    and "tx v2 = Some (issue_tokens a k x y (revoke_tokens (du_id ?u) (set_password (du_id ?u) hash now (db v))))"
    by (elim authenticateUser_Ok) (auto simp: revoke_if_def)
  with pre hash show thesis
    by (intro that) (auto simp: v dest!: save intro: saved_start)
qed


definition example_update_request :: update_password_request where
  "example_update_request = \<lparr>up_user = LocalUserToDTO alice None, up_current_password = ''secret'',
     up_skip_current_password_verification = False, up_new_password = ''better''\<rparr>"


lemma one_with_user_Ok_iff [outcome_simps]:
  "one_with_user tn e h tab key txt p owner w = (Ok ru, t) \<longleftrightarrow>
     (\<exists>d i. env_fault e (clk w) = None \<and> env_fault e (Suc (clk w)) = None \<and> view h w = Some d \<and>
        env_parse_uuid e txt = Some i \<and> find (\<lambda>r. key r = i \<and> p r) (tab d) = Some (fst ru) \<and>
        find (\<lambda>u. usr_id u = owner (fst ru)) (users d) = snd ru \<and> t = tick (tick w))"
  by (cases ru; cases h) (auto simp: one_with_user_def outcome_simps)

text \<open>
  \<open>ResetPassword\<close> only succeeds with the text of a stored token that has not expired, and sets the
  password of the token's active owner; the reset token itself stays in the table, so it can be used
  again until it expires.
\<close>

theorem ResetPassword_keeps_reset_token:
  assumes "ResetPassword e c resetToken newPassword w = (Ok r, t)"
  shows "password_reset_tokens (db t) = password_reset_tokens (db w) \<and>
    (\<exists>i tok user a k x y hash now. env_parse_uuid e resetToken = Some i \<and> tok \<in> set (password_reset_tokens (db w)) \<and>
       prt_token tok = i \<and> env_now e (Suc (Suc (clk w))) \<le> prt_valid_until tok \<and>
       user \<in> set (users (db w)) \<and> usr_id user = prt_user_id tok \<and> usr_is_active user \<and>
       saved e w t (issue_tokens a k x y (revoke_tokens (usr_id user) (set_password (usr_id user) hash now (db w)))))"
proof -
  from assms obtain i tok user v where i: "env_parse_uuid e resetToken = Some i"
    and tok: "find (\<lambda>r. prt_token r = i) (password_reset_tokens (db w)) = Some tok"
    and user: "find (\<lambda>u. usr_id u = prt_user_id tok) (users (db w)) = Some user"
    and v: "v = tick (tick (tick w))" and now: "env_now e (Suc (Suc (clk w))) \<le> prt_valid_until tok"
    and run: "UpdatePassword e c \<lparr>up_user = LocalUserToDTO user None, up_current_password = [],
               up_skip_current_password_verification = True, up_new_password = newPassword\<rparr> v = (Ok r, t)"
    by (auto simp: ResetPassword_def outcome_simps split: if_splits)
  from run obtain hash now' a k x y where act: "usr_is_active user"
    and save: "saved e v t (issue_tokens a k x y (revoke_tokens (usr_id user) (set_password (usr_id user) hash now' (db v))))"
    by (rule UpdatePassword_Ok) simp
  from save have "password_reset_tokens (db t) = password_reset_tokens (db w)"
    by (auto simp: saved_def v revoke_tokens_def without_refresh_tokens_def without_access_tokens_def)
  moreover have "saved e w t (issue_tokens a k x y (revoke_tokens (usr_id user) (set_password (usr_id user) hash now' (db w))))"
    using save by (simp add: saved_def v)
  ultimately show ?thesis
    using i find_SomeD [OF tok] find_SomeD [OF user] act now by blast
qed

theorem ResetPassword_keeps_reset_token_witness:
  "\<exists>r t. ResetPassword example_env example_auth_config ''reset'' ''better'' example_world = (Ok r, t) \<and>
   password_reset_tokens (db t) = password_reset_tokens (db example_world) \<and>
    (\<exists>i tok user a k x y hash now. env_parse_uuid example_env ''reset'' = Some i \<and> tok \<in> set (password_reset_tokens (db example_world)) \<and>
       prt_token tok = i \<and> env_now example_env (Suc (Suc (clk example_world))) \<le> prt_valid_until tok \<and>
       user \<in> set (users (db example_world)) \<and> usr_id user = prt_user_id tok \<and> usr_is_active user \<and>
       saved example_env example_world t (issue_tokens a k x y (revoke_tokens (usr_id user) (set_password (usr_id user) hash now (db example_world)))))"
  by (rule run_instance, code_simp, rule ResetPassword_keeps_reset_token)

section \<open>Refreshing\<close>

abbreviation drop_refresh :: "uuid \<Rightarrow> database \<Rightarrow> database" where
  "drop_refresh i \<equiv> without_refresh_tokens (\<lambda>r. rtk_token r = i)"

lemma Refresh_tx_Ok:
  assumes "WithTransaction e (Refresh_tx e c tok user) w = (Ok r, t)"
  obtains a k x y where "issued e c (usr_id user) (drop_refresh (rtk_token tok) (db w)) r a k"
    and "saved e w t (issue_tokens a k x y (drop_refresh (rtk_token tok) (db w)))"
proof -
  from assms obtain v where run: "Refresh_tx e c tok user ((tick w)\<lparr>tx := Some (db w)\<rparr>) = (Ok r, v)"
    and save: "\<And>d. tx v = Some d \<Longrightarrow> saved e w t d"
    by (rule auth_refresh.ok_saved) blast
  from run have "authenticateUser e c (LocalUserToDTO user None) False
      ((tick ((tick w)\<lparr>tx := Some (db w)\<rparr>))\<lparr>tx := Some (drop_refresh (rtk_token tok) (db w))\<rparr>) = (Ok r, v)"
    by (simp add: Refresh_tx_def outcome_simps)
  then show thesis
    by (elim authenticateUser_Ok) (auto simp: revoke_if_def dest!: save intro: that)
qed

lemma Refresh_Ok:
  assumes "Refresh e c refreshToken w = (Ok r, t)"
  obtains i tok user a k x y where "env_parse_uuid e refreshToken = Some i"
    and "tok \<in> set (refresh_tokens (db w))" "rtk_token tok = i"
    and "user \<in> set (users (db w))" "usr_id user = rtk_user_id tok" "usr_is_active user"
    and "issued e c (usr_id user) (drop_refresh i (db w)) r a k"
    and "saved e w t (issue_tokens a k x y (drop_refresh i (db w)))"
proof -
  from assms obtain i tok user v where i: "env_parse_uuid e refreshToken = Some i"
    and tok: "find (\<lambda>r. rtk_token r = i) (refresh_tokens (db w)) = Some tok"
    and user: "find (\<lambda>u. usr_id u = rtk_user_id tok) (users (db w)) = Some user"
    and act: "usr_is_active user" and v: "v = tick (tick w)"
    and run: "WithTransaction e (Refresh_tx e c tok user) v = (Ok r, t)"
    by (auto simp: Refresh_def outcome_simps simp del: WithTransaction_Ok_iff split: if_splits)
  note tok' = find_SomeD [OF tok] and user' = find_SomeD [OF user]
  from run show thesis
    by (rule Refresh_tx_Ok) (rule that [OF i, of tok user], insert tok' user' act v, auto simp: saved_def)
qed

text \<open>
  C12: a successful \<open>Refresh\<close> rotates: the token used belonged to an active user, it is gone from the
  table, and the new pair of tokens is stored for the same user (unless the commit failed).
\<close>

theorem Refresh_rotates:
  assumes "Refresh e c refreshToken w = (Ok r, t)" and "\<And>n. env_fault e n = None"
  shows "\<exists>i user a k. env_parse_uuid e refreshToken = Some i \<and> user \<in> set (users (db w)) \<and> usr_is_active user \<and>
      (\<exists>tok \<in> set (refresh_tokens (db w)). rtk_token tok = i \<and> rtk_user_id tok = usr_id user) \<and>
      refresh_tokens (db t) = filter (\<lambda>q. rtk_token q \<noteq> i) (refresh_tokens (db w)) @ [k] \<and>
      access_tokens (db t) = access_tokens (db w) @ [a] \<and>
      rtk_user_id k = usr_id user \<and> atk_user_id a = usr_id user \<and>
      lr_refresh_token r = rtk_token k \<and> lr_access_token r = atk_token a"
proof -
  from assms(1) obtain i tok user a k x y where run: "env_parse_uuid e refreshToken = Some i"
    "tok \<in> set (refresh_tokens (db w))" "rtk_token tok = i"
    "user \<in> set (users (db w))" "usr_id user = rtk_user_id tok" "usr_is_active user"
    and iss: "issued e c (usr_id user) (drop_refresh i (db w)) r a k"
    and save: "saved e w t (issue_tokens a k x y (drop_refresh i (db w)))"
    by (rule Refresh_Ok)
  have t: "db t = issue_tokens a k x y (drop_refresh i (db w))"
    by (rule saved_no_fault [OF save assms(2)])
  show ?thesis
    by (rule exI [of _ i], rule exI [of _ user], rule exI [of _ a], rule exI [of _ k])
      (use run iss in \<open>auto simp: t issued_def\<close>)
qed

theorem Refresh_rotates_witness:
  "\<exists>r t. Refresh example_env example_auth_config ''fresh'' example_world = (Ok r, t) \<and>
   (\<exists>i user a k. env_parse_uuid example_env ''fresh'' = Some i \<and> user \<in> set (users (db example_world)) \<and> usr_is_active user \<and>
      (\<exists>tok \<in> set (refresh_tokens (db example_world)). rtk_token tok = i \<and> rtk_user_id tok = usr_id user) \<and>
      refresh_tokens (db t) = filter (\<lambda>q. rtk_token q \<noteq> i) (refresh_tokens (db example_world)) @ [k] \<and>
      access_tokens (db t) = access_tokens (db example_world) @ [a] \<and>
      rtk_user_id k = usr_id user \<and> atk_user_id a = usr_id user \<and>
      lr_refresh_token r = rtk_token k \<and> lr_access_token r = atk_token a)"
  by (rule run_instance, code_simp, rule Refresh_rotates) simp_all

text \<open>
  Nothing makes the use of a refresh token exclusive.  Two requests that have both read the token
  before either transaction ran both succeed, and the pairs of both are stored: the deletion of the
  token in the second transaction affects no row and the service does not look.
\<close>

theorem Refresh_race:
  assumes "WithTransaction e (Refresh_tx e c tok user) w = (Ok r1, w1)"
    and "WithTransaction e (Refresh_tx e c tok user) w1 = (Ok r2, w2)"
    and "\<And>n. env_fault e n = None" and "lr_refresh_token r1 \<noteq> rtk_token tok"
  shows "{lr_refresh_token r1, lr_refresh_token r2} \<subseteq> rtk_token ` set (refresh_tokens (db w2)) \<and>
    {lr_access_token r1, lr_access_token r2} \<subseteq> atk_token ` set (access_tokens (db w2)) \<and>
    lr_refresh_token r1 \<noteq> lr_refresh_token r2"
proof -
  from assms(1) obtain a k x y where 1: "issued e c (usr_id user) (drop_refresh (rtk_token tok) (db w)) r1 a k"
    and s1: "saved e w w1 (issue_tokens a k x y (drop_refresh (rtk_token tok) (db w)))"
    by (rule Refresh_tx_Ok)
  from assms(2) obtain a' k' x' y' where 2: "issued e c (usr_id user) (drop_refresh (rtk_token tok) (db w1)) r2 a' k'"
    and s2: "saved e w1 w2 (issue_tokens a' k' x' y' (drop_refresh (rtk_token tok) (db w1)))"
    by (rule Refresh_tx_Ok)
  show ?thesis
    using 1 2 assms(4)
    by (auto simp: saved_no_fault [OF s2 assms(3)] saved_no_fault [OF s1 assms(3)] issued_def)
qed

abbreviation refresh_again :: "world \<Rightarrow> login_result outcome \<times> world" where
  "refresh_again \<equiv> WithTransaction example_env
     (Refresh_tx example_env example_auth_config (hd (refresh_tokens example_db)) alice)"

theorem Refresh_race_witness:
  "\<exists>r1 w1 r2 w2. refresh_again example_world = (Ok r1, w1) \<and> refresh_again w1 = (Ok r2, w2) \<and>
     {lr_refresh_token r1, lr_refresh_token r2} \<subseteq> rtk_token ` set (refresh_tokens (db w2)) \<and>
     {lr_access_token r1, lr_access_token r2} \<subseteq> atk_token ` set (access_tokens (db w2)) \<and>
     lr_refresh_token r1 \<noteq> lr_refresh_token r2"
proof -
  have "case refresh_again example_world of (Ok r1, w1) \<Rightarrow>
      lr_refresh_token r1 \<noteq> rtk_token (hd (refresh_tokens example_db)) \<and> is_ok (fst (refresh_again w1)) | _ \<Rightarrow> False"
    by code_simp
  then obtain r1 w1 where 1: "refresh_again example_world = (Ok r1, w1)"
    and new: "lr_refresh_token r1 \<noteq> rtk_token (hd (refresh_tokens example_db))"
    and "is_ok (fst (refresh_again w1))"
    by (auto split: prod.splits outcome.splits)
  then obtain r2 w2 where 2: "refresh_again w1 = (Ok r2, w2)" by (auto dest: ok_run)
  show ?thesis
    using 1 2 Refresh_race [OF 1 2 _ new] by auto
qed

section \<open>Requesting a password reset\<close>

lemma password_reset_token_insert_Ok:
  assumes "password_reset_token_insert e Tx k w = (Ok a, t)"
  obtains d where "tx w = Some d" "has_user d (prt_user_id a)"
    and "\<forall>q \<in> set (password_reset_tokens d). prt_token q \<noteq> prt_token a"
    and "prt_user_id a = prt_user_id k" "prt_valid_until a = prt_valid_until k"
    and "t = (tick (tick w))\<lparr>tx := Some (d\<lparr>password_reset_tokens := password_reset_tokens d @ [a]\<rparr>)\<rparr>"
  using assms by (auto simp: password_reset_token_insert_def outcome_simps split: if_splits)

lemma one_row_Err_NoRows:
  assumes "one_row tn e h tab p w = (Err x, t)" "errors_is x ErrNoRows"
  shows "x = ErrNoRows \<and> t = tick w \<and> (\<forall>d. view h w = Some d \<longrightarrow> find p (tab d) = None)"
  using assms
  by (cases h)
    (auto simp: one_row_def tryP_def query_def stmt_def errP_def okP_def errors_is_def view_def
      split: option.splits sum.splits if_splits prod.splits outcome.splits)

lemma InitPasswordReset_tx_Ok:
  assumes "InitPasswordReset_tx e c user w = (Ok r, t)" and "tx w = Some d"
  obtains (reused) q n m where "r = Some (prt_token q)" "q \<in> set (password_reset_tokens d)"
      and "live_reset_token (usr_id user) (env_now e n - ac_password_reset_token_reuse c) (env_now e m) q"
      and "tx t = Some d"
    | (created) q n where "r = Some (prt_token q)" "prt_user_id q = usr_id user"
      and "prt_valid_until q = env_now e n + ac_password_reset_token_validity c"
      and "\<forall>q' \<in> set (password_reset_tokens d). prt_token q' \<noteq> prt_token q"
      and "tx t = Some (d\<lparr>password_reset_tokens := password_reset_tokens d @ [q]\<rparr>)"
proof -
  let ?live = "live_reset_token (usr_id user) (env_now e (clk w) - ac_password_reset_token_reuse c)
     (env_now e (Suc (clk w)))"
  let ?find = "one_row ''password_reset_tokens'' e Tx password_reset_tokens ?live"
  let ?new = "\<lambda>n. \<lparr>prt_token = [], prt_valid_until = env_now e n + ac_password_reset_token_validity c,
      prt_user_id = usr_id user, prt_created_at = zero_time, prt_updated_at = zero_time\<rparr>"
  from assms(1) consider
      (found) q v where "?find (tick (tick w)) = (Ok q, v)" "r = Some (prt_token q)" "t = v"
    | (none) x v q where "?find (tick (tick w)) = (Err x, v)" "errors_is x ErrNoRows"
        "password_reset_token_insert e Tx (?new (clk v)) (tick v) = (Ok q, t)" "r = Some (prt_token q)"
    by (auto simp: InitPasswordReset_tx_def bindP_Ok_iff tryP_Ok_iff clock_now_iff okP_iff errP_iff split: if_splits)
  then show thesis
  proof cases
    case found
    then show thesis
      using assms(2) by (intro reused [of q "clk w" "Suc (clk w)"]) (auto simp: outcome_simps dest: find_SomeD)
  next
    case none
    have v: "v = tick (tick (tick w))" using one_row_Err_NoRows [OF none(1,2)] by simp
    from none(3) show thesis
      by (rule password_reset_token_insert_Ok) (rule created [of q "clk v"], insert assms(2) v none(4), auto)
  qed
qed

lemma reset_debounced_Ok:
  assumes "reset_debounced e c user w = (Ok b, v)"
  shows "db v = db w \<and> (b \<or> ac_password_reset_token_debounce c \<le> 0 \<or>
    (\<exists>n m. \<forall>q \<in> set (password_reset_tokens (db w)).
       \<not> live_reset_token (usr_id user) (env_now e n - ac_password_reset_token_debounce c) (env_now e m) q))"
proof -
  have "db v = db w"
    by (rule frameD [OF frame_db_checks(2) assms])
  then show ?thesis
    using assms by (auto simp: reset_debounced_def outcome_simps find_None_iff split: if_splits)
qed

lemma InitPasswordReset_Ok:
  assumes "InitPasswordReset e c username w = (Ok r, t)"
  obtains (silent) "r = None" "db t = db w"
    | (issued) user v where
      "find (\<lambda>u. usr_username u = Some (ToUsernameFormat username)) (users (db w)) = Some user"
      and "usr_is_active user" "usr_password user \<noteq> None" and "reset_debounced e c user (tick w) = (Ok False, v)"
      and "WithTransaction e (InitPasswordReset_tx e c user) v = (Ok r, t)"
proof -
  from assms consider "r = None" "db t = db w"
    | user where "find (\<lambda>u. usr_username u = Some (ToUsernameFormat username)) (users (db w)) = Some user"
      "usr_is_active user" "usr_password user \<noteq> None"
      "bindP (reset_debounced e c user) (\<lambda>exists.
              if exists then okP None else WithTransaction e (InitPasswordReset_tx e c user)) (tick w) = (Ok r, t)"
    by (auto simp: InitPasswordReset_def tryP_Ok_iff one_row_Ok_iff okP_iff errP_iff dest: one_row_Err_NoRows split: if_splits)
  then show thesis
  proof cases
    case 2
    from 2(4) obtain b v where b: "reset_debounced e c user (tick w) = (Ok b, v)"
      and run: "(if b then okP None else WithTransaction e (InitPasswordReset_tx e c user)) v = (Ok r, t)"
      by (auto simp: bindP_Ok_iff)
    from reset_debounced_Ok [OF b] run b show thesis
      by (cases b) (auto simp: okP_iff intro: silent issued [OF 2(1-3)])
  qed (rule silent)
qed

text \<open>
  \<open>InitPasswordReset\<close> hands out a token only for the active user of that name with a password and
  only when no live token of the user is younger than the debounce time.  The token is a live one of
  that user, or a new row valid for the configured time.  In all other cases that do not fail the
  answer is the same and nothing is written, so the answer does not tell whether the user exists.
\<close>

theorem InitPasswordReset_effect:
  assumes "InitPasswordReset e c username w = (Ok r, t)" and "\<And>n. env_fault e n = None"
  shows "case r of
      None \<Rightarrow> db t = db w
    | Some token \<Rightarrow> (\<exists>user q. find (\<lambda>u. usr_username u = Some (ToUsernameFormat username)) (users (db w)) = Some user \<and>
        usr_is_active user \<and> usr_password user \<noteq> None \<and> prt_token q = token \<and> prt_user_id q = usr_id user \<and>
        (ac_password_reset_token_debounce c \<le> 0 \<or>
           (\<exists>n m. \<forall>q' \<in> set (password_reset_tokens (db w)).
              \<not> live_reset_token (usr_id user) (env_now e n - ac_password_reset_token_debounce c) (env_now e m) q')) \<and>
        (q \<in> set (password_reset_tokens (db w)) \<and> db t = db w \<or>
         (\<exists>n. prt_valid_until q = env_now e n + ac_password_reset_token_validity c) \<and>
           db t = (db w)\<lparr>password_reset_tokens := password_reset_tokens (db w) @ [q]\<rparr>))"
  using assms(1)
proof (cases rule: InitPasswordReset_Ok)
  case silent
  then show ?thesis by simp
next
  case (issued user v)
  have dbv: "db v = db w" using reset_debounced_Ok [OF issued(4)] by simp
  have deb: "ac_password_reset_token_debounce c \<le> 0 \<or>
      (\<exists>n m. \<forall>q' \<in> set (password_reset_tokens (db w)).
         \<not> live_reset_token (usr_id user) (env_now e n - ac_password_reset_token_debounce c) (env_now e m) q')"
    using reset_debounced_Ok [OF issued(4)] by simp
  from issued(5) obtain u where run: "InitPasswordReset_tx e c user ((tick v)\<lparr>tx := Some (db v)\<rparr>) = (Ok r, u)"
    and save: "\<And>d. tx u = Some d \<Longrightarrow> saved e v t d"
    by (rule auth_init_reset.ok_saved) blast
  have "tx ((tick v)\<lparr>tx := Some (db v)\<rparr>) = Some (db v)" by simp
  from run this show ?thesis
  proof (cases rule: InitPasswordReset_tx_Ok)
    case (reused q n m)
    then show ?thesis
      using issued(1-3) deb dbv saved_no_fault [OF save assms(2)]
      by (auto simp: live_reset_token_def intro!: exI [of _ q])
  next
    case (created q n)
    then show ?thesis
      using issued(1-3) deb dbv saved_no_fault [OF save assms(2)]
      by (auto intro!: exI [of _ q])
  qed
qed

theorem InitPasswordReset_effect_witness:
  "\<exists>r t. InitPasswordReset example_env example_auth_config ''alice'' example_world = (Ok r, t) \<and>
   (case r of
      None \<Rightarrow> db t = db example_world
    | Some token \<Rightarrow> (\<exists>user q. find (\<lambda>u. usr_username u = Some (ToUsernameFormat ''alice'')) (users (db example_world)) = Some user \<and>
        usr_is_active user \<and> usr_password user \<noteq> None \<and> prt_token q = token \<and> prt_user_id q = usr_id user \<and>
        (ac_password_reset_token_debounce example_auth_config \<le> 0 \<or>
           (\<exists>n m. \<forall>q' \<in> set (password_reset_tokens (db example_world)).
              \<not> live_reset_token (usr_id user) (env_now example_env n - ac_password_reset_token_debounce example_auth_config)
                  (env_now example_env m) q')) \<and>
        (q \<in> set (password_reset_tokens (db example_world)) \<and> db t = db example_world \<or>
         (\<exists>n. prt_valid_until q = env_now example_env n + ac_password_reset_token_validity example_auth_config) \<and>
           db t = (db example_world)\<lparr>password_reset_tokens := password_reset_tokens (db example_world) @ [q]\<rparr>)))"
  by (rule run_instance, code_simp, rule InitPasswordReset_effect) simp_all

section \<open>Registration\<close>

lemma user_insert_Ok:
  assumes "user_insert e Tx k w = (Ok a, t)"
  obtains d where "tx w = Some d" "\<not> has_user d (usr_id a)"
    and "usr_username a = None \<or> (\<forall>v \<in> set (users d). usr_username v \<noteq> usr_username a)"
    and "usr_username a = usr_username k" "usr_password a = usr_password k" "usr_is_active a = usr_is_active k"
    and "usr_requires_confirmation a = usr_requires_confirmation k" "usr_scopes a = usr_scopes k"
    and "t = (tick (tick w))\<lparr>tx := Some (d\<lparr>users := users d @ [a]\<rparr>)\<rparr>"
  using assms by (auto simp: user_insert_def outcome_simps split: if_splits)

lemma app_user_profile_insert_Ok:
  assumes "app_user_profile_insert e Tx k w = (Ok a, t)"
  obtains d where "tx w = Some d" "aup_user_id a = aup_user_id k" "aup_legal_accepted_at a = aup_legal_accepted_at k"
    and "t = (tick (tick w))\<lparr>tx := Some (d\<lparr>app_user_profiles := app_user_profiles d @ [a]\<rparr>)\<rparr>"
  using assms by (auto simp: app_user_profile_insert_def outcome_simps split: if_splits)

lemma confirmation_token_insert_Ok:
  assumes "confirmation_token_insert e Tx k w = (Ok a, t)"
  obtains d where "tx w = Some d" "ctk_user_id a = ctk_user_id k" "ctk_valid_until a = ctk_valid_until k"
    and "\<forall>q \<in> set (confirmation_tokens d). ctk_token q \<noteq> ctk_token a"
    and "t = (tick (tick w))\<lparr>tx := Some (d\<lparr>confirmation_tokens := confirmation_tokens d @ [a]\<rparr>)\<rparr>"
  using assms by (auto simp: confirmation_token_insert_def outcome_simps split: if_splits)

text \<open>The database after the registration of the user \<open>u\<close>.\<close>

definition register_user :: "user_row \<Rightarrow> app_user_profile_row \<Rightarrow> confirmation_token_row list \<Rightarrow> database \<Rightarrow> database" where
  "register_user u p cts d = d\<lparr>users := users d @ [u], app_user_profiles := app_user_profiles d @ [p],
     confirmation_tokens := confirmation_tokens d @ cts\<rparr>"

definition registered :: "auth_config \<Rightarrow> string \<Rightarrow> string \<Rightarrow> register_result \<Rightarrow> user_row \<Rightarrow> app_user_profile_row
    \<Rightarrow> confirmation_token_row list \<Rightarrow> bool" where
  "registered c username hash r u p cts \<longleftrightarrow>
     usr_username u = Some (ToUsernameFormat username) \<and> usr_password u = Some hash \<and>
     usr_scopes u = ac_default_user_scopes c \<and>
     usr_requires_confirmation u = ac_registration_requires_confirmation c \<and>
     usr_is_active u = (\<not> ac_registration_requires_confirmation c) \<and>
     aup_user_id p = usr_id u \<and> aup_legal_accepted_at p = None \<and>
     rr_requires_confirmation r = ac_registration_requires_confirmation c \<and>
     (if ac_registration_requires_confirmation c
      then \<exists>t. cts = [t] \<and> ctk_user_id t = usr_id u \<and> rr_confirmation_token r = Some (ctk_token t)
      else cts = [] \<and> rr_confirmation_token r = None)"

lemma Register_tx_Ok:
  assumes "Register_tx e c username hash w = (Ok r, t)" and "tx w = Some d"
  obtains u p cts where "registered c username hash r u p cts"
    and "\<not> has_user d (usr_id u)" and "\<forall>v \<in> set (users d). usr_username v \<noteq> usr_username u"
    and "tx t = Some (register_user u p cts d)"
proof -
  let ?b = "ac_registration_requires_confirmation c"
  let ?u = "\<lparr>usr_id = [], usr_username = Some (ToUsernameFormat username), usr_password = Some hash,
                usr_is_active = (\<not> ?b), usr_scopes = ac_default_user_scopes c,
                usr_last_authenticated_at = Some (env_now e (clk w)), usr_created_at = zero_time,
                usr_updated_at = zero_time, usr_requires_confirmation = ?b\<rparr>"
  let ?p = "\<lambda>u. \<lparr>aup_user_id = usr_id u, aup_legal_accepted_at = None,
                aup_created_at = zero_time, aup_updated_at = zero_time\<rparr>"
  let ?ct = "\<lambda>u n. \<lparr>ctk_token = [], ctk_valid_until = env_now e n + ac_confirmation_token_validity c,
                     ctk_user_id = usr_id u, ctk_created_at = zero_time, ctk_updated_at = zero_time\<rparr>"
  from assms(1) obtain u v p v2 where u: "user_insert e Tx ?u (tick w) = (Ok u, v)"
    and p: "app_user_profile_insert e Tx (?p u) v = (Ok p, v2)"
    and rest: "(if ?b then
           bindP (clock_now e) (\<lambda>now2.
           bindP (confirmation_token_insert e Tx
                    \<lparr>ctk_token = [], ctk_valid_until = now2 + ac_confirmation_token_validity c,
                     ctk_user_id = usr_id u, ctk_created_at = zero_time, ctk_updated_at = zero_time\<rparr>)
             (\<lambda>t. okP \<lparr>rr_requires_confirmation = True, rr_confirmation_token = Some (ctk_token t)\<rparr>))
         else okP \<lparr>rr_requires_confirmation = False, rr_confirmation_token = None\<rparr>) v2 = (Ok r, t)"
    unfolding Register_tx_def Let_def bindP_Ok_iff thenP_Ok_iff clock_now_iff by blast
  from u assms(2) have v: "tx v = Some (d\<lparr>users := users d @ [u]\<rparr>)"
    and u_ok: "\<not> has_user d (usr_id u)" "\<forall>x \<in> set (users d). usr_username x \<noteq> usr_username u"
    and u_is: "usr_username u = Some (ToUsernameFormat username)" "usr_password u = Some hash"
      "usr_is_active u = (\<not> ?b)" "usr_requires_confirmation u = ?b" "usr_scopes u = ac_default_user_scopes c"
    by (auto elim!: user_insert_Ok)
  from p v have v2: "tx v2 = Some (d\<lparr>users := users d @ [u], app_user_profiles := app_user_profiles d @ [p]\<rparr>)"
    and p_is: "aup_user_id p = usr_id u" "aup_legal_accepted_at p = None"
    by (auto elim!: app_user_profile_insert_Ok)
  show thesis
  proof (cases ?b)
    case True
    with rest obtain q where q: "confirmation_token_insert e Tx (?ct u (clk v2)) (tick v2) = (Ok q, t)"
      and r: "r = \<lparr>rr_requires_confirmation = True, rr_confirmation_token = Some (ctk_token q)\<rparr>"
      by (auto simp: bindP_Ok_iff clock_now_iff okP_iff)
    from q v2 have "tx t = Some (register_user u p [q] d)" "ctk_user_id q = usr_id u"
      by (auto elim!: confirmation_token_insert_Ok simp: register_user_def)
    then show thesis
      using that [of u p "[q]"] True u_ok u_is p_is r by (auto simp: registered_def)
  next
    case False
    then show thesis
      using that [of u p "[]"] rest u_ok u_is p_is v2
      by (auto simp: registered_def register_user_def okP_iff)
  qed
qed

lemma confirmation_token_insert_Pool_Ok:
  assumes "confirmation_token_insert e Pool k w = (Ok a, t)"
  shows "ctk_user_id a = ctk_user_id k \<and>
    db t = (db w)\<lparr>confirmation_tokens := confirmation_tokens (db w) @ [a]\<rparr>"
  using assms by (auto simp: confirmation_token_insert_def outcome_simps split: if_splits)

lemma Register_existing_Ok:
  assumes "Register_existing e c user w = (Ok r, t)"
  shows "usr_requires_confirmation user \<and> rr_requires_confirmation r \<and>
    (rr_confirmation_token r = None \<and> db t = db w \<or>
     (\<exists>q. rr_confirmation_token r = Some (ctk_token q) \<and> ctk_user_id q = usr_id user \<and>
        db t = (db w)\<lparr>confirmation_tokens := confirmation_tokens (db w) @ [q]\<rparr>))"
  using assms
  by (auto simp: Register_existing_def bindP_Ok_iff clock_now_iff okP_iff errP_iff rows_exist_Ok_iff
      dest!: confirmation_token_insert_Pool_Ok split: if_splits)

text \<open>
  What a successful \<open>Register\<close> did.  An unknown user name: one new user with exactly that
  (normalised) name and the hash of the password, inactive iff confirmation is required, its empty
  profile and, iff confirmation is required, one confirmation token that is returned.  A known name:
  only a user that still requires confirmation, and at most one new confirmation token.
\<close>

theorem Register_effect:
  assumes "Register e c username password w = (Ok r, t)" and "\<And>n. env_fault e n = None"
  shows "case find (\<lambda>u. usr_username u = Some (ToUsernameFormat username)) (users (db w)) of
      None \<Rightarrow> (\<exists>hash v v' u p cts. HashPassword e password DefaultArgon2Params v = (Ok hash, v') \<and>
        registered c username hash r u p cts \<and> \<not> has_user (db w) (usr_id u) \<and>
        db t = register_user u p cts (db w))
    | Some user \<Rightarrow> usr_requires_confirmation user \<and> rr_requires_confirmation r \<and>
        (rr_confirmation_token r = None \<and> db t = db w \<or>
         (\<exists>q. rr_confirmation_token r = Some (ctk_token q) \<and> ctk_user_id q = usr_id user \<and>
            db t = (db w)\<lparr>confirmation_tokens := confirmation_tokens (db w) @ [q]\<rparr>))"
proof (cases "find (\<lambda>u. usr_username u = Some (ToUsernameFormat username)) (users (db w))")
  case (Some user)
  then have "Register_existing e c user (tick w) = (Ok r, t)"
    using assms by (auto simp: Register_def tryP_Ok_iff one_row_Ok_iff errP_iff dest: one_row_Err_NoRows split: if_splits)
  then show ?thesis using Some Register_existing_Ok [of e c user "tick w" r t] by simp
next
  case None
  with assms(1) obtain x v0 hash v where x: "one_row ''users'' e Pool users
        (\<lambda>u. usr_username u = Some (ToUsernameFormat username)) w = (Err x, v0)" "errors_is x ErrNoRows"
    and hash: "HashPassword e password DefaultArgon2Params v0 = (Ok hash, v)"
    and run: "WithTransaction e (Register_tx e c username hash) v = (Ok r, t)"
    by (auto simp: Register_def tryP_Ok_iff one_row_Ok_iff errP_iff split: if_splits)
  have v: "db v = db w" using HashPassword_db [OF hash] one_row_Err_NoRows [OF x] by simp
  from run obtain u where tx: "Register_tx e c username hash ((tick v)\<lparr>tx := Some (db v)\<rparr>) = (Ok r, u)"
    and save: "\<And>d. tx u = Some d \<Longrightarrow> saved e v t d"
    by (rule auth_register.ok_saved) blast
  obtain n p cts where "registered c username hash r n p cts" "\<not> has_user (db v) (usr_id n)"
      "tx u = Some (register_user n p cts (db v))"
    by (rule Register_tx_Ok [OF tx]) simp_all
  then show ?thesis
    using None hash v saved_no_fault [OF save assms(2)] by auto
qed

theorem Register_effect_witness:
  "\<exists>r t. Register example_env example_auth_config ''carol'' ''secret'' example_world = (Ok r, t) \<and>
   (case find (\<lambda>u. usr_username u = Some (ToUsernameFormat ''carol'')) (users (db example_world)) of
      None \<Rightarrow> (\<exists>hash v v' u p cts. HashPassword example_env ''secret'' DefaultArgon2Params v = (Ok hash, v') \<and>
        registered example_auth_config ''carol'' hash r u p cts \<and> \<not> has_user (db example_world) (usr_id u) \<and>
        db t = register_user u p cts (db example_world))
    | Some user \<Rightarrow> usr_requires_confirmation user \<and> rr_requires_confirmation r \<and>
        (rr_confirmation_token r = None \<and> db t = db example_world \<or>
         (\<exists>q. rr_confirmation_token r = Some (ctk_token q) \<and> ctk_user_id q = usr_id user \<and>
            db t = (db example_world)\<lparr>confirmation_tokens := confirmation_tokens (db example_world) @ [q]\<rparr>)))"
  by (rule run_instance, code_simp, rule Register_effect) simp_all

section \<open>Confirmation\<close>

text \<open>The database after the confirmation of the user \<open>i\<close> with the token \<open>tok\<close>.\<close>

definition confirm_user :: "uuid \<Rightarrow> uuid \<Rightarrow> time \<Rightarrow> database \<Rightarrow> database" where
  "confirm_user i tok now d = without_confirmation_tokens (\<lambda>r. ctk_token r = tok)
     (map_user i (\<lambda>u. u\<lparr>usr_is_active := True, usr_requires_confirmation := False, usr_updated_at := now\<rparr>) d)"

lemma CompleteRegister_tx_Ok:
  assumes "CompleteRegister_tx e c txt w = (Ok r, t)" and "tx w = Some (db w)"
  obtains i tok user where "env_parse_uuid e txt = Some i" "tok \<in> set (confirmation_tokens (db w))"
    "ctk_token tok = i" "ctk_valid_until tok > env_now e (clk w)"
    "user \<in> set (users (db w))" "usr_id user = ctk_user_id tok"
    and "(usr_is_active user \<or> \<not> usr_requires_confirmation user) \<and> r = empty_login_result \<and> tx t = Some (db w) \<or>
      \<not> usr_is_active user \<and> usr_requires_confirmation user \<and>
      (\<exists>a k x y now. issued e c (usr_id user) (confirm_user (usr_id user) i now (db w)) r a k \<and>
         tx t = Some (issue_tokens a k x y (confirm_user (usr_id user) i now (db w))))"
proof -
  let ?on = "\<lambda>user. user\<lparr>usr_is_active := True, usr_requires_confirmation := False\<rparr>"
  from assms(1) obtain i tok user where i: "env_parse_uuid e txt = Some i"
    and tok: "find (\<lambda>r. ctk_token r = i \<and> env_now e (clk w) < ctk_valid_until r) (confirmation_tokens (db w)) = Some tok"
    and user: "find (\<lambda>u. usr_id u = ctk_user_id tok) (users (db w)) = Some user"
    and run: "(if usr_is_active user \<or> \<not> usr_requires_confirmation user then okP empty_login_result
            else
              (let user' = ?on user in
               thenP (user_update e Tx (usr_id user')
                        (\<lambda>r. r\<lparr>usr_is_active := True, usr_requires_confirmation := False\<rparr>))
              (thenP (modify_stmt ''models: unable to delete from confirmation_tokens'' e Tx
                        (without_confirmation_tokens (\<lambda>r. ctk_token r = ctk_token tok)))
                 (authenticateUser e c (LocalUserToDTO user' None) False)))) (tick (tick (tick w))) = (Ok r, t)"
    by (auto simp: CompleteRegister_tx_def bindP_Ok_iff tryP_Ok_iff clock_now_iff one_with_user_Ok_iff
        deref_Ok_iff errP_iff split: if_splits)
  note facts = i find_SomeD [OF tok] find_SomeD [OF user]
  show thesis
  proof (cases "usr_is_active user \<or> \<not> usr_requires_confirmation user")
    case True
    then show thesis using run facts assms(2) that [of i tok user] by (simp add: okP_iff)
  next
    case False
    let ?now = "env_sysnow e (Suc (Suc (Suc (clk w))))"
    from run False assms(2) facts have "\<exists>v. tx v = Some (confirm_user (usr_id user) i ?now (db w)) \<and>
        authenticateUser e c (LocalUserToDTO (?on user) None) False v = (Ok r, t)"
      by (intro exI [of _ "(tick (tick (tick (tick (tick (tick w))))))\<lparr>tx := Some (confirm_user (usr_id user) i ?now (db w))\<rparr>"])
        (simp add: outcome_simps confirm_user_def tick_def)
    then obtain a k x y where "issued e c (usr_id user) (confirm_user (usr_id user) i ?now (db w)) r a k"
        "tx t = Some (issue_tokens a k x y (confirm_user (usr_id user) i ?now (db w)))"
      by (auto simp: revoke_if_def elim!: authenticateUser_Ok)
    then have "\<exists>a k x y now. issued e c (usr_id user) (confirm_user (usr_id user) i now (db w)) r a k \<and>
         tx t = Some (issue_tokens a k x y (confirm_user (usr_id user) i now (db w)))" by blast
    then show thesis using False facts by (intro that [of i tok user]) simp_all
  qed
qed

text \<open>
  A successful \<open>CompleteRegister\<close> either confirmed the owner of an unexpired confirmation token
  (the user is active and confirmed, the token is consumed and the user has a new pair of tokens), or
  the owner was already active: then it reports success with an empty result and changes nothing.
\<close>

theorem CompleteRegister_effect:
  assumes "CompleteRegister e c txt w = (Ok r, t)"
  shows "\<exists>i tok user n. env_parse_uuid e txt = Some i \<and> tok \<in> set (confirmation_tokens (db w)) \<and> ctk_token tok = i \<and>
      env_now e n < ctk_valid_until tok \<and> user \<in> set (users (db w)) \<and> usr_id user = ctk_user_id tok \<and>
      ((usr_is_active user \<or> \<not> usr_requires_confirmation user) \<and> r = empty_login_result \<and> db t = db w \<or>
       \<not> usr_is_active user \<and> usr_requires_confirmation user \<and>
       (\<exists>a k x y now. issued e c (usr_id user) (confirm_user (usr_id user) i now (db w)) r a k \<and>
          saved e w t (issue_tokens a k x y (confirm_user (usr_id user) i now (db w)))))"
proof -
  from assms obtain u where tx: "CompleteRegister_tx e c txt ((tick w)\<lparr>tx := Some (db w)\<rparr>) = (Ok r, u)"
    and save: "\<And>d. tx u = Some d \<Longrightarrow> saved e w t d"
    unfolding CompleteRegister_def by (rule auth_complete.ok_saved) blast
  have same: "saved e w t (db w) \<Longrightarrow> db t = db w"
    by (auto simp: saved_def)
  show ?thesis
    by (rule CompleteRegister_tx_Ok [OF tx])
      (simp_all, metis (no_types, lifting) same save)
qed

theorem CompleteRegister_effect_witness:
  "\<exists>r t. CompleteRegister example_env example_auth_config ''confirm'' example_world = (Ok r, t) \<and>
   (\<exists>i tok user n. env_parse_uuid example_env ''confirm'' = Some i \<and> tok \<in> set (confirmation_tokens (db example_world)) \<and> ctk_token tok = i \<and>
      env_now example_env n < ctk_valid_until tok \<and> user \<in> set (users (db example_world)) \<and> usr_id user = ctk_user_id tok \<and>
      ((usr_is_active user \<or> \<not> usr_requires_confirmation user) \<and> r = empty_login_result \<and> db t = db example_world \<or>
       \<not> usr_is_active user \<and> usr_requires_confirmation user \<and>
       (\<exists>a k x y now. issued example_env example_auth_config (usr_id user) (confirm_user (usr_id user) i now (db example_world)) r a k \<and>
          saved example_env example_world t (issue_tokens a k x y (confirm_user (usr_id user) i now (db example_world))))))"
  by (rule run_instance, code_simp, rule CompleteRegister_effect)

section \<open>Logout and deletion\<close>

lemma delete_by_uuid_Ok_iff [outcome_simps]:
  "delete_by_uuid tn e Tx txt f w = (Ok r, t) \<longleftrightarrow>
     (\<exists>u d. env_fault e (clk w) = None \<and> env_parse_uuid e txt = Some u \<and> tx w = Some d \<and>
        t = (tick w)\<lparr>tx := Some (f u d)\<rparr>)"
  by (auto simp: delete_by_uuid_def outcome_simps split: option.splits)

text \<open>
  A successful \<open>Logout\<close> removes exactly the access token and, if one is given, the refresh token;
  every other row of the database stays.
\<close>

theorem Logout_effect:
  assumes "Logout e accessToken refreshToken w = (Ok r, t)" and "\<And>n. env_fault e n = None"
  shows "\<exists>i. env_parse_uuid e accessToken = Some i \<and>
     (case refreshToken of
        None \<Rightarrow> db t = without_access_tokens (\<lambda>a. atk_token a = i) (db w)
      | Some txt \<Rightarrow> (\<exists>j. env_parse_uuid e txt = Some j \<and>
          db t = without_refresh_tokens (\<lambda>k. rtk_token k = j) (without_access_tokens (\<lambda>a. atk_token a = i) (db w))))"
proof -
  from assms(1) obtain u where "Logout_tx e accessToken refreshToken ((tick w)\<lparr>tx := Some (db w)\<rparr>) = (Ok r, u)"
    and save: "\<And>d. tx u = Some d \<Longrightarrow> saved e w t d"
    unfolding Logout_def by (rule auth_logout.ok_saved) blast
  then show ?thesis
    using saved_no_fault [OF save assms(2)]
    by (cases refreshToken) (auto simp: Logout_tx_def outcome_simps)
qed

theorem Logout_effect_witness:
  "\<exists>r t. Logout example_env ''old'' (Some ''fresh'') example_world = (Ok r, t) \<and>
   (\<exists>i. env_parse_uuid example_env ''old'' = Some i \<and>
     (case Some ''fresh'' of
        None \<Rightarrow> db t = without_access_tokens (\<lambda>a. atk_token a = i) (db example_world)
      | Some txt \<Rightarrow> (\<exists>j. env_parse_uuid example_env txt = Some j \<and>
          db t = without_refresh_tokens (\<lambda>k. rtk_token k = j)
            (without_access_tokens (\<lambda>a. atk_token a = i) (db example_world)))))"
  by (rule run_instance, code_simp, rule Logout_effect) simp_all

text \<open>
  A successful \<open>DeleteUserAccount\<close> was for an active user who gave the right password and owns no
  organization, and leaves no row of the user in any table that can refer to it, and every row of
  the other users.
\<close>

theorem DeleteUserAccount_effect:
  assumes "DeleteUserAccount e user currentPassword w = (Ok r, t)" and "\<And>n. env_fault e n = None"
    and "has_user (db w) (du_id user)"
  shows "du_is_active user \<and>
     (\<exists>h. du_password_hash user = Some h \<and> ComparePasswordAndHash e currentPassword h = Ok True) \<and>
     (\<forall>g \<in> set (organizations (db w)). org_owner_id g \<noteq> du_id user) \<and>
     db t = cascade_delete_user (du_id user) (db w) \<and> \<not> has_user (db t) (du_id user)"
proof -
  from assms(1) obtain h where pre: "du_is_active user" "du_password_hash user = Some h"
      "ComparePasswordAndHash e currentPassword h = Ok True"
    and run: "WithTransaction e (users_delete_all e Tx (du_id user)) w = (Ok r, t)"
    by (auto simp: DeleteUserAccount_def tryP_Ok_iff liftP_iff errP_iff split: if_splits option.splits)
  from run obtain u where tx: "users_delete_all e Tx (du_id user) ((tick w)\<lparr>tx := Some (db w)\<rparr>) = (Ok r, u)"
    and save: "\<And>d. tx u = Some d \<Longrightarrow> saved e w t d"
    by (rule auth_delete.ok_saved) blast
  from tx have free: "first_error (user_delete_checks (du_id user) (db w)) = None"
    and u: "tx u = Some (cascade_delete_user (du_id user) (db w))"
    by (auto simp: outcome_simps)
  from free assms(3) have "\<forall>g \<in> set (organizations (db w)). org_owner_id g \<noteq> du_id user"
    by (auto simp: user_delete_checks_def split: if_splits)
  moreover have t: "db t = cascade_delete_user (du_id user) (db w)"
    by (rule saved_no_fault [OF save [OF u] assms(2)])
  moreover have "\<not> has_user (db t) (du_id user)"
    unfolding t by (auto simp: has_user_def cascade_delete_user_def)
  ultimately show ?thesis using pre by blast
qed

theorem DeleteUserAccount_effect_witness:
  "\<exists>r t. DeleteUserAccount example_env (LocalUserToDTO alice None) ''secret'' example_world = (Ok r, t) \<and>
     du_is_active (LocalUserToDTO alice None) \<and>
     (\<exists>h. du_password_hash (LocalUserToDTO alice None) = Some h \<and> ComparePasswordAndHash example_env ''secret'' h = Ok True) \<and>
     (\<forall>g \<in> set (organizations (db example_world)). org_owner_id g \<noteq> du_id (LocalUserToDTO alice None)) \<and>
     db t = cascade_delete_user (du_id (LocalUserToDTO alice None)) (db example_world) \<and>
     \<not> has_user (db t) (du_id (LocalUserToDTO alice None))"
  by (rule run_instance, code_simp, rule DeleteUserAccount_effect)
    (simp_all add: has_user_def example_db_def)

section \<open>The lost commit error\<close>

text \<open>
  When the handler succeeds and the commit fails, \<open>WithTransaction\<close> still returns the handler's
  result without an error although nothing was stored.
\<close>

theorem commit_swallows_failure:
  assumes "env_fault e (clk w) = None" and "frame db m"
    and "m ((tick w)\<lparr>tx := Some (db w)\<rparr>) = (Ok r, u)" and "env_fault e (clk u) = Some msg"
  shows "\<exists>t. WithTransaction e m w = (Ok r, t) \<and> db t = db w"
proof -
  have "db u = db w" using frameD [OF assms(2,3)] by simp
  then show ?thesis using assms by (auto simp: outcome_simps commit_tx_db)
qed

theorem commit_swallows_failure_witness:
  "\<exists>r t. WithTransaction (faulty_env 9) (authenticateUser (faulty_env 9) example_auth_config (LocalUserToDTO alice None) False)
     example_world = (Ok r, t) \<and> db t = db example_world"
proof -
  let ?m = "authenticateUser (faulty_env 9) example_auth_config (LocalUserToDTO alice None) False"
  let ?w = "(tick example_world)\<lparr>tx := Some (db example_world)\<rparr>"
  have "case ?m ?w of (Ok r, u) \<Rightarrow> env_fault (faulty_env 9) (clk u) \<noteq> None | _ \<Rightarrow> False"
    by code_simp
  then obtain r u msg where "?m ?w = (Ok r, u)" "env_fault (faulty_env 9) (clk u) = Some msg"
    by (auto split: prod.splits outcome.splits if_splits)
  then have "\<exists>t. WithTransaction (faulty_env 9) ?m example_world = (Ok r, t) \<and> db t = db example_world"
    by (intro commit_swallows_failure) (auto intro: frame_intros)
  then show ?thesis by blast
qed

section \<open>Password hashes\<close>

text \<open>
  C13: a stored hash verifies exactly the passwords from which argon2id derives the same key: for the
  hash \<open>HashPassword\<close> stored, \<open>ComparePasswordAndHash\<close> recovers parameters, salt and key from the text
  and answers whether the keys are equal, so the password itself is accepted.
\<close>

theorem HashPassword_compare:
  assumes "HashPassword e pw p w = (Ok h, w')"
    and "\<And>pw salt t m q k key. env_argon2 e pw salt t m q k = Some key \<Longrightarrow> length key = k"
    and "unat (a2_key_length p) \<le> 2147483647"
  shows "ComparePasswordAndHash e pw h = Ok True \<and>
    (\<exists>salt key. IDKey e pw salt p = Ok key \<and>
       (\<forall>pw'. ComparePasswordAndHash e pw' h =
         (case IDKey e pw' salt p of Ok k \<Rightarrow> Ok (k = key) | Err x \<Rightarrow> Err x | Panic m \<Rightarrow> Panic m)))"
proof -
  from assms(1) obtain salt v where
      run: "(case IDKey e pw salt p of
          Panic c \<Rightarrow> (Panic c, v)
        | Err x \<Rightarrow> (Err x, v)
        | Ok key \<Rightarrow> (Ok (format_hash p (RawStd_EncodeToString salt) (RawStd_EncodeToString key)), v)) = (Ok h, w')"
    unfolding HashPassword_def bindP_Ok_iff by blast
  then obtain key where key: "IDKey e pw salt p = Ok key"
    and h: "h = format_hash p (RawStd_EncodeToString salt) (RawStd_EncodeToString key)"
    by (cases "IDKey e pw salt p") simp_all
  have len: "IDKey e pw' salt' p = Ok k \<Longrightarrow> length k = unat (a2_key_length p)" for pw' salt' k
    by (auto simp: IDKey_def split: option.splits dest: assms(2))
  have dec: "decodeArgon2Hash h = Inr (p\<lparr>a2_key_length := of_nat (length key), a2_salt_length := 0\<rparr>, salt, key)"
    unfolding h using assms(3) len [OF key] by (intro decode_format_hash) simp
  have same: "IDKey e pw' salt (p\<lparr>a2_key_length := of_nat (length key), a2_salt_length := 0\<rparr>) = IDKey e pw' salt p" for pw'
    by (simp add: IDKey_def len [OF key])
  have all: "ComparePasswordAndHash e pw' h =
      (case IDKey e pw' salt p of Ok k \<Rightarrow> Ok (k = key) | Err x \<Rightarrow> Err x | Panic m \<Rightarrow> Panic m)" for pw'
  proof (cases "IDKey e pw' salt p")
    case (Ok k)
    have "length k = length key" "length key \<le> 2147483647"
      using len [OF Ok] len [OF key] assms(3) by simp_all
    then show ?thesis by (simp add: ComparePasswordAndHash_def dec same Ok eq_commute)
  qed (simp_all add: ComparePasswordAndHash_def dec same)
  from all [of pw] key have "ComparePasswordAndHash e pw h = Ok True" by simp
  then show ?thesis using all key by blast
qed

theorem HashPassword_compare_witness:
  "\<exists>h w'. HashPassword example_env ''secret'' DefaultArgon2Params example_world = (Ok h, w') \<and>
    ComparePasswordAndHash example_env ''secret'' h = Ok True \<and>
    (\<exists>salt key. IDKey example_env ''secret'' salt DefaultArgon2Params = Ok key \<and>
       (\<forall>pw'. ComparePasswordAndHash example_env pw' h =
         (case IDKey example_env pw' salt DefaultArgon2Params of
            Ok k \<Rightarrow> Ok (k = key) | Err x \<Rightarrow> Err x | Panic m \<Rightarrow> Panic m)))"
  by (rule run_instance, code_simp, rule HashPassword_compare)
    (auto simp: DefaultArgon2Params_def split: if_splits)

end
