(* ===== verification/Custody_Data.thy ===== *)
theory Custody_Data
  imports Auth_Service
begin

text \<open>
  The statements of the organization, vault and signing services: inserts with the constraints of
  migrations/20250601000001 to 20250601000005, lookups by primary key, updates of whole rows.  An id
  that comes from a request is read as a uuid by the server (\<open>canon\<close>); a text that is not a uuid
  fails the statement (\<open>bad_uuid\<close>).
\<close>

section \<open>Ids from requests\<close>

definition canon :: "env \<Rightarrow> string \<Rightarrow> uuid" where
  "canon e s = (case env_parse_uuid e s of Some u \<Rightarrow> u | None \<Rightarrow> s)"

definition is_uuid :: "env \<Rightarrow> string \<Rightarrow> bool" where
  "is_uuid e s \<longleftrightarrow> env_parse_uuid e s \<noteq> None"

text \<open>\<open>uuid.New().String()\<close>.\<close>

definition uuid_New :: "env \<Rightarrow> (world, uuid) prog" where
  "uuid_New e = (\<lambda>w. (Ok (env_uuid e (clk w)), tick w))"

lemma uuid_New_iff [outcome_simps]: "uuid_New e w = (r, t) \<longleftrightarrow> r = Ok (env_uuid e (clk w)) \<and> t = tick w"
  by (auto simp: uuid_New_def)

lemma frame_uuid_New [frame_intros]: "frame db (uuid_New e)" "frame sign_calls (uuid_New e)"
  by (auto simp: frame_def uuid_New_def tick_def)

lemma keeps_uuid_New [keeps_intros]: "keeps (on_dbs P) (uuid_New e)"
  by (auto simp: keeps_def uuid_New_def on_dbs_def)

definition default_null_time :: "time \<Rightarrow> time option \<Rightarrow> time option" where
  "default_null_time now t = (case t of None \<Rightarrow> Some now | Some x \<Rightarrow> Some (default_time now x))"

section \<open>Lookups by primary key\<close>

definition find_row :: "string \<Rightarrow> env \<Rightarrow> handle \<Rightarrow> (database \<Rightarrow> 'r list) \<Rightarrow> ('r \<Rightarrow> uuid) \<Rightarrow> string \<Rightarrow> (world, 'r) prog" where
  "find_row table e h tab key txt =
     tryP (query e h (\<lambda>d. if \<not> is_uuid e txt then Inl bad_uuid
             else (case find (\<lambda>r. key r = canon e txt) (tab d) of None \<Rightarrow> Inl ErrNoRows | Some r \<Rightarrow> Inr r)))
       (\<lambda>res. case res of
          Inl x \<Rightarrow> if errors_is x ErrNoRows then errP ErrNoRows
                   else errP (ErrWrap (''models: unable to select from '' @ table) x)
        | Inr r \<Rightarrow> okP r)"

definition FindOrganization :: "env \<Rightarrow> string \<Rightarrow> (world, organization_row) prog" where
  "FindOrganization e i = find_row ''organizations'' e Pool organizations org_id i"

definition FindVault :: "env \<Rightarrow> string \<Rightarrow> (world, vault_row) prog" where
  "FindVault e i = find_row ''vaults'' e Pool vaults vlt_id i"

definition FindSigningRequest :: "env \<Rightarrow> string \<Rightarrow> (world, signing_request_row) prog" where
  "FindSigningRequest e i = find_row ''signing_requests'' e Pool signing_requests srq_id i"

definition FindOrganizationMember :: "env \<Rightarrow> string \<Rightarrow> string \<Rightarrow> (world, organization_member_row) prog" where
  "FindOrganizationMember e orgID userID =
     tryP (query e Pool (\<lambda>d. if \<not> is_uuid e orgID \<or> \<not> is_uuid e userID then Inl bad_uuid
             else (case find (\<lambda>m. mem_organization_id m = canon e orgID \<and> mem_user_id m = canon e userID)
                     (organization_members d) of None \<Rightarrow> Inl ErrNoRows | Some r \<Rightarrow> Inr r)))
       (\<lambda>res. case res of
          Inl x \<Rightarrow> if errors_is x ErrNoRows then errP ErrNoRows
                   else errP (ErrWrap ''models: unable to select from organization_members'' x)
        | Inr r \<Rightarrow> okP r)"

lemma find_row_Ok_iff [outcome_simps]:
  "find_row tn e h tab key txt w = (Ok r, t) \<longleftrightarrow>
     (\<exists>d. env_fault e (clk w) = None \<and> view h w = Some d \<and> is_uuid e txt \<and>
        find (\<lambda>r. key r = canon e txt) (tab d) = Some r \<and> t = tick w)"
  by (auto simp: find_row_def outcome_simps split: option.splits sum.splits if_splits)

lemma FindOrganizationMember_Ok_iff [outcome_simps]:
  "FindOrganizationMember e o_id u_id w = (Ok r, t) \<longleftrightarrow>
     (env_fault e (clk w) = None \<and> is_uuid e o_id \<and> is_uuid e u_id \<and>
        find (\<lambda>m. mem_organization_id m = canon e o_id \<and> mem_user_id m = canon e u_id)
          (organization_members (db w)) = Some r \<and> t = tick w)"
  by (auto simp: FindOrganizationMember_def outcome_simps split: option.splits sum.splits if_splits)

lemmas finder_defs = FindOrganization_def FindVault_def FindSigningRequest_def

lemma frame_db_find_row [frame_intros]:
  "frame db (find_row tn e h tab key txt)" "frame db (FindOrganizationMember e i j)"
  unfolding find_row_def FindOrganizationMember_def by (auto intro!: frame_intros)

lemma keeps_find_row [keeps_intros]:
  "keeps (on_dbs P) (find_row tn e h tab key txt)" "keeps (on_dbs P) (FindOrganizationMember e i j)"
  unfolding find_row_def FindOrganizationMember_def by (auto intro!: keeps_intros)

section \<open>Inserts\<close>

definition has_org :: "database \<Rightarrow> uuid \<Rightarrow> bool" where
  "has_org d i \<longleftrightarrow> (\<exists>r \<in> set (organizations d). org_id r = i)"

definition has_vault :: "database \<Rightarrow> uuid \<Rightarrow> bool" where
  "has_vault d i \<longleftrightarrow> (\<exists>r \<in> set (vaults d). vlt_id r = i)"

definition has_wallet :: "database \<Rightarrow> uuid \<Rightarrow> bool" where
  "has_wallet d i \<longleftrightarrow> (\<exists>r \<in> set (wallets d). wal_id r = i)"

definition has_chain :: "database \<Rightarrow> string \<Rightarrow> bool" where
  "has_chain d i \<longleftrightarrow> (\<exists>r \<in> set (chains d). chn_id r = i)"

definition has_request :: "database \<Rightarrow> uuid \<Rightarrow> bool" where
  "has_request d i \<longleftrightarrow> (\<exists>r \<in> set (signing_requests d). srq_id r = i)"

text \<open>A nullable column that holds a uuid of another table.\<close>

definition bad_ref :: "env \<Rightarrow> string option \<Rightarrow> bool" where
  "bad_ref e x = (case x of None \<Rightarrow> False | Some s \<Rightarrow> \<not> is_uuid e s)"

definition dangling :: "(uuid \<Rightarrow> bool) \<Rightarrow> uuid option \<Rightarrow> bool" where
  "dangling has x = (case x of None \<Rightarrow> False | Some i \<Rightarrow> \<not> has i)"

definition organization_insert :: "env \<Rightarrow> handle \<Rightarrow> organization_row \<Rightarrow> (world, organization_row) prog" where
  "organization_insert e h g = bindP (sys_now e) (\<lambda>now.
     insert_stmt ''organizations'' e h
       (\<lambda>n. g\<lparr>org_id := default_id (env_uuid e n) (org_id g), org_owner_id := canon e (org_owner_id g),
              org_created_at := default_null_time now (org_created_at g),
              org_updated_at := default_null_time now (org_updated_at g)\<rparr>)
       (\<lambda>r d. [(\<not> is_uuid e (org_owner_id g), bad_uuid),
               (char_length (org_name r) > 100, too_long),
               (has_org d (org_id r), unique_violation ''organizations_pkey''),
               (\<not> has_user d (org_owner_id r), fk_violation ''organizations_owner_id_fkey'')])
       (\<lambda>r d. d\<lparr>organizations := organizations d @ [r]\<rparr>))"

definition organization_member_insert ::
    "env \<Rightarrow> handle \<Rightarrow> organization_member_row \<Rightarrow> (world, organization_member_row) prog" where
  "organization_member_insert e h m = bindP (sys_now e) (\<lambda>now.
     insert_stmt ''organization_members'' e h
       (\<lambda>n. m\<lparr>mem_organization_id := canon e (mem_organization_id m), mem_user_id := canon e (mem_user_id m),
              mem_created_at := default_null_time now (mem_created_at m)\<rparr>)
       (\<lambda>r d. [(\<not> is_uuid e (mem_organization_id m), bad_uuid), (\<not> is_uuid e (mem_user_id m), bad_uuid),
               (char_length (mem_role r) > 50, too_long),
               (\<exists>q \<in> set (organization_members d). mem_organization_id q = mem_organization_id r \<and>
                  mem_user_id q = mem_user_id r, unique_violation ''organization_members_pkey''),
               (\<not> has_org d (mem_organization_id r), fk_violation ''organization_members_organization_id_fkey''),
               (\<not> has_user d (mem_user_id r), fk_violation ''organization_members_user_id_fkey'')])
       (\<lambda>r d. d\<lparr>organization_members := organization_members d @ [r]\<rparr>))"

definition vault_insert :: "env \<Rightarrow> handle \<Rightarrow> vault_row \<Rightarrow> (world, vault_row) prog" where
  "vault_insert e h v = bindP (sys_now e) (\<lambda>now.
     insert_stmt ''vaults'' e h
       (\<lambda>n. v\<lparr>vlt_id := default_id (env_uuid e n) (vlt_id v),
              vlt_organization_id := map_option (canon e) (vlt_organization_id v),
              vlt_created_at := default_null_time now (vlt_created_at v),
              vlt_updated_at := default_null_time now (vlt_updated_at v)\<rparr>)
       (\<lambda>r d. [(bad_ref e (vlt_organization_id v), bad_uuid),
               (char_length (vlt_name r) > 100, too_long),
               (has_vault d (vlt_id r), unique_violation ''vaults_pkey''),
               (dangling (has_org d) (vlt_organization_id r), fk_violation ''vaults_organization_id_fkey'')])
       (\<lambda>r d. d\<lparr>vaults := vaults d @ [r]\<rparr>))"

definition wallet_insert :: "env \<Rightarrow> handle \<Rightarrow> wallet_row \<Rightarrow> (world, wallet_row) prog" where
  "wallet_insert e h v = bindP (sys_now e) (\<lambda>now.
     insert_stmt ''wallets'' e h
       (\<lambda>n. v\<lparr>wal_id := default_id (env_uuid e n) (wal_id v),
              wal_vault_id := map_option (canon e) (wal_vault_id v),
              wal_created_at := default_null_time now (wal_created_at v),
              wal_updated_at := default_null_time now (wal_updated_at v)\<rparr>)
       (\<lambda>r d. [(bad_ref e (wal_vault_id v), bad_uuid),
               (char_length (wal_key_id r) > 255 \<or> char_length (wal_address r) > 255 \<or>
                char_length (wal_derive_path r) > 255 \<or>
                (case wal_chain_id r of None \<Rightarrow> False | Some c \<Rightarrow> char_length c > 50), too_long),
               (has_wallet d (wal_id r), unique_violation ''wallets_pkey''),
               (wal_vault_id r \<noteq> None \<and> wal_chain_id r \<noteq> None \<and>
                (\<exists>q \<in> set (wallets d). wal_vault_id q = wal_vault_id r \<and> wal_chain_id q = wal_chain_id r \<and>
                   wal_derive_index q = wal_derive_index r),
                  unique_violation ''wallets_vault_id_chain_id_derive_index_key''),
               (dangling (has_vault d) (wal_vault_id r), fk_violation ''wallets_vault_id_fkey''),
               (dangling (has_chain d) (wal_chain_id r), fk_violation ''wallets_chain_id_fkey'')])
       (\<lambda>r d. d\<lparr>wallets := wallets d @ [r]\<rparr>))"

definition signing_request_insert :: "env \<Rightarrow> handle \<Rightarrow> signing_request_row \<Rightarrow> (world, signing_request_row) prog" where
  "signing_request_insert e h q = bindP (sys_now e) (\<lambda>now.
     insert_stmt ''signing_requests'' e h
       (\<lambda>n. q\<lparr>srq_id := default_id (env_uuid e n) (srq_id q),
              srq_vault_id := map_option (canon e) (srq_vault_id q),
              srq_wallet_id := map_option (canon e) (srq_wallet_id q),
              srq_initiator_id := map_option (canon e) (srq_initiator_id q),
              srq_status := Some (case srq_status q of None \<Rightarrow> ''pending'' | Some s \<Rightarrow> s),
              srq_created_at := default_null_time now (srq_created_at q),
              srq_updated_at := default_null_time now (srq_updated_at q)\<rparr>)
       (\<lambda>r d. [(bad_ref e (srq_vault_id q) \<or> bad_ref e (srq_wallet_id q) \<or> bad_ref e (srq_initiator_id q), bad_uuid),
               (case srq_status r of None \<Rightarrow> False | Some s \<Rightarrow> char_length s > 50, too_long),
               (has_request d (srq_id r), unique_violation ''signing_requests_pkey''),
               (dangling (has_vault d) (srq_vault_id r), fk_violation ''signing_requests_vault_id_fkey''),
               (dangling (has_wallet d) (srq_wallet_id r), fk_violation ''signing_requests_wallet_id_fkey''),
               (dangling (has_user d) (srq_initiator_id r), fk_violation ''signing_requests_initiator_id_fkey'')])
       (\<lambda>r d. d\<lparr>signing_requests := signing_requests d @ [r]\<rparr>))"

definition approval_insert :: "env \<Rightarrow> handle \<Rightarrow> approval_row \<Rightarrow> (world, approval_row) prog" where
  "approval_insert e h a = bindP (sys_now e) (\<lambda>now.
     insert_stmt ''approvals'' e h
       (\<lambda>n. a\<lparr>apv_id := default_id (env_uuid e n) (apv_id a),
              apv_request_id := map_option (canon e) (apv_request_id a),
              apv_user_id := map_option (canon e) (apv_user_id a),
              apv_created_at := default_null_time now (apv_created_at a),
              apv_updated_at := default_null_time now (apv_updated_at a)\<rparr>)
       (\<lambda>r d. [(bad_ref e (apv_request_id a) \<or> bad_ref e (apv_user_id a), bad_uuid),
               (char_length (apv_action r) > 50, too_long),
               (\<exists>q \<in> set (approvals d). apv_id q = apv_id r, unique_violation ''approvals_pkey''),
               (apv_request_id r \<noteq> None \<and> apv_user_id r \<noteq> None \<and>
                (\<exists>q \<in> set (approvals d). apv_request_id q = apv_request_id r \<and> apv_user_id q = apv_user_id r),
                  unique_violation ''approvals_request_id_user_id_key''),
               (dangling (has_request d) (apv_request_id r), fk_violation ''approvals_request_id_fkey''),
               (dangling (has_user d) (apv_user_id r), fk_violation ''approvals_user_id_fkey'')])
       (\<lambda>r d. d\<lparr>approvals := approvals d @ [r]\<rparr>))"

lemmas custody_insert_defs = organization_insert_def organization_member_insert_def vault_insert_def
  wallet_insert_def signing_request_insert_def approval_insert_def

lemma clean_custody_inserts [clean_intros]:
  "fails_clean (organization_insert e h g)" "fails_clean (organization_member_insert e h m)"
  "fails_clean (vault_insert e h v)" "fails_clean (wallet_insert e h w)"
  "fails_clean (signing_request_insert e h q)" "fails_clean (approval_insert e h a)"
  unfolding custody_insert_defs by (intro clean_intros frame_intros)+

section \<open>Updates of whole rows\<close>

text \<open>
  \<open>Update\<close> with \<open>boil.Infer()\<close> writes every column except the primary key and \<open>created_at\<close> from
  the struct, whatever the row holds by then.
\<close>

definition write_request :: "signing_request_row \<Rightarrow> time \<Rightarrow> signing_request_row \<Rightarrow> signing_request_row" where
  "write_request q now r = q\<lparr>srq_created_at := srq_created_at r, srq_updated_at := Some now\<rparr>"

definition signing_request_update :: "env \<Rightarrow> handle \<Rightarrow> signing_request_row \<Rightarrow> (world, unit) prog" where
  "signing_request_update e h q = bindP (sys_now e) (\<lambda>now.
     modify_stmt ''models: unable to update signing_requests row'' e h
       (\<lambda>d. d\<lparr>signing_requests :=
          map (\<lambda>r. if srq_id r = srq_id q then write_request q now r else r) (signing_requests d)\<rparr>))"

definition organization_member_update :: "env \<Rightarrow> handle \<Rightarrow> organization_member_row \<Rightarrow> (world, unit) prog" where
  "organization_member_update e h m =
     wrapP ''models: unable to update organization_members row''
       (stmt e h (\<lambda>n d.
          if char_length (mem_role m) > 50 \<and>
             (\<exists>r \<in> set (organization_members d). mem_organization_id r = mem_organization_id m \<and> mem_user_id r = mem_user_id m)
          then Inl too_long
          else Inr ((), d\<lparr>organization_members :=
            map (\<lambda>r. if mem_organization_id r = mem_organization_id m \<and> mem_user_id r = mem_user_id m
                     then r\<lparr>mem_role := mem_role m\<rparr> else r) (organization_members d)\<rparr>)))"

definition organization_member_delete :: "env \<Rightarrow> handle \<Rightarrow> organization_member_row \<Rightarrow> (world, unit) prog" where
  "organization_member_delete e h m =
     modify_stmt ''models: unable to delete from organization_members'' e h
       (\<lambda>d. d\<lparr>organization_members := filter (\<lambda>r. \<not> (mem_organization_id r = mem_organization_id m \<and>
          mem_user_id r = mem_user_id m)) (organization_members d)\<rparr>)"

lemma write_request_simps [simp]:
  "srq_id (write_request q now r) = srq_id q" "srq_status (write_request q now r) = srq_status q"
  "srq_signature (write_request q now r) = srq_signature q"
  "srq_wallet_id (write_request q now r) = srq_wallet_id q"
  "srq_vault_id (write_request q now r) = srq_vault_id q"
  "srq_tx_data (write_request q now r) = srq_tx_data q"
  by (simp_all add: write_request_def)

end
