(* ===== verification/Custody.thy ===== *)
theory Custody
  imports Custody_Data
begin

text \<open>
  internal/service/organization/impl.go, internal/service/vault/impl.go and the key client of
  internal/infra/mpc/key_service.go: organizations with their members, vaults and wallets.  The call
  of the MPC infrastructure is \<open>env_key\<close>; the calls made are kept in \<open>key_calls\<close>.
\<close>

section \<open>Organizations\<close>

definition CreateOrganization :: "env \<Rightarrow> string \<Rightarrow> string \<Rightarrow> (world, organization_row) prog" where
  "CreateOrganization e name ownerID = wrapP ''insert organization''
     (organization_insert e Pool \<lparr>org_id = [], org_name = name, org_owner_id = ownerID,
        org_created_at = None, org_updated_at = None\<rparr>)"

text \<open>
  The last query passes the ids with the clause \<open>"id"\<close> to \<open>qm.WhereIn\<close> of the query builder (not
  under src/); what the builder makes of it is the parameter \<open>where_in\<close>.
\<close>

definition ListUserOrganizations ::
    "(database \<Rightarrow> uuid list \<Rightarrow> go_error + organization_row list) \<Rightarrow> env \<Rightarrow> uuid \<Rightarrow> (world, organization_row list) prog" where
  "ListUserOrganizations where_in e userID =
     bindP (wrapP ''list owned organizations''
              (all_rows ''Organization'' e Pool organizations (\<lambda>g. org_owner_id g = userID))) (\<lambda>owned.
     bindP (wrapP ''list memberships''
              (all_rows ''OrganizationMember'' e Pool organization_members (\<lambda>m. mem_user_id m = userID))) (\<lambda>memberOrgIDs.
     let ids = map mem_organization_id memberOrgIDs in
     bindP (if length ids > 0 then
              wrapP ''list member organizations''
                (wrapP ''models: failed to assign all query results to Organization''
                   (query e Pool (\<lambda>d. where_in d ids)))
            else okP []) (\<lambda>memberOrgs.
     okP (owned @ memberOrgs))))"

definition ListMembers :: "env \<Rightarrow> string \<Rightarrow> (world, organization_member_row list) prog" where
  "ListMembers e orgID = wrapP ''list members''
     (wrapP ''models: failed to assign all query results to OrganizationMember''
        (query e Pool (\<lambda>d. if \<not> is_uuid e orgID then Inl bad_uuid
           else Inr (filter (\<lambda>m. mem_organization_id m = canon e orgID) (organization_members d)))))"

definition AddMember :: "env \<Rightarrow> string \<Rightarrow> string \<Rightarrow> string \<Rightarrow> (world, organization_member_row) prog" where
  "AddMember e orgID userID role =
     thenP (wrapP ''organization not found'' (FindOrganization e orgID))
       (wrapP ''insert member'' (organization_member_insert e Pool
          \<lparr>mem_organization_id = orgID, mem_user_id = userID, mem_role = role, mem_created_at = None\<rparr>))"

definition RemoveMember :: "env \<Rightarrow> string \<Rightarrow> string \<Rightarrow> (world, unit) prog" where
  "RemoveMember e orgID userID =
     tryP (FindOrganizationMember e orgID userID) (\<lambda>res. case res of
        Inl x \<Rightarrow> if errors_is x ErrNoRows then okP () else errP (ErrWrap ''find member'' x)
      | Inr member \<Rightarrow> wrapP ''delete member'' (organization_member_delete e Pool member))"

definition UpdateMemberRole :: "env \<Rightarrow> string \<Rightarrow> string \<Rightarrow> string \<Rightarrow> (world, unit) prog" where
  "UpdateMemberRole e orgID userID role =
     bindP (wrapP ''find member'' (FindOrganizationMember e orgID userID)) (\<lambda>m.
       wrapP ''update member'' (organization_member_update e Pool (m\<lparr>mem_role := role\<rparr>)))"

section \<open>Vaults and wallets\<close>

definition CreateVault :: "env \<Rightarrow> string \<Rightarrow> string \<Rightarrow> (world, vault_row) prog" where
  "CreateVault e name orgID = wrapP ''failed to insert vault''
     (vault_insert e Pool \<lparr>vlt_id = [], vlt_organization_id = Some orgID, vlt_name = name, vlt_threshold = 2,
        vlt_created_at = None, vlt_updated_at = None\<rparr>)"

text \<open>\<open>KeyClient.CreateKey\<close>: the request is sent (and kept) whatever the answer is.\<close>

definition CreateKey :: "env \<Rightarrow> string \<Rightarrow> string \<Rightarrow> string \<Rightarrow> (world, string) prog" where
  "CreateKey e keyID algorithm curve = (\<lambda>w.
     let q = (keyID, algorithm, curve); t = (tick w)\<lparr>key_calls := key_calls w @ [q]\<rparr> in
     case env_key e (clk w) q of Inl x \<Rightarrow> (Err x, t) | Inr pubKey \<Rightarrow> (Ok pubKey, t))"

text \<open>\<open>pubKeyHex[:40]\<close> panics when the string is shorter.\<close>

definition deriveAddress :: "string \<Rightarrow> string \<Rightarrow> string outcome" where
  "deriveAddress pubKeyHex chainType =
     (if length pubKeyHex < 40 then Panic ''slice bounds out of range''
      else Ok (''0x'' @ take 40 pubKeyHex))"

definition key_kind :: "chain_row \<Rightarrow> string \<times> string" where
  "key_kind chain = (if chn_curve chain = ''ed25519'' then (''EdDSA'', ''ed25519'') else (''ECDSA'', ''secp256k1''))"

definition default_derive_path :: string where
  "default_derive_path = ''m/44'' @ [CHR 0x27] @ ''/60'' @ [CHR 0x27] @ ''/0'' @ [CHR 0x27] @ ''/0/0''"

definition CreateWallet :: "env \<Rightarrow> string \<Rightarrow> string \<Rightarrow> (world, wallet_row) prog" where
  "CreateWallet e vaultID chainID =
     bindP (wrapP ''chain not found'' (one_row ''chains'' e Pool chains (\<lambda>c. chn_id c = chainID))) (\<lambda>chain.
     bindP (uuid_New e) (\<lambda>walletID.
     bindP (wrapP ''mpc key generation failed'' (CreateKey e walletID (fst (key_kind chain)) (snd (key_kind chain)))) (\<lambda>pubKey.
     bindP (liftP (deriveAddress pubKey (chn_type chain))) (\<lambda>address.
       wrapP ''failed to insert wallet'' (wallet_insert e Pool
         \<lparr>wal_id = walletID, wal_vault_id = Some vaultID, wal_chain_id = Some chainID, wal_key_id = walletID,
          wal_address = address, wal_derive_path = default_derive_path, wal_derive_index = 0,
          wal_created_at = None, wal_updated_at = None\<rparr>)))))"

section \<open>The handlers of the vault and organization routes\<close>

text \<open>
  internal/api/handlers/vault and internal/api/handlers/organization after the body has been bound
  and validated.  The argument \<open>user\<close> is \<open>auth.UserFromContext(ctx)\<close>.
\<close>

definition echo_ErrForbidden :: go_error where
  "echo_ErrForbidden = EchoHTTPError 403 (MsgString ''Forbidden'') None"

definition echo_ErrNotFound :: go_error where
  "echo_ErrNotFound = EchoHTTPError 404 (MsgString ''Not Found'') None"

definition vault_org :: "uuid \<Rightarrow> organization_row list \<Rightarrow> organization_row" where
  "vault_org userID orgs = (case find (\<lambda>g. org_owner_id g = userID) orgs of Some g \<Rightarrow> g | None \<Rightarrow> hd orgs)"

fun create_wallets :: "env \<Rightarrow> uuid \<Rightarrow> string list \<Rightarrow> (world, unit) prog" where
  "create_wallets e vault [] = okP ()"
| "create_wallets e vault (chainID # cs) =
     thenP (tryP (CreateWallet e vault chainID) (\<lambda>_. okP ())) (create_wallets e vault cs)"

definition postCreateVaultHandler ::
    "(database \<Rightarrow> uuid list \<Rightarrow> go_error + organization_row list) \<Rightarrow> env \<Rightarrow> dto_user option \<Rightarrow> string \<Rightarrow> string list \<Rightarrow>
     (world, uuid \<times> string) prog" where
  "postCreateVaultHandler where_in e user name bodyChains = (case user of
      None \<Rightarrow> errP echo_ErrUnauthorized
    | Some u \<Rightarrow> bindP (ListUserOrganizations where_in e (du_id u)) (\<lambda>orgs.
        if length orgs = 0 then errP echo_ErrForbidden
        else bindP (CreateVault e name (org_id (vault_org (du_id u) orgs))) (\<lambda>vault.
          thenP (create_wallets e (vlt_id vault) bodyChains)
            (okP (vlt_id vault, ''active'')))))"

definition postCreateWalletHandler ::
    "env \<Rightarrow> dto_user option \<Rightarrow> string \<Rightarrow> string \<Rightarrow> (world, wallet_row) prog" where
  "postCreateWalletHandler e user vaultID chainID = (case user of
      None \<Rightarrow> errP echo_ErrUnauthorized
    | Some u \<Rightarrow> tryP (FindVault e vaultID) (\<lambda>res. case res of
        Inl _ \<Rightarrow> errP echo_ErrNotFound
      | Inr v \<Rightarrow>
          bindP (wrapP ''models: failed to check if organization_members exists''
             (query e Pool (\<lambda>d.
               let orgID = (case vlt_organization_id v of Some s \<Rightarrow> s | None \<Rightarrow> []) in
               if \<not> is_uuid e orgID then Inl bad_uuid
               else Inr (\<exists>m \<in> set (organization_members d).
                      mem_organization_id m = canon e orgID \<and> mem_user_id m = du_id u)))) (\<lambda>ok.
          if \<not> ok \<and> vlt_organization_id v \<noteq> None then errP echo_ErrForbidden
          else CreateWallet e vaultID chainID)))"

definition postCreateOrganizationHandler :: "env \<Rightarrow> dto_user option \<Rightarrow> string \<Rightarrow> (world, uuid \<times> string) prog" where
  "postCreateOrganizationHandler e user name =
     bindP (deref user) (\<lambda>u. bindP (CreateOrganization e name (du_id u)) (\<lambda>g. okP (org_id g, org_name g)))"

definition getListOrganizationsHandler ::
    "(database \<Rightarrow> uuid list \<Rightarrow> go_error + organization_row list) \<Rightarrow> env \<Rightarrow> dto_user option \<Rightarrow> (world, (uuid \<times> string) list) prog" where
  "getListOrganizationsHandler where_in e user =
     bindP (deref user) (\<lambda>u. bindP (ListUserOrganizations where_in e (du_id u)) (\<lambda>orgs.
       okP (map (\<lambda>g. (org_id g, org_name g)) orgs)))"

definition getListOrganizationMembersHandler :: "env \<Rightarrow> string \<Rightarrow> (world, (uuid \<times> string) list) prog" where
  "getListOrganizationMembersHandler e orgID =
     bindP (ListMembers e orgID) (\<lambda>members. okP (map (\<lambda>m. (mem_user_id m, mem_role m)) members))"

definition postAddOrganizationMemberHandler :: "env \<Rightarrow> string \<Rightarrow> string \<Rightarrow> string \<Rightarrow> (world, bool) prog" where
  "postAddOrganizationMemberHandler e orgID userID role = thenP (AddMember e orgID userID role) (okP True)"

definition deleteOrganizationMemberHandler :: "env \<Rightarrow> string \<Rightarrow> string \<Rightarrow> (world, bool) prog" where
  "deleteOrganizationMemberHandler e orgID userID = thenP (RemoveMember e orgID userID) (okP True)"

end
