(* ===== verification/Signing.thy ===== *)
theory Signing
  imports Custody Approval_Params
begin

text \<open>
  internal/service/signing/impl.go, internal/infra/mpc/signing_service.go and the signing handlers:
  signing requests, their approvals and the threshold signature.  \<open>env_sign\<close> answers the calls of the
  MPC infrastructure; the calls made are kept in \<open>sign_calls\<close> in order.
\<close>

section \<open>The MPC client\<close>

record mpc_auth_token =
  mat_passkey_signature :: string
  mat_authenticator_data :: string
  mat_client_data_json :: string
  mat_credential_id :: string

definition infra_token :: "mpc_auth_token \<Rightarrow> auth_token" where
  "infra_token t = \<lparr>tok_passkey_signature = mat_passkey_signature t,
     tok_authenticator_data = mat_authenticator_data t, tok_client_data_json = mat_client_data_json t,
     tok_credential_id = RawURL_EncodeToString (mat_credential_id t)\<rparr>"

definition ThresholdSign :: "env \<Rightarrow> string \<Rightarrow> string \<Rightarrow> string \<Rightarrow> mpc_auth_token list \<Rightarrow> (world, string) prog" where
  "ThresholdSign e keyID messageHex chainType authTokens = (\<lambda>w.
     let q = \<lparr>sc_key_id = keyID, sc_message_hex = messageHex, sc_chain_type = chainType,
              sc_auth_tokens = map infra_token authTokens\<rparr>;
         t = (tick w)\<lparr>sign_calls := sign_calls w @ [q]\<rparr> in
     case env_sign e (clk w) q of Inl x \<Rightarrow> (Err x, t) | Inr s \<Rightarrow> (Ok s, t))"

section \<open>Requests\<close>

definition CreateRequest :: "env \<Rightarrow> string \<Rightarrow> string \<Rightarrow> string \<Rightarrow> string \<Rightarrow> (world, signing_request_row) prog" where
  "CreateRequest e walletID txData note userID =
     bindP (uuid_New e) (\<lambda>i.
       wrapP ''failed to insert signing request'' (signing_request_insert e Pool
         \<lparr>srq_id = i, srq_vault_id = None, srq_wallet_id = Some walletID, srq_initiator_id = Some userID,
          srq_tx_data = txData, srq_tx_hash = None, srq_amount = None, srq_to_address = None,
          srq_note = Some note, srq_status = Some ''pending'', srq_mpc_session_id = None,
          srq_signature = None, srq_created_at = None, srq_updated_at = None\<rparr>))"

definition GetRequest :: "env \<Rightarrow> string \<Rightarrow> (world, signing_request_row) prog" where
  "GetRequest e requestID = FindSigningRequest e requestID"

definition string_of :: "string option \<Rightarrow> string" where
  "string_of x = (case x of None \<Rightarrow> [] | Some s \<Rightarrow> s)"

text \<open>
  The eager loads of \<open>ApproveRequest\<close>: the wallet of the request, then the vault and the chain of the
  wallet.  A relation whose key is null, or whose row is missing, stays nil; a query is sent only for
  a key that is not null.
\<close>

definition load_rel :: "string \<Rightarrow> env \<Rightarrow> (database \<Rightarrow> 'r list) \<Rightarrow> ('r \<Rightarrow> string) \<Rightarrow> string option \<Rightarrow> (world, 'r option) prog" where
  "load_rel name e tab key ref = (case ref of
      None \<Rightarrow> okP None
    | Some i \<Rightarrow> wrapP ''models: failed to execute a one query for signing_requests''
        (wrapP (''failed to eager load '' @ name) (query e Pool (\<lambda>d. Inr (find (\<lambda>r. key r = i) (tab d))))))"

record loaded_request =
  ld_request :: signing_request_row
  ld_wallet :: "wallet_row option"
  ld_vault :: "vault_row option"
  ld_chain :: "chain_row option"

definition load_request :: "env \<Rightarrow> string \<Rightarrow> (world, loaded_request) prog" where
  "load_request e requestID =
     bindP (one_by_uuid ''signing_requests'' e Pool signing_requests srq_id requestID (\<lambda>_. True)) (\<lambda>req.
     bindP (load_rel ''Wallet'' e wallets wal_id (srq_wallet_id req)) (\<lambda>wallet.
     bindP (load_rel ''Vault'' e vaults vlt_id (Option.bind wallet wal_vault_id)) (\<lambda>vault.
     bindP (load_rel ''Chain'' e chains chn_id (Option.bind wallet wal_chain_id)) (\<lambda>chain.
       okP \<lparr>ld_request = req, ld_wallet = wallet, ld_vault = vault, ld_chain = chain\<rparr>))))"

text \<open>\<open>models.Approvals(...)\<close> with texts compared with the uuid columns.\<close>

definition user_approved :: "env \<Rightarrow> string \<Rightarrow> string \<Rightarrow> (world, bool) prog" where
  "user_approved e requestID userID = wrapP ''models: failed to check if approvals exists''
     (query e Pool (\<lambda>d. if \<not> is_uuid e requestID \<or> \<not> is_uuid e userID then Inl bad_uuid
        else Inr (\<exists>a \<in> set (approvals d). apv_request_id a = Some (canon e requestID) \<and>
                    apv_user_id a = Some (canon e userID))))"

definition request_approvals :: "uuid \<Rightarrow> database \<Rightarrow> approval_row list" where
  "request_approvals i d = filter (\<lambda>a. apv_request_id a = Some i \<and> apv_action a = ''approve'') (approvals d)"

definition all_approvals :: "env \<Rightarrow> string \<Rightarrow> (world, approval_row list) prog" where
  "all_approvals e requestID = wrapP ''models: failed to assign all query results to Approval slice''
     (query e Pool (\<lambda>d. if \<not> is_uuid e requestID then Inl bad_uuid
        else Inr (request_approvals (canon e requestID) d)))"

text \<open>The loop over the approvals: \<open>json.Unmarshal\<close> of the comments, errors ignored.\<close>

fun collect_tokens :: "approval_row list \<Rightarrow> mpc_auth_token list" where
  "collect_tokens [] = []"
| "collect_tokens (a # as) = (case apv_comment a of
      None \<Rightarrow> collect_tokens as
    | Some c \<Rightarrow> (let p = unmarshal_params c in
        \<lparr>mat_passkey_signature = ap_signature p, mat_authenticator_data = ap_authenticator_data p,
         mat_client_data_json = ap_client_data_json p, mat_credential_id = ap_credential_id p\<rparr> # collect_tokens as))"

definition new_approval :: "uuid \<Rightarrow> string \<Rightarrow> string \<Rightarrow> string \<Rightarrow> string option \<Rightarrow> approval_row" where
  "new_approval i requestID userID action comment =
     \<lparr>apv_id = i, apv_request_id = Some requestID, apv_user_id = Some userID, apv_action = action,
      apv_comment = comment, apv_created_at = None, apv_updated_at = None\<rparr>"

text \<open>Step 4 of \<open>ApproveRequest\<close>: counting the approvals and signing.\<close>

definition check_threshold :: "env \<Rightarrow> string \<Rightarrow> loaded_request \<Rightarrow> (world, unit) prog" where
  "check_threshold e requestID ld =
     bindP (all_approvals e requestID) (\<lambda>approvals.
     bindP (deref (ld_wallet ld)) (\<lambda>wallet.
       (case ld_vault ld of
          None \<Rightarrow> errP (ErrPlain ''vault not found for wallet'')
        | Some vault \<Rightarrow>
            if int (length approvals) \<ge> vlt_threshold vault then
              bindP (wrapP ''mpc signing failed''
                 (ThresholdSign e (wal_key_id wallet) (srq_tx_data (ld_request ld))
                    (case ld_chain ld of None \<Rightarrow> ''evm'' | Some c \<Rightarrow> chn_type c) (collect_tokens approvals))) (\<lambda>signature.
              signing_request_update e Pool
                ((ld_request ld)\<lparr>srq_status := Some ''completed'', srq_signature := Some signature\<rparr>))
            else okP ())))"

definition ApproveRequest :: "env \<Rightarrow> string \<Rightarrow> approval_params \<Rightarrow> (world, unit) prog" where
  "ApproveRequest e requestID params =
     bindP (wrapP ''request not found'' (load_request e requestID)) (\<lambda>ld.
     if string_of (srq_status (ld_request ld)) \<noteq> ''pending'' then
       errP (ErrPlain (''request is not pending (status: '' @ string_of (srq_status (ld_request ld)) @ '')''))
     else
     bindP (user_approved e requestID (ap_user_id params)) (\<lambda>exists.
     if exists then errP (ErrPlain ''user already approved'')
     else
     bindP (uuid_New e) (\<lambda>i.
     thenP (approval_insert e Pool
              (new_approval i requestID (ap_user_id params) ''approve'' (Some (marshal_params params))))
       (check_threshold e requestID ld))))"

definition RejectRequest :: "env \<Rightarrow> string \<Rightarrow> string \<Rightarrow> (world, unit) prog" where
  "RejectRequest e requestID userID =
     bindP (FindSigningRequest e requestID) (\<lambda>req.
     if string_of (srq_status req) \<noteq> ''pending'' then errP (ErrPlain ''request is not pending'')
     else
     bindP (uuid_New e) (\<lambda>i.
     thenP (approval_insert e Pool (new_approval i requestID userID ''reject'' None))
       (signing_request_update e Pool (req\<lparr>srq_status := Some ''rejected''\<rparr>))))"

section \<open>Listing\<close>

text \<open>
  The join of requests with vaults and memberships, one row per match.  \<open>created_at DESC\<close> puts nulls
  first; rows with equal keys come in the order of the table, which is arbitrary.
\<close>

definition visible_requests :: "uuid \<Rightarrow> uuid option \<Rightarrow> string \<Rightarrow> database \<Rightarrow> signing_request_row list" where
  "visible_requests userID vaultID status d =
     [r. r \<leftarrow> signing_requests d, v \<leftarrow> vaults d, m \<leftarrow> organization_members d,
         srq_vault_id r = Some (vlt_id v) \<and> vlt_organization_id v = Some (mem_organization_id m) \<and>
         mem_user_id m = userID \<and> (status = [] \<or> srq_status r = Some status) \<and>
         (case vaultID of None \<Rightarrow> True | Some i \<Rightarrow> srq_vault_id r = Some i)]"

definition newest_first :: "signing_request_row list \<Rightarrow> signing_request_row list" where
  "newest_first rs = filter (\<lambda>r. srq_created_at r = None) rs @
     sort_key (\<lambda>r. - the (srq_created_at r)) (filter (\<lambda>r. srq_created_at r \<noteq> None) rs)"

definition page_limit :: "int \<Rightarrow> int" where
  "page_limit limit = (if limit \<le> 0 then 20 else limit)"

text \<open>\<open>(page - 1) * limit\<close> in 64 bit arithmetic.\<close>

definition page_offset :: "int \<Rightarrow> int \<Rightarrow> int" where
  "page_offset page limit =
     sint ((word_of_int (if page \<le> 0 then 1 else page) - 1) * word_of_int (page_limit limit) :: 64 word)"

definition ListRequests :: "env \<Rightarrow> string \<Rightarrow> string \<Rightarrow> string \<Rightarrow> int \<Rightarrow> int \<Rightarrow> (world, signing_request_row list \<times> int) prog" where
  "ListRequests e userID vaultID status page limit =
     (let bad = (\<not> is_uuid e userID \<or> vaultID \<noteq> [] \<and> \<not> is_uuid e vaultID);
          rows = visible_requests (canon e userID) (if vaultID = [] then None else Some (canon e vaultID)) status;
          offset = page_offset page limit in
      bindP (wrapP ''models: failed to count signing_requests rows''
               (query e Pool (\<lambda>d. if bad then Inl bad_uuid else Inr (int (length (rows d)))))) (\<lambda>total.
      bindP (wrapP ''models: failed to assign all query results to SigningRequest slice''
               (query e Pool (\<lambda>d. if bad then Inl bad_uuid
                  else if offset < 0 then Inl (ErrDriver ''pq: OFFSET must not be negative'')
                  else Inr (take (nat (page_limit limit)) (drop (nat offset) (newest_first (rows d))))))) (\<lambda>items.
      okP (items, total))))"

section \<open>The handlers of the signing routes\<close>

text \<open>After the body or the query has been bound; \<open>user\<close> is \<open>auth.UserFromContext(ctx)\<close>.\<close>

record list_params =
  lp_status :: string
  lp_vault_id :: string
  lp_page :: int
  lp_limit :: int

definition validate_list_params :: "list_params \<Rightarrow> go_error option" where
  "validate_list_params p =
     (if lp_status p \<notin> {[], ''pending'', ''completed'', ''rejected''}
      then Some (EchoHTTPError 400 (MsgString ''invalid status'') None)
      else if lp_page p < 0 \<or> lp_limit p < 0
      then Some (EchoHTTPError 400 (MsgString ''invalid pagination'') None)
      else None)"

record request_item =
  ri_id :: string
  ri_vault_id :: string
  ri_wallet_id :: string
  ri_to_address :: string
  ri_status :: string
  ri_created_at :: "time option"

definition mapSigningRequest :: "signing_request_row \<Rightarrow> request_item" where
  "mapSigningRequest r = \<lparr>ri_id = srq_id r, ri_vault_id = string_of (srq_vault_id r),
     ri_wallet_id = string_of (srq_wallet_id r), ri_to_address = string_of (srq_to_address r),
     ri_status = string_of (srq_status r), ri_created_at = srq_created_at r\<rparr>"

definition getListSigningRequestsHandler ::
    "env \<Rightarrow> dto_user option \<Rightarrow> list_params \<Rightarrow> (world, request_item list \<times> int) prog" where
  "getListSigningRequestsHandler e user params = (case validate_list_params params of
      Some x \<Rightarrow> errP (ErrWrap ''failed to validate payload'' x)
    | None \<Rightarrow> (case user of
        None \<Rightarrow> errP echo_ErrUnauthorized
      | Some u \<Rightarrow> bindP (ListRequests e (du_id u) (lp_vault_id params) (lp_status params) (lp_page params) (lp_limit params))
          (\<lambda>(items, total). okP (map mapSigningRequest items, sint (word_of_int total :: 32 word)))))"

record approve_payload =
  pl_action :: string
  pl_credential_id :: string
  pl_signature :: string
  pl_authenticator_data :: string
  pl_client_data_json :: string

definition postApproveSigningRequestHandler ::
    "env \<Rightarrow> dto_user option \<Rightarrow> string \<Rightarrow> approve_payload \<Rightarrow> (world, string) prog" where
  "postApproveSigningRequestHandler e user requestID body = (case user of
      None \<Rightarrow> errP echo_ErrUnauthorized
    | Some u \<Rightarrow>
        if pl_action body = ''reject'' then thenP (RejectRequest e requestID (du_id u)) (okP ''rejected'')
        else thenP (ApproveRequest e requestID
               \<lparr>ap_user_id = du_id u, ap_credential_id = pl_credential_id body, ap_signature = pl_signature body,
                ap_authenticator_data = pl_authenticator_data body, ap_client_data_json = pl_client_data_json body\<rparr>)
             (okP ''approved''))"

definition postCreateSigningRequestHandler ::
    "env \<Rightarrow> dto_user option \<Rightarrow> string \<Rightarrow> string \<Rightarrow> string \<Rightarrow> (world, string \<times> string) prog" where
  "postCreateSigningRequestHandler e user walletID txData note = (case user of
      None \<Rightarrow> errP echo_ErrUnauthorized
    | Some u \<Rightarrow> bindP (CreateRequest e walletID txData note (du_id u)) (\<lambda>req.
        okP (srq_id req, string_of (srq_status req))))"

end
