(* ===== verification/Db_Logic.thy ===== *)
theory Db_Logic
  imports Transactions
begin

text \<open>
  A small program logic for code that works on the connection pool, outside transactions:
  \<open>dvalid P m Q E\<close> says that from a committed database with \<open>P\<close> the program \<open>m\<close> either returns a value
  \<open>x\<close> and leaves a database with \<open>Q x\<close>, or fails (an error or a panic) and leaves one with \<open>E\<close>.  It is
  used where an operation of several statements passes through intermediate databases.
\<close>

definition dvalid :: "(database \<Rightarrow> bool) \<Rightarrow> (world, 'a) prog \<Rightarrow> ('a \<Rightarrow> database \<Rightarrow> bool) \<Rightarrow> (database \<Rightarrow> bool) \<Rightarrow> bool" where
  "dvalid P m Q E \<longleftrightarrow> (\<forall>w. tx w = None \<longrightarrow> P (db w) \<longrightarrow> (case m w of
      (Ok x, t) \<Rightarrow> tx t = None \<and> Q x (db t)
    | (Err _, t) \<Rightarrow> tx t = None \<and> E (db t)
    | (Panic _, t) \<Rightarrow> tx t = None \<and> E (db t)))"

named_theorems dvalid_intros \<open>rules of the program logic\<close>

lemma dvalidI:
  assumes "\<And>w x t. tx w = None \<Longrightarrow> P (db w) \<Longrightarrow> m w = (Ok x, t) \<Longrightarrow> tx t = None \<and> Q x (db t)"
    and "\<And>w r t. tx w = None \<Longrightarrow> P (db w) \<Longrightarrow> m w = (r, t) \<Longrightarrow> \<not> is_ok r \<Longrightarrow> tx t = None \<and> E (db t)"
  shows "dvalid P m Q E"
  unfolding dvalid_def
proof (intro allI impI)
  fix w :: world assume w: "tx w = None" "P (db w)"
  obtain r t where m: "m w = (r, t)" by (cases "m w")
  show "case m w of (Ok x, t) \<Rightarrow> tx t = None \<and> Q x (db t) | (Err _, t) \<Rightarrow> tx t = None \<and> E (db t)
    | (Panic _, t) \<Rightarrow> tx t = None \<and> E (db t)"
    using assms(1) [OF w] assms(2) [OF w m] m by (cases r) simp_all
qed

lemma dvalid_spec:
  assumes "dvalid P m Q E" "tx w = None" "P (db w)"
  shows "case m w of (Ok x, t) \<Rightarrow> tx t = None \<and> Q x (db t) | (Err _, t) \<Rightarrow> tx t = None \<and> E (db t)
    | (Panic _, t) \<Rightarrow> tx t = None \<and> E (db t)"
  by (rule mp [OF mp [OF spec [OF assms(1) [unfolded dvalid_def]]]]) (rule assms)+

lemma dvalid_Ok:
  assumes "dvalid P m Q E" "tx w = None" "P (db w)" "m w = (Ok x, t)"
  shows "Q x (db t) \<and> tx t = None"
  using dvalid_spec [OF assms(1-3)] assms(4) by simp

lemma dvalid_fail:
  assumes "dvalid P m Q E" "tx w = None" "P (db w)" "m w = (r, t)" "\<not> is_ok r"
  shows "E (db t) \<and> tx t = None"
  using dvalid_spec [OF assms(1-3)] assms(4,5) by (cases r) simp_all

text \<open>An invariant on every outcome.\<close>

lemma dvalid_always:
  assumes "dvalid P m (\<lambda>_. I) I" "tx w = None" "P (db w)" "m w = (r, t)"
  shows "I (db t) \<and> tx t = None"
  using dvalid_spec [OF assms(1-3)] assms(4) by (cases r) simp_all

lemma dvalid_conseq:
  assumes "dvalid P m Q E" "\<And>d. P' d \<Longrightarrow> P d" "\<And>x d. Q x d \<Longrightarrow> Q' x d" "\<And>d. E d \<Longrightarrow> E' d"
  shows "dvalid P' m Q' E'"
proof (rule dvalidI)
  fix w x t assume "tx w = None" "P' (db w)" "m w = (Ok x, t)"
  then show "tx t = None \<and> Q' x (db t)" using dvalid_Ok [OF assms(1), of w x t] assms(2,3) by blast
next
  fix w r t assume "tx w = None" "P' (db w)" "m w = (r, t)" "\<not> is_ok r"
  then show "tx t = None \<and> E' (db t)" using dvalid_fail [OF assms(1), of w r t] assms(2,4) by blast
qed

lemma dvalid_err: "dvalid P m Q E \<Longrightarrow> (\<And>d. E d \<Longrightarrow> E' d) \<Longrightarrow> dvalid P m Q E'"
  by (rule dvalid_conseq [of P m Q E])

lemma dvalid_post: "dvalid P m Q E \<Longrightarrow> (\<And>x d. Q x d \<Longrightarrow> Q' x d) \<Longrightarrow> dvalid P m Q' E"
  by (rule dvalid_conseq [of P m Q E])

lemma dvalid_okP [dvalid_intros]: "(\<And>d. P d \<Longrightarrow> Q x d) \<Longrightarrow> dvalid P (okP x) Q E"
  by (auto simp: dvalid_def okP_def)

lemma dvalid_errP [dvalid_intros]: "(\<And>d. P d \<Longrightarrow> E d) \<Longrightarrow> dvalid P (errP e) Q E"
  by (auto simp: dvalid_def errP_def)

lemma dvalid_bindP:
  assumes "dvalid P m R E" and "\<And>x. dvalid (R x) (f x) Q E"
  shows "dvalid P (bindP m f) Q E"
proof (rule dvalidI)
  fix w y t assume w: "tx w = None" "P (db w)" and "bindP m f w = (Ok y, t)"
  then obtain x u where m: "m w = (Ok x, u)" and f: "f x u = (Ok y, t)" by (auto simp: bindP_Ok_iff)
  with dvalid_Ok [OF assms(1) w m] dvalid_Ok [OF assms(2) _ _ f] show "tx t = None \<and> Q y (db t)" by blast
next
  fix w r t assume w: "tx w = None" "P (db w)" and run: "bindP m f w = (r, t)" and r: "\<not> is_ok r"
  from bindP_fail [OF run r] show "tx t = None \<and> E (db t)"
  proof (elim disjE exE conjE)
    fix r' assume "m w = (r', t)" "\<not> is_ok r'"
    then show ?thesis using dvalid_fail [OF assms(1) w] by blast
  next
    fix x u assume m: "m w = (Ok x, u)" and f: "f x u = (r, t)"
    then show ?thesis using dvalid_Ok [OF assms(1) w m] dvalid_fail [OF assms(2) _ _ f r] by blast
  qed
qed

lemma dvalid_tryP:
  assumes "dvalid P m R F" and "\<And>x. dvalid (R x) (k (Inr x)) Q E" and "\<And>y. dvalid F (k (Inl y)) Q E"
    and "\<And>d. F d \<Longrightarrow> E d"
  shows "dvalid P (tryP m k) Q E"
proof (rule dvalidI)
  fix w y t assume w: "tx w = None" "P (db w)" and "tryP m k w = (Ok y, t)"
  then consider x u where "m w = (Ok x, u)" "k (Inr x) u = (Ok y, t)"
    | x u where "m w = (Err x, u)" "k (Inl x) u = (Ok y, t)"
    by (auto simp: tryP_Ok_iff)
  then show "tx t = None \<and> Q y (db t)"
  proof cases
    case 1
    then show ?thesis using dvalid_Ok [OF assms(1) w 1(1)] dvalid_Ok [OF assms(2) _ _ 1(2)] by blast
  next
    case 2
    then show ?thesis using dvalid_fail [OF assms(1) w 2(1)] dvalid_Ok [OF assms(3) _ _ 2(2)] by simp
  qed
next
  fix w r t assume w: "tx w = None" "P (db w)" and run: "tryP m k w = (r, t)" and r: "\<not> is_ok r"
  from tryP_fail [OF run r] show "tx t = None \<and> E (db t)"
  proof (elim disjE exE conjE)
    fix x u assume "m w = (Ok x, u)" "k (Inr x) u = (r, t)"
    then show ?thesis using dvalid_Ok [OF assms(1) w] dvalid_fail [OF assms(2) _ _ _ r] by blast
  next
    fix x u assume m: "m w = (Err x, u)" and k: "k (Inl x) u = (r, t)"
    then show ?thesis using dvalid_fail [OF assms(1) w m] dvalid_fail [OF assms(3) _ _ k r] by simp
  next
    fix c assume "m w = (Panic c, t)"
    then show ?thesis using dvalid_fail [OF assms(1) w] assms(4) by fastforce
  qed
qed

lemma dvalid_thenP: "dvalid P m (\<lambda>_. R) E \<Longrightarrow> dvalid R n Q E \<Longrightarrow> dvalid P (thenP m n) Q E"
  by (simp add: thenP_def dvalid_bindP)

lemma dvalid_wrapP [dvalid_intros]: "dvalid P m Q E \<Longrightarrow> dvalid P (wrapP msg m) Q E"
  by (rule dvalidI) (auto simp: wrapP_Ok_iff dest!: wrapP_fail dest: dvalid_Ok dvalid_fail)

lemma dvalid_if: "(b \<Longrightarrow> dvalid P m Q E) \<Longrightarrow> (\<not> b \<Longrightarrow> dvalid P n Q E) \<Longrightarrow> dvalid P (if b then m else n) Q E"
  by simp

lemma dvalid_pre: "(\<And>d. P d \<Longrightarrow> b) \<Longrightarrow> (b \<Longrightarrow> dvalid P m Q E) \<Longrightarrow> dvalid P m Q E"
  by (auto simp: dvalid_def)

section \<open>Statements\<close>

lemma dvalid_reads:
  assumes "frame db m" and "frame tx m" and "\<And>w x t. tx w = None \<Longrightarrow> m w = (Ok x, t) \<Longrightarrow> G x (db w)"
  shows "dvalid P m (\<lambda>x d. P d \<and> G x d) P"
  by (rule dvalidI) (auto simp: frameD [OF assms(1)] frameD [OF assms(2)] dest: assms(3))

lemma dvalid_query [dvalid_intros]:
  "dvalid P (query e Pool q) (\<lambda>x d. P d \<and> q d = Inr x) P"
  by (rule dvalid_reads) (auto intro: frame_db_query frame_tx_query simp: query_Ok_iff)

lemma dvalid_sys_now [dvalid_intros]: "dvalid P (sys_now e) (\<lambda>_. P) P"
  by (rule dvalidI) (auto simp: sys_now_def)

lemma dvalid_insert [dvalid_intros]:
  "dvalid P (insert_stmt tn e Pool c ch ad) (\<lambda>r d'. \<exists>d. P d \<and> first_error (ch r d) = None \<and> d' = ad r d) P"
proof (rule dvalidI, goal_cases)
  case (1 w x t)
  then show ?case by (auto simp: insert_stmt_Pool_Ok_iff)
next
  case (2 w r t)
  have "fails_clean (insert_stmt tn e Pool c ch ad)" by (intro clean_intros)
  then have "db t = db w" using 2 by (auto dest: fails_cleanD)
  moreover have "tx t = None"
    using 2 by (auto simp: insert_stmt_def wrapP_def tryP_def stmt_def okP_def errP_def
        split: option.splits sum.splits prod.splits outcome.splits)
  ultimately show ?case using 2 by simp
qed

lemma dvalid_modify [dvalid_intros]:
  "dvalid P (modify_stmt msg e Pool f) (\<lambda>_ d'. \<exists>d. P d \<and> d' = f d) P"
proof (rule dvalidI, goal_cases)
  case (1 w x t)
  then show ?case by (auto simp: modify_stmt_Pool_Ok_iff)
next
  case (2 w r t)
  have "fails_clean (modify_stmt msg e Pool f)" by (intro clean_intros)
  then have "db t = db w" using 2 by (auto dest: fails_cleanD)
  moreover have "tx t = None"
    using 2 by (auto simp: modify_stmt_def wrapP_def tryP_def stmt_def okP_def errP_def
        split: option.splits sum.splits prod.splits outcome.splits)
  ultimately show ?case using 2 by simp
qed

end
