(* ===== verification/Custody_Facts.thy ===== *)
theory Custody_Facts
  imports Signing Auth_Facts Db_Logic
begin

text \<open>
  The invariant of the organization, vault and signing tables and the proof that every operation of
  the three services keeps it; the invariant of the user tables under the same operations and the
  custody invariant under those of the authentication service.
\<close>

section \<open>The invariant\<close>

text \<open>
  Keys are unique, references point to rows, a pair of organization and user is a member once and a
  user decides on a request once.  A request is pending, completed or rejected; it has a signature
  iff it is completed, and then someone has approved it; a rejected request has a rejection.  The
  comment of an approval is the text of the credentials it was given with.
\<close>

definition membership_ok :: "database \<Rightarrow> bool" where
  "membership_ok d \<longleftrightarrow> distinct (map org_id (organizations d)) \<and>
     distinct (map (\<lambda>m. (mem_organization_id m, mem_user_id m)) (organization_members d)) \<and>
     (\<forall>m \<in> set (organization_members d). has_org d (mem_organization_id m))"

definition wallets_ok :: "database \<Rightarrow> bool" where
  "wallets_ok d \<longleftrightarrow> distinct (map vlt_id (vaults d)) \<and> distinct (map wal_id (wallets d)) \<and>
     (\<forall>v \<in> set (vaults d). \<not> dangling (has_org d) (vlt_organization_id v)) \<and>
     (\<forall>x \<in> set (wallets d). wal_vault_id x \<noteq> None \<and> wal_chain_id x \<noteq> None \<and>
        \<not> dangling (has_vault d) (wal_vault_id x) \<and> \<not> dangling (has_chain d) (wal_chain_id x)) \<and>
     distinct (map (\<lambda>x. (wal_vault_id x, wal_chain_id x, wal_derive_index x)) (wallets d))"

definition approved :: "uuid \<Rightarrow> string \<Rightarrow> database \<Rightarrow> bool" where
  "approved i action d \<longleftrightarrow> (\<exists>a \<in> set (approvals d). apv_request_id a = Some i \<and> apv_action a = action)"

definition request_ok :: "database \<Rightarrow> signing_request_row \<Rightarrow> bool" where
  "request_ok d r \<longleftrightarrow> srq_status r \<in> {Some ''pending'', Some ''completed'', Some ''rejected''} \<and>
     (srq_signature r \<noteq> None \<longleftrightarrow> srq_status r = Some ''completed'') \<and>
     (srq_status r = Some ''completed'' \<longrightarrow> approved (srq_id r) ''approve'' d) \<and>
     (srq_status r = Some ''rejected'' \<longrightarrow> approved (srq_id r) ''reject'' d) \<and>
     srq_wallet_id r \<noteq> None \<and> \<not> dangling (has_wallet d) (srq_wallet_id r)"

definition approval_ok :: "database \<Rightarrow> approval_row \<Rightarrow> bool" where
  "approval_ok d a \<longleftrightarrow> apv_request_id a \<noteq> None \<and> apv_user_id a \<noteq> None \<and>
     \<not> dangling (has_request d) (apv_request_id a) \<and> apv_action a \<in> {''approve'', ''reject''} \<and>
     (apv_action a = ''approve'' \<longrightarrow> (\<exists>p. apv_comment a = Some (marshal_params p)))"

definition signing_ok :: "database \<Rightarrow> bool" where
  "signing_ok d \<longleftrightarrow> distinct (map srq_id (signing_requests d)) \<and>
     distinct (map (\<lambda>a. (apv_request_id a, apv_user_id a)) (approvals d)) \<and>
     (\<forall>r \<in> set (signing_requests d). request_ok d r) \<and> (\<forall>a \<in> set (approvals d). approval_ok d a)"

definition custody_ok :: "database \<Rightarrow> bool" where
  "custody_ok d \<longleftrightarrow> membership_ok d \<and> wallets_ok d \<and> signing_ok d"

lemma custody_ok_empty: "custody_ok empty_db"
  by (simp add: custody_ok_def membership_ok_def wallets_ok_def signing_ok_def empty_db_def)

lemma has_rows:
  "has_org d = (\<lambda>i. i \<in> org_id ` set (organizations d))"
  "has_vault d = (\<lambda>i. i \<in> vlt_id ` set (vaults d))"
  "has_wallet d = (\<lambda>i. i \<in> wal_id ` set (wallets d))"
  "has_chain d = (\<lambda>i. i \<in> chn_id ` set (chains d))"
  "has_request d = (\<lambda>i. i \<in> srq_id ` set (signing_requests d))"
  by (auto simp: has_org_def has_vault_def has_wallet_def has_chain_def has_request_def fun_eq_iff)

text \<open>What the invariant reads.\<close>

lemmas custody_reads = custody_ok_def membership_ok_def wallets_ok_def signing_ok_def request_ok_def
  approval_ok_def approved_def has_rows

lemma custody_ok_cong:
  assumes "organizations d' = organizations d" "organization_members d' = organization_members d"
    "chains d' = chains d" "vaults d' = vaults d" "wallets d' = wallets d"
    "signing_requests d' = signing_requests d" "approvals d' = approvals d"
  shows "custody_ok d' = custody_ok d"
  unfolding custody_reads assms ..

lemma dangling_insertD: "dangling (\<lambda>i. i = a \<or> P i) x \<Longrightarrow> dangling P x"
  by (auto simp: dangling_def split: option.splits)

section \<open>Steps that keep it\<close>

lemma custody_ok_org:
  assumes "custody_ok d" "\<not> has_org d (org_id g)"
  shows "custody_ok (d\<lparr>organizations := organizations d @ [g]\<rparr>)"
proof -
  have "membership_ok (d\<lparr>organizations := organizations d @ [g]\<rparr>)"
    using assms by (auto simp: custody_ok_def membership_ok_def) (auto simp: has_org_def)
  moreover have "wallets_ok (d\<lparr>organizations := organizations d @ [g]\<rparr>)"
    using assms
    by (auto simp: custody_ok_def wallets_ok_def has_rows dest!: dangling_insertD)
  moreover have "signing_ok (d\<lparr>organizations := organizations d @ [g]\<rparr>)"
    using assms by (simp add: custody_reads)
  ultimately show ?thesis by (simp add: custody_ok_def)
qed

lemma custody_ok_members:
  assumes "custody_ok d"
    and "distinct (map (\<lambda>m. (mem_organization_id m, mem_user_id m)) ms)"
    and "\<forall>m \<in> set ms. has_org d (mem_organization_id m)"
  shows "custody_ok (d\<lparr>organization_members := ms\<rparr>)"
  using assms by (simp add: custody_reads)

lemma custody_ok_member_add:
  assumes "custody_ok d" "has_org d (mem_organization_id m)"
    and "\<forall>q \<in> set (organization_members d). mem_organization_id q = mem_organization_id m \<longrightarrow>
      mem_user_id q \<noteq> mem_user_id m"
  shows "custody_ok (d\<lparr>organization_members := organization_members d @ [m]\<rparr>)"
  using assms
  by (intro custody_ok_members) (auto simp: custody_ok_def membership_ok_def)

lemma custody_ok_vault:
  assumes "custody_ok d" "\<not> has_vault d (vlt_id v)" "\<not> dangling (has_org d) (vlt_organization_id v)"
  shows "custody_ok (d\<lparr>vaults := vaults d @ [v]\<rparr>)"
proof -
  have "wallets_ok (d\<lparr>vaults := vaults d @ [v]\<rparr>)"
    using assms
    by (auto simp: custody_ok_def wallets_ok_def has_rows dest!: dangling_insertD)
  then show ?thesis
    using assms by (simp add: custody_ok_def) (simp add: custody_reads)
qed

lemma custody_ok_wallet:
  assumes "custody_ok d" "\<not> has_wallet d (wal_id x)" "\<not> dangling (has_vault d) (wal_vault_id x)"
    "\<not> dangling (has_chain d) (wal_chain_id x)" "wal_vault_id x \<noteq> None" "wal_chain_id x \<noteq> None"
    and "\<forall>q \<in> set (wallets d). wal_vault_id q = wal_vault_id x \<longrightarrow> wal_chain_id q = wal_chain_id x \<longrightarrow>
      wal_derive_index q \<noteq> wal_derive_index x"
  shows "custody_ok (d\<lparr>wallets := wallets d @ [x]\<rparr>)"
proof -
  have "wallets_ok (d\<lparr>wallets := wallets d @ [x]\<rparr>)"
    using assms
    by (auto simp: custody_ok_def wallets_ok_def has_rows)
  moreover have "signing_ok (d\<lparr>wallets := wallets d @ [x]\<rparr>)"
    using assms(1)
    by (auto simp: custody_ok_def signing_ok_def request_ok_def approval_ok_def approved_def has_rows dest!: dangling_insertD)
  ultimately show ?thesis
    using assms(1) by (simp add: custody_ok_def) (simp add: custody_reads)
qed

lemma custody_ok_request:
  assumes "custody_ok d" "\<not> has_request d (srq_id q)" "\<not> dangling (has_wallet d) (srq_wallet_id q)"
    "srq_wallet_id q \<noteq> None" "srq_status q = Some ''pending''" "srq_signature q = None"
  shows "custody_ok (d\<lparr>signing_requests := signing_requests d @ [q]\<rparr>)"
proof -
  have "signing_ok (d\<lparr>signing_requests := signing_requests d @ [q]\<rparr>)"
    using assms
    by (auto simp: custody_ok_def signing_ok_def request_ok_def approval_ok_def approved_def has_rows
        dest!: dangling_insertD)
  then show ?thesis
    using assms(1) by (simp add: custody_ok_def) (simp add: custody_reads)
qed

lemma custody_ok_approval:
  assumes "custody_ok d" "approval_ok d a"
    and "\<forall>q \<in> set (approvals d). apv_request_id q = apv_request_id a \<longrightarrow> apv_user_id q \<noteq> apv_user_id a"
  shows "custody_ok (d\<lparr>approvals := approvals d @ [a]\<rparr>)"
proof -
  have "signing_ok (d\<lparr>approvals := approvals d @ [a]\<rparr>)"
    using assms
    by (auto simp: custody_ok_def signing_ok_def request_ok_def approval_ok_def approved_def has_rows)
  then show ?thesis
    using assms(1) by (simp add: custody_ok_def) (simp add: custody_reads)
qed

text \<open>A write of a whole request that is itself acceptable keeps the invariant.\<close>

lemma custody_ok_request_update:
  assumes "custody_ok d" and "\<And>r. r \<in> set (signing_requests d) \<Longrightarrow> srq_id r = i \<Longrightarrow> request_ok d (f r)"
    and "\<And>r. srq_id (f r) = i"
  shows "custody_ok (d\<lparr>signing_requests := map (\<lambda>r. if srq_id r = i then f r else r) (signing_requests d)\<rparr>)"
    (is "custody_ok ?d")
proof -
  have ids: "map srq_id (map (\<lambda>r. if srq_id r = i then f r else r) (signing_requests d)) = map srq_id (signing_requests d)"
    using assms(3) by auto
  have has: "has_request ?d j = has_request d j" for j
    using assms(3) by (auto simp: has_request_def)
  have req: "request_ok ?d r = request_ok d r" for r
    by (simp add: request_ok_def approved_def has_rows)
  have apv: "approval_ok ?d a = approval_ok d a" for a
    using has by (simp add: approval_ok_def dangling_def split: option.split)
  have "signing_ok ?d"
    using assms(1,2) unfolding signing_ok_def
    by (auto simp: req apv custody_ok_def signing_ok_def ids simp del: map_map)
  then show ?thesis
    using assms(1) by (simp add: custody_ok_def) (simp add: custody_reads)
qed

section \<open>The inserts keep it\<close>

lemma dvalid_completed_insert:
  assumes "\<And>now r d. P d \<Longrightarrow> (\<exists>n. r = c now n) \<Longrightarrow> first_error (ch r d) = None \<Longrightarrow> Q r (ad r d)"
  shows "dvalid P (bindP (sys_now e) (\<lambda>now. insert_stmt tn e Pool (c now) ch ad)) Q P"
proof (rule dvalid_bindP [OF dvalid_sys_now])
  fix now
  show "dvalid P (insert_stmt tn e Pool (c now) ch ad) Q P"
  proof (rule dvalidI, goal_cases)
    case (1 w x t)
    then show ?case using assms by (auto simp: insert_stmt_Pool_Ok_iff)
  next
    case (2 w r t)
    then show ?case using dvalid_fail [OF dvalid_insert] by blast
  qed
qed

lemma dvalid_organization_insert:
  "dvalid custody_ok (organization_insert e Pool g)
     (\<lambda>r d'. custody_ok d' \<and> r \<in> set (organizations d') \<and> org_name r = org_name g \<and> org_owner_id r = canon e (org_owner_id g))
     custody_ok"
  unfolding organization_insert_def
  by (rule dvalid_completed_insert) (auto intro!: custody_ok_org split: if_splits)

lemma dvalid_organization_member_insert:
  "dvalid custody_ok (organization_member_insert e Pool m) (\<lambda>_. custody_ok) custody_ok"
  unfolding organization_member_insert_def
  by (rule dvalid_completed_insert) (auto intro!: custody_ok_member_add split: if_splits)

lemma dvalid_vault_insert: "dvalid custody_ok (vault_insert e Pool v) (\<lambda>_. custody_ok) custody_ok"
  unfolding vault_insert_def
  by (rule dvalid_completed_insert) (auto intro!: custody_ok_vault split: if_splits)

lemma dvalid_wallet_insert:
  assumes "wal_vault_id x \<noteq> None" "wal_chain_id x \<noteq> None"
  shows "dvalid custody_ok (wallet_insert e Pool x) (\<lambda>_. custody_ok) custody_ok"
  unfolding wallet_insert_def using assms
  by (intro dvalid_completed_insert) (auto intro!: custody_ok_wallet split: if_splits)

lemma dvalid_signing_request_insert:
  assumes "srq_wallet_id q \<noteq> None" "srq_status q = Some ''pending''" "srq_signature q = None"
  shows "dvalid custody_ok (signing_request_insert e Pool q) (\<lambda>_. custody_ok) custody_ok"
  unfolding signing_request_insert_def using assms
  by (intro dvalid_completed_insert) (auto intro!: custody_ok_request split: if_splits)

text \<open>An approval or rejection in the table, and the rest as before.\<close>

lemma dvalid_approval_insert:
  assumes "apv_request_id a = Some i" "apv_user_id a \<noteq> None" "apv_action a \<in> {''approve'', ''reject''}"
    and "apv_action a = ''approve'' \<Longrightarrow> \<exists>p. apv_comment a = Some (marshal_params p)"
  shows "dvalid (\<lambda>d. custody_ok d \<and> q \<in> set (signing_requests d)) (approval_insert e Pool a)
    (\<lambda>_ d. custody_ok d \<and> q \<in> set (signing_requests d) \<and> approved (canon e i) (apv_action a) d)
    (\<lambda>d. custody_ok d \<and> q \<in> set (signing_requests d))"
  unfolding approval_insert_def using assms
  by (intro dvalid_completed_insert)
    (auto intro!: custody_ok_approval simp: approval_ok_def approved_def split: if_splits)

section \<open>The operations keep it\<close>

lemma request_ok_write:
  assumes "srq_wallet_id q = srq_wallet_id r" "request_ok d r" "srq_id q = srq_id r"
    and "srq_status q = Some ''completed'' \<and> srq_signature q \<noteq> None \<and> approved (srq_id q) ''approve'' d \<or>
      srq_status q = Some ''rejected'' \<and> srq_signature q = None \<and> approved (srq_id q) ''reject'' d"
  shows "request_ok d (write_request q now r)"
  using assms by (auto simp: request_ok_def write_request_def)

text \<open>Writing a request whose wallet is still the one in the table.\<close>

lemma dvalid_request_update:
  assumes "srq_status q = Some ''completed'' \<and> srq_signature q \<noteq> None \<and> action = ''approve'' \<or>
      srq_status q = Some ''rejected'' \<and> srq_signature q = None \<and> action = ''reject''"
    and "srq_id q = srq_id q0" "srq_wallet_id q = srq_wallet_id q0"
  shows "dvalid (\<lambda>d. custody_ok d \<and> q0 \<in> set (signing_requests d) \<and> approved (srq_id q) action d)
    (signing_request_update e Pool q) (\<lambda>_. custody_ok) custody_ok"
  unfolding signing_request_update_def
proof (rule dvalid_bindP)
  show "dvalid (\<lambda>d. custody_ok d \<and> q0 \<in> set (signing_requests d) \<and> approved (srq_id q) action d) (sys_now e)
      (\<lambda>_ d. custody_ok d \<and> q0 \<in> set (signing_requests d) \<and> approved (srq_id q) action d) custody_ok"
    by (rule dvalid_conseq [OF dvalid_sys_now [where P = "\<lambda>d. custody_ok d \<and> q0 \<in> set (signing_requests d) \<and> approved (srq_id q) action d"]]) auto
  fix now
  have upd: "custody_ok (d\<lparr>signing_requests :=
        map (\<lambda>r. if srq_id r = srq_id q then write_request q now r else r) (signing_requests d)\<rparr>)"
    if d: "custody_ok d" "q0 \<in> set (signing_requests d)" "approved (srq_id q) action d" for d
  proof (rule custody_ok_request_update [OF d(1)])
    fix r assume r: "r \<in> set (signing_requests d)" "srq_id r = srq_id q"
    have "distinct (map srq_id (signing_requests d))" "request_ok d r"
      using d(1) r by (auto simp: custody_ok_def signing_ok_def)
    then have "r = q0"
      using r d(2) assms(2) by (metis distinct_map inj_onD)
    with \<open>request_ok d r\<close> show "request_ok d (write_request q now r)"
      using assms d(3) by (intro request_ok_write) auto
  qed simp
  show "dvalid (\<lambda>d. custody_ok d \<and> q0 \<in> set (signing_requests d) \<and> approved (srq_id q) action d)
      (modify_stmt ''models: unable to update signing_requests row'' e Pool
        (\<lambda>d. d\<lparr>signing_requests := map (\<lambda>r. if srq_id r = srq_id q then write_request q now r else r) (signing_requests d)\<rparr>))
      (\<lambda>_. custody_ok) custody_ok"
    by (rule dvalid_conseq [OF dvalid_modify [where P = "\<lambda>d. custody_ok d \<and> q0 \<in> set (signing_requests d) \<and> approved (srq_id q) action d"]]) (auto intro: upd)
qed

text \<open>Reads.\<close>

lemma frame_tx_readers:
  "frame tx (find_row tn e h tab key x)" "frame tx (one_row tn e h tab' p)"
  "frame tx (one_by_uuid tn e h tab'' key' x p')" "frame tx (FindOrganizationMember e i j)"
  unfolding find_row_def one_row_def one_by_uuid_def FindOrganizationMember_def
  by (intro frame_intros frame_tx_query)+

lemma dvalid_find_row:
  "dvalid P (find_row tn e Pool tab key x) (\<lambda>r d. P d \<and> r \<in> set (tab d) \<and> key r = canon e x) P"
  by (rule dvalid_reads) (auto intro: frame_intros frame_tx_readers simp: find_row_Ok_iff dest: find_SomeD)

lemma dvalid_one_by_uuid:
  "dvalid P (one_by_uuid tn e Pool tab key x p) (\<lambda>r d. P d \<and> r \<in> set (tab d) \<and> key r = canon e x) P"
  by (rule dvalid_reads)
    (auto intro: frame_intros frame_tx_readers simp: one_by_uuid_Ok_iff canon_def dest: find_SomeD)

lemma dvalid_uuid_New: "dvalid P (uuid_New e) (\<lambda>_. P) P"
  by (rule dvalidI) (auto simp: uuid_New_def)

lemma dvalid_load_rel: "dvalid P (load_rel name e tab key ref) (\<lambda>_. P) P"
proof (cases ref)
  case None
  then show ?thesis by (auto simp: load_rel_def intro!: dvalid_okP)
next
  case (Some i)
  then show ?thesis
    unfolding load_rel_def Some option.case
    by (intro dvalid_wrapP) (rule dvalid_conseq [OF dvalid_query], auto)
qed

lemma dvalid_load_rel_weak: "(\<And>d. P d \<Longrightarrow> E d) \<Longrightarrow> dvalid P (load_rel name e tab key ref) (\<lambda>_. P) E"
  by (rule dvalid_conseq [OF dvalid_load_rel [where P = P]]) auto

lemma dvalid_load_request:
  "dvalid P (load_request e i) (\<lambda>ld d. P d \<and> ld_request ld \<in> set (signing_requests d) \<and> srq_id (ld_request ld) = canon e i) P"
  unfolding load_request_def
proof (rule dvalid_bindP [OF dvalid_one_by_uuid])
  fix req
  let ?Q = "\<lambda>d. P d \<and> req \<in> set (signing_requests d) \<and> srq_id req = canon e i"
  show "dvalid ?Q
     (bindP (load_rel ''Wallet'' e wallets wal_id (srq_wallet_id req)) (\<lambda>wallet.
      bindP (load_rel ''Vault'' e vaults vlt_id (Option.bind wallet wal_vault_id)) (\<lambda>vault.
      bindP (load_rel ''Chain'' e chains chn_id (Option.bind wallet wal_chain_id)) (\<lambda>chain.
       okP \<lparr>ld_request = req, ld_wallet = wallet, ld_vault = vault, ld_chain = chain\<rparr>))))
     (\<lambda>ld d. P d \<and> ld_request ld \<in> set (signing_requests d) \<and> srq_id (ld_request ld) = canon e i) P"
    by (rule dvalid_bindP [OF dvalid_load_rel_weak], simp)+ (auto intro: dvalid_okP)
qed

section \<open>The operations keep it\<close>

lemma dvalid_RejectRequest: "dvalid custody_ok (RejectRequest e requestID userID) (\<lambda>_. custody_ok) custody_ok"
  unfolding RejectRequest_def FindSigningRequest_def
proof (rule dvalid_bindP [OF dvalid_find_row], rule dvalid_if)
  fix req
  let ?P = "\<lambda>d. custody_ok d \<and> req \<in> set (signing_requests d) \<and> srq_id req = canon e requestID"
  show "dvalid ?P (errP (ErrPlain ''request is not pending'')) (\<lambda>_. custody_ok) custody_ok"
    by (auto intro: dvalid_errP)
  assume pend: "\<not> string_of (srq_status req) \<noteq> ''pending''"
  have main: "dvalid ?P (thenP (approval_insert e Pool (new_approval i requestID userID ''reject'' None))
       (signing_request_update e Pool (req\<lparr>srq_status := Some ''rejected''\<rparr>))) (\<lambda>_. custody_ok) custody_ok"
    if sig: "srq_signature req = None" and rid: "srq_id req = canon e requestID" for i
  proof (rule dvalid_thenP)
    show "dvalid ?P (approval_insert e Pool (new_approval i requestID userID ''reject'' None))
        (\<lambda>_ d. custody_ok d \<and> req \<in> set (signing_requests d) \<and> approved (srq_id req) ''reject'' d) custody_ok"
      by (rule dvalid_conseq [OF dvalid_approval_insert [where i = requestID and q = req]])
        (auto simp: new_approval_def rid)
    show "dvalid (\<lambda>d. custody_ok d \<and> req \<in> set (signing_requests d) \<and> approved (srq_id req) ''reject'' d)
        (signing_request_update e Pool (req\<lparr>srq_status := Some ''rejected''\<rparr>)) (\<lambda>_. custody_ok) custody_ok"
      using dvalid_request_update [of "req\<lparr>srq_status := Some ''rejected''\<rparr>" "''reject''" req e] sig by simp
  qed
  show "dvalid ?P (bindP (uuid_New e) (\<lambda>i. thenP (approval_insert e Pool (new_approval i requestID userID ''reject'' None))
       (signing_request_update e Pool (req\<lparr>srq_status := Some ''rejected''\<rparr>)))) (\<lambda>_. custody_ok) custody_ok"
  proof (rule dvalid_pre)
    fix d assume "?P d"
    then have "request_ok d req" "srq_id req = canon e requestID" by (auto simp: custody_ok_def signing_ok_def)
    then show "srq_signature req = None \<and> srq_id req = canon e requestID"
      using pend by (auto simp: request_ok_def string_of_def)
  next
    assume "srq_signature req = None \<and> srq_id req = canon e requestID"
    then show "dvalid ?P (bindP (uuid_New e) (\<lambda>i. thenP (approval_insert e Pool (new_approval i requestID userID ''reject'' None))
       (signing_request_update e Pool (req\<lparr>srq_status := Some ''rejected''\<rparr>)))) (\<lambda>_. custody_ok) custody_ok"
      using main by (intro dvalid_bindP [OF dvalid_err [OF dvalid_uuid_New]]) auto
  qed
qed

lemma dvalid_check_threshold:
  assumes pend: "srq_status (ld_request ld) = Some ''pending''"
  shows "dvalid (\<lambda>d. custody_ok d \<and> ld_request ld \<in> set (signing_requests d) \<and>
      approved (srq_id (ld_request ld)) ''approve'' d)
    (check_threshold e requestID ld) (\<lambda>_. custody_ok) custody_ok"
    (is "dvalid ?P _ _ _")
proof -
  have sign: "dvalid ?P (wrapP msg (ThresholdSign e k m ct toks)) (\<lambda>_. ?P) custody_ok" for msg k m ct toks
    by (rule dvalid_wrapP, rule dvalidI) (auto simp: ThresholdSign_def Let_def split: sum.splits)
  have list: "dvalid ?P (all_approvals e requestID) (\<lambda>_. ?P) custody_ok"
    unfolding all_approvals_def
    by (rule dvalid_wrapP, rule dvalid_conseq [OF dvalid_query [where P = ?P]]) auto
  have wal: "dvalid ?P (deref w) (\<lambda>_. ?P) custody_ok" for w :: "'w option"
    by (rule dvalidI) (auto simp: deref_def panicP_def okP_def split: option.splits)
  have upd: "dvalid ?P (signing_request_update e Pool
      ((ld_request ld)\<lparr>srq_status := Some ''completed'', srq_signature := Some s\<rparr>)) (\<lambda>_. custody_ok) custody_ok" for s
    using dvalid_request_update [of "(ld_request ld)\<lparr>srq_status := Some ''completed'', srq_signature := Some s\<rparr>"
        "''approve''" "ld_request ld" e] by simp
  show ?thesis
    unfolding check_threshold_def
    by (rule dvalid_bindP [OF list], rule dvalid_bindP [OF wal])
      (auto split: option.split intro!: dvalid_errP dvalid_okP dvalid_bindP [OF sign] upd)
qed

lemma dvalid_ApproveRequest: "dvalid custody_ok (ApproveRequest e requestID params) (\<lambda>_. custody_ok) custody_ok"
  unfolding ApproveRequest_def
proof (rule dvalid_bindP [OF dvalid_wrapP [OF dvalid_load_request]], rule dvalid_if)
  fix ld :: loaded_request
  let ?q = "ld_request ld"
  let ?P = "\<lambda>d. custody_ok d \<and> ?q \<in> set (signing_requests d) \<and> srq_id ?q = canon e requestID"
  show "dvalid ?P (errP (ErrPlain (''request is not pending (status: '' @ string_of (srq_status ?q) @ '')'')))
      (\<lambda>_. custody_ok) custody_ok"
    by (auto intro: dvalid_errP)
  assume pend: "\<not> string_of (srq_status ?q) \<noteq> ''pending''"
  let ?rest = "bindP (user_approved e requestID (ap_user_id params)) (\<lambda>exists.
     if exists then errP (ErrPlain ''user already approved'')
     else bindP (uuid_New e) (\<lambda>i.
       thenP (approval_insert e Pool
                (new_approval i requestID (ap_user_id params) ''approve'' (Some (marshal_params params))))
         (check_threshold e requestID ld)))"
  show "dvalid ?P ?rest (\<lambda>_. custody_ok) custody_ok"
  proof (rule dvalid_pre)
    fix d assume "?P d"
    then show "srq_id ?q = canon e requestID" by simp
  next
    assume rid: "srq_id ?q = canon e requestID"
    have st: "srq_status ?q = Some ''pending''"
      using pend by (auto simp: string_of_def split: option.splits)
    have ins: "dvalid ?P (approval_insert e Pool
          (new_approval i requestID (ap_user_id params) ''approve'' (Some (marshal_params params))))
        (\<lambda>_ d. custody_ok d \<and> ?q \<in> set (signing_requests d) \<and> approved (srq_id ?q) ''approve'' d) custody_ok" for i
      by (rule dvalid_conseq [OF dvalid_approval_insert [where i = requestID and q = ?q]])
        (auto simp: new_approval_def rid)
    have ask: "dvalid ?P (user_approved e requestID (ap_user_id params)) (\<lambda>_. ?P) custody_ok"
      unfolding user_approved_def
      by (rule dvalid_wrapP, rule dvalid_conseq [OF dvalid_query [where P = ?P]]) auto
    have new: "dvalid ?P (uuid_New e) (\<lambda>_. ?P) custody_ok"
      by (rule dvalid_err [OF dvalid_uuid_New]) simp
    show "dvalid ?P ?rest (\<lambda>_. custody_ok) custody_ok"
      by (rule dvalid_bindP [OF ask], rule dvalid_if, rule dvalid_errP, simp,
          rule dvalid_bindP [OF new], rule dvalid_thenP [OF ins dvalid_check_threshold [OF st]])
  qed
qed

lemma dvalid_FindOrganizationMember:
  "dvalid P (FindOrganizationMember e i j) (\<lambda>m d. P d \<and> m \<in> set (organization_members d)) P"
  by (rule dvalid_reads)
    (auto intro: frame_intros frame_tx_readers simp: FindOrganizationMember_Ok_iff dest: find_SomeD)

lemma dvalid_finders_keep:
  "dvalid P (FindOrganizationMember e i j) (\<lambda>_. P) P" "dvalid P (find_row tn e Pool tab key x) (\<lambda>_. P) P"
  by (rule dvalid_post [OF dvalid_FindOrganizationMember], simp)
    (rule dvalid_post [OF dvalid_find_row], simp)

lemma dvalid_member_delete: "dvalid custody_ok (organization_member_delete e Pool m) (\<lambda>_. custody_ok) custody_ok"
proof -
  have "custody_ok d \<Longrightarrow> custody_ok (d\<lparr>organization_members := filter p (organization_members d)\<rparr>)" for d p
    by (intro custody_ok_members) (auto simp: custody_ok_def membership_ok_def distinct_map_filter_key)
  then show ?thesis
    unfolding organization_member_delete_def
    by (intro dvalid_post [OF dvalid_modify]) auto
qed

lemma dvalid_member_update: "dvalid custody_ok (organization_member_update e Pool m) (\<lambda>_. custody_ok) custody_ok"
proof -
  let ?f = "\<lambda>r. if mem_organization_id r = mem_organization_id m \<and> mem_user_id r = mem_user_id m
                     then r\<lparr>mem_role := mem_role m\<rparr> else r"
  have "custody_ok (d\<lparr>organization_members := map ?f (organization_members d)\<rparr>)" if "custody_ok d" for d
  proof (rule custody_ok_members [OF that])
    have "map (\<lambda>m. (mem_organization_id m, mem_user_id m)) (map ?f (organization_members d)) =
        map (\<lambda>m. (mem_organization_id m, mem_user_id m)) (organization_members d)" by auto
    then show "distinct (map (\<lambda>m. (mem_organization_id m, mem_user_id m)) (map ?f (organization_members d)))"
      using that by (simp only: custody_ok_def membership_ok_def)
    show "\<forall>m \<in> set (map ?f (organization_members d)). has_org d (mem_organization_id m)"
      using that by (auto simp: custody_ok_def membership_ok_def)
  qed
  then show ?thesis
    unfolding organization_member_update_def
    by (intro dvalid_wrapP dvalidI) (auto simp: stmt_def split: option.splits if_splits)
qed

lemma dvalid_RemoveMember: "dvalid custody_ok (RemoveMember e i j) (\<lambda>_. custody_ok) custody_ok"
  unfolding RemoveMember_def
  by (rule dvalid_tryP [OF dvalid_finders_keep(1)])
    (auto intro: dvalid_okP dvalid_errP dvalid_wrapP dvalid_member_delete)

lemma dvalid_AddMember: "dvalid custody_ok (AddMember e i j role) (\<lambda>_. custody_ok) custody_ok"
  unfolding AddMember_def FindOrganization_def
  by (rule dvalid_thenP [OF dvalid_wrapP [OF dvalid_finders_keep(2)]])
    (auto intro: dvalid_wrapP dvalid_organization_member_insert)

lemma dvalid_UpdateMemberRole: "dvalid custody_ok (UpdateMemberRole e i j role) (\<lambda>_. custody_ok) custody_ok"
  unfolding UpdateMemberRole_def
  by (rule dvalid_bindP [OF dvalid_wrapP [OF dvalid_finders_keep(1)]])
    (auto intro: dvalid_wrapP dvalid_member_update)

lemma dvalid_CreateWallet: "dvalid custody_ok (CreateWallet e v c) (\<lambda>_. custody_ok) custody_ok"
proof -
  have find: "dvalid custody_ok (wrapP msg (one_row tn e Pool tab p)) (\<lambda>_. custody_ok) custody_ok"
    for msg tn p and tab :: "database \<Rightarrow> chain_row list"
    by (rule dvalid_wrapP, rule dvalid_post [OF dvalid_reads [where G = "\<lambda>_ _. True"]])
      (auto intro: frame_intros frame_tx_readers)
  have key: "dvalid custody_ok (wrapP msg (CreateKey e k a cu)) (\<lambda>_. custody_ok) custody_ok" for msg k a cu
    by (rule dvalid_wrapP, rule dvalidI) (auto simp: CreateKey_def Let_def split: sum.splits)
  have lift: "dvalid custody_ok (liftP q) (\<lambda>_. custody_ok) custody_ok" for q :: "string outcome"
    by (rule dvalidI) (auto simp: liftP_def)
  show ?thesis
    unfolding CreateWallet_def
    by (rule dvalid_bindP [OF find], rule dvalid_bindP [OF dvalid_uuid_New], rule dvalid_bindP [OF key],
        rule dvalid_bindP [OF lift], rule dvalid_wrapP [OF dvalid_wallet_insert]) simp_all
qed

lemma dvalid_CreateRequest: "dvalid custody_ok (CreateRequest e wl txd note u) (\<lambda>_. custody_ok) custody_ok"
  unfolding CreateRequest_def
  by (rule dvalid_bindP [OF dvalid_uuid_New], rule dvalid_wrapP [OF dvalid_signing_request_insert]) simp_all

lemma dvalid_CreateOrganization: "dvalid custody_ok (CreateOrganization e name owner) (\<lambda>_. custody_ok) custody_ok"
  unfolding CreateOrganization_def by (rule dvalid_wrapP, rule dvalid_post [OF dvalid_organization_insert]) auto

lemma dvalid_CreateVault: "dvalid custody_ok (CreateVault e name i) (\<lambda>_. custody_ok) custody_ok"
  unfolding CreateVault_def by (rule dvalid_wrapP [OF dvalid_vault_insert])

lemmas dvalid_custody = dvalid_CreateOrganization dvalid_AddMember dvalid_RemoveMember dvalid_UpdateMemberRole
  dvalid_CreateVault dvalid_CreateWallet dvalid_CreateRequest dvalid_ApproveRequest dvalid_RejectRequest

end
