(* ===== verification/Custody_Theorems.thy ===== *)
theory Custody_Theorems
  imports Custody_Facts Examples "HOL-Library.Multiset"
begin

text \<open>
  The properties of the organization, vault and signing services: when a threshold signature is
  requested and with which credentials, what an approval, a rejection, a listing and a wallet
  creation do, who may create wallets, and the runs that leave work behind.
\<close>

section \<open>When the MPC infrastructure is asked to sign\<close>

lemma frame_sign_statements:
  "frame sign_calls (stmt e h f)" "frame sign_calls (query e h q)" "frame sign_calls (sys_now e)"
  "frame sign_calls (insert_stmt tn e h c ch ad)" "frame sign_calls (modify_stmt msg e h g)"
proof -
  show stmt: "frame sign_calls (stmt e h f)" for f :: "'x statement"
    by (cases h) (auto simp: frame_def stmt_def tick_def split: option.split sum.split prod.split)
  show "frame sign_calls (query e h q)" unfolding query_def by (rule stmt)
  show "frame sign_calls (sys_now e)" by (auto simp: frame_def sys_now_def tick_def)
  show "frame sign_calls (insert_stmt tn e h c ch ad)" unfolding insert_stmt_def by (rule frame_wrapP [OF stmt])
  show "frame sign_calls (modify_stmt msg e h g)" unfolding modify_stmt_def by (rule frame_wrapP [OF stmt])
qed

lemma frame_sign_signing:
  "frame sign_calls (load_request e i)" "frame sign_calls (user_approved e i j)"
  "frame sign_calls (all_approvals e i)" "frame sign_calls (approval_insert e h a)"
  "frame sign_calls (signing_request_update e h q)" "frame sign_calls (deref x)"
  unfolding load_request_def one_by_uuid_def load_rel_def user_approved_def all_approvals_def
    approval_insert_def signing_request_update_def
  by (intro frame_intros frame_sign_statements)+

text \<open>One step of a program that leaves \<open>g\<close> alone: it fails, or the rest runs with the same \<open>g\<close>.\<close>

lemma bindP_trace:
  assumes "bindP m f s = (r, t)" and "frame g m"
  obtains "g t = g s" | x u where "m s = (Ok x, u)" "f x u = (r, t)" "g u = g s"
  using assms by (auto simp: bindP_def dest: frameD split: prod.splits outcome.splits)

lemma load_rel_Ok:
  assumes "load_rel name e tab key ref w = (Ok x, t)"
  shows "x = Option.bind ref (\<lambda>i. find (\<lambda>r. key r = i) (tab (db w))) \<and> db t = db w \<and> tx t = tx w"
  using assms by (cases ref) (auto simp: load_rel_def okP_iff wrapP_Ok_iff query_Ok_iff)

lemma load_request_Ok:
  assumes "load_request e i w = (Ok ld, t)"
  shows "is_uuid e i \<and> db t = db w \<and> tx t = tx w \<and>
    ld_request ld \<in> set (signing_requests (db w)) \<and> srq_id (ld_request ld) = canon e i \<and>
    (\<forall>wallet. ld_wallet ld = Some wallet \<longrightarrow> wallet \<in> set (wallets (db w)) \<and> srq_wallet_id (ld_request ld) = Some (wal_id wallet)) \<and>
    (\<forall>vault. ld_vault ld = Some vault \<longrightarrow> vault \<in> set (vaults (db w)) \<and>
       (\<exists>wallet. ld_wallet ld = Some wallet \<and> wal_vault_id wallet = Some (vlt_id vault)))"
proof -
  from assms obtain req v wallet v1 vault v2 chain where
    req: "one_by_uuid ''signing_requests'' e Pool signing_requests srq_id i (\<lambda>_. True) w = (Ok req, v)"
    and l1: "load_rel ''Wallet'' e wallets wal_id (srq_wallet_id req) v = (Ok wallet, v1)"
    and l2: "load_rel ''Vault'' e vaults vlt_id (Option.bind wallet wal_vault_id) v1 = (Ok vault, v2)"
    and l3: "load_rel ''Chain'' e chains chn_id (Option.bind wallet wal_chain_id) v2 = (Ok chain, t)"
    and ld: "ld = \<lparr>ld_request = req, ld_wallet = wallet, ld_vault = vault, ld_chain = chain\<rparr>"
    by (auto simp: load_request_def bindP_Ok_iff okP_iff)
  have r: "is_uuid e i" "db v = db w" "tx v = tx w" "req \<in> set (signing_requests (db w))" "srq_id req = canon e i"
    using req by (auto simp: one_by_uuid_Ok_iff is_uuid_def canon_def dest: find_SomeD)
  note l = load_rel_Ok [OF l1] load_rel_Ok [OF l2] load_rel_Ok [OF l3]
  have same: "db t = db w" "tx t = tx w" "db v1 = db w" using r l by simp_all
  have wal: "x \<in> set (wallets (db w)) \<and> srq_wallet_id req = Some (wal_id x)" if "wallet = Some x" for x
  proof -
    from that l r obtain j where "srq_wallet_id req = Some j" "find (\<lambda>r. wal_id r = j) (wallets (db w)) = Some x"
      by (auto simp: bind_eq_Some_conv)
    then show ?thesis using find_SomeD by fastforce
  qed
  have vau: "y \<in> set (vaults (db w)) \<and> (\<exists>x. wallet = Some x \<and> wal_vault_id x = Some (vlt_id y))" if "vault = Some y" for y
  proof -
    from that l(2) obtain x j where "wallet = Some x" "wal_vault_id x = Some j"
        "find (\<lambda>r. vlt_id r = j) (vaults (db v1)) = Some y"
      by (auto simp: bind_eq_Some_conv)
    then show ?thesis using find_SomeD same(3) by fastforce
  qed
  show ?thesis using r same(1,2) wal vau by (simp add: ld)
qed

lemma approval_insert_Ok:
  assumes "approval_insert e Pool (new_approval i requestID userID action comment) w = (Ok a, t)" and "tx w = None"
  shows "db t = (db w)\<lparr>approvals := approvals (db w) @ [a]\<rparr> \<and> tx t = None \<and>
    apv_request_id a = Some (canon e requestID) \<and> apv_user_id a = Some (canon e userID) \<and>
    apv_action a = action \<and> apv_comment a = comment \<and> is_uuid e requestID \<and> is_uuid e userID \<and>
    (\<forall>q \<in> set (approvals (db w)). apv_request_id q = Some (canon e requestID) \<longrightarrow> apv_user_id q \<noteq> Some (canon e userID))"
  using assms
  by (auto simp: approval_insert_def outcome_simps new_approval_def bad_ref_def split: if_splits)

text \<open>The tokens sent with a list of approvals whose comments are the texts of \<open>ps\<close>.\<close>

definition token_of :: "approval_params \<Rightarrow> auth_token" where
  "token_of p = \<lparr>tok_passkey_signature = ap_signature p, tok_authenticator_data = ap_authenticator_data p,
     tok_client_data_json = ap_client_data_json p, tok_credential_id = RawURL_EncodeToString (ap_credential_id p)\<rparr>"

lemma collect_tokens_params:
  "map apv_comment as = map (Some \<circ> marshal_params) ps \<Longrightarrow> map infra_token (collect_tokens as) = map token_of ps"
proof (induction as arbitrary: ps)
  case (Cons a as)
  then obtain p qs where "ps = p # qs" by (cases ps) auto
  with Cons show ?case by (simp add: Let_def infra_token_def token_of_def)
qed simp

lemma comments_of_params:
  "\<forall>a \<in> set as. \<exists>p. apv_comment a = Some (marshal_params p) \<Longrightarrow> \<exists>ps. map apv_comment as = map (Some \<circ> marshal_params) ps"
proof (induction as)
  case (Cons a as)
  then obtain p ps where "apv_comment a = Some (marshal_params p)" "map apv_comment as = map (Some \<circ> marshal_params) ps"
    by (metis list.set_intros)
  then have "map apv_comment (a # as) = map (Some \<circ> marshal_params) (p # ps)" by simp
  then show ?case by blast
qed simp

lemma approvals_have_params:
  assumes "signing_ok d"
  shows "\<exists>ps. map apv_comment (request_approvals i d) = map (Some \<circ> marshal_params) ps"
proof -
  have "\<forall>a \<in> set (request_approvals i d). \<exists>p. apv_comment a = Some (marshal_params p)"
    using assms by (auto simp: signing_ok_def approval_ok_def request_approvals_def)
  then show ?thesis by (rule comments_of_params)
qed

lemma distinct_users_of_request:
  "distinct (map (\<lambda>a. (apv_request_id a, apv_user_id a)) as) \<Longrightarrow>
    distinct (map apv_user_id (filter (\<lambda>a. apv_request_id a = Some i \<and> apv_action a = act) as))"
  by (induction as) force+

text \<open>The call of \<open>check_threshold\<close>, whatever happens after it.\<close>

lemma check_threshold_calls:
  assumes "check_threshold e i ld w = (r, t)"
  shows "sign_calls t = sign_calls w \<or>
    (\<exists>wallet vault ct. ld_wallet ld = Some wallet \<and> ld_vault ld = Some vault \<and>
       vlt_threshold vault \<le> int (length (request_approvals (canon e i) (db w))) \<and>
       sign_calls t = sign_calls w @ [\<lparr>sc_key_id = wal_key_id wallet, sc_message_hex = srq_tx_data (ld_request ld),
         sc_chain_type = ct,
         sc_auth_tokens = map infra_token (collect_tokens (request_approvals (canon e i) (db w)))\<rparr>])"
  using assms unfolding check_threshold_def
proof (elim bindP_trace [OF _ frame_sign_signing(3)])
  fix as u
  assume as: "all_approvals e i w = (Ok as, u)" and u: "sign_calls u = sign_calls w"
  have as': "as = request_approvals (canon e i) (db w)"
    using as by (auto simp: all_approvals_def wrapP_Ok_iff query_Ok_iff split: if_splits)
  assume "bindP (deref (ld_wallet ld)) (\<lambda>wallet. case ld_vault ld of
          None \<Rightarrow> errP (ErrPlain ''vault not found for wallet'')
        | Some vault \<Rightarrow>
            if int (length as) \<ge> vlt_threshold vault then
              bindP (wrapP ''mpc signing failed''
                 (ThresholdSign e (wal_key_id wallet) (srq_tx_data (ld_request ld))
                    (case ld_chain ld of None \<Rightarrow> ''evm'' | Some c \<Rightarrow> chn_type c) (collect_tokens as))) (\<lambda>signature.
              signing_request_update e Pool
                ((ld_request ld)\<lparr>srq_status := Some ''completed'', srq_signature := Some signature\<rparr>))
            else okP ()) u = (r, t)"
  then show ?thesis
  proof (elim bindP_trace [OF _ frame_sign_signing(6)])
    fix wallet v
    assume wal: "deref (ld_wallet ld) u = (Ok wallet, v)" and v: "sign_calls v = sign_calls u"
      and rest: "(case ld_vault ld of
          None \<Rightarrow> errP (ErrPlain ''vault not found for wallet'')
        | Some vault \<Rightarrow>
            if int (length as) \<ge> vlt_threshold vault then
              bindP (wrapP ''mpc signing failed''
                 (ThresholdSign e (wal_key_id wallet) (srq_tx_data (ld_request ld))
                    (case ld_chain ld of None \<Rightarrow> ''evm'' | Some c \<Rightarrow> chn_type c) (collect_tokens as))) (\<lambda>signature.
              signing_request_update e Pool
                ((ld_request ld)\<lparr>srq_status := Some ''completed'', srq_signature := Some signature\<rparr>))
            else okP ()) v = (r, t)"
    note upd = frameD [OF frame_sign_signing(5) [of e Pool]]
    from wal have wal: "ld_wallet ld = Some wallet" by (simp add: deref_Ok_iff)
    show ?thesis
    proof (cases "ld_vault ld")
      case None
      with rest u v show ?thesis by (simp add: errP_iff)
    next
      case (Some vault)
      with rest u v wal as' show ?thesis
        by (auto simp: okP_iff bindP_def wrapP_def tryP_def ThresholdSign_def Let_def errP_def okP_def
            split: if_splits sum.splits prod.splits outcome.splits dest: upd)
    qed
  qed (use u in simp)
qed simp

text \<open>
  A run of \<open>ApproveRequest\<close> either fails before anything is stored, or stores the approval of the
  caller and goes on to \<open>check_threshold\<close>.
\<close>

lemma bindP_clean_trace:
  assumes "bindP m f s = (r, t)" and "frame g m" and "fails_clean m"
  obtains "\<not> is_ok r" "g t = g s" "db t = db s" | x u where "m s = (Ok x, u)" "f x u = (r, t)" "g u = g s"
proof (cases "m s")
  case (Pair q u)
  show thesis
  proof (cases q)
    case (Ok x)
    with Pair assms(1) frameD [OF assms(2) Pair] show thesis by (intro that(2) [of x u]) (simp_all add: bindP_def)
  qed (use Pair assms(1) frameD [OF assms(2) Pair] fails_cleanD [OF assms(3) Pair] that(1) in
      \<open>auto simp: bindP_def\<close>)
qed

lemma fails_clean_signing:
  "fails_clean (wrapP msg (load_request e i))" "fails_clean (user_approved e i j)"
  unfolding load_request_def one_by_uuid_def load_rel_def user_approved_def
  by (intro fails_clean_frame frame_intros)+

lemma ApproveRequest_trace:
  assumes "ApproveRequest e requestID p w = (r, t)" and "tx w = None"
  obtains (early) "\<not> is_ok r" "db t = db w" "sign_calls t = sign_calls w"
    | (stored) ld a x where "load_request e requestID w = (Ok ld, snd (load_request e requestID w))"
        and "srq_status (ld_request ld) = Some ''pending''" and "check_threshold e requestID ld x = (r, t)"
        and "db x = (db w)\<lparr>approvals := approvals (db w) @ [a]\<rparr>" "tx x = None" "sign_calls x = sign_calls w"
        and "apv_request_id a = Some (canon e requestID)" "apv_user_id a = Some (canon e (ap_user_id p))"
        and "apv_action a = ''approve''" "apv_comment a = Some (marshal_params p)"
        and "\<forall>q \<in> set (approvals (db w)). apv_request_id q = Some (canon e requestID) \<longrightarrow>
               apv_user_id q \<noteq> Some (canon e (ap_user_id p))"
proof -
  note start = bindP_clean_trace [OF assms(1) [unfolded ApproveRequest_def]
      frame_wrapP [OF frame_sign_signing(1)] fails_clean_signing(1)]
  show thesis
  proof (rule start)
    fix ld u
    assume "wrapP ''request not found'' (load_request e requestID) w = (Ok ld, u)" and u: "sign_calls u = sign_calls w"
    then have ld: "load_request e requestID w = (Ok ld, u)" by (simp add: wrapP_Ok_iff)
    then have du: "db u = db w" "tx u = None" using load_request_Ok assms(2) by auto
    assume rest: "(if string_of (srq_status (ld_request ld)) \<noteq> ''pending'' then
         errP (ErrPlain (''request is not pending (status: '' @ string_of (srq_status (ld_request ld)) @ '')''))
       else bindP (user_approved e requestID (ap_user_id p)) (\<lambda>exists.
       if exists then errP (ErrPlain ''user already approved'')
       else bindP (uuid_New e) (\<lambda>i.
       thenP (approval_insert e Pool
                (new_approval i requestID (ap_user_id p) ''approve'' (Some (marshal_params p))))
         (check_threshold e requestID ld)))) u = (r, t)"
    show thesis
    proof (cases "srq_status (ld_request ld) = Some ''pending''")
      case False
      then show thesis using rest u du by (intro early) (auto simp: errP_iff string_of_def split: option.splits if_splits)
    next
      case pend: True
      then have run: "bindP (user_approved e requestID (ap_user_id p)) (\<lambda>exists.
         if exists then errP (ErrPlain ''user already approved'')
         else bindP (uuid_New e) (\<lambda>i. thenP (approval_insert e Pool
                (new_approval i requestID (ap_user_id p) ''approve'' (Some (marshal_params p))))
           (check_threshold e requestID ld))) u = (r, t)"
        using rest by (simp add: string_of_def)
      show thesis
      proof (rule bindP_clean_trace [OF run frame_sign_signing(2) fails_clean_signing(2)])
        fix ex v
        assume q: "user_approved e requestID (ap_user_id p) u = (Ok ex, v)" and v: "sign_calls v = sign_calls u"
          and rest: "(if ex then errP (ErrPlain ''user already approved'')
             else bindP (uuid_New e) (\<lambda>i. thenP (approval_insert e Pool
                (new_approval i requestID (ap_user_id p) ''approve'' (Some (marshal_params p))))
               (check_threshold e requestID ld))) v = (r, t)"
        have dv: "db v = db w" "tx v = None"
          using q du by (auto simp: user_approved_def wrapP_Ok_iff query_Ok_iff)
        have ins: "bindP (approval_insert e Pool (new_approval (env_uuid e (clk v)) requestID (ap_user_id p)
              ''approve'' (Some (marshal_params p)))) (\<lambda>_. check_threshold e requestID ld) (tick v) = (r, t)" if "\<not> ex"
          using rest that by (simp add: bindP_def thenP_def uuid_New_def)
        show thesis
        proof (cases ex)
          case True
          then show thesis using rest u v dv by (intro early) (auto simp: errP_iff)
        next
          case False
          show thesis
          proof (rule bindP_clean_trace [OF ins [OF False] frame_sign_signing(4) clean_custody_inserts(6)])
            fix a x
            assume "approval_insert e Pool (new_approval (env_uuid e (clk v)) requestID (ap_user_id p)
                ''approve'' (Some (marshal_params p))) (tick v) = (Ok a, x)"
              and "check_threshold e requestID ld x = (r, t)" and "sign_calls x = sign_calls (tick v)"
            then show thesis
              using approval_insert_Ok [of e _ requestID "ap_user_id p" "''approve''" _ "tick v" a x] dv u v ld pend
              by (intro stored [of ld x a]) auto
          qed (use u v dv early in simp)
        qed
      qed (use u du early in simp)
    qed
  qed (use early in simp)
qed


lemma example_custody_ok: "custody_ok (db custody_world)"
  by (auto simp: custody_db_def example_db_def empty_db_def custody_ok_def membership_ok_def wallets_ok_def
      signing_ok_def request_ok_def approval_ok_def dangling_def has_rows)

lemma example_signing_run:
  obtains t where "ApproveRequest example_env ''req'' (example_params ''alice'') custody_world = (Ok (), t)"
    and "sign_calls t \<noteq> []"
proof -
  have "case ApproveRequest example_env ''req'' (example_params ''alice'') custody_world of
     (Ok _, t) \<Rightarrow> sign_calls t \<noteq> [] | _ \<Rightarrow> False"
    by code_simp
  then show thesis by (auto split: prod.splits outcome.splits intro: that)
qed


section \<open>Approving\<close>

definition complete_request :: "signing_request_row \<Rightarrow> string \<Rightarrow> time \<Rightarrow> database \<Rightarrow> database" where
  "complete_request q s now d = d\<lparr>signing_requests := map (\<lambda>r. if srq_id r = srq_id q
     then write_request (q\<lparr>srq_status := Some ''completed'', srq_signature := Some s\<rparr>) now r else r) (signing_requests d)\<rparr>"

lemma signing_request_update_Ok:
  assumes "signing_request_update e Pool q w = (Ok r, t)" and "tx w = None"
  shows "\<exists>now. db t = (db w)\<lparr>signing_requests :=
    map (\<lambda>r. if srq_id r = srq_id q then write_request q now r else r) (signing_requests (db w))\<rparr>"
  using assms by (auto simp: signing_request_update_def outcome_simps)

lemma fails_clean_request_update: "fails_clean (signing_request_update e h q)"
  unfolding signing_request_update_def by (intro clean_intros frame_intros)

lemma frame_db_all_approvals: "frame db (all_approvals e i)" "frame tx (all_approvals e i)"
  unfolding all_approvals_def by (intro frame_intros frame_tx_query)+

lemma ThresholdSign_db:
  "ThresholdSign e k m c toks w = (r, t) \<Longrightarrow> db t = db w \<and> tx t = tx w"
  by (auto simp: ThresholdSign_def Let_def split: sum.splits)

text \<open>What \<open>check_threshold\<close> does to the database.\<close>

lemma check_threshold_Ok:
  assumes "check_threshold e i ld w = (Ok (), t)" and "tx w = None"
  shows "\<exists>wallet vault. ld_wallet ld = Some wallet \<and> ld_vault ld = Some vault \<and>
    (if vlt_threshold vault \<le> int (length (request_approvals (canon e i) (db w)))
     then \<exists>n call s now. sign_calls t = sign_calls w @ [call] \<and> env_sign e n call = Inr s \<and>
       db t = complete_request (ld_request ld) s now (db w)
     else db t = db w \<and> sign_calls t = sign_calls w)"
proof -
  from assms(1) obtain as u wallet vault where as: "all_approvals e i w = (Ok as, u)"
    and wv: "ld_wallet ld = Some wallet" "ld_vault ld = Some vault"
    and rest: "(if int (length as) \<ge> vlt_threshold vault then
              bindP (wrapP ''mpc signing failed''
                 (ThresholdSign e (wal_key_id wallet) (srq_tx_data (ld_request ld))
                    (case ld_chain ld of None \<Rightarrow> ''evm'' | Some c \<Rightarrow> chn_type c) (collect_tokens as))) (\<lambda>signature.
              signing_request_update e Pool
                ((ld_request ld)\<lparr>srq_status := Some ''completed'', srq_signature := Some signature\<rparr>))
            else okP ()) u = (Ok (), t)"
    by (cases "ld_vault ld") (auto simp: check_threshold_def bindP_Ok_iff deref_Ok_iff errP_iff)
  have u: "db u = db w" "tx u = None" "sign_calls u = sign_calls w"
    using frameD [OF frame_db_all_approvals(1) as] frameD [OF frame_db_all_approvals(2) as]
      frameD [OF frame_sign_signing(3) as] assms(2) by simp_all
  have rows: "as = request_approvals (canon e i) (db w)"
    using as by (auto simp: all_approvals_def wrapP_Ok_iff query_Ok_iff split: if_splits)
  show ?thesis
  proof (cases "int (length as) \<ge> vlt_threshold vault")
    case False
    then show ?thesis using rest u wv rows by (simp add: okP_iff)
  next
    case thr: True
    then obtain s v where sign: "ThresholdSign e (wal_key_id wallet) (srq_tx_data (ld_request ld))
        (case ld_chain ld of None \<Rightarrow> ''evm'' | Some c \<Rightarrow> chn_type c) (collect_tokens as) u = (Ok s, v)"
      and upd: "signing_request_update e Pool
          ((ld_request ld)\<lparr>srq_status := Some ''completed'', srq_signature := Some s\<rparr>) v = (Ok (), t)"
      using rest by (auto simp: bindP_Ok_iff wrapP_Ok_iff)
    have v: "db v = db w" "tx v = None" using ThresholdSign_db [OF sign] u by simp_all
    obtain now where now: "db t = complete_request (ld_request ld) s now (db w)"
      using signing_request_update_Ok [OF upd v(2)] v(1) by (auto simp: complete_request_def)
    obtain call where call: "env_sign e (clk u) call = Inr s" "sign_calls v = sign_calls u @ [call]"
      using sign by (auto simp: ThresholdSign_def Let_def split: sum.splits)
    have "sign_calls t = sign_calls w @ [call]"
      using frameD [OF frame_sign_signing(5) upd] call(2) u(3) by simp
    with thr rows wv call(1) now show ?thesis by auto
  qed
qed

lemma check_threshold_db:
  assumes "check_threshold e i ld w = (r, t)" and "tx w = None"
  shows "db t = db w \<and> (r = Ok () \<longrightarrow> sign_calls t = sign_calls w) \<or>
    r = Ok () \<and> (\<exists>n call s now. sign_calls t = sign_calls w @ [call] \<and> env_sign e n call = Inr s \<and>
      db t = complete_request (ld_request ld) s now (db w))"
proof (cases "r = Ok ()")
  case False
  have sign: "fails_clean (bindP (wrapP msg (ThresholdSign e k m c toks)) (\<lambda>s. signing_request_update e Pool (q s)))"
    for msg k m c toks q
    by (intro fails_clean_bindP frame_wrapP fails_clean_request_update) (auto intro: frameI dest: ThresholdSign_db)
  have "fails_clean (check_threshold e i ld)"
    unfolding check_threshold_def by (intro clean_intros frame_intros frame_db_all_approvals sign)
  then show ?thesis using assms(1) False by (cases r) (auto dest: fails_cleanD)
next
  case True
  from check_threshold_Ok [OF assms(1) [unfolded True] assms(2)] show ?thesis using True by (auto split: if_splits)
qed

lemma ApproveRequest_db:
  assumes "ApproveRequest e requestID p w = (r, t)" and "tx w = None"
  shows "\<not> is_ok r \<and> db t = db w \<and> sign_calls t = sign_calls w \<or>
    (\<exists>a. apv_request_id a = Some (canon e requestID) \<and> apv_user_id a = Some (canon e (ap_user_id p)) \<and>
       apv_action a = ''approve'' \<and> apv_comment a = Some (marshal_params p) \<and>
       (db t = (db w)\<lparr>approvals := approvals (db w) @ [a]\<rparr> \<and> (r = Ok () \<longrightarrow> sign_calls t = sign_calls w) \<or>
        r = Ok () \<and> (\<exists>req n call s now. req \<in> set (signing_requests (db w)) \<and> srq_id req = canon e requestID \<and>
          srq_status req = Some ''pending'' \<and> sign_calls t = sign_calls w @ [call] \<and> env_sign e n call = Inr s \<and>
          db t = complete_request req s now ((db w)\<lparr>approvals := approvals (db w) @ [a]\<rparr>))))"
  using assms
proof (cases rule: ApproveRequest_trace)
  case early
  then show ?thesis by simp
next
  case (stored ld a x)
  note L = load_request_Ok [OF stored(1)]
  from check_threshold_db [OF stored(3,5)] show ?thesis
  proof (elim disjE conjE exE)
    fix n call s now
    assume "r = Ok ()" "sign_calls t = sign_calls x @ [call]" "env_sign e n call = Inr s"
      "db t = complete_request (ld_request ld) s now (db x)"
    then show ?thesis
      using L stored by (intro disjI2 exI [of _ a]) (simp, blast)
  qed (use stored in auto)
qed

text \<open>
  C10: the effect of \<open>ApproveRequest\<close> on the database.  It fails without a trace; or it stores the
  caller's approval and leaves the request alone (and if it returns normally it has not signed); or
  it returns normally with the approval stored and the request completed with the signature the MPC
  infrastructure returned.
\<close>

theorem ApproveRequest_effect:
  assumes "ApproveRequest e requestID p w = (r, t)" and "tx w = None"
  shows "\<not> is_ok r \<and> db t = db w \<and> sign_calls t = sign_calls w \<or>
    (\<exists>a. apv_request_id a = Some (canon e requestID) \<and> apv_user_id a = Some (canon e (ap_user_id p)) \<and>
       apv_action a = ''approve'' \<and> apv_comment a = Some (marshal_params p) \<and>
       (db t = (db w)\<lparr>approvals := approvals (db w) @ [a]\<rparr> \<and> (r = Ok () \<longrightarrow> sign_calls t = sign_calls w) \<or>
        r = Ok () \<and> (\<exists>req n call s now. req \<in> set (signing_requests (db w)) \<and> srq_id req = canon e requestID \<and>
          srq_status req = Some ''pending'' \<and> sign_calls t = sign_calls w @ [call] \<and> env_sign e n call = Inr s \<and>
          db t = complete_request req s now ((db w)\<lparr>approvals := approvals (db w) @ [a]\<rparr>))))"
  using assms by (rule ApproveRequest_db)

theorem ApproveRequest_effect_witness:
  "\<exists>r t. ApproveRequest example_env ''req'' (example_params ''alice'') custody_world = (r, t) \<and>
   (\<not> is_ok r \<and> db t = db custody_world \<and> sign_calls t = sign_calls custody_world \<or>
    (\<exists>a. apv_request_id a = Some (canon example_env ''req'') \<and>
       apv_user_id a = Some (canon example_env (ap_user_id (example_params ''alice''))) \<and>
       apv_action a = ''approve'' \<and> apv_comment a = Some (marshal_params (example_params ''alice'')) \<and>
       (db t = (db custody_world)\<lparr>approvals := approvals (db custody_world) @ [a]\<rparr> \<and>
          (r = Ok () \<longrightarrow> sign_calls t = sign_calls custody_world) \<or>
        r = Ok () \<and> (\<exists>req n call s now. req \<in> set (signing_requests (db custody_world)) \<and>
          srq_id req = canon example_env ''req'' \<and>
          srq_status req = Some ''pending'' \<and> sign_calls t = sign_calls custody_world @ [call] \<and>
          env_sign example_env n call = Inr s \<and>
          db t = complete_request req s now ((db custody_world)\<lparr>approvals := approvals (db custody_world) @ [a]\<rparr>)))))"
proof -
  obtain r t where "ApproveRequest example_env ''req'' (example_params ''alice'') custody_world = (r, t)"
    by (cases "ApproveRequest example_env ''req'' (example_params ''alice'') custody_world")
  from ApproveRequest_effect [OF this] this show ?thesis by auto
qed

lemma ApproveRequest_again:
  assumes "ApproveRequest e requestID p w = (r, t)" and "tx w = None"
    and "\<exists>a \<in> set (approvals (db w)). apv_request_id a = Some (canon e requestID) \<and> apv_user_id a = Some (canon e (ap_user_id p))"
  shows "\<not> is_ok r \<and> db t = db w \<and> sign_calls t = sign_calls w"
  using assms(1,2) by (cases rule: ApproveRequest_trace) (use assms(3) in auto)

text \<open>
  When the MPC infrastructure has been asked to sign and \<open>ApproveRequest\<close> fails nevertheless (the
  signing or the final update), the request is still pending but the approval stays.  From then on every
  call of the same user for the request fails without asking for a signature, so the user whose
  approval reached the threshold can not retry.
\<close>

theorem ApproveRequest_failed_signing_blocks_retry:
  assumes "ApproveRequest e requestID p w = (r, t)" and "tx w = None"
    and "sign_calls t \<noteq> sign_calls w" and "\<not> is_ok r"
    and "ApproveRequest e requestID p' w' = (r', t')" and "db w' = db t" and "tx w' = None"
    and "ap_user_id p' = ap_user_id p"
  shows "signing_requests (db t) = signing_requests (db w) \<and> \<not> is_ok r' \<and> db t' = db t \<and> sign_calls t' = sign_calls w'"
proof -
  from ApproveRequest_db [OF assms(1,2)] assms(3,4) obtain a where
    a: "apv_request_id a = Some (canon e requestID)" "apv_user_id a = Some (canon e (ap_user_id p))"
    and t: "db t = (db w)\<lparr>approvals := approvals (db w) @ [a]\<rparr>"
    by auto
  have "\<exists>a \<in> set (approvals (db w')). apv_request_id a = Some (canon e requestID) \<and>
      apv_user_id a = Some (canon e (ap_user_id p'))"
    using a by (simp add: t assms(6,8))
  from ApproveRequest_again [OF assms(5,7) this] show ?thesis by (simp add: t assms(6))
qed

definition mpc_down_env :: env where
  "mpc_down_env = example_env\<lparr>env_sign := (\<lambda>_ _. Inl (ErrPlain ''rpc error: unavailable''))\<rparr>"

theorem ApproveRequest_failed_signing_blocks_retry_witness:
  "\<exists>r t r' t'. ApproveRequest mpc_down_env ''req'' (example_params ''alice'') custody_world = (r, t) \<and>
     sign_calls t \<noteq> [] \<and> \<not> is_ok r \<and> ApproveRequest mpc_down_env ''req'' (example_params ''alice'') t = (r', t') \<and>
     signing_requests (db t) = signing_requests (db custody_world) \<and> \<not> is_ok r' \<and> db t' = db t \<and> sign_calls t' = sign_calls t"
proof -
  obtain r t where run: "ApproveRequest mpc_down_env ''req'' (example_params ''alice'') custody_world = (r, t)"
    by (cases "ApproveRequest mpc_down_env ''req'' (example_params ''alice'') custody_world")
  obtain r' t' where again: "ApproveRequest mpc_down_env ''req'' (example_params ''alice'') t = (r', t')"
    by (cases "ApproveRequest mpc_down_env ''req'' (example_params ''alice'') t")
  have "case ApproveRequest mpc_down_env ''req'' (example_params ''alice'') custody_world of
      (r, t) \<Rightarrow> \<not> is_ok r \<and> sign_calls t \<noteq> [] \<and> tx t = None"
    by code_simp
  with run have facts: "\<not> is_ok r" "sign_calls t \<noteq> []" "tx t = None" by simp_all
  have "signing_requests (db t) = signing_requests (db custody_world) \<and> \<not> is_ok r' \<and> db t' = db t \<and> sign_calls t' = sign_calls t"
    by (rule ApproveRequest_failed_signing_blocks_retry [OF run _ _ facts(1) again]) (use facts in simp_all)
  then show ?thesis using run again facts by blast
qed

section \<open>Rejecting\<close>

lemma RejectRequest_Ok_db:
  assumes "RejectRequest e requestID userID w = (Ok r, t)" and "tx w = None"
  shows "\<exists>req a now. req \<in> set (signing_requests (db w)) \<and> srq_id req = canon e requestID \<and> srq_status req = Some ''pending'' \<and>
    apv_request_id a = Some (canon e requestID) \<and> apv_user_id a = Some (canon e userID) \<and> apv_action a = ''reject'' \<and>
    (\<forall>q \<in> set (approvals (db w)). apv_request_id q = Some (canon e requestID) \<longrightarrow> apv_user_id q \<noteq> Some (canon e userID)) \<and>
    db t = (db w)\<lparr>approvals := approvals (db w) @ [a], signing_requests := map (\<lambda>r. if srq_id r = srq_id req
        then write_request (req\<lparr>srq_status := Some ''rejected''\<rparr>) now r else r) (signing_requests (db w))\<rparr> \<and>
    sign_calls t = sign_calls w"
proof -
  from assms obtain req a v where req: "find (\<lambda>r. srq_id r = canon e requestID) (signing_requests (db w)) = Some req"
    and pend: "srq_status req = Some ''pending''"
    and ins: "approval_insert e Pool (new_approval (env_uuid e (clk (tick w))) requestID userID ''reject'' None) (tick (tick w)) = (Ok a, v)"
    and upd: "signing_request_update e Pool (req\<lparr>srq_status := Some ''rejected''\<rparr>) v = (Ok (), t)"
    by (auto simp: RejectRequest_def FindSigningRequest_def find_row_Ok_iff bindP_Ok_iff thenP_Ok_iff uuid_New_iff errP_iff
        string_of_def split: if_splits option.splits)
  have A: "db v = (db w)\<lparr>approvals := approvals (db w) @ [a]\<rparr>" "tx v = None"
    "apv_request_id a = Some (canon e requestID)" "apv_user_id a = Some (canon e userID)" "apv_action a = ''reject''"
    "\<forall>q \<in> set (approvals (db w)). apv_request_id q = Some (canon e requestID) \<longrightarrow> apv_user_id q \<noteq> Some (canon e userID)"
    using approval_insert_Ok [OF ins] assms(2) by auto
  have calls: "sign_calls t = sign_calls w"
    using frameD [OF frame_sign_signing(5) upd] frameD [OF frame_sign_signing(4) ins] by (simp add: tick_def)
  obtain now where "db t = (db v)\<lparr>signing_requests := map (\<lambda>r. if srq_id r = srq_id req
      then write_request (req\<lparr>srq_status := Some ''rejected''\<rparr>) now r else r) (signing_requests (db v))\<rparr>"
    using signing_request_update_Ok [OF upd A(2)] by auto
  then show ?thesis
    using A calls find_SomeD [OF req] pend
    by (intro exI [of _ req] exI [of _ a] exI [of _ now]) simp
qed

text \<open>
  A successful \<open>RejectRequest\<close> was for a pending request on which the user has not decided before;
  it stores the rejection and sets the status, and never asks for a signature.
\<close>

theorem RejectRequest_effect:
  assumes "RejectRequest e requestID userID w = (Ok r, t)" and "tx w = None"
  shows "\<exists>req a now. req \<in> set (signing_requests (db w)) \<and> srq_id req = canon e requestID \<and> srq_status req = Some ''pending'' \<and>
    apv_request_id a = Some (canon e requestID) \<and> apv_user_id a = Some (canon e userID) \<and> apv_action a = ''reject'' \<and>
    (\<forall>q \<in> set (approvals (db w)). apv_request_id q = Some (canon e requestID) \<longrightarrow> apv_user_id q \<noteq> Some (canon e userID)) \<and>
    db t = (db w)\<lparr>approvals := approvals (db w) @ [a], signing_requests := map (\<lambda>r. if srq_id r = srq_id req
        then write_request (req\<lparr>srq_status := Some ''rejected''\<rparr>) now r else r) (signing_requests (db w))\<rparr> \<and>
    sign_calls t = sign_calls w"
  using assms by (rule RejectRequest_Ok_db)

theorem RejectRequest_effect_witness:
  "\<exists>r t. RejectRequest example_env ''req'' ''alice'' custody_world = (Ok r, t) \<and>
   (\<exists>req a now. req \<in> set (signing_requests (db custody_world)) \<and> srq_id req = canon example_env ''req'' \<and>
    srq_status req = Some ''pending'' \<and>
    apv_request_id a = Some (canon example_env ''req'') \<and> apv_user_id a = Some (canon example_env ''alice'') \<and> apv_action a = ''reject'' \<and>
    (\<forall>q \<in> set (approvals (db custody_world)). apv_request_id q = Some (canon example_env ''req'') \<longrightarrow>
       apv_user_id q \<noteq> Some (canon example_env ''alice'')) \<and>
    db t = (db custody_world)\<lparr>approvals := approvals (db custody_world) @ [a], signing_requests := map (\<lambda>r. if srq_id r = srq_id req
        then write_request (req\<lparr>srq_status := Some ''rejected''\<rparr>) now r else r) (signing_requests (db custody_world))\<rparr> \<and>
    sign_calls t = sign_calls custody_world)"
  by (rule run_instance, code_simp, rule RejectRequest_effect) simp_all

section \<open>Listing\<close>

lemma signing_request_insert_Ok:
  assumes "signing_request_insert e Pool q w = (Ok r, t)"
  shows "db t = (db w)\<lparr>signing_requests := signing_requests (db w) @ [r]\<rparr> \<and>
    srq_vault_id r = map_option (canon e) (srq_vault_id q) \<and> srq_status r = Some (case srq_status q of None \<Rightarrow> ''pending'' | Some s \<Rightarrow> s) \<and>
    srq_wallet_id r = map_option (canon e) (srq_wallet_id q) \<and>
    srq_initiator_id r = map_option (canon e) (srq_initiator_id q) \<and> srq_tx_data r = srq_tx_data q \<and>
    srq_signature r = srq_signature q"
  using assms by (auto simp: signing_request_insert_def outcome_simps split: if_splits)

text \<open>
  A request made by \<open>CreateRequest\<close> is stored pending, for the given wallet and initiator and without a
  signature; it has no vault, and since \<open>ListRequests\<close> joins on the vault of the request, no listing of any
  user, with any filter, changes by it.
\<close>

theorem CreateRequest_is_never_listed:
  assumes "CreateRequest e walletID txData note userID w = (Ok q, t)"
  shows "signing_requests (db t) = signing_requests (db w) @ [q] \<and> srq_status q = Some ''pending'' \<and>
    srq_signature q = None \<and> srq_wallet_id q = Some (canon e walletID) \<and> srq_tx_data q = txData \<and>
    srq_initiator_id q = Some (canon e userID) \<and> srq_vault_id q = None \<and>
    (\<forall>u vaultID status. visible_requests u vaultID status (db t) = visible_requests u vaultID status (db w))"
proof -
  from assms have "db t = (db w)\<lparr>signing_requests := signing_requests (db w) @ [q]\<rparr> \<and> srq_vault_id q = None \<and>
      srq_status q = Some ''pending'' \<and> srq_wallet_id q = Some (canon e walletID) \<and>
      srq_initiator_id q = Some (canon e userID) \<and> srq_tx_data q = txData \<and> srq_signature q = None"
    by (auto simp: CreateRequest_def bindP_Ok_iff wrapP_Ok_iff uuid_New_iff dest!: signing_request_insert_Ok)
  then show ?thesis by (auto simp: visible_requests_def)
qed

theorem CreateRequest_is_never_listed_witness:
  "\<exists>q t. CreateRequest example_env ''wallet'' ''aa'' ''note'' ''alice'' custody_world = (Ok q, t) \<and>
    signing_requests (db t) = signing_requests (db custody_world) @ [q] \<and> srq_status q = Some ''pending'' \<and>
    srq_signature q = None \<and> srq_wallet_id q = Some (canon example_env ''wallet'') \<and> srq_tx_data q = ''aa'' \<and>
    srq_initiator_id q = Some (canon example_env ''alice'') \<and> srq_vault_id q = None \<and>
    (\<forall>u vaultID status. visible_requests u vaultID status (db t) = visible_requests u vaultID status (db custody_world))"
  by (rule run_instance, code_simp, rule CreateRequest_is_never_listed)

lemma newest_first_mset: "mset (newest_first rs) = mset rs"
proof -
  have "mset (filter (\<lambda>r. \<not> p r) rs) + mset (filter p rs) = mset rs" for p
    by (metis mset_filter multiset_partition add.commute)
  from this [of "\<lambda>r. srq_created_at r \<noteq> None"] show ?thesis
    by (simp add: newest_first_def)
qed

lemma page_offset_exact:
  assumes "0 \<le> page" "0 \<le> limit" "page < 2 ^ 31" "limit < 2 ^ 31"
  shows "page_offset page limit = ((if page = 0 then 1 else page) - 1) * page_limit limit"
proof -
  let ?p = "(if page = 0 then 1 else page) - 1" and ?l = "page_limit limit"
  have p: "0 \<le> ?p" "?p < 2 ^ 31" and l: "0 \<le> ?l" "?l < 2 ^ 31"
    using assms by (auto simp: page_limit_def)
  have small: "sint (word_of_int x :: 64 word) = x" if "0 \<le> x" "x < 2 ^ 31 * 2 ^ 31" for x :: int
    using that by (simp add: signed_of_int signed_take_bit_int_eq_self)
  have "0 \<le> ?p * ?l" using p(1) l(1) by (rule mult_nonneg_nonneg)
  moreover have "?p * ?l < 2 ^ 31 * 2 ^ 31" using p l by (intro mult_strict_mono) auto
  ultimately have "sint (word_of_int (?p * ?l) :: 64 word) = ?p * ?l" by (rule small)
  moreover have "(if page \<le> 0 then 1 else page) = (if page = 0 then 1 else page)" using assms(1) by simp
  moreover have "(word_of_int (if page = 0 then 1 else page) - 1) * word_of_int ?l = (word_of_int (?p * ?l) :: 64 word)"
    by simp
  ultimately show ?thesis unfolding page_offset_def by (simp only:)
qed

text \<open>
  A successful \<open>ListRequests\<close> returns the total number of matching requests and page \<open>page\<close> of them
  (page 1 and 20 rows by default) in an order that is a rearrangement of the matches; every request
  returned is in a vault of an organization the user is a member of.  Pages are numbered from 1, so the
  first \<open>n\<close> pages are the first \<open>n * limit\<close> rows.  (Page and limit below \<open>2^31\<close>; beyond that the product
  \<open>(page - 1) * limit\<close> may wrap around.)
\<close>

theorem ListRequests_page:
  assumes "ListRequests e userID vaultID status page limit w = (Ok (items, n_total), t)"
    and "0 \<le> page" "0 \<le> limit" "page < 2 ^ 31" "limit < 2 ^ 31"
  shows "\<exists>rows order. rows = visible_requests (canon e userID) (if vaultID = [] then None else Some (canon e vaultID)) status (db w) \<and>
    mset order = mset rows \<and> n_total = int (length rows) \<and>
    items = take (nat (page_limit limit)) (drop (nat (((if page = 0 then 1 else page) - 1) * page_limit limit)) order) \<and>
    (\<forall>r \<in> set items. (status = [] \<or> srq_status r = Some status) \<and> (\<exists>v \<in> set (vaults (db w)). \<exists>m \<in> set (organization_members (db w)).
       srq_vault_id r = Some (vlt_id v) \<and> vlt_organization_id v = Some (mem_organization_id m) \<and>
       mem_user_id m = canon e userID))"
proof -
  let ?rows = "visible_requests (canon e userID) (if vaultID = [] then None else Some (canon e vaultID)) status (db w)"
  from assms(1) have n_total: "n_total = int (length ?rows)"
    and items: "items = take (nat (page_limit limit)) (drop (nat (page_offset page limit)) (newest_first ?rows))"
    by (auto simp: ListRequests_def Let_def outcome_simps split: if_splits)
  have "set items \<subseteq> set ?rows"
    unfolding items using newest_first_mset [of ?rows]
    by (metis order_trans set_drop_subset set_take_subset set_mset_mset)
  then have "\<forall>r \<in> set items. (status = [] \<or> srq_status r = Some status) \<and> (\<exists>v \<in> set (vaults (db w)). \<exists>m \<in> set (organization_members (db w)).
       srq_vault_id r = Some (vlt_id v) \<and> vlt_organization_id v = Some (mem_organization_id m) \<and> mem_user_id m = canon e userID)"
    by (fastforce simp: visible_requests_def split: if_splits)
  then show ?thesis
    using n_total items newest_first_mset [of ?rows] page_offset_exact [OF assms(2-5)]
    by (intro exI [of _ ?rows] exI [of _ "newest_first ?rows"]) simp
qed

lemma pages_concat: "concat (map (\<lambda>p. take l (drop (p * l) xs)) [0..<n]) = take (n * l) xs"
proof (induction n)
  case (Suc n)
  have "take (Suc n * l) xs = take (n * l) xs @ take l (drop (n * l) xs)"
    by (metis add.commute mult_Suc take_add)
  with Suc show ?case by simp
qed simp

text \<open>A vault request of bob's organization, which he sees.\<close>

definition listed_world :: world where
  "listed_world = custody_world\<lparr>db := custody_db\<lparr>signing_requests :=
     map (\<lambda>r. r\<lparr>srq_vault_id := Some ''vault''\<rparr>) (signing_requests custody_db)\<rparr>\<rparr>"

theorem ListRequests_page_witness:
  "\<exists>items n_total t. ListRequests example_env ''bob'' [] ''pending'' 1 10 listed_world = (Ok (items, n_total), t) \<and> items \<noteq> [] \<and>
   (\<exists>rows order. rows = visible_requests (canon example_env ''bob'') (if ([]::string) = [] then None else Some (canon example_env []))
        ''pending'' (db listed_world) \<and>
    mset order = mset rows \<and> n_total = int (length rows) \<and>
    items = take (nat (page_limit 10)) (drop (nat (((if (1::int) = 0 then 1 else 1) - 1) * page_limit 10)) order) \<and>
    (\<forall>r \<in> set items. (''pending'' = [] \<or> srq_status r = Some ''pending'') \<and>
      (\<exists>v \<in> set (vaults (db listed_world)). \<exists>m \<in> set (organization_members (db listed_world)).
       srq_vault_id r = Some (vlt_id v) \<and> vlt_organization_id v = Some (mem_organization_id m) \<and>
       mem_user_id m = canon example_env ''bob'')))"
proof -
  have "case ListRequests example_env ''bob'' [] ''pending'' 1 10 listed_world of
      (Ok (items, _), _) \<Rightarrow> items \<noteq> [] | _ \<Rightarrow> False"
    by code_simp
  then obtain items n_total t where run: "ListRequests example_env ''bob'' [] ''pending'' 1 10 listed_world = (Ok (items, n_total), t)"
    and "items \<noteq> []" by (auto split: prod.splits outcome.splits)
  show ?thesis
    by (rule exI [of _ items], rule exI [of _ n_total], rule exI [of _ t], intro conjI, rule run, rule \<open>items \<noteq> []\<close>,
        rule ListRequests_page [OF run]) simp_all
qed

section \<open>Wallets\<close>

lemma CreateKey_Ok:
  "CreateKey e i alg cu w = (Ok k, t) \<longleftrightarrow> env_key e (clk w) (i, alg, cu) = Inr k \<and>
     t = (tick w)\<lparr>key_calls := key_calls w @ [(i, alg, cu)]\<rparr>"
  by (auto simp: CreateKey_def Let_def split: sum.splits)

lemma wallet_insert_Ok:
  assumes "wallet_insert e Pool x w = (Ok r, t)" and "wal_id x \<noteq> []"
  shows "db t = (db w)\<lparr>wallets := wallets (db w) @ [r]\<rparr> \<and> key_calls t = key_calls w \<and> wal_id r = wal_id x \<and>
    wal_vault_id r = map_option (canon e) (wal_vault_id x) \<and> wal_chain_id r = wal_chain_id x \<and> wal_key_id r = wal_key_id x \<and>
    wal_address r = wal_address x \<and> wal_derive_index r = wal_derive_index x \<and> \<not> has_wallet (db w) (wal_id x) \<and>
    \<not> dangling (has_vault (db w)) (wal_vault_id r) \<and>
    (\<forall>v c. wal_vault_id r = Some v \<longrightarrow> wal_chain_id r = Some c \<longrightarrow> (\<forall>q \<in> set (wallets (db w)).
       \<not> (wal_vault_id q = Some v \<and> wal_chain_id q = Some c \<and> wal_derive_index q = wal_derive_index r)))"
  using assms by (auto simp: wallet_insert_def outcome_simps default_id_def split: if_splits)

lemma CreateWallet_Ok:
  assumes "CreateWallet e vaultID chainID w = (Ok x, t)" and "\<And>n. env_uuid e n \<noteq> []"
  obtains chain pub n where "find (\<lambda>c. chn_id c = chainID) (chains (db w)) = Some chain"
    and "env_key e n (wal_id x, fst (key_kind chain), snd (key_kind chain)) = Inr pub" "length pub \<ge> 40"
    and "wal_address x = ''0x'' @ take 40 pub" "wal_key_id x = wal_id x" "wal_derive_index x = 0"
    and "wal_vault_id x = Some (canon e vaultID)" "wal_chain_id x = Some chainID"
    and "db t = (db w)\<lparr>wallets := wallets (db w) @ [x]\<rparr>"
    and "key_calls t = key_calls w @ [(wal_id x, key_kind chain)]"
    and "\<not> (\<exists>q \<in> set (wallets (db w)). wal_vault_id q = Some (canon e vaultID) \<and> wal_chain_id q = Some chainID \<and> wal_derive_index q = 0)"
    and "has_vault (db w) (canon e vaultID)"
proof -
  let ?i = "env_uuid e (Suc (clk w))"
  from assms(1) obtain chain pub where chain: "find (\<lambda>c. chn_id c = chainID) (chains (db w)) = Some chain"
    and pub: "env_key e (Suc (Suc (clk w))) (?i, fst (key_kind chain), snd (key_kind chain)) = Inr pub"
    and len: "length pub \<ge> 40"
    and ins: "wallet_insert e Pool \<lparr>wal_id = ?i, wal_vault_id = Some vaultID, wal_chain_id = Some chainID, wal_key_id = ?i,
          wal_address = ''0x'' @ take 40 pub, wal_derive_path = default_derive_path, wal_derive_index = 0,
          wal_created_at = None, wal_updated_at = None\<rparr>
        ((tick (tick (tick w)))\<lparr>key_calls := key_calls w @ [(?i, fst (key_kind chain), snd (key_kind chain))]\<rparr>) = (Ok x, t)"
    by (auto simp: CreateWallet_def outcome_simps CreateKey_Ok deriveAddress_def split: if_splits)
  from wallet_insert_Ok [OF ins] assms(2) show thesis
    using chain pub len by (intro that [of chain _ pub]) (auto simp: dangling_def)
qed



text \<open>
  A vault can have one wallet per chain, since every wallet gets the derive index 0.  A further
  request fails, changes nothing in the database, but (when nothing else fails) only after the MPC
  infrastructure has generated a key that no wallet will ever refer to.
\<close>

theorem second_wallet_orphans_key:
  assumes "CreateWallet e vaultID chainID w = (r, t)" and "\<And>n. env_uuid e n \<noteq> []"
    and "q \<in> set (wallets (db w))" "wal_vault_id q = Some (canon e vaultID)" "wal_chain_id q = Some chainID" "wal_derive_index q = 0"
    and "find (\<lambda>c. chn_id c = chainID) (chains (db w)) = Some chain"
    and "\<And>n. env_fault e n = None" and "\<And>n k. \<exists>pub. env_key e n k = Inr pub \<and> length pub \<ge> 40"
  shows "\<not> is_ok r \<and> db t = db w \<and> (\<exists>i. key_calls t = key_calls w @ [(i, key_kind chain)])"
proof -
  have no: "\<not> is_ok r"
  proof
    assume "is_ok r"
    then obtain x where "CreateWallet e vaultID chainID w = (Ok x, t)" using assms(1) by (cases r) simp_all
    then show False using assms(2) by (rule CreateWallet_Ok) (use assms(3-6) in blast)
  qed
  let ?i = "env_uuid e (Suc (clk w))" and ?k = "key_kind chain"
  obtain pub where pub: "env_key e (Suc (Suc (clk w))) (?i, fst ?k, snd ?k) = Inr pub" "length pub \<ge> 40"
    using assms(9) by blast
  let ?v = "(tick (tick (tick w)))\<lparr>key_calls := key_calls w @ [(?i, fst ?k, snd ?k)]\<rparr>"
  have chain: "wrapP ''chain not found'' (one_row ''chains'' e Pool chains (\<lambda>c. chn_id c = chainID)) w = (Ok chain, tick w)"
    using assms(7,8) by (simp add: wrapP_Ok_iff one_row_Ok_iff)
  have key: "wrapP ''mpc key generation failed'' (CreateKey e ?i (fst ?k) (snd ?k)) (tick (tick w)) = (Ok pub, ?v)"
    using pub by (simp add: wrapP_Ok_iff CreateKey_Ok)
  have run: "wrapP ''failed to insert wallet'' (wallet_insert e Pool
      \<lparr>wal_id = ?i, wal_vault_id = Some vaultID, wal_chain_id = Some chainID, wal_key_id = ?i,
          wal_address = ''0x'' @ take 40 pub, wal_derive_path = default_derive_path, wal_derive_index = 0,
          wal_created_at = None, wal_updated_at = None\<rparr>) ?v = (r, t)"
    using assms(1) pub(2) unfolding CreateWallet_def bindP_def chain uuid_New_def
    by (simp add: key deriveAddress_def liftP_def)
  have "fails_clean (wrapP ''failed to insert wallet'' (wallet_insert e Pool x))" for x
    by (intro fails_clean_wrapP clean_intros)
  from fails_cleanD [OF this run no] have "db t = db w" by simp
  moreover have "frame key_calls (wallet_insert e Pool x)" for x
    unfolding wallet_insert_def insert_stmt_def
    by (intro frame_intros) (auto simp: frame_def stmt_def sys_now_def tick_def split: option.split sum.split prod.split)
  then have "key_calls t = key_calls ?v" using frameD [OF frame_wrapP run] by blast
  ultimately show ?thesis using no by simp
qed

theorem second_wallet_orphans_key_witness:
  "\<exists>r t chain. CreateWallet example_env ''vault'' ''ETH'' custody_world = (r, t) \<and> \<not> is_ok r \<and> db t = db custody_world \<and>
     (\<exists>i. key_calls t = key_calls custody_world @ [(i, key_kind chain)])"
proof -
  obtain r t where run: "CreateWallet example_env ''vault'' ''ETH'' custody_world = (r, t)"
    by (cases "CreateWallet example_env ''vault'' ''ETH'' custody_world")
  have "\<exists>chain. find (\<lambda>c. chn_id c = ''ETH'') (chains (db custody_world)) = Some chain"
    by (simp add: custody_db_def)
  then obtain chain where chain: "find (\<lambda>c. chn_id c = ''ETH'') (chains (db custody_world)) = Some chain" ..
  have "\<not> is_ok r \<and> db t = db custody_world \<and> (\<exists>i. key_calls t = key_calls custody_world @ [(i, key_kind chain)])"
    by (rule second_wallet_orphans_key [OF run _ _ _ _ _ chain, where q = "hd (wallets custody_db)"])
      (simp_all add: custody_db_def canon_def)
  then show ?thesis using run by blast
qed

section \<open>Members\<close>

lemma organization_member_insert_Ok:
  assumes "organization_member_insert e Pool m w = (Ok r, t)"
  shows "db t = (db w)\<lparr>organization_members := organization_members (db w) @ [r]\<rparr> \<and>
    mem_organization_id r = canon e (mem_organization_id m) \<and> mem_user_id r = canon e (mem_user_id m) \<and> mem_role r = mem_role m \<and>
    is_uuid e (mem_organization_id m) \<and> is_uuid e (mem_user_id m) \<and>
    has_org (db w) (mem_organization_id r) \<and> has_user (db w) (mem_user_id r) \<and>
    (\<forall>q \<in> set (organization_members (db w)). mem_organization_id q = mem_organization_id r \<longrightarrow> mem_user_id q \<noteq> mem_user_id r)"
  using assms by (auto simp: organization_member_insert_def outcome_simps split: if_splits)

lemma AddMember_Ok:
  assumes "AddMember e orgID userID role w = (Ok m, t)"
  shows "db t = (db w)\<lparr>organization_members := organization_members (db w) @ [m]\<rparr> \<and>
    mem_organization_id m = canon e orgID \<and> mem_user_id m = canon e userID \<and> mem_role m = role \<and>
    is_uuid e orgID \<and> is_uuid e userID \<and> has_org (db w) (canon e orgID) \<and> has_user (db w) (canon e userID) \<and>
    (\<forall>q \<in> set (organization_members (db w)). mem_organization_id q = canon e orgID \<longrightarrow> mem_user_id q \<noteq> canon e userID)"
  using assms
  by (auto simp: AddMember_def FindOrganization_def thenP_Ok_iff wrapP_Ok_iff find_row_Ok_iff
      dest!: organization_member_insert_Ok)

text \<open>
  Adding a member and removing it again restores the table of members; \<open>AddMember\<close> only succeeds
  for an existing organization and user who is not yet a member of it.
\<close>

theorem AddMember_RemoveMember:
  assumes "AddMember e orgID userID role w = (Ok m, t)" and "RemoveMember e orgID userID t = (Ok x, t')"
  shows "organization_members (db t) = organization_members (db w) @ [m] \<and> mem_role m = role \<and>
    has_org (db w) (canon e orgID) \<and> has_user (db w) (canon e userID) \<and>
    organization_members (db t') = organization_members (db w)"
proof -
  note A = AddMember_Ok [OF assms(1)]
  have "find (\<lambda>q. mem_organization_id q = canon e orgID \<and> mem_user_id q = canon e userID) (organization_members (db t)) \<noteq> None"
    using A by (auto simp: find_None_iff)
  then have noerr: "\<not> (FindOrganizationMember e orgID userID t = (Err y, u) \<and> errors_is y ErrNoRows)" for y u
    using A by (auto simp: FindOrganizationMember_def tryP_def query_def stmt_def errP_def okP_def errors_is_def bad_uuid_def
        split: option.splits if_splits)
  then obtain mm u where "FindOrganizationMember e orgID userID t = (Ok mm, u)"
    and "organization_member_delete e Pool mm u = (Ok x, t')"
    using assms(2) by (auto simp: RemoveMember_def tryP_Ok_iff wrapP_Ok_iff errP_iff split: if_splits)
  then have t': "organization_members (db t') = filter (\<lambda>r. \<not> (mem_organization_id r = canon e orgID \<and>
      mem_user_id r = canon e userID)) (organization_members (db t))"
    by (auto simp: FindOrganizationMember_Ok_iff organization_member_delete_def modify_stmt_Pool_Ok_iff dest!: find_SomeD)
  have "filter (\<lambda>r. \<not> (mem_organization_id r = canon e orgID \<and> mem_user_id r = canon e userID))
      (organization_members (db w)) = organization_members (db w)"
    using A by (auto simp: filter_id_conv)
  then show ?thesis using A t' by simp
qed

theorem AddMember_RemoveMember_witness:
  "\<exists>m t x t'. AddMember example_env ''org'' ''alice'' ''admin'' custody_world = (Ok m, t) \<and>
    RemoveMember example_env ''org'' ''alice'' t = (Ok x, t') \<and>
    organization_members (db t) = organization_members (db custody_world) @ [m] \<and> mem_role m = ''admin'' \<and>
    has_org (db custody_world) (canon example_env ''org'') \<and> has_user (db custody_world) (canon example_env ''alice'') \<and>
    organization_members (db t') = organization_members (db custody_world)"
proof -
  have "case AddMember example_env ''org'' ''alice'' ''admin'' custody_world of
      (Ok m, t) \<Rightarrow> is_ok (fst (RemoveMember example_env ''org'' ''alice'' t)) | _ \<Rightarrow> False"
    by code_simp
  then obtain m t where 1: "AddMember example_env ''org'' ''alice'' ''admin'' custody_world = (Ok m, t)"
    and "is_ok (fst (RemoveMember example_env ''org'' ''alice'' t))"
    by (auto split: prod.splits outcome.splits)
  then obtain x t' where 2: "RemoveMember example_env ''org'' ''alice'' t = (Ok x, t')" by (auto dest: ok_run)
  from AddMember_RemoveMember [OF 1 2] 1 2 show ?thesis by blast
qed

text \<open>
  Creating an organization does not make its owner a member.  Until somebody adds a membership, the
  owner's request for a wallet in a vault of the organization is refused as forbidden (when nothing
  fails), without a call to the MPC infrastructure.
\<close>

theorem owner_is_not_a_member:
  assumes "CreateOrganization e name owner w = (Ok g, t)" and "custody_ok (db w)"
    and "organization_members (db v) = organization_members (db t)" and "\<And>n. env_fault e n = None"
    and "is_uuid e vaultID" and "find (\<lambda>r. vlt_id r = canon e vaultID) (vaults (db v)) = Some vlt"
    and "vlt_organization_id vlt = Some (org_id g)" and "env_parse_uuid e (org_id g) = Some (org_id g)"
  shows "\<exists>v'. postCreateWalletHandler e (Some u) vaultID chainID v = (Err echo_ErrForbidden, v') \<and> key_calls v' = key_calls v"
proof -
  have "\<not> has_org (db w) (org_id g) \<and> organization_members (db t) = organization_members (db w)"
    using assms(1) by (auto simp: CreateOrganization_def organization_insert_def outcome_simps split: if_splits)
  then have none: "\<forall>m \<in> set (organization_members (db v)). mem_organization_id m \<noteq> org_id g"
    using assms(2,3) by (auto simp: custody_ok_def membership_ok_def)
  have find: "FindVault e vaultID v = (Ok vlt, tick v)"
    using assms(4-6) by (simp add: FindVault_def find_row_Ok_iff)
  let ?q = "\<lambda>d. let orgID = (case vlt_organization_id vlt of Some s \<Rightarrow> s | None \<Rightarrow> []) in
       if \<not> is_uuid e orgID then Inl bad_uuid
       else Inr (\<exists>m \<in> set (organization_members d). mem_organization_id m = canon e orgID \<and> mem_user_id m = du_id u)"
  have "?q (db v) = Inr False"
    using none assms(7,8) by (auto simp: is_uuid_def canon_def)
  then have "wrapP ''models: failed to check if organization_members exists'' (query e Pool ?q) (tick v) = (Ok False, tick (tick v))"
    using assms(4) by (simp add: wrapP_Ok_iff query_Ok_iff)
  then show ?thesis
    using assms(7) find by (simp add: postCreateWalletHandler_def tryP_def bindP_def errP_def)
qed

theorem owner_is_not_a_member_witness:
  "\<exists>g t v'. CreateOrganization example_env ''acme'' ''alice'' example_world = (Ok g, t) \<and>
     postCreateWalletHandler example_env (Some (LocalUserToDTO alice None)) ''v''  ''ETH''
       (t\<lparr>db := (db t)\<lparr>vaults := [\<lparr>vlt_id = ''v'', vlt_organization_id = Some (org_id g), vlt_name = [], vlt_threshold = 2,
          vlt_created_at = None, vlt_updated_at = None\<rparr>]\<rparr>\<rparr>) = (Err echo_ErrForbidden, v')"
proof -
  have "is_ok (fst (CreateOrganization example_env ''acme'' ''alice'' example_world))" by code_simp
  then obtain g t where run: "CreateOrganization example_env ''acme'' ''alice'' example_world = (Ok g, t)"
    by (auto dest: ok_run)
  have ok: "custody_ok (db example_world)"
    by (auto simp: example_db_def empty_db_def custody_reads)
  show ?thesis
    using owner_is_not_a_member [OF run ok, where v = "t\<lparr>db := (db t)\<lparr>vaults := [\<lparr>vlt_id = ''v'',
        vlt_organization_id = Some (org_id g), vlt_name = [], vlt_threshold = 2,
          vlt_created_at = None, vlt_updated_at = None\<rparr>]\<rparr>\<rparr>" and vaultID = "''v''"
        and u = "LocalUserToDTO alice None" and chainID = "''ETH''"] run
    by (auto simp: is_uuid_def canon_def)
qed

end
