(* ===== verification/Reachability.thy ===== *)
theory Reachability
  imports Auth_Theorems Custody_Theorems "HOL-Library.Sublist"
begin

text \<open>
  The services together: one step of the server is one operation of the authentication,
  organization, vault or signing service, on the database the previous step left.  The two locales
  state what a database property has to be closed under so that all operations of a group keep it;
  they are interpreted for the invariants of the other group and for the history of the tables.
\<close>

section \<open>No transaction is left open\<close>

definition idle :: "world \<Rightarrow> bool" where
  "idle w \<longleftrightarrow> tx w = None"

lemma idle_stmt [keeps_intros]: "keeps idle (stmt e Pool f)"
  by (auto simp: keeps_def idle_def stmt_def split: option.splits sum.splits)

lemma idle_query [keeps_intros]: "keeps idle (query e Pool q)"
  unfolding query_def by (rule idle_stmt)

lemma idle_clock [keeps_intros]: "keeps idle (clock_now e)" "keeps idle (sys_now e)"
  by (auto simp: keeps_def idle_def clock_now_def sys_now_def)

lemma idle_finishers [keeps_intros]:
  "keeps idle (one_row tn e Pool tab p)" "keeps idle (all_rows tn e Pool tab p)"
  "keeps idle (rows_exist tn e Pool tab p)" "keeps idle (one_by_uuid tn e Pool tab' key txt p)"
  "keeps idle (one_with_user tn e Pool tab' key txt p owner)" "keeps idle (insert_stmt tn e Pool c ch ad)"
  unfolding one_row_def all_rows_def rows_exist_def one_by_uuid_def one_with_user_def insert_stmt_def
  by (intro keeps_intros)+

lemma idle_WithTransaction [keeps_intros]: "keeps idle (WithTransaction e m)"
  by (rule keepsI) (auto simp: idle_def dest: WithTransaction_tx)

lemma idle_HashPassword [keeps_intros]: "keeps idle (HashPassword e pw p)"
proof -
  have "keeps idle (generateSalt e n)" for n
    by (rule keepsI) (auto simp: generateSalt_def idle_def split: option.splits)
  moreover have "keeps idle (\<lambda>w. case IDKey e pw salt p of
      Panic c \<Rightarrow> (Panic c, w) | Err x \<Rightarrow> (Err x, w) | Ok key \<Rightarrow> (Ok (f key), w))" for salt f
    by (auto simp: keeps_def split: outcome.split)
  ultimately show ?thesis unfolding HashPassword_def by (intro keeps_intros)
qed

lemmas service_defs = GetAppUserProfile_def UpdatePassword_def verify_current_def InitPasswordReset_def
  reset_debounced_def Logout_def Login_def Refresh_def Register_def Register_existing_def
  DeleteUserAccount_def CompleteRegister_def

lemma idle_service:
  "keeps idle (GetAppUserProfile e i)" "keeps idle (UpdatePassword e c request)"
  "keeps idle (InitPasswordReset e c name)" "keeps idle (Logout e at rt)" "keeps idle (Login e c name pw)"
  "keeps idle (Refresh e c rt')" "keeps idle (Register e c name pw)" "keeps idle (DeleteUserAccount e u pw)"
  "keeps idle (CompleteRegister e c ct)"
  unfolding service_defs confirmation_token_insert_def by (intro keeps_intros)+

lemma idle_ResetPassword: "keeps idle (ResetPassword e c tok pw)"
  unfolding ResetPassword_def by (intro keeps_intros idle_service)

section \<open>Properties the authentication service cannot break\<close>

locale auth_blind =
  fixes P :: "database \<Rightarrow> bool"
  assumes reads_no_auth_table:
    "P d \<Longrightarrow> P (d\<lparr>access_tokens := a\<rparr>)" "P d \<Longrightarrow> P (d\<lparr>refresh_tokens := r\<rparr>)"
    "P d \<Longrightarrow> P (d\<lparr>password_reset_tokens := q\<rparr>)" "P d \<Longrightarrow> P (d\<lparr>confirmation_tokens := c\<rparr>)"
    "P d \<Longrightarrow> P (d\<lparr>app_user_profiles := f\<rparr>)"
    and more_users: "P d \<Longrightarrow> P (d\<lparr>users := users d @ [u]\<rparr>)"
    and same_users: "P d \<Longrightarrow> (\<And>u. usr_id (g u) = usr_id u) \<Longrightarrow> P (d\<lparr>users := map g (users d)\<rparr>)"
    and deleted_user: "P d \<Longrightarrow> first_error (user_delete_checks i d) = None \<Longrightarrow> P (cascade_delete_user i d)"
begin

lemma inserts:
  "keeps (on_dbs P) (access_token_insert e h a')" "keeps (on_dbs P) (refresh_token_insert e h r')"
  "keeps (on_dbs P) (password_reset_token_insert e h q')" "keeps (on_dbs P) (confirmation_token_insert e h c')"
  "keeps (on_dbs P) (app_user_profile_insert e h f')" "keeps (on_dbs P) (user_insert e h u')"
  unfolding insert_defs
  by (intro keeps_intros keeps_insert_stmt, rule reads_no_auth_table more_users, assumption)+

lemma deletes:
  "keeps (on_dbs P) (modify_stmt m e h (without_access_tokens p1))"
  "keeps (on_dbs P) (modify_stmt m e h (without_refresh_tokens p2))"
  "keeps (on_dbs P) (modify_stmt m e h (without_confirmation_tokens p3))"
  "keeps (on_dbs P) (delete_by_uuid tn e h t (\<lambda>u. without_access_tokens (p4 u)))"
  "keeps (on_dbs P) (delete_by_uuid tn e h t (\<lambda>u. without_refresh_tokens (p5 u)))"
  unfolding without_access_tokens_def without_refresh_tokens_def without_confirmation_tokens_def
  by (intro keeps_modify_stmt keeps_delete_by_uuid reads_no_auth_table, assumption)+

lemma users_delete: "keeps (on_dbs P) (users_delete_all e h i)"
  unfolding users_delete_all_def
  by (intro keeps_wrapP keeps_stmt) (auto split: option.splits intro: deleted_user)

lemma user_updates: "(\<And>u. usr_id (g u) = usr_id u) \<Longrightarrow> keeps (on_dbs P) (user_update e h i g)"
  unfolding user_update_def map_user_def
  by (intro keeps_intros keeps_modify_stmt same_users) auto

lemma issue: "keeps (on_dbs P) (authenticateUser e c u rv)"
  unfolding authenticateUser_def
  by (intro keeps_intros inserts deletes user_updates) simp_all

lemma service:
  "keeps (on_dbs P) (GetAppUserProfile e i)" "keeps (on_dbs P) (UpdatePassword e c request)"
  "keeps (on_dbs P) (InitPasswordReset e c name)" "keeps (on_dbs P) (Logout e at rt)"
  "keeps (on_dbs P) (Login e c name pw)" "keeps (on_dbs P) (Refresh e c rt')"
  "keeps (on_dbs P) (Register e c name pw)" "keeps (on_dbs P) (DeleteUserAccount e u pw)"
  "keeps (on_dbs P) (CompleteRegister e c ct)"
  unfolding service_defs UpdatePassword_tx_def InitPasswordReset_tx_def Logout_tx_def Refresh_tx_def
    Register_tx_def CompleteRegister_tx_def
  by (intro keeps_intros inserts deletes users_delete user_updates issue; simp)+

lemma reset: "keeps (on_dbs P) (ResetPassword e c tok pw)"
  unfolding ResetPassword_def by (intro keeps_intros service)

end

section \<open>Properties the custody services cannot break\<close>

locale grows_with_custody =
  fixes P :: "database \<Rightarrow> bool"
  assumes new_organization: "P d \<Longrightarrow> has_user d (org_owner_id g) \<Longrightarrow> P (d\<lparr>organizations := organizations d @ [g]\<rparr>)"
    and new_member: "P d \<Longrightarrow> has_user d (mem_user_id m) \<Longrightarrow> P (d\<lparr>organization_members := organization_members d @ [m]\<rparr>)"
    and fewer_members: "P d \<Longrightarrow> P (d\<lparr>organization_members := filter p (organization_members d)\<rparr>)"
    and new_roles: "P d \<Longrightarrow> (\<And>m. mem_user_id (f m) = mem_user_id m) \<Longrightarrow>
      P (d\<lparr>organization_members := map f (organization_members d)\<rparr>)"
    and new_vault: "P d \<Longrightarrow> P (d\<lparr>vaults := vaults d @ [v]\<rparr>)"
    and new_wallet: "P d \<Longrightarrow> P (d\<lparr>wallets := wallets d @ [x]\<rparr>)"
    and new_request: "P d \<Longrightarrow> srq_status q \<noteq> Some ''completed'' \<Longrightarrow> P (d\<lparr>signing_requests := signing_requests d @ [q]\<rparr>)"
begin

lemma custody_inserts:
  "keeps (on_dbs P) (organization_insert e h g)" "keeps (on_dbs P) (organization_member_insert e h m)"
  "keeps (on_dbs P) (vault_insert e h v)" "keeps (on_dbs P) (wallet_insert e h x)"
  unfolding custody_insert_defs
  by (intro keeps_intros keeps_insert_stmt;
      auto intro: new_organization new_member new_vault new_wallet split: if_splits)+

lemma request_insert:
  "srq_status q = Some ''pending'' \<Longrightarrow> keeps (on_dbs P) (signing_request_insert e h q)"
  unfolding signing_request_insert_def
  by (intro keeps_intros keeps_insert_stmt new_request) simp_all

lemma members:
  "keeps (on_dbs P) (organization_member_update e h m)" "keeps (on_dbs P) (organization_member_delete e h m)"
  unfolding organization_member_update_def organization_member_delete_def
  by (auto intro!: keeps_wrapP keeps_stmt keeps_modify_stmt new_roles fewer_members split: if_splits)

lemma key: "keeps (on_dbs P) (CreateKey e k a cu)"
  by (rule keepsI) (auto simp: CreateKey_def Let_def on_dbs_def split: sum.splits)

lemma operations:
  "keeps (on_dbs P) (CreateOrganization e name owner)" "keeps (on_dbs P) (AddMember e i j role)"
  "keeps (on_dbs P) (RemoveMember e i j)" "keeps (on_dbs P) (UpdateMemberRole e i j role)"
  "keeps (on_dbs P) (CreateVault e name i)" "keeps (on_dbs P) (CreateWallet e v ch)"
  "keeps (on_dbs P) (CreateRequest e wl txd note u)"
  unfolding CreateOrganization_def AddMember_def RemoveMember_def UpdateMemberRole_def CreateVault_def
    CreateWallet_def CreateRequest_def FindOrganization_def
  by (intro keeps_intros custody_inserts request_insert members key; simp)+

end

text \<open>Decisions on requests, for a property that does not look at the requests themselves.\<close>

locale grows_with_decisions = grows_with_custody +
  assumes new_approval: "P d \<Longrightarrow> dangling (has_user d) (apv_user_id a) = False \<Longrightarrow> P (d\<lparr>approvals := approvals d @ [a]\<rparr>)"
    and changed_requests: "P d \<Longrightarrow> P (d\<lparr>signing_requests := map f (signing_requests d)\<rparr>)"
begin

lemma decision_statements:
  "keeps (on_dbs P) (approval_insert e h a)" "keeps (on_dbs P) (signing_request_update e h q)"
  unfolding approval_insert_def signing_request_update_def
  by (intro keeps_intros keeps_insert_stmt keeps_modify_stmt;
      auto intro: new_approval changed_requests split: if_splits)+

lemma sign: "keeps (on_dbs P) (ThresholdSign e k m ct toks)"
  by (rule keepsI) (auto simp: ThresholdSign_def Let_def on_dbs_def split: sum.splits)

lemma decisions:
  "keeps (on_dbs P) (ApproveRequest e i params)" "keeps (on_dbs P) (RejectRequest e i j)"
  unfolding ApproveRequest_def RejectRequest_def check_threshold_def load_request_def load_rel_def
    user_approved_def all_approvals_def FindSigningRequest_def
  by (intro keeps_intros decision_statements sign)+

end

section \<open>The invariants of the two groups\<close>

text \<open>Every decision on a request was made by a user that still exists.\<close>

definition actors_ok :: "database \<Rightarrow> bool" where
  "actors_ok d \<longleftrightarrow> (\<forall>a \<in> set (approvals d). \<not> dangling (has_user d) (apv_user_id a))"

definition people_ok :: "database \<Rightarrow> bool" where
  "people_ok d \<longleftrightarrow> auth_ok d \<and> actors_ok d"

interpretation custody_under_auth: auth_blind custody_ok
proof (unfold_locales, goal_cases)
  case (8 d i)
  have "custody_ok (d\<lparr>organization_members := filter (\<lambda>r. mem_user_id r \<noteq> i) (organization_members d)\<rparr>)"
    using 8(1) by (intro custody_ok_members) (auto simp: custody_ok_def membership_ok_def distinct_map_filter_key)
  then show ?case
    by (subst (asm) custody_ok_cong [symmetric, of "cascade_delete_user i d"]) (simp_all add: cascade_delete_user_def)
qed (subst custody_ok_cong; simp)+

lemma approvals_cascade: "approvals (cascade_delete_user i d) = approvals d"
  by (simp add: cascade_delete_user_def)

lemma actors_ok_deleted:
  assumes "actors_ok d" "first_error (user_delete_checks i d) = None"
  shows "actors_ok (cascade_delete_user i d)"
proof -
  have stay: "has_user d j \<Longrightarrow> j \<noteq> i \<Longrightarrow> has_user (cascade_delete_user i d) j" for j
    by (auto simp: has_user_def cascade_delete_user_def)
  have "apv_user_id a \<noteq> Some i" if "a \<in> set (approvals d)" for a
    using assms that by (cases "has_user d i") (auto simp: actors_ok_def dangling_def user_delete_checks_def split: if_splits)
  with stay assms(1) show ?thesis
    by (auto simp: actors_ok_def dangling_def approvals_cascade split: option.splits)
qed

interpretation actors_under_auth: auth_blind actors_ok
proof (unfold_locales, goal_cases)
  case (8 d i)
  then show ?case by (rule actors_ok_deleted)
qed (auto simp: actors_ok_def dangling_def has_user_def image_iff split: option.splits)

interpretation people_under_custody: grows_with_decisions people_ok
  by unfold_locales
    (auto simp: people_ok_def actors_ok_def auth_ok_def has_user_iff dangling_def user_ids_def split: option.splits)

section \<open>The history of the tables\<close>

text \<open>
  Vaults, wallets and decisions are only added.  A request keeps what it asks for, and one that has
  been decided is never written again.
\<close>

definition same_request :: "signing_request_row \<Rightarrow> signing_request_row \<Rightarrow> bool" where
  "same_request r r' \<longleftrightarrow> srq_id r' = srq_id r \<and> srq_wallet_id r' = srq_wallet_id r \<and>
     srq_vault_id r' = srq_vault_id r \<and> srq_initiator_id r' = srq_initiator_id r \<and>
     srq_tx_data r' = srq_tx_data r \<and> (srq_status r \<noteq> Some ''pending'' \<longrightarrow> r' = r)"

definition history :: "database \<Rightarrow> database \<Rightarrow> bool" where
  "history d d' \<longleftrightarrow> prefix (vaults d) (vaults d') \<and> prefix (wallets d) (wallets d') \<and>
     prefix (approvals d) (approvals d') \<and>
     (\<forall>r \<in> set (signing_requests d). \<exists>r' \<in> set (signing_requests d'). same_request r r')"

definition no_new_signature :: "database \<Rightarrow> database \<Rightarrow> bool" where
  "no_new_signature d d' \<longleftrightarrow>
     (\<forall>r \<in> set (signing_requests d'). srq_status r = Some ''completed'' \<longrightarrow> r \<in> set (signing_requests d))"

definition quiet :: "database \<Rightarrow> database \<Rightarrow> bool" where
  "quiet d d' \<longleftrightarrow> history d d' \<and> no_new_signature d d'"

lemma same_request_refl [simp]: "same_request r r"
  by (simp add: same_request_def)

lemma same_request_trans: "same_request r s \<Longrightarrow> same_request s t \<Longrightarrow> same_request r t"
  by (auto simp: same_request_def)

lemma history_refl [simp]: "history d d"
  by (auto simp: history_def intro: same_request_refl)

lemma quiet_refl [simp]: "quiet d d"
  by (simp add: quiet_def no_new_signature_def)

lemma history_trans: "history a b \<Longrightarrow> history b c \<Longrightarrow> history a c"
  unfolding history_def by (meson prefix_order.trans same_request_trans)

interpretation quiet_under_auth: auth_blind "quiet d0" for d0
  by unfold_locales (simp_all add: quiet_def history_def no_new_signature_def cascade_delete_user_def)

interpretation quiet_under_custody: grows_with_custody "quiet d0" for d0
  by unfold_locales (auto simp: quiet_def history_def no_new_signature_def intro: prefix_order.trans)

lemma quiet_approval: "quiet d0 d \<Longrightarrow> quiet d0 (d\<lparr>approvals := approvals d @ [a]\<rparr>)"
  by (auto simp: quiet_def history_def no_new_signature_def intro: prefix_order.trans)

text \<open>Writing a pending request.\<close>

lemma history_write:
  assumes "custody_ok d" "req \<in> set (signing_requests d)" "srq_status req = Some ''pending''"
    and "srq_id q = srq_id req" "same_request req (write_request q now req)"
  shows "history d (d\<lparr>approvals := approvals d @ as, signing_requests :=
    map (\<lambda>r. if srq_id r = srq_id req then write_request q now r else r) (signing_requests d)\<rparr>)"
proof -
  have "\<exists>r' \<in> set (map (\<lambda>r. if srq_id r = srq_id req then write_request q now r else r) (signing_requests d)). same_request r r'"
    if r: "r \<in> set (signing_requests d)" for r
  proof (cases "srq_id r = srq_id req")
    case True
    have "distinct (map srq_id (signing_requests d))" using assms(1) by (simp add: custody_ok_def signing_ok_def)
    with True r assms(2) have "r = req" by (metis distinct_map inj_onD)
    with r assms(5) show ?thesis by (intro bexI [of _ "write_request q now r"]) auto
  next
    case False
    with r show ?thesis by (intro bexI [of _ r]) (auto intro!: image_eqI)
  qed
  then show ?thesis by (simp add: history_def)
qed

text \<open>Every signature in the database is backed by approvals up to the threshold of the vault.\<close>

definition backed :: "database \<Rightarrow> signing_request_row \<Rightarrow> bool" where
  "backed d r \<longleftrightarrow> (\<exists>wallet \<in> set (wallets d). \<exists>vault \<in> set (vaults d).
     srq_wallet_id r = Some (wal_id wallet) \<and> wal_vault_id wallet = Some (vlt_id vault) \<and>
     vlt_threshold vault \<le> int (length (request_approvals (srq_id r) d)))"

definition signatures_backed :: "database \<Rightarrow> bool" where
  "signatures_backed d \<longleftrightarrow> (\<forall>r \<in> set (signing_requests d). srq_status r = Some ''completed'' \<longrightarrow> backed d r)"

lemma request_approvals_mono:
  "prefix (approvals d) (approvals d') \<Longrightarrow> length (request_approvals i d) \<le> length (request_approvals i d')"
  by (auto simp: request_approvals_def prefix_def)

lemma backed_history:
  assumes "history d d'" "backed d r"
  shows "backed d' r"
proof -
  from assms(2) obtain x v where xv: "x \<in> set (wallets d)" "v \<in> set (vaults d)" "srq_wallet_id r = Some (wal_id x)"
    "wal_vault_id x = Some (vlt_id v)" "vlt_threshold v \<le> int (length (request_approvals (srq_id r) d))"
    by (auto simp: backed_def)
  moreover have "set (wallets d) \<subseteq> set (wallets d')" "set (vaults d) \<subseteq> set (vaults d')"
    using assms(1) by (auto simp: history_def set_mono_prefix)
  moreover have "length (request_approvals (srq_id r) d) \<le> length (request_approvals (srq_id r) d')"
    using assms(1) by (auto simp: history_def intro: request_approvals_mono)
  ultimately show ?thesis unfolding backed_def by force
qed

lemma signatures_backed_quiet:
  assumes "quiet d d'" "signatures_backed d"
  shows "signatures_backed d'"
  using assms backed_history unfolding signatures_backed_def quiet_def no_new_signature_def by blast

section \<open>Decisions and the history\<close>

lemma completed_request_same:
  assumes "srq_status req = Some ''pending''"
  shows "same_request req (write_request (req\<lparr>srq_status := st, srq_signature := sg\<rparr>) now req)"
    "same_request req (write_request (req\<lparr>srq_status := st\<rparr>) now req)"
  using assms by (simp_all add: same_request_def write_request_def)

lemma RejectRequest_quiet:
  assumes "custody_ok d0"
  shows "dvalid (\<lambda>d. d = d0) (RejectRequest e requestID userID) (\<lambda>_. quiet d0) (quiet d0)"
  unfolding RejectRequest_def FindSigningRequest_def
proof (rule dvalid_bindP [OF dvalid_err [OF dvalid_find_row]], simp, rule dvalid_if)
  fix req
  let ?P = "\<lambda>d. d = d0 \<and> req \<in> set (signing_requests d) \<and> srq_id req = canon e requestID"
  show "dvalid ?P (errP (ErrPlain ''request is not pending'')) (\<lambda>_. quiet d0) (quiet d0)"
    by (auto intro: dvalid_errP)
  assume pend: "\<not> string_of (srq_status req) \<noteq> ''pending''"
  let ?R = "\<lambda>d. req \<in> set (signing_requests d0) \<and> (\<exists>a. d = d0\<lparr>approvals := approvals d0 @ [a]\<rparr>)"
  have status: "srq_status req = Some ''pending''"
    using pend by (auto simp: string_of_def split: option.splits)
  have ins: "dvalid ?P (approval_insert e Pool (new_approval i requestID userID ''reject'' None)) (\<lambda>_. ?R) (quiet d0)" for i
    unfolding approval_insert_def
    by (rule dvalid_err, rule dvalid_completed_insert) auto
  have written: "quiet d0 (d0\<lparr>approvals := approvals d0 @ [a], signing_requests := map (\<lambda>r. if srq_id r = srq_id req
      then write_request (req\<lparr>srq_status := Some ''rejected''\<rparr>) now r else r) (signing_requests d0)\<rparr>)"
    if "req \<in> set (signing_requests d0)" for a now
    using history_write [OF assms that status, of "req\<lparr>srq_status := Some ''rejected''\<rparr>" now "[a]"]
      completed_request_same [OF status]
    by (auto simp: quiet_def no_new_signature_def)
  have upd: "dvalid ?R (signing_request_update e Pool (req\<lparr>srq_status := Some ''rejected''\<rparr>)) (\<lambda>_. quiet d0) (quiet d0)"
    unfolding signing_request_update_def
    by (rule dvalid_bindP [OF dvalid_err [OF dvalid_sys_now]], auto intro: quiet_approval,
        rule dvalid_conseq [OF dvalid_modify [where P = ?R]])
      (auto simp: written intro: quiet_approval)
  show "dvalid ?P (bindP (uuid_New e) (\<lambda>i. thenP (approval_insert e Pool (new_approval i requestID userID ''reject'' None))
       (signing_request_update e Pool (req\<lparr>srq_status := Some ''rejected''\<rparr>)))) (\<lambda>_. quiet d0) (quiet d0)"
    by (rule dvalid_bindP [OF dvalid_err [OF dvalid_uuid_New]], simp, rule dvalid_thenP [OF ins upd])
qed

text \<open>\<open>ApproveRequest\<close> either adds no signature, or completes a pending request with enough approvals.\<close>

lemma ApproveRequest_history:
  assumes run: "ApproveRequest e requestID p w = (r, t)" and w: "tx w = None" "custody_ok (db w)"
    and backed: "signatures_backed (db w)"
  shows "history (db w) (db t) \<and> signatures_backed (db t)"
  using run w(1)
proof (cases rule: ApproveRequest_trace)
  case early
  then show ?thesis using backed by simp
next
  case (stored ld a x)
  let ?q = "ld_request ld"
  note L = load_request_Ok [OF stored(1)]
  have qx: "quiet (db w) (db x)" by (simp add: stored(4) quiet_approval)
  from check_threshold_db [OF stored(3,5)] show ?thesis
  proof (elim disjE conjE exE)
    assume "db t = db x"
    then show ?thesis using qx backed signatures_backed_quiet by (auto simp: quiet_def)
  next
    fix n call s now
    assume call: "sign_calls t = sign_calls x @ [call]" and t: "db t = complete_request ?q s now (db x)"
    have req: "?q \<in> set (signing_requests (db w))" using L by simp
    have h: "history (db w) (db t)"
      using history_write [OF w(2) req stored(2), of "?q\<lparr>srq_status := Some ''completed'', srq_signature := Some s\<rparr>" now "[a]"]
        completed_request_same [OF stored(2)]
      by (simp add: t stored(4) complete_request_def)
    have ids: "srq_id ?q = canon e requestID" using L by simp
    from check_threshold_calls [OF stored(3)] call obtain wallet vault where
      wv: "ld_wallet ld = Some wallet" "ld_vault ld = Some vault"
        "vlt_threshold vault \<le> int (length (request_approvals (canon e requestID) (db x)))"
      by auto
    have apv: "request_approvals i (db t) = request_approvals i (db x)" for i
      by (simp add: t complete_request_def request_approvals_def)
    have tables: "wallets (db t) = wallets (db w)" "vaults (db t) = vaults (db w)"
      by (simp_all add: t complete_request_def stored(4))
    have new: "backed (db t) (write_request (?q\<lparr>srq_status := Some ''completed'', srq_signature := Some s\<rparr>) now r)" for r
      unfolding backed_def
      by (intro bexI [of _ wallet] bexI [of _ vault]) (use L wv ids apv tables in simp_all)
    have "backed (db t) r'" if r': "r' \<in> set (signing_requests (db t))" "srq_status r' = Some ''completed''" for r'
    proof (cases "r' \<in> set (signing_requests (db w))")
      case True
      then show ?thesis using backed r'(2) backed_history [OF h] by (auto simp: signatures_backed_def)
    next
      case False
      then show ?thesis using r'(1) new by (auto simp: t complete_request_def stored(4) split: if_splits)
    qed
    with h show ?thesis by (auto simp: signatures_backed_def)
  qed
qed

section \<open>Steps of the server\<close>

text \<open>
  One request at a time: every constructor runs one operation of a service with arbitrary arguments,
  whatever its outcome.  The environment answers by the number of the interaction, so one environment
  stands for any behaviour of the database driver, the clocks and the MPC infrastructure over a run.
\<close>

inductive system_step :: "env \<Rightarrow> auth_config \<Rightarrow> world \<Rightarrow> world \<Rightarrow> bool" for e c where
  GetAppUserProfile: "system_step e c w (snd (GetAppUserProfile e i w))"
| UpdatePassword: "system_step e c w (snd (UpdatePassword e c request w))"
| ResetPassword: "system_step e c w (snd (ResetPassword e c tok pw w))"
| InitPasswordReset: "system_step e c w (snd (InitPasswordReset e c name w))"
| Logout: "system_step e c w (snd (Logout e at rt w))"
| Login: "system_step e c w (snd (Login e c name pw w))"
| Refresh: "system_step e c w (snd (Refresh e c tok w))"
| Register: "system_step e c w (snd (Register e c name pw w))"
| DeleteUserAccount: "system_step e c w (snd (DeleteUserAccount e u pw w))"
| CompleteRegister: "system_step e c w (snd (CompleteRegister e c tok w))"
| CreateOrganization: "system_step e c w (snd (CreateOrganization e name owner w))"
| ListUserOrganizations: "system_step e c w (snd (ListUserOrganizations where_in e i w))"
| ListMembers: "system_step e c w (snd (ListMembers e i w))"
| AddMember: "system_step e c w (snd (AddMember e i j role w))"
| RemoveMember: "system_step e c w (snd (RemoveMember e i j w))"
| UpdateMemberRole: "system_step e c w (snd (UpdateMemberRole e i j role w))"
| CreateVault: "system_step e c w (snd (CreateVault e name i w))"
| CreateWallet: "system_step e c w (snd (CreateWallet e i ch w))"
| CreateRequest: "system_step e c w (snd (CreateRequest e i txData note u_id w))"
| ApproveRequest: "system_step e c w (snd (ApproveRequest e i params w))"
| RejectRequest: "system_step e c w (snd (RejectRequest e i j w))"
| GetRequest: "system_step e c w (snd (GetRequest e i w))"
| ListRequests: "system_step e c w (snd (ListRequests e i vault status page limit w))"

inductive_cases system_stepE: "system_step e c w t"

text \<open>Between two requests: no open transaction, and a database all invariants hold for.\<close>

definition system_ok :: "world \<Rightarrow> bool" where
  "system_ok w \<longleftrightarrow> tx w = None \<and> auth_ok (db w) \<and> actors_ok (db w) \<and> custody_ok (db w) \<and> signatures_backed (db w)"

lemma on_dbs_idle: "tx w = None \<Longrightarrow> on_dbs P w = P (db w)"
  by (simp add: on_dbs_def)

lemma keeps_idle_db: "keeps (on_dbs P) m \<Longrightarrow> tx w = None \<Longrightarrow> tx (snd (m w)) = None \<Longrightarrow> P (db w) \<Longrightarrow> P (db (snd (m w)))"
  by (metis keeps_def on_dbs_idle)

lemma quiet_step:
  assumes "system_ok w" "tx t = None" "auth_ok (db t)" "actors_ok (db t)" "custody_ok (db t)" "quiet (db w) (db t)"
  shows "system_ok t \<and> history (db w) (db t)"
  using assms signatures_backed_quiet by (auto simp: system_ok_def quiet_def)

lemma auth_step:
  assumes "system_ok w" and idle: "keeps idle m" and keep: "keeps (on_dbs auth_ok) m" "keeps (on_dbs actors_ok) m"
    "keeps (on_dbs custody_ok) m" "\<And>d0. keeps (on_dbs (quiet d0)) m"
  shows "system_ok (snd (m w)) \<and> history (db w) (db (snd (m w)))"
proof -
  have w: "tx w = None" "tx (snd (m w)) = None"
    using assms(1) idle by (auto simp: system_ok_def keeps_def idle_def)
  show ?thesis
    using assms(1) w keeps_idle_db [OF keep(1) w] keeps_idle_db [OF keep(2) w] keeps_idle_db [OF keep(3) w]
      keeps_idle_db [OF keep(4) w, of "db w"]
    by (intro quiet_step) (auto simp: system_ok_def)
qed

lemma custody_ends:
  assumes "dvalid custody_ok m (\<lambda>_. custody_ok) custody_ok" "system_ok w"
  shows "tx (snd (m w)) = None" "custody_ok (db (snd (m w)))"
  using dvalid_always [OF assms(1), of w "fst (m w)" "snd (m w)"] assms(2) by (auto simp: system_ok_def)

lemma custody_step:
  assumes "system_ok w" and inv: "dvalid custody_ok m (\<lambda>_. custody_ok) custody_ok"
    and keep: "keeps (on_dbs people_ok) m" "\<And>d0. keeps (on_dbs (quiet d0)) m"
  shows "system_ok (snd (m w)) \<and> history (db w) (db (snd (m w)))"
proof -
  note t = custody_ends [OF inv assms(1)]
  have w: "tx w = None" using assms(1) by (simp add: system_ok_def)
  show ?thesis
    using assms(1) w t keeps_idle_db [OF keep(1) w t(1)] keeps_idle_db [OF keep(2) w t(1), of "db w"]
    by (intro quiet_step) (auto simp: system_ok_def people_ok_def)
qed

lemma read_step:
  assumes "system_ok w" "frame db m" "frame tx m"
  shows "system_ok (snd (m w)) \<and> history (db w) (db (snd (m w)))"
  using assms by (auto simp: system_ok_def frame_def)

lemma reads:
  "frame db (ListUserOrganizations where_in e i)" "frame tx (ListUserOrganizations where_in e i)"
  "frame db (ListMembers e i)" "frame tx (ListMembers e i)" "frame db (GetRequest e i)" "frame tx (GetRequest e i)"
  "frame db (ListRequests e i vault status page limit)" "frame tx (ListRequests e i vault status page limit)"
  unfolding ListUserOrganizations_def ListMembers_def GetRequest_def ListRequests_def FindSigningRequest_def
    find_row_def all_rows_def
  by (intro frame_intros frame_tx_query)+

lemma approve_step:
  assumes "system_ok w"
  shows "system_ok (snd (ApproveRequest e i params w)) \<and> history (db w) (db (snd (ApproveRequest e i params w)))"
proof -
  let ?t = "snd (ApproveRequest e i params w)"
  note t = custody_ends [OF dvalid_ApproveRequest assms]
  have w: "tx w = None" "custody_ok (db w)" "signatures_backed (db w)" using assms by (auto simp: system_ok_def)
  have "people_ok (db ?t)"
    using keeps_idle_db [OF people_under_custody.decisions(1) w(1) t(1)] assms by (simp add: people_ok_def system_ok_def)
  moreover have "history (db w) (db ?t) \<and> signatures_backed (db ?t)"
    using ApproveRequest_history [OF _ w, of e i params "fst (ApproveRequest e i params w)" ?t] by simp
  ultimately show ?thesis using t by (simp add: system_ok_def people_ok_def)
qed

lemma reject_step:
  assumes "system_ok w"
  shows "system_ok (snd (RejectRequest e i j w)) \<and> history (db w) (db (snd (RejectRequest e i j w)))"
proof -
  let ?t = "snd (RejectRequest e i j w)"
  note t = custody_ends [OF dvalid_RejectRequest assms]
  have w: "tx w = None" "custody_ok (db w)" using assms by (auto simp: system_ok_def)
  have "people_ok (db ?t)"
    using keeps_idle_db [OF people_under_custody.decisions(2) w(1) t(1)] assms by (simp add: people_ok_def system_ok_def)
  moreover have "quiet (db w) (db ?t)"
    using dvalid_always [OF RejectRequest_quiet [OF w(2)] w(1), of e i j "fst (RejectRequest e i j w)" ?t] by simp
  ultimately show ?thesis using t assms by (intro quiet_step) (auto simp: people_ok_def)
qed

lemma system_step_ok:
  assumes "system_step e c w t" "system_ok w"
  shows "system_ok t \<and> history (db w) (db t)"
  using assms(1)
  by (elim system_stepE; clarify)
    ((rule auth_step [OF assms(2)]; rule keeps_service keeps_ResetPassword idle_service idle_ResetPassword
        actors_under_auth.service actors_under_auth.reset custody_under_auth.service custody_under_auth.reset
        quiet_under_auth.service quiet_under_auth.reset)
     | (rule custody_step [OF assms(2)];
        rule dvalid_custody people_under_custody.operations quiet_under_custody.operations)
     | (rule read_step [OF assms(2)]; rule reads)
     | rule approve_step [OF assms(2)] reject_step [OF assms(2)])+

lemma system_reachable_ok:
  "(system_step e c)\<^sup>*\<^sup>* w t \<Longrightarrow> system_ok w \<Longrightarrow> system_ok t \<and> history (db w) (db t)"
  by (induction rule: rtranclp_induct) (auto dest: system_step_ok intro: history_trans)

section \<open>A run from an empty database\<close>

text \<open>The tables after the migrations: empty but for the seeded chains.\<close>

definition fresh_world :: "chain_row list \<Rightarrow> world" where
  "fresh_world cs = \<lparr>clk = 0, db = empty_db\<lparr>chains := cs\<rparr>, tx = None, mails = [], sign_calls = [], key_calls = []\<rparr>"

lemma system_ok_fresh: "system_ok (fresh_world cs)"
  by (simp add: system_ok_def fresh_world_def empty_db_def auth_ok_def users_ok_def actors_ok_def custody_ok_def
      membership_ok_def wallets_ok_def signing_ok_def signatures_backed_def)

end
