(* ===== verification/Signed_Run.thy ===== *)
theory Signed_Run
  imports Reachability
begin

text \<open>
  A run of the services from the empty database to a signed request, step by step: the concrete input
  of the properties about everything that is reachable.
\<close>

section \<open>From registration to signature\<close>

text \<open>
  Two users register, the first one founds an organization with a vault, a wallet and a signing
  request, and both approve it.
\<close>

definition join_user :: "string \<Rightarrow> world \<Rightarrow> world" where
  "join_user name w = snd (Register example_env example_auth_config name ''secret'' w)"

definition found_org :: "world \<Rightarrow> world" where
  "found_org w = snd (CreateOrganization example_env ''acme'' (usr_id (users (db w) ! 0)) w)"

definition open_vault :: "world \<Rightarrow> world" where
  "open_vault w = snd (CreateVault example_env ''main'' (org_id (organizations (db w) ! 0)) w)"

definition open_wallet :: "world \<Rightarrow> world" where
  "open_wallet w = snd (CreateWallet example_env (vlt_id (vaults (db w) ! 0)) ''ETH'' w)"

definition ask_signature :: "world \<Rightarrow> world" where
  "ask_signature w = snd (CreateRequest example_env (wal_id (wallets (db w) ! 0)) ''00ff'' ''pay'' (usr_id (users (db w) ! 0)) w)"

definition give_approval :: "nat \<Rightarrow> world \<Rightarrow> world" where
  "give_approval n w = snd (ApproveRequest example_env (srq_id (signing_requests (db w) ! 0))
     (example_params (usr_id (users (db w) ! n))) w)"

definition signed_world :: world where
  "signed_world = give_approval 1 (give_approval 0 (ask_signature (open_wallet (open_vault (found_org
     (join_user ''bob'' (join_user ''alice'' (fresh_world (chains custody_db)))))))))"

lemma run_steps:
  "system_step example_env example_auth_config w (join_user name w)"
  "system_step example_env example_auth_config w (found_org w)"
  "system_step example_env example_auth_config w (open_vault w)"
  "system_step example_env example_auth_config w (open_wallet w)"
  "system_step example_env example_auth_config w (ask_signature w)"
  "system_step example_env example_auth_config w (give_approval n w)"
  unfolding join_user_def found_org_def open_vault_def open_wallet_def ask_signature_def give_approval_def
  by (rule system_step.intros)+

lemma signed_world_reachable:
  "(system_step example_env example_auth_config)\<^sup>*\<^sup>* (fresh_world (chains custody_db)) signed_world"
  unfolding signed_world_def
  by ((rule rtranclp.rtrancl_into_rtrancl [rotated], rule run_steps)+) (rule rtranclp.rtrancl_refl)

lemma signed_world_signed:
  "map (\<lambda>r. (srq_status r, srq_signature r)) (signing_requests (db signed_world)) = [(Some ''completed'', Some ''sig00ff'')]"
  by code_simp

end
