(* ===== verification/Quorum.thy ===== *)
theory Quorum
  imports Signed_Run
begin

text \<open>
  What the signing service promises, without tables, comments and failures: a request collects votes,
  at most one per user, while it is open; it may be signed once enough users are in favour, and closed
  once somebody is against; then nothing happens to it any more.  The theory relates the rows of a
  request to this machine and shows that the operations of \<open>Signing\<close> are steps of it.
\<close>

section \<open>The machine\<close>

datatype phase = Open | Signed | Closed

record quorum =
  qm_phase :: phase
  qm_voters :: "uuid set"
  qm_yes :: "uuid set"

definition vote :: "uuid \<Rightarrow> bool \<Rightarrow> quorum \<Rightarrow> quorum" where
  "vote u yes q = q\<lparr>qm_voters := insert u (qm_voters q), qm_yes := (if yes then insert u (qm_yes q) else qm_yes q)\<rparr>"

inductive quorum_step :: "int \<Rightarrow> quorum \<Rightarrow> quorum \<Rightarrow> bool" for T where
  cast: "qm_phase q = Open \<Longrightarrow> u \<notin> qm_voters q \<Longrightarrow> quorum_step T q (vote u yes q)"
| sign: "qm_phase q = Open \<Longrightarrow> T \<le> int (card (qm_yes q)) \<Longrightarrow> quorum_step T q (q\<lparr>qm_phase := Signed\<rparr>)"
| close: "qm_phase q = Open \<Longrightarrow> u \<in> qm_voters q - qm_yes q \<Longrightarrow> quorum_step T q (q\<lparr>qm_phase := Closed\<rparr>)"

inductive_cases quorum_stepE: "quorum_step T q r"

text \<open>The two calls of a client as functions of the machine, when they succeed.\<close>

definition approve :: "int \<Rightarrow> uuid \<Rightarrow> quorum \<Rightarrow> quorum option" where
  "approve T u q =
     (if qm_phase q \<noteq> Open \<or> u \<in> qm_voters q then None
      else let q' = vote u True q in
        Some (if T \<le> int (card (qm_yes q')) then q'\<lparr>qm_phase := Signed\<rparr> else q'))"

definition reject :: "uuid \<Rightarrow> quorum \<Rightarrow> quorum option" where
  "reject u q = (if qm_phase q \<noteq> Open \<or> u \<in> qm_voters q then None else Some ((vote u False q)\<lparr>qm_phase := Closed\<rparr>))"

lemma vote_simps [simp]:
  "qm_phase (vote u yes q) = qm_phase q" "qm_voters (vote u yes q) = insert u (qm_voters q)"
  "qm_yes (vote u yes q) = (if yes then insert u (qm_yes q) else qm_yes q)"
  by (simp_all add: vote_def)

lemma approve_steps:
  assumes "approve T u q = Some r"
  shows "(quorum_step T)\<^sup>*\<^sup>* q r"
proof -
  have u: "qm_phase q = Open" "u \<notin> qm_voters q" using assms by (auto simp: approve_def split: if_splits)
  then have "quorum_step T q (vote u True q)" by (rule cast)
  moreover have "quorum_step T (vote u True q) (vote u True q\<lparr>qm_phase := Signed\<rparr>)"
    if "T \<le> int (card (qm_yes (vote u True q)))"
    using u that by (intro sign) simp_all
  ultimately show ?thesis
    using assms by (auto simp: approve_def Let_def split: if_splits intro: rtranclp.rtrancl_into_rtrancl)
qed

lemma reject_steps:
  assumes "reject u q = Some r" "qm_yes q \<subseteq> qm_voters q"
  shows "(quorum_step T)\<^sup>*\<^sup>* q r"
proof -
  have u: "qm_phase q = Open" "u \<notin> qm_voters q" "r = (vote u False q)\<lparr>qm_phase := Closed\<rparr>"
    using assms(1) by (auto simp: reject_def split: if_splits)
  have "quorum_step T q (vote u False q)" using u by (intro cast)
  moreover have "quorum_step T (vote u False q) r"
    unfolding u(3) by (rule close [of _ u]) (use u assms(2) in auto)
  ultimately show ?thesis by (rule rtranclp.rtrancl_into_rtrancl [OF r_into_rtranclp])
qed

text \<open>The machine on its own: what is decided stays decided, and what is signed has its quorum.\<close>

lemma decided_stays: "(quorum_step T)\<^sup>*\<^sup>* q r \<Longrightarrow> qm_phase q \<noteq> Open \<Longrightarrow> r = q"
  by (induction rule: rtranclp_induct) (auto elim: quorum_stepE)

section \<open>The rows of a request as a state of the machine\<close>

definition phase_of :: "string option \<Rightarrow> phase" where
  "phase_of s = (if s = Some ''pending'' then Open else if s = Some ''completed'' then Signed else Closed)"

definition votes_on :: "uuid \<Rightarrow> database \<Rightarrow> approval_row list" where
  "votes_on i d = filter (\<lambda>a. apv_request_id a = Some i) (approvals d)"

definition quorum_of :: "uuid \<Rightarrow> database \<Rightarrow> quorum option" where
  "quorum_of i d = map_option (\<lambda>r. \<lparr>qm_phase = phase_of (srq_status r),
       qm_voters = set (List.map_filter apv_user_id (votes_on i d)),
       qm_yes = set (List.map_filter apv_user_id (request_approvals i d))\<rparr>)
     (find (\<lambda>r. srq_id r = i) (signing_requests d))"

definition threshold_of :: "uuid \<Rightarrow> database \<Rightarrow> int option" where
  "threshold_of i d =
     Option.bind (find (\<lambda>r. srq_id r = i) (signing_requests d)) (\<lambda>r.
     Option.bind (srq_wallet_id r) (\<lambda>x.
     Option.bind (find (\<lambda>wal. wal_id wal = x) (wallets d)) (\<lambda>wal.
     Option.bind (wal_vault_id wal) (\<lambda>v.
       map_option vlt_threshold (find (\<lambda>vlt. vlt_id vlt = v) (vaults d))))))"

section \<open>Statements on the rows, seen by the machine\<close>

lemma set_map_filter: "set (List.map_filter f xs) = {y. \<exists>x \<in> set xs. f x = Some y}"
  by (induction xs) (auto simp: List.map_filter_simps split: option.splits)

lemma quorum_of_approval:
  "apv_request_id a = Some j \<Longrightarrow> apv_user_id a = Some u \<Longrightarrow>
    quorum_of i (d\<lparr>approvals := approvals d @ [a]\<rparr>) =
      (if i = j then map_option (vote u (apv_action a = ''approve'')) (quorum_of i d) else quorum_of i d)"
  by (auto simp: quorum_of_def votes_on_def request_approvals_def set_map_filter vote_def option.map_comp comp_def
      intro!: map_option_cong)

lemma quorum_of_write:
  assumes "srq_id req = j"
  shows "quorum_of i (d\<lparr>signing_requests := map (\<lambda>r. if srq_id r = j then write_request req now r else r) (signing_requests d)\<rparr>) =
    (if i = j then map_option (\<lambda>q. q\<lparr>qm_phase := phase_of (srq_status req)\<rparr>) (quorum_of i d) else quorum_of i d)"
proof -
  have "find (\<lambda>r. srq_id r = i) (map (\<lambda>r. if srq_id r = j then write_request req now r else r) rs) =
      map_option (\<lambda>r. if srq_id r = j then write_request req now r else r) (find (\<lambda>r. srq_id r = i) rs)" for rs
    by (induction rs) (auto simp: assms)
  then show ?thesis
    by (auto simp: quorum_of_def votes_on_def request_approvals_def option.map_comp comp_def assms dest!: find_SomeD
        intro!: map_option_cong)
qed

lemma quorum_of_request:
  assumes "custody_ok d" "r \<in> set (signing_requests d)"
  shows "quorum_of (srq_id r) d = Some \<lparr>qm_phase = phase_of (srq_status r),
       qm_voters = set (List.map_filter apv_user_id (votes_on (srq_id r) d)),
       qm_yes = set (List.map_filter apv_user_id (request_approvals (srq_id r) d))\<rparr>"
  using assms find_by_key [of srq_id "signing_requests d" r]
  by (simp add: quorum_of_def custody_ok_def signing_ok_def)

lemma quorum_of_wf: "quorum_of i d = Some q \<Longrightarrow> qm_yes q \<subseteq> qm_voters q"
  by (auto simp: quorum_of_def request_approvals_def votes_on_def set_map_filter)

lemma voted_iff:
  "quorum_of i d = Some q \<Longrightarrow> u \<in> qm_voters q \<longleftrightarrow> (\<exists>a \<in> set (approvals d). apv_request_id a = Some i \<and> apv_user_id a = Some u)"
  by (auto simp: quorum_of_def votes_on_def set_map_filter)

lemma votes_counted:
  assumes "custody_ok d" "quorum_of i d = Some q"
  shows "card (qm_yes q) = length (request_approvals i d)"
proof -
  let ?as = "request_approvals i d"
  have some: "\<forall>a \<in> set ?as. apv_user_id a \<noteq> None" and dist: "distinct (map apv_user_id ?as)"
    using assms(1) by (auto simp: custody_ok_def signing_ok_def approval_ok_def request_approvals_def
        intro: distinct_users_of_request)
  then have mf: "map Some (List.map_filter apv_user_id as) = map apv_user_id as" if "set as \<subseteq> set ?as" for as
    using that by (induction as) (auto simp: List.map_filter_simps)
  have "distinct (List.map_filter apv_user_id ?as)" "length (List.map_filter apv_user_id ?as) = length ?as"
    using dist mf [of ?as] by (metis distinct_map order_refl, metis length_map order_refl)
  then show ?thesis using assms(2) by (auto simp: quorum_of_def distinct_card)
qed

lemma threshold_of_loaded:
  assumes "custody_ok (db w)" "load_request e rid w = (Ok ld, v)" "ld_vault ld = Some vault"
  shows "threshold_of (canon e rid) (db w) = Some (vlt_threshold vault)"
proof -
  note L = load_request_Ok [OF assms(2)]
  obtain wallet where wallet: "ld_wallet ld = Some wallet" "wal_vault_id wallet = Some (vlt_id vault)"
    "wallet \<in> set (wallets (db w))" "vault \<in> set (vaults (db w))"
    "srq_wallet_id (ld_request ld) = Some (wal_id wallet)" using L assms(3) by auto
  have "distinct (map srq_id (signing_requests (db w)))" "distinct (map wal_id (wallets (db w)))"
    "distinct (map vlt_id (vaults (db w)))"
    using assms(1) by (simp_all add: custody_ok_def signing_ok_def wallets_ok_def)
  with wallet L find_by_key [of srq_id "signing_requests (db w)" "ld_request ld"]
    find_by_key [of wal_id "wallets (db w)" wallet] find_by_key [of vlt_id "vaults (db w)" vault]
  show ?thesis by (simp add: threshold_of_def)
qed

section \<open>The operations are steps of the machine\<close>

lemma phase_pending [simp]: "phase_of s = Open \<longleftrightarrow> s = Some ''pending''"
  by (simp add: phase_of_def)

text \<open>A stored vote, on the machine; \<open>vote_stored\<close> is the database after it.\<close>

definition vote_stored :: "uuid \<Rightarrow> uuid \<Rightarrow> bool \<Rightarrow> database \<Rightarrow> database \<Rightarrow> bool" where
  "vote_stored i u yes d d' \<longleftrightarrow>
     (\<exists>q. quorum_of i d = Some q \<and> qm_phase q = Open \<and> u \<notin> qm_voters q \<and> quorum_of i d' = Some (vote u yes q)) \<and>
     (\<forall>j. j \<noteq> i \<longrightarrow> quorum_of j d' = quorum_of j d)"

lemma vote_storedI:
  assumes "custody_ok d" "r \<in> set (signing_requests d)" "srq_id r = i" "srq_status r = Some ''pending''"
    and "apv_request_id a = Some i" "apv_user_id a = Some u" "apv_action a = (if yes then ''approve'' else ''reject'')"
    and "\<forall>q \<in> set (approvals d). apv_request_id q = Some i \<longrightarrow> apv_user_id q \<noteq> Some u"
  shows "vote_stored i u yes d (d\<lparr>approvals := approvals d @ [a]\<rparr>)"
proof -
  obtain q where q: "quorum_of i d = Some q" "qm_phase q = Open"
    using quorum_of_request [OF assms(1,2)] assms(3,4) by simp
  have "u \<notin> qm_voters q" using voted_iff [OF q(1)] assms(8) by blast
  then show ?thesis
    using q assms(7) by (simp add: vote_stored_def quorum_of_approval [OF assms(5,6)])
qed

lemma ApproveRequest_refines:
  assumes run: "ApproveRequest e rid p w = (r, t)" and w: "tx w = None" "custody_ok (db w)"
  defines "i \<equiv> canon e rid" and "u \<equiv> canon e (ap_user_id p)"
  shows "if r = Ok ()
    then \<exists>q T. quorum_of i (db w) = Some q \<and> threshold_of i (db w) = Some T \<and> approve T u q \<noteq> None \<and>
      quorum_of i (db t) = approve T u q \<and> (\<forall>j. j \<noteq> i \<longrightarrow> quorum_of j (db t) = quorum_of j (db w))
    else (\<forall>j. quorum_of j (db t) = quorum_of j (db w)) \<or> vote_stored i u True (db w) (db t)"
  using run w(1)
proof (cases rule: ApproveRequest_trace)
  case early
  then show ?thesis by auto
next
  case (stored ld a x)
  note L = load_request_Ok [OF stored(1)]
  let ?q = "ld_request ld"
  have vs: "vote_stored i u True (db w) (db x)"
    unfolding stored(4) i_def u_def
    by (rule vote_storedI [of _ ?q]) (use L stored w(2) in auto)
  then obtain q where q: "quorum_of i (db w) = Some q" "qm_phase q = Open" "u \<notin> qm_voters q"
    "quorum_of i (db x) = Some (vote u True q)" and others: "\<And>j. j \<noteq> i \<Longrightarrow> quorum_of j (db x) = quorum_of j (db w)"
    by (auto simp: vote_stored_def)
  show ?thesis
  proof (cases "r = Ok ()")
    case False
    then have "db t = db x" using check_threshold_db [OF stored(3,5)] by auto
    with vs False show ?thesis by simp
  next
    case True
    from check_threshold_Ok [OF stored(3) [unfolded True] stored(5)] obtain wallet vault where
      wv: "ld_wallet ld = Some wallet" "ld_vault ld = Some vault"
      and res: "if vlt_threshold vault \<le> int (length (request_approvals i (db x)))
        then \<exists>n call s now. sign_calls t = sign_calls x @ [call] \<and> env_sign e n call = Inr s \<and>
          db t = complete_request ?q s now (db x)
        else db t = db x \<and> sign_calls t = sign_calls x"
      by (auto simp: i_def)
    have T: "threshold_of i (db w) = Some (vlt_threshold vault)"
      using threshold_of_loaded [OF w(2) stored(1) wv(2)] by (simp add: i_def)
    have "card (qm_yes q) = length (request_approvals i (db w))" by (rule votes_counted [OF w(2) q(1)])
    moreover have "finite (qm_yes q)" using q(1) by (auto simp: quorum_of_def)
    moreover have "qm_yes q \<subseteq> qm_voters q" by (rule quorum_of_wf [OF q(1)])
    moreover have "length (request_approvals i (db x)) = Suc (length (request_approvals i (db w)))"
      using stored(7,9) by (simp add: stored(4) request_approvals_def i_def)
    ultimately have cnt: "card (qm_yes (vote u True q)) = length (request_approvals i (db x))"
      using q(3) by (auto simp: card_insert_if)
    have qt: "quorum_of i (db t) = approve (vlt_threshold vault) u q \<and>
        (\<forall>j. j \<noteq> i \<longrightarrow> quorum_of j (db t) = quorum_of j (db w))"
    proof (cases "vlt_threshold vault \<le> int (length (request_approvals i (db x)))")
      case False
      then have "db t = db x" using res by simp
      then show ?thesis using False q others cnt by (simp add: approve_def Let_def)
    next
      case thr: True
      then obtain s now where t: "db t = complete_request ?q s now (db x)" using res by auto
      have id: "srq_id (?q\<lparr>srq_status := Some ''completed'', srq_signature := Some s\<rparr>) = i" using L by (simp add: i_def)
      have "complete_request ?q s now (db x) = (db x)\<lparr>signing_requests := map (\<lambda>r. if srq_id r = i then
          write_request (?q\<lparr>srq_status := Some ''completed'', srq_signature := Some s\<rparr>) now r else r) (signing_requests (db x))\<rparr>"
        using L by (simp add: complete_request_def i_def)
      then have "quorum_of j (db t) = (if j = i then Some (vote u True q\<lparr>qm_phase := Signed\<rparr>) else quorum_of j (db x))" for j
        using quorum_of_write [OF id, where i = j and d = "db x" and now = now] q(4) by (simp add: t phase_of_def)
      then show ?thesis using thr q others cnt by (simp add: approve_def Let_def)
    qed
    moreover have "approve (vlt_threshold vault) u q \<noteq> None" using q by (simp add: approve_def Let_def)
    ultimately show ?thesis using True q(1) T by auto
  qed
qed

lemma RejectRequest_fails:
  assumes "custody_ok d0"
  shows "dvalid (\<lambda>d. d = d0) (RejectRequest e rid j) (\<lambda>_ _. True)
    (\<lambda>d. d = d0 \<or> vote_stored (canon e rid) (canon e j) False d0 d)"
  unfolding RejectRequest_def FindSigningRequest_def
proof (rule dvalid_bindP [OF dvalid_err [OF dvalid_find_row]], simp, rule dvalid_if)
  let ?E = "\<lambda>d. d = d0 \<or> vote_stored (canon e rid) (canon e j) False d0 d"
  fix req
  let ?P = "\<lambda>d. d = d0 \<and> req \<in> set (signing_requests d) \<and> srq_id req = canon e rid"
  show "dvalid ?P (errP (ErrPlain ''request is not pending'')) (\<lambda>_ _. True) ?E"
    by (auto intro: dvalid_errP)
  assume "\<not> string_of (srq_status req) \<noteq> ''pending''"
  then have pend: "srq_status req = Some ''pending''" by (auto simp: string_of_def split: option.splits)
  have stored: "vote_stored (canon e rid) (canon e j) False d0 (d0\<lparr>approvals := approvals d0 @ [a]\<rparr>)"
    if "req \<in> set (signing_requests d0)" "srq_id req = canon e rid" "apv_request_id a = Some (canon e rid)"
      "apv_user_id a = Some (canon e j)" "apv_action a = ''reject''"
      "\<forall>q \<in> set (approvals d0). apv_request_id q = Some (canon e rid) \<longrightarrow> apv_user_id q \<noteq> Some (canon e j)" for a
    by (rule vote_storedI [OF assms that(1) that(2) pend that(3,4) _ that(6)]) (simp add: that)
  let ?R = "\<lambda>d. vote_stored (canon e rid) (canon e j) False d0 d"
  have ins: "dvalid ?P (approval_insert e Pool (new_approval i rid j ''reject'' None)) (\<lambda>_. ?R) ?E" for i
    unfolding approval_insert_def
    by (rule dvalid_err, rule dvalid_completed_insert [where P = ?P])
      (auto simp: new_approval_def bad_ref_def intro!: stored split: if_splits)
  have upd: "dvalid ?R (signing_request_update e Pool (req\<lparr>srq_status := Some ''rejected''\<rparr>)) (\<lambda>_ _. True) ?E"
    unfolding signing_request_update_def
    by (rule dvalid_bindP [OF dvalid_err [OF dvalid_sys_now]], auto, rule dvalid_conseq [OF dvalid_modify [where P = ?R]]) auto
  show "dvalid ?P (bindP (uuid_New e) (\<lambda>i. thenP (approval_insert e Pool (new_approval i rid j ''reject'' None))
       (signing_request_update e Pool (req\<lparr>srq_status := Some ''rejected''\<rparr>)))) (\<lambda>_ _. True) ?E"
    by (rule dvalid_bindP [OF dvalid_err [OF dvalid_uuid_New]], simp, rule dvalid_thenP [OF ins upd])
qed

lemma RejectRequest_refines:
  assumes run: "RejectRequest e rid j w = (r, t)" and w: "tx w = None" "custody_ok (db w)"
  defines "i \<equiv> canon e rid" and "u \<equiv> canon e j"
  shows "if is_ok r
    then \<exists>q. quorum_of i (db w) = Some q \<and> reject u q \<noteq> None \<and>
      quorum_of i (db t) = reject u q \<and> (\<forall>k. k \<noteq> i \<longrightarrow> quorum_of k (db t) = quorum_of k (db w))
    else (\<forall>k. quorum_of k (db t) = quorum_of k (db w)) \<or> vote_stored i u False (db w) (db t)"
proof (cases r)
  case (Ok x)
  from RejectRequest_Ok_db [OF run [unfolded Ok] w(1)] obtain req a now where
    req: "req \<in> set (signing_requests (db w))" "srq_id req = i" "srq_status req = Some ''pending''"
    and a: "apv_request_id a = Some i" "apv_user_id a = Some u" "apv_action a = ''reject''"
      "\<forall>q \<in> set (approvals (db w)). apv_request_id q = Some i \<longrightarrow> apv_user_id q \<noteq> Some u"
    and t: "db t = (db w)\<lparr>approvals := approvals (db w) @ [a], signing_requests := map (\<lambda>r. if srq_id r = i
        then write_request (req\<lparr>srq_status := Some ''rejected''\<rparr>) now r else r) (signing_requests (db w))\<rparr>"
  proof (elim exE conjE)
    fix req a now
    assume *: "srq_id req = canon e rid" "db t = (db w)\<lparr>approvals := approvals (db w) @ [a], signing_requests := map (\<lambda>r. if srq_id r = srq_id req
        then write_request (req\<lparr>srq_status := Some ''rejected''\<rparr>) now r else r) (signing_requests (db w))\<rparr>"
    assume "req \<in> set (signing_requests (db w))" "srq_status req = Some ''pending''" "apv_request_id a = Some (canon e rid)"
      "apv_user_id a = Some (canon e j)" "apv_action a = ''reject''"
      "\<forall>q \<in> set (approvals (db w)). apv_request_id q = Some (canon e rid) \<longrightarrow> apv_user_id q \<noteq> Some (canon e j)"
    then show thesis using that [of req a now] * by (simp add: i_def u_def)
  qed
  let ?d = "(db w)\<lparr>approvals := approvals (db w) @ [a]\<rparr>"
  have "vote_stored i u False (db w) ?d" by (rule vote_storedI [OF w(2) req a(1,2) _ a(4)]) (simp add: a(3))
  moreover have "db t = ?d\<lparr>signing_requests := map (\<lambda>r. if srq_id r = i
        then write_request (req\<lparr>srq_status := Some ''rejected''\<rparr>) now r else r) (signing_requests ?d)\<rparr>" by (simp add: t)
  then have "quorum_of k (db t) = (if k = i then map_option (\<lambda>q. q\<lparr>qm_phase := Closed\<rparr>) (quorum_of i ?d) else quorum_of k ?d)" for k
    using quorum_of_write [of "req\<lparr>srq_status := Some ''rejected''\<rparr>" i, where i = k and d = ?d and now = now] req(2) by (simp add: phase_of_def)
  ultimately show ?thesis using Ok by (auto simp: vote_stored_def reject_def)
next
  case (Err x)
  have "db t = db w \<or> vote_stored i u False (db w) (db t)"
    using dvalid_fail [OF RejectRequest_fails [OF w(2)] w(1) _ run] Err by (auto simp: i_def u_def)
  with Err show ?thesis by auto
next
  case (Panic c)
  have "db t = db w \<or> vote_stored i u False (db w) (db t)"
    using dvalid_fail [OF RejectRequest_fails [OF w(2)] w(1) _ run] Panic by (auto simp: i_def u_def)
  with Panic show ?thesis by auto
qed

section \<open>Every run of the server is a run of the machine\<close>

interpretation quorum_under_auth: auth_blind "\<lambda>d. quorum_of i d = Some q" for i q
  by unfold_locales (simp_all add: quorum_of_def votes_on_def request_approvals_def cascade_delete_user_def)

interpretation quorum_under_custody: grows_with_custody "\<lambda>d. quorum_of i d = Some q" for i q
proof (unfold_locales, goal_cases)
  case (7 d r)
  have "find P xs = Some x \<Longrightarrow> find P (xs @ ys) = Some x" for P x and xs ys :: "signing_request_row list"
    by (induction xs) auto
  with 7(1) show ?case by (auto simp: quorum_of_def votes_on_def request_approvals_def)
qed (simp_all add: quorum_of_def votes_on_def request_approvals_def)

lemma threshold_history:
  assumes "history d d'" "custody_ok d" "custody_ok d'" "threshold_of i d = Some T"
  shows "threshold_of i d' = Some T"
proof -
  have pre: "prefix xs ys \<Longrightarrow> find P xs = Some x \<Longrightarrow> find P ys = Some x" for P x and xs ys :: "'r list"
    by (induction xs arbitrary: ys) (auto simp: prefix_def)
  from assms(4) obtain r x wal v vlt where r: "find (\<lambda>r. srq_id r = i) (signing_requests d) = Some r"
    "srq_wallet_id r = Some x" "find (\<lambda>wal. wal_id wal = x) (wallets d) = Some wal" "wal_vault_id wal = Some v"
    "find (\<lambda>vlt. vlt_id vlt = v) (vaults d) = Some vlt" "T = vlt_threshold vlt"
    by (auto simp: threshold_of_def bind_eq_Some_conv)
  have ri: "r \<in> set (signing_requests d)" "srq_id r = i" using find_SomeD [OF r(1)] by auto
  then obtain r' where r': "r' \<in> set (signing_requests d')" "same_request r r'"
    using assms(1) by (auto simp: history_def)
  then have "find (\<lambda>r. srq_id r = i) (signing_requests d') = Some r'"
    using find_by_key [of srq_id "signing_requests d'" r'] assms(3) ri
    by (simp add: custody_ok_def signing_ok_def same_request_def)
  moreover have "srq_wallet_id r' = Some x" using r' r(2) by (simp add: same_request_def)
  moreover have "find (\<lambda>wal. wal_id wal = x) (wallets d') = Some wal" "find (\<lambda>vlt. vlt_id vlt = v) (vaults d') = Some vlt"
    using assms(1) r by (auto simp: history_def intro: pre)
  ultimately show ?thesis using r by (simp add: threshold_of_def)
qed

lemma vote_stored_steps:
  assumes "vote_stored j u yes d d'" "quorum_of i d = Some q"
  shows "\<exists>q'. quorum_of i d' = Some q' \<and> (quorum_step T)\<^sup>*\<^sup>* q q'"
proof (cases "i = j")
  case True
  with assms obtain "qm_phase q = Open" "u \<notin> qm_voters q" "quorum_of i d' = Some (vote u yes q)"
    by (auto simp: vote_stored_def)
  then show ?thesis by (intro exI [of _ "vote u yes q"]) (auto intro: cast)
next
  case False
  then show ?thesis using assms by (auto simp: vote_stored_def)
qed

lemma approve_run:
  assumes "system_ok w" "quorum_of i (db w) = Some q" "threshold_of i (db w) = Some T"
  shows "\<exists>q'. quorum_of i (db (snd (ApproveRequest e rid p w))) = Some q' \<and> (quorum_step T)\<^sup>*\<^sup>* q q'"
proof -
  obtain r t where run: "ApproveRequest e rid p w = (r, t)" by fastforce
  have w: "tx w = None" "custody_ok (db w)" using assms(1) by (auto simp: system_ok_def)
  note R = ApproveRequest_refines [OF run w]
  show ?thesis
  proof (cases "r = Ok ()")
    case False
    then show ?thesis using R assms(2) run vote_stored_steps by auto
  next
    case True
    with R obtain q0 T0 where q0: "quorum_of (canon e rid) (db w) = Some q0" "threshold_of (canon e rid) (db w) = Some T0"
      "approve T0 (canon e (ap_user_id p)) q0 \<noteq> None"
      "quorum_of (canon e rid) (db t) = approve T0 (canon e (ap_user_id p)) q0"
      "\<forall>j. j \<noteq> canon e rid \<longrightarrow> quorum_of j (db t) = quorum_of j (db w)" by auto
    show ?thesis
    proof (cases "i = canon e rid")
      case True
      with q0 assms(2,3) run show ?thesis by (auto intro: approve_steps)
    next
      case False
      with q0(5) assms(2) run show ?thesis by auto
    qed
  qed
qed

lemma reject_run:
  assumes "system_ok w" "quorum_of i (db w) = Some q"
  shows "\<exists>q'. quorum_of i (db (snd (RejectRequest e rid j w))) = Some q' \<and> (quorum_step T)\<^sup>*\<^sup>* q q'"
proof -
  obtain r t where run: "RejectRequest e rid j w = (r, t)" by fastforce
  have w: "tx w = None" "custody_ok (db w)" using assms(1) by (auto simp: system_ok_def)
  note R = RejectRequest_refines [OF run w]
  show ?thesis
  proof (cases "is_ok r")
    case False
    then show ?thesis using R assms(2) run vote_stored_steps by auto
  next
    case True
    with R obtain q0 where q0: "quorum_of (canon e rid) (db w) = Some q0" "reject (canon e j) q0 \<noteq> None"
      "quorum_of (canon e rid) (db t) = reject (canon e j) q0"
      "\<forall>k. k \<noteq> canon e rid \<longrightarrow> quorum_of k (db t) = quorum_of k (db w)" by auto
    show ?thesis
    proof (cases "i = canon e rid")
      case True
      with q0 assms(2) run reject_steps [OF _ quorum_of_wf [OF assms(2)]] show ?thesis by auto
    next
      case False
      with q0(4) assms(2) run show ?thesis by auto
    qed
  qed
qed

lemma same_quorum:
  assumes "keeps (on_dbs (\<lambda>d. quorum_of i d = Some q)) m" "tx w = None" "tx (snd (m w)) = None" "quorum_of i (db w) = Some q"
  shows "\<exists>q'. quorum_of i (db (snd (m w))) = Some q' \<and> (quorum_step T)\<^sup>*\<^sup>* q q'"
  using keeps_idle_db [OF assms] by blast

lemma same_quorum_read:
  assumes "frame db m" "quorum_of i (db w) = Some q"
  shows "\<exists>q'. quorum_of i (db (snd (m w))) = Some q' \<and> (quorum_step T)\<^sup>*\<^sup>* q q'"
  using assms by (auto simp: frame_def)

lemma quorum_system_step:
  assumes "system_step e c w t" "system_ok w" "quorum_of i (db w) = Some q" "threshold_of i (db w) = Some T"
  shows "\<exists>q'. quorum_of i (db t) = Some q' \<and> (quorum_step T)\<^sup>*\<^sup>* q q'"
proof -
  have tw: "tx w = None" using assms(2) by (simp add: system_ok_def)
  have tt: "tx t = None" using system_step_ok [OF assms(1,2)] by (simp add: system_ok_def)
  show ?thesis
    using assms(1) tt
    by (elim system_stepE; clarify)
      (erule same_quorum [OF _ tw _ assms(3), rotated];
         rule quorum_under_auth.service quorum_under_auth.reset quorum_under_custody.operations
       | rule same_quorum_read [OF _ assms(3)]; rule reads
       | rule approve_run [OF assms(2-4)] reject_run [OF assms(2,3)])+
qed

lemma quorum_run:
  assumes "(system_step e c)\<^sup>*\<^sup>* w t" "system_ok w" "quorum_of i (db w) = Some q" "threshold_of i (db w) = Some T"
  shows "\<exists>q'. quorum_of i (db t) = Some q' \<and> (quorum_step T)\<^sup>*\<^sup>* q q'"
  using assms
proof (induction rule: rtranclp_induct)
  case (step u v)
  then obtain q' where q': "quorum_of i (db u) = Some q'" "(quorum_step T)\<^sup>*\<^sup>* q q'" by auto
  have u: "system_ok u" "history (db w) (db u)" using system_reachable_ok [OF step(1,4)] by auto
  have "threshold_of i (db u) = Some T"
    by (rule threshold_history [OF u(2) _ _ step(6)]) (use u(1) step(4) in \<open>auto simp: system_ok_def\<close>)
  from quorum_system_step [OF step(2) u(1) q'(1) this] q'(2) show ?case by (meson rtranclp_trans)
qed auto

section \<open>Concurrent decisions\<close>

text \<open>
  The statements of \<open>ApproveRequest\<close> are not in one transaction, so other requests are served between
  them.  Its last part, after the request has been loaded and the caller has not been found among the
  voters, stores the approval and compares the votes with the threshold; the status is not read again.
\<close>

definition store_and_check :: "env \<Rightarrow> string \<Rightarrow> approval_params \<Rightarrow> loaded_request \<Rightarrow> (world, unit) prog" where
  "store_and_check e requestID params ld =
     bindP (uuid_New e) (\<lambda>i.
       thenP (approval_insert e Pool (new_approval i requestID (ap_user_id params) ''approve'' (Some (marshal_params params))))
         (check_threshold e requestID ld))"

lemma ApproveRequest_parts:
  "ApproveRequest e requestID params =
     bindP (wrapP ''request not found'' (load_request e requestID)) (\<lambda>ld.
     if string_of (srq_status (ld_request ld)) \<noteq> ''pending'' then
       errP (ErrPlain (''request is not pending (status: '' @ string_of (srq_status (ld_request ld)) @ '')''))
     else bindP (user_approved e requestID (ap_user_id params)) (\<lambda>exists.
     if exists then errP (ErrPlain ''user already approved'') else store_and_check e requestID params ld))"
  unfolding ApproveRequest_def store_and_check_def by (rule refl)

lemma store_and_check_Ok:
  assumes run: "store_and_check e rid p ld w = (Ok (), t)" and "tx w = None"
  shows "\<exists>a x. check_threshold e rid ld x = (Ok (), t) \<and> tx x = None \<and> db x = (db w)\<lparr>approvals := approvals (db w) @ [a]\<rparr> \<and>
    sign_calls x = sign_calls w \<and> apv_request_id a = Some (canon e rid) \<and> apv_user_id a = Some (canon e (ap_user_id p)) \<and>
    apv_action a = ''approve''"
proof -
  from run obtain a x where
    ins: "approval_insert e Pool (new_approval (env_uuid e (clk w)) rid (ap_user_id p) ''approve'' (Some (marshal_params p))) (tick w) = (Ok a, x)"
    and chk: "check_threshold e rid ld x = (Ok (), t)"
    by (auto simp: store_and_check_def outcome_simps uuid_New_iff)
  from approval_insert_Ok [OF ins] frameD [OF frame_sign_signing(4) ins] chk assms(2) show ?thesis
    by (intro exI [of _ a] exI [of _ x]) simp
qed

text \<open>
  C18: a rejection does not stop an approval that is already under way.  If a request was loaded by
  \<open>ApproveRequest\<close> while it was pending, somebody else's \<open>RejectRequest\<close> then closes it, and the votes in
  favour reach the threshold with the caller's, then a normal return of \<open>ApproveRequest\<close> means that the
  MPC infrastructure has signed and that the closed request is now a completed one: a transition the
  quorum machine does not have.
\<close>

theorem late_approval_overrides_rejection:
  assumes ok: "custody_ok (db w0)" and idle: "tx w0 = None"
    and loaded: "load_request e rid w0 = (Ok ld, w1)" and pend: "srq_status (ld_request ld) = Some ''pending''"
    and checked: "user_approved e rid (ap_user_id p) w1 = (Ok False, w2)"
    and rejected: "RejectRequest e rid j w2 = (Ok (), w3)"
    and late: "store_and_check e rid p ld w3 = (Ok (), t)"
    and quorum: "threshold_of (canon e rid) (db w0) = Some T" "T \<le> int (length (request_approvals (canon e rid) (db w0))) + 1"
  shows "\<exists>q q'. quorum_of (canon e rid) (db w3) = Some q \<and> qm_phase q = Closed \<and>
    quorum_of (canon e rid) (db t) = Some q' \<and> qm_phase q' = Signed \<and> \<not> (quorum_step T)\<^sup>*\<^sup>* q q' \<and>
    (\<exists>call. sign_calls t = sign_calls w3 @ [call])"
proof -
  let ?i = "canon e rid"
  note L = load_request_Ok [OF loaded]
  have w2: "db w2 = db w0" "tx w2 = None"
    using checked L idle by (auto simp: user_approved_def wrapP_Ok_iff query_Ok_iff)
  from RejectRequest_refines [OF rejected w2(2)] ok w2(1) obtain q where
    q: "quorum_of ?i (db w3) = Some q" "qm_phase q = Closed" by (auto simp: reject_def split: if_splits)
  from RejectRequest_Ok_db [OF rejected w2(2)] obtain req b now where
    w3: "db w3 = (db w0)\<lparr>approvals := approvals (db w0) @ [b], signing_requests := map (\<lambda>r. if srq_id r = srq_id req
        then write_request (req\<lparr>srq_status := Some ''rejected''\<rparr>) now r else r) (signing_requests (db w0))\<rparr>"
    and b: "apv_action b = ''reject''" unfolding w2(1) by blast
  have "tx w3 = None" using dvalid_always [OF dvalid_RejectRequest w2(2) _ rejected] ok w2(1) by simp
  from store_and_check_Ok [OF late this] obtain a x where
    x: "check_threshold e rid ld x = (Ok (), t)" "tx x = None" "db x = (db w3)\<lparr>approvals := approvals (db w3) @ [a]\<rparr>"
      "sign_calls x = sign_calls w3"
    and a: "apv_request_id a = Some ?i" "apv_user_id a = Some (canon e (ap_user_id p))" "apv_action a = ''approve''" by auto
  have "length (request_approvals ?i (db x)) = Suc (length (request_approvals ?i (db w0)))"
    using a b by (simp add: x(3) w3 request_approvals_def)
  moreover from check_threshold_Ok [OF x(1,2)] obtain vault where vault: "ld_vault ld = Some vault"
    and res: "if vlt_threshold vault \<le> int (length (request_approvals ?i (db x)))
      then \<exists>n call s now. sign_calls t = sign_calls x @ [call] \<and> env_sign e n call = Inr s \<and>
        db t = complete_request (ld_request ld) s now (db x)
      else db t = db x \<and> sign_calls t = sign_calls x" by auto
  moreover have "vlt_threshold vault = T" using threshold_of_loaded [OF ok loaded vault] quorum(1) by simp
  ultimately obtain call s now where call: "sign_calls t = sign_calls x @ [call]"
    and t: "db t = complete_request (ld_request ld) s now (db x)" using quorum(2) by auto
  have id: "srq_id ((ld_request ld)\<lparr>srq_status := Some ''completed'', srq_signature := Some s\<rparr>) = ?i" using L by simp
  have qx: "quorum_of ?i (db x) = Some (vote (canon e (ap_user_id p)) True q)"
    using quorum_of_approval [OF a(1,2), of ?i "db w3"] q(1) a(3) by (simp add: x(3))
  have "complete_request (ld_request ld) s now (db x) = (db x)\<lparr>signing_requests := map (\<lambda>r. if srq_id r = ?i
      then write_request ((ld_request ld)\<lparr>srq_status := Some ''completed'', srq_signature := Some s\<rparr>) now r else r)
      (signing_requests (db x))\<rparr>" using L by (simp add: complete_request_def)
  then have qt: "quorum_of ?i (db t) = Some (vote (canon e (ap_user_id p)) True q\<lparr>qm_phase := Signed\<rparr>)"
    using quorum_of_write [OF id, where i = ?i and d = "db x" and now = now] qx by (simp add: t phase_of_def)
  have "\<not> (quorum_step T)\<^sup>*\<^sup>* q (vote (canon e (ap_user_id p)) True q\<lparr>qm_phase := Signed\<rparr>)"
  proof
    assume "(quorum_step T)\<^sup>*\<^sup>* q (vote (canon e (ap_user_id p)) True q\<lparr>qm_phase := Signed\<rparr>)"
    then have "vote (canon e (ap_user_id p)) True q\<lparr>qm_phase := Signed\<rparr> = q" by (rule decided_stays) (simp add: q)
    then have "qm_phase q = Signed" by (metis quorum.select_convs(1) quorum.surjective quorum.update_convs(1))
    with q(2) show False by simp
  qed
  then show ?thesis using q qt call x(4) by auto
qed

text \<open>Carol rejects after alice's approval has been checked and before it is stored.\<close>

definition contested_world :: world where
  "contested_world = custody_world\<lparr>db := custody_db\<lparr>users := users custody_db @
     [alice\<lparr>usr_id := ''carol'', usr_username := Some ''carol''\<rparr>]\<rparr>\<rparr>"

definition contested_run :: "(loaded_request \<times> world \<times> world \<times> world \<times> world) option" where
  "contested_run = (case load_request example_env ''req'' contested_world of
      (Ok ld, w1) \<Rightarrow> (case user_approved example_env ''req'' ''alice'' w1 of
        (Ok False, w2) \<Rightarrow> (case RejectRequest example_env ''req'' ''carol'' w2 of
          (Ok _, w3) \<Rightarrow> (case store_and_check example_env ''req'' (example_params ''alice'') ld w3 of
            (Ok _, t) \<Rightarrow> Some (ld, w1, w2, w3, t)
          | _ \<Rightarrow> None)
        | _ \<Rightarrow> None)
      | _ \<Rightarrow> None)
    | _ \<Rightarrow> None)"

theorem late_approval_overrides_rejection_witness:
  "\<exists>ld w1 w2 w3 t q q'. contested_run = Some (ld, w1, w2, w3, t) \<and>
    quorum_of (canon example_env ''req'') (db w3) = Some q \<and> qm_phase q = Closed \<and>
    quorum_of (canon example_env ''req'') (db t) = Some q' \<and> qm_phase q' = Signed"
proof -
  have run: "(case contested_run of Some (ld, w1, w2, w3, t) \<Rightarrow> srq_status (ld_request ld) = Some ''pending'' | None \<Rightarrow> False) \<and>
      threshold_of (canon example_env ''req'') (db contested_world) = Some 2 \<and>
      length (request_approvals (canon example_env ''req'') (db contested_world)) = 1"
    by code_simp
  then obtain ld w1 w2 w3 t where r: "contested_run = Some (ld, w1, w2, w3, t)" "srq_status (ld_request ld) = Some ''pending''"
    by (auto split: option.splits)
  then have steps: "load_request example_env ''req'' contested_world = (Ok ld, w1)"
    "user_approved example_env ''req'' ''alice'' w1 = (Ok False, w2)"
    "RejectRequest example_env ''req'' ''carol'' w2 = (Ok (), w3)"
    "store_and_check example_env ''req'' (example_params ''alice'') ld w3 = (Ok (), t)"
    by (auto simp: contested_run_def split: prod.splits outcome.splits bool.splits)
  have ok: "custody_ok (db contested_world)"
    using example_custody_ok by (subst custody_ok_cong [of _ "db custody_world"]) (simp_all add: contested_world_def)
  have "ap_user_id (example_params ''alice'') = ''alice''" by (simp add: example_params_def)
  from late_approval_overrides_rejection [OF ok _ steps(1) r(2) _ steps(3,4), of 2] steps(2) run this show ?thesis
    using r(1) by (auto simp: contested_world_def custody_world_def example_world_def)
qed

text \<open>
  C17: the server refines the quorum machine.  From the freshly migrated database, whatever the server
  does, operation by operation and with any failures, every request whose wallet is in a vault moves
  by steps of the machine with the threshold of that vault: votes of different users while it is open,
  then at most one decision.
\<close>

theorem server_refines_quorum_machine:
  assumes "(system_step e c)\<^sup>*\<^sup>* (fresh_world cs) w" and "(system_step e c)\<^sup>*\<^sup>* w t"
    and "quorum_of i (db w) = Some q" and "threshold_of i (db w) = Some T"
  shows "\<exists>q'. quorum_of i (db t) = Some q' \<and> (quorum_step T)\<^sup>*\<^sup>* q q'"
proof -
  have "system_ok w" using system_reachable_ok [OF assms(1) system_ok_fresh] by simp
  from quorum_run [OF assms(2) this assms(3,4)] show ?thesis .
qed

definition asked_world :: world where
  "asked_world = ask_signature (open_wallet (open_vault (found_org
     (join_user ''bob'' (join_user ''alice'' (fresh_world (chains custody_db)))))))"

text \<open>Phase and threshold of the first request in the table.\<close>

definition first_request :: "database \<Rightarrow> phase option \<times> int option" where
  "first_request d = (case signing_requests d of
      r # _ \<Rightarrow> (map_option qm_phase (quorum_of (srq_id r) d), threshold_of (srq_id r) d)
    | [] \<Rightarrow> (None, None))"

theorem server_refines_quorum_machine_witness:
  "\<exists>i q q'. quorum_of i (db asked_world) = Some q \<and> qm_phase q = Open \<and>
    quorum_of i (db signed_world) = Some q' \<and> qm_phase q' = Signed \<and> (quorum_step 2)\<^sup>*\<^sup>* q q'"
proof -
  have "first_request (db asked_world) = (Some Open, Some 2)"
    by code_simp
  then obtain i q where q: "quorum_of i (db asked_world) = Some q" "qm_phase q = Open" "threshold_of i (db asked_world) = Some 2"
    by (auto simp: first_request_def split: list.splits)
  have start: "(system_step example_env example_auth_config)\<^sup>*\<^sup>* (fresh_world (chains custody_db)) asked_world"
    unfolding asked_world_def
    by ((rule rtranclp.rtrancl_into_rtrancl [rotated], rule run_steps)+) (rule rtranclp.rtrancl_refl)
  have rest: "(system_step example_env example_auth_config)\<^sup>*\<^sup>* asked_world signed_world"
    unfolding signed_world_def asked_world_def
    by (rule rtranclp.rtrancl_into_rtrancl [rotated], rule run_steps,
        rule rtranclp.rtrancl_into_rtrancl [rotated], rule run_steps) (rule rtranclp.rtrancl_refl)
  from server_refines_quorum_machine [OF start rest q(1,3)] obtain q' where
    q': "quorum_of i (db signed_world) = Some q'" "(quorum_step 2)\<^sup>*\<^sup>* q q'" by blast
  then have "qm_phase q' = Signed"
    using signed_world_signed by (auto simp: quorum_of_def phase_of_def split: if_splits)
  with q q' show ?thesis by blast
qed

end
