(* ===== verification/Auth_Middleware.thy ===== *)
theory Auth_Middleware
  imports Custody
begin

text \<open>
  internal/api/middleware/auth.go and internal/auth/context.go: the bearer token middleware.  A request
  is what the middleware reads of it: the lookups of a header, a form value and a query parameter
  (empty when absent).  The values the middleware stores in the request's context are a record that
  is handed to the next handler.  \<open>strfmt.IsUUID4\<close> is the parameter \<open>is_uuid4\<close>.
\<close>

section \<open>Requests and contexts\<close>

record http_request =
  rq_header :: "string \<Rightarrow> string"
  rq_form :: "string \<Rightarrow> string"
  rq_query :: "string \<Rightarrow> string"

record request_context =
  ctx_user :: "dto_user option"
  ctx_access_token :: "string option"

definition background :: request_context where
  "background = \<lparr>ctx_user = None, ctx_access_token = None\<rparr>"

record auth_result =
  ar_token :: string
  ar_user :: "dto_user option"
  ar_valid_until :: time

text \<open>\<open>result.User.ID\<close> is read for the logger, so a result without user panics.\<close>

definition EnrichContextWithCredentials :: "request_context \<Rightarrow> auth_result \<Rightarrow> ('s, request_context) prog" where
  "EnrichContextWithCredentials ctx res =
     bindP (deref (ar_user res)) (\<lambda>user. okP (ctx\<lparr>ctx_user := Some user, ctx_access_token := Some (ar_token res)\<rparr>))"

definition UserFromContext :: "request_context \<Rightarrow> dto_user option" where
  "UserFromContext ctx = ctx_user ctx"

definition AccessTokenFromContext :: "request_context \<Rightarrow> string option" where
  "AccessTokenFromContext ctx = ctx_access_token ctx"

definition ScopeApp :: string where
  "ScopeApp = ''app''"

section \<open>Modes\<close>

text \<open>The three enumerations are integers in Go; \<open>Unknown\<close> is any value without a name.\<close>

datatype auth_mode = AuthModeRequired | AuthModeSecure | AuthModeOptional | AuthModeTry | AuthModeNone
  | AuthModeUnknown int

definition auth_mode_String :: "auth_mode \<Rightarrow> string" where
  "auth_mode_String m = (case m of
      AuthModeRequired \<Rightarrow> ''required''
    | AuthModeSecure \<Rightarrow> ''secure''
    | AuthModeOptional \<Rightarrow> ''optional''
    | AuthModeTry \<Rightarrow> ''try''
    | AuthModeNone \<Rightarrow> ''none''
    | AuthModeUnknown n \<Rightarrow> ''unknown ('' @ show_int n @ '')'')"

datatype auth_failure_mode = AuthFailureModeUnauthorized | AuthFailureModeNotFound | AuthFailureModeUnknown int

definition auth_failure_mode_String :: "auth_failure_mode \<Rightarrow> string" where
  "auth_failure_mode_String m = (case m of
      AuthFailureModeUnauthorized \<Rightarrow> ''unauthorized''
    | AuthFailureModeNotFound \<Rightarrow> ''not_found''
    | AuthFailureModeUnknown n \<Rightarrow> ''unknown ('' @ show_int n @ '')'')"

definition echo_ErrInternalServerError :: go_error where
  "echo_ErrInternalServerError = EchoHTTPError 500 (MsgString ''Internal Server Error'') None"

definition auth_failure_mode_Error :: "auth_failure_mode \<Rightarrow> go_error" where
  "auth_failure_mode_Error m = (case m of
      AuthFailureModeUnauthorized \<Rightarrow> echo_ErrUnauthorized
    | AuthFailureModeNotFound \<Rightarrow> echo_ErrNotFound
    | AuthFailureModeUnknown _ \<Rightarrow> echo_ErrInternalServerError)"

datatype auth_token_source = AuthTokenSourceHeader | AuthTokenSourceQuery | AuthTokenSourceForm
  | AuthTokenSourceUnknown int

definition auth_token_source_String :: "auth_token_source \<Rightarrow> string" where
  "auth_token_source_String s = (case s of
      AuthTokenSourceHeader \<Rightarrow> ''header''
    | AuthTokenSourceQuery \<Rightarrow> ''query''
    | AuthTokenSourceForm \<Rightarrow> ''form''
    | AuthTokenSourceUnknown n \<Rightarrow> ''unknown ('' @ show_int n @ '')'')"

text \<open>
  \<open>Extract\<close>: the token and whether one was given at all.  The byte after the scheme is skipped, not
  compared.
\<close>

definition strip_scheme :: "string \<Rightarrow> string \<Rightarrow> string \<times> bool" where
  "strip_scheme scheme token =
     (if length token = 0 then ([], False)
      else if length scheme = 0 then (token, True)
      else if length token < length scheme + 1 then ([], True)
      else if take (length scheme) token \<noteq> scheme then ([], True)
      else (drop (length scheme + 1) token, True))"

definition Extract :: "auth_token_source \<Rightarrow> http_request \<Rightarrow> string \<Rightarrow> string \<Rightarrow> string \<times> bool" where
  "Extract s req key scheme = (case s of
      AuthTokenSourceHeader \<Rightarrow> strip_scheme scheme (rq_header req key)
    | AuthTokenSourceForm \<Rightarrow> strip_scheme scheme (rq_form req key)
    | AuthTokenSourceQuery \<Rightarrow> strip_scheme scheme (rq_query req key)
    | AuthTokenSourceUnknown _ \<Rightarrow> ([], False))"

section \<open>Errors of the middleware\<close>

definition ErrBadRequestMalformedToken :: go_error where
  "ErrBadRequestMalformedToken = NewHTTPError 400 ''MALFORMED_TOKEN'' ''Auth token is malformed''"

definition ErrUnauthorizedLastAuthenticatedAtExceeded :: go_error where
  "ErrUnauthorizedLastAuthenticatedAtExceeded = NewHTTPError 401 ''LAST_AUTHENTICATED_AT_EXCEEDED''
     ''LastAuthenticatedAt timestamp exceeds threshold, re-authentication required''"

definition ErrForbiddenMissingScopes :: go_error where
  "ErrForbiddenMissingScopes = NewHTTPError 403 ''MISSING_SCOPES'' ''User is missing required scopes''"

definition ErrAuthTokenValidationFailed :: go_error where
  "ErrAuthTokenValidationFailed = ErrPlain ''auth token validation failed''"

section \<open>The default validator\<close>

text \<open>The token's row with its user and the user's profile, each loaded by a query of its own.\<close>

definition load_access_token ::
    "env \<Rightarrow> string \<Rightarrow> (world, access_token_row \<times> user_row option \<times> app_user_profile_row option) prog" where
  "load_access_token e token =
     bindP (one_with_user ''access_tokens'' e Pool access_tokens atk_token token (\<lambda>_. True) atk_user_id) (\<lambda>(t, u).
       (case u of
          None \<Rightarrow> okP (t, None, None)
        | Some user \<Rightarrow> bindP (wrapP ''models: failed to execute a one query for access_tokens''
              (wrapP ''failed to eager load AppUserProfile''
                (query e Pool (\<lambda>d. Inr (find (\<lambda>p. aup_user_id p = usr_id user) (app_user_profiles d))))))
            (\<lambda>profile. okP (t, Some user, profile))))"

definition DefaultAuthTokenValidator :: "env \<Rightarrow> string \<Rightarrow> (world, auth_result) prog" where
  "DefaultAuthTokenValidator e token =
     tryP (load_access_token e token) (\<lambda>res. case res of
        Inl x \<Rightarrow> if errors_is x ErrNoRows then errP ErrAuthTokenValidationFailed else errP echo_ErrInternalServerError
      | Inr (t, u, profile) \<Rightarrow> bindP (deref u) (\<lambda>user.
          okP \<lparr>ar_token = atk_token t, ar_user = Some (LocalUserToDTO user profile), ar_valid_until = atk_valid_until t\<rparr>))"

section \<open>The configuration\<close>

text \<open>
  \<open>AuthConfig\<close>: the server is the auth part of its configuration, a nil function is \<open>None\<close>.
\<close>

record auth_options =
  ao_server :: "auth_config option"
  ao_mode :: auth_mode
  ao_failure_mode :: auth_failure_mode
  ao_token_source :: auth_token_source
  ao_token_source_key :: string
  ao_scheme :: string
  ao_skipper :: "(http_request \<Rightarrow> bool) option"
  ao_format_validator :: "(string \<Rightarrow> bool) option"
  ao_token_validator :: "(string \<Rightarrow> (world, auth_result) prog) option"
  ao_scopes :: "string list"

definition DefaultAuthConfig :: "env \<Rightarrow> (string \<Rightarrow> bool) \<Rightarrow> auth_options" where
  "DefaultAuthConfig e is_uuid4 = \<lparr>ao_server = None, ao_mode = AuthModeRequired,
     ao_failure_mode = AuthFailureModeUnauthorized, ao_token_source = AuthTokenSourceHeader,
     ao_token_source_key = ''Authorization'', ao_scheme = ''Bearer'', ao_skipper = Some (\<lambda>_. False),
     ao_format_validator = Some is_uuid4, ao_token_validator = Some (DefaultAuthTokenValidator e),
     ao_scopes = [ScopeApp]\<rparr>"

text \<open>\<open>time.Since\<close>: the difference saturates at the ends of a 64 bit duration.\<close>

definition time_Sub :: "time \<Rightarrow> time \<Rightarrow> duration" where
  "time_Sub a b = max (- (2 ^ 63)) (min (2 ^ 63 - 1) (a - b))"

text \<open>
  Both sides are compared in seconds as floating point numbers in the code; the comparison is of
  the durations here, from which it differs by rounding only, for durations of months.
\<close>

definition CheckLastAuthenticatedAt :: "env \<Rightarrow> auth_config \<Rightarrow> auth_mode \<Rightarrow> dto_user \<Rightarrow> (world, bool) prog" where
  "CheckLastAuthenticatedAt e c mode user =
     (if mode \<noteq> AuthModeSecure then okP True
      else (case du_last_authenticated_at user of
        None \<Rightarrow> okP False
      | Some at \<Rightarrow> bindP (sys_now e) (\<lambda>now. okP (time_Sub now at \<le> ac_last_authenticated_at_threshold c))))"

definition CheckUserScopes :: "string list \<Rightarrow> dto_user \<Rightarrow> bool" where
  "CheckUserScopes scopes user =
     (if length scopes = 0 then True
      else if length (du_scopes user) = 0 then False
      else list_ex (\<lambda>scope. list_ex (\<lambda>userScope. scope = userScope) (du_scopes user)) scopes)"

section \<open>The middleware\<close>

text \<open>
  \<open>AuthWithConfig\<close> first completes the configuration (and panics without a server); the result is the
  configuration the returned handlers work with.
\<close>

record auth_runtime =
  rt_server :: auth_config
  rt_mode :: auth_mode
  rt_failure_mode :: auth_failure_mode
  rt_token_source :: auth_token_source
  rt_token_source_key :: string
  rt_scheme :: string
  rt_skipper :: "http_request \<Rightarrow> bool"
  rt_format_validator :: "string \<Rightarrow> bool"
  rt_token_validator :: "string \<Rightarrow> (world, auth_result) prog"
  rt_scopes :: "string list"

definition complete_options :: "env \<Rightarrow> (string \<Rightarrow> bool) \<Rightarrow> auth_options \<Rightarrow> auth_runtime outcome" where
  "complete_options e is_uuid4 config = (case ao_server config of
      None \<Rightarrow> Panic ''auth middleware: server is required''
    | Some s \<Rightarrow> Ok \<lparr>rt_server = s, rt_mode = ao_mode config, rt_failure_mode = ao_failure_mode config,
        rt_token_source = ao_token_source config,
        rt_token_source_key = (if length (ao_token_source_key config) = 0 then ''Authorization'' else ao_token_source_key config),
        rt_scheme = (if length (ao_scheme config) = 0 then ''Bearer'' else ao_scheme config),
        rt_skipper = (case ao_skipper config of None \<Rightarrow> (\<lambda>_. False) | Some f \<Rightarrow> f),
        rt_format_validator = (case ao_format_validator config of None \<Rightarrow> is_uuid4 | Some f \<Rightarrow> f),
        rt_token_validator = (case ao_token_validator config of None \<Rightarrow> DefaultAuthTokenValidator e | Some f \<Rightarrow> f),
        rt_scopes = ao_scopes config\<rparr>)"

text \<open>The last two checks, on the user of the context or of the token.\<close>

definition check_user :: "env \<Rightarrow> auth_runtime \<Rightarrow> dto_user \<Rightarrow> (world, 'a) prog \<Rightarrow> (world, 'a) prog" where
  "check_user e rt user rest =
     bindP (CheckLastAuthenticatedAt e (rt_server rt) (rt_mode rt) user) (\<lambda>recent.
       if \<not> recent then errP ErrUnauthorizedLastAuthenticatedAtExceeded
       else if \<not> CheckUserScopes (rt_scopes rt) user then errP ErrForbiddenMissingScopes
       else rest)"

definition auth_handler ::
    "env \<Rightarrow> auth_runtime \<Rightarrow> (request_context \<Rightarrow> (world, 'a) prog) \<Rightarrow> http_request \<Rightarrow> request_context \<Rightarrow> (world, 'a) prog" where
  "auth_handler e rt next req ctx =
     (if rt_mode rt = AuthModeNone then next ctx
      else if rt_skipper rt req then next ctx
      else (case UserFromContext ctx of
        Some user \<Rightarrow> check_user e rt user (next ctx)
      | None \<Rightarrow>
        (case Extract (rt_token_source rt) req (rt_token_source_key rt) (rt_scheme rt) of (token, exists) \<Rightarrow>
        if length token = 0 then
          (if rt_mode rt = AuthModeRequired \<or> rt_mode rt = AuthModeSecure \<or> exists \<and> rt_mode rt = AuthModeOptional
           then errP (auth_failure_mode_Error (rt_failure_mode rt)) else next ctx)
        else if \<not> rt_format_validator rt token then
          (if rt_mode rt = AuthModeRequired \<or> rt_mode rt = AuthModeSecure \<or> rt_mode rt = AuthModeOptional
           then errP ErrBadRequestMalformedToken else next ctx)
        else tryP (rt_token_validator rt token) (\<lambda>res. case res of
          Inl x \<Rightarrow>
            if errors_is x ErrAuthTokenValidationFailed then
              (if rt_mode rt = AuthModeTry then next ctx else errP (auth_failure_mode_Error (rt_failure_mode rt)))
            else errP echo_ErrInternalServerError
        | Inr res \<Rightarrow> bindP (deref (ar_user res)) (\<lambda>user.
            bindP (if ar_valid_until res = zero_time then okP False
                   else bindP (clock_now e) (\<lambda>now. okP (now > ar_valid_until res))) (\<lambda>expired.
            if expired then
              (if rt_mode rt = AuthModeTry then next ctx else errP (auth_failure_mode_Error (rt_failure_mode rt)))
            else if \<not> du_is_active user then errP ErrForbiddenUserDeactivated
            else check_user e rt user
              (bindP (EnrichContextWithCredentials ctx res) next)))))))"

definition AuthWithConfig ::
    "env \<Rightarrow> (string \<Rightarrow> bool) \<Rightarrow> auth_options \<Rightarrow>
     ((request_context \<Rightarrow> (world, 'a) prog) \<Rightarrow> http_request \<Rightarrow> request_context \<Rightarrow> (world, 'a) prog) outcome" where
  "AuthWithConfig e is_uuid4 config = (case complete_options e is_uuid4 config of
      Ok rt \<Rightarrow> Ok (auth_handler e rt)
    | Err x \<Rightarrow> Err x
    | Panic c \<Rightarrow> Panic c)"

definition Auth ::
    "env \<Rightarrow> (string \<Rightarrow> bool) \<Rightarrow> auth_config \<Rightarrow>
     ((request_context \<Rightarrow> (world, 'a) prog) \<Rightarrow> http_request \<Rightarrow> request_context \<Rightarrow> (world, 'a) prog) outcome" where
  "Auth e is_uuid4 s = AuthWithConfig e is_uuid4 ((DefaultAuthConfig e is_uuid4)\<lparr>ao_server := Some s\<rparr>)"

text \<open>What \<open>Auth(s)\<close> works with.\<close>

definition default_runtime :: "env \<Rightarrow> (string \<Rightarrow> bool) \<Rightarrow> auth_config \<Rightarrow> auth_runtime" where
  "default_runtime e is_uuid4 s = \<lparr>rt_server = s, rt_mode = AuthModeRequired,
     rt_failure_mode = AuthFailureModeUnauthorized, rt_token_source = AuthTokenSourceHeader,
     rt_token_source_key = ''Authorization'', rt_scheme = ''Bearer'', rt_skipper = (\<lambda>_. False),
     rt_format_validator = is_uuid4, rt_token_validator = DefaultAuthTokenValidator e, rt_scopes = [ScopeApp]\<rparr>"

lemma Auth_default: "Auth e is_uuid4 s = Ok (auth_handler e (default_runtime e is_uuid4 s))"
  by (simp add: Auth_def AuthWithConfig_def complete_options_def DefaultAuthConfig_def default_runtime_def)

section \<open>Admission\<close>

text \<open>
  The middleware decides on a context and then runs the next handler: it is the decision, taken with
  a next handler that returns the context, followed by the real one.
\<close>

definition admit :: "env \<Rightarrow> auth_runtime \<Rightarrow> http_request \<Rightarrow> request_context \<Rightarrow> (world, request_context) prog" where
  "admit e rt req ctx = auth_handler e rt okP req ctx"

lemma bindP_okP_left [simp]: "bindP (okP x) f = f x"
  by (simp add: bindP_def okP_def)

lemma bindP_errP_left [simp]: "bindP (errP x) f = errP x"
  by (simp add: bindP_def errP_def fun_eq_iff)

lemma bindP_panicP_left [simp]: "bindP (panicP x) f = panicP x"
  by (simp add: bindP_def panicP_def fun_eq_iff)

lemma bindP_assoc: "bindP (bindP m f) g = bindP m (\<lambda>x. bindP (f x) g)"
  by (auto simp: bindP_def fun_eq_iff split: prod.split outcome.split)

lemma bindP_tryP: "bindP (tryP m k) g = tryP m (\<lambda>r. bindP (k r) g)"
  by (auto simp: bindP_def tryP_def fun_eq_iff split: prod.split outcome.split)

lemma bindP_okP_right [simp]: "bindP m okP = m"
  by (auto simp: bindP_def okP_def fun_eq_iff split: prod.split outcome.split)

lemma bindP_branches:
  "bindP (if b then m else n) f = (if b then bindP m f else bindP n f)"
  "bindP (case x of None \<Rightarrow> m | Some y \<Rightarrow> g y) f = (case x of None \<Rightarrow> bindP m f | Some y \<Rightarrow> bindP (g y) f)"
  "bindP (case s of Inl y \<Rightarrow> h y | Inr z \<Rightarrow> k z) f = (case s of Inl y \<Rightarrow> bindP (h y) f | Inr z \<Rightarrow> bindP (k z) f)"
  "bindP (case p of (y, z) \<Rightarrow> q y z) f = (case p of (y, z) \<Rightarrow> bindP (q y z) f)"
  by (auto split: option.split sum.split prod.split)

lemma check_user_factor: "bindP (check_user e rt u m) next = check_user e rt u (bindP m next)"
  by (simp only: check_user_def bindP_assoc bindP_branches bindP_errP_left)

lemma auth_handler_factor: "auth_handler e rt next req ctx = bindP (admit e rt req ctx) next"
  by (simp only: admit_def auth_handler_def bindP_branches bindP_tryP bindP_assoc bindP_errP_left bindP_okP_left
      check_user_factor bindP_okP_right)

end
