(* ===== verification/Http_Errors.thy ===== *)
theory Http_Errors
  imports Auth_Data "HOL-Library.List_Lexorder" "HOL-Library.Char_ord"
begin

text \<open>
  internal/api/httperrors/*.go, internal/api/router/handlers.go, the schemas of the error bodies in
  internal/types and the validation part of internal/util/http.go: how an error a handler returns
  becomes the response the client sees.  The text of an \<open>echo.HTTPError\<close> and the checks of
  go-openapi are not under src/ and are parameters.
\<close>

section \<open>Constructors\<close>

text \<open>\<open>http.StatusText\<close>, for the codes that the server uses.\<close>

definition http_StatusText :: "int \<Rightarrow> string" where
  "http_StatusText c =
     (if c = 400 then ''Bad Request'' else if c = 401 then ''Unauthorized'' else if c = 403 then ''Forbidden''
      else if c = 404 then ''Not Found'' else if c = 405 then ''Method Not Allowed'' else if c = 409 then ''Conflict''
      else if c = 413 then ''Request Entity Too Large'' else if c = 415 then ''Unsupported Media Type''
      else if c = 429 then ''Too Many Requests'' else if c = 500 then ''Internal Server Error''
      else if c = 502 then ''Bad Gateway'' else if c = 503 then ''Service Unavailable''
      else if c = 504 then ''Gateway Timeout'' else [])"

definition NewHTTPValidationError :: "int \<Rightarrow> string \<Rightarrow> string \<Rightarrow> (string \<times> string \<times> string) list \<Rightarrow> go_error" where
  "NewHTTPValidationError c errorType title validationErrors =
     HTTPValidationError c errorType title [] validationErrors None []"

definition NewHTTPValidationErrorWithDetail ::
    "int \<Rightarrow> string \<Rightarrow> string \<Rightarrow> (string \<times> string \<times> string) list \<Rightarrow> string \<Rightarrow> go_error" where
  "NewHTTPValidationErrorWithDetail c errorType title validationErrors detail =
     HTTPValidationError c errorType title detail validationErrors None []"

definition NewFromEcho :: "go_error \<Rightarrow> go_error" where
  "NewFromEcho x = NewHTTPError (ee_code x) ''generic'' (http_StatusText (ee_code x))"

definition ErrBadRequestZeroFileSize :: go_error where
  "ErrBadRequestZeroFileSize = NewHTTPError 400 ''ZERO_FILE_SIZE'' ''File size of 0 is not supported.''"

definition ErrConflictPushToken :: go_error where
  "ErrConflictPushToken = NewHTTPError 409 ''PUSH_TOKEN_ALREADY_EXISTS'' ''The given token already exists.''"

definition ErrNotFoundOldPushToken :: go_error where
  "ErrNotFoundOldPushToken = NewHTTPError 404 ''OLD_PUSH_TOKEN_NOT_FOUND''
     ''The old push token does not exists. The new token was saved.''"

section \<open>Texts of errors\<close>

text \<open>\<open>", "\<close> between the parts: the loops that write the additional data and the validation errors.\<close>

definition additional_text :: "(string \<times> string) list \<Rightarrow> string" where
  "additional_text ad =
     (if length ad = 0 then []
      else ''. Additional: '' @ strings_Join (map (\<lambda>(k, v). k @ ''='' @ v) (sort_key fst ad)) '', '')"

definition validation_text :: "(string \<times> string \<times> string) list \<Rightarrow> string" where
  "validation_text es =
     '' - Validation: '' @ strings_Join (map (\<lambda>(k, i, m). k @ '' (in '' @ i @ ''): '' @ m) es) '', ''"

definition public_text :: "string \<Rightarrow> int \<Rightarrow> string \<Rightarrow> string \<Rightarrow> string \<Rightarrow> string option \<Rightarrow> (string \<times> string) list \<Rightarrow> string" where
  "public_text kind c ty title detail internal ad =
     kind @ '' '' @ show_int c @ '' ('' @ ty @ ''): '' @ title @
     (if length detail > 0 then '' - '' @ detail else []) @
     (case internal of None \<Rightarrow> [] | Some s \<Rightarrow> '', '' @ s) @ additional_text ad"

text \<open>The method \<open>Error\<close>; \<open>echo_Error\<close> is the one of \<open>echo.HTTPError\<close>.\<close>

fun error_Error :: "(int \<Rightarrow> echo_message \<Rightarrow> string option \<Rightarrow> string) \<Rightarrow> go_error \<Rightarrow> string" where
  "error_Error echo_Error (ErrPlain s) = s"
| "error_Error echo_Error (ErrWrap m e) = m @ '': '' @ error_Error echo_Error e"
| "error_Error echo_Error ErrNoRows = ''sql: no rows in result set''"
| "error_Error echo_Error ErrTxDone = ''sql: transaction has already been committed or rolled back''"
| "error_Error echo_Error (ErrDriver s) = s"
| "error_Error echo_Error (HTTPError c ty title detail internal ad) =
     public_text ''HTTPError'' c ty title detail
       (case internal of None \<Rightarrow> None | Some e \<Rightarrow> Some (error_Error echo_Error e)) ad"
| "error_Error echo_Error (HTTPValidationError c ty title detail es internal ad) =
     public_text ''HTTPValidationError'' c ty title detail
       (case internal of None \<Rightarrow> None | Some e \<Rightarrow> Some (error_Error echo_Error e)) ad @ validation_text es"
| "error_Error echo_Error (EchoHTTPError c m internal) =
     echo_Error c m (case internal of None \<Rightarrow> None | Some e \<Rightarrow> Some (error_Error echo_Error e))"

text \<open>The cases of internal/api/httperrors/error_test.go.\<close>

lemma error_texts:
  "error_Error echo_Error (NewHTTPError 404 ''generic'' (http_StatusText 404)) = ''HTTPError 404 (generic): Not Found''"
  "error_Error echo_Error (NewHTTPErrorWithDetail 404 ''generic'' (http_StatusText 404) ''ToS violation'') =
     ''HTTPError 404 (generic): Not Found - ToS violation''"
  "error_Error echo_Error (HTTPError 500 ''generic'' (http_StatusText 500) [] None [(''key2'', ''value2''), (''key1'', ''value1'')]) =
     ''HTTPError 500 (generic): Internal Server Error. Additional: key1=value1, key2=value2''"
  "error_Error echo_Error (NewHTTPValidationError 400 ''generic'' (http_StatusText 400)
       [(''test1'', ''body.test1'', ''ValidationError''), (''test2'', ''body.test2'', ''Validation Error'')]) =
     ''HTTPValidationError 400 (generic): Bad Request - Validation: test1 (in body.test1): ValidationError, test2 (in body.test2): Validation Error''"
  by code_simp+

section \<open>The error handler\<close>

text \<open>
  The body of an error response: the embedded \<open>types.PublicHTTPError\<close>, with the validation errors when
  it is an \<open>HTTPValidationError\<close>; \<open>Internal\<close> and \<open>AdditionalData\<close> have the JSON name \<open>-\<close>.
\<close>

record public_error =
  pe_code :: int
  pe_type :: string
  pe_title :: string
  pe_detail :: string
  pe_validation_errors :: "(string \<times> string \<times> string) list option"

definition is_HTTPError :: "go_error \<Rightarrow> bool" where
  "is_HTTPError x = (case x of HTTPError _ _ _ _ _ _ \<Rightarrow> True | _ \<Rightarrow> False)"

definition is_HTTPValidationError :: "go_error \<Rightarrow> bool" where
  "is_HTTPValidationError x = (case x of HTTPValidationError _ _ _ _ _ _ _ \<Rightarrow> True | _ \<Rightarrow> False)"

definition is_EchoHTTPError :: "go_error \<Rightarrow> bool" where
  "is_EchoHTTPError x = (case x of EchoHTTPError _ _ _ \<Rightarrow> True | _ \<Rightarrow> False)"

text \<open>What the handler assigns to a matched error with status 500 when details are hidden.\<close>

definition hide_details :: "(int \<Rightarrow> echo_message \<Rightarrow> string option \<Rightarrow> string) \<Rightarrow> go_error \<Rightarrow> go_error" where
  "hide_details echo_Error x =
     (let internal = (\<lambda>i. if i = None then Some (ErrPlain (''internal error: '' @ error_Error echo_Error x)) else i) in
      case x of
        HTTPError c ty title detail i ad \<Rightarrow> HTTPError c ty (http_StatusText 500) detail (internal i) ad
      | HTTPValidationError c ty title detail es i ad \<Rightarrow>
          HTTPValidationError c ty (http_StatusText 500) detail es (internal i) ad
      | EchoHTTPError c m i \<Rightarrow> EchoHTTPError c m (internal i)
      | _ \<Rightarrow> x)"

text \<open>
  The message of an echo error.  For a message that is not a string the code marshals the (empty) string
  \<open>msg\<close> and then tests the wrong error variable, so it always takes the failure branch.
\<close>

definition echo_title :: "echo_message \<Rightarrow> string" where
  "echo_title m = (case m of MsgString s \<Rightarrow> s | MsgOther \<Rightarrow> ''failed to marshal HTTP error message: <nil>'')"

text \<open>\<open>resultErr\<close>, with \<open>hide\<close> for \<open>HideInternalServerErrorDetails\<close>.\<close>

definition result_error :: "(int \<Rightarrow> echo_message \<Rightarrow> string option \<Rightarrow> string) \<Rightarrow> bool \<Rightarrow> go_error \<Rightarrow> go_error" where
  "result_error echo_Error hide err = (case errors_as is_HTTPError err of
      Some x \<Rightarrow> if he_code x = 500 \<and> hide then hide_details echo_Error x else x
    | None \<Rightarrow> (case errors_as is_HTTPValidationError err of
        Some x \<Rightarrow> if hv_code x = 500 \<and> hide then hide_details echo_Error x else x
      | None \<Rightarrow> (case errors_as is_EchoHTTPError err of
          Some x \<Rightarrow>
            if ee_code x = 500 \<and> hide
            then HTTPError (ee_code x) ''generic'' (http_StatusText 500) [] (ee_internal (hide_details echo_Error x)) []
            else HTTPError (ee_code x) ''generic'' (echo_title (ee_message x)) [] (ee_internal x) []
        | None \<Rightarrow>
            if hide then HTTPError 500 ''generic'' (http_StatusText 500) [] (Some err) []
            else HTTPError 500 ''generic'' (error_Error echo_Error err) [] None [])))"

definition public_part :: "go_error \<Rightarrow> public_error" where
  "public_part x = (case x of
      HTTPError c ty title detail i ad \<Rightarrow>
        \<lparr>pe_code = c, pe_type = ty, pe_title = title, pe_detail = detail, pe_validation_errors = None\<rparr>
    | HTTPValidationError c ty title detail es i ad \<Rightarrow>
        \<lparr>pe_code = c, pe_type = ty, pe_title = title, pe_detail = detail, pe_validation_errors = Some es\<rparr>
    | _ \<Rightarrow> \<lparr>pe_code = 0, pe_type = [], pe_title = [], pe_detail = [], pe_validation_errors = None\<rparr>)"

text \<open>
  The response: its status and, unless the request was a \<open>HEAD\<close>, its body; nothing is written when the
  handler has already committed a response.
\<close>

definition HTTPErrorHandlerWithConfig ::
    "(int \<Rightarrow> echo_message \<Rightarrow> string option \<Rightarrow> string) \<Rightarrow> bool \<Rightarrow> go_error \<Rightarrow> bool \<Rightarrow> string \<Rightarrow>
     (int \<times> public_error option) option" where
  "HTTPErrorHandlerWithConfig echo_Error hide err committed httpMethod =
     (let resultErr = public_part (result_error echo_Error hide err) in
      if committed then None
      else if httpMethod = ''HEAD'' then Some (pe_code resultErr, None)
      else Some (pe_code resultErr, Some resultErr))"

definition HTTPErrorHandler ::
    "(int \<Rightarrow> echo_message \<Rightarrow> string option \<Rightarrow> string) \<Rightarrow> go_error \<Rightarrow> bool \<Rightarrow> string \<Rightarrow> (int \<times> public_error option) option" where
  "HTTPErrorHandler echo_Error = HTTPErrorHandlerWithConfig echo_Error True"

text \<open>
  The handler writes through the pointer that \<open>errors.As\<close> found, and the errors of the server are
  package variables: the next request that fails with the same variable finds it changed.
\<close>

fun map_first :: "(go_error \<Rightarrow> bool) \<Rightarrow> (go_error \<Rightarrow> go_error) \<Rightarrow> go_error \<Rightarrow> go_error" where
  "map_first P f (ErrWrap m e) = (if P (ErrWrap m e) then f (ErrWrap m e) else ErrWrap m (map_first P f e))"
| "map_first P f (EchoHTTPError c m (Some e)) =
     (if P (EchoHTTPError c m (Some e)) then f (EchoHTTPError c m (Some e)) else EchoHTTPError c m (Some (map_first P f e)))"
| "map_first P f e = (if P e then f e else e)"

definition error_code :: "go_error \<Rightarrow> int" where
  "error_code x = (case x of HTTPError c _ _ _ _ _ \<Rightarrow> c | HTTPValidationError c _ _ _ _ _ _ \<Rightarrow> c
     | EchoHTTPError c _ _ \<Rightarrow> c | _ \<Rightarrow> 0)"

definition handled_error :: "(int \<Rightarrow> echo_message \<Rightarrow> string option \<Rightarrow> string) \<Rightarrow> bool \<Rightarrow> go_error \<Rightarrow> go_error" where
  "handled_error echo_Error hide err =
     (let kind = (if errors_as is_HTTPError err \<noteq> None then is_HTTPError
                  else if errors_as is_HTTPValidationError err \<noteq> None then is_HTTPValidationError
                  else is_EchoHTTPError) in
      case errors_as kind err of
        None \<Rightarrow> err
      | Some x \<Rightarrow> if error_code x = 500 \<and> hide then map_first kind (hide_details echo_Error) err else err)"

section \<open>Validation against the schemas\<close>

definition PublicHTTPErrorType_enum :: "string list" where
  "PublicHTTPErrorType_enum = [''generic'', ''PUSH_TOKEN_ALREADY_EXISTS'', ''OLD_PUSH_TOKEN_NOT_FOUND'', ''ZERO_FILE_SIZE'',
     ''USER_DEACTIVATED'', ''INVALID_PASSWORD'', ''NOT_LOCAL_USER'', ''TOKEN_NOT_FOUND'', ''TOKEN_EXPIRED'',
     ''USER_ALREADY_EXISTS'', ''MALFORMED_TOKEN'', ''LAST_AUTHENTICATED_AT_EXCEEDED'', ''MISSING_SCOPES'']"

text \<open>
  \<open>Validate\<close> of a generated type returns the errors of its fields.  \<open>openapi\<close> stands for the checks of
  go-openapi: formats and lengths, and the text of the error for a field.
\<close>

datatype openapi_error = Composite "openapi_error list" | Validation string string string | OtherError go_error

record openapi =
  oa_format :: "string \<Rightarrow> string \<Rightarrow> bool"
  oa_min_length :: "int \<Rightarrow> string \<Rightarrow> bool"
  oa_max_length :: "int \<Rightarrow> string \<Rightarrow> bool"
  oa_message :: "string \<Rightarrow> string \<Rightarrow> string \<Rightarrow> string"

definition composite :: "openapi_error list \<Rightarrow> openapi_error option" where
  "composite res = (if length res > 0 then Some (Composite res) else None)"

definition field_error :: "openapi \<Rightarrow> bool \<Rightarrow> string \<Rightarrow> string \<Rightarrow> openapi_error list" where
  "field_error oa ok check name = (if ok then [] else [Validation name ''body'' (oa_message oa check name ''body'')])"

definition PublicHTTPError_Validate :: "openapi \<Rightarrow> public_error \<Rightarrow> openapi_error option" where
  "PublicHTTPError_Validate oa m = composite
     ((if pe_code m < 100 then field_error oa False ''minimum'' ''status''
       else field_error oa (pe_code m \<le> 599) ''maximum'' ''status'') @
      field_error oa (pe_type m \<in> set PublicHTTPErrorType_enum) ''enum'' ''type'')"

fun formatValidationErrors :: "openapi_error list \<Rightarrow> (string \<times> string \<times> string) list" where
  "formatValidationErrors [] = []"
| "formatValidationErrors (Composite xs # es) = formatValidationErrors xs @ formatValidationErrors es"
| "formatValidationErrors (Validation n i m # es) = (n, i, m) # formatValidationErrors es"
| "formatValidationErrors (OtherError _ # es) = formatValidationErrors es"

definition validatePayload :: "openapi_error option \<Rightarrow> go_error option" where
  "validatePayload res = (case res of
      None \<Rightarrow> None
    | Some (Composite xs) \<Rightarrow>
        Some (NewHTTPValidationError 400 ''generic'' (http_StatusText 400) (formatValidationErrors xs))
    | Some (Validation n i m) \<Rightarrow>
        Some (NewHTTPValidationError 400 ''generic'' (http_StatusText 400) [(n, i, m)])
    | Some (OtherError x) \<Rightarrow> Some (ErrWrap ''failed to validate payload'' x))"

text \<open>The response is written when it is valid; failures of the connection are left out.\<close>

definition ValidateAndReturn :: "int \<Rightarrow> 'v \<Rightarrow> openapi_error option \<Rightarrow> ('s, int \<times> 'v) prog" where
  "ValidateAndReturn c v res = (case validatePayload res of None \<Rightarrow> okP (c, v) | Some x \<Rightarrow> errP x)"

end
