(* ===== verification/Payloads.thy ===== *)
theory Payloads
  imports Http_Errors
begin

text \<open>
  The request and response bodies of internal/types with their generated \<open>Validate\<close> methods, and
  \<open>util.BindAndValidateBody\<close> (internal/util/http.go).  A pointer field is an option, a field with
  \<open>omitempty\<close> a value.  Every method checks its fields in order and collects the first failing check of
  each.
\<close>

section \<open>Checks\<close>

fun first_failure :: "openapi \<Rightarrow> string \<Rightarrow> (string \<times> bool) list \<Rightarrow> openapi_error list" where
  "first_failure oa name [] = []"
| "first_failure oa name ((check, ok) # cs) = (if ok then first_failure oa name cs else field_error oa False check name)"

text \<open>\<open>swag.StringValue\<close>; a check that dereferences the pointer comes after \<open>Required\<close>.\<close>

definition StringValue :: "string option \<Rightarrow> string" where
  "StringValue x = (case x of None \<Rightarrow> [] | Some s \<Rightarrow> s)"

definition password_checks :: "openapi \<Rightarrow> string option \<Rightarrow> (string \<times> bool) list" where
  "password_checks oa x = [(''required'', x \<noteq> None), (''minLength'', oa_min_length oa 1 (StringValue x)),
     (''maxLength'', oa_max_length oa 500 (StringValue x))]"

definition username_checks :: "openapi \<Rightarrow> string option \<Rightarrow> (string \<times> bool) list" where
  "username_checks oa x = [(''required'', x \<noteq> None), (''minLength'', oa_min_length oa 1 (StringValue x)),
     (''maxLength'', oa_max_length oa 255 (StringValue x)), (''format'', oa_format oa ''email'' (StringValue x))]"

definition uuid4_checks :: "openapi \<Rightarrow> string option \<Rightarrow> (string \<times> bool) list" where
  "uuid4_checks oa x = [(''required'', x \<noteq> None), (''format'', oa_format oa ''uuid4'' (StringValue x))]"

section \<open>Bodies of the authentication routes\<close>

record post_login_payload =
  plp_password :: "string option"
  plp_username :: "string option"

definition PostLoginPayload_Validate :: "openapi \<Rightarrow> post_login_payload \<Rightarrow> openapi_error option" where
  "PostLoginPayload_Validate oa m = composite
     (first_failure oa ''password'' (password_checks oa (plp_password m)) @
      first_failure oa ''username'' (username_checks oa (plp_username m)))"

record post_register_payload =
  prp_password :: "string option"
  prp_username :: "string option"

definition PostRegisterPayload_Validate :: "openapi \<Rightarrow> post_register_payload \<Rightarrow> openapi_error option" where
  "PostRegisterPayload_Validate oa m = composite
     (first_failure oa ''password'' (password_checks oa (prp_password m)) @
      first_failure oa ''username'' (username_checks oa (prp_username m)))"

record post_forgot_password_payload =
  pfp_username :: "string option"

definition PostForgotPasswordPayload_Validate :: "openapi \<Rightarrow> post_forgot_password_payload \<Rightarrow> openapi_error option" where
  "PostForgotPasswordPayload_Validate oa m =
     composite (first_failure oa ''username'' (username_checks oa (pfp_username m)))"

record post_forgot_password_complete_payload =
  pfc_password :: "string option"
  pfc_token :: "string option"

definition PostForgotPasswordCompletePayload_Validate ::
    "openapi \<Rightarrow> post_forgot_password_complete_payload \<Rightarrow> openapi_error option" where
  "PostForgotPasswordCompletePayload_Validate oa m = composite
     (first_failure oa ''password'' (password_checks oa (pfc_password m)) @
      first_failure oa ''token'' (uuid4_checks oa (pfc_token m)))"

record post_change_password_payload =
  pcp_current_password :: "string option"
  pcp_new_password :: "string option"

definition PostChangePasswordPayload_Validate :: "openapi \<Rightarrow> post_change_password_payload \<Rightarrow> openapi_error option" where
  "PostChangePasswordPayload_Validate oa m = composite
     (first_failure oa ''currentPassword'' (password_checks oa (pcp_current_password m)) @
      first_failure oa ''newPassword'' (password_checks oa (pcp_new_password m)))"

record post_refresh_payload =
  prf_refresh_token :: "string option"

definition PostRefreshPayload_Validate :: "openapi \<Rightarrow> post_refresh_payload \<Rightarrow> openapi_error option" where
  "PostRefreshPayload_Validate oa m =
     composite (first_failure oa ''refresh_token'' (uuid4_checks oa (prf_refresh_token m)))"

record post_logout_payload =
  plo_refresh_token :: string

definition PostLogoutPayload_Validate :: "openapi \<Rightarrow> post_logout_payload \<Rightarrow> openapi_error option" where
  "PostLogoutPayload_Validate oa m = composite
     (if plo_refresh_token m = [] then []
      else first_failure oa ''refresh_token'' [(''format'', oa_format oa ''uuid4'' (plo_refresh_token m))])"

record delete_user_account_payload =
  dap_current_password :: "string option"

definition DeleteUserAccountPayload_Validate :: "openapi \<Rightarrow> delete_user_account_payload \<Rightarrow> openapi_error option" where
  "DeleteUserAccountPayload_Validate oa m =
     composite (first_failure oa ''currentPassword'' (password_checks oa (dap_current_password m)))"

text \<open>The path parameter of the confirmation route.\<close>

definition PostCompleteRegisterRouteParams_Validate :: "openapi \<Rightarrow> string \<Rightarrow> openapi_error option" where
  "PostCompleteRegisterRouteParams_Validate oa registrationToken = composite
     (if oa_format oa ''uuid4'' registrationToken then []
      else [Validation ''registrationToken'' ''path'' (oa_message oa ''format'' ''registrationToken'' ''path'')])"

text \<open>The query parameter of the page behind the confirmation mail.\<close>

definition GetCompleteRegisterRouteParams_Validate :: "openapi \<Rightarrow> string \<Rightarrow> openapi_error option" where
  "GetCompleteRegisterRouteParams_Validate oa token = composite
     ((if token \<noteq> [] then [] else [Validation ''token'' ''query'' (oa_message oa ''required'' ''token'' ''query'')]) @
      (if oa_format oa ''uuid4'' token then []
       else [Validation ''token'' ''query'' (oa_message oa ''format'' ''token'' ''query'')]))"

section \<open>Bodies of the other routes\<close>

record put_update_push_token_payload =
  pup_new_token :: "string option"
  pup_old_token :: "string option"
  pup_provider :: "string option"

definition PutUpdatePushTokenPayload_Validate :: "openapi \<Rightarrow> put_update_push_token_payload \<Rightarrow> openapi_error option" where
  "PutUpdatePushTokenPayload_Validate oa m = composite
     (first_failure oa ''newToken'' [(''required'', pup_new_token m \<noteq> None), (''maxLength'', oa_max_length oa 500 (StringValue (pup_new_token m)))] @
      (if pup_old_token m = None then []
       else first_failure oa ''oldToken'' [(''maxLength'', oa_max_length oa 500 (StringValue (pup_old_token m)))]) @
      first_failure oa ''provider'' [(''required'', pup_provider m \<noteq> None), (''maxLength'', oa_max_length oa 500 (StringValue (pup_provider m)))])"

record create_vault_payload =
  cvp_chains :: "string list"
  cvp_name :: "string option"

definition CreateVaultPayload_Validate :: "openapi \<Rightarrow> create_vault_payload \<Rightarrow> openapi_error option" where
  "CreateVaultPayload_Validate oa m = composite (first_failure oa ''name'' [(''required'', cvp_name m \<noteq> None)])"

record create_wallet_payload =
  cwp_chain_id :: "string option"

definition CreateWalletPayload_Validate :: "openapi \<Rightarrow> create_wallet_payload \<Rightarrow> openapi_error option" where
  "CreateWalletPayload_Validate oa m = composite (first_failure oa ''chain_id'' [(''required'', cwp_chain_id m \<noteq> None)])"

record create_organization_payload =
  cop_name :: "string option"

definition CreateOrganizationPayload_Validate :: "openapi \<Rightarrow> create_organization_payload \<Rightarrow> openapi_error option" where
  "CreateOrganizationPayload_Validate oa m = composite (first_failure oa ''name'' [(''required'', cop_name m \<noteq> None)])"

record add_organization_member_payload =
  aom_user_id :: "string option"
  aom_role :: "string option"

definition AddOrganizationMemberPayload_Validate :: "openapi \<Rightarrow> add_organization_member_payload \<Rightarrow> openapi_error option" where
  "AddOrganizationMemberPayload_Validate oa m = composite
     (first_failure oa ''user_id'' [(''required'', aom_user_id m \<noteq> None)] @
      first_failure oa ''role'' [(''required'', aom_role m \<noteq> None)])"

record create_signing_request_payload =
  csp_amount :: "string option"
  csp_note :: string
  csp_to_address :: "string option"
  csp_tx_data :: string
  csp_wallet_id :: "string option"

definition CreateSigningRequestPayload_Validate :: "openapi \<Rightarrow> create_signing_request_payload \<Rightarrow> openapi_error option" where
  "CreateSigningRequestPayload_Validate oa m = composite
     (first_failure oa ''amount'' [(''required'', csp_amount m \<noteq> None)] @
      first_failure oa ''to_address'' [(''required'', csp_to_address m \<noteq> None)] @
      first_failure oa ''wallet_id'' (uuid4_checks oa (csp_wallet_id m)))"

record approve_signing_request_payload =
  asp_action :: "string option"
  asp_authenticator_data :: string
  asp_client_data_json :: string
  asp_comment :: string
  asp_credential_id :: string
  asp_signature :: string

definition ApproveSigningRequestPayload_Validate :: "openapi \<Rightarrow> approve_signing_request_payload \<Rightarrow> openapi_error option" where
  "ApproveSigningRequestPayload_Validate oa m = composite
     (first_failure oa ''action'' [(''required'', asp_action m \<noteq> None),
        (''enum'', StringValue (asp_action m) \<in> {''approve'', ''reject''})])"

section \<open>Responses\<close>

record post_login_response =
  plr_access_token :: string
  plr_expires_in :: int
  plr_refresh_token :: string
  plr_token_type :: string

text \<open>All fields are set by \<open>LoginResult.ToTypes\<close>, so only the formats can fail.\<close>

definition LoginResult_ToTypes :: "login_result \<Rightarrow> post_login_response" where
  "LoginResult_ToTypes l = \<lparr>plr_access_token = lr_access_token l, plr_expires_in = lr_expires_in l,
     plr_refresh_token = lr_refresh_token l, plr_token_type = lr_token_type l\<rparr>"

definition PostLoginResponse_Validate :: "openapi \<Rightarrow> post_login_response \<Rightarrow> openapi_error option" where
  "PostLoginResponse_Validate oa m = composite
     (first_failure oa ''access_token'' [(''format'', oa_format oa ''uuid4'' (plr_access_token m))] @
      first_failure oa ''refresh_token'' [(''format'', oa_format oa ''uuid4'' (plr_refresh_token m))])"

record get_user_info_response =
  gui_email :: string
  gui_scopes :: "string list"
  gui_sub :: string
  gui_updated_at :: int

text \<open>\<open>LastUpdatedAt().Unix()\<close>: whole seconds, rounded down.\<close>

definition User_ToTypes :: "dto_user \<Rightarrow> get_user_info_response" where
  "User_ToTypes u = \<lparr>gui_email = StringValue (du_username u), gui_scopes = du_scopes u, gui_sub = du_id u,
     gui_updated_at = LastUpdatedAt u div second\<rparr>"

definition GetUserInfoResponse_Validate :: "openapi \<Rightarrow> get_user_info_response \<Rightarrow> openapi_error option" where
  "GetUserInfoResponse_Validate oa m = composite
     ((if gui_email m = [] then []
       else first_failure oa ''email'' [(''maxLength'', oa_max_length oa 255 (gui_email m)),
         (''format'', oa_format oa ''email'' (gui_email m))]) @
      (case find (\<lambda>(i, s). s \<notin> {''app'', ''cms''}) (enumerate 0 (gui_scopes m)) of
         None \<Rightarrow> []
       | Some (i, _) \<Rightarrow> field_error oa False ''enum'' (''scopes.'' @ show_nat i)))"

section \<open>Binding\<close>

text \<open>\<open>bound\<close> is what the binder of echo makes of the request's body.\<close>

definition BindAndValidateBody ::
    "(openapi \<Rightarrow> 'v \<Rightarrow> openapi_error option) \<Rightarrow> openapi \<Rightarrow> go_error + 'v \<Rightarrow> ('s, 'v) prog" where
  "BindAndValidateBody Validate oa bound = (case bound of
      Inl x \<Rightarrow> errP (ErrWrap ''failed to bind body'' x)
    | Inr v \<Rightarrow> (case validatePayload (Validate oa v) of None \<Rightarrow> okP v | Some x \<Rightarrow> errP x))"

end
