(* ===== verification/Auth_Handlers.thy ===== *)
theory Auth_Handlers
  imports Auth_Middleware Payloads
begin

text \<open>
  internal/mailer/mailer.go, internal/util/url/url.go and internal/api/handlers/auth/*.go: the routes
  under /api/v1/auth.  The group has no authentication middleware (internal/api/router/router.go), so
  what the handlers read from the request's context is what a client without a guard has: nothing.

  A handler is given what the binder made of the body, and returns the status and the body of its
  response, or an error for the error handler.
\<close>

section \<open>Links\<close>

text \<open>
  A parsed URL is its path, its raw query and the rest.  \<open>urls\<close> holds the functions of net/url and
  path: parsing, the query as a map, its encoding, printing, and \<open>path.Join\<close>.
\<close>

record url =
  ur_rest :: string
  ur_path :: string
  ur_raw_query :: string

record urls =
  ul_parse :: "string \<Rightarrow> go_error + url"
  ul_query :: "string \<Rightarrow> string \<Rightarrow> string list"
  ul_encode :: "(string \<Rightarrow> string list) \<Rightarrow> string"
  ul_string :: "url \<Rightarrow> string"
  ul_join :: "string list \<Rightarrow> string"

definition accountConfirmationPath :: string where
  "accountConfirmationPath = ''/api/v1/auth/register''"

definition with_token :: "urls \<Rightarrow> string \<Rightarrow> url \<Rightarrow> url" where
  "with_token ul token u = u\<lparr>ur_raw_query := ul_encode ul ((ul_query ul (ur_raw_query u))(''token'' := [token]))\<rparr>"

definition PasswordResetDeeplinkURL :: "urls \<Rightarrow> string \<Rightarrow> string \<Rightarrow> string \<Rightarrow> go_error + url" where
  "PasswordResetDeeplinkURL ul baseURL endpoint token = (case ul_parse ul baseURL of
      Inl x \<Rightarrow> Inl (ErrWrap ''failed to parse the base URL'' x)
    | Inr u \<Rightarrow> Inr (with_token ul token (u\<lparr>ur_path := ul_join ul [ur_path u, endpoint]\<rparr>)))"

definition ConfirmationDeeplinkURL :: "urls \<Rightarrow> string \<Rightarrow> string \<Rightarrow> go_error + url" where
  "ConfirmationDeeplinkURL ul baseURL token = (case ul_parse ul baseURL of
      Inl x \<Rightarrow> Inl (ErrWrap ''failed to parse the base URL'' x)
    | Inr u \<Rightarrow> Inr (with_token ul token (u\<lparr>ur_path := ul_join ul [ur_path u, accountConfirmationPath]\<rparr>)))"

definition ConfirmationRequestURL :: "urls \<Rightarrow> string \<Rightarrow> string \<Rightarrow> go_error + url" where
  "ConfirmationRequestURL ul baseURL token = (case ul_parse ul baseURL of
      Inl x \<Rightarrow> Inl (ErrWrap ''failed to parse the base URL'' x)
    | Inr u \<Rightarrow> Inr (u\<lparr>ur_path := ul_join ul [ur_path u, accountConfirmationPath, token]\<rparr>))"

section \<open>Mails\<close>

definition ErrEmailTemplateNotFound :: go_error where
  "ErrEmailTemplateNotFound = ErrPlain ''email template not found''"

text \<open>
  The templates by name, as functions of their data (html/template); \<open>ml_transport\<close> is the answer of
  the transport, by the number of the interaction.  Mails handed to the transport are kept in \<open>mails\<close>.
\<close>

record mailer =
  ml_default_sender :: string
  ml_send :: bool
  ml_templates :: "string \<Rightarrow> ((string \<times> string) list \<Rightarrow> go_error + string) option"
  ml_transport :: "nat \<Rightarrow> mail \<Rightarrow> go_error option"

definition Transport_Send :: "mailer \<Rightarrow> mail \<Rightarrow> (world, unit) prog" where
  "Transport_Send ml m = (\<lambda>w. case ml_transport ml (clk w) m of
      Some x \<Rightarrow> (Err x, tick w)
    | None \<Rightarrow> (Ok (), (tick w)\<lparr>mails := mails w @ [m]\<rparr>))"

definition send_template :: "mailer \<Rightarrow> string \<Rightarrow> string \<Rightarrow> string \<Rightarrow> string \<Rightarrow> (string \<times> string) list \<Rightarrow> (world, unit) prog" where
  "send_template ml template what subject to data = (case ml_templates ml template of
      None \<Rightarrow> errP ErrEmailTemplateNotFound
    | Some tmpl \<Rightarrow> (case tmpl data of
        Inl x \<Rightarrow> errP (ErrWrap (''failed to execute '' @ what @ '' email template'') x)
      | Inr html \<Rightarrow>
          if \<not> ml_send ml then okP ()
          else wrapP (''failed to send '' @ what @ '' email'') (Transport_Send ml
            \<lparr>mail_from = ml_default_sender ml, mail_to = to, mail_subject = subject, mail_html = html\<rparr>)))"

definition SendPasswordReset :: "mailer \<Rightarrow> string \<Rightarrow> string \<Rightarrow> (world, unit) prog" where
  "SendPasswordReset ml to passwordResetLink =
     send_template ml ''password_reset'' ''password reset'' ''Password reset'' to [(''passwordResetLink'', passwordResetLink)]"

definition SendAccountConfirmation :: "mailer \<Rightarrow> string \<Rightarrow> string \<Rightarrow> (world, unit) prog" where
  "SendAccountConfirmation ml to confirmationLink =
     send_template ml ''account_confirmation'' ''account confirmation'' ''Account confirmation'' to
       [(''confirmationLink'', confirmationLink)]"

section \<open>The handlers\<close>

text \<open>The parts of the server the handlers use.\<close>

record server =
  sv_auth :: auth_config
  sv_openapi :: openapi
  sv_urls :: urls
  sv_mailer :: mailer
  sv_frontend_base_url :: string
  sv_password_reset_endpoint :: string
  sv_echo_base_url :: string

definition return_login :: "server \<Rightarrow> login_result \<Rightarrow> (world, int \<times> post_login_response) prog" where
  "return_login sv result =
     ValidateAndReturn 200 (LoginResult_ToTypes result) (PostLoginResponse_Validate (sv_openapi sv) (LoginResult_ToTypes result))"

definition postLoginHandler :: "server \<Rightarrow> env \<Rightarrow> go_error + post_login_payload \<Rightarrow> (world, int \<times> post_login_response) prog" where
  "postLoginHandler sv e bound =
     bindP (BindAndValidateBody PostLoginPayload_Validate (sv_openapi sv) bound) (\<lambda>body.
     bindP (Login e (sv_auth sv) (StringValue (plp_username body)) (StringValue (plp_password body))) (return_login sv))"

definition postRefreshHandler :: "server \<Rightarrow> env \<Rightarrow> go_error + post_refresh_payload \<Rightarrow> (world, int \<times> post_login_response) prog" where
  "postRefreshHandler sv e bound =
     bindP (BindAndValidateBody PostRefreshPayload_Validate (sv_openapi sv) bound) (\<lambda>body.
     bindP (Refresh e (sv_auth sv) (StringValue (prf_refresh_token body))) (return_login sv))"

text \<open>The second component of the reply is \<open>Inl\<close> the tokens or \<open>Inr\<close> \<open>requiresConfirmation\<close>.\<close>

definition postRegisterHandler ::
    "server \<Rightarrow> env \<Rightarrow> go_error + post_register_payload \<Rightarrow> (world, int \<times> (post_login_response + bool)) prog" where
  "postRegisterHandler sv e bound =
     bindP (BindAndValidateBody PostRegisterPayload_Validate (sv_openapi sv) bound) (\<lambda>body.
     let username = StringValue (prp_username body); password = StringValue (prp_password body) in
     bindP (Register e (sv_auth sv) username password) (\<lambda>result.
       if \<not> rr_requires_confirmation result then
         bindP (Login e (sv_auth sv) username password) (\<lambda>loginResult.
         bindP (return_login sv loginResult) (\<lambda>(c, r). okP (c, Inl r)))
       else
         thenP (case rr_confirmation_token result of
             None \<Rightarrow> okP ()
           | Some token \<Rightarrow> (case ConfirmationDeeplinkURL (sv_urls sv) (sv_echo_base_url sv) token of
               Inl x \<Rightarrow> errP x
             | Inr link \<Rightarrow> SendAccountConfirmation (sv_mailer sv) (ToUsernameFormat username) (ul_string (sv_urls sv) link)))
           (okP (202, Inr (rr_requires_confirmation result)))))"

text \<open>
  \<open>util.BindAndValidatePathAndQueryParams\<close> for the routes with one parameter, in the path or the query;
  every error of \<open>CompleteRegister\<close> becomes 401.
\<close>

definition BindAndValidateParam ::
    "string \<Rightarrow> (openapi \<Rightarrow> 'v \<Rightarrow> openapi_error option) \<Rightarrow> openapi \<Rightarrow> go_error + 'v \<Rightarrow> ('s, 'v) prog" where
  "BindAndValidateParam place Validate oa bound = (case bound of
      Inl x \<Rightarrow> errP (ErrWrap (''failed to bind '' @ place @ '' params'') x)
    | Inr v \<Rightarrow> (case validatePayload (Validate oa v) of None \<Rightarrow> okP v | Some x \<Rightarrow> errP x))"

definition postCompleteRegisterHandler ::
    "server \<Rightarrow> env \<Rightarrow> go_error + string \<Rightarrow> (world, int \<times> post_login_response) prog" where
  "postCompleteRegisterHandler sv e bound =
     bindP (BindAndValidateParam ''path'' PostCompleteRegisterRouteParams_Validate (sv_openapi sv) bound) (\<lambda>registrationToken.
     tryP (CompleteRegister e (sv_auth sv) registrationToken) (\<lambda>res. case res of
         Inl _ \<Rightarrow> errP echo_ErrUnauthorized
       | Inr result \<Rightarrow> return_login sv result))"

text \<open>The page behind the link of the confirmation mail; the rendering of the template is left out.\<close>

definition getCompleteRegisterHandler :: "server \<Rightarrow> go_error + string \<Rightarrow> (world, int \<times> string) prog" where
  "getCompleteRegisterHandler sv bound =
     bindP (BindAndValidateParam ''query'' GetCompleteRegisterRouteParams_Validate (sv_openapi sv) bound) (\<lambda>token.
     (case ConfirmationRequestURL (sv_urls sv) (sv_echo_base_url sv) token of
        Inl x \<Rightarrow> errP x
      | Inr u \<Rightarrow> okP (200, ul_string (sv_urls sv) u)))"

definition postForgotPasswordHandler ::
    "server \<Rightarrow> env \<Rightarrow> go_error + post_forgot_password_payload \<Rightarrow> (world, int \<times> unit) prog" where
  "postForgotPasswordHandler sv e bound =
     bindP (BindAndValidateBody PostForgotPasswordPayload_Validate (sv_openapi sv) bound) (\<lambda>body.
     let username = StringValue (pfp_username body) in
     bindP (InitPasswordReset e (sv_auth sv) username) (\<lambda>result. case result of
         None \<Rightarrow> okP (204, ())
       | Some resetToken \<Rightarrow>
           (case PasswordResetDeeplinkURL (sv_urls sv) (sv_frontend_base_url sv) (sv_password_reset_endpoint sv) resetToken of
              Inl x \<Rightarrow> errP x
            | Inr resetLink \<Rightarrow>
                thenP (SendPasswordReset (sv_mailer sv) (ToUsernameFormat username) (ul_string (sv_urls sv) resetLink))
                  (okP (204, ())))))"

definition postForgotPasswordCompleteHandler ::
    "server \<Rightarrow> env \<Rightarrow> go_error + post_forgot_password_complete_payload \<Rightarrow> (world, int \<times> post_login_response) prog" where
  "postForgotPasswordCompleteHandler sv e bound =
     bindP (BindAndValidateBody PostForgotPasswordCompletePayload_Validate (sv_openapi sv) bound) (\<lambda>body.
     bindP (ResetPassword e (sv_auth sv) (StringValue (pfc_token body)) (StringValue (pfc_password body))) (return_login sv))"

text \<open>
  The handlers that read the request's context: \<open>auth.UserFromContext\<close> and \<open>auth.AccessTokenFromContext\<close>
  return pointers that are dereferenced without a test.
\<close>

definition postChangePasswordHandler ::
    "server \<Rightarrow> env \<Rightarrow> request_context \<Rightarrow> go_error + post_change_password_payload \<Rightarrow> (world, int \<times> post_login_response) prog" where
  "postChangePasswordHandler sv e ctx bound =
     bindP (BindAndValidateBody PostChangePasswordPayload_Validate (sv_openapi sv) bound) (\<lambda>body.
     bindP (deref (UserFromContext ctx)) (\<lambda>user.
     bindP (UpdatePassword e (sv_auth sv)
         \<lparr>up_user = user, up_current_password = StringValue (pcp_current_password body),
          up_skip_current_password_verification = False, up_new_password = StringValue (pcp_new_password body)\<rparr>)
       (return_login sv)))"

definition postLogoutHandler ::
    "server \<Rightarrow> env \<Rightarrow> request_context \<Rightarrow> go_error + post_logout_payload \<Rightarrow> (world, int \<times> unit) prog" where
  "postLogoutHandler sv e ctx bound =
     bindP (BindAndValidateBody PostLogoutPayload_Validate (sv_openapi sv) bound) (\<lambda>body.
     bindP (deref (AccessTokenFromContext ctx)) (\<lambda>accessToken.
     thenP (Logout e accessToken (if length (plo_refresh_token body) > 0 then Some (plo_refresh_token body) else None))
       (okP (204, ()))))"

definition deleteUserAccountHandler ::
    "server \<Rightarrow> env \<Rightarrow> request_context \<Rightarrow> go_error + delete_user_account_payload \<Rightarrow> (world, int \<times> unit) prog" where
  "deleteUserAccountHandler sv e ctx bound =
     bindP (BindAndValidateBody DeleteUserAccountPayload_Validate (sv_openapi sv) bound) (\<lambda>body.
     bindP (deref (UserFromContext ctx)) (\<lambda>user.
     thenP (DeleteUserAccount e user (StringValue (dap_current_password body))) (okP (204, ()))))"

definition getUserInfoHandler :: "server \<Rightarrow> env \<Rightarrow> request_context \<Rightarrow> (world, int \<times> get_user_info_response) prog" where
  "getUserInfoHandler sv e ctx =
     bindP (deref (UserFromContext ctx)) (\<lambda>user.
     tryP (GetAppUserProfile e (du_id user)) (\<lambda>res.
       let reply = (\<lambda>profile. ValidateAndReturn 200 (User_ToTypes (user\<lparr>du_profile := profile\<rparr>))
             (GetUserInfoResponse_Validate (sv_openapi sv) (User_ToTypes (user\<lparr>du_profile := profile\<rparr>)))) in
       case res of
         Inl x \<Rightarrow> if errors_is x ErrNotFound then reply None else errP x
       | Inr profile \<Rightarrow> reply (Some profile)))"

end
