(* ===== verification/Error_Classes.thy ===== *)
theory Error_Classes
  imports Auth_Handlers Signing
begin

text \<open>
  Which errors a program can return.  A class of errors that contains what the driver and the library
  report and that is closed under \<open>fmt.Errorf\<close> with \<open>%w\<close> is an \<open>error_class\<close>; a program built from
  statements stays in the class as long as the errors it names itself are in it.
\<close>

section \<open>Programs that stay in a class\<close>

definition raises :: "(go_error \<Rightarrow> bool) \<Rightarrow> (world, 'a) prog \<Rightarrow> bool" where
  "raises P m \<longleftrightarrow> (\<forall>w x t. m w = (Err x, t) \<longrightarrow> P x)"

named_theorems raises_intros \<open>composition rules for the errors of programs\<close>

lemma raisesI: "(\<And>w x t. m w = (Err x, t) \<Longrightarrow> P x) \<Longrightarrow> raises P m"
  by (auto simp: raises_def)

lemma raisesD: "raises P m \<Longrightarrow> m w = (Err x, t) \<Longrightarrow> P x"
  by (auto simp: raises_def)

lemma raises_ends [raises_intros]:
  "raises P (okP x)" "raises P (panicP c)" "raises P (clock_now e)" "raises P (sys_now e)" "raises P (uuid_New e)"
  "raises P (deref y)"
  by (auto simp: raises_def okP_def panicP_def clock_now_def sys_now_def uuid_New_def deref_def split: option.splits)

lemma raises_errP [raises_intros]: "P x \<Longrightarrow> raises P (errP x)"
  by (auto simp: raises_def errP_def)

lemma raises_bindP [raises_intros]: "raises P m \<Longrightarrow> (\<And>x. raises P (f x)) \<Longrightarrow> raises P (bindP m f)"
  by (fastforce simp: raises_def bindP_def split: prod.splits outcome.splits)

lemma raises_thenP [raises_intros]: "raises P m \<Longrightarrow> raises P n \<Longrightarrow> raises P (thenP m n)"
  by (simp add: thenP_def raises_bindP)

lemma raises_tryP [raises_intros]:
  "raises P m \<Longrightarrow> (\<And>x. P x \<Longrightarrow> raises P (f x)) \<Longrightarrow> (\<And>y. raises P (g y)) \<Longrightarrow>
    raises P (tryP m (\<lambda>res. case res of Inl x \<Rightarrow> f x | Inr y \<Rightarrow> g y))"
  by (fastforce simp: raises_def tryP_def split: prod.splits outcome.splits)

lemma raises_branches [raises_intros]:
  "(b \<Longrightarrow> raises P m) \<Longrightarrow> (\<not> b \<Longrightarrow> raises P n) \<Longrightarrow> raises P (if b then m else n)"
  "raises P m \<Longrightarrow> (\<And>x. raises P (h x)) \<Longrightarrow> raises P (case z of None \<Rightarrow> m | Some x \<Rightarrow> h x)"
  "(\<And>x y. raises P (p x y)) \<Longrightarrow> raises P (case q of (x, y) \<Rightarrow> p x y)"
  "(\<And>x. raises P (k x)) \<Longrightarrow> raises P (let x = v in k x)"
  by (auto split: option.split prod.split)

locale error_class =
  fixes P :: "go_error \<Rightarrow> bool"
  assumes wrap: "P x \<Longrightarrow> P (ErrWrap msg x)"
    and driver: "P (ErrDriver s)" and plain: "P (ErrPlain s)" and no_rows: "P ErrNoRows" and tx_done: "P ErrTxDone"
begin

lemma wrapped: "raises P m \<Longrightarrow> raises P (wrapP msg m)"
  unfolding wrapP_def by (intro raises_intros wrap)

lemma statement: "(\<And>n d x. f n d = Inl x \<Longrightarrow> P x) \<Longrightarrow> raises P (stmt e h f)"
  by (cases h) (auto intro!: raisesI simp: stmt_def driver tx_done split: option.splits sum.splits)

lemma read: "(\<And>d x. q d = Inl x \<Longrightarrow> P x) \<Longrightarrow> raises P (query e h q)"
  unfolding query_def by (rule statement) (auto split: sum.splits)

lemma named_errors: "P bad_uuid" "P bad_enum" "P too_long" "P (unique_violation c)" "P (fk_violation c)"
  by (simp_all add: bad_uuid_def bad_enum_def too_long_def unique_violation_def fk_violation_def driver)

lemma first_of: "first_error cs = Some x \<Longrightarrow> \<forall>(b, y) \<in> set cs. P y \<Longrightarrow> P x"
  by (induction cs rule: first_error.induct) (auto split: if_splits)

lemma inserted:
  assumes "\<And>r d. \<forall>(b, y) \<in> set (ch r d). P y"
  shows "raises P (insert_stmt tn e h c ch ad)"
  unfolding insert_stmt_def
  by (intro wrapped statement) (auto split: option.splits dest: first_of [OF _ assms])

lemma modified: "raises P (modify_stmt msg e h g)"
  unfolding modify_stmt_def by (intro wrapped statement) simp

lemma finishers:
  "raises P (one_row tn e h tab p)" "raises P (all_rows tn e h tab p)" "raises P (rows_exist tn e h tab p)"
  "raises P (one_by_uuid tn e h tab' key txt p)" "raises P (find_row tn e h tab' key txt)"
  "raises P (FindOrganizationMember e i j)"
  unfolding one_row_def all_rows_def rows_exist_def one_by_uuid_def find_row_def FindOrganizationMember_def
  by (intro raises_intros wrapped read wrap no_rows; auto simp: no_rows named_errors split: option.splits if_splits)+

lemma inserts:
  "raises P (user_insert e h u)" "raises P (app_user_profile_insert e h f)" "raises P (access_token_insert e h a)"
  "raises P (refresh_token_insert e h r)" "raises P (password_reset_token_insert e h q)" "raises P (confirmation_token_insert e h c)"
  "raises P (organization_insert e h g)" "raises P (organization_member_insert e h m)" "raises P (vault_insert e h v)"
  "raises P (wallet_insert e h wl)" "raises P (signing_request_insert e h s)" "raises P (approval_insert e h ap)"
  unfolding insert_defs custody_insert_defs
  by (intro raises_intros inserted; simp add: named_errors)+

lemma writes:
  "raises P (user_update e h i col)" "raises P (users_delete_all e h i)" "raises P (delete_by_uuid tn e h txt d)"
  "raises P (signing_request_update e h rq)" "raises P (organization_member_update e h m)" "raises P (organization_member_delete e h m)"
  unfolding user_update_def users_delete_all_def delete_by_uuid_def signing_request_update_def organization_member_update_def
    organization_member_delete_def
  by (intro raises_intros wrapped modified statement;
      auto simp: named_errors user_delete_checks_def split: option.splits if_splits dest!: first_of)+

lemma loads: "raises P (one_with_user tn e h tab key txt p owner)" "raises P (load_rel name e tab' key' ref)" "raises P (load_request e i)"
  unfolding load_request_def one_with_user_def load_rel_def by (intro raises_intros finishers wrapped read; simp)+

lemma transaction:
  assumes "raises P m"
  shows "raises P (WithTransaction e m)"
  by (rule raisesI)
    (auto simp: WithTransaction_def WithConfiguredTransaction_def begin_tx_def driver wrap
      dest: raisesD [OF assms] split: option.splits prod.splits outcome.splits)

lemma hashing: "raises P (HashPassword e pw p)" "raises P (liftP (ComparePasswordAndHash e pw hash))"
proof -
  have "raises P (generateSalt e n)" for n
    by (rule raisesI) (auto simp: generateSalt_def wrap plain split: option.splits)
  moreover have "raises P (\<lambda>w. case IDKey e pw salt p of
      Panic c \<Rightarrow> (Panic c, w) | Err x \<Rightarrow> (Err x, w) | Ok key \<Rightarrow> (Ok (f key), w))" for salt f
    by (auto simp: raises_def IDKey_def split: option.splits)
  ultimately show "raises P (HashPassword e pw p)" unfolding HashPassword_def by (intro raises_intros)
  have dec: "decodeArgon2Hash hash = Inl x \<Longrightarrow> P x" for x
    by (auto simp: decodeArgon2Hash_def ErrInvalidArgon2Hash_def ErrIncompatibleArgon2Version_def plain Let_def
        split: if_splits option.splits)
  show "raises P (liftP (ComparePasswordAndHash e pw hash))"
    by (rule raisesI) (auto simp: liftP_def ComparePasswordAndHash_def IDKey_def ErrInvalidArgon2Hash_def plain dest: dec
        split: sum.splits option.splits if_splits)
qed

lemma issue: "raises P (authenticateUser e c u rv)"
  unfolding authenticateUser_def by (intro raises_intros inserts writes modified)

lemmas pieces = finishers inserts writes modified loads transaction hashing issue wrapped

text \<open>The operations, given the errors they name.\<close>

lemma auth_operations:
  "P ErrNotFound \<Longrightarrow> raises P (GetAppUserProfile e i)"
  "P ErrForbiddenUserDeactivated \<Longrightarrow> P ErrForbiddenNotLocalUser \<Longrightarrow> P echo_ErrUnauthorized \<Longrightarrow>
     P ErrBadRequestInvalidPassword \<Longrightarrow> raises P (UpdatePassword e c request)"
  "raises P (InitPasswordReset e c name)"
  "raises P (Logout e at rt)"
  "P echo_ErrUnauthorized \<Longrightarrow> P ErrForbiddenUserDeactivated \<Longrightarrow> raises P (Login e c name pw)"
  "P echo_ErrUnauthorized \<Longrightarrow> P ErrForbiddenUserDeactivated \<Longrightarrow> raises P (Refresh e c tok)"
  "P ErrConflictUserAlreadyExists \<Longrightarrow> P ErrBadRequestInvalidPassword \<Longrightarrow> raises P (Register e c name pw)"
  "P ErrForbiddenUserDeactivated \<Longrightarrow> P ErrForbiddenNotLocalUser \<Longrightarrow> P echo_ErrUnauthorized \<Longrightarrow>
     raises P (DeleteUserAccount e u pw)"
  "P ErrNotFoundTokenNotFound \<Longrightarrow> raises P (CompleteRegister e c tok)"
  unfolding GetAppUserProfile_def UpdatePassword_def verify_current_def InitPasswordReset_def
    reset_debounced_def Logout_def Login_def Refresh_def Register_def Register_existing_def
    DeleteUserAccount_def CompleteRegister_def UpdatePassword_tx_def InitPasswordReset_tx_def Logout_tx_def
    Refresh_tx_def Register_tx_def CompleteRegister_tx_def
  by (intro raises_intros pieces; assumption)+

lemma reset_operation:
  "P ErrNotFoundTokenNotFound \<Longrightarrow> P ErrConflictTokenExpired \<Longrightarrow> P ErrForbiddenUserDeactivated \<Longrightarrow>
    P ErrForbiddenNotLocalUser \<Longrightarrow> P echo_ErrUnauthorized \<Longrightarrow> P ErrBadRequestInvalidPassword \<Longrightarrow>
    raises P (ResetPassword e c tok pw)"
  unfolding ResetPassword_def by (intro raises_intros pieces auth_operations; assumption)

lemma custody_operations:
  "raises P (CreateOrganization e name owner)" "raises P (ListMembers e i)" "raises P (AddMember e i j role)"
  "raises P (RemoveMember e i j)" "raises P (UpdateMemberRole e i j role)" "raises P (CreateVault e name i)"
  "raises P (CreateRequest e wl txd note u)" "raises P (RejectRequest e i j)" "raises P (GetRequest e i)"
  "raises P (ListRequests e i vault status page limit)"
  unfolding CreateOrganization_def ListMembers_def AddMember_def RemoveMember_def UpdateMemberRole_def CreateVault_def
    CreateRequest_def RejectRequest_def GetRequest_def ListRequests_def FindOrganization_def FindSigningRequest_def
  by (intro raises_intros pieces read; auto simp: named_errors plain driver wrap split: if_splits)+

lemma mpc_operations:
  "(\<And>n q x. env_key e n q = Inl x \<Longrightarrow> P x) \<Longrightarrow> raises P (CreateWallet e v ch)"
  "(\<And>n q x. env_sign e n q = Inl x \<Longrightarrow> P x) \<Longrightarrow> raises P (ApproveRequest e i params)"
  "(\<And>d ids x. where_in d ids = Inl x \<Longrightarrow> P x) \<Longrightarrow> raises P (ListUserOrganizations where_in e j)"
proof -
  have key: "raises P (CreateKey e k a cu)" if "\<And>n q x. env_key e n q = Inl x \<Longrightarrow> P x" for k a cu
    by (rule raisesI) (auto simp: CreateKey_def Let_def dest: that split: sum.splits)
  have sign: "raises P (ThresholdSign e k m ct toks)" if "\<And>n q x. env_sign e n q = Inl x \<Longrightarrow> P x" for k m ct toks
    by (rule raisesI) (auto simp: ThresholdSign_def Let_def dest: that split: sum.splits)
  have addr: "raises P (liftP (deriveAddress s ct))" for s ct
    by (simp add: raises_def liftP_def deriveAddress_def)
  show "raises P (CreateWallet e v ch)" if "\<And>n q x. env_key e n q = Inl x \<Longrightarrow> P x"
    unfolding CreateWallet_def by (intro raises_intros pieces addr key [OF that])
  show "raises P (ApproveRequest e i params)" if "\<And>n q x. env_sign e n q = Inl x \<Longrightarrow> P x"
    unfolding ApproveRequest_def check_threshold_def user_approved_def all_approvals_def
    by (intro raises_intros pieces read sign [OF that]; auto simp: named_errors plain split: if_splits)
  show "raises P (ListUserOrganizations where_in e j)" if "\<And>d ids x. where_in d ids = Inl x \<Longrightarrow> P x"
    unfolding ListUserOrganizations_def by (intro raises_intros pieces read; rule that)
qed

end

end
