(* ===== verification/Push.thy ===== *)
theory Push
  imports Auth_Handlers
begin

text \<open>
  internal/data/local/service_push.go, internal/push and internal/api/handlers/push: the tokens of push
  notifications, their update by a client and the delivery of messages.  The call of Firebase is a
  parameter of its provider.
\<close>

section \<open>Statements on push tokens\<close>

text \<open>The column \<open>provider\<close> is the enumeration of the two provider types.\<close>

definition push_token_insert :: "env \<Rightarrow> handle \<Rightarrow> push_token_row \<Rightarrow> (world, push_token_row) prog" where
  "push_token_insert e h k = bindP (sys_now e) (\<lambda>now.
     insert_stmt ''push_tokens'' e h
       (\<lambda>n. k\<lparr>ptk_id := default_id (env_uuid e n) (ptk_id k),
              ptk_created_at := default_time now (ptk_created_at k),
              ptk_updated_at := default_time now (ptk_updated_at k)\<rparr>)
       (\<lambda>r d. [(ptk_provider r \<notin> {''fcm'', ''apn''}, bad_enum),
               (\<exists>q \<in> set (push_tokens d). ptk_id q = ptk_id r, unique_violation ''push_tokens_pkey''),
               (\<exists>q \<in> set (push_tokens d). ptk_token q = ptk_token r, unique_violation ''push_tokens_token_key''),
               (\<not> has_user d (ptk_user_id r), fk_violation ''push_tokens_user_id_fkey'')])
       (\<lambda>r d. d\<lparr>push_tokens := push_tokens d @ [r]\<rparr>))"

definition without_push_tokens :: "(push_token_row \<Rightarrow> bool) \<Rightarrow> database \<Rightarrow> database" where
  "without_push_tokens p d = d\<lparr>push_tokens := filter (\<lambda>r. \<not> p r) (push_tokens d)\<rparr>"

definition push_token_delete :: "env \<Rightarrow> handle \<Rightarrow> push_token_row \<Rightarrow> (world, unit) prog" where
  "push_token_delete e h r =
     modify_stmt ''models: unable to delete from push_tokens'' e h (without_push_tokens (\<lambda>q. ptk_id q = ptk_id r))"

section \<open>Updating a token\<close>

record update_push_token_request =
  ut_user :: dto_user
  ut_token :: string
  ut_provider :: string
  ut_existing_token :: "string option"

text \<open>The new token is inserted through \<open>s.db\<close>, outside the transaction that the checks run in.\<close>

definition UpdatePushToken_tx :: "env \<Rightarrow> update_push_token_request \<Rightarrow> (world, unit) prog" where
  "UpdatePushToken_tx e request =
     bindP (rows_exist ''push_tokens'' e Tx push_tokens (\<lambda>r. ptk_token r = ut_token request)) (\<lambda>tokenExists.
     if tokenExists then errP ErrConflictPushToken
     else thenP (push_token_insert e Pool
         \<lparr>ptk_id = [], ptk_token = ut_token request, ptk_provider = ut_provider request,
          ptk_user_id = du_id (ut_user request), ptk_created_at = zero_time, ptk_updated_at = zero_time\<rparr>)
       (case ut_existing_token request of
          None \<Rightarrow> okP ()
        | Some old \<Rightarrow>
            bindP (tryP (one_row ''push_tokens'' e Tx push_tokens
                     (\<lambda>r. ptk_token r = old \<and> ptk_user_id r = du_id (ut_user request)))
                (\<lambda>res. case res of
                   Inl x \<Rightarrow> if errors_is x ErrNoRows then errP ErrNotFoundOldPushToken else errP x
                 | Inr r \<Rightarrow> okP r))
              (push_token_delete e Tx)))"

definition UpdatePushToken :: "env \<Rightarrow> update_push_token_request \<Rightarrow> (world, unit) prog" where
  "UpdatePushToken e request = WithTransaction e (UpdatePushToken_tx e request)"

definition putUpdatePushTokenHandler ::
    "server \<Rightarrow> env \<Rightarrow> request_context \<Rightarrow> go_error + put_update_push_token_payload \<Rightarrow> (world, int \<times> string) prog" where
  "putUpdatePushTokenHandler sv e ctx bound =
     bindP (BindAndValidateBody PutUpdatePushTokenPayload_Validate (sv_openapi sv) bound) (\<lambda>body.
     bindP (deref (UserFromContext ctx)) (\<lambda>user.
     thenP (UpdatePushToken e \<lparr>ut_user = user, ut_token = StringValue (pup_new_token body),
         ut_provider = StringValue (pup_provider body), ut_existing_token = pup_old_token body\<rparr>)
       (okP (200, ''Success''))))"

section \<open>Providers\<close>

record send_response =
  psr_token :: string
  psr_valid :: bool
  psr_err :: "go_error option"

text \<open>
  The interface \<open>Provider\<close>: what \<open>Send\<close> and \<open>SendMulticast\<close> answer, by the number of the interaction,
  token or tokens, title and message.
\<close>

record provider =
  pv_type :: string
  pv_send :: "nat \<Rightarrow> string \<Rightarrow> string \<Rightarrow> string \<Rightarrow> send_response"
  pv_send_multicast :: "nat \<Rightarrow> string list \<Rightarrow> string \<Rightarrow> string \<Rightarrow> send_response list"

fun sendMulticastWithProvider ::
    "(nat \<Rightarrow> string \<Rightarrow> string \<Rightarrow> string \<Rightarrow> send_response) \<Rightarrow> nat \<Rightarrow> string list \<Rightarrow> string \<Rightarrow> string \<Rightarrow> send_response list" where
  "sendMulticastWithProvider send n [] title message = []"
| "sendMulticastWithProvider send n (token # tokens) title message =
     send n token title message # sendMulticastWithProvider send (Suc n) tokens title message"

definition expectedTokenLength :: nat where
  "expectedTokenLength = 40"

definition Mock_Send :: "nat \<Rightarrow> string \<Rightarrow> string \<Rightarrow> string \<Rightarrow> send_response" where
  "Mock_Send n token title message =
     (let valid = \<not> length token < expectedTokenLength;
          err = (if valid then None else Some (ErrPlain ''invalid token'')) in
      \<lparr>psr_token = token, psr_valid = valid,
       psr_err = (if title = ''other error'' then Some (ErrPlain ''other error'') else err)\<rparr>)"

definition Mock :: "string \<Rightarrow> provider" where
  "Mock providerType = \<lparr>pv_type = providerType, pv_send = Mock_Send, pv_send_multicast = sendMulticastWithProvider Mock_Send\<rparr>"

text \<open>
  \<open>fcm\<close> is the answer of Firebase: nothing, an error of its API with a status, or another error.  Only
  the statuses 404 and 400 say that the token is at fault.
\<close>

datatype fcm_answer = FcmOk | FcmApiError int go_error | FcmOther go_error

definition FCM_Send :: "(nat \<Rightarrow> string \<Rightarrow> string \<Rightarrow> string \<Rightarrow> fcm_answer) \<Rightarrow> nat \<Rightarrow> string \<Rightarrow> string \<Rightarrow> string \<Rightarrow> send_response" where
  "FCM_Send fcm n token title message = (case fcm n token title message of
      FcmOk \<Rightarrow> \<lparr>psr_token = token, psr_valid = True, psr_err = None\<rparr>
    | FcmApiError c x \<Rightarrow> \<lparr>psr_token = token, psr_valid = (c \<noteq> 404 \<and> c \<noteq> 400), psr_err = Some x\<rparr>
    | FcmOther x \<Rightarrow> \<lparr>psr_token = token, psr_valid = True, psr_err = Some x\<rparr>)"

definition FCM :: "(nat \<Rightarrow> string \<Rightarrow> string \<Rightarrow> string \<Rightarrow> fcm_answer) \<Rightarrow> provider" where
  "FCM fcm = \<lparr>pv_type = ''fcm'', pv_send = FCM_Send fcm, pv_send_multicast = sendMulticastWithProvider (FCM_Send fcm)\<rparr>"

section \<open>Delivery\<close>

text \<open>
  The service keeps a map from types to providers; it is the list of its entries in the order of one
  iteration, which Go leaves open.
\<close>

definition RegisterProvider :: "provider \<Rightarrow> (string \<times> provider) list \<Rightarrow> (string \<times> provider) list" where
  "RegisterProvider p ps = (pv_type p, p) # filter (\<lambda>(t, _). t \<noteq> pv_type p) ps"

definition GetProviderCount :: "(string \<times> provider) list \<Rightarrow> int" where
  "GetProviderCount ps = int (length ps)"

definition provider_tokens :: "env \<Rightarrow> string \<Rightarrow> uuid \<Rightarrow> (world, push_token_row list) prog" where
  "provider_tokens e providerType userID =
     wrapP ''failed to get push tokens'' (wrapP ''models: failed to assign all query results to PushToken slice''
       (query e Pool (\<lambda>d. if providerType \<notin> {''fcm'', ''apn''} then Inl bad_enum
          else Inr (filter (\<lambda>r. ptk_provider r = providerType \<and> ptk_user_id r = userID) (push_tokens d)))))"

definition send_multicast :: "provider \<Rightarrow> string list \<Rightarrow> string \<Rightarrow> string \<Rightarrow> (world, send_response list) prog" where
  "send_multicast p tokens title message = (\<lambda>w. (Ok (pv_send_multicast p (clk w) tokens title message), tick w))"

definition tokenToDelete :: "send_response list \<Rightarrow> string list" where
  "tokenToDelete responses = map psr_token (filter (\<lambda>r. \<not> psr_valid r) responses)"

fun send_to_providers :: "env \<Rightarrow> dto_user \<Rightarrow> string \<Rightarrow> string \<Rightarrow> (string \<times> provider) list \<Rightarrow> (world, unit) prog" where
  "send_to_providers e user title message [] = okP ()"
| "send_to_providers e user title message ((providerType, p) # ps) =
     bindP (provider_tokens e providerType (du_id user)) (\<lambda>pushTokens.
     bindP (send_multicast p (map ptk_token pushTokens) title message) (\<lambda>responses.
     thenP (modify_stmt ''models: unable to delete all from push_tokens'' e Pool
              (without_push_tokens (\<lambda>r. ptk_token r \<in> set (tokenToDelete responses) \<and> ptk_user_id r = du_id user)))
       (send_to_providers e user title message ps)))"

definition SendToUser :: "env \<Rightarrow> (string \<times> provider) list \<Rightarrow> dto_user \<Rightarrow> string \<Rightarrow> string \<Rightarrow> (world, unit) prog" where
  "SendToUser e providers user title message =
     (if GetProviderCount providers < 1 then errP (ErrPlain ''no provider found'')
      else send_to_providers e user title message providers)"

section \<open>The contract of providers\<close>

text \<open>Every token that is sent to gets one answer, in order.\<close>

locale push_provider =
  fixes multicast :: "nat \<Rightarrow> string list \<Rightarrow> string \<Rightarrow> string \<Rightarrow> send_response list"
  assumes answers_tokens: "map psr_token (multicast n tokens title message) = tokens"
begin

lemma one_answer_each: "length (multicast n tokens title message) = length tokens"
  using arg_cong [OF answers_tokens, of length] by simp

lemma deletes_only_sent: "set (tokenToDelete (multicast n tokens title message)) \<subseteq> set tokens"
proof -
  have "set (tokenToDelete (multicast n tokens title message)) \<subseteq> set (map psr_token (multicast n tokens title message))"
    by (auto simp: tokenToDelete_def)
  then show ?thesis by (simp only: answers_tokens)
qed

end

lemma sendMulticast_tokens:
  "(\<And>n t. psr_token (send n t title message) = t) \<Longrightarrow>
    map psr_token (sendMulticastWithProvider send n tokens title message) = tokens"
  by (induction tokens arbitrary: n) auto

interpretation mock_provider: push_provider "pv_send_multicast (Mock ty)" for ty
  by unfold_locales (simp add: Mock_def, rule sendMulticast_tokens, simp add: Mock_Send_def Let_def)

interpretation fcm_provider: push_provider "pv_send_multicast (FCM fcm)" for fcm
  by unfold_locales (simp add: FCM_def, rule sendMulticast_tokens, simp add: FCM_Send_def split: fcm_answer.split)

end
