(* ===== verification/Routes.thy ===== *)
theory Routes
  imports Push Signing
begin

text \<open>
  The groups of internal/api/router/router.go with their routes: the push, vault, signing and
  organization routes run behind \<open>middleware.Auth(s)\<close>, the routes under /api/v1/auth run on the bare
  context.  Each route is composed as the handler is written: guard, binding and validation of the
  body, the operation, validation of the response.
\<close>

section \<open>Response bodies\<close>

definition optional_uuid4 :: "openapi \<Rightarrow> string \<Rightarrow> string \<Rightarrow> openapi_error list" where
  "optional_uuid4 oa name x = (if x = [] then [] else first_failure oa name [(''format'', oa_format oa ''uuid4'' x)])"

record create_vault_response =
  cvr_status :: string
  cvr_vault_id :: string

definition CreateVaultResponse_Validate :: "openapi \<Rightarrow> create_vault_response \<Rightarrow> openapi_error option" where
  "CreateVaultResponse_Validate oa m = composite (optional_uuid4 oa ''vault_id'' (cvr_vault_id m))"

record create_wallet_response =
  cwr_address :: string
  cwr_chain_id :: string
  cwr_wallet_id :: string

definition CreateWalletResponse_Validate :: "openapi \<Rightarrow> create_wallet_response \<Rightarrow> openapi_error option" where
  "CreateWalletResponse_Validate oa m = composite (optional_uuid4 oa ''wallet_id'' (cwr_wallet_id m))"

record create_signing_response =
  csr_request_id :: string
  csr_status :: string

definition CreateSigningResponse_Validate :: "openapi \<Rightarrow> create_signing_response \<Rightarrow> openapi_error option" where
  "CreateSigningResponse_Validate oa m = composite (optional_uuid4 oa ''request_id'' (csr_request_id m))"

record approve_signing_response =
  asr_current_approvals :: int
  asr_required_approvals :: int
  asr_status :: string

text \<open>The \<open>Validate\<close> method of \<open>ApproveSigningResponse\<close> and of the other responses without formats.\<close>

definition ApproveSigningResponse_Validate :: "openapi \<Rightarrow> approve_signing_response \<Rightarrow> openapi_error option" where
  "ApproveSigningResponse_Validate oa m = None"

record create_organization_response =
  cor_organization_id :: string
  cor_name :: string

definition CreateOrganizationResponse_Validate :: "openapi \<Rightarrow> create_organization_response \<Rightarrow> openapi_error option" where
  "CreateOrganizationResponse_Validate oa m = None"

record add_organization_member_response =
  amr_ok :: bool

definition AddOrganizationMemberResponse_Validate :: "openapi \<Rightarrow> add_organization_member_response \<Rightarrow> openapi_error option" where
  "AddOrganizationMemberResponse_Validate oa m = None"

section \<open>Groups\<close>

text \<open>
  What the server is made of beyond \<open>server\<close>: the uuid check of the middleware, the clause of the
  membership query, the text of echo's errors, the error that the recover middleware makes of a panic,
  and \<open>HideInternalServerErrorDetails\<close>.
\<close>

record services =
  sc_env :: env
  sc_server :: server
  sc_is_uuid4 :: "string \<Rightarrow> bool"
  sc_where_in :: "database \<Rightarrow> uuid list \<Rightarrow> go_error + organization_row list"
  sc_echo_Error :: "int \<Rightarrow> echo_message \<Rightarrow> string option \<Rightarrow> string"
  sc_recovered :: "string \<Rightarrow> go_error"
  sc_hide :: bool

definition guarded :: "services \<Rightarrow> (request_context \<Rightarrow> (world, 'a) prog) \<Rightarrow> http_request \<Rightarrow> (world, 'a) prog" where
  "guarded sc handler req =
     auth_handler (sc_env sc) (default_runtime (sc_env sc) (sc_is_uuid4 sc) (sv_auth (sc_server sc)))
       handler req background"

definition unguarded :: "(request_context \<Rightarrow> (world, 'a) prog) \<Rightarrow> (world, 'a) prog" where
  "unguarded handler = handler background"

definition bind_body :: "services \<Rightarrow> (openapi \<Rightarrow> 'v \<Rightarrow> openapi_error option) \<Rightarrow> go_error + 'v \<Rightarrow> (world, 'v) prog" where
  "bind_body sc Validate bound = BindAndValidateBody Validate (sv_openapi (sc_server sc)) bound"

definition return_validated :: "services \<Rightarrow> (openapi \<Rightarrow> 'v \<Rightarrow> openapi_error option) \<Rightarrow> 'v \<Rightarrow> (world, int \<times> 'v) prog" where
  "return_validated sc Validate v = ValidateAndReturn 200 v (Validate (sv_openapi (sc_server sc)) v)"

section \<open>Routes behind the guard\<close>

definition PutUpdatePushTokenRoute ::
    "services \<Rightarrow> go_error + put_update_push_token_payload \<Rightarrow> http_request \<Rightarrow> (world, int \<times> string) prog" where
  "PutUpdatePushTokenRoute sc bound = guarded sc (\<lambda>ctx.
     putUpdatePushTokenHandler (sc_server sc) (sc_env sc) ctx bound)"

definition PostCreateVaultRoute ::
    "services \<Rightarrow> go_error + create_vault_payload \<Rightarrow> http_request \<Rightarrow> (world, int \<times> create_vault_response) prog" where
  "PostCreateVaultRoute sc bound = guarded sc (\<lambda>ctx.
     bindP (bind_body sc CreateVaultPayload_Validate bound) (\<lambda>body.
     bindP (postCreateVaultHandler (sc_where_in sc) (sc_env sc) (UserFromContext ctx) (StringValue (cvp_name body)) (cvp_chains body)) (\<lambda>(i, st).
       return_validated sc CreateVaultResponse_Validate \<lparr>cvr_status = st, cvr_vault_id = i\<rparr>)))"

definition PostCreateWalletRoute ::
    "services \<Rightarrow> string \<Rightarrow> go_error + create_wallet_payload \<Rightarrow> http_request \<Rightarrow> (world, int \<times> create_wallet_response) prog" where
  "PostCreateWalletRoute sc vaultID bound = guarded sc (\<lambda>ctx.
     bindP (bind_body sc CreateWalletPayload_Validate bound) (\<lambda>body.
     bindP (postCreateWalletHandler (sc_env sc) (UserFromContext ctx) vaultID (StringValue (cwp_chain_id body))) (\<lambda>wallet.
       return_validated sc CreateWalletResponse_Validate
         \<lparr>cwr_address = wal_address wallet, cwr_chain_id = string_of (wal_chain_id wallet), cwr_wallet_id = wal_id wallet\<rparr>)))"

definition PostCreateSigningRequestRoute ::
    "services \<Rightarrow> go_error + create_signing_request_payload \<Rightarrow> http_request \<Rightarrow> (world, int \<times> create_signing_response) prog" where
  "PostCreateSigningRequestRoute sc bound = guarded sc (\<lambda>ctx.
     bindP (bind_body sc CreateSigningRequestPayload_Validate bound) (\<lambda>body.
     bindP (postCreateSigningRequestHandler (sc_env sc) (UserFromContext ctx) (StringValue (csp_wallet_id body)) (csp_tx_data body) (csp_note body)) (\<lambda>(i, st).
       return_validated sc CreateSigningResponse_Validate \<lparr>csr_request_id = i, csr_status = st\<rparr>)))"

definition PostApproveSigningRequestRoute ::
    "services \<Rightarrow> string \<Rightarrow> go_error + approve_signing_request_payload \<Rightarrow> http_request \<Rightarrow> (world, int \<times> approve_signing_response) prog" where
  "PostApproveSigningRequestRoute sc requestID bound = guarded sc (\<lambda>ctx.
     bindP (bind_body sc ApproveSigningRequestPayload_Validate bound) (\<lambda>body.
     bindP (postApproveSigningRequestHandler (sc_env sc) (UserFromContext ctx) requestID
         \<lparr>pl_action = StringValue (asp_action body), pl_credential_id = asp_credential_id body, pl_signature = asp_signature body,
          pl_authenticator_data = asp_authenticator_data body, pl_client_data_json = asp_client_data_json body\<rparr>) (\<lambda>st.
       return_validated sc ApproveSigningResponse_Validate
         \<lparr>asr_current_approvals = 0, asr_required_approvals = 0, asr_status = st\<rparr>)))"

text \<open>The binder of the query parameters can fail before they are validated.\<close>

definition GetListSigningRequestsRoute ::
    "services \<Rightarrow> go_error + list_params \<Rightarrow> http_request \<Rightarrow> (world, int \<times> request_item list \<times> int) prog" where
  "GetListSigningRequestsRoute sc bound = guarded sc (\<lambda>ctx. case bound of
      Inl x \<Rightarrow> errP (ErrWrap ''failed to bind query params'' x)
    | Inr params \<Rightarrow> bindP (getListSigningRequestsHandler (sc_env sc) (UserFromContext ctx) params) (\<lambda>r. okP (200, r)))"

definition PostCreateOrganizationRoute ::
    "services \<Rightarrow> go_error + create_organization_payload \<Rightarrow> http_request \<Rightarrow> (world, int \<times> create_organization_response) prog" where
  "PostCreateOrganizationRoute sc bound = guarded sc (\<lambda>ctx.
     bindP (bind_body sc CreateOrganizationPayload_Validate bound) (\<lambda>body.
     bindP (postCreateOrganizationHandler (sc_env sc) (UserFromContext ctx) (StringValue (cop_name body))) (\<lambda>(i, name).
       return_validated sc CreateOrganizationResponse_Validate \<lparr>cor_organization_id = i, cor_name = name\<rparr>)))"

definition GetListOrganizationsRoute :: "services \<Rightarrow> http_request \<Rightarrow> (world, int \<times> (uuid \<times> string) list) prog" where
  "GetListOrganizationsRoute sc = guarded sc (\<lambda>ctx.
     bindP (getListOrganizationsHandler (sc_where_in sc) (sc_env sc) (UserFromContext ctx)) (\<lambda>items. okP (200, items)))"

definition GetListOrganizationMembersRoute :: "services \<Rightarrow> string \<Rightarrow> http_request \<Rightarrow> (world, int \<times> (uuid \<times> string) list) prog" where
  "GetListOrganizationMembersRoute sc orgID = guarded sc (\<lambda>ctx.
     bindP (getListOrganizationMembersHandler (sc_env sc) orgID) (\<lambda>items. okP (200, items)))"

definition PostAddOrganizationMemberRoute ::
    "services \<Rightarrow> string \<Rightarrow> go_error + add_organization_member_payload \<Rightarrow> http_request \<Rightarrow>
     (world, int \<times> add_organization_member_response) prog" where
  "PostAddOrganizationMemberRoute sc orgID bound = guarded sc (\<lambda>ctx.
     bindP (bind_body sc AddOrganizationMemberPayload_Validate bound) (\<lambda>body.
     bindP (postAddOrganizationMemberHandler (sc_env sc) orgID (StringValue (aom_user_id body)) (StringValue (aom_role body))) (\<lambda>ok.
       return_validated sc AddOrganizationMemberResponse_Validate \<lparr>amr_ok = ok\<rparr>)))"

definition DeleteOrganizationMemberRoute ::
    "services \<Rightarrow> string \<Rightarrow> string \<Rightarrow> http_request \<Rightarrow> (world, int \<times> add_organization_member_response) prog" where
  "DeleteOrganizationMemberRoute sc orgID userID = guarded sc (\<lambda>ctx.
     bindP (deleteOrganizationMemberHandler (sc_env sc) orgID userID) (\<lambda>ok.
       return_validated sc AddOrganizationMemberResponse_Validate \<lparr>amr_ok = ok\<rparr>))"

section \<open>Routes without a guard\<close>

definition PostChangePasswordRoute ::
    "services \<Rightarrow> go_error + post_change_password_payload \<Rightarrow> (world, int \<times> post_login_response) prog" where
  "PostChangePasswordRoute sc bound = unguarded (\<lambda>ctx. postChangePasswordHandler (sc_server sc) (sc_env sc) ctx bound)"

definition PostLogoutRoute :: "services \<Rightarrow> go_error + post_logout_payload \<Rightarrow> (world, int \<times> unit) prog" where
  "PostLogoutRoute sc bound = unguarded (\<lambda>ctx. postLogoutHandler (sc_server sc) (sc_env sc) ctx bound)"

definition DeleteUserAccountRoute :: "services \<Rightarrow> go_error + delete_user_account_payload \<Rightarrow> (world, int \<times> unit) prog" where
  "DeleteUserAccountRoute sc bound = unguarded (\<lambda>ctx. deleteUserAccountHandler (sc_server sc) (sc_env sc) ctx bound)"

definition GetUserInfoRoute :: "services \<Rightarrow> (world, int \<times> get_user_info_response) prog" where
  "GetUserInfoRoute sc = unguarded (\<lambda>ctx. getUserInfoHandler (sc_server sc) (sc_env sc) ctx)"

section \<open>The server\<close>

text \<open>The routes of \<open>handlers.AttachAllRoutes\<close> with what the binder made of the request.\<close>

datatype route =
    DeleteUserAccountR "go_error + delete_user_account_payload"
  | GetCompleteRegisterR "go_error + string"
  | GetUserInfoR
  | PostChangePasswordR "go_error + post_change_password_payload"
  | PostCompleteRegisterR "go_error + string"
  | PostForgotPasswordCompleteR "go_error + post_forgot_password_complete_payload"
  | PostForgotPasswordR "go_error + post_forgot_password_payload"
  | PostLoginR "go_error + post_login_payload"
  | PostLogoutR "go_error + post_logout_payload"
  | PostRefreshR "go_error + post_refresh_payload"
  | PostRegisterR "go_error + post_register_payload"
  | DeleteOrganizationMemberR string string
  | GetListOrganizationMembersR string
  | GetListOrganizationsR
  | PostAddOrganizationMemberR string "go_error + add_organization_member_payload"
  | PostCreateOrganizationR "go_error + create_organization_payload"
  | GetListSigningRequestsR "go_error + list_params"
  | PutUpdatePushTokenR "go_error + put_update_push_token_payload"
  | PostApproveSigningRequestR string "go_error + approve_signing_request_payload"
  | PostCreateSigningRequestR "go_error + create_signing_request_payload"
  | PostCreateVaultR "go_error + create_vault_payload"
  | PostCreateWalletR string "go_error + create_wallet_payload"

text \<open>The status with which the handler of a route answers.\<close>

definition status :: "(world, int \<times> 'v) prog \<Rightarrow> (world, int) prog" where
  "status m = bindP m (\<lambda>(c, _). okP c)"

primrec run_route :: "services \<Rightarrow> http_request \<Rightarrow> route \<Rightarrow> (world, int) prog" where
  "run_route sc req (DeleteUserAccountR b) = status (DeleteUserAccountRoute sc b)"
| "run_route sc req (GetCompleteRegisterR b) = status (unguarded (\<lambda>_. getCompleteRegisterHandler (sc_server sc) b))"
| "run_route sc req GetUserInfoR = status (GetUserInfoRoute sc)"
| "run_route sc req (PostChangePasswordR b) = status (PostChangePasswordRoute sc b)"
| "run_route sc req (PostCompleteRegisterR b) = status (unguarded (\<lambda>_. postCompleteRegisterHandler (sc_server sc) (sc_env sc) b))"
| "run_route sc req (PostForgotPasswordCompleteR b) =
     status (unguarded (\<lambda>_. postForgotPasswordCompleteHandler (sc_server sc) (sc_env sc) b))"
| "run_route sc req (PostForgotPasswordR b) = status (unguarded (\<lambda>_. postForgotPasswordHandler (sc_server sc) (sc_env sc) b))"
| "run_route sc req (PostLoginR b) = status (unguarded (\<lambda>_. postLoginHandler (sc_server sc) (sc_env sc) b))"
| "run_route sc req (PostLogoutR b) = status (PostLogoutRoute sc b)"
| "run_route sc req (PostRefreshR b) = status (unguarded (\<lambda>_. postRefreshHandler (sc_server sc) (sc_env sc) b))"
| "run_route sc req (PostRegisterR b) = status (unguarded (\<lambda>_. postRegisterHandler (sc_server sc) (sc_env sc) b))"
| "run_route sc req (DeleteOrganizationMemberR i j) = status (DeleteOrganizationMemberRoute sc i j req)"
| "run_route sc req (GetListOrganizationMembersR i) = status (GetListOrganizationMembersRoute sc i req)"
| "run_route sc req GetListOrganizationsR = status (GetListOrganizationsRoute sc req)"
| "run_route sc req (PostAddOrganizationMemberR i b) = status (PostAddOrganizationMemberRoute sc i b req)"
| "run_route sc req (PostCreateOrganizationR b) = status (PostCreateOrganizationRoute sc b req)"
| "run_route sc req (GetListSigningRequestsR b) = status (GetListSigningRequestsRoute sc b req)"
| "run_route sc req (PutUpdatePushTokenR b) = status (PutUpdatePushTokenRoute sc b req)"
| "run_route sc req (PostApproveSigningRequestR i b) = status (PostApproveSigningRequestRoute sc i b req)"
| "run_route sc req (PostCreateSigningRequestR b) = status (PostCreateSigningRequestRoute sc b req)"
| "run_route sc req (PostCreateVaultR b) = status (PostCreateVaultRoute sc b req)"
| "run_route sc req (PostCreateWalletR i b) = status (PostCreateWalletRoute sc i b req)"

text \<open>
  One request: the route, then the error handler for the error that it returned or that the recover
  middleware made of its panic.  The response is a status and the error body, if there is one.
\<close>

definition serve :: "services \<Rightarrow> string \<Rightarrow> http_request \<Rightarrow> route \<Rightarrow> world \<Rightarrow> (int \<times> public_error option) option \<times> world" where
  "serve sc httpMethod req r w = (case run_route sc req r w of
      (Ok c, t) \<Rightarrow> (Some (c, None), t)
    | (Err x, t) \<Rightarrow> (HTTPErrorHandlerWithConfig (sc_echo_Error sc) (sc_hide sc) x False httpMethod, t)
    | (Panic c, t) \<Rightarrow>
        (HTTPErrorHandlerWithConfig (sc_echo_Error sc) (sc_hide sc) (sc_recovered sc c) False httpMethod, t))"

end
