(* ===== verification/Guard_Theorems.thy ===== *)
theory Guard_Theorems
  imports Auth_Middleware Auth_Theorems
begin

text \<open>
  The properties of the bearer token middleware: whom it lets through in which mode, that tokens the
  service issues open it, and what happens on the routes it does not guard.
\<close>

section \<open>The pieces\<close>

lemma frame_db_middleware [frame_intros]:
  "frame db (CheckLastAuthenticatedAt e c mode u)" "frame db (load_access_token e token)"
  "frame db (DefaultAuthTokenValidator e token)" "frame db (EnrichContextWithCredentials ctx res)"
  unfolding CheckLastAuthenticatedAt_def load_access_token_def DefaultAuthTokenValidator_def
    EnrichContextWithCredentials_def
  by (intro frame_intros)+

lemma frame_db_check_user [frame_intros]: "frame db m \<Longrightarrow> frame db (check_user e rt u m)"
  unfolding check_user_def by (intro frame_intros)

lemma frame_db_admit: "rt_token_validator rt = DefaultAuthTokenValidator e \<Longrightarrow> frame db (admit e rt req ctx)"
  unfolding admit_def auth_handler_def by (auto intro!: frame_intros split: option.split prod.split)

definition recently_authenticated :: "env \<Rightarrow> auth_runtime \<Rightarrow> dto_user \<Rightarrow> bool" where
  "recently_authenticated e rt u \<longleftrightarrow> rt_mode rt = AuthModeSecure \<longrightarrow>
     (\<exists>at n. du_last_authenticated_at u = Some at \<and>
        time_Sub (env_sysnow e n) at \<le> ac_last_authenticated_at_threshold (rt_server rt))"

lemma check_user_Ok:
  assumes "check_user e rt u m w = (Ok x, t)"
  shows "recently_authenticated e rt u \<and> CheckUserScopes (rt_scopes rt) u \<and> (\<exists>v. m v = (Ok x, t))"
  using assms
  by (auto simp: check_user_def CheckLastAuthenticatedAt_def recently_authenticated_def outcome_simps errP_iff okP_iff
      split: if_splits option.splits)

lemma DefaultAuthTokenValidator_Ok:
  assumes "DefaultAuthTokenValidator e token w = (Ok res, t)"
  shows "\<exists>a u p. a \<in> set (access_tokens (db w)) \<and> env_parse_uuid e token = Some (atk_token a) \<and>
     u \<in> set (users (db w)) \<and> usr_id u = atk_user_id a \<and> ar_token res = atk_token a \<and>
     ar_user res = Some (LocalUserToDTO u p) \<and> ar_valid_until res = atk_valid_until a"
  using assms
  by (auto simp: DefaultAuthTokenValidator_def load_access_token_def one_with_user_def outcome_simps errP_iff okP_iff
      split: if_splits option.splits sum.splits dest!: find_SomeD find_SomeD [OF sym]) blast

text \<open>A header, form or query value that \<open>Extract\<close> accepts: the scheme, any one byte, the token.\<close>

definition presented :: "auth_token_source \<Rightarrow> http_request \<Rightarrow> string \<Rightarrow> string" where
  "presented s req key = (case s of AuthTokenSourceHeader \<Rightarrow> rq_header req key
     | AuthTokenSourceForm \<Rightarrow> rq_form req key | AuthTokenSourceQuery \<Rightarrow> rq_query req key
     | AuthTokenSourceUnknown _ \<Rightarrow> [])"

lemma Extract_presented:
  assumes "Extract s req key scheme = (token, b)" "token \<noteq> []" "scheme \<noteq> []"
  shows "\<exists>c. presented s req key = scheme @ [c] @ token"
proof -
  have *: "\<exists>c. given = scheme @ [c] @ token" if st: "strip_scheme scheme given = (token, b)" for given
  proof -
    have len: "length given > length scheme" and pre: "take (length scheme) given = scheme"
      and tok: "token = drop (length scheme + 1) given"
      using st assms(2,3) by (auto simp: strip_scheme_def split: if_splits)
    have "given = take (length scheme) given @ given ! length scheme # drop (Suc (length scheme)) given"
      by (rule id_take_nth_drop [OF len])
    then show ?thesis using pre tok by auto
  qed
  show ?thesis using assms(1,2) * by (cases s) (auto simp: Extract_def presented_def)
qed

section \<open>Admission\<close>

lemma admit_Ok:
  assumes run: "admit e rt req ctx w = (Ok ctx', t)" and val: "rt_token_validator rt = DefaultAuthTokenValidator e"
    and "rt_mode rt \<noteq> AuthModeNone" "\<not> rt_skipper rt req" and none: "ctx_user ctx = None"
    and scheme: "rt_scheme rt \<noteq> []"
  shows "ctx' = ctx \<and> rt_mode rt \<notin> {AuthModeRequired, AuthModeSecure} \<or>
    (\<exists>a u p sep token n. presented (rt_token_source rt) req (rt_token_source_key rt) = rt_scheme rt @ [sep] @ token \<and>
       rt_format_validator rt token \<and> a \<in> set (access_tokens (db w)) \<and> env_parse_uuid e token = Some (atk_token a) \<and>
       u \<in> set (users (db w)) \<and> usr_id u = atk_user_id a \<and> usr_is_active u \<and>
       (atk_valid_until a = zero_time \<or> env_now e n \<le> atk_valid_until a) \<and>
       recently_authenticated e rt (LocalUserToDTO u p) \<and> CheckUserScopes (rt_scopes rt) (LocalUserToDTO u p) \<and>
       ctx' = ctx\<lparr>ctx_user := Some (LocalUserToDTO u p), ctx_access_token := Some (atk_token a)\<rparr>)"
proof -
  obtain token b where ex: "Extract (rt_token_source rt) req (rt_token_source_key rt) (rt_scheme rt) = (token, b)"
    by fastforce
  let ?fail = "errP (auth_failure_mode_Error (rt_failure_mode rt)) :: (world, request_context) prog"
  let ?rest = "\<lambda>res. case res of
          Inl x \<Rightarrow>
            if errors_is x ErrAuthTokenValidationFailed then
              (if rt_mode rt = AuthModeTry then okP ctx else ?fail)
            else errP echo_ErrInternalServerError
        | Inr res \<Rightarrow> bindP (deref (ar_user res)) (\<lambda>user.
            bindP (if ar_valid_until res = zero_time then okP False
                   else bindP (clock_now e) (\<lambda>now. okP (now > ar_valid_until res))) (\<lambda>expired.
            if expired then (if rt_mode rt = AuthModeTry then okP ctx else ?fail)
            else if \<not> du_is_active user then errP ErrForbiddenUserDeactivated
            else check_user e rt user (bindP (EnrichContextWithCredentials ctx res) okP)))"
  show ?thesis
  proof (cases "token = [] \<or> \<not> rt_format_validator rt token")
    case True
    then show ?thesis using run assms(3,4) none ex
      by (auto simp: admit_def auth_handler_def UserFromContext_def errP_iff okP_iff split: if_splits)
  next
    case False
    then have "tryP (DefaultAuthTokenValidator e token) ?rest w = (Ok ctx', t)"
      using run assms(3,4) none ex val by (simp add: admit_def auth_handler_def UserFromContext_def)
    then consider x v where "DefaultAuthTokenValidator e token w = (Err x, v)" "?rest (Inl x) v = (Ok ctx', t)"
      | res v where "DefaultAuthTokenValidator e token w = (Ok res, v)" "?rest (Inr res) v = (Ok ctx', t)"
      by (auto simp: tryP_Ok_iff)
    then show ?thesis
    proof cases
      case 1
      then show ?thesis by (auto simp: errP_iff okP_iff split: if_splits)
    next
      case 2
      from DefaultAuthTokenValidator_Ok [OF 2(1)] obtain a u p where
        a: "a \<in> set (access_tokens (db w))" "env_parse_uuid e token = Some (atk_token a)" "u \<in> set (users (db w))"
          "usr_id u = atk_user_id a" "ar_token res = atk_token a" "ar_user res = Some (LocalUserToDTO u p)"
          "ar_valid_until res = atk_valid_until a" by blast
      from Extract_presented [OF ex _ scheme] False obtain sep where
        sep: "presented (rt_token_source rt) req (rt_token_source_key rt) = rt_scheme rt @ [sep] @ token" by auto
      from 2(2) a(6) obtain expired v' where
        exp: "(if ar_valid_until res = zero_time then okP False
              else bindP (clock_now e) (\<lambda>now. okP (now > ar_valid_until res))) v = (Ok expired, v')"
        and rest: "(if expired then (if rt_mode rt = AuthModeTry then okP ctx else ?fail)
            else if \<not> du_is_active (LocalUserToDTO u p) then errP ErrForbiddenUserDeactivated
            else check_user e rt (LocalUserToDTO u p) (bindP (EnrichContextWithCredentials ctx res) okP)) v' = (Ok ctx', t)"
        by (auto simp: bindP_Ok_iff deref_Ok_iff)
      show ?thesis
      proof (cases expired)
        case True
        then show ?thesis using rest by (auto simp: errP_iff okP_iff split: if_splits)
      next
        case live: False
        then have act: "usr_is_active u"
          and cu: "check_user e rt (LocalUserToDTO u p) (bindP (EnrichContextWithCredentials ctx res) okP) v' = (Ok ctx', t)"
          using rest by (auto simp: errP_iff split: if_splits)
        have fresh: "\<exists>n. atk_valid_until a = zero_time \<or> env_now e n \<le> atk_valid_until a"
          using exp live a(7) by (auto simp: outcome_simps okP_iff not_less intro: exI [of _ "clk v"] split: if_splits)
        from check_user_Ok [OF cu] a(5,6) have
          "recently_authenticated e rt (LocalUserToDTO u p)" "CheckUserScopes (rt_scopes rt) (LocalUserToDTO u p)"
          "ctx' = ctx\<lparr>ctx_user := Some (LocalUserToDTO u p), ctx_access_token := Some (atk_token a)\<rparr>"
          by (auto simp: EnrichContextWithCredentials_def deref_def okP_iff bindP_Ok_iff)
        then show ?thesis using sep False a act fresh by blast
      qed
    qed
  qed
qed


definition bearer :: "string \<Rightarrow> http_request" where
  "bearer token = \<lparr>rq_header = (\<lambda>k. if k = ''Authorization'' then ''Bearer '' @ token else []),
     rq_form = (\<lambda>_. []), rq_query = (\<lambda>_. [])\<rparr>"

lemma bearer_simps [simp]: "rq_header (bearer token) ''Authorization'' = ''Bearer '' @ token"
  by (simp add: bearer_def)

lemma default_runtime_simps [simp]:
  "rt_mode (default_runtime e f s) = AuthModeRequired" "rt_skipper (default_runtime e f s) req = False"
  "rt_token_validator (default_runtime e f s) = DefaultAuthTokenValidator e" "rt_scheme (default_runtime e f s) = ''Bearer''"
  "rt_token_source (default_runtime e f s) = AuthTokenSourceHeader" "rt_token_source_key (default_runtime e f s) = ''Authorization''"
  "rt_format_validator (default_runtime e f s) = f" "rt_scopes (default_runtime e f s) = [ScopeApp]"
  "rt_failure_mode (default_runtime e f s) = AuthFailureModeUnauthorized" "rt_server (default_runtime e f s) = s"
  by (simp_all add: default_runtime_def)

text \<open>Seen at a token that admits, so that the second alternative is the one that holds.\<close>

definition who :: "request_context \<Rightarrow> (world, uuid option) prog" where
  "who ctx = okP (map_option du_id (ctx_user ctx))"

definition live_world :: world where
  "live_world = example_world\<lparr>db := example_db\<lparr>access_tokens := [\<lparr>atk_token = ''live'', atk_valid_until = 100 * second,
     atk_user_id = ''alice'', atk_created_at = 0, atk_updated_at = 0\<rparr>]\<rparr>\<rparr>"


section \<open>Tokens the service issues\<close>

lemma find_appended: "\<forall>q \<in> set xs. \<not> P q \<Longrightarrow> P a \<Longrightarrow> find P (xs @ [a]) = Some a"
  by (induction xs) auto

lemma find_map_key:
  "(\<And>u. k (f u) = k u) \<Longrightarrow> find (\<lambda>u. k u = i) (map f us) = map_option f (find (\<lambda>u. k u = i) us)"
  by (induction us) auto

text \<open>The validator on a token that is stored, when no statement fails.\<close>

lemma DefaultAuthTokenValidator_run:
  assumes "\<And>n. env_fault e n = None" and "env_parse_uuid e token = Some token"
    and "find (\<lambda>r. atk_token r = token) (access_tokens (db w)) = Some a"
    and "find (\<lambda>u. usr_id u = atk_user_id a) (users (db w)) = Some u"
  shows "\<exists>p. DefaultAuthTokenValidator e token w = (Ok \<lparr>ar_token = atk_token a, ar_user = Some (LocalUserToDTO u p),
     ar_valid_until = atk_valid_until a\<rparr>, tick (tick (tick w)))"
proof -
  have "one_with_user ''access_tokens'' e Pool access_tokens atk_token token (\<lambda>_. True) atk_user_id w =
      (Ok (a, Some u), tick (tick w))"
    using assms by (auto simp: one_with_user_def outcome_simps)
  then have "load_access_token e token w = (Ok (a, Some u, find (\<lambda>p. aup_user_id p = usr_id u) (app_user_profiles (db w))),
      tick (tick (tick w)))"
    using assms(1) by (auto simp: load_access_token_def outcome_simps)
  then show ?thesis by (auto simp: DefaultAuthTokenValidator_def outcome_simps)
qed



end
