(* ===== verification/Route_Errors.thy ===== *)
theory Route_Errors
  imports Error_Classes Routes Guard_Theorems
begin

text \<open>
  The errors of the routes: a class of errors that contains the errors the server names itself and
  whatever its libraries and the binder report contains every error a route returns.
\<close>

section \<open>Errors from outside\<close>

primrec left :: "'a + 'b \<Rightarrow> 'a option" where
  "left (Inl x) = Some x"
| "left (Inr y) = None"

primrec binder_error :: "route \<Rightarrow> go_error option" where
  "binder_error (DeleteUserAccountR b) = left b"
| "binder_error (GetCompleteRegisterR b) = left b"
| "binder_error GetUserInfoR = None"
| "binder_error (PostChangePasswordR b) = left b"
| "binder_error (PostCompleteRegisterR b) = left b"
| "binder_error (PostForgotPasswordCompleteR b) = left b"
| "binder_error (PostForgotPasswordR b) = left b"
| "binder_error (PostLoginR b) = left b"
| "binder_error (PostLogoutR b) = left b"
| "binder_error (PostRefreshR b) = left b"
| "binder_error (PostRegisterR b) = left b"
| "binder_error (DeleteOrganizationMemberR i j) = None"
| "binder_error (GetListOrganizationMembersR i) = None"
| "binder_error GetListOrganizationsR = None"
| "binder_error (PostAddOrganizationMemberR i b) = left b"
| "binder_error (PostCreateOrganizationR b) = left b"
| "binder_error (GetListSigningRequestsR b) = left b"
| "binder_error (PutUpdatePushTokenR b) = left b"
| "binder_error (PostApproveSigningRequestR i b) = left b"
| "binder_error (PostCreateSigningRequestR b) = left b"
| "binder_error (PostCreateVaultR b) = left b"
| "binder_error (PostCreateWalletR i b) = left b"

text \<open>The errors of the libraries that a handler passes on.\<close>

definition library_errors :: "services \<Rightarrow> go_error set" where
  "library_errors sc =
     {x. \<exists>n q. env_key (sc_env sc) n q = Inl x} \<union> {x. \<exists>n q. env_sign (sc_env sc) n q = Inl x} \<union>
     {x. \<exists>d ids. sc_where_in sc d ids = Inl x} \<union> {x. \<exists>s. ul_parse (sv_urls (sc_server sc)) s = Inl x} \<union>
     {x. \<exists>name f data. ml_templates (sv_mailer (sc_server sc)) name = Some f \<and> f data = Inl x} \<union>
     {x. \<exists>n m. ml_transport (sv_mailer (sc_server sc)) n m = Some x}"

section \<open>Classes with the named errors\<close>

locale api_class = error_class P for P :: "go_error \<Rightarrow> bool" +
  assumes user_errors: "P ErrForbiddenUserDeactivated" "P ErrBadRequestInvalidPassword" "P ErrForbiddenNotLocalUser"
      "P ErrNotFoundTokenNotFound" "P ErrConflictTokenExpired" "P ErrConflictUserAlreadyExists" "P ErrNotFound"
    and echo_errors: "P echo_ErrUnauthorized" "P echo_ErrForbidden" "P echo_ErrNotFound" "P echo_ErrInternalServerError"
    and push_errors: "P ErrConflictPushToken" "P ErrNotFoundOldPushToken"
    and guard_errors: "P ErrBadRequestMalformedToken" "P ErrUnauthorizedLastAuthenticatedAtExceeded"
      "P ErrForbiddenMissingScopes"
    and validation_errors: "P (NewHTTPValidationError 400 ''generic'' (http_StatusText 400) es)"
    and parameter_errors: "P (EchoHTTPError 400 (MsgString ''invalid status'') None)"
      "P (EchoHTTPError 400 (MsgString ''invalid pagination'') None)"
begin

lemmas named = user_errors echo_errors push_errors guard_errors

lemma validated: "validatePayload (composite es) = Some x \<Longrightarrow> P x"
  by (auto simp: composite_def validatePayload_def validation_errors split: if_splits)

lemma raises_ValidateAndReturn: "raises P (ValidateAndReturn c v (composite es))"
  by (auto simp: ValidateAndReturn_def intro!: raises_intros validated split: option.splits)

lemma raises_valid: "raises P (ValidateAndReturn c v None)"
  by (simp add: ValidateAndReturn_def validatePayload_def raises_intros)

lemma raises_BindAndValidate:
  assumes "\<And>x. left bound = Some x \<Longrightarrow> P x" and "\<And>v. \<exists>es. Validate oa v = composite es"
  shows "raises P (BindAndValidateBody Validate oa bound)" and "raises P (BindAndValidateParam place Validate oa bound)"
proof -
  have "raises P (BindAndValidateBody Validate oa bound) \<and> raises P (BindAndValidateParam place Validate oa bound)"
  proof (cases bound)
    case (Inl x)
    then show ?thesis using assms(1)
      by (auto simp: BindAndValidateBody_def BindAndValidateParam_def intro!: raises_intros wrap)
  next
    case (Inr v)
    obtain es where "Validate oa v = composite es" using assms(2) by blast
    then show ?thesis using Inr validated
      by (auto simp: BindAndValidateBody_def BindAndValidateParam_def intro!: raises_intros split: option.split)
  qed
  then show "raises P (BindAndValidateBody Validate oa bound)" and "raises P (BindAndValidateParam place Validate oa bound)"
    by simp_all
qed

lemmas Validate_defs = PostLoginPayload_Validate_def PostRegisterPayload_Validate_def PostForgotPasswordPayload_Validate_def
  PostForgotPasswordCompletePayload_Validate_def PostChangePasswordPayload_Validate_def PostRefreshPayload_Validate_def
  PostLogoutPayload_Validate_def DeleteUserAccountPayload_Validate_def PutUpdatePushTokenPayload_Validate_def
  CreateVaultPayload_Validate_def CreateWalletPayload_Validate_def CreateOrganizationPayload_Validate_def
  AddOrganizationMemberPayload_Validate_def CreateSigningRequestPayload_Validate_def ApproveSigningRequestPayload_Validate_def
  PostCompleteRegisterRouteParams_Validate_def GetCompleteRegisterRouteParams_Validate_def

text \<open>The guard passes on the errors of what it guards.\<close>

lemma raises_liftP: "raises P (liftP (Ok y))" "raises P (liftP (Panic c))"
  by (simp_all add: raises_def liftP_def)

lemma raises_check_user: "raises P m \<Longrightarrow> raises P (check_user e rt u m)"
  unfolding check_user_def CheckLastAuthenticatedAt_def by (intro raises_intros guard_errors)

lemma failure_mode: "P (auth_failure_mode_Error m)"
  by (cases m) (simp_all add: auth_failure_mode_Error_def echo_errors)

lemma raises_guarded:
  assumes "\<And>ctx. raises P (handler ctx)"
  shows "raises P (guarded sc handler req)"
proof -
  have enrich: "raises P (EnrichContextWithCredentials ctx res)" for ctx res
    unfolding EnrichContextWithCredentials_def by (intro raises_intros)
  have val: "raises P (DefaultAuthTokenValidator e token)" for e token
    unfolding DefaultAuthTokenValidator_def load_access_token_def
    by (intro raises_intros pieces read; auto simp: ErrAuthTokenValidationFailed_def plain echo_errors)
  show ?thesis
    unfolding guarded_def auth_handler_def
    by (intro raises_intros raises_check_user enrich failure_mode guard_errors assms user_errors echo_errors)
      (auto simp: default_runtime_def val)
qed

text \<open>The handlers.\<close>

lemma raises_status: "raises P m \<Longrightarrow> raises P (status m)"
  unfolding status_def by (intro raises_intros)

lemma raises_tryP_any: "(\<And>res. raises P (n res)) \<Longrightarrow> raises P (tryP m n)"
  by (fastforce simp: raises_def tryP_def split: prod.splits outcome.splits)

lemma raises_bind_body:
  assumes "\<And>x. left bound = Some x \<Longrightarrow> P x" and "\<And>oa v. \<exists>es. Validate oa v = composite es"
  shows "raises P (bind_body sc Validate bound)"
  unfolding bind_body_def by (rule raises_BindAndValidate [OF assms])

lemma raises_return_validated:
  "raises P (return_validated sc CreateVaultResponse_Validate a)" "raises P (return_validated sc CreateWalletResponse_Validate b)"
  "raises P (return_validated sc CreateSigningResponse_Validate c)" "raises P (return_validated sc ApproveSigningResponse_Validate d)"
  "raises P (return_validated sc CreateOrganizationResponse_Validate f)"
  "raises P (return_validated sc AddOrganizationMemberResponse_Validate g)"
  "raises P (return_login sv r)" "raises P (ValidateAndReturn n u (GetUserInfoResponse_Validate oa u))"
  unfolding return_validated_def return_login_def CreateVaultResponse_Validate_def CreateWalletResponse_Validate_def
    CreateSigningResponse_Validate_def PostLoginResponse_Validate_def GetUserInfoResponse_Validate_def
    ApproveSigningResponse_Validate_def CreateOrganizationResponse_Validate_def AddOrganizationMemberResponse_Validate_def
  by (rule raises_ValidateAndReturn raises_valid)+

lemma send_mails:
  assumes "\<And>name f data x. ml_templates ml name = Some f \<Longrightarrow> f data = Inl x \<Longrightarrow> P x"
    and "\<And>n m x. ml_transport ml n m = Some x \<Longrightarrow> P x"
  shows "raises P (SendPasswordReset ml to link)" "raises P (SendAccountConfirmation ml to link)"
proof -
  have "raises P (Transport_Send ml m)" for m
    by (rule raisesI) (auto simp: Transport_Send_def assms(2) split: option.splits)
  then have "raises P (send_template ml template what subject to data)" for template what subject data
    unfolding send_template_def
    by (cases "ml_templates ml template")
      (auto simp: ErrEmailTemplateNotFound_def intro!: raises_intros plain wrapped wrap assms(1) split: sum.split)
  then show "raises P (SendPasswordReset ml to link)" "raises P (SendAccountConfirmation ml to link)"
    by (simp_all add: SendPasswordReset_def SendAccountConfirmation_def)
qed

lemma links:
  assumes "\<And>s x. ul_parse ul s = Inl x \<Longrightarrow> P x"
  shows "PasswordResetDeeplinkURL ul b ep t = Inl x \<Longrightarrow> P x" "ConfirmationDeeplinkURL ul b t = Inl x \<Longrightarrow> P x"
    "ConfirmationRequestURL ul b t = Inl x \<Longrightarrow> P x"
  by (auto simp: PasswordResetDeeplinkURL_def ConfirmationDeeplinkURL_def ConfirmationRequestURL_def
      intro!: wrap intro: assms split: sum.splits)

lemma auth_handlers:
  "(\<And>x. left b1 = Some x \<Longrightarrow> P x) \<Longrightarrow> raises P (postLoginHandler sv e b1)"
  "(\<And>x. left b2 = Some x \<Longrightarrow> P x) \<Longrightarrow> raises P (postRefreshHandler sv e b2)"
  "(\<And>x. left b3 = Some x \<Longrightarrow> P x) \<Longrightarrow> raises P (postCompleteRegisterHandler sv e b3)"
  "(\<And>x. left b4 = Some x \<Longrightarrow> P x) \<Longrightarrow> raises P (postForgotPasswordCompleteHandler sv e b4)"
  "(\<And>x. left b5 = Some x \<Longrightarrow> P x) \<Longrightarrow> raises P (postChangePasswordHandler sv e ctx b5)"
  "(\<And>x. left b6 = Some x \<Longrightarrow> P x) \<Longrightarrow> raises P (postLogoutHandler sv e ctx b6)"
  "(\<And>x. left b7 = Some x \<Longrightarrow> P x) \<Longrightarrow> raises P (deleteUserAccountHandler sv e ctx b7)"
  unfolding postLoginHandler_def postRefreshHandler_def postCompleteRegisterHandler_def postForgotPasswordCompleteHandler_def
    postChangePasswordHandler_def postLogoutHandler_def deleteUserAccountHandler_def
  by (intro raises_intros raises_BindAndValidate raises_return_validated auth_operations reset_operation named;
      auto simp: Validate_defs)+

lemma mailing_handlers:
  assumes lib: "\<And>x. x \<in> library_errors sc \<Longrightarrow> P x"
  shows "(\<And>x. left b1 = Some x \<Longrightarrow> P x) \<Longrightarrow> raises P (postRegisterHandler (sc_server sc) e b1)"
    and "(\<And>x. left b2 = Some x \<Longrightarrow> P x) \<Longrightarrow> raises P (postForgotPasswordHandler (sc_server sc) e b2)"
    and "(\<And>x. left b3 = Some x \<Longrightarrow> P x) \<Longrightarrow> raises P (getCompleteRegisterHandler (sc_server sc) b3)"
proof -
  have parse: "P x" if "ul_parse (sv_urls (sc_server sc)) s = Inl x" for s x
    using that by (intro lib) (auto simp: library_errors_def)
  have mail: "raises P (SendPasswordReset (sv_mailer (sc_server sc)) to link)"
      "raises P (SendAccountConfirmation (sv_mailer (sc_server sc)) to link)" for to link
    by (rule send_mails; rule lib; fastforce simp: library_errors_def)+
  show "raises P (postRegisterHandler (sc_server sc) e b1)" if b: "\<And>x. left b1 = Some x \<Longrightarrow> P x"
    unfolding postRegisterHandler_def Let_def
    by (intro raises_intros raises_BindAndValidate raises_return_validated auth_operations named b mail;
        auto simp: Validate_defs intro!: raises_intros links(2) [OF parse] mail split: option.split sum.split)
  show "raises P (postForgotPasswordHandler (sc_server sc) e b2)" if b: "\<And>x. left b2 = Some x \<Longrightarrow> P x"
    unfolding postForgotPasswordHandler_def Let_def
    by (intro raises_intros raises_BindAndValidate auth_operations b mail;
        auto simp: Validate_defs intro!: raises_intros links(1) [OF parse] mail split: option.split sum.split)
  show "raises P (getCompleteRegisterHandler (sc_server sc) b3)" if b: "\<And>x. left b3 = Some x \<Longrightarrow> P x"
    unfolding getCompleteRegisterHandler_def
    by (intro raises_intros raises_BindAndValidate b;
        auto simp: Validate_defs intro!: raises_intros links(3) [OF parse] split: sum.split)
qed

lemma raises_UpdatePushToken: "raises P (UpdatePushToken e request)"
proof -
  have del: "raises P (push_token_delete e h r)" for h r
    unfolding push_token_delete_def by (rule modified)
  have ins: "raises P (push_token_insert e h k)" for h k
    unfolding push_token_insert_def by (intro raises_intros inserted) (simp add: named_errors)
  show ?thesis
    unfolding UpdatePushToken_def UpdatePushToken_tx_def
    by (intro raises_intros pieces del ins named)
qed

lemma raises_getUserInfo: "raises P (getUserInfoHandler sv e ctx)"
proof -
  have reply: "raises P (ValidateAndReturn 200 (User_ToTypes u) (GetUserInfoResponse_Validate oa (User_ToTypes u)))" for u oa
    by (rule raises_return_validated)
  show ?thesis
    unfolding getUserInfoHandler_def Let_def
    by (intro raises_intros auth_operations named reply)
qed

lemma raises_create_wallets: "raises P (create_wallets e v cs)"
  by (induction cs) (auto intro!: raises_intros raises_tryP_any)

lemma raises_FindVault: "raises P (FindVault e i)"
  unfolding FindVault_def by (intro pieces)

lemma custody_handlers:
  assumes key: "\<And>n q x. env_key e n q = Inl x \<Longrightarrow> P x" and sign: "\<And>n q x. env_sign e n q = Inl x \<Longrightarrow> P x"
    and whr: "\<And>d ids x. whr d ids = Inl x \<Longrightarrow> P x"
  shows "raises P (postCreateVaultHandler whr e user name cs)" "raises P (postCreateWalletHandler e user v ch)"
    "raises P (postCreateOrganizationHandler e user name)" "raises P (getListOrganizationsHandler whr e user)"
    "raises P (getListOrganizationMembersHandler e i)" "raises P (postAddOrganizationMemberHandler e i j role)"
    "raises P (deleteOrganizationMemberHandler e i j)" "raises P (getListSigningRequestsHandler e user params)"
    "raises P (postApproveSigningRequestHandler e user i pl)" "raises P (postCreateSigningRequestHandler e user wl txd note)"
proof -
  have params: "validate_list_params params = Some x \<Longrightarrow> P x" for x
    by (auto simp: validate_list_params_def parameter_errors split: if_splits)
  show "raises P (getListSigningRequestsHandler e user params)"
  proof (cases "validate_list_params params")
    case None
    then show ?thesis unfolding getListSigningRequestsHandler_def
      by (simp, intro raises_intros custody_operations named)
  next
    case (Some x)
    then show ?thesis unfolding getListSigningRequestsHandler_def
      by (simp, intro raises_intros wrap params)
  qed
  show "raises P (postCreateVaultHandler whr e user name cs)"
    unfolding postCreateVaultHandler_def
    by (intro raises_intros custody_operations mpc_operations raises_create_wallets named whr)
  show "raises P (postCreateWalletHandler e user v ch)"
    unfolding postCreateWalletHandler_def
    by (intro raises_intros pieces read mpc_operations named raises_FindVault;
        auto simp: named_errors Let_def dest: key split: if_splits)
  show "raises P (postCreateOrganizationHandler e user name)" "raises P (getListOrganizationsHandler whr e user)"
    "raises P (getListOrganizationMembersHandler e i)" "raises P (postAddOrganizationMemberHandler e i j role)"
    "raises P (deleteOrganizationMemberHandler e i j)"
    unfolding postCreateOrganizationHandler_def getListOrganizationsHandler_def getListOrganizationMembersHandler_def
      postAddOrganizationMemberHandler_def deleteOrganizationMemberHandler_def
    by (intro raises_intros custody_operations mpc_operations whr; assumption)+
  show "raises P (postApproveSigningRequestHandler e user i pl)" "raises P (postCreateSigningRequestHandler e user wl txd note)"
    unfolding postApproveSigningRequestHandler_def postCreateSigningRequestHandler_def
    by (intro raises_intros custody_operations mpc_operations sign named; assumption)+
qed

text \<open>Every route.\<close>

lemma raises_routes:
  assumes lib: "\<And>x. x \<in> library_errors sc \<Longrightarrow> P x" and bnd: "\<And>x. binder_error r = Some x \<Longrightarrow> P x"
  shows "raises P (run_route sc req r)"
proof -
  have key: "P x" if "env_key (sc_env sc) n q = Inl x" for n q x
    using that by (intro lib) (unfold library_errors_def, blast)
  have sign: "P x" if "env_sign (sc_env sc) n q = Inl x" for n q x
    using that by (intro lib) (unfold library_errors_def, blast)
  have whr: "P x" if "sc_where_in sc d ids = Inl x" for d ids x
    using that by (intro lib) (unfold library_errors_def, blast)
  have push: "raises P (putUpdatePushTokenHandler sv e ctx b)" if "\<And>x. left b = Some x \<Longrightarrow> P x" for sv e ctx b
    unfolding putUpdatePushTokenHandler_def using that
    by (intro raises_intros raises_BindAndValidate raises_UpdatePushToken; auto simp: Validate_defs)
  note handlers = auth_handlers mailing_handlers [OF lib] raises_getUserInfo push custody_handlers [OF key sign whr]
  note route_defs = DeleteUserAccountRoute_def GetUserInfoRoute_def PostChangePasswordRoute_def PostLogoutRoute_def
    DeleteOrganizationMemberRoute_def GetListOrganizationMembersRoute_def GetListOrganizationsRoute_def
    PostAddOrganizationMemberRoute_def PostCreateOrganizationRoute_def GetListSigningRequestsRoute_def
    PutUpdatePushTokenRoute_def PostApproveSigningRequestRoute_def PostCreateSigningRequestRoute_def
    PostCreateVaultRoute_def PostCreateWalletRoute_def
  show ?thesis
    using bnd
    by (cases r) (simp_all only: run_route.simps binder_error.simps route_defs unguarded_def,
        (intro raises_status raises_guarded raises_intros handlers raises_bind_body raises_return_validated;
          auto simp: Validate_defs intro!: raises_intros wrap handlers raises_return_validated split: sum.split)+)
qed

end

end
