(* ===== verification/Push_Theorems.thy ===== *)
theory Push_Theorems
  imports Push Auth_Theorems
begin

text \<open>
  What updating a push token stores in every outcome, and which tokens the delivery of a message
  removes.
\<close>

section \<open>Updating a token\<close>

lemma push_token_insert_Ok:
  assumes "push_token_insert e Pool k v = (Ok a, x)" and "tx v = Some (db v)"
  shows "db x = (db v)\<lparr>push_tokens := push_tokens (db v) @ [a]\<rparr> \<and> tx x = Some (db x) \<and>
    ptk_token a = ptk_token k \<and> ptk_provider a = ptk_provider k \<and> ptk_user_id a = ptk_user_id k \<and>
    ptk_provider a \<in> {''fcm'', ''apn''} \<and> has_user (db v) (ptk_user_id a) \<and>
    (\<forall>q \<in> set (push_tokens (db v)). ptk_token q \<noteq> ptk_token a \<and> ptk_id q \<noteq> ptk_id a)"
  using assms by (auto simp: push_token_insert_def outcome_simps apply_stmt_def split: if_splits)

lemma fails_clean_push_insert: "fails_clean (push_token_insert e h k)"
  unfolding push_token_insert_def by (intro clean_intros frame_intros)

text \<open>What the transaction's body does to the committed tables and to its view.\<close>

definition added :: "update_push_token_request \<Rightarrow> database \<Rightarrow> push_token_row \<Rightarrow> database \<Rightarrow> bool" where
  "added request d k d' \<longleftrightarrow> d' = d\<lparr>push_tokens := push_tokens d @ [k]\<rparr> \<and> ptk_token k = ut_token request \<and>
     ptk_provider k = ut_provider request \<and> ptk_user_id k = du_id (ut_user request) \<and>
     (\<forall>q \<in> set (push_tokens d). ptk_token q \<noteq> ptk_token k)"

definition old_token :: "update_push_token_request \<Rightarrow> database \<Rightarrow> push_token_row option" where
  "old_token request d = (case ut_existing_token request of None \<Rightarrow> None
     | Some old \<Rightarrow> find (\<lambda>r. ptk_token r = old \<and> ptk_user_id r = du_id (ut_user request)) (push_tokens d))"

lemma one_row_Tx_fail:
  "one_row tn e Tx tab p w = (r, t) \<Longrightarrow> \<not> is_ok r \<Longrightarrow> tx w = Some d \<Longrightarrow>
    r = Err ErrNoRows \<and> find p (tab d) = None \<or> (\<exists>n. env_fault e n \<noteq> None) \<and> (\<exists>x. r = Err x \<and> \<not> errors_is x ErrNoRows)"
  by (auto simp: one_row_def tryP_def query_def stmt_def errP_def okP_def errors_is_def
      split: option.splits if_splits)

lemma UpdatePushToken_tx_cases:
  assumes run: "UpdatePushToken_tx e request v = (r, x)" and tx: "tx v = Some (db v)"
  shows "\<not> is_ok r \<and> db x = db v \<or>
    (\<exists>k. added request (db v) k (db x) \<and>
      (r = Ok () \<and> ut_existing_token request = None \<and> tx x = Some (db x) \<or>
       r = Ok () \<and> (\<exists>q. old_token request (db x) = Some q \<and> tx x = Some (without_push_tokens (\<lambda>r. ptk_id r = ptk_id q) (db x))) \<or>
       r = Err ErrNotFoundOldPushToken \<and> ut_existing_token request \<noteq> None \<and> old_token request (db x) = None \<or>
       \<not> is_ok r \<and> (\<exists>n. env_fault e n \<noteq> None)))"
proof -
  let ?k = "\<lparr>ptk_id = [], ptk_token = ut_token request, ptk_provider = ut_provider request,
          ptk_user_id = du_id (ut_user request), ptk_created_at = zero_time, ptk_updated_at = zero_time\<rparr>"
  let ?owned = "\<lambda>old r. ptk_token r = old \<and> ptk_user_id r = du_id (ut_user request)"
  let ?rest = "case ut_existing_token request of
          None \<Rightarrow> okP ()
        | Some old \<Rightarrow>
            bindP (tryP (one_row ''push_tokens'' e Tx push_tokens (?owned old))
                (\<lambda>res. case res of
                   Inl x \<Rightarrow> if errors_is x ErrNoRows then errP ErrNotFoundOldPushToken else errP x
                 | Inr r \<Rightarrow> okP r)) (push_token_delete e Tx)"
  let ?ex = "rows_exist ''push_tokens'' e Tx push_tokens (\<lambda>r. ptk_token r = ut_token request)"
  obtain r1 v1 where ex: "?ex v = (r1, v1)" by fastforce
  have "frame db ?ex" by (intro frame_intros)
  then have v1: "db v1 = db v" using ex by (rule frameD)
  show ?thesis
  proof (cases "r1 = Ok False")
    case False
    then have "\<not> is_ok r \<and> db x = db v"
      using run ex v1 by (cases r1) (auto simp: UpdatePushToken_tx_def bindP_def errP_def split: if_splits)
    then show ?thesis ..
  next
    case True
    then have t1: "tx v1 = Some (db v1)" and rest: "thenP (push_token_insert e Pool ?k) ?rest v1 = (r, x)"
      using run ex tx v1 by (auto simp: UpdatePushToken_tx_def bindP_def rows_exist_Ok_iff)
    obtain r2 v2 where ins: "push_token_insert e Pool ?k v1 = (r2, v2)" by fastforce
    show ?thesis
    proof (cases r2)
      case (Ok a)
      note A = push_token_insert_Ok [OF ins [unfolded Ok] t1]
      have t2: "tx v2 = Some (db v2)" using A by simp
      have add: "added request (db v) a (db v2)" using A v1 by (auto simp: added_def)
      have rest2: "?rest v2 = (r, x)" using rest ins Ok by (simp add: thenP_def bindP_def)
      show ?thesis
      proof (cases "ut_existing_token request")
        case None
        then show ?thesis using rest2 add A by (auto simp: okP_iff)
      next
        case (Some old)
        have "frame db ?rest" unfolding push_token_delete_def by (intro frame_intros)
        then have dx: "db x = db v2" using rest2 by (rule frameD)
        have old: "old_token request (db v2) = find (?owned old) (push_tokens (db v2))" by (simp add: old_token_def Some)
        obtain r3 v3 where one: "one_row ''push_tokens'' e Tx push_tokens (?owned old) v2 = (r3, v3)" by fastforce
        show ?thesis
        proof (cases "is_ok r3")
          case True
          then obtain q where q: "r3 = Ok q" by (cases r3) auto
          then have q': "old_token request (db v2) = Some q" "tx v3 = Some (db v2)"
            using one t2 by (auto simp: one_row_Ok_iff old)
          have "push_token_delete e Tx q v3 = (r, x)"
            using rest2 one q Some by (simp add: bindP_def tryP_def okP_def)
          then have "r = Ok () \<and> tx x = Some (without_push_tokens (\<lambda>r. ptk_id r = ptk_id q) (db v2)) \<or>
              \<not> is_ok r \<and> env_fault e (clk v3) \<noteq> None"
            using q'(2) by (auto simp: push_token_delete_def modify_stmt_def wrapP_def tryP_def stmt_def okP_def errP_def
                split: option.splits)
          then show ?thesis using add dx q'(1) by auto
        next
          case False
          from one_row_Tx_fail [OF one this, of "db v2"] t2 have
            "r3 = Err ErrNoRows \<and> old_token request (db v2) = None \<or>
             (\<exists>n. env_fault e n \<noteq> None) \<and> (\<exists>y. r3 = Err y \<and> \<not> errors_is y ErrNoRows)" by (simp add: old)
          moreover have "r = (case r3 of Err y \<Rightarrow> if errors_is y ErrNoRows then Err ErrNotFoundOldPushToken else Err y | _ \<Rightarrow> r)"
            using rest2 one Some by (auto simp: bindP_def tryP_def errP_def split: outcome.splits)
          ultimately show ?thesis using add dx Some by auto
        qed
      qed
    next
      case (Err y)
      then have "\<not> is_ok r \<and> db x = db v"
        using rest ins v1 fails_cleanD [OF fails_clean_push_insert ins] by (auto simp: thenP_def bindP_def)
      then show ?thesis ..
    next
      case (Panic c)
      then have "\<not> is_ok r \<and> db x = db v"
        using rest ins v1 fails_cleanD [OF fails_clean_push_insert ins] by (auto simp: thenP_def bindP_def)
      then show ?thesis ..
    qed
  qed
qed

text \<open>
  C27: the outcomes of a token update.  It either changes nothing and fails, or the new token is stored
  for the caller (it was not stored for anybody before).  In the second case it returns normally and the
  old token, if one was given, is gone (or, after a lost commit, still there); or it reports that the old
  token was not found, which leaves the new one stored, as its message says; or a statement failed, and
  the new token is stored all the same.
\<close>

theorem UpdatePushToken_effect:
  assumes "UpdatePushToken e request w = (r, t)"
  shows "\<not> is_ok r \<and> db t = db w \<or>
    (\<exists>k d. added request (db w) k d \<and>
      (r = Ok () \<and> ut_existing_token request = None \<and> db t = d \<or>
       r = Ok () \<and> (\<exists>q. old_token request d = Some q \<and>
         (db t = without_push_tokens (\<lambda>r. ptk_id r = ptk_id q) d \<or> db t = d \<and> (\<exists>n. env_fault e n \<noteq> None))) \<or>
       r = Err (ErrWrap ''failed to execute transaction'' ErrNotFoundOldPushToken) \<and>
         ut_existing_token request \<noteq> None \<and> old_token request d = None \<and> db t = d \<or>
       \<not> is_ok r \<and> db t = d \<and> (\<exists>n. env_fault e n \<noteq> None)))"
proof (cases "env_fault e (clk w) = None")
  case False
  then show ?thesis
    using assms by (auto simp: UpdatePushToken_def WithTransaction_def WithConfiguredTransaction_def begin_tx_def)
next
  case True
  let ?v = "(tick w)\<lparr>tx := Some (db w)\<rparr>"
  obtain r' x where body: "UpdatePushToken_tx e request ?v = (r', x)" by fastforce
  have t: "r = (case r' of Err y \<Rightarrow> Err (ErrWrap ''failed to execute transaction'' y) | _ \<Rightarrow> r')"
    "db t = (if is_ok r' \<and> env_fault e (clk x) = None then (case tx x of None \<Rightarrow> db x | Some d \<Rightarrow> d) else db x)"
    using assms True body
    by (auto simp: UpdatePushToken_def WithTransaction_def WithConfiguredTransaction_def begin_tx_def commit_tx_db
        split: outcome.splits)
  have ok: "is_ok r \<longleftrightarrow> is_ok r'" using t(1) by (cases r') auto
  from UpdatePushToken_tx_cases [OF body] have
    "\<not> is_ok r' \<and> db x = db w \<or>
    (\<exists>k. added request (db w) k (db x) \<and>
      (r' = Ok () \<and> ut_existing_token request = None \<and> tx x = Some (db x) \<or>
       r' = Ok () \<and> (\<exists>q. old_token request (db x) = Some q \<and> tx x = Some (without_push_tokens (\<lambda>r. ptk_id r = ptk_id q) (db x))) \<or>
       r' = Err ErrNotFoundOldPushToken \<and> ut_existing_token request \<noteq> None \<and> old_token request (db x) = None \<or>
       \<not> is_ok r' \<and> (\<exists>n. env_fault e n \<noteq> None)))" by simp
  then show ?thesis
  proof (elim disjE exE conjE)
    assume "\<not> is_ok r'" "db x = db w"
    then show ?thesis using t ok by simp
  next
    fix k assume "added request (db w) k (db x)" "r' = Ok ()" "ut_existing_token request = None" "tx x = Some (db x)"
    then show ?thesis using t by auto
  next
    fix k q assume "added request (db w) k (db x)" "r' = Ok ()" "old_token request (db x) = Some q"
      "tx x = Some (without_push_tokens (\<lambda>r. ptk_id r = ptk_id q) (db x))"
    then show ?thesis using t by (cases "env_fault e (clk x)") (simp, blast)+
  next
    fix k assume "added request (db w) k (db x)" "r' = Err ErrNotFoundOldPushToken" "ut_existing_token request \<noteq> None"
      "old_token request (db x) = None"
    then show ?thesis using t by auto
  next
    fix k n assume "added request (db w) k (db x)" "\<not> is_ok r'" "env_fault e n \<noteq> None"
    then show ?thesis using t ok by auto
  qed
qed

text \<open>A database of alice with one token.\<close>

definition push_world :: world where
  "push_world = example_world\<lparr>db := example_db\<lparr>push_tokens := [\<lparr>ptk_id = ''p1'', ptk_token = ''phone'', ptk_provider = ''fcm'',
     ptk_user_id = ''alice'', ptk_created_at = 0, ptk_updated_at = 0\<rparr>]\<rparr>\<rparr>"

definition push_request :: "string \<Rightarrow> string option \<Rightarrow> update_push_token_request" where
  "push_request new old = \<lparr>ut_user = LocalUserToDTO alice None, ut_token = new, ut_provider = ''fcm'', ut_existing_token = old\<rparr>"

theorem UpdatePushToken_effect_witness:
  "\<exists>t k d. UpdatePushToken example_env (push_request ''tablet'' (Some ''watch'')) push_world =
      (Err (ErrWrap ''failed to execute transaction'' ErrNotFoundOldPushToken), t) \<and>
    added (push_request ''tablet'' (Some ''watch'')) (db push_world) k d \<and> db t = d"
proof -
  have "case UpdatePushToken example_env (push_request ''tablet'' (Some ''watch'')) push_world of (r, t) \<Rightarrow>
      r = Err (ErrWrap ''failed to execute transaction'' ErrNotFoundOldPushToken) \<and> length (push_tokens (db t)) = 2"
    by code_simp
  then obtain t where t: "UpdatePushToken example_env (push_request ''tablet'' (Some ''watch'')) push_world =
      (Err (ErrWrap ''failed to execute transaction'' ErrNotFoundOldPushToken), t)" "length (push_tokens (db t)) = 2"
    by (auto split: prod.splits)
  have "db t \<noteq> db push_world" using t(2) by (auto simp: push_world_def)
  with UpdatePushToken_effect [OF t(1)] t(1) show ?thesis by auto
qed

text \<open>A client that names its new token as the old one loses it: the row just inserted is deleted.\<close>

lemma same_token_is_lost:
  assumes "added request d k d'" "ut_existing_token request = Some (ut_token request)"
    and fresh: "\<forall>q \<in> set (push_tokens d). ptk_id q \<noteq> ptk_id k"
  shows "old_token request d' = Some k \<and> without_push_tokens (\<lambda>r. ptk_id r = ptk_id k) d' = d"
proof -
  have k: "d' = d\<lparr>push_tokens := push_tokens d @ [k]\<rparr>" "ptk_token k = ut_token request"
    "ptk_user_id k = du_id (ut_user request)" "\<forall>q \<in> set (push_tokens d). ptk_token q \<noteq> ptk_token k"
    using assms(1) by (auto simp: added_def)
  have "find P xs = None \<Longrightarrow> find P (xs @ [k]) = (if P k then Some k else None)" for P xs
    by (induction xs) auto
  moreover have "find (\<lambda>r. ptk_token r = ut_token request \<and> ptk_user_id r = du_id (ut_user request)) (push_tokens d) = None"
    using k by (auto simp: find_None_iff)
  ultimately have "old_token request d' = Some k" using k assms(2) by (simp add: old_token_def)
  moreover have "filter (\<lambda>r. ptk_id r \<noteq> ptk_id k) (push_tokens d) = push_tokens d" using fresh by (simp add: filter_id_conv)
  ultimately show ?thesis using k(1) by (simp add: without_push_tokens_def)
qed

lemma UpdatePushToken_same_token_stores_nothing:
  "\<exists>t. UpdatePushToken example_env (push_request ''tablet'' (Some ''tablet'')) push_world = (Ok (), t) \<and>
     map ptk_token (push_tokens (db t)) = [''phone'']"
proof -
  have "case UpdatePushToken example_env (push_request ''tablet'' (Some ''tablet'')) push_world of (r, t) \<Rightarrow>
      r = Ok () \<and> map ptk_token (push_tokens (db t)) = [''phone'']"
    by code_simp
  then show ?thesis by (auto split: prod.splits)
qed

section \<open>Delivery\<close>

lemma distinct_tokens: "distinct (map ptk_token ks) \<Longrightarrow> k \<in> set ks \<Longrightarrow> k' \<in> set ks \<Longrightarrow> ptk_token k = ptk_token k' \<Longrightarrow> k = k'"
  by (auto simp: distinct_map dest: inj_onD)

text \<open>What one provider's answers do to the tokens of a user.\<close>

definition answered :: "provider \<Rightarrow> string \<Rightarrow> string \<Rightarrow> push_token_row \<Rightarrow> bool \<Rightarrow> bool" where
  "answered p title message k valid \<longleftrightarrow> (\<exists>n tokens resp. resp \<in> set (pv_send_multicast p n tokens title message) \<and>
     psr_token resp = ptk_token k \<and> psr_valid resp = valid)"

lemma send_to_providers_run:
  assumes ok: "\<And>n. env_fault e n = None"
    and ps: "\<forall>(ty, p) \<in> set ps. ty \<in> {''fcm'', ''apn''} \<and> push_provider (pv_send_multicast p)"
    and "distinct (map fst ps)" and "distinct (map ptk_token (push_tokens (db w)))" and "tx w = None"
  shows "\<exists>t. send_to_providers e user title message ps w = (Ok (), t) \<and>
    (\<exists>P. db t = (db w)\<lparr>push_tokens := filter P (push_tokens (db w))\<rparr>) \<and>
    (\<forall>k \<in> set (push_tokens (db w)). ptk_user_id k \<noteq> du_id user \<or> ptk_provider k \<notin> fst ` set ps \<longrightarrow> k \<in> set (push_tokens (db t))) \<and>
    (\<forall>k \<in> set (push_tokens (db w)). \<forall>p. ptk_user_id k = du_id user \<and> (ptk_provider k, p) \<in> set ps \<longrightarrow>
       answered p title message k (k \<in> set (push_tokens (db t))))"
  using assms(2-5)
proof (induction ps arbitrary: w)
  case Nil
  show ?case by (auto simp: okP_iff intro!: exI [of _ "\<lambda>_. True"])
next
  case (Cons tp ps)
  obtain ty p where tp: "tp = (ty, p)" by fastforce
  have law: "push_provider (pv_send_multicast p)" and ty: "ty \<in> {''fcm'', ''apn''}" "ty \<notin> fst ` set ps"
    using Cons.prems(1,2) tp by auto
  let ?u = "du_id user" and ?all = "push_tokens (db w)"
  define ks where "ks = filter (\<lambda>r. ptk_provider r = ty \<and> ptk_user_id r = ?u) ?all"
  define rs where "rs = pv_send_multicast p (Suc (clk w)) (map ptk_token ks) title message"
  define w1 where "w1 = (tick (tick (tick w)))\<lparr>db := without_push_tokens
     (\<lambda>r. ptk_token r \<in> set (tokenToDelete rs) \<and> ptk_user_id r = ?u) (db w)\<rparr>"
  have toks: "map psr_token rs = map ptk_token ks" unfolding rs_def by (rule push_provider.answers_tokens [OF law])
  have run: "send_to_providers e user title message (tp # ps) w = send_to_providers e user title message ps w1"
    using ok ty(1) Cons.prems(4)
    by (cases w) (simp add: tp bindP_def thenP_def provider_tokens_def wrapP_def tryP_def query_def stmt_def okP_def send_multicast_def
        modify_stmt_def rs_def ks_def w1_def tick_def)
  have keep: "k \<in> set (push_tokens (db w1)) \<longleftrightarrow> k \<in> set ?all \<and> \<not> (ptk_token k \<in> set (tokenToDelete rs) \<and> ptk_user_id k = ?u)" for k
    by (auto simp: w1_def without_push_tokens_def)
  have gone: "set (tokenToDelete rs) \<subseteq> ptk_token ` set ks"
    using push_provider.deletes_only_sent [OF law, of "Suc (clk w)" "map ptk_token ks" title message] by (simp add: rs_def)
  have mine: "k \<in> set ks" if "k \<in> set ?all" "ptk_token k \<in> set (tokenToDelete rs)" for k
  proof -
    from that(2) gone obtain k' where "k' \<in> set ks" "ptk_token k = ptk_token k'" by auto
    then show ?thesis using distinct_tokens [OF Cons.prems(3) that(1), of k'] by (auto simp: ks_def)
  qed
  have ans: "answered p title message k (k \<in> set (push_tokens (db w1)))" if k: "k \<in> set ks" for k
  proof -
    have "ptk_token k \<in> set (map psr_token rs)" using k by (simp add: toks)
    then obtain resp where r: "resp \<in> set rs" "psr_token resp = ptk_token k" by auto
    have "distinct (map psr_token rs)"
      unfolding toks ks_def by (rule distinct_map_filter_key [OF Cons.prems(3)])
    then have "ptk_token k \<in> set (tokenToDelete rs) \<longleftrightarrow> \<not> psr_valid resp"
      using r by (auto simp: tokenToDelete_def distinct_map image_iff dest: inj_onD)
    then have "psr_valid resp = (k \<in> set (push_tokens (db w1)))" using k keep by (auto simp: ks_def)
    then show ?thesis using r unfolding answered_def rs_def by blast
  qed
  have dist: "distinct (map ptk_token (push_tokens (db w1)))"
    by (simp add: w1_def without_push_tokens_def distinct_map_filter_key Cons.prems(3))
  have "distinct (map fst ps)" "\<forall>(ty, p) \<in> set ps. ty \<in> {''fcm'', ''apn''} \<and> push_provider (pv_send_multicast p)" "tx w1 = None"
    using Cons.prems by (auto simp: w1_def)
  from Cons.IH [OF this(2,1) dist this(3)] obtain t P where
    t: "send_to_providers e user title message ps w1 = (Ok (), t)"
      "db t = (db w1)\<lparr>push_tokens := filter P (push_tokens (db w1))\<rparr>"
    and other: "\<And>k. k \<in> set (push_tokens (db w1)) \<Longrightarrow> ptk_user_id k \<noteq> ?u \<or> ptk_provider k \<notin> fst ` set ps \<Longrightarrow> k \<in> set (push_tokens (db t))"
    and later: "\<And>k p. k \<in> set (push_tokens (db w1)) \<Longrightarrow> ptk_user_id k = ?u \<Longrightarrow> (ptk_provider k, p) \<in> set ps \<Longrightarrow>
       answered p title message k (k \<in> set (push_tokens (db t)))" by blast
  have sub: "k \<in> set (push_tokens (db t)) \<Longrightarrow> k \<in> set (push_tokens (db w1))" for k by (simp add: t(2))
  have "db t = (db w)\<lparr>push_tokens := filter (\<lambda>r. P r \<and> \<not> (ptk_token r \<in> set (tokenToDelete rs) \<and> ptk_user_id r = ?u)) ?all\<rparr>"
    by (simp add: t(2) w1_def without_push_tokens_def conj_commute)
  moreover have "k \<in> set (push_tokens (db t))"
    if "k \<in> set ?all" "ptk_user_id k \<noteq> ?u \<or> ptk_provider k \<notin> fst ` set (tp # ps)" for k
    using that mine [OF that(1)] by (intro other) (auto simp: keep ks_def tp)
  moreover have "answered q title message k (k \<in> set (push_tokens (db t)))"
    if k: "k \<in> set ?all" "ptk_user_id k = ?u" "(ptk_provider k, q) \<in> set (tp # ps)" for k q
  proof (cases "ptk_provider k = ty")
    case True
    then have "q = p" using k(3) ty(2) tp by force
    have "k \<in> set ks" using k True by (simp add: ks_def)
    moreover have "k \<in> set (push_tokens (db t)) \<longleftrightarrow> k \<in> set (push_tokens (db w1))"
      using other [of k] sub [of k] True ty(2) by auto
    ultimately show ?thesis using ans \<open>q = p\<close> by simp
  next
    case False
    then have "k \<notin> set ks" by (auto simp: ks_def)
    then have "k \<in> set (push_tokens (db w1))" using k mine by (auto simp: keep)
    then show ?thesis using later k False tp by auto
  qed
  ultimately show ?case using run t(1) by (intro exI [of _ t] conjI) auto
qed



end
