(* ===== verification/Http_Theorems.thy ===== *)
theory Http_Theorems
  imports Route_Errors Push_Theorems
begin

text \<open>
  The API as its clients see it: which errors reach them and in which shape, what the error handler
  hides, and what the routes that need no authentication reveal.
\<close>

section \<open>Errors the schema allows\<close>

definition schema_ok :: "go_error \<Rightarrow> bool" where
  "schema_ok x \<longleftrightarrow> (\<forall>y \<in> set (err_chain x). case y of
      HTTPError c ty title detail i ad \<Rightarrow> 100 \<le> c \<and> c \<le> 599 \<and> ty \<in> set PublicHTTPErrorType_enum
    | HTTPValidationError c ty title detail es i ad \<Rightarrow> 100 \<le> c \<and> c \<le> 599 \<and> ty \<in> set PublicHTTPErrorType_enum
    | EchoHTTPError c m i \<Rightarrow> 100 \<le> c \<and> c \<le> 599
    | _ \<Rightarrow> True)"

lemmas named_error_defs = NewHTTPError_def NewHTTPErrorWithDetail_def NewHTTPValidationError_def PublicHTTPErrorType_enum_def
  ErrForbiddenUserDeactivated_def ErrBadRequestInvalidPassword_def ErrForbiddenNotLocalUser_def ErrNotFoundTokenNotFound_def
  ErrConflictTokenExpired_def ErrConflictUserAlreadyExists_def echo_ErrUnauthorized_def ErrNotFound_def echo_ErrForbidden_def
  echo_ErrNotFound_def ErrConflictPushToken_def ErrNotFoundOldPushToken_def ErrBadRequestMalformedToken_def
  ErrUnauthorizedLastAuthenticatedAtExceeded_def ErrForbiddenMissingScopes_def echo_ErrInternalServerError_def

interpretation valid_errors: api_class schema_ok
  by unfold_locales (simp_all add: schema_ok_def named_error_defs)

text \<open>The body of the response to an error.\<close>

definition error_body :: "(int \<Rightarrow> echo_message \<Rightarrow> string option \<Rightarrow> string) \<Rightarrow> bool \<Rightarrow> go_error \<Rightarrow> public_error" where
  "error_body echo hide x = public_part (result_error echo hide x)"

lemma HTTPErrorHandler_body:
  "HTTPErrorHandlerWithConfig echo hide x False httpMethod =
     Some (pe_code (error_body echo hide x), if httpMethod = ''HEAD'' then None else Some (error_body echo hide x))"
  by (simp add: HTTPErrorHandlerWithConfig_def error_body_def Let_def)

lemma errors_asD: "errors_as P x = Some y \<Longrightarrow> y \<in> set (err_chain x) \<and> P y"
  by (auto simp: errors_as_def dest: find_SomeD)

lemma result_error_cases [case_names http validation echo other]:
  obtains h where "errors_as is_HTTPError x = Some h"
  | v where "errors_as is_HTTPError x = None" "errors_as is_HTTPValidationError x = Some v"
  | ec where "errors_as is_HTTPError x = None" "errors_as is_HTTPValidationError x = None" "errors_as is_EchoHTTPError x = Some ec"
  | "errors_as is_HTTPError x = None" "errors_as is_HTTPValidationError x = None" "errors_as is_EchoHTTPError x = None"
  by fastforce

lemmas error_body_defs = error_body_def result_error_def public_part_def hide_details_def Let_def
  is_HTTPError_def is_HTTPValidationError_def is_EchoHTTPError_def

lemma error_body_valid:
  assumes "schema_ok x"
  shows "100 \<le> pe_code (error_body echo hide x) \<and> pe_code (error_body echo hide x) \<le> 599 \<and>
    pe_type (error_body echo hide x) \<in> set PublicHTTPErrorType_enum"
proof -
  have generic: "''generic'' \<in> set PublicHTTPErrorType_enum" by (simp add: PublicHTTPErrorType_enum_def)
  show ?thesis
  proof (cases x rule: result_error_cases)
    case (http h)
    with errors_asD [OF http] assms show ?thesis
      by (auto simp: error_body_defs schema_ok_def split: go_error.splits)
  next
    case (validation v)
    with errors_asD [OF validation(2)] assms show ?thesis
      by (auto simp: error_body_defs schema_ok_def split: go_error.splits)
  next
    case (echo ec)
    with errors_asD [OF echo(3)] assms generic show ?thesis
      by (auto simp: error_body_defs schema_ok_def split: go_error.splits)
  next
    case other
    then show ?thesis using generic by (simp add: error_body_def result_error_def public_part_def)
  qed
qed

lemma error_body_schema: "schema_ok x \<Longrightarrow> PublicHTTPError_Validate oa (error_body echo hide x) = None"
  using error_body_valid [of x echo hide] by (simp add: PublicHTTPError_Validate_def composite_def field_error_def)

section \<open>Statuses of success\<close>

definition yields :: "('a \<Rightarrow> bool) \<Rightarrow> (world, 'a) prog \<Rightarrow> bool" where
  "yields Q m \<longleftrightarrow> (\<forall>w x t. m w = (Ok x, t) \<longrightarrow> Q x)"

named_theorems yields_intros \<open>composition rules for the results of programs\<close>

lemma yields_ends [yields_intros]:
  "Q x \<Longrightarrow> yields Q (okP x)" "yields Q (errP y)" "yields Q (panicP c)"
  by (auto simp: yields_def okP_def errP_def panicP_def)

lemma yields_binds [yields_intros]:
  "(\<And>x. yields Q (f x)) \<Longrightarrow> yields Q (bindP m f)" "yields Q n \<Longrightarrow> yields Q (thenP l n)"
  "(\<And>r. yields Q (g r)) \<Longrightarrow> yields Q (tryP m g)"
  by (fastforce simp: yields_def bindP_def thenP_def tryP_def split: prod.splits outcome.splits)+

lemma yields_branches [yields_intros]:
  "yields Q m \<Longrightarrow> yields Q n \<Longrightarrow> yields Q (if b then m else n)"
  "yields Q m \<Longrightarrow> (\<And>x. yields Q (h x)) \<Longrightarrow> yields Q (case z of None \<Rightarrow> m | Some x \<Rightarrow> h x)"
  "(\<And>x. yields Q (k x)) \<Longrightarrow> (\<And>x. yields Q (l x)) \<Longrightarrow> yields Q (case y of Inl x \<Rightarrow> k x | Inr x \<Rightarrow> l x)"
  "(\<And>x y. yields Q (p x y)) \<Longrightarrow> yields Q (case q of (x, y) \<Rightarrow> p x y)"
  "(\<And>x. yields Q (k' x)) \<Longrightarrow> yields Q (let x = v in k' x)"
  by (auto split: option.split prod.split sum.split)

definition success :: "int \<times> 'v \<Rightarrow> bool" where
  "success r \<longleftrightarrow> fst r \<in> {200, 202, 204}"

lemma yields_returns [yields_intros]:
  "yields success (ValidateAndReturn 200 v res)" "yields success (return_validated sc Validate v)" "yields success (return_login sv l)"
  unfolding return_validated_def return_login_def ValidateAndReturn_def
  by (intro yields_intros; simp add: success_def)+

lemma yields_guarded [yields_intros]: "(\<And>ctx. yields Q (handler ctx)) \<Longrightarrow> yields Q (guarded sc handler req)"
  unfolding guarded_def auth_handler_def check_user_def by (intro yields_intros)

lemma yields_status: "yields success m \<Longrightarrow> yields (\<lambda>c. c \<in> {200, 202, 204}) (status m)"
  by (fastforce simp: yields_def success_def status_def bindP_def okP_def split: prod.splits outcome.splits)

lemmas route_defs = DeleteUserAccountRoute_def GetUserInfoRoute_def PostChangePasswordRoute_def PostLogoutRoute_def
  DeleteOrganizationMemberRoute_def GetListOrganizationMembersRoute_def GetListOrganizationsRoute_def
  PostAddOrganizationMemberRoute_def PostCreateOrganizationRoute_def GetListSigningRequestsRoute_def
  PutUpdatePushTokenRoute_def PostApproveSigningRequestRoute_def PostCreateSigningRequestRoute_def
  PostCreateVaultRoute_def PostCreateWalletRoute_def

lemmas handler_defs = postLoginHandler_def postRefreshHandler_def postCompleteRegisterHandler_def
  getCompleteRegisterHandler_def postForgotPasswordHandler_def postForgotPasswordCompleteHandler_def postChangePasswordHandler_def
  postLogoutHandler_def deleteUserAccountHandler_def getUserInfoHandler_def putUpdatePushTokenHandler_def

lemma yields_relabelled: "yields success m \<Longrightarrow> yields success (bindP m (\<lambda>(c, r). okP (c, f r)))"
  by (fastforce simp: yields_def success_def bindP_def okP_def split: prod.splits outcome.splits)

lemma yields_register [yields_intros]: "yields success (postRegisterHandler sv e b)"
proof -
  have *: "yields success (bindP m (\<lambda>l. bindP (return_login sv l) (\<lambda>(c, r). okP (c, Inl r))))" for m
    by (rule yields_binds(1), rule yields_relabelled, rule yields_returns(3))
  show ?thesis
    unfolding postRegisterHandler_def Let_def
    by (rule yields_binds, rule yields_binds, rule yields_branches) (rule *, intro yields_intros, simp add: success_def)
qed

lemma route_statuses: "yields (\<lambda>c. c \<in> {200, 202, 204}) (run_route sc req r)"
  by (cases r) (simp_all only: run_route.simps route_defs handler_defs unguarded_def Let_def,
      (intro yields_status yields_intros; simp add: success_def)+)

section \<open>Responses\<close>

lemma serve_cases:
  assumes "serve sc httpMethod req r w = (response, t)"
  obtains c where "response = Some (c, None)" "c \<in> {200, 202, 204}"
  | x where "run_route sc req r w = (Err x, t)"
      "response = HTTPErrorHandlerWithConfig (sc_echo_Error sc) (sc_hide sc) x False httpMethod"
  | c where "response = HTTPErrorHandlerWithConfig (sc_echo_Error sc) (sc_hide sc) (sc_recovered sc c) False httpMethod"
  using assms route_statuses [of sc req r]
  by (cases "run_route sc req r w" rule: prod.exhaust, cases "fst (run_route sc req r w)")
    (fastforce simp: serve_def yields_def split: outcome.splits)+

text \<open>A server with ordinary libraries, used in the examples.\<close>

definition example_openapi :: openapi where
  "example_openapi = \<lparr>oa_format = (\<lambda>f s. s \<noteq> []), oa_min_length = (\<lambda>n s. n \<le> int (length s)),
     oa_max_length = (\<lambda>n s. int (length s) \<le> n), oa_message = (\<lambda>check name place. name @ '' in '' @ place @ '': '' @ check)\<rparr>"

definition example_server :: server where
  "example_server = \<lparr>sv_auth = example_auth_config, sv_openapi = example_openapi,
     sv_urls = \<lparr>ul_parse = (\<lambda>s. Inr \<lparr>ur_rest = s, ur_path = [], ur_raw_query = []\<rparr>), ul_query = (\<lambda>_ _. []),
       ul_encode = (\<lambda>q. ''token='' @ concat (q ''token'')),
       ul_string = (\<lambda>u. ur_rest u @ ur_path u @ ''?'' @ ur_raw_query u), ul_join = concat\<rparr>,
     sv_mailer = \<lparr>ml_default_sender = ''vault'', ml_send = True, ml_templates = (\<lambda>_. Some (\<lambda>d. Inr (concat (map snd d)))),
       ml_transport = (\<lambda>_ _. None)\<rparr>,
     sv_frontend_base_url = ''https:'', sv_password_reset_endpoint = ''/reset'', sv_echo_base_url = ''https:''\<rparr>"

definition example_services :: services where
  "example_services = \<lparr>sc_env = example_env, sc_server = example_server, sc_is_uuid4 = (\<lambda>_. True),
     sc_where_in = (\<lambda>_ _. Inl (ErrDriver ''pq: syntax error'')), sc_echo_Error = (\<lambda>c m i. []),
     sc_recovered = ErrPlain, sc_hide = True\<rparr>"

lemma example_library_errors: "library_errors example_services = {ErrDriver ''pq: syntax error''}"
  by (auto simp: library_errors_def example_services_def example_server_def example_env_def)

section \<open>Every response is what the schema says\<close>

text \<open>
  C19: the type of responses.  Whatever a request contains and whatever fails while it is served, the
  server answers: with 200, 202 or 204, or with an error whose status is a valid HTTP status and whose
  body (absent for a HEAD) is an instance of the schema PublicHTTPError with that status.
\<close>

theorem every_response_is_valid:
  assumes "\<And>x. x \<in> library_errors sc \<Longrightarrow> schema_ok x" and "\<And>x. binder_error r = Some x \<Longrightarrow> schema_ok x"
    and "\<And>c. schema_ok (sc_recovered sc c)"
  shows "\<exists>c b. fst (serve sc httpMethod req r w) = Some (c, b) \<and>
    (b = None \<and> c \<in> {200, 202, 204} \<or>
     100 \<le> c \<and> c \<le> 599 \<and> (b = None \<longleftrightarrow> httpMethod = ''HEAD'') \<and>
     (\<forall>body. b = Some body \<longrightarrow> pe_code body = c \<and> PublicHTTPError_Validate oa body = None))"
proof -
  have error: "\<exists>c b. HTTPErrorHandlerWithConfig echo hide x False httpMethod = Some (c, b) \<and>
     100 \<le> c \<and> c \<le> 599 \<and> (b = None \<longleftrightarrow> httpMethod = ''HEAD'') \<and>
     (\<forall>body. b = Some body \<longrightarrow> pe_code body = c \<and> PublicHTTPError_Validate oa body = None)" if "schema_ok x" for echo hide x
    using error_body_valid [OF that] error_body_schema [OF that] by (simp add: HTTPErrorHandler_body)
  obtain response t where "serve sc httpMethod req r w = (response, t)" by fastforce
  then show ?thesis
  proof (cases rule: serve_cases)
    case (2 x)
    have "schema_ok x" using valid_errors.raises_routes [OF assms(1,2)] 2(1) by (rule raisesD)
    from error [OF this, of "sc_echo_Error sc" "sc_hide sc"] 2(2) \<open>serve _ _ _ _ _ = _\<close> show ?thesis by auto
  next
    case (3 c)
    from error [OF assms(3) [of c], of "sc_echo_Error sc" "sc_hide sc"] 3 \<open>serve _ _ _ _ _ = _\<close> show ?thesis by auto
  qed (use \<open>serve _ _ _ _ _ = _\<close> in auto)
qed

definition unsupported_media_type :: go_error where
  "unsupported_media_type = EchoHTTPError 415 (MsgString ''Unsupported Media Type'') None"

theorem every_response_is_valid_witness:
  "\<exists>c b. fst (serve example_services ''POST'' (bearer ''live'') (PostLoginR (Inl unsupported_media_type)) live_world) = Some (c, b) \<and>
    (b = None \<and> c \<in> {200, 202, 204} \<or>
     100 \<le> c \<and> c \<le> 599 \<and> (b = None \<longleftrightarrow> ''POST'' = ''HEAD'') \<and>
     (\<exists>body. b = Some body \<and> pe_code body = c \<and> PublicHTTPError_Validate example_openapi body = None))"
proof -
  have "schema_ok x" if "x \<in> library_errors example_services" for x
    using that by (simp add: example_library_errors schema_ok_def)
  moreover have "schema_ok x" if "binder_error (PostLoginR (Inl unsupported_media_type)) = Some x" for x
    using that by (auto simp: schema_ok_def unsupported_media_type_def)
  moreover have "schema_ok (sc_recovered example_services c)" for c
    by (simp add: example_services_def schema_ok_def)
  ultimately show ?thesis
    using every_response_is_valid [of example_services "PostLoginR (Inl unsupported_media_type)" "''POST''" "bearer ''live''"
        live_world example_openapi] by auto
qed

section \<open>Internal errors stay internal\<close>

text \<open>The bodies the server has for errors, apart from those of the validation.\<close>

definition error_answer :: "int \<Rightarrow> string \<Rightarrow> string \<Rightarrow> string \<Rightarrow> public_error" where
  "error_answer c ty title detail =
     \<lparr>pe_code = c, pe_type = ty, pe_title = title, pe_detail = detail, pe_validation_errors = None\<rparr>"

definition public_bodies :: "public_error list" where
  "public_bodies =
     [error_answer 500 ''generic'' ''Internal Server Error'' [],
      error_answer 401 ''generic'' ''Unauthorized'' [],
      error_answer 403 ''generic'' ''Forbidden'' [],
      error_answer 404 ''generic'' ''Not Found'' [],
      error_answer 400 ''generic'' ''invalid status'' [],
      error_answer 400 ''generic'' ''invalid pagination'' [],
      error_answer 403 ''USER_DEACTIVATED'' ''User account is deactivated'' [],
      error_answer 403 ''NOT_LOCAL_USER'' ''User account is not valid for local authentication'' [],
      error_answer 403 ''MISSING_SCOPES'' ''User is missing required scopes'' [],
      error_answer 404 ''TOKEN_NOT_FOUND'' ''Provided token was not found'' [],
      error_answer 409 ''TOKEN_EXPIRED'' ''Provided token has expired and is no longer valid'' [],
      error_answer 409 ''USER_ALREADY_EXISTS'' ''User with given username already exists'' [],
      error_answer 400 ''INVALID_PASSWORD'' ''The password provided was invalid''
        ''Password was either too weak or did not match other criteria'',
      error_answer 409 ''PUSH_TOKEN_ALREADY_EXISTS'' ''The given token already exists.'' [],
      error_answer 404 ''OLD_PUSH_TOKEN_NOT_FOUND'' ''The old push token does not exists. The new token was saved.'' [],
      error_answer 400 ''MALFORMED_TOKEN'' ''Auth token is malformed'' [],
      error_answer 401 ''LAST_AUTHENTICATED_AT_EXCEEDED''
        ''LastAuthenticatedAt timestamp exceeds threshold, re-authentication required'' []]"

definition validation_answer :: "(string \<times> string \<times> string) list \<Rightarrow> public_error" where
  "validation_answer es = \<lparr>pe_code = 400, pe_type = ''generic'', pe_title = ''Bad Request'', pe_detail = [], pe_validation_errors = Some es\<rparr>"

definition discreet :: "public_error set \<Rightarrow> (int \<Rightarrow> echo_message \<Rightarrow> string option \<Rightarrow> string) \<Rightarrow> go_error \<Rightarrow> bool" where
  "discreet S echo x \<longleftrightarrow> error_body echo True x \<in> set public_bodies \<union> range validation_answer \<union> S"

lemma error_body_wrap: "error_body echo True (ErrWrap m x) = error_body echo True x"
proof -
  have "errors_as is_HTTPError (ErrWrap m x) = errors_as is_HTTPError x"
    "errors_as is_HTTPValidationError (ErrWrap m x) = errors_as is_HTTPValidationError x"
    "errors_as is_EchoHTTPError (ErrWrap m x) = errors_as is_EchoHTTPError x"
    by (simp_all add: errors_as_def is_HTTPError_def is_HTTPValidationError_def is_EchoHTTPError_def)
  then show ?thesis by (simp add: error_body_def result_error_def public_part_def split: option.split)
qed

text \<open>An error without an HTTP error in its chain is answered with 500 and nothing else.\<close>

definition no_http_error :: "go_error \<Rightarrow> bool" where
  "no_http_error x \<longleftrightarrow> (\<forall>y \<in> set (err_chain x). \<not> is_HTTPError y \<and> \<not> is_HTTPValidationError y \<and> \<not> is_EchoHTTPError y)"

lemma error_body_generic: "no_http_error x \<Longrightarrow> error_body echo True x = error_answer 500 ''generic'' ''Internal Server Error'' []"
proof -
  assume "no_http_error x"
  then have "errors_as is_HTTPError x = None" "errors_as is_HTTPValidationError x = None" "errors_as is_EchoHTTPError x = None"
    unfolding errors_as_def find_None_iff by (auto simp: no_http_error_def)
  then show ?thesis by (simp add: error_body_def result_error_def public_part_def error_answer_def http_StatusText_def)
qed

lemma no_http_discreet: "no_http_error x \<Longrightarrow> discreet S echo x"
  by (simp add: discreet_def error_body_generic public_bodies_def)

lemma plain_no_http: "no_http_error (ErrPlain s)" "no_http_error (ErrDriver s)" "no_http_error ErrNoRows" "no_http_error ErrTxDone"
  by (simp_all add: no_http_error_def is_HTTPError_def is_HTTPValidationError_def is_EchoHTTPError_def)

lemma discreet_api_class: "api_class (discreet S echo)"
proof (unfold_locales, goal_cases)
  case (1 x msg)
  then show ?case by (simp add: discreet_def error_body_wrap)
qed (simp_all add: no_http_discreet plain_no_http ErrNotFound_def,
    simp_all add: discreet_def named_error_defs error_body_defs errors_as_def public_bodies_def error_answer_def http_StatusText_def
      echo_title_def validation_answer_def image_iff)

interpretation discreet_errors: api_class "discreet S echo" for S echo
  by (rule discreet_api_class)


text \<open>At the listing of organizations, whose query the database rejects with a text of its own.\<close>

definition member_world :: world where
  "member_world = live_world\<lparr>db := (db live_world)\<lparr>organization_members :=
     [\<lparr>mem_organization_id = ''org'', mem_user_id = ''alice'', mem_role = ''operator'', mem_created_at = None\<rparr>]\<rparr>\<rparr>"


end
