(* ===== verification/Api_Runs.thy ===== *)
theory Api_Runs
  imports Http_Theorems Reachability
begin

text \<open>
  The server under any sequence of HTTP requests: the invariants of the tables, and who stands behind
  the decisions that are stored.
\<close>

section \<open>Push tokens and the invariants\<close>

locale push_closed =
  fixes P :: "database \<Rightarrow> bool"
  assumes new_push_token: "P d \<Longrightarrow> has_user d (ptk_user_id k) \<Longrightarrow> \<forall>q \<in> set (push_tokens d). ptk_token q \<noteq> ptk_token k \<Longrightarrow>
      P (d\<lparr>push_tokens := push_tokens d @ [k]\<rparr>)"
    and fewer_push_tokens: "P d \<Longrightarrow> P (d\<lparr>push_tokens := filter p (push_tokens d)\<rparr>)"
begin

lemma push_update: "keeps (on_dbs P) (UpdatePushToken e request)"
proof -
  have "keeps (on_dbs P) (push_token_insert e h k)" for h k
    unfolding push_token_insert_def
    by (intro keeps_intros keeps_insert_stmt) (auto intro: new_push_token split: if_splits)
  moreover have "keeps (on_dbs P) (push_token_delete e h k)" for h k
    unfolding push_token_delete_def without_push_tokens_def
    by (intro keeps_modify_stmt fewer_push_tokens)
  ultimately show ?thesis
    unfolding UpdatePushToken_def UpdatePushToken_tx_def by (intro keeps_intros)
qed

end

interpretation auth_tables: push_closed auth_ok
  by unfold_locales
    (auto simp: auth_ok_def has_user_iff user_ids_def table_ok_def users_ok_def distinct_map_filter)

interpretation actors: push_closed actors_ok
  by unfold_locales (simp_all add: actors_ok_def has_user_def dangling_def cong: option.case_cong)

interpretation custody_tables: push_closed custody_ok
  by unfold_locales (subst custody_ok_cong; simp)+

interpretation decisions: push_closed "quiet d0" for d0
  by unfold_locales (simp_all add: quiet_def history_def no_new_signature_def)

section \<open>Requests keep the invariants\<close>

definition steady :: "(world, 'a) prog \<Rightarrow> bool" where
  "steady m \<longleftrightarrow> (\<forall>w. system_ok w \<longrightarrow> system_ok (snd (m w)) \<and> history (db w) (db (snd (m w))))"

named_theorems steady_intros \<open>composition rules for programs that keep the invariants\<close>

lemma steadyI: "(\<And>w r t. m w = (r, t) \<Longrightarrow> system_ok w \<Longrightarrow> system_ok t \<and> history (db w) (db t)) \<Longrightarrow> steady m"
  by (auto simp: steady_def intro: prod.collapse [symmetric])

lemma steadyD: "steady m \<Longrightarrow> m w = (r, t) \<Longrightarrow> system_ok w \<Longrightarrow> system_ok t \<and> history (db w) (db t)"
  unfolding steady_def by (metis snd_conv)

lemma steady_ends [steady_intros]: "steady (okP x)" "steady (errP y)" "steady (panicP c)" "steady (deref z)" "steady (clock_now e)"
  by (auto simp: steady_def okP_def errP_def panicP_def deref_def clock_now_def system_ok_def split: option.split)

lemma steady_bindP [steady_intros]: "steady m \<Longrightarrow> (\<And>x. steady (f x)) \<Longrightarrow> steady (bindP m f)"
  by (rule steadyI)
    (auto simp: bindP_def split: prod.splits outcome.splits intro: history_trans dest!: steadyD)

lemma steady_tryP [steady_intros]: "steady m \<Longrightarrow> (\<And>x. steady (f x)) \<Longrightarrow> steady (tryP m f)"
  by (rule steadyI)
    (auto simp: tryP_def split: prod.splits outcome.splits intro: history_trans dest!: steadyD)

lemma steady_thenP [steady_intros]: "steady m \<Longrightarrow> steady n \<Longrightarrow> steady (thenP m n)"
  by (simp add: thenP_def steady_bindP)

lemma steady_branches [steady_intros]:
  "steady m \<Longrightarrow> steady n \<Longrightarrow> steady (if b then m else n)"
  "steady m \<Longrightarrow> (\<And>x. steady (h x)) \<Longrightarrow> steady (case z of None \<Rightarrow> m | Some x \<Rightarrow> h x)"
  "(\<And>x. steady (k x)) \<Longrightarrow> (\<And>x. steady (l x)) \<Longrightarrow> steady (case y of Inl x \<Rightarrow> k x | Inr x \<Rightarrow> l x)"
  "(\<And>x y. steady (p x y)) \<Longrightarrow> steady (case q of (x, y) \<Rightarrow> p x y)"
  "(\<And>x. steady (k' x)) \<Longrightarrow> steady (let x = v in k' x)"
  by (auto split: option.split prod.split sum.split)

lemma steady_reads: "frame db m \<Longrightarrow> frame tx m \<Longrightarrow> steady m"
  by (simp add: steady_def read_step)

lemma steady_queries [steady_intros]: "steady (query e h q)" "steady (sys_now e)"
  by (auto intro!: steady_reads frame_intros frame_tx_query frame_tx_clock)

lemma steady_wrapP [steady_intros]: "steady m \<Longrightarrow> steady (wrapP msg m)"
  unfolding wrapP_def by (intro steady_intros)

lemma steady_finders [steady_intros]:
  "steady (one_by_uuid tn e h tab key txt p)" "steady (one_with_user tn e h tab key txt p owner)" "steady (FindVault e i)"
  unfolding one_with_user_def one_by_uuid_def FindVault_def find_row_def by (intro steady_intros)+

lemma steady_operations [steady_intros]:
  "steady (GetAppUserProfile e i)" "steady (UpdatePassword e c request)" "steady (ResetPassword e c tok pw)"
  "steady (InitPasswordReset e c name)" "steady (Logout e at rt)" "steady (Login e c name pw)" "steady (Refresh e c tok)"
  "steady (Register e c name pw)" "steady (DeleteUserAccount e u pw)" "steady (CompleteRegister e c tok)"
  "steady (CreateOrganization e name owner)" "steady (ListUserOrganizations where_in e i)" "steady (ListMembers e i)"
  "steady (AddMember e i j role)" "steady (RemoveMember e i j)" "steady (CreateVault e name i)" "steady (CreateWallet e i ch)"
  "steady (CreateRequest e i txData note u_id)" "steady (ApproveRequest e i params)" "steady (RejectRequest e i j)"
  "steady (ListRequests e i vault st page limit)"
  unfolding steady_def by (intro allI impI system_step_ok, (rule system_step.intros, assumption))+

lemma steady_push [steady_intros]: "steady (UpdatePushToken e request)"
proof -
  have idle: "keeps idle (UpdatePushToken e request)"
    unfolding UpdatePushToken_def by (rule idle_WithTransaction)
  show ?thesis
    unfolding steady_def
    by (intro allI impI auth_step [OF _ idle auth_tables.push_update actors.push_update custody_tables.push_update decisions.push_update])
qed

text \<open>Handlers and routes.\<close>

lemma steady_http [steady_intros]:
  "steady (ValidateAndReturn n v res)" "steady (return_validated sc Validate' v')" "steady (return_login sv l)"
  "steady (BindAndValidateBody Validate oa b)" "steady (BindAndValidateParam place Validate2 oa b2)"
  "steady (bind_body sc Validate3 b3)"
  unfolding return_validated_def return_login_def ValidateAndReturn_def BindAndValidateBody_def BindAndValidateParam_def bind_body_def
  by (intro steady_intros)+

lemma steady_mails [steady_intros]: "steady (SendPasswordReset ml to link)" "steady (SendAccountConfirmation ml to link)"
proof -
  have "steady (Transport_Send ml m)" for m
    by (rule steadyI) (auto simp: Transport_Send_def system_ok_def split: option.splits)
  then show "steady (SendPasswordReset ml to link)" "steady (SendAccountConfirmation ml to link)"
    unfolding SendPasswordReset_def SendAccountConfirmation_def send_template_def by (intro steady_intros; assumption)+
qed

lemma steady_guarded [steady_intros]: "(\<And>ctx. steady (handler ctx)) \<Longrightarrow> steady (guarded sc handler req)"
  unfolding guarded_def auth_handler_def check_user_def CheckLastAuthenticatedAt_def EnrichContextWithCredentials_def
    default_runtime_def auth_runtime.simps DefaultAuthTokenValidator_def load_access_token_def
  by (intro steady_intros)

lemma steady_wallets [steady_intros]: "steady (create_wallets e v cs)"
  by (induction cs) (auto intro!: steady_intros)

lemmas custody_handler_defs = postCreateVaultHandler_def postCreateWalletHandler_def postCreateOrganizationHandler_def
  getListOrganizationsHandler_def getListOrganizationMembersHandler_def postAddOrganizationMemberHandler_def
  deleteOrganizationMemberHandler_def getListSigningRequestsHandler_def postApproveSigningRequestHandler_def
  postCreateSigningRequestHandler_def

lemma steady_routes: "steady (run_route sc req r)"
  by (cases r) (simp_all only: run_route.simps route_defs handler_defs custody_handler_defs postRegisterHandler_def unguarded_def
      status_def Let_def, ((intro steady_intros)[1])+)

text \<open>A sequence of requests, one after the other.\<close>

definition serve_all :: "services \<Rightarrow> (string \<times> http_request \<times> route) list \<Rightarrow> world \<Rightarrow> world" where
  "serve_all sc qs w = fold (\<lambda>(httpMethod, req, r) v. snd (serve sc httpMethod req r v)) qs w"

lemma serve_ok:
  assumes "system_ok w"
  shows "system_ok (snd (serve sc httpMethod req r w)) \<and> history (db w) (db (snd (serve sc httpMethod req r w)))"
proof -
  have "snd (serve sc httpMethod req r w) = snd (run_route sc req r w)"
    by (auto simp: serve_def split: prod.split outcome.split)
  then show ?thesis using steady_routes assms by (simp add: steady_def)
qed

lemma serve_all_ok: "system_ok w \<Longrightarrow> system_ok (serve_all sc qs w) \<and> history (db w) (db (serve_all sc qs w))"
proof (induction qs arbitrary: w)
  case Nil
  then show ?case by (simp add: serve_all_def)
next
  case (Cons q qs)
  obtain httpMethod req r where q: "q = (httpMethod, req, r)" by (cases q)
  show ?case
    using serve_ok [OF Cons.prems, of sc httpMethod req r] Cons.IH [of "snd (serve sc httpMethod req r w)"]
    by (auto simp: q serve_all_def intro: history_trans)
qed

text \<open>
  C21: the invariants under the API.  After any sequence of HTTP requests to a server that started on
  the freshly migrated database, whatever the requests contain and whatever fails meanwhile, no
  transaction is open and all invariants of the tables hold, every stored signature being backed by its
  approvals among them; and later requests only extend the history.
\<close>

theorem requests_keep_invariants:
  "let w = serve_all sc qs (fresh_world cs); t = serve_all sc later w in
     tx w = None \<and> auth_ok (db w) \<and> custody_ok (db w) \<and> actors_ok (db w) \<and> signatures_backed (db w) \<and> history (db w) (db t)"
proof -
  have w: "system_ok (serve_all sc qs (fresh_world cs))" using serve_all_ok [OF system_ok_fresh] by blast
  then show ?thesis using serve_all_ok [OF w] by (simp add: system_ok_def Let_def)
qed

section \<open>Who decides\<close>

definition approvals_in :: "approval_row set \<Rightarrow> database \<Rightarrow> bool" where
  "approvals_in A d \<longleftrightarrow> set (approvals d) \<subseteq> A"

interpretation approvals_under_auth: auth_blind "approvals_in A" for A
  by unfold_locales (simp_all add: approvals_in_def approvals_cascade)

interpretation approvals_under_custody: grows_with_custody "approvals_in A" for A
  by unfold_locales (simp_all add: approvals_in_def)

interpretation approvals_under_push: push_closed "approvals_in A" for A
  by unfold_locales (simp_all add: approvals_in_def)

lemma keeps_db_only: "frame db m \<Longrightarrow> frame tx m \<Longrightarrow> keeps (on_dbs P) m"
  by (auto simp: keeps_def frame_def on_dbs_def)

lemmas approvals_operations = approvals_under_auth.service approvals_under_auth.reset approvals_under_custody.operations
  approvals_under_push.push_update

lemma approvals_kept_http [keeps_intros]:
  "keeps (on_dbs P) (ValidateAndReturn n v res)" "keeps (on_dbs P) (return_validated sc Validate' v')" "keeps (on_dbs P) (return_login sv l)"
  "keeps (on_dbs P) (BindAndValidateBody Validate oa b)" "keeps (on_dbs P) (BindAndValidateParam place Validate2 oa b2)"
  "keeps (on_dbs P) (bind_body sc Validate3 b3)" "keeps (on_dbs P) (Transport_Send ml m)"
  unfolding return_validated_def return_login_def ValidateAndReturn_def BindAndValidateBody_def BindAndValidateParam_def bind_body_def
  by (intro keeps_intros)+ (auto simp: keeps_def on_dbs_def Transport_Send_def split: option.split)

lemma approvals_kept_guarded: "(\<And>ctx. keeps (on_dbs P) (handler ctx)) \<Longrightarrow> keeps (on_dbs P) (guarded sc handler req)"
  unfolding guarded_def auth_handler_def check_user_def CheckLastAuthenticatedAt_def EnrichContextWithCredentials_def
    default_runtime_def auth_runtime.simps DefaultAuthTokenValidator_def load_access_token_def one_with_user_def
  by (intro keeps_intros)

lemma approvals_kept_wallets: "keeps (on_dbs (approvals_in A)) (create_wallets e v cs)"
  by (induction cs) (auto intro!: keeps_intros approvals_operations)

lemma approvals_kept_reads [keeps_intros]:
  "keeps (on_dbs P) (ListUserOrganizations where_in e i)" "keeps (on_dbs P) (ListMembers e i)"
  "keeps (on_dbs P) (ListRequests e i vault st page limit)" "keeps (on_dbs P) (FindVault e i)"
  unfolding FindVault_def find_row_def by (rule keeps_db_only reads frame_intros frame_tx_query | intro keeps_intros)+

lemma other_routes_keep_approvals:
  assumes "\<And>i b. r \<noteq> PostApproveSigningRequestR i b"
  shows "keeps (on_dbs (approvals_in A)) (run_route sc req r)"
  using assms
  by (cases r) (simp_all only: run_route.simps route_defs handler_defs postCreateVaultHandler_def postCreateWalletHandler_def
      postCreateOrganizationHandler_def getListOrganizationsHandler_def getListOrganizationMembersHandler_def
      postAddOrganizationMemberHandler_def deleteOrganizationMemberHandler_def getListSigningRequestsHandler_def
      postCreateSigningRequestHandler_def postRegisterHandler_def unguarded_def status_def Let_def
      SendPasswordReset_def SendAccountConfirmation_def send_template_def,
      ((intro keeps_intros approvals_kept_guarded approvals_operations approvals_kept_wallets; simp)[1] | blast)+)

definition decisions_of :: "env \<Rightarrow> string \<Rightarrow> string \<Rightarrow> approval_row set" where
  "decisions_of e i u = {a. apv_request_id a = Some (canon e i) \<and> apv_user_id a = Some (canon e u)}"

lemma decisions_kept:
  assumes "decisions_of e i u \<subseteq> A"
  shows "keeps (on_dbs (approvals_in A)) (RejectRequest e i u)"
    and "ap_user_id params = u \<Longrightarrow> keeps (on_dbs (approvals_in A)) (ApproveRequest e i params)"
proof -
  have ins: "keeps (on_dbs (approvals_in A)) (approval_insert e Pool (new_approval n i u act com))" for n act com
    unfolding approval_insert_def
    by (intro keeps_intros keeps_insert_stmt) (use assms in \<open>auto simp: approvals_in_def decisions_of_def new_approval_def\<close>)
  have upd: "keeps (on_dbs (approvals_in A)) (signing_request_update e Pool q)" for q
    unfolding signing_request_update_def
    by (intro keeps_intros keeps_modify_stmt) (auto simp: approvals_in_def split: if_splits)
  have sign: "keeps (on_dbs (approvals_in A)) (ThresholdSign e k m ct toks)" for k m ct toks
    by (rule keepsI) (auto simp: ThresholdSign_def Let_def on_dbs_def split: sum.splits)
  show "keeps (on_dbs (approvals_in A)) (RejectRequest e i u)"
    unfolding RejectRequest_def FindSigningRequest_def by (intro keeps_intros ins upd)
  show "keeps (on_dbs (approvals_in A)) (ApproveRequest e i params)" if "ap_user_id params = u"
    unfolding ApproveRequest_def check_threshold_def load_request_def load_rel_def user_approved_def all_approvals_def that
    by (intro keeps_intros ins upd sign)
qed

lemma approve_handler_keeps:
  assumes "user = Some u" "decisions_of e i (du_id u) \<subseteq> A"
  shows "keeps (on_dbs (approvals_in A)) (postApproveSigningRequestHandler e user i pl)"
  unfolding postApproveSigningRequestHandler_def assms(1) option.case
  by (intro keeps_intros decisions_kept [OF assms(2)]) simp

text \<open>Whom a bearer token stands for.\<close>

definition holder :: "services \<Rightarrow> http_request \<Rightarrow> database \<Rightarrow> user_row \<Rightarrow> bool" where
  "holder sc req d u \<longleftrightarrow> (\<exists>sep token a n. rq_header req ''Authorization'' = ''Bearer'' @ [sep] @ token \<and>
     a \<in> set (access_tokens d) \<and> env_parse_uuid (sc_env sc) token = Some (atk_token a) \<and>
     (atk_valid_until a = zero_time \<or> env_now (sc_env sc) n \<le> atk_valid_until a) \<and>
     u \<in> set (users d) \<and> usr_id u = atk_user_id a \<and> usr_is_active u \<and> ScopeApp \<in> set (usr_scopes u))"

lemma app_scope: "CheckUserScopes [ScopeApp] (LocalUserToDTO u p) \<longleftrightarrow> ScopeApp \<in> set (usr_scopes u)"
  by (auto simp: CheckUserScopes_def list_ex_iff)

lemma guarded_run:
  assumes "guarded sc handler req w = (r, t)"
  shows "db t = db w \<and> tx t = tx w \<and> \<not> is_ok r \<or>
    (\<exists>u ctx v. holder sc req (db w) u \<and> du_id (the (ctx_user ctx)) = usr_id u \<and> ctx_user ctx \<noteq> None \<and>
       db v = db w \<and> tx v = tx w \<and> handler ctx v = (r, t))"
proof -
  let ?rt = "default_runtime (sc_env sc) (sc_is_uuid4 sc) (sv_auth (sc_server sc))"
  obtain ra v where adm: "admit (sc_env sc) ?rt req background w = (ra, v)" by fastforce
  have v: "db v = db w" "tx v = tx w"
  proof -
    have "frame db (admit (sc_env sc) ?rt req background)"
      by (rule frame_db_admit) (simp add: default_runtime_def)
    then show "db v = db w" using adm by (rule frameD)
    have fr: "frame tx (admit (sc_env sc) ?rt req background)"
      unfolding admit_def auth_handler_def check_user_def CheckLastAuthenticatedAt_def EnrichContextWithCredentials_def
        default_runtime_def auth_runtime.simps DefaultAuthTokenValidator_def load_access_token_def one_with_user_def one_by_uuid_def
      by (intro frame_intros frame_tx_query frame_tx_clock)
    show "tx v = tx w" by (rule frameD [OF fr adm])
  qed
  have run: "bindP (admit (sc_env sc) ?rt req background) handler w = (r, t)"
    using assms by (simp add: guarded_def auth_handler_factor)
  show ?thesis
  proof (cases ra)
    case (Ok ctx)
    have rt: "rt_token_validator ?rt = DefaultAuthTokenValidator (sc_env sc)" "rt_mode ?rt = AuthModeRequired" "\<not> rt_skipper ?rt req"
      "rt_scheme ?rt = ''Bearer''" "rt_token_source ?rt = AuthTokenSourceHeader" "rt_token_source_key ?rt = ''Authorization''"
      "rt_scopes ?rt = [ScopeApp]"
      by (simp_all add: default_runtime_def)
    have "ctx = background \<and> rt_mode ?rt \<notin> {AuthModeRequired, AuthModeSecure} \<or>
      (\<exists>u p tok. holder sc req (db w) u \<and> ctx = background\<lparr>ctx_user := Some (LocalUserToDTO u p), ctx_access_token := Some tok\<rparr>)"
      using admit_Ok [OF adm [unfolded Ok] rt(1)]
      unfolding rt holder_def presented_def app_scope
      by (simp add: background_def) (elim exE conjE, intro exI conjI; assumption)
    then obtain u p tok where u: "holder sc req (db w) u"
      "ctx = background\<lparr>ctx_user := Some (LocalUserToDTO u p), ctx_access_token := Some tok\<rparr>"
      unfolding rt by auto
    have "handler ctx v = (r, t)" using run adm Ok by (simp add: bindP_def)
    then show ?thesis using u v by (intro disjI2 exI [of _ u] exI [of _ ctx] exI [of _ v]) simp
  qed (use run adm v in \<open>auto simp: bindP_def\<close>)
qed

lemma status_run: "status m w = (r, t) \<Longrightarrow> \<exists>r'. m w = (r', t)"
  by (auto simp: status_def bindP_def okP_def split: prod.splits outcome.splits)

lemma approve_route_approvals:
  assumes run: "run_route sc req (PostApproveSigningRequestR i b) w = (r, t)" and idle: "tx w = None"
    and new: "a \<in> set (approvals (db t))" "a \<notin> set (approvals (db w))"
  shows "\<exists>u. holder sc req (db w) u \<and> a \<in> decisions_of (sc_env sc) i (usr_id u)"
proof -
  obtain handler where route: "PostApproveSigningRequestRoute sc i b = guarded sc handler"
    and hd: "\<And>ctx u A. ctx_user ctx = Some u \<Longrightarrow> decisions_of (sc_env sc) i (du_id u) \<subseteq> A \<Longrightarrow>
      keeps (on_dbs (approvals_in A)) (handler ctx)"
  proof (rule that [OF PostApproveSigningRequestRoute_def])
    fix ctx :: request_context and u A assume "ctx_user ctx = Some u" "decisions_of (sc_env sc) i (du_id u) \<subseteq> A"
    then show "keeps (on_dbs (approvals_in A)) (bindP (bind_body sc ApproveSigningRequestPayload_Validate b) (\<lambda>body.
       bindP (postApproveSigningRequestHandler (sc_env sc) (UserFromContext ctx) i
         \<lparr>pl_action = StringValue (asp_action body), pl_credential_id = asp_credential_id body, pl_signature = asp_signature body,
          pl_authenticator_data = asp_authenticator_data body, pl_client_data_json = asp_client_data_json body\<rparr>) (\<lambda>st.
       return_validated sc ApproveSigningResponse_Validate
         \<lparr>asr_current_approvals = 0, asr_required_approvals = 0, asr_status = st\<rparr>)))"
      by (intro keeps_intros approve_handler_keeps) (simp_all add: UserFromContext_def)
  qed
  from run obtain r' where "guarded sc handler req w = (r', t)"
    using status_run by (fastforce simp: route)
  then consider "db t = db w"
    | u ctx v where "holder sc req (db w) u" "du_id (the (ctx_user ctx)) = usr_id u" "ctx_user ctx \<noteq> None"
        "db v = db w" "tx v = tx w" "handler ctx v = (r', t)"
    using guarded_run by blast
  then show ?thesis
  proof cases
    case 1
    then show ?thesis using new by simp
  next
    case (2 u ctx v)
    let ?A = "set (approvals (db w)) \<union> decisions_of (sc_env sc) i (usr_id u)"
    have "ctx_user ctx = Some (the (ctx_user ctx))" using 2(3) by simp
    then have "keeps (on_dbs (approvals_in ?A)) (handler ctx)" by (rule hd) (simp add: 2(2))
    moreover have "on_dbs (approvals_in ?A) v"
      using 2(4,5) idle by (simp add: on_dbs_def approvals_in_def)
    ultimately have "on_dbs (approvals_in ?A) t" using keepsD [where m = "handler ctx" and s = v] 2(6) by metis
    then show ?thesis using new 2(1) by (auto simp: on_dbs_def approvals_in_def)
  qed
qed


definition api_world :: world where
  "api_world = custody_world\<lparr>db := custody_db\<lparr>access_tokens := access_tokens (db live_world)\<rparr>\<rparr>"

definition approve_req :: route where
  "approve_req = PostApproveSigningRequestR ''req'' (Inr \<lparr>asp_action = Some ''approve'', asp_authenticator_data = ''d'',
     asp_client_data_json = ''j'', asp_comment = [], asp_credential_id = ''c'', asp_signature = ''s''\<rparr>)"


end
