(* ===== verification/Auth_Routes.thy ===== *)
theory Auth_Routes
  imports Api_Runs
begin

text \<open>
  The routes under /api/v1/auth: what asking for a password reset reveals, and the account routes that
  read a user the group never authenticates.
\<close>

section \<open>Runs without faults\<close>

lemma one_row_run:
  assumes "\<And>n. env_fault e n = None" and "view h w = Some d"
  shows "one_row tn e h tab p w = (case find p (tab d) of None \<Rightarrow> (Err ErrNoRows, tick w) | Some r \<Rightarrow> (Ok r, tick w))"
proof (cases "find p (tab d)")
  case None
  with assms show ?thesis
    by (cases h) (auto simp: one_row_def tryP_def query_def stmt_def errP_def errors_is_def view_def)
next
  case (Some r)
  then have "one_row tn e h tab p w = (Ok r, tick w)" using assms by (simp add: one_row_Ok_iff)
  with Some show ?thesis by simp
qed

lemma password_reset_token_insert_run:
  assumes "\<And>n. env_fault e n = None" and "tx w = Some d" and "has_user d (prt_user_id k)" and "prt_token k = []"
    and "\<And>n q. q \<in> set (password_reset_tokens d) \<Longrightarrow> prt_token q \<noteq> env_uuid e n"
  shows "\<exists>a d'. password_reset_token_insert e Tx k w = (Ok a, (tick (tick w))\<lparr>tx := Some d'\<rparr>)"
proof -
  have "\<not> (\<exists>q \<in> set (password_reset_tokens d). prt_token q = env_uuid e n)" for n using assms(5) by auto
  then show ?thesis
    using assms(1-4) by (auto simp: password_reset_token_insert_def outcome_simps default_id_def)
qed

lemma InitPasswordReset_tx_run:
  assumes ok: "\<And>n. env_fault e n = None" and tx: "tx w = Some d" and user: "has_user d (usr_id user)"
    and fresh: "\<And>n q. q \<in> set (password_reset_tokens d) \<Longrightarrow> prt_token q \<noteq> env_uuid e n"
  shows "\<exists>token t d'. InitPasswordReset_tx e c user w = (Ok (Some token), t) \<and> tx t = Some d' \<and> db t = db w \<and> mails t = mails w"
proof -
  let ?p = "live_reset_token (usr_id user) (env_now e (clk w) - ac_password_reset_token_reuse c) (env_now e (Suc (clk w)))"
  let ?k = "\<lparr>prt_token = [], prt_valid_until = env_now e (Suc (Suc (Suc (clk w)))) + ac_password_reset_token_validity c,
      prt_user_id = usr_id user, prt_created_at = zero_time, prt_updated_at = zero_time\<rparr>"
  obtain a d' where ins: "password_reset_token_insert e Tx ?k (tick (tick (tick (tick w)))) =
      (Ok a, (tick (tick (tick (tick (tick (tick w))))))\<lparr>tx := Some d'\<rparr>)"
    using password_reset_token_insert_run [OF ok, of "tick (tick (tick (tick w)))" d ?k] tx user fresh by auto
  have row: "one_row ''password_reset_tokens'' e Tx password_reset_tokens ?p (tick (tick w)) =
      (case find ?p (password_reset_tokens d) of None \<Rightarrow> (Err ErrNoRows, tick (tick (tick w))) | Some r \<Rightarrow> (Ok r, tick (tick (tick w))))"
    by (rule one_row_run [OF ok]) (simp add: tx)
  show ?thesis
    using row ins tx
    by (cases "find ?p (password_reset_tokens d)")
      (auto simp: InitPasswordReset_tx_def bindP_def tryP_def clock_now_def okP_def)
qed

lemma reset_debounced_run:
  assumes ok: "\<And>n. env_fault e n = None"
  shows "\<exists>b v. reset_debounced e c user w = (Ok b, v) \<and> db v = db w \<and> mails v = mails w"
proof -
  have "rows_exist tn e Pool tab p v = (Ok (find p (tab (db v)) \<noteq> None), tick v)"
    for tn p v and tab :: "database \<Rightarrow> password_reset_token_row list"
    using ok by (simp add: rows_exist_Ok_iff)
  then show ?thesis
    by (auto simp: reset_debounced_def bindP_def clock_now_def okP_def)
qed

lemma InitPasswordReset_run:
  assumes ok: "\<And>n. env_fault e n = None"
    and fresh: "\<And>n q. q \<in> set (password_reset_tokens (db w)) \<Longrightarrow> prt_token q \<noteq> env_uuid e n"
  shows "\<exists>r t. InitPasswordReset e c username w = (Ok r, t) \<and> mails t = mails w \<and>
    (r \<noteq> None \<longrightarrow> (\<exists>u. find (\<lambda>u. usr_username u = Some (ToUsernameFormat username)) (users (db w)) = Some u \<and>
      usr_is_active u \<and> usr_password u \<noteq> None))"
proof -
  let ?p = "\<lambda>u. usr_username u = Some (ToUsernameFormat username)"
  have row: "one_row ''users'' e Pool users ?p w =
      (case find ?p (users (db w)) of None \<Rightarrow> (Err ErrNoRows, tick w) | Some u \<Rightarrow> (Ok u, tick w))"
    by (rule one_row_run [OF ok]) simp
  show ?thesis
  proof (cases "\<exists>u. find ?p (users (db w)) = Some u \<and> usr_is_active u \<and> usr_password u \<noteq> None")
    case False
    then have "InitPasswordReset e c username w = (Ok None, tick w)"
      using row by (cases "find ?p (users (db w))") (auto simp: InitPasswordReset_def tryP_def okP_def)
    then show ?thesis by simp
  next
    case True
    then obtain u where u: "find ?p (users (db w)) = Some u" "usr_is_active u" "usr_password u \<noteq> None" by blast
    obtain b v where deb: "reset_debounced e c u (tick w) = (Ok b, v)" "db v = db w" "mails v = mails w"
      using reset_debounced_run [OF ok, of c u "tick w"] by auto
    have "has_user (db w) (usr_id u)" using find_SomeD [OF u(1)] by (auto simp: has_user_def)
    then obtain token t d' where body: "InitPasswordReset_tx e c u ((tick v)\<lparr>tx := Some (db v)\<rparr>) = (Ok (Some token), t)"
      "mails t = mails w"
      using InitPasswordReset_tx_run [OF ok, of "(tick v)\<lparr>tx := Some (db v)\<rparr>" "db v" u c] fresh deb by auto
    then have "WithTransaction e (InitPasswordReset_tx e c u) v = (Ok (Some token), snd (commit_tx e t))"
      using ok by (simp add: WithTransaction_Ok_iff)
    then show ?thesis
      using u deb row body by (cases b) (auto simp: InitPasswordReset_def tryP_def bindP_def okP_def commit_tx_db)
  qed
qed

section \<open>Asking for a password reset\<close>

text \<open>The mail that goes out, and the libraries that let it.\<close>

definition mail_ready :: "services \<Rightarrow> bool" where
  "mail_ready sc \<longleftrightarrow> (\<exists>u. ul_parse (sv_urls (sc_server sc)) (sv_frontend_base_url (sc_server sc)) = Inr u) \<and>
     (\<exists>f. ml_templates (sv_mailer (sc_server sc)) ''password_reset'' = Some f \<and> (\<forall>d. \<exists>html. f d = Inr html)) \<and>
     (\<forall>n m. ml_transport (sv_mailer (sc_server sc)) n m = None)"

lemma SendPasswordReset_run:
  assumes "mail_ready sc"
  shows "\<exists>t. SendPasswordReset (sv_mailer (sc_server sc)) to link w = (Ok (), t) \<and>
    (mails t = mails w \<or> (\<exists>m. mail_to m = to \<and> mails t = mails w @ [m]))"
proof -
  from assms obtain f html where f: "ml_templates (sv_mailer (sc_server sc)) ''password_reset'' = Some f"
    "f [(''passwordResetLink'', link)] = Inr html" "\<And>n m. ml_transport (sv_mailer (sc_server sc)) n m = None"
    unfolding mail_ready_def by blast
  then show ?thesis
    by (cases "ml_send (sv_mailer (sc_server sc))")
      (auto simp: SendPasswordReset_def send_template_def Transport_Send_def okP_def wrapP_def tryP_def)
qed

text \<open>
  C25: asking for a password reset reveals nothing.  As long as no statement and no mail fails, the
  route answers 204 without a body whatever the username is: unknown, inactive, without password, asked
  for a moment ago, or known.  At most one mail is sent, to the name that was asked for, and only if it
  is the name of an active user with a password.
\<close>

theorem forgot_password_reveals_nothing:
  assumes ok: "\<And>n. env_fault (sc_env sc) n = None"
    and fresh: "\<And>n q. q \<in> set (password_reset_tokens (db w)) \<Longrightarrow> prt_token q \<noteq> env_uuid (sc_env sc) n"
    and mail: "mail_ready sc" and valid: "PostForgotPasswordPayload_Validate (sv_openapi (sc_server sc)) payload = None"
  shows "\<exists>t. serve sc httpMethod req (PostForgotPasswordR (Inr payload)) w = (Some (204, None), t) \<and>
    (mails t = mails w \<or>
     (\<exists>u m. u \<in> set (users (db w)) \<and> usr_is_active u \<and> usr_password u \<noteq> None \<and>
        usr_username u = Some (ToUsernameFormat (StringValue (pfp_username payload))) \<and>
        usr_username u = Some (mail_to m) \<and> mails t = mails w @ [m]))"
proof -
  let ?name = "StringValue (pfp_username payload)"
  let ?sv = "sc_server sc"
  obtain r v where init: "InitPasswordReset (sc_env sc) (sv_auth ?sv) ?name w = (Ok r, v)" "mails v = mails w"
    and user: "r \<noteq> None \<Longrightarrow> \<exists>u. find (\<lambda>u. usr_username u = Some (ToUsernameFormat ?name)) (users (db w)) = Some u \<and>
      usr_is_active u \<and> usr_password u \<noteq> None"
    using InitPasswordReset_run [OF ok fresh, where w = w and c = "sv_auth ?sv" and username = ?name] by blast
  have bound: "BindAndValidateBody PostForgotPasswordPayload_Validate (sv_openapi ?sv) (Inr payload) = okP payload"
    using valid by (simp add: BindAndValidateBody_def validatePayload_def)
  have "\<exists>t. run_route sc req (PostForgotPasswordR (Inr payload)) w = (Ok 204, t) \<and>
    (mails t = mails w \<or> (\<exists>m. r \<noteq> None \<and> mail_to m = ToUsernameFormat ?name \<and> mails t = mails w @ [m]))"
  proof (cases r)
    case None
    then show ?thesis
      using init by (simp add: unguarded_def status_def postForgotPasswordHandler_def bound Let_def) (simp add: bindP_def okP_def)
  next
    case (Some token)
    obtain link where link: "PasswordResetDeeplinkURL (sv_urls ?sv) (sv_frontend_base_url ?sv) (sv_password_reset_endpoint ?sv) token = Inr link"
      using mail by (auto simp: mail_ready_def PasswordResetDeeplinkURL_def)
    from SendPasswordReset_run [OF mail, of "ToUsernameFormat ?name" "ul_string (sv_urls ?sv) link" v]
    show ?thesis
      using init Some link
      by (auto simp: unguarded_def status_def postForgotPasswordHandler_def bound Let_def) (auto simp: bindP_def thenP_def okP_def)
  qed
  then obtain t where t: "run_route sc req (PostForgotPasswordR (Inr payload)) w = (Ok 204, t)"
    "mails t = mails w \<or> (\<exists>m. r \<noteq> None \<and> mail_to m = ToUsernameFormat ?name \<and> mails t = mails w @ [m])" by blast
  then show ?thesis
    using user find_SomeD by (fastforce simp: serve_def)
qed

lemma unary_letter: "c \<noteq> CHR ''u'' \<Longrightarrow> unary n \<noteq> c # s"
  by (simp add: unary_def)

theorem forgot_password_reveals_nothing_witness:
  "(\<exists>t. serve example_services ''POST'' (bearer ''live'') (PostForgotPasswordR (Inr \<lparr>pfp_username = Some ''alice''\<rparr>)) example_world =
      (Some (204, None), t)) \<and>
   (\<exists>t. serve example_services ''POST'' (bearer ''live'') (PostForgotPasswordR (Inr \<lparr>pfp_username = Some ''nobody''\<rparr>)) example_world =
      (Some (204, None), t))"
proof -
  have ok: "env_fault (sc_env example_services) n = None" for n by (simp add: example_services_def)
  have fresh: "prt_token q \<noteq> env_uuid (sc_env example_services) n" if "q \<in> set (password_reset_tokens (db example_world))" for q n
    using that by (simp add: example_services_def example_db_def empty_db_def unary_letter [symmetric])
  have mail: "mail_ready example_services"
    by (simp add: mail_ready_def example_services_def example_server_def)
  have valid: "PostForgotPasswordPayload_Validate (sv_openapi (sc_server example_services)) \<lparr>pfp_username = Some x\<rparr> = None"
    if "x \<in> {''alice'', ''nobody''}" for x
    using that by (auto simp: PostForgotPasswordPayload_Validate_def username_checks_def composite_def example_services_def
        example_server_def example_openapi_def StringValue_def)
  show ?thesis
    using forgot_password_reveals_nothing [OF ok fresh mail valid] by blast
qed

section \<open>Account routes\<close>

definition refused :: "services \<Rightarrow> (openapi \<Rightarrow> 'v \<Rightarrow> openapi_error option) \<Rightarrow> go_error + 'v \<Rightarrow> int outcome" where
  "refused sc Validate b = (case b of
      Inl x \<Rightarrow> Err (ErrWrap ''failed to bind body'' x)
    | Inr p \<Rightarrow> (case validatePayload (Validate (sv_openapi (sc_server sc)) p) of
        None \<Rightarrow> Panic ''nil pointer dereference'' | Some x \<Rightarrow> Err x))"

lemma refused_run:
  assumes "\<And>p. run p = panicP ''nil pointer dereference''"
  shows "status (bindP (BindAndValidateBody Validate (sv_openapi (sc_server sc)) b) run) w = (refused sc Validate b, w)"
  using assms
  by (auto simp: refused_def status_def BindAndValidateBody_def bindP_def okP_def errP_def panicP_def split: sum.split option.split)

text \<open>
  C26: the account routes never act.  The group of the auth routes has no guard, so that changing the
  password, logging out, deleting the account and asking for one's own data never return normally and
  never touch the world, whatever token the request presents: a valid body leads to a nil pointer
  dereference, which the recover middleware and the error handler turn into an error.
\<close>

theorem account_routes_never_act:
  "run_route sc req GetUserInfoR w = (Panic ''nil pointer dereference'', w) \<and>
   run_route sc req (PostChangePasswordR b1) w = (refused sc PostChangePasswordPayload_Validate b1, w) \<and>
   run_route sc req (PostLogoutR b2) w = (refused sc PostLogoutPayload_Validate b2, w) \<and>
   run_route sc req (DeleteUserAccountR b3) w = (refused sc DeleteUserAccountPayload_Validate b3, w) \<and>
   \<not> is_ok (refused sc PostChangePasswordPayload_Validate b1) \<and> \<not> is_ok (refused sc PostLogoutPayload_Validate b2) \<and>
   \<not> is_ok (refused sc DeleteUserAccountPayload_Validate b3)"
proof -
  have nobody: "deref (UserFromContext background) = panicP ''nil pointer dereference''"
    "deref (AccessTokenFromContext background) = panicP ''nil pointer dereference''"
    by (simp_all add: deref_def UserFromContext_def AccessTokenFromContext_def background_def)
  show ?thesis
    by (intro conjI)
      (simp_all add: PostChangePasswordRoute_def PostLogoutRoute_def DeleteUserAccountRoute_def unguarded_def GetUserInfoRoute_def
        getUserInfoHandler_def postChangePasswordHandler_def postLogoutHandler_def deleteUserAccountHandler_def nobody refused_run,
        simp_all add: status_def bindP_def panicP_def refused_def split: sum.split option.split)
qed

end
