(* ===== verification/Util.thy ===== *)
theory Util
  imports Http_Errors Base64 "HOL-Library.Sublist" "HOL-Library.Word"
begin

text \<open>
  internal/util: random strings (string.go), the searches in strings and slices (string.go, slice.go)
  and small conversions (int.go, bool.go, map.go).  Texts that Go reads rune by rune are lists of
  runes here.
\<close>

unbundle bit_operations_syntax

section \<open>Random strings\<close>

text \<open>
  \<open>rand k n\<close> is what the \<open>k\<close>-th read of \<open>n\<close> bytes from \<open>crypto/rand\<close> gives; a function that reads returns
  the number of the next read with its result.
\<close>

type_synonym source = "nat \<Rightarrow> nat \<Rightarrow> go_error + string"

definition GenerateRandomBytes :: "source \<Rightarrow> nat \<Rightarrow> nat \<Rightarrow> go_error + string" where
  "GenerateRandomBytes rand k n = (case rand k n of
      Inl x \<Rightarrow> Inl (ErrWrap ''failed to generate random bytes'' x)
    | Inr b \<Rightarrow> Inr b)"

definition hex_digit :: "nat \<Rightarrow> char" where
  "hex_digit n = (if n < 10 then char_of (48 + n) else char_of (87 + n))"

definition hex_EncodeToString :: "string \<Rightarrow> string" where
  "hex_EncodeToString s = concat (map (\<lambda>c. [hex_digit (code c div 16), hex_digit (code c mod 16)]) s)"

definition GenerateRandomHexString :: "source \<Rightarrow> nat \<Rightarrow> nat \<Rightarrow> go_error + string" where
  "GenerateRandomHexString rand k n = (case GenerateRandomBytes rand k n of
      Inl x \<Rightarrow> Inl x
    | Inr b \<Rightarrow> Inr (hex_EncodeToString b))"

text \<open>The padding of \<open>base64.StdEncoding\<close> after what \<open>base64.RawStdEncoding\<close> writes.\<close>

definition Std_EncodeToString :: "string \<Rightarrow> string" where
  "Std_EncodeToString s = RawStd_EncodeToString s @ replicate ((3 - length s mod 3) mod 3) (CHR ''='')"

definition GenerateRandomBase64String :: "source \<Rightarrow> nat \<Rightarrow> nat \<Rightarrow> go_error + string" where
  "GenerateRandomBase64String rand k n = (case GenerateRandomBytes rand k n of
      Inl x \<Rightarrow> Inl x
    | Inr b \<Rightarrow> Inr (Std_EncodeToString b))"

text \<open>A range is an integer in Go; \<open>CharRangeUnknown\<close> is any value without a name.\<close>

datatype char_range = CharRangeNumeric | CharRangeAlphaLowerCase | CharRangeAlphaUpperCase | CharRangeUnknown int

definition validateFn :: "char_range list \<Rightarrow> string \<Rightarrow> char \<Rightarrow> bool" where
  "validateFn ranges extra c \<longleftrightarrow> c \<in> set extra \<or> list_ex (\<lambda>r. case r of
      CharRangeNumeric \<Rightarrow> is_digit c
    | CharRangeAlphaLowerCase \<Rightarrow> is_lower c
    | CharRangeAlphaUpperCase \<Rightarrow> is_upper c
    | CharRangeUnknown _ \<Rightarrow> False) ranges"

text \<open>The loop over one buffer, then the loop over the buffers, which need not end.\<close>

fun take_valid :: "(char \<Rightarrow> bool) \<Rightarrow> int \<Rightarrow> string \<Rightarrow> string \<Rightarrow> string" where
  "take_valid ok n str [] = str"
| "take_valid ok n str (b # bs) =
     (let str' = (if ok b then str @ [b] else str) in
      if int (length str') \<ge> n then str' else take_valid ok n str' bs)"

partial_function (option) random_loop ::
    "source \<Rightarrow> (char \<Rightarrow> bool) \<Rightarrow> int \<Rightarrow> nat \<Rightarrow> string \<Rightarrow> (go_error + string) option" where
  "random_loop rand ok n k str =
     (if int (length str) < n then
        (case GenerateRandomBytes rand k (nat n) of
           Inl x \<Rightarrow> Some (Inl x)
         | Inr buf \<Rightarrow> random_loop rand ok n (Suc k) (take_valid ok n str buf))
      else Some (Inr str))"

definition GenerateRandomString ::
    "source \<Rightarrow> nat \<Rightarrow> int \<Rightarrow> char_range list \<Rightarrow> string \<Rightarrow> (go_error + string) option" where
  "GenerateRandomString rand k n ranges extra =
     (if length ranges = 0 \<and> length extra = 0
      then Some (Inl (ErrPlain ''random string can only be created if set of characters or extra string characters supplied''))
      else random_loop rand (validateFn ranges extra) n k [])"

lemma take_valid_none: "\<forall>b \<in> set bs. \<not> ok b \<Longrightarrow> int (length str) < n \<Longrightarrow> take_valid ok n str bs = str"
  by (induction bs) auto

lemma take_valid_bounds:
  "int (length str) < n \<Longrightarrow> length str \<le> length (take_valid ok n str bs) \<and> int (length (take_valid ok n str bs)) \<le> n \<and>
    set (take_valid ok n str bs) \<subseteq> set str \<union> {b. ok b}"
proof (induction bs arbitrary: str)
  case (Cons b bs)
  show ?case
    using Cons.prems Cons.IH [of "if ok b then str @ [b] else str"] by (auto simp: Let_def split: if_splits)
qed simp

lemma take_valid_progress:
  "int (length str) < n \<Longrightarrow> \<exists>b \<in> set bs. ok b \<Longrightarrow> length str < length (take_valid ok n str bs)"
proof (induction bs arbitrary: str)
  case (Cons b bs)
  show ?case
    using Cons.prems Cons.IH [of str] take_valid_bounds [of "str @ [b]" n ok bs] by (auto simp: Let_def)
qed simp

text \<open>A read that brings the loop forward: it fails, or it has a byte that is accepted.\<close>

definition useful :: "source \<Rightarrow> (char \<Rightarrow> bool) \<Rightarrow> int \<Rightarrow> nat \<Rightarrow> bool" where
  "useful rand ok n k \<longleftrightarrow> (case rand k (nat n) of Inl x \<Rightarrow> True | Inr buf \<Rightarrow> \<exists>b \<in> set buf. ok b)"

lemma random_loop_skip:
  "int (length str) < n \<Longrightarrow> \<not> useful rand ok n k \<Longrightarrow> random_loop rand ok n k str = random_loop rand ok n (Suc k) str"
  by (subst random_loop.simps) (auto simp: useful_def GenerateRandomBytes_def take_valid_none split: sum.splits)

lemma random_loop_until:
  assumes "int (length str) < n" "useful rand ok n (k + d)"
  shows "\<exists>j. useful rand ok n j \<and> random_loop rand ok n k str = random_loop rand ok n j str"
  using assms
proof (induction d arbitrary: k)
  case (Suc d)
  show ?case
  proof (cases "useful rand ok n k")
    case False
    then show ?thesis using Suc.IH [of "Suc k"] Suc.prems random_loop_skip by simp
  qed auto
qed auto

lemma random_loop_returns:
  assumes fair: "\<And>k. \<exists>j \<ge> k. useful rand ok n j"
    and "int (length str) \<le> n" "\<forall>c \<in> set str. ok c"
  shows "\<exists>r. random_loop rand ok n k str = Some r \<and>
    (\<forall>s. r = Inr s \<longrightarrow> int (length s) = n \<and> (\<forall>c \<in> set s. ok c))"
  using assms(2,3)
proof (induction "nat n - length str" arbitrary: k str rule: less_induct)
  case less
  show ?case
  proof (cases "int (length str) < n")
    case False
    then show ?thesis using less.prems by (subst random_loop.simps) auto
  next
    case True
    obtain d where "useful rand ok n (k + d)" using fair [of k] le_Suc_ex by blast
    from random_loop_until [OF True this] obtain j where j: "useful rand ok n j"
      "random_loop rand ok n k str = random_loop rand ok n j str" by blast
    show ?thesis
    proof (cases "rand j (nat n)")
      case (Inl x)
      then show ?thesis using j(2) True by (simp add: random_loop.simps [of rand ok n j] GenerateRandomBytes_def)
    next
      case (Inr buf)
      let ?str = "take_valid ok n str buf"
      have more: "length str < length ?str"
        by (rule take_valid_progress [OF True]) (use j(1) Inr in \<open>simp add: useful_def\<close>)
      have "int (length ?str) \<le> n" "\<forall>c \<in> set ?str. ok c"
        using take_valid_bounds [OF True, of ok buf] less.prems(2) by auto
      then have "\<exists>r. random_loop rand ok n (Suc j) ?str = Some r \<and>
          (\<forall>s. r = Inr s \<longrightarrow> int (length s) = n \<and> (\<forall>c \<in> set s. ok c))"
        using more True by (intro less.hyps) auto
      then show ?thesis using j(2) True Inr by (simp add: random_loop.simps [of rand ok n j] GenerateRandomBytes_def)
    qed
  qed
qed

text \<open>
  C32: random strings are finished.  When the random source delivers, again and again, a buffer with a
  byte of the requested ranges (or fails), the loop ends: with an error, or with a string of exactly
  the requested length all of whose bytes are in the ranges or the extra characters.
\<close>

theorem GenerateRandomString_terminates:
  assumes "\<And>k. \<exists>j \<ge> k. useful rand (validateFn ranges extra) n j"
  shows "\<exists>r. GenerateRandomString rand k n ranges extra = Some r \<and>
    (\<forall>s. r = Inr s \<longrightarrow> int (length s) = max 0 n \<and> (\<forall>c \<in> set s. validateFn ranges extra c))"
proof (cases "n \<ge> 0")
  case True
  from random_loop_returns [OF assms, of "[]"] True show ?thesis by (simp add: GenerateRandomString_def)
next
  case False
  then have "random_loop rand ok n k [] = Some (Inr [])" for ok by (simp add: random_loop.simps)
  then show ?thesis using False by (simp add: GenerateRandomString_def)
qed

text \<open>
  The condition is needed: a loop that has not enough bytes only returns after a useful read, so a range
  without a name, which accepts nothing, makes the loop run for ever however the source behaves.
\<close>

lemma random_loop_useful:
  assumes ret: "random_loop rand ok n k str = Some r"
  shows "int (length str) < n \<longrightarrow> (\<exists>j \<ge> k. useful rand ok n j)"
proof (rule random_loop.raw_induct [where P = "\<lambda>rand ok n k str r. int (length str) < n \<longrightarrow> (\<exists>j \<ge> k. useful rand ok n j)", OF _ ret])
  fix loop rand ok n k str r
  assume IH: "\<And>rand ok n k str r. loop rand ok n k str = Some r \<Longrightarrow> int (length str) < n \<longrightarrow> (\<exists>j \<ge> k. useful rand ok n j)"
    and eq: "(if int (length str) < n then
        (case GenerateRandomBytes rand k (nat n) of
           Inl x \<Rightarrow> Some (Inl x)
         | Inr buf \<Rightarrow> loop rand ok n (Suc k) (take_valid ok n str buf))
      else Some (Inr str)) = Some r"
  show "int (length str) < n \<longrightarrow> (\<exists>j \<ge> k. useful rand ok n j)"
  proof (cases "useful rand ok n k")
    case False
    then obtain buf where buf: "rand k (nat n) = Inr buf" "\<forall>b \<in> set buf. \<not> ok b"
      by (auto simp: useful_def split: sum.splits)
    show ?thesis
    proof
      assume less: "int (length str) < n"
      then have "loop rand ok n (Suc k) str = Some r"
        using eq buf take_valid_none [OF buf(2) less] by (simp add: GenerateRandomBytes_def)
      from IH [OF this] less show "\<exists>j \<ge> k. useful rand ok n j" by (meson Suc_leD)
    qed
  qed auto
qed

lemma GenerateRandomString_unknown_range:
  assumes "n > 0" "\<And>k. \<exists>buf. rand k (nat n) = Inr buf"
  shows "GenerateRandomString rand k n [CharRangeUnknown i] [] = None"
proof (rule ccontr)
  assume "\<not> ?thesis"
  then obtain r where "random_loop rand (validateFn [CharRangeUnknown i] []) n k [] = Some r"
    by (auto simp: GenerateRandomString_def)
  from random_loop_useful [OF this] assms(1) obtain j where "useful rand (validateFn [CharRangeUnknown i] []) n j" by auto
  then show False using assms(2) [of j] by (auto simp: useful_def validateFn_def)
qed

theorem GenerateRandomString_terminates_witness:
  "\<exists>r. GenerateRandomString (\<lambda>k n. Inr (replicate n (char_of (k mod 256)))) 0 8 [CharRangeNumeric] [] = Some r \<and>
    ((\<exists>x. r = Inl x) \<or> (\<exists>s. r = Inr s \<and> length s = 8 \<and> list_all is_digit s))"
proof -
  let ?rand = "\<lambda>k n. Inr (replicate n (char_of (k mod 256 :: nat))) :: go_error + string"
  have "\<exists>j \<ge> k. useful ?rand (validateFn [CharRangeNumeric] []) 8 j" for k
    by (intro exI [of _ "256 * k + 48"]) (simp add: useful_def validateFn_def is_digit_def code_def)
  from GenerateRandomString_terminates [OF this] obtain r where
    r: "GenerateRandomString ?rand 0 8 [CharRangeNumeric] [] = Some r"
    "\<And>s. r = Inr s \<Longrightarrow> int (length s) = 8 \<and> (\<forall>c \<in> set s. validateFn [CharRangeNumeric] [] c)"
    by fastforce
  show ?thesis
  proof (cases r)
    case (Inr s)
    with r show ?thesis by (auto simp: validateFn_def list_all_iff)
  qed (use r in auto)
qed

section \<open>Strings and slices\<close>

definition NonEmptyOrNil :: "string \<Rightarrow> string option" where
  "NonEmptyOrNil s = (if length s > 0 then Some s else None)"

definition EmptyIfNil :: "string option \<Rightarrow> string" where
  "EmptyIfNil s = (case s of None \<Rightarrow> [] | Some x \<Rightarrow> x)"

text \<open>
  \<open>ContainsAll\<close> keeps a flag and an index for every text that is looked for and reads the text once: the
  inner loop advances each of them by one rune.
\<close>

definition advance :: "'r \<Rightarrow> 'r list \<Rightarrow> bool \<times> nat \<Rightarrow> bool \<times> nat" where
  "advance marked sub st =
     (let contains = fst st \<or> length sub = 0; i = snd st in
      if \<not> contains \<and> marked = sub ! i then (Suc i \<ge> length sub, Suc i) else (contains, i))"

definition ContainsAll :: "'r list \<Rightarrow> 'r list list \<Rightarrow> bool" where
  "ContainsAll str subs = list_all fst
     (foldl (\<lambda>sts marked. map2 (advance marked) subs sts) (replicate (length subs) (False, 0)) str)"

text \<open>The map of the texts that are looked for; its entries are set while the slice is read.\<close>

definition ContainsAllString :: "string list \<Rightarrow> string list \<Rightarrow> bool" where
  "ContainsAllString xs subs =
     (let found = foldl (\<lambda>m v. if m v \<noteq> None then m(v \<mapsto> True) else m) (map_of (map (\<lambda>v. (v, False)) subs)) xs in
      list_all (\<lambda>v. found v = Some True) subs)"

fun unique_loop :: "string list \<Rightarrow> string list \<Rightarrow> string list" where
  "unique_loop res [] = res"
| "unique_loop res (s # ss) = unique_loop (if s \<in> set res then res else res @ [s]) ss"

definition UniqueString :: "string list \<Rightarrow> string list" where
  "UniqueString xs = unique_loop [] xs"

lemma advance_each:
  "length sts = length subs \<Longrightarrow> foldl (\<lambda>sts marked. map2 (advance marked) subs sts) sts str =
    map2 (\<lambda>sub st. foldl (\<lambda>st marked. advance marked sub st) st str) subs sts"
proof (induction str arbitrary: sts)
  case Nil
  then show ?case by (simp add: map_snd_zip [symmetric] case_prod_unfold)
next
  case (Cons c str)
  then show ?case by (auto simp: zip_map2 zip_map1 list_eq_iff_nth_eq)
qed

lemma advance_done: "fst (foldl (\<lambda>st marked. advance marked sub st) (True, i) str)"
  by (induction str) (simp_all add: advance_def)

lemma advance_search:
  "i < length sub \<Longrightarrow> fst (foldl (\<lambda>st marked. advance marked sub st) (False, i) str) \<longleftrightarrow> subseq (drop i sub) str"
proof (induction str arbitrary: i)
  case Nil
  then show ?case by simp
next
  case (Cons c str)
  then have d: "drop i sub = sub ! i # drop (Suc i) sub" by (simp add: Cons_nth_drop_Suc)
  show ?case
  proof (cases "c = sub ! i")
    case True
    have "advance c sub (False, i) = (\<not> Suc i < length sub, Suc i)"
      using True Cons.prems by (auto simp: advance_def Let_def)
    then show ?thesis
      using Cons d True advance_done [of sub "Suc i" str] by (cases "Suc i < length sub") auto
  next
    case False
    then have "advance c sub (False, i) = (False, i)" using Cons.prems False by (auto simp: advance_def)
    then show ?thesis using Cons d False by simp
  qed
qed

text \<open>
  \<open>ContainsAll\<close> finds subsequences.  The one pass over the text decides, for each of the texts that
  are looked for, whether its runes occur in the text in their order, with anything between them (the
  comment of the function speaks of substrings); an empty text is not found in an empty text.
\<close>

theorem ContainsAll_is_subsequence:
  "ContainsAll str subs \<longleftrightarrow> (\<forall>sub \<in> set subs. subseq sub str \<and> str \<noteq> [])"
proof -
  let ?run = "\<lambda>sub. foldl (\<lambda>st marked. advance marked sub st) (False, 0) str"
  have "ContainsAll str subs \<longleftrightarrow> (\<forall>sub \<in> set subs. fst (?run sub))"
    by (auto simp: ContainsAll_def advance_each list_all_iff in_set_zip zip_replicate2)
  moreover have "fst (?run sub) \<longleftrightarrow> subseq sub str \<and> str \<noteq> []" for sub
  proof (cases sub)
    case Nil
    then show ?thesis using advance_done [of "[]"] by (cases str) (simp_all add: advance_def)
  next
    case (Cons x xs)
    then show ?thesis using advance_search [of 0 sub str] by (cases str) auto
  qed
  ultimately show ?thesis by simp
qed

lemma ContainsAll_not_substring: "ContainsAll ''axb'' [''ab'']" "\<not> sublist ''ab'' ''axb''"
  by code_simp+

theorem ContainsAll_is_subsequence_witness:
  "ContainsAll ''no-cache'' [''nch'', ''-''] \<longleftrightarrow> True"
  unfolding ContainsAll_is_subsequence by (code_simp)

text \<open>\<open>UniqueString\<close> keeps the first of equal strings: it is the library's duplicate removal from the right.\<close>

lemma UniqueString_remdups: "UniqueString xs = rev (remdups (rev xs))"
proof -
  have "unique_loop res xs = res @ filter (\<lambda>x. x \<notin> set res) (rev (remdups (rev xs)))" for res
  proof (induction xs rule: rev_induct)
    case (snoc x xs)
    have "unique_loop res (xs @ [x]) = (if x \<in> set (unique_loop res xs) then unique_loop res xs else unique_loop res xs @ [x])" for res
      by (induction res xs rule: unique_loop.induct) auto
    then show ?case using snoc.IH by (auto simp: rev_filter [symmetric] remdups_filter intro!: filter_cong)
  qed simp
  then show ?thesis by (simp add: UniqueString_def)
qed

lemma UniqueString_distinct: "distinct (UniqueString xs)" "set (UniqueString xs) = set xs"
  by (simp_all add: UniqueString_remdups)

lemma found_loop:
  "foldl (\<lambda>m v. if m v \<noteq> None then m(v \<mapsto> True) else m) m xs v =
    (if m v \<noteq> None \<and> v \<in> set xs then Some True else m v)"
  by (induction xs arbitrary: m) auto

lemma ContainsAllString_subset: "ContainsAllString xs subs \<longleftrightarrow> set subs \<subseteq> set xs"
proof -
  have "map_of (map (\<lambda>v. (v, False)) subs) v = (if v \<in> set subs then Some False else None)" for v
    by (induction subs) auto
  then show ?thesis by (auto simp: ContainsAllString_def found_loop list_all_iff simp del: not_None_eq)
qed

section \<open>Conversions\<close>

text \<open>The machine words of \<open>int\<close>, \<open>int64\<close> and \<open>int32\<close> on a 64-bit platform, read as signed numbers.\<close>

definition IntToInt32Ptr :: "64 word \<Rightarrow> 32 word option" where
  "IntToInt32Ptr num = (if sint num > 2147483647 \<or> sint num < - 2147483648 then None else Some (scast num))"

definition IntPtrToInt64Ptr :: "64 word option \<Rightarrow> 64 word option" where
  "IntPtrToInt64Ptr num = (case num of None \<Rightarrow> None | Some n \<Rightarrow> Some (scast n))"

definition Int64PtrToIntPtr :: "64 word option \<Rightarrow> 64 word option" where
  "Int64PtrToIntPtr num = (case num of None \<Rightarrow> None | Some n \<Rightarrow> Some (scast n))"

definition FalseIfNil :: "bool option \<Rightarrow> bool" where
  "FalseIfNil b = (case b of None \<Rightarrow> False | Some x \<Rightarrow> x)"

definition MergeStringMap :: "(string \<rightharpoonup> string) \<Rightarrow> (string \<times> string) list \<Rightarrow> (string \<rightharpoonup> string)" where
  "MergeStringMap base entries = foldl (\<lambda>m (k, v). if m k = None then m(k \<mapsto> v) else m) base entries"

text \<open>A conversion to 32 bits never changes the number: it is refused instead.\<close>

lemma sint_scast32: "- 2147483648 \<le> sint n \<Longrightarrow> sint n \<le> 2147483647 \<Longrightarrow> sint (scast n :: 32 word) = sint n"
  for n :: "64 word"
  unfolding scast_eq sint_sbintrunc' by (rule signed_take_bit_int_eq_self) simp_all

lemma IntToInt32Ptr_exact: "IntToInt32Ptr num = Some m \<Longrightarrow> sint m = sint num"
  by (auto simp: IntToInt32Ptr_def sint_scast32 split: if_splits)

lemma IntToInt32Ptr_none: "IntToInt32Ptr num = None \<longleftrightarrow> (\<forall>m :: 32 word. sint m \<noteq> sint num)"
proof -
  have "\<exists>m :: 32 word. sint m = sint num" if "- 2147483648 \<le> sint num" "sint num \<le> 2147483647"
    by (rule exI [of _ "scast num"]) (rule sint_scast32 [OF that])
  moreover have "- 2147483648 \<le> sint m \<and> sint m \<le> 2147483647" for m :: "32 word"
    using sint_range_size [of m] by (simp add: word_size)
  ultimately show ?thesis by (auto simp: IntToInt32Ptr_def not_less) (metis not_less)+
qed

lemma Int64_round_trip: "Int64PtrToIntPtr (IntPtrToInt64Ptr p) = p"
  by (cases p) (simp_all add: Int64PtrToIntPtr_def IntPtrToInt64Ptr_def scast_eq)

text \<open>
  The entries of the base map win, and since the keys of a Go map differ the order in which the other map
  is read does not matter.
\<close>

lemma MergeStringMap_eq:
  "distinct (map fst entries) \<Longrightarrow> MergeStringMap base entries = map_of entries ++ base"
proof (induction entries arbitrary: base)
  case (Cons e entries)
  obtain k v where e: "e = (k, v)" by fastforce
  have k: "map_of entries k = None" using Cons.prems e by (simp add: map_of_eq_None_iff)
  have "MergeStringMap base (e # entries) = MergeStringMap (if base k = None then base(k \<mapsto> v) else base) entries"
    by (simp add: MergeStringMap_def e)
  also have "\<dots> = map_of entries ++ (if base k = None then base(k \<mapsto> v) else base)"
    using Cons by simp
  also have "\<dots> = map_of (e # entries) ++ base"
  proof (rule ext)
    fix x
    show "(map_of entries ++ (if base k = None then base(k \<mapsto> v) else base)) x = (map_of (e # entries) ++ base) x"
      by (cases "x = k"; cases "base k"; cases "base x") (simp_all add: e k map_add_def)
  qed
  finally show ?case .
qed (simp add: MergeStringMap_def)

lemma MergeStringMap_order:
  "distinct (map fst es) \<Longrightarrow> distinct (map fst es') \<Longrightarrow> set es = set es' \<Longrightarrow>
    MergeStringMap base es = MergeStringMap base es'"
  using map_of_inject_set [of es es'] by (simp add: MergeStringMap_eq)

end
