(* ===== verification/Cache_Control.thy ===== *)
theory Cache_Control
  imports Go_Strings "HOL-Library.Word"
begin

text \<open>
  internal/util/cache_control.go and internal/api/middleware/cache_control.go: the set of cache control
  directives as the bits of a \<open>uint8\<close>, the reader of the header and the middleware that stores the set in
  the context of the request.
\<close>

unbundle bit_operations_syntax

type_synonym directive = "8 word"

definition CacheControlDirectiveNoCache :: directive where
  "CacheControlDirectiveNoCache = push_bit 0 1"

definition CacheControlDirectiveNoStore :: directive where
  "CacheControlDirectiveNoStore = push_bit 1 1"

definition HasDirective :: "directive \<Rightarrow> directive \<Rightarrow> bool" where
  "HasDirective d dir \<longleftrightarrow> d AND dir \<noteq> 0"

definition AddDirective :: "directive \<Rightarrow> directive \<Rightarrow> directive" where
  "AddDirective d dir = d OR dir"

definition ClearDirective :: "directive \<Rightarrow> directive \<Rightarrow> directive" where
  "ClearDirective d dir = d AND NOT dir"

definition ToggleDirective :: "directive \<Rightarrow> directive \<Rightarrow> directive" where
  "ToggleDirective d dir = d XOR dir"

definition directive_String :: "directive \<Rightarrow> string" where
  "directive_String d =
     (let res = [];
          res = (if HasDirective d CacheControlDirectiveNoCache then res @ [''no-cache''] else res);
          res = (if HasDirective d CacheControlDirectiveNoStore then res @ [''no-store''] else res)
      in strings_Join res ''|'')"

definition ParseCacheControlDirective :: "string \<Rightarrow> directive" where
  "ParseCacheControlDirective d =
     (let name = strings_ToLower (split_char (CHR ''='') d ! 0) in
      if name = ''no-cache'' then CacheControlDirectiveNoCache
      else if name = ''no-store'' then CacheControlDirectiveNoStore
      else 0)"

definition ParseCacheControlHeader :: "string \<Rightarrow> directive" where
  "ParseCacheControlHeader val =
     foldl (\<lambda>res dir. res OR ParseCacheControlDirective dir) 0 (split_char (CHR '','') val)"

text \<open>The value under \<open>CTXKeyCacheControl\<close>: absent, or what the middleware stored, or of another type.\<close>

datatype ctx_value = CtxDirective directive | CtxOther

definition CacheControlDirectiveFromContext :: "ctx_value option \<Rightarrow> directive" where
  "CacheControlDirectiveFromContext v = (case v of
      None \<Rightarrow> 0
    | Some (CtxDirective d) \<Rightarrow> d
    | Some CtxOther \<Rightarrow> 0)"

text \<open>
  The middleware: \<open>cacheControl\<close> is the header of the request and the context is what the next handler is
  called with.
\<close>

definition CacheControlWithConfig :: "bool \<Rightarrow> string \<Rightarrow> ctx_value option \<Rightarrow> ctx_value option" where
  "CacheControlWithConfig skip cacheControl ctx =
     (if skip then ctx
      else if length cacheControl > 0 then Some (CtxDirective (ParseCacheControlHeader cacheControl))
      else ctx)"

section \<open>The set of directives\<close>

lemma HasDirective_Add [simp]: "dir \<noteq> 0 \<Longrightarrow> HasDirective (AddDirective d dir) dir"
  by (simp add: HasDirective_def AddDirective_def bit.conj_disj_distrib2)

lemma HasDirective_Clear [simp]: "\<not> HasDirective (ClearDirective d dir) dir"
  by (simp add: HasDirective_def ClearDirective_def and.assoc)

lemma ToggleDirective_twice [simp]: "ToggleDirective (ToggleDirective d dir) dir = d"
  by (simp add: ToggleDirective_def xor.assoc)

lemma HasDirective_Add_other: "dir AND dir' = 0 \<Longrightarrow> HasDirective (AddDirective d dir) dir' \<longleftrightarrow> HasDirective d dir'"
  by (simp add: HasDirective_def AddDirective_def bit.conj_disj_distrib2)

lemma directives_disjoint: "CacheControlDirectiveNoCache AND CacheControlDirectiveNoStore = 0"
  by (simp add: CacheControlDirectiveNoCache_def CacheControlDirectiveNoStore_def)

text \<open>
  The header is read as the union of its directives, so their order and repetitions do not matter; the
  context hands the union on.
\<close>

lemma header_fold: "foldl (\<lambda>res dir. res OR f dir) r ds AND b \<noteq> 0 \<longleftrightarrow> r AND b \<noteq> 0 \<or> (\<exists>d \<in> set ds. f d AND b \<noteq> 0)"
  for r :: directive
proof (induction ds arbitrary: r)
  case (Cons d ds)
  have "(r OR f d) AND b \<noteq> 0 \<longleftrightarrow> r AND b \<noteq> 0 \<or> f d AND b \<noteq> 0"
    unfolding bit.conj_disj_distrib2 or_eq_0_iff by blast
  then show ?case using Cons by auto
qed simp

lemma ParseCacheControlDirective_has:
  "HasDirective (ParseCacheControlDirective d) CacheControlDirectiveNoCache \<longleftrightarrow>
    strings_ToLower (split_char (CHR ''='') d ! 0) = ''no-cache''"
  "HasDirective (ParseCacheControlDirective d) CacheControlDirectiveNoStore \<longleftrightarrow>
    strings_ToLower (split_char (CHR ''='') d ! 0) = ''no-store''"
  by (simp_all add: ParseCacheControlDirective_def HasDirective_def Let_def
      CacheControlDirectiveNoCache_def CacheControlDirectiveNoStore_def)

lemma ParseCacheControlHeader_has:
  "HasDirective (ParseCacheControlHeader v) b \<longleftrightarrow>
    (\<exists>d \<in> set (split_char (CHR '','') v). HasDirective (ParseCacheControlDirective d) b)"
  unfolding ParseCacheControlHeader_def HasDirective_def header_fold by simp

text \<open>
  A directive counts when one of the texts between the commas, up to its equals sign, is its name in any
  case.  The space that a list in a header usually has after its comma is not removed, so the second
  directive of \<open>no-cache, no-store\<close> is not seen.
\<close>

lemma CacheControl_reads_header:
  "v \<noteq> [] \<Longrightarrow> HasDirective (CacheControlDirectiveFromContext (CacheControlWithConfig False v ctx)) CacheControlDirectiveNoStore \<longleftrightarrow>
    (\<exists>d \<in> set (split_char (CHR '','') v). strings_ToLower (split_char (CHR ''='') d ! 0) = ''no-store'')"
  by (simp add: CacheControlWithConfig_def CacheControlDirectiveFromContext_def ParseCacheControlHeader_has
      ParseCacheControlDirective_has)

lemma CacheControl_space_hides_directive:
  "directive_String (ParseCacheControlHeader ''no-cache,no-store'') = ''no-cache|no-store''"
  "directive_String (ParseCacheControlHeader ''no-cache, no-store'') = ''no-cache''"
  by code_simp+

end
