(* ===== verification/Environment.thy ===== *)
theory Environment
  imports Util "HOL-Library.List_Lexorder" "HOL-Library.Char_ord"
begin

text \<open>
  internal/util/env.go and internal/config/db_config.go: the values read from the environment of the
  process and the connection string of the database.  \<open>lookup\<close> is \<open>os.LookupEnv\<close>; a call that panics
  gives \<open>None\<close>.
\<close>

section \<open>Environment variables\<close>

type_synonym environ = "string \<Rightarrow> string option"

definition GetEnv :: "environ \<Rightarrow> string \<Rightarrow> string \<Rightarrow> string" where
  "GetEnv lookup key defaultVal = (case lookup key of Some val \<Rightarrow> val | None \<Rightarrow> defaultVal)"

definition GetEnvEnum :: "environ \<Rightarrow> string \<Rightarrow> string \<Rightarrow> string list \<Rightarrow> string option" where
  "GetEnvEnum lookup key defaultVal allowedValues =
     (if defaultVal \<notin> set allowedValues then None
      else (case lookup key of
        None \<Rightarrow> Some defaultVal
      | Some val \<Rightarrow> if val \<notin> set allowedValues then Some defaultVal else Some val))"

definition GetEnvAsInt :: "environ \<Rightarrow> string \<Rightarrow> int \<Rightarrow> int" where
  "GetEnvAsInt lookup key defaultVal =
     (case Atoi (GetEnv lookup key []) of Some val \<Rightarrow> val | None \<Rightarrow> defaultVal)"

definition GetEnvAsUint32 :: "environ \<Rightarrow> string \<Rightarrow> 32 word \<Rightarrow> 32 word" where
  "GetEnvAsUint32 lookup key defaultVal =
     (case ParseUint10 (GetEnv lookup key []) 32 of Some val \<Rightarrow> of_nat val | None \<Rightarrow> defaultVal)"

definition GetEnvAsUint8 :: "environ \<Rightarrow> string \<Rightarrow> 8 word \<Rightarrow> 8 word" where
  "GetEnvAsUint8 lookup key defaultVal =
     (case ParseUint10 (GetEnv lookup key []) 8 of Some val \<Rightarrow> of_nat val | None \<Rightarrow> defaultVal)"

text \<open>\<open>strconv.ParseBool\<close>.\<close>

definition ParseBool :: "string \<Rightarrow> bool option" where
  "ParseBool s =
     (if s \<in> set [''1'', ''t'', ''T'', ''TRUE'', ''true'', ''True''] then Some True
      else if s \<in> set [''0'', ''f'', ''F'', ''FALSE'', ''false'', ''False''] then Some False
      else None)"

definition GetEnvAsBool :: "environ \<Rightarrow> string \<Rightarrow> bool \<Rightarrow> bool" where
  "GetEnvAsBool lookup key defaultVal =
     (case ParseBool (GetEnv lookup key []) of Some val \<Rightarrow> val | None \<Rightarrow> defaultVal)"

text \<open>\<open>strings.Split\<close> with a separator; an empty one splits ASCII text into its characters.\<close>

fun split_on :: "string \<Rightarrow> string \<Rightarrow> string \<Rightarrow> nat \<Rightarrow> string list" where
  "split_on sep acc [] skip = [acc]"
| "split_on sep acc (c # s) (Suc n) = split_on sep acc s n"
| "split_on sep acc (c # s) 0 =
     (if prefix sep (c # s) then acc # split_on sep [] s (length sep - 1)
      else split_on sep (acc @ [c]) s 0)"

definition strings_Split :: "string \<Rightarrow> string \<Rightarrow> string list" where
  "strings_Split s sep = (if sep = [] then map (\<lambda>c. [c]) s else split_on sep [] s 0)"

definition GetEnvAsStringArr :: "environ \<Rightarrow> string \<Rightarrow> string list \<Rightarrow> string list \<Rightarrow> string list" where
  "GetEnvAsStringArr lookup key defaultVal separator =
     (let strVal = GetEnv lookup key [] in
      if length strVal = 0 then defaultVal
      else strings_Split strVal (case separator of [] \<Rightarrow> '','' | sep # _ \<Rightarrow> sep))"

definition GetEnvAsStringArrTrimmed :: "environ \<Rightarrow> string \<Rightarrow> string list \<Rightarrow> string list \<Rightarrow> string list" where
  "GetEnvAsStringArrTrimmed lookup key defaultVal separator =
     map strings_TrimSpace (GetEnvAsStringArr lookup key defaultVal separator)"

text \<open>
  \<open>GetMgmtSecret\<close> with the package's \<open>sync.Once\<close>: the state is whether its function has been started and
  the secret.  A \<open>Once\<close> whose function panicked counts as done.
\<close>

record mgmt =
  mg_done :: bool
  mg_secret :: string

definition GetMgmtSecret :: "environ \<Rightarrow> source \<Rightarrow> string \<Rightarrow> (mgmt, string) prog" where
  "GetMgmtSecret lookup rand envKey = (\<lambda>s.
     let val = GetEnv lookup envKey [] in
     if length val > 0 then (Ok val, s)
     else if mg_done s then (Ok (mg_secret s), s)
     else (case GenerateRandomHexString rand 0 16 of
         Inl x \<Rightarrow> (Panic ''Failed to generate random management secret'', s\<lparr>mg_done := True, mg_secret := []\<rparr>)
       | Inr h \<Rightarrow> (Ok h, s\<lparr>mg_done := True, mg_secret := h\<rparr>)))"

text \<open>A setting is the default or a value that was read; an enumeration stays in its values.\<close>

lemma GetEnvEnum_allowed: "GetEnvEnum lookup key d allowed = Some v \<Longrightarrow> v \<in> set allowed"
  by (auto simp: GetEnvEnum_def split: if_splits option.splits)

lemma GetEnvEnum_panics: "GetEnvEnum lookup key d allowed = None \<longleftrightarrow> d \<notin> set allowed"
  by (auto simp: GetEnvEnum_def split: option.splits)

lemma GetEnvAsInt_show: "- (2 ^ 63) \<le> i \<Longrightarrow> i < 2 ^ 63 \<Longrightarrow> lookup key = Some (show_int i) \<Longrightarrow> GetEnvAsInt lookup key d = i"
  by (simp add: GetEnvAsInt_def GetEnv_def Atoi_show_int)

text \<open>The conversions to 32 and 8 bits never cut: what does not fit gives the default.\<close>

lemma GetEnvAsUint_show:
  "n < 2 ^ 32 \<Longrightarrow> lookup key = Some (show_nat n) \<Longrightarrow> unat (GetEnvAsUint32 lookup key d) = n"
  "n < 2 ^ 8 \<Longrightarrow> lookup key = Some (show_nat n) \<Longrightarrow> unat (GetEnvAsUint8 lookup key d') = n"
  by (simp_all add: GetEnvAsUint32_def GetEnvAsUint8_def GetEnv_def ParseUint10_show unsigned_of_nat take_bit_nat_eq_self)

lemma GetEnvAsUint_too_large:
  "n \<ge> 2 ^ 32 \<Longrightarrow> lookup key = Some (show_nat n) \<Longrightarrow> GetEnvAsUint32 lookup key d = d"
  "n \<ge> 2 ^ 8 \<Longrightarrow> lookup key = Some (show_nat n) \<Longrightarrow> GetEnvAsUint8 lookup key d' = d'"
  by (simp_all add: GetEnvAsUint32_def GetEnvAsUint8_def GetEnv_def ParseUint10_def)

text \<open>The list of a setting is read back from its elements joined by commas.\<close>

lemma split_on_comma: "split_on '','' acc s 0 = (case split_char (CHR '','') s of w # ws \<Rightarrow> (acc @ w) # ws | [] \<Rightarrow> [])"
proof (induction s arbitrary: acc)
  case (Cons c s)
  then show ?case by (cases "split_char (CHR '','') s") auto
qed simp

lemma split_join: "ws \<noteq> [] \<Longrightarrow> \<forall>w \<in> set ws. c \<notin> set w \<Longrightarrow> split_char c (strings_Join ws [c]) = ws"
proof (induction ws rule: list_nonempty_induct)
  case (cons w ws)
  then show ?case by (cases ws) (simp_all add: split_char_append)
qed (simp add: split_char_none)

lemma GetEnvAsStringArr_join:
  assumes "ws \<noteq> []" "ws \<noteq> [[]]" "\<forall>w \<in> set ws. CHR '','' \<notin> set w" "lookup key = Some (strings_Join ws '','')"
  shows "GetEnvAsStringArr lookup key d [] = ws"
proof -
  obtain w ws' where "ws = w # ws'" using assms(1) by (cases ws) auto
  then have "strings_Join ws '','' \<noteq> []" using assms(2) by (cases ws') auto
  then show ?thesis
    using assms(4) split_join [OF assms(1,3)] assms(1)
    by (simp add: GetEnvAsStringArr_def GetEnv_def strings_Split_def split_on_comma split: list.split)
qed

text \<open>
  Every later call gives the secret of the first one; after a first call that panicked that is the
  empty secret.
\<close>

lemma GetMgmtSecret_stable:
  assumes "GetMgmtSecret lookup rand k s = (Ok x, t)"
  shows "fst (GetMgmtSecret lookup rand' k t) = Ok x"
  using assms by (auto simp: GetMgmtSecret_def Let_def split: if_splits sum.splits)

lemma GetMgmtSecret_length:
  assumes "GetMgmtSecret lookup rand k \<lparr>mg_done = False, mg_secret = []\<rparr> = (Ok x, t)"
    and "\<And>n b. rand 0 n = Inr b \<Longrightarrow> length b = n" and "lookup k = None"
  shows "length x = 32"
  using assms
  by (auto simp: GetMgmtSecret_def GetEnv_def Let_def GenerateRandomHexString_def GenerateRandomBytes_def
      hex_EncodeToString_def length_concat comp_def sum_list_triv split: sum.splits)

lemma GetMgmtSecret_after_panic:
  assumes "GetMgmtSecret lookup rand k s = (Panic c, t)"
  shows "GetMgmtSecret lookup rand' k t = (Ok [], t)"
  using assms by (auto simp: GetMgmtSecret_def Let_def split: if_splits sum.splits)

section \<open>The connection string\<close>

record database_config =
  dc_Host :: string
  dc_Port :: int
  dc_Username :: string
  dc_Password :: string
  dc_Database :: string
  dc_AdditionalParams :: "(string \<times> string) list"

text \<open>The entries of the map in the order of the loop over it; the keys differ.\<close>

definition ConnectionString :: "database_config \<Rightarrow> string" where
  "ConnectionString c =
     ''host='' @ dc_Host c @ '' port='' @ show_int (dc_Port c) @ '' user='' @ dc_Username c @
     '' password='' @ dc_Password c @ '' dbname='' @ dc_Database c @
     (if ''sslmode'' \<in> set (map fst (dc_AdditionalParams c)) then [] else '' sslmode=disable'') @
     (if length (dc_AdditionalParams c) > 0
      then concat (map (\<lambda>p. '' '' @ p @ ''='' @ the (map_of (dc_AdditionalParams c) p))
             (sort (map fst (dc_AdditionalParams c))))
      else [])"

text \<open>The string does not depend on the order in which the map is read.\<close>

lemma ConnectionString_order:
  assumes "distinct (map fst ps)" "distinct (map fst qs)" "set ps = set qs"
  shows "ConnectionString (c\<lparr>dc_AdditionalParams := ps\<rparr>) = ConnectionString (c\<lparr>dc_AdditionalParams := qs\<rparr>)"
proof -
  have "set (map fst ps) = set (map fst qs)" using assms(3) by simp
  then have "sort (map fst ps) = sort (map fst qs)"
    using assms(1,2) by (intro sorted_distinct_set_unique) simp_all
  moreover have "map_of ps = map_of qs" using assms map_of_inject_set by blast
  moreover have "ps = [] \<longleftrightarrow> qs = []" using assms(3) by auto
  ultimately show ?thesis using \<open>set (map fst ps) = set (map fst qs)\<close> by (simp add: ConnectionString_def)
qed

end
