(* ===== verification/Passkeys.thy ===== *)
theory Passkeys
  imports Custody_Data Examples
begin

text \<open>
  internal/service/auth/impl.go: passkeys, the credentials of WebAuthn.  The library that builds and
  verifies the ceremonies (github.com/go-webauthn/webauthn) is not part of the repository: the record
  \<open>webauthn\<close> holds its four calls as arbitrary functions, with the number of the interaction from
  which a call takes its challenge.
\<close>

section \<open>The values of the library\<close>

text \<open>\<open>webauthn.Credential\<close>, as far as the service sets or reads it; \<open>SignCount\<close> is a \<open>uint32\<close>.\<close>

record credential =
  cr_id :: string
  cr_public_key :: string
  cr_attestation_type :: string
  cr_aaguid :: string
  cr_sign_count :: nat

text \<open>\<open>WebAuthnUser\<close>: what its methods return.\<close>

record webauthn_user =
  wu_WebAuthnID :: string
  wu_WebAuthnName :: string
  wu_WebAuthnDisplayName :: string
  wu_WebAuthnIcon :: string
  wu_WebAuthnCredentials :: "credential list"

record ('sess, 'opts) webauthn =
  wa_BeginRegistration :: "nat \<Rightarrow> webauthn_user \<Rightarrow> go_error + ('opts \<times> 'sess)"
  wa_FinishRegistration :: "nat \<Rightarrow> webauthn_user \<Rightarrow> 'sess \<Rightarrow> string \<Rightarrow> go_error + credential"
  wa_BeginLogin :: "nat \<Rightarrow> webauthn_user \<Rightarrow> go_error + ('opts \<times> 'sess)"
  wa_FinishLogin :: "nat \<Rightarrow> webauthn_user \<Rightarrow> 'sess \<Rightarrow> string \<Rightarrow> go_error + credential"

definition lib :: "(nat \<Rightarrow> go_error + 'a) \<Rightarrow> (world, 'a) prog" where
  "lib f = (\<lambda>w. case f (clk w) of Inl x \<Rightarrow> (Err x, tick w) | Inr r \<Rightarrow> (Ok r, tick w))"

section \<open>Rows of \<open>user_credentials\<close>\<close>

text \<open>
  A PostgreSQL \<open>text\<close> is UTF-8 without NUL.  The columns \<open>credential_id\<close> and \<open>public_key\<close> get the raw
  bytes that the library returns, so the insert has to check them.
\<close>

definition continuation :: "nat \<Rightarrow> nat \<Rightarrow> char \<Rightarrow> bool" where
  "continuation lo hi c \<longleftrightarrow> lo \<le> code c \<and> code c \<le> hi"

fun is_text :: "string \<Rightarrow> bool" where
  "is_text [] = True"
| "is_text (a # s) =
     (let n = code a in
      if n < 128 then n \<noteq> 0 \<and> is_text s
      else if 194 \<le> n \<and> n \<le> 223 then
        (case s of b # s' \<Rightarrow> continuation 128 191 b \<and> is_text s' | _ \<Rightarrow> False)
      else if 224 \<le> n \<and> n \<le> 239 then
        (case s of b # c # s' \<Rightarrow> continuation (if n = 224 then 160 else 128) (if n = 237 then 159 else 191) b \<and>
            continuation 128 191 c \<and> is_text s' | _ \<Rightarrow> False)
      else if 240 \<le> n \<and> n \<le> 244 then
        (case s of b # c # d # s' \<Rightarrow> continuation (if n = 240 then 144 else 128) (if n = 244 then 143 else 191) b \<and>
            continuation 128 191 c \<and> continuation 128 191 d \<and> is_text s' | _ \<Rightarrow> False)
      else False)"

definition bad_text :: go_error where
  "bad_text = ErrDriver ''pq: invalid byte sequence for encoding UTF8''"

definition out_of_range :: go_error where
  "out_of_range = ErrDriver ''pq: value is out of range for type integer''"

definition user_credential_insert ::
    "env \<Rightarrow> handle \<Rightarrow> user_credential_row \<Rightarrow> (world, user_credential_row) prog" where
  "user_credential_insert e h c = bindP (sys_now e) (\<lambda>now.
     insert_stmt ''user_credentials'' e h
       (\<lambda>n. c\<lparr>ucr_id := default_id (env_uuid e n) (ucr_id c),
              ucr_user_id := canon e (ucr_user_id c),
              ucr_aaguid := map_option (canon e) (ucr_aaguid c),
              ucr_created_at := default_null_time now (ucr_created_at c),
              ucr_updated_at := default_null_time now (ucr_updated_at c)\<rparr>)
       (\<lambda>r d. [(\<not> is_uuid e (ucr_user_id c), bad_uuid),
               (\<not> is_text (ucr_credential_id c) \<or> \<not> is_text (ucr_public_key c), bad_text),
               (bad_ref e (ucr_aaguid c), bad_uuid),
               (case ucr_sign_count c of None \<Rightarrow> False | Some n \<Rightarrow> n > 2147483647, out_of_range),
               (case ucr_attestation_type c of None \<Rightarrow> False | Some t \<Rightarrow> char_length t > 50, too_long),
               (\<exists>q \<in> set (user_credentials d). ucr_id q = ucr_id r, unique_violation ''user_credentials_pkey''),
               (\<exists>q \<in> set (user_credentials d). ucr_user_id q = ucr_user_id r \<and>
                  ucr_credential_id q = ucr_credential_id r,
                  unique_violation ''user_credentials_user_id_credential_id_key''),
               (\<not> has_user d (ucr_user_id r), fk_violation ''user_credentials_user_id_fkey'')])
       (\<lambda>r d. d\<lparr>user_credentials := user_credentials d @ [r]\<rparr>))"

definition write_credential :: "user_credential_row \<Rightarrow> time \<Rightarrow> user_credential_row \<Rightarrow> user_credential_row" where
  "write_credential c now r = c\<lparr>ucr_created_at := ucr_created_at r, ucr_updated_at := Some now\<rparr>"

definition user_credential_update :: "env \<Rightarrow> handle \<Rightarrow> user_credential_row \<Rightarrow> (world, unit) prog" where
  "user_credential_update e h c = bindP (sys_now e) (\<lambda>now.
     wrapP ''models: unable to update user_credentials row'' (stmt e h (\<lambda>n d.
       if (case ucr_sign_count c of None \<Rightarrow> False | Some k \<Rightarrow> k > 2147483647) then Inl out_of_range
       else Inr ((), d\<lparr>user_credentials :=
          map (\<lambda>r. if ucr_id r = ucr_id c then write_credential c now r else r) (user_credentials d)\<rparr>))))"

section \<open>The service\<close>

definition username_text :: "user_row \<Rightarrow> string" where
  "username_text u = (case usr_username u of None \<Rightarrow> [] | Some s \<Rightarrow> s)"

text \<open>The loop of \<open>getUser\<close>: a credential of the library is rebuilt without its authenticator.\<close>

definition rebuild :: "user_credential_row \<Rightarrow> credential" where
  "rebuild c = \<lparr>cr_id = ucr_credential_id c, cr_public_key = ucr_public_key c,
     cr_attestation_type = (case ucr_attestation_type c of None \<Rightarrow> [] | Some t \<Rightarrow> t),
     cr_aaguid = [], cr_sign_count = 0\<rparr>"

definition passkey_user :: "user_row \<Rightarrow> user_credential_row list \<Rightarrow> webauthn_user" where
  "passkey_user user creds = \<lparr>wu_WebAuthnID = usr_id user, wu_WebAuthnName = username_text user,
     wu_WebAuthnDisplayName = username_text user, wu_WebAuthnIcon = [],
     wu_WebAuthnCredentials = map rebuild creds\<rparr>"

definition getUser :: "env \<Rightarrow> string \<Rightarrow> (world, user_row \<times> webauthn_user) prog" where
  "getUser e email =
     tryP (one_row ''users'' e Pool users (\<lambda>u. usr_username u = Some email)) (\<lambda>res. case res of
       Inl x \<Rightarrow> if errors_is x ErrNoRows then errP (ErrPlain ''user not found'') else errP x
     | Inr user \<Rightarrow>
         bindP (all_rows ''UserCredential slice'' e Pool user_credentials (\<lambda>c. ucr_user_id c = usr_id user)) (\<lambda>creds.
           okP (user, passkey_user user creds)))"

definition BeginRegistration :: "('sess, 'opts) webauthn \<Rightarrow> env \<Rightarrow> string \<Rightarrow> (world, 'opts \<times> 'sess) prog" where
  "BeginRegistration wa e email =
     bindP (getUser e email) (\<lambda>(user, wu). lib (\<lambda>n. wa_BeginRegistration wa n wu))"

definition dbCred :: "user_row \<Rightarrow> credential \<Rightarrow> user_credential_row" where
  "dbCred user credential =
     \<lparr>ucr_id = [], ucr_user_id = usr_id user, ucr_credential_id = cr_id credential,
     ucr_public_key = cr_public_key credential, ucr_attestation_type = Some (cr_attestation_type credential),
     ucr_aaguid = Some (cr_aaguid credential), ucr_sign_count = Some (int (cr_sign_count credential)),
     ucr_device_name = None, ucr_last_used_at = None, ucr_created_at = None, ucr_updated_at = None\<rparr>"

definition FinishRegistration ::
    "('sess, 'opts) webauthn \<Rightarrow> env \<Rightarrow> string \<Rightarrow> 'sess \<Rightarrow> string \<Rightarrow> (world, credential) prog" where
  "FinishRegistration wa e email sessionData r =
     bindP (getUser e email) (\<lambda>(user, wu).
     bindP (lib (\<lambda>n. wa_FinishRegistration wa n wu sessionData r)) (\<lambda>credential.
     bindP (user_credential_insert e Pool (dbCred user credential)) (\<lambda>_.
     okP credential)))"

definition BeginLogin :: "('sess, 'opts) webauthn \<Rightarrow> env \<Rightarrow> string \<Rightarrow> (world, 'opts \<times> 'sess) prog" where
  "BeginLogin wa e email =
     bindP (getUser e email) (\<lambda>(user, wu). lib (\<lambda>n. wa_BeginLogin wa n wu))"

text \<open>An error of the query for the row is dropped, and then the count is not written.\<close>

definition FinishLogin ::
    "('sess, 'opts) webauthn \<Rightarrow> env \<Rightarrow> string \<Rightarrow> 'sess \<Rightarrow> string \<Rightarrow> (world, credential) prog" where
  "FinishLogin wa e email sessionData r =
     bindP (getUser e email) (\<lambda>(user, wu).
     bindP (lib (\<lambda>n. wa_FinishLogin wa n wu sessionData r)) (\<lambda>credential.
     tryP (one_row ''user_credentials'' e Pool user_credentials
             (\<lambda>c. ucr_user_id c = usr_id user \<and> ucr_credential_id c = cr_id credential)) (\<lambda>res. case res of
       Inl _ \<Rightarrow> okP credential
     | Inr row \<Rightarrow>
         thenP (user_credential_update e Pool (row\<lparr>ucr_sign_count := Some (int (cr_sign_count credential))\<rparr>))
           (okP credential))))"

end
