(* ===== verification/Passkey_Theorems.thy ===== *)
theory Passkey_Theorems
  imports Passkeys Custody_Facts
begin

text \<open>
  What registering and using passkeys does: the round trip of a credential through its row, the
  consistency of the table, the effect of a login, and the reason why no passkey gets stored at all.
\<close>

section \<open>Rules for the statements\<close>

definition user_passkeys :: "user_row \<Rightarrow> database \<Rightarrow> user_credential_row list" where
  "user_passkeys u d = filter (\<lambda>c. ucr_user_id c = usr_id u) (user_credentials d)"

definition find_username :: "string \<Rightarrow> database \<Rightarrow> user_row option" where
  "find_username email d = find (\<lambda>u. usr_username u = Some email) (users d)"

lemma lib_Ok_iff [outcome_simps]: "lib f w = (Ok r, t) \<longleftrightarrow> f (clk w) = Inr r \<and> t = tick w"
  by (auto simp: lib_def split: sum.splits)

lemma frame_lib [frame_intros]: "frame db (lib f)" "frame tx (lib f)"
  by (auto simp: frame_def lib_def tick_def split: sum.splits)

lemma frame_one_row_tx: "frame tx (one_row tn e h tab p)"
  unfolding one_row_def by (intro frame_intros frame_tx_query)

lemma frame_getUser [frame_intros]: "frame db (getUser e email)" "frame tx (getUser e email)"
  unfolding getUser_def all_rows_def by (auto intro!: frame_intros frame_one_row_tx frame_tx_query)

lemma dvalid_lib: "dvalid P (lib f) (\<lambda>r d. P d \<and> (\<exists>n. f n = Inr r)) P"
  by (rule dvalid_reads) (auto intro: frame_lib simp: lib_Ok_iff)

lemma dvalid_getUser:
  "dvalid P (getUser e email) (\<lambda>r d. P d \<and>
     (\<exists>u. find_username email d = Some u \<and> r = (u, passkey_user u (user_passkeys u d)))) P"
  by (rule dvalid_reads, rule frame_getUser, rule frame_getUser)
    (auto simp: getUser_def outcome_simps user_passkeys_def find_username_def)

lemma getUser_Ok_iff:
  "getUser e email w = (Ok r, t) \<longleftrightarrow> env_fault e (clk w) = None \<and> env_fault e (Suc (clk w)) = None \<and> t = tick (tick w) \<and>
     (\<exists>u. find_username email (db w) = Some u \<and> r = (u, passkey_user u (user_passkeys u (db w))))"
  unfolding getUser_def by (auto simp: outcome_simps user_passkeys_def find_username_def)

lemma dvalid_one_row: "dvalid P (one_row tn e Pool tab p) (\<lambda>r d. P d \<and> find p (tab d) = Some r) P"
  by (rule dvalid_reads) (auto intro: frame_db_finishers frame_one_row_tx simp: one_row_Ok_iff)

text \<open>What is known of a row that was inserted for the row \<open>c\<close> of the caller.\<close>

definition inserted :: "env \<Rightarrow> user_credential_row \<Rightarrow> user_credential_row \<Rightarrow> database \<Rightarrow> bool" where
  "inserted e c r d \<longleftrightarrow> is_uuid e (ucr_user_id c) \<and> is_text (ucr_credential_id c) \<and> is_text (ucr_public_key c) \<and>
     \<not> bad_ref e (ucr_aaguid c) \<and> (\<forall>n. ucr_sign_count c = Some n \<longrightarrow> n \<le> 2147483647) \<and>
     has_user d (ucr_user_id r) \<and> (\<forall>q \<in> set (user_credentials d). ucr_id q \<noteq> ucr_id r \<and>
       (ucr_user_id q = ucr_user_id r \<longrightarrow> ucr_credential_id q \<noteq> ucr_credential_id r)) \<and>
     ucr_user_id r = canon e (ucr_user_id c) \<and> ucr_credential_id r = ucr_credential_id c \<and>
     ucr_public_key r = ucr_public_key c \<and> ucr_attestation_type r = ucr_attestation_type c \<and>
     ucr_sign_count r = ucr_sign_count c \<and> ucr_aaguid r = map_option (canon e) (ucr_aaguid c)"

definition with_passkey :: "user_credential_row \<Rightarrow> database \<Rightarrow> database" where
  "with_passkey r d = d\<lparr>user_credentials := user_credentials d @ [r]\<rparr>"

lemma dvalid_user_credential_insert:
  "dvalid P (user_credential_insert e Pool c) (\<lambda>r d'. \<exists>d. P d \<and> inserted e c r d \<and> d' = with_passkey r d) P"
  unfolding user_credential_insert_def
  by (rule dvalid_completed_insert)
    (fastforce simp: inserted_def with_passkey_def split: if_splits option.splits)

definition with_count :: "user_credential_row \<Rightarrow> int \<Rightarrow> time \<Rightarrow> database \<Rightarrow> database" where
  "with_count c n now d = d\<lparr>user_credentials :=
     map (\<lambda>r. if ucr_id r = ucr_id c then write_credential (c\<lparr>ucr_sign_count := Some n\<rparr>) now r else r) (user_credentials d)\<rparr>"

lemma dvalid_user_credential_update:
  "dvalid P (user_credential_update e Pool (c\<lparr>ucr_sign_count := Some n\<rparr>))
     (\<lambda>_ d'. n \<le> 2147483647 \<and> (\<exists>d now. P d \<and> d' = with_count c n now d)) P"
  by (rule dvalidI)
    (auto simp: user_credential_update_def with_count_def wrapP_def tryP_def bindP_def sys_now_def stmt_def okP_def errP_def
      split: option.splits sum.splits outcome.splits prod.splits if_splits, blast+)

section \<open>Consistency of the table\<close>

definition passkeys_ok :: "database \<Rightarrow> bool" where
  "passkeys_ok d \<longleftrightarrow> distinct (map ucr_id (user_credentials d)) \<and>
     distinct (map (\<lambda>c. (ucr_user_id c, ucr_credential_id c)) (user_credentials d)) \<and>
     (\<forall>c \<in> set (user_credentials d). has_user d (ucr_user_id c) \<and>
        (case ucr_sign_count c of None \<Rightarrow> True | Some n \<Rightarrow> n \<le> 2147483647))"

lemma passkeys_ok_insert: "passkeys_ok d \<Longrightarrow> inserted e c r d \<Longrightarrow> passkeys_ok (with_passkey r d)"
  by (auto simp: passkeys_ok_def inserted_def with_passkey_def has_user_def split: option.splits)

lemma map_pointwise: "(\<And>x. x \<in> set xs \<Longrightarrow> g (f x) = g x) \<Longrightarrow> map g (map f xs) = map g xs"
  by simp

lemma passkeys_ok_count:
  assumes "passkeys_ok d" "c \<in> set (user_credentials d)" "n \<le> 2147483647"
  shows "passkeys_ok (with_count c n now d)"
proof -
  let ?f = "\<lambda>r. if ucr_id r = ucr_id c then write_credential (c\<lparr>ucr_sign_count := Some n\<rparr>) now r else r"
  have same: "r = c" if "r \<in> set (user_credentials d)" "ucr_id r = ucr_id c" for r
    using assms(1,2) that by (auto simp: passkeys_ok_def distinct_map inj_on_def)
  have ids: "map ucr_id (map ?f (user_credentials d)) = map ucr_id (user_credentials d)"
    by (rule map_pointwise) (auto simp: write_credential_def)
  have keys: "map (\<lambda>c. (ucr_user_id c, ucr_credential_id c)) (map ?f (user_credentials d)) =
      map (\<lambda>c. (ucr_user_id c, ucr_credential_id c)) (user_credentials d)"
    by (rule map_pointwise) (auto simp: write_credential_def dest: same)
  have table: "user_credentials (d\<lparr>user_credentials := map ?f (user_credentials d)\<rparr>) = map ?f (user_credentials d)"
    by simp
  have users: "has_user (d\<lparr>user_credentials := map ?f (user_credentials d)\<rparr>) = has_user d"
    by (rule ext) (simp add: has_user_def)
  show ?thesis
    using assms unfolding with_count_def passkeys_ok_def table users ids keys by (auto simp: write_credential_def)
qed

lemma passkeys_ok_delete_user: "passkeys_ok d \<Longrightarrow> passkeys_ok (cascade_delete_user i d)"
  by (auto simp: passkeys_ok_def cascade_delete_user_def has_user_def distinct_map_filter_key) metis

section \<open>Runs of calls\<close>

datatype 'sess passkey_call =
    CallBeginRegistration string
  | CallFinishRegistration string 'sess string
  | CallBeginLogin string
  | CallFinishLogin string 'sess string

definition passkey_step :: "('sess, 'opts) webauthn \<Rightarrow> env \<Rightarrow> world \<Rightarrow> 'sess passkey_call \<Rightarrow> world" where
  "passkey_step wa e w call = (case call of
      CallBeginRegistration email \<Rightarrow> snd (BeginRegistration wa e email w)
    | CallFinishRegistration email sess r \<Rightarrow> snd (FinishRegistration wa e email sess r w)
    | CallBeginLogin email \<Rightarrow> snd (BeginLogin wa e email w)
    | CallFinishLogin email sess r \<Rightarrow> snd (FinishLogin wa e email sess r w))"

definition passkey_run :: "('sess, 'opts) webauthn \<Rightarrow> env \<Rightarrow> 'sess passkey_call list \<Rightarrow> world \<Rightarrow> world" where
  "passkey_run wa e calls w = foldl (passkey_step wa e) w calls"

text \<open>A call leaves the table as it was, or with one more row, or with a new count.\<close>

lemma frame_begin:
  "frame db (BeginRegistration wa e email)" "frame tx (BeginRegistration wa e email)"
  "frame db (BeginLogin wa e email)" "frame tx (BeginLogin wa e email)"
  unfolding BeginRegistration_def BeginLogin_def by (auto intro!: frame_intros)

lemma dvalid_begin: "dvalid P (BeginRegistration wa e email) (\<lambda>_. P) P" "dvalid P (BeginLogin wa e email) (\<lambda>_. P) P"
  by (rule dvalid_post, rule dvalid_reads [where G = "\<lambda>_ _. True"], auto intro: frame_begin)+

lemma dvalid_FinishRegistration:
  "dvalid P (FinishRegistration wa e email sess req)
     (\<lambda>c d'. \<exists>d u n r. P d \<and> find_username email d = Some u \<and>
        wa_FinishRegistration wa n (passkey_user u (user_passkeys u d)) sess req = Inr c \<and>
        inserted e (dbCred u c) r d \<and> d' = with_passkey r d) P"
  unfolding FinishRegistration_def
  apply (rule dvalid_bindP [OF dvalid_getUser])
  apply (simp only: split_paired_all prod.case)
  apply (rule dvalid_bindP)
   apply (rule dvalid_err [OF dvalid_lib], blast)
  apply (rule dvalid_bindP)
   apply (rule dvalid_err [OF dvalid_user_credential_insert], blast)
  apply (rule dvalid_okP)
  apply fastforce
  done

lemma dvalid_FinishLogin:
  "dvalid P (FinishLogin wa e email sess req)
     (\<lambda>c d'. \<exists>d u n. P d \<and> find_username email d = Some u \<and>
        wa_FinishLogin wa n (passkey_user u (user_passkeys u d)) sess req = Inr c \<and>
        (d' = d \<or> (\<exists>r now. find (\<lambda>q. ucr_user_id q = usr_id u \<and> ucr_credential_id q = cr_id c) (user_credentials d) = Some r \<and>
           int (cr_sign_count c) \<le> 2147483647 \<and> d' = with_count r (int (cr_sign_count c)) now d))) P"
  unfolding FinishLogin_def
  apply (rule dvalid_bindP [OF dvalid_getUser])
  apply (simp only: split_paired_all prod.case)
  apply (rule dvalid_bindP)
   apply (rule dvalid_err [OF dvalid_lib], blast)
  apply (rule dvalid_tryP [OF dvalid_one_row])
    apply (simp only: sum.case)
    apply (rule dvalid_thenP)
     apply (rule dvalid_err [OF dvalid_user_credential_update], blast)
    apply (rule dvalid_okP)
    apply fastforce
   apply (simp only: sum.case)
   apply (rule dvalid_okP)
   apply fastforce
  apply blast
  done

lemma dvalid_kept:
  "dvalid P m (\<lambda>_. P) P \<Longrightarrow> tx w = None \<Longrightarrow> P (db w) \<Longrightarrow> tx (snd (m w)) = None \<and> P (db (snd (m w)))"
  using dvalid_always [where m = m and P = P and I = P and w = w] by (metis prod.collapse)

lemma passkey_step_keeps:
  assumes "\<And>email sess req. dvalid P (FinishRegistration wa e email sess req) (\<lambda>_. P) P"
    and "\<And>email sess req. dvalid P (FinishLogin wa e email sess req) (\<lambda>_. P) P"
    and "tx w = None" "P (db w)"
  shows "tx (passkey_run wa e calls w) = None \<and> P (db (passkey_run wa e calls w))"
  using assms(3,4)
proof (induction calls arbitrary: w)
  case (Cons call calls)
  have "tx (passkey_step wa e w call) = None \<and> P (db (passkey_step wa e w call))"
    by (cases call) (simp_all add: passkey_step_def dvalid_kept [where P = P and w = w] Cons.prems assms(1,2) dvalid_begin)
  then show ?case using Cons.IH by (simp add: passkey_run_def)
qed (simp add: passkey_run_def)

text \<open>Passkey calls keep the table consistent.\<close>

lemma passkeys_stay_consistent:
  assumes "tx w = None" "passkeys_ok (db w)"
  shows "passkeys_ok (db (passkey_run wa e calls w))"
proof -
  have reg: "dvalid passkeys_ok (FinishRegistration wa e email sess req) (\<lambda>_. passkeys_ok) passkeys_ok"
    for email sess req
    by (rule dvalid_post [OF dvalid_FinishRegistration]) (auto intro: passkeys_ok_insert)
  have log: "dvalid passkeys_ok (FinishLogin wa e email sess req) (\<lambda>_. passkeys_ok) passkeys_ok"
    for email sess req
    by (rule dvalid_post [OF dvalid_FinishLogin]) (auto intro: passkeys_ok_count dest: find_SomeD)
  show ?thesis using passkey_step_keeps [OF reg log assms] by blast
qed

section \<open>No passkey is stored\<close>

text \<open>
  C29: the passkey tables stay empty.  The authenticator's AAGUID is written as its sixteen raw bytes into
  a column of type uuid, which the server reads as the text of a uuid; no text of sixteen bytes is one.
  So every registration fails at its insert and leaves the database as it was, and whatever passkey
  calls are made from a database without passkeys, no row appears and every later ceremony is given a
  user without credentials.
\<close>

theorem no_passkey_is_ever_stored:
  fixes wa :: "('sess, 'opts) webauthn"
  assumes uuid_syntax: "\<And>s. length s = 16 \<Longrightarrow> env_parse_uuid e s = None"
    and aaguid_bytes: "\<And>n u s r c. wa_FinishRegistration wa n u s r = Inr c \<Longrightarrow> length (cr_aaguid c) = 16"
    and "tx w = None" "user_credentials (db w) = []"
  shows "\<not> is_ok (fst (FinishRegistration wa e email sess req w)) \<and>
    db (snd (FinishRegistration wa e email sess req w)) = db w \<and>
    user_credentials (db (passkey_run wa e calls w)) = [] \<and>
    (\<forall>n u wu t. getUser e n (passkey_run wa e calls w) = (Ok (u, wu), t) \<longrightarrow> wu_WebAuthnCredentials wu = [])"
proof -
  let ?none = "\<lambda>d. user_credentials d = []"
  have refused: "\<not> inserted e (dbCred u c) r d" if "length (cr_aaguid c) = 16" for u c r d
    using uuid_syntax [OF that] by (simp add: inserted_def dbCred_def bad_ref_def is_uuid_def)
  have reg: "dvalid P (FinishRegistration wa e m se rq) (\<lambda>_ _. False) P" for P m se rq
    by (rule dvalid_post [OF dvalid_FinishRegistration]) (auto dest: aaguid_bytes refused)
  have log: "dvalid ?none (FinishLogin wa e m se rq) (\<lambda>_. ?none) ?none" for m se rq
    by (rule dvalid_post [OF dvalid_FinishLogin]) auto
  obtain r t where run: "FinishRegistration wa e email sess req w = (r, t)" by fastforce
  have no: "\<not> is_ok r"
    using dvalid_Ok [OF reg [of "\<lambda>_. True"] assms(3) TrueI] run by (cases r) auto
  have same: "db t = db w"
    using dvalid_fail [OF reg [of "\<lambda>d. d = db w"] assms(3) refl run no] by simp
  have empty: "?none (db (passkey_run wa e calls w))"
    using passkey_step_keeps [of ?none wa e w calls] dvalid_post [OF reg [of ?none]] log assms(3,4) by simp
  show ?thesis
    using no same empty run by (auto simp: getUser_Ok_iff passkey_user_def user_passkeys_def)
qed

section \<open>When the server takes the row\<close>

text \<open>
  What a stored passkey keeps.  When a registration returns, the next time the user is loaded the
  library gets one credential more, the new one: with its id, public key and attestation type, but with
  the AAGUID and the signature count of the authenticator lost, so the count that detects a cloned
  authenticator restarts from zero.
\<close>

theorem passkey_round_trip:
  fixes wa :: "('sess, 'opts) webauthn"
  assumes run: "FinishRegistration wa e email sess req w = (Ok c, t)" and idle: "tx w = None"
    and canonical: "\<And>u. u \<in> set (users (db w)) \<Longrightarrow> env_parse_uuid e (usr_id u) = Some (usr_id u)"
    and no_fault: "\<And>n. env_fault e n = None"
  shows "\<exists>u wu wu' v v'. getUser e email w = (Ok (u, wu), v) \<and> getUser e email t = (Ok (u, wu'), v') \<and>
    wu_WebAuthnCredentials wu' = wu_WebAuthnCredentials wu @ [c\<lparr>cr_aaguid := [], cr_sign_count := 0\<rparr>]"
proof -
  have "\<exists>u r. find_username email (db w) = Some u \<and> inserted e (dbCred u c) r (db w) \<and> db t = with_passkey r (db w)"
    using dvalid_Ok [OF dvalid_FinishRegistration [where P = "\<lambda>d. d = db w"] idle refl run] by blast
  then obtain u r where u: "find_username email (db w) = Some u"
    and r: "inserted e (dbCred u c) r (db w)" and t: "db t = with_passkey r (db w)" by blast
  have "u \<in> set (users (db w))" using u unfolding find_username_def by (auto dest: find_SomeD)
  then have "ucr_user_id r = usr_id u"
    using r canonical by (simp add: inserted_def dbCred_def canon_def)
  then have keys: "user_passkeys u (db t) = user_passkeys u (db w) @ [r]"
    by (simp add: t user_passkeys_def with_passkey_def)
  have u': "find_username email (db t) = Some u" using u by (simp add: t find_username_def with_passkey_def)
  have "rebuild r = c\<lparr>cr_aaguid := [], cr_sign_count := 0\<rparr>"
    using r by (simp add: rebuild_def inserted_def dbCred_def)
  then show ?thesis
    using u u' keys no_fault by (auto simp: getUser_Ok_iff passkey_user_def intro!: exI [of _ u])
qed

text \<open>A login returns what the library returned for the user's credentials and writes at most one count.\<close>

lemma FinishLogin_effect:
  assumes "FinishLogin wa e email sess req w = (Ok c, t)" "tx w = None"
  shows "\<exists>u n. find_username email (db w) = Some u \<and>
    wa_FinishLogin wa n (passkey_user u (user_passkeys u (db w))) sess req = Inr c \<and>
    (db t = db w \<or> (\<exists>r now. r \<in> set (user_passkeys u (db w)) \<and> ucr_credential_id r = cr_id c \<and>
       int (cr_sign_count c) \<le> 2147483647 \<and> db t = with_count r (int (cr_sign_count c)) now (db w)))"
proof -
  have "\<exists>u n. find_username email (db w) = Some u \<and>
        wa_FinishLogin wa n (passkey_user u (user_passkeys u (db w))) sess req = Inr c \<and>
        (db t = db w \<or> (\<exists>r now. find (\<lambda>q. ucr_user_id q = usr_id u \<and> ucr_credential_id q = cr_id c) (user_credentials (db w)) = Some r \<and>
           int (cr_sign_count c) \<le> 2147483647 \<and> db t = with_count r (int (cr_sign_count c)) now (db w)))"
    using dvalid_Ok [OF dvalid_FinishLogin [where P = "\<lambda>d. d = db w"] assms(2) refl assms(1)] by blast
  then show ?thesis unfolding user_passkeys_def by (fastforce dest: find_SomeD)
qed

section \<open>Concrete runs\<close>

text \<open>A library that accepts every ceremony and reads the credential's id from the request.\<close>

definition example_webauthn :: "(unit, string) webauthn" where
  "example_webauthn = \<lparr>wa_BeginRegistration = (\<lambda>n u. Inr (''options'', ())),
     wa_FinishRegistration = (\<lambda>n u s r. Inr \<lparr>cr_id = r, cr_public_key = ''key'', cr_attestation_type = ''none'',
        cr_aaguid = replicate 16 (CHR ''0''), cr_sign_count = 7\<rparr>),
     wa_BeginLogin = (\<lambda>n u. Inr (''options'', ())),
     wa_FinishLogin = (\<lambda>n u s r. case find (\<lambda>c. cr_id c = r) (wu_WebAuthnCredentials u) of
        None \<Rightarrow> Inl (ErrPlain ''unknown credential'') | Some c \<Rightarrow> Inr (c\<lparr>cr_sign_count := 8\<rparr>))\<rparr>"

definition strict_env :: env where
  "strict_env = example_env\<lparr>env_parse_uuid := (\<lambda>s. if length s = 16 then None else Some s)\<rparr>"

theorem no_passkey_is_ever_stored_witness:
  "\<not> is_ok (fst (FinishRegistration example_webauthn strict_env ''alice'' () ''id1'' example_world)) \<and>
   db (snd (FinishRegistration example_webauthn strict_env ''alice'' () ''id1'' example_world)) = example_db \<and>
   user_credentials (db (passkey_run example_webauthn strict_env
     [CallFinishRegistration ''alice'' () ''id1'', CallFinishLogin ''alice'' () ''id1''] example_world)) = []"
proof -
  have "user_credentials (db example_world) = []" by (simp add: example_db_def empty_db_def)
  from no_passkey_is_ever_stored [where e = strict_env and wa = example_webauthn and w = example_world
      and email = "''alice''" and sess = "()" and req = "''id1''" and
      calls = "[CallFinishRegistration ''alice'' () ''id1'', CallFinishLogin ''alice'' () ''id1'']", OF _ _ _ this]
  show ?thesis by (simp add: strict_env_def example_webauthn_def)
qed

theorem passkey_round_trip_witness:
  "\<exists>c t. FinishRegistration example_webauthn example_env ''alice'' () ''id1'' example_world = (Ok c, t) \<and>
   (\<exists>u wu wu' v v'. getUser example_env ''alice'' example_world = (Ok (u, wu), v) \<and>
     getUser example_env ''alice'' t = (Ok (u, wu'), v') \<and>
     wu_WebAuthnCredentials wu' = wu_WebAuthnCredentials wu @ [c\<lparr>cr_aaguid := [], cr_sign_count := 0\<rparr>])"
  by (rule run_instance, code_simp, rule passkey_round_trip) simp_all

end
