(* ===== verification/Grpc_Servers.thy ===== *)
theory Grpc_Servers
  imports Passkey_Theorems Signing Http_Errors
begin

text \<open>
  internal/api/grpc: the gRPC interface to the services of signing, custody and passkeys, with the
  dispatch of the generated code.  The servers have no caller identity yet and use fixed texts in its
  place.  A request is its decoded
  message; an answer is the response message or a status error.  \<open>json_Marshal\<close> stands for
  \<open>json.Marshal\<close> of the library's options.
\<close>

section \<open>Status errors\<close>

text \<open>\<open>status.Errorf(codes.Internal, "msg: %v", err)\<close>, with the text that its \<open>Error\<close> method gives.\<close>

type_synonym echo_printer = "int \<Rightarrow> echo_message \<Rightarrow> string option \<Rightarrow> string"

definition status_Internal :: "echo_printer \<Rightarrow> string \<Rightarrow> go_error \<Rightarrow> go_error" where
  "status_Internal echo_Error msg err =
     ErrPlain (''rpc error: code = Internal desc = '' @ msg @ '': '' @ error_Error echo_Error err)"

definition statusP :: "echo_printer \<Rightarrow> string \<Rightarrow> (world, 'a) prog \<Rightarrow> (world, 'a) prog" where
  "statusP echo_Error msg m =
     tryP m (\<lambda>r. case r of Inl x \<Rightarrow> errP (status_Internal echo_Error msg x) | Inr x \<Rightarrow> okP x)"

lemma statusP_Ok_iff [outcome_simps]: "statusP pr msg m w = (Ok y, t) \<longleftrightarrow> m w = (Ok y, t)"
  by (auto simp: statusP_def outcome_simps split: sum.splits)

section \<open>Signing\<close>

definition grpc_CreateSigningRequest ::
    "echo_printer \<Rightarrow> env \<Rightarrow> string \<Rightarrow> string \<Rightarrow> string \<Rightarrow> (world, string \<times> string) prog" where
  "grpc_CreateSigningRequest pr e wallet_id tx_data note =
     (let userID = ''default-user'' in
      bindP (statusP pr ''failed to create request'' (CreateRequest e wallet_id tx_data note userID)) (\<lambda>r.
        okP (srq_id r, string_of (srq_status r))))"

record approve_message =
  am_request_id :: string
  am_credential_id :: string
  am_signature :: string
  am_authenticator_data :: string
  am_client_data_json :: string

definition grpc_ApproveSigningRequest :: "echo_printer \<Rightarrow> env \<Rightarrow> approve_message \<Rightarrow> (world, string) prog" where
  "grpc_ApproveSigningRequest pr e req =
     (let userID = ''default-user'';
          params = \<lparr>ap_user_id = userID, ap_credential_id = am_credential_id req, ap_signature = am_signature req,
            ap_authenticator_data = am_authenticator_data req, ap_client_data_json = am_client_data_json req\<rparr> in
      thenP (statusP pr ''failed to approve request'' (ApproveRequest e (am_request_id req) params))
        (okP ''approved''))"

section \<open>Vaults\<close>

fun grpc_create_wallets :: "echo_printer \<Rightarrow> env \<Rightarrow> uuid \<Rightarrow> string list \<Rightarrow> (world, unit) prog" where
  "grpc_create_wallets pr e vault [] = okP ()"
| "grpc_create_wallets pr e vault (chainID # cs) =
     thenP (statusP pr (''failed to create wallet for chain '' @ chainID) (CreateWallet e vault chainID))
       (grpc_create_wallets pr e vault cs)"

definition grpc_CreateVault :: "echo_printer \<Rightarrow> env \<Rightarrow> string \<Rightarrow> string list \<Rightarrow> (world, string \<times> string) prog" where
  "grpc_CreateVault pr e name reqChains =
     (let orgID = ''default-org'' in
      bindP (statusP pr ''failed to create vault'' (CreateVault e name orgID)) (\<lambda>v.
      thenP (if length reqChains > 0 then grpc_create_wallets pr e (vlt_id v) reqChains else okP ())
        (okP (vlt_id v, ''active''))))"

definition grpc_CreateWallet :: "echo_printer \<Rightarrow> env \<Rightarrow> string \<Rightarrow> string \<Rightarrow> (world, string \<times> string \<times> string) prog" where
  "grpc_CreateWallet pr e vault_id chain_id =
     bindP (statusP pr ''failed to create wallet'' (CreateWallet e vault_id chain_id)) (\<lambda>w.
       okP (wal_id w, wal_address w, string_of (wal_chain_id w)))"

section \<open>Passkeys\<close>

text \<open>
  The session data of a challenge is dropped, and a verification is made with an empty session.  The
  request is built from a constant method and path, which cannot fail.
\<close>

definition RegisterChallenge ::
    "echo_printer \<Rightarrow> ('opts \<Rightarrow> go_error + string) \<Rightarrow> ('sess, 'opts) webauthn \<Rightarrow> env \<Rightarrow> string \<Rightarrow> (world, string) prog" where
  "RegisterChallenge pr json_Marshal wa e email =
     bindP (statusP pr ''failed to begin registration'' (BeginRegistration wa e email)) (\<lambda>(creation, _).
       case json_Marshal creation of
         Inl x \<Rightarrow> errP (status_Internal pr ''failed to marshal creation data'' x)
       | Inr creationJSON \<Rightarrow> okP creationJSON)"

definition RegisterVerify ::
    "echo_printer \<Rightarrow> 'sess \<Rightarrow> ('sess, 'opts) webauthn \<Rightarrow> env \<Rightarrow> string \<Rightarrow> string \<Rightarrow> (world, string \<times> string) prog" where
  "RegisterVerify pr empty_session wa e email credential_json =
     bindP (statusP pr ''failed to finish registration'' (FinishRegistration wa e email empty_session credential_json)) (\<lambda>cred.
       okP (cr_id cred, ''dummy-token''))"

definition LoginChallenge ::
    "echo_printer \<Rightarrow> ('opts \<Rightarrow> go_error + string) \<Rightarrow> ('sess, 'opts) webauthn \<Rightarrow> env \<Rightarrow> string \<Rightarrow> (world, string) prog" where
  "LoginChallenge pr json_Marshal wa e email =
     bindP (statusP pr ''failed to begin login'' (BeginLogin wa e email)) (\<lambda>(assertion, _).
       case json_Marshal assertion of
         Inl x \<Rightarrow> errP (status_Internal pr ''failed to marshal assertion data'' x)
       | Inr assertionJSON \<Rightarrow> okP assertionJSON)"

definition LoginVerify ::
    "echo_printer \<Rightarrow> 'sess \<Rightarrow> ('sess, 'opts) webauthn \<Rightarrow> env \<Rightarrow> string \<Rightarrow> string \<Rightarrow> (world, string \<times> string) prog" where
  "LoginVerify pr empty_session wa e email assertion_json =
     thenP (statusP pr ''failed to finish login'' (FinishLogin wa e email empty_session assertion_json))
       (okP (''user-id'', ''dummy-token''))"

section \<open>Calls\<close>

text \<open>
  The methods of the service interfaces.  A method that a server does not declare is that of the
  embedded \<open>Unimplemented\<close> server.  The interface of signing names its methods \<open>CreateRequest\<close> and
  \<open>ApproveRequest\<close>, which \<open>SigningServer\<close> does not declare: its methods above have other names and no
  call reaches them.
\<close>

datatype grpc_call =
    GSigningCreateRequest
  | GSigningApproveRequest
  | GSigningListRequests
  | GVaultCreateVault string "string list"
  | GVaultListVaults
  | GVaultCreateWallet string string
  | GAuthRegisterChallenge string
  | GAuthRegisterVerify string string
  | GAuthLoginChallenge string
  | GAuthLoginVerify string string

definition unimplemented :: "string \<Rightarrow> (world, unit) prog" where
  "unimplemented name =
     errP (ErrPlain (''rpc error: code = Unimplemented desc = method '' @ name @ '' not implemented''))"

definition voidP :: "(world, 'a) prog \<Rightarrow> (world, unit) prog" where
  "voidP m = thenP m (okP ())"

definition grpc_serve ::
    "echo_printer \<Rightarrow> ('opts \<Rightarrow> go_error + string) \<Rightarrow> 'sess \<Rightarrow> ('sess, 'opts) webauthn \<Rightarrow> env \<Rightarrow> grpc_call \<Rightarrow> (world, unit) prog" where
  "grpc_serve pr json_Marshal empty_session wa e call = (case call of
      GSigningCreateRequest \<Rightarrow> unimplemented ''CreateRequest''
    | GSigningApproveRequest \<Rightarrow> unimplemented ''ApproveRequest''
    | GSigningListRequests \<Rightarrow> unimplemented ''ListRequests''
    | GVaultCreateVault name reqChains \<Rightarrow> voidP (grpc_CreateVault pr e name reqChains)
    | GVaultListVaults \<Rightarrow> unimplemented ''ListVaults''
    | GVaultCreateWallet vault_id chain_id \<Rightarrow> voidP (grpc_CreateWallet pr e vault_id chain_id)
    | GAuthRegisterChallenge email \<Rightarrow> voidP (RegisterChallenge pr json_Marshal wa e email)
    | GAuthRegisterVerify email credential_json \<Rightarrow> voidP (RegisterVerify pr empty_session wa e email credential_json)
    | GAuthLoginChallenge email \<Rightarrow> voidP (LoginChallenge pr json_Marshal wa e email)
    | GAuthLoginVerify email assertion_json \<Rightarrow> voidP (LoginVerify pr empty_session wa e email assertion_json))"

end
