(* ===== verification/Grpc_Theorems.thy ===== *)
theory Grpc_Theorems
  imports Grpc_Servers Custody_Theorems
begin

text \<open>
  What the gRPC interface can do, given that it has no caller identity and no session store.
\<close>

section \<open>Programs that are refused\<close>

text \<open>From a database with \<open>P\<close> the program does not return, stores nothing and asks for no signature.\<close>

definition refused :: "(database \<Rightarrow> bool) \<Rightarrow> (world, 'a) prog \<Rightarrow> bool" where
  "refused P m \<longleftrightarrow> (\<forall>w. P (db w) \<longrightarrow> \<not> is_ok (fst (m w)) \<and> db (snd (m w)) = db w \<and> sign_calls (snd (m w)) = sign_calls w)"

named_theorems refused_intros \<open>composition rules for refused programs\<close>

lemma refusedD: "refused P m \<Longrightarrow> P (db w) \<Longrightarrow> m w = (r, t) \<Longrightarrow> \<not> is_ok r \<and> db t = db w \<and> sign_calls t = sign_calls w"
  unfolding refused_def by (metis fst_conv snd_conv)

lemma refusedI:
  "(\<And>w r t. P (db w) \<Longrightarrow> m w = (r, t) \<Longrightarrow> \<not> is_ok r \<and> db t = db w \<and> sign_calls t = sign_calls w) \<Longrightarrow> refused P m"
  unfolding refused_def by (metis prod.collapse)

lemma refused_errP [refused_intros]: "refused P (errP x)"
  by (auto intro!: refusedI simp: errP_def)

lemma refused_bindP [refused_intros]: "refused P m \<Longrightarrow> refused P (bindP m f)"
  by (auto simp: refused_def bindP_def split: prod.split outcome.split)

lemma refused_thenP [refused_intros]: "refused P m \<Longrightarrow> refused P (thenP m n)"
  by (simp add: thenP_def refused_bindP)

lemma refused_wrapP [refused_intros]: "refused P m \<Longrightarrow> refused P (wrapP msg m)"
  by (auto simp: refused_def wrapP_def tryP_def errP_def split: prod.split outcome.split)

lemma refused_statusP [refused_intros]: "refused P m \<Longrightarrow> refused P (statusP pr msg m)"
  by (auto simp: refused_def statusP_def tryP_def errP_def split: prod.split outcome.split)

lemma refused_after:
  assumes "frame db m" "frame sign_calls m"
    and "\<And>w x u. P (db w) \<Longrightarrow> m w = (Ok x, u) \<Longrightarrow> refused P (f x)"
  shows "refused P (bindP m f)"
proof (rule refusedI)
  fix w r t assume P: "P (db w)" and run: "bindP m f w = (r, t)"
  obtain q u where m: "m w = (q, u)" by fastforce
  have u: "db u = db w" "sign_calls u = sign_calls w" using frameD [OF assms(1) m] frameD [OF assms(2) m] by simp_all
  show "\<not> is_ok r \<and> db t = db w \<and> sign_calls t = sign_calls w"
  proof (cases q)
    case (Ok x)
    with m run have "f x u = (r, t)" by (simp add: bindP_def)
    with refusedD [OF assms(3) [OF P], of x u u r t] m Ok P u show ?thesis by simp
  qed (use m run u in \<open>auto simp: bindP_def\<close>)
qed

lemma refused_if: "(b \<Longrightarrow> refused P m) \<Longrightarrow> (\<not> b \<Longrightarrow> refused P n) \<Longrightarrow> refused P (if b then m else n)"
  by simp

lemma refused_query:
  assumes "\<And>d. isl (q d)"
  shows "refused P (query e Pool q)"
proof (rule refusedI)
  fix w r t assume "query e Pool q w = (r, t)"
  then show "\<not> is_ok r \<and> db t = db w \<and> sign_calls t = sign_calls w"
    using assms [of "db w"] by (cases "q (db w)") (auto simp: query_def stmt_def split: option.splits)
qed

lemma refused_insert:
  assumes "\<And>n d. first_error (ch (c n) d) \<noteq> None"
  shows "refused P (insert_stmt tn e Pool c ch ad)"
  unfolding insert_stmt_def
proof (rule refused_wrapP, rule refusedI)
  fix w r t
  assume "stmt e Pool (\<lambda>n d. case first_error (ch (c n) d) of None \<Rightarrow> Inr (c n, ad (c n) d) | Some x \<Rightarrow> Inl x) w = (r, t)"
  then show "\<not> is_ok r \<and> db t = db w \<and> sign_calls t = sign_calls w"
    using assms [of "clk w" "db w"] by (auto simp: stmt_def split: option.splits)
qed

lemma refused_lib:
  assumes "\<And>n. isl (f n)"
  shows "refused P (lib f)"
proof (rule refusedI)
  fix w r t assume "lib f w = (r, t)"
  then show "\<not> is_ok r \<and> db t = db w \<and> sign_calls t = sign_calls w"
    using assms [of "clk w"] by (cases "f (clk w)") (auto simp: lib_def)
qed

lemma frame_sign_lib [frame_intros]: "frame sign_calls (lib f)"
  by (auto simp: frame_def lib_def tick_def split: sum.splits)

lemma frame_sign_getUser: "frame sign_calls (getUser e email)"
  unfolding getUser_def one_row_def all_rows_def
  by (auto intro!: frame_intros simp: frame_sign_statements)

section \<open>Identities that are not uuids\<close>

lemma refused_identities:
  assumes "env_parse_uuid e i = None"
  shows "refused P (CreateRequest e wl txd note i)" "refused P (CreateVault e name i)"
proof -
  have "\<not> is_uuid e i" using assms by (simp add: is_uuid_def)
  then have "refused P (signing_request_insert e Pool q)" if "srq_initiator_id q = Some i" for q
    unfolding signing_request_insert_def
    by (rule_tac refused_after) (auto intro!: frame_intros refused_insert simp: frame_sign_statements bad_ref_def that)
  then show "refused P (CreateRequest e wl txd note i)"
    unfolding CreateRequest_def by (intro refused_after frame_intros refused_wrapP) simp_all
  have "refused P (vault_insert e Pool v)" if "vlt_organization_id v = Some i" for v
    unfolding vault_insert_def using \<open>\<not> is_uuid e i\<close>
    by (intro refused_after frame_intros frame_sign_statements refused_insert) (simp_all add: bad_ref_def that)
  then show "refused P (CreateVault e name i)"
    unfolding CreateVault_def by (intro refused_wrapP) simp
qed

lemma refused_ApproveRequest:
  assumes "env_parse_uuid e (ap_user_id params) = None"
  shows "refused P (ApproveRequest e requestID params)"
proof -
  have "refused P (user_approved e requestID (ap_user_id params))"
    unfolding user_approved_def using assms by (intro refused_wrapP refused_query) (simp add: is_uuid_def)
  moreover have "frame db (load_request e requestID)"
    unfolding load_request_def load_rel_def by (intro frame_intros)
  ultimately show ?thesis
    unfolding ApproveRequest_def
    by (intro refused_after frame_wrapP frame_sign_signing refused_if refused_errP refused_bindP)
qed

section \<open>Verifications without a session\<close>

definition ids_set :: "database \<Rightarrow> bool" where
  "ids_set d \<longleftrightarrow> (\<forall>u \<in> set (users d). usr_id u \<noteq> [])"

lemma refused_without_session:
  assumes "\<And>n u r. wu_WebAuthnID u \<noteq> [] \<Longrightarrow> isl (wa_FinishRegistration wa n u empty_session r)"
    and "\<And>n u r. wu_WebAuthnID u \<noteq> [] \<Longrightarrow> isl (wa_FinishLogin wa n u empty_session r)"
  shows "refused ids_set (FinishRegistration wa e email empty_session r)"
    and "refused ids_set (FinishLogin wa e email empty_session r)"
proof -
  have id: "wu_WebAuthnID (snd x) \<noteq> []" if "ids_set (db w)" "getUser e email w = (Ok x, u)" for w x u
    using that by (auto simp: getUser_Ok_iff passkey_user_def ids_set_def find_username_def dest: find_SomeD)
  show "refused ids_set (FinishRegistration wa e email empty_session r)"
    unfolding FinishRegistration_def
    by (rule refused_after [OF frame_getUser(1) frame_sign_getUser])
      (auto simp: case_prod_unfold intro!: refused_bindP refused_lib assms(1) dest: id)
  show "refused ids_set (FinishLogin wa e email empty_session r)"
    unfolding FinishLogin_def
    by (rule refused_after [OF frame_getUser(1) frame_sign_getUser])
      (auto simp: case_prod_unfold intro!: refused_bindP refused_lib assms(2) dest: id)
qed

section \<open>The interface\<close>

lemma frame_statusP [frame_intros]: "frame g m \<Longrightarrow> frame g (statusP pr msg m)"
  unfolding statusP_def by (auto intro!: frame_intros)

lemma frame_challenges:
  "frame db (RegisterChallenge pr js wa e email)" "frame sign_calls (RegisterChallenge pr js wa e email)"
  "frame db (LoginChallenge pr js wa e email)" "frame sign_calls (LoginChallenge pr js wa e email)"
  unfolding RegisterChallenge_def LoginChallenge_def BeginRegistration_def BeginLogin_def
  by (auto intro!: frame_intros frame_sign_getUser)

lemma frame_sign_CreateWallet: "frame sign_calls (CreateWallet e v c)"
proof -
  have key: "frame sign_calls (CreateKey e k a cu)" for k a cu
    by (auto simp: frame_def CreateKey_def Let_def tick_def split: sum.split)
  have lift: "frame sign_calls (liftP q)" for q :: "string outcome"
    by (auto simp: frame_def liftP_def)
  show ?thesis
    unfolding CreateWallet_def one_row_def wallet_insert_def
    by (intro frame_intros frame_sign_statements key lift)
qed

lemma voidP_frame: "frame g m \<Longrightarrow> frame g (voidP m)"
  unfolding voidP_def by (intro frame_intros)

text \<open>
  The two methods of \<open>SigningServer\<close> that no call reaches would be refused: the text \<open>default-user\<close> that
  stands in for the caller is no uuid.
\<close>

lemma signing_methods_refused:
  assumes "env_parse_uuid e ''default-user'' = None"
  shows "refused P (grpc_CreateSigningRequest pr e a b c)" "refused P (grpc_ApproveSigningRequest pr e q)"
  unfolding grpc_CreateSigningRequest_def grpc_ApproveSigningRequest_def Let_def
  by (simp_all add: refused_bindP refused_thenP refused_statusP refused_identities(1) [OF assms]
      refused_ApproveRequest assms)

text \<open>
  C30: over gRPC a caller gets challenges and wallets, and nothing else.  The methods of signing are not
  implemented, the text \<open>default-org\<close> that stands in for the caller's organization is no uuid, and the
  library refuses to finish a ceremony for which it gets no session; so every call of signing, every new
  vault and every verification ends in an error (or a panic) and stores nothing.  No call makes the
  signing infrastructure sign, and only the creation of a wallet changes the database.
\<close>

theorem grpc_serves_only_wallets:
  fixes wa :: "('sess, 'opts) webauthn"
  assumes uuid_syntax: "env_parse_uuid e ''default-org'' = None"
    and sessions: "\<And>n u r. wu_WebAuthnID u \<noteq> [] \<Longrightarrow> isl (wa_FinishRegistration wa n u empty_session r)"
      "\<And>n u r. wu_WebAuthnID u \<noteq> [] \<Longrightarrow> isl (wa_FinishLogin wa n u empty_session r)"
    and run: "grpc_serve pr json_Marshal empty_session wa e call w = (r, t)"
    and ids: "\<forall>u \<in> set (users (db w)). usr_id u \<noteq> []"
  shows "sign_calls t = sign_calls w \<and>
    (case call of
      GVaultCreateWallet vault_id chain_id \<Rightarrow> True
    | GAuthRegisterChallenge email \<Rightarrow> db t = db w
    | GAuthLoginChallenge email \<Rightarrow> db t = db w
    | _ \<Rightarrow> \<not> is_ok r \<and> db t = db w)"
proof -
  note identities = refused_identities [OF uuid_syntax]
  note verifications = refused_without_session [OF sessions]
  have no: "\<not> is_ok r \<and> db t = db w \<and> sign_calls t = sign_calls w"
    if "grpc_serve pr json_Marshal empty_session wa e call = voidP m" "refused ids_set m" for m :: "(world, 'x) prog"
    using refusedD [of ids_set "voidP m" w r t] run ids that by (simp add: ids_set_def voidP_def refused_thenP)
  show ?thesis
  proof (cases call)
    case (GVaultCreateVault a b)
    show ?thesis
      using no [of "grpc_CreateVault pr e a b"] identities
      by (simp add: GVaultCreateVault grpc_serve_def grpc_CreateVault_def Let_def refused_bindP refused_statusP)
  next
    case (GVaultCreateWallet a b)
    have "frame sign_calls (grpc_CreateWallet pr e a b)"
      unfolding grpc_CreateWallet_def by (intro frame_intros frame_sign_CreateWallet)
    from frameD [OF voidP_frame [OF this]] run show ?thesis by (simp add: GVaultCreateWallet grpc_serve_def)
  next
    case (GAuthRegisterVerify a b)
    show ?thesis
      using no [of "RegisterVerify pr empty_session wa e a b"] verifications
      by (simp add: GAuthRegisterVerify grpc_serve_def RegisterVerify_def refused_bindP refused_statusP)
  next
    case (GAuthLoginVerify a b)
    show ?thesis
      using no [of "LoginVerify pr empty_session wa e a b"] verifications
      by (simp add: GAuthLoginVerify grpc_serve_def LoginVerify_def refused_thenP refused_statusP)
  next
    case (GAuthRegisterChallenge m)
    with run have v: "voidP (RegisterChallenge pr json_Marshal wa e m) w = (r, t)" by (simp add: grpc_serve_def)
    show ?thesis
      using frameD [OF voidP_frame [OF frame_challenges(1)] v] frameD [OF voidP_frame [OF frame_challenges(2)] v]
      by (simp add: GAuthRegisterChallenge)
  next
    case (GAuthLoginChallenge m)
    with run have v: "voidP (LoginChallenge pr json_Marshal wa e m) w = (r, t)" by (simp add: grpc_serve_def)
    show ?thesis
      using frameD [OF voidP_frame [OF frame_challenges(3)] v] frameD [OF voidP_frame [OF frame_challenges(4)] v]
      by (simp add: GAuthLoginChallenge)
  qed (use run in \<open>auto simp: grpc_serve_def unimplemented_def errP_def\<close>)
qed

text \<open>A library that checks that the session is that of the user, as the real one does.\<close>

definition session_webauthn :: "(string, string) webauthn" where
  "session_webauthn = \<lparr>wa_BeginRegistration = (\<lambda>n u. Inr (''options'', wu_WebAuthnID u)),
     wa_FinishRegistration = (\<lambda>n u s r. if s \<noteq> wu_WebAuthnID u then Inl (ErrPlain ''ID mismatch for User and Session'')
       else Inr \<lparr>cr_id = r, cr_public_key = ''key'', cr_attestation_type = ''none'', cr_aaguid = r, cr_sign_count = 0\<rparr>),
     wa_BeginLogin = (\<lambda>n u. Inr (''options'', wu_WebAuthnID u)),
     wa_FinishLogin = (\<lambda>n u s r. if s \<noteq> wu_WebAuthnID u then Inl (ErrPlain ''ID mismatch for User and Session'')
       else Inr \<lparr>cr_id = r, cr_public_key = ''key'', cr_attestation_type = ''none'', cr_aaguid = r, cr_sign_count = 0\<rparr>)\<rparr>"

definition picky_env :: env where
  "picky_env = example_env\<lparr>env_parse_uuid := (\<lambda>s. if s \<in> {''default-user'', ''default-org''} then None else Some s)\<rparr>"

theorem grpc_serves_only_wallets_witness:
  "\<exists>r t. grpc_serve (\<lambda>_ _ _. []) Inr [] session_webauthn picky_env (GVaultCreateVault ''cold'' [''ETH'']) custody_world = (r, t) \<and>
     sign_calls t = [] \<and> \<not> is_ok r \<and> db t = custody_db"
proof -
  obtain r t where run: "grpc_serve (\<lambda>_ _ _. []) Inr [] session_webauthn picky_env
      (GVaultCreateVault ''cold'' [''ETH'']) custody_world = (r, t)" by fastforce
  have "\<forall>u \<in> set (users (db custody_world)). usr_id u \<noteq> []"
    by (simp add: custody_db_def example_db_def)
  from grpc_serves_only_wallets [OF _ _ _ run this] run show ?thesis
    by (auto simp: picky_env_def session_webauthn_def)
qed

end
