(* ===== verification/Sql_Search.thy ===== *)
theory Sql_Search
  imports Go_Strings "HOL-Library.Sublist"
begin

text \<open>
  internal/util/db: query mods made from the text of a search (ilike.go, ts_vector.go) and their
  combination (or.go, where_in.go).  A query mod is the clause with its arguments; what the database
  makes of a pattern is a parameter.
\<close>

section \<open>Patterns\<close>

text \<open>\<open>\s\<close> of Go's regular expressions; unlike \<open>strings.TrimSpace\<close> it leaves the vertical tab out.\<close>

definition is_re_space :: "char \<Rightarrow> bool" where
  "is_re_space c \<longleftrightarrow> code c \<in> {9, 10, 12, 13, 32}"

definition word_of :: "string \<Rightarrow> string" where
  "word_of s = takeWhile (\<lambda>c. \<not> is_re_space c) s"

definition after_word :: "string \<Rightarrow> string" where
  "after_word s = dropWhile (\<lambda>c. \<not> is_re_space c) s"

lemma after_word_shorter: "after_word s \<noteq> [] \<Longrightarrow> length (dropWhile is_re_space (after_word s)) < length s"
proof -
  assume rest: "after_word s \<noteq> []"
  then have "is_re_space (hd (after_word s))" unfolding after_word_def by (metis hd_dropWhile)
  then have "dropWhile is_re_space (after_word s) = dropWhile is_re_space (tl (after_word s))"
    using rest by (cases "after_word s") auto
  also have "length \<dots> < length (after_word s)"
    using rest length_dropWhile_le [of is_re_space "tl (after_word s)"] by (cases "after_word s") auto
  also have "\<dots> \<le> length s" unfolding after_word_def by (rule length_dropWhile_le)
  finally show ?thesis .
qed

text \<open>\<open>Split(s, -1)\<close> and \<open>ReplaceAllString(s, r)\<close> of the expression \<open>\s+\<close>.\<close>

function re_split :: "string \<Rightarrow> string list" where
  "re_split s = (if after_word s = [] then [word_of s]
     else word_of s # re_split (dropWhile is_re_space (after_word s)))"
  by pat_completeness auto

termination by (relation "measure length") (auto simp: after_word_shorter)

function re_replace :: "string \<Rightarrow> string \<Rightarrow> string" where
  "re_replace r s = (if after_word s = [] then word_of s
     else word_of s @ r @ re_replace r (dropWhile is_re_space (after_word s)))"
  by pat_completeness auto

termination by (relation "measure (length \<circ> snd)") (auto simp: after_word_shorter)

declare re_split.simps [simp del] re_replace.simps [simp del]

lemma re_split_not_Nil [simp]: "re_split s \<noteq> []"
  by (subst re_split.simps) simp

lemma re_split_chars: "w \<in> set (re_split s) \<Longrightarrow> set w \<subseteq> {c \<in> set s. \<not> is_re_space c}"
proof (induction s rule: re_split.induct)
  case (1 s)
  have word: "set (word_of s) \<subseteq> {c \<in> set s. \<not> is_re_space c}"
    unfolding word_of_def by (auto dest: set_takeWhileD)
  have "set (dropWhile is_re_space (after_word s)) \<subseteq> set s"
    unfolding after_word_def by (auto dest!: set_dropWhileD)
  then show ?case using 1 word by (subst (asm) (2) re_split.simps) (auto split: if_splits)
qed

text \<open>Replacing the runs of white space is joining the words.\<close>

lemma re_replace_join: "re_replace r s = strings_Join (re_split s) r"
proof (induction r s rule: re_replace.induct)
  case (1 r s)
  have join: "strings_Join (w # ws) r = w @ r @ strings_Join ws r" if "ws \<noteq> []" for w ws
    using that by (cases ws) auto
  show ?case
    using 1 by (subst re_replace.simps, subst re_split.simps) (simp add: join)
qed

section \<open>Query mods\<close>

datatype query_mod = QWhere string string | QExpr "query_mod list"

definition ILike :: "string \<Rightarrow> string list \<Rightarrow> query_mod" where
  "ILike val path = QWhere (strings_Join path ''.'' @ '' ILIKE ?'') val"

definition EscapeLike :: "string \<Rightarrow> string" where
  "EscapeLike val = concat (map (\<lambda>c. if c = CHR ''%'' \<or> c = CHR ''_'' then [CHR 0x5C, c] else [c]) val)"

definition ILikeSearch :: "string \<Rightarrow> string list \<Rightarrow> query_mod" where
  "ILikeSearch query path =
     QExpr (map (\<lambda>t. ILike (''%'' @ EscapeLike t @ ''%'') path) (re_split (strings_TrimSpace query)))"

definition SearchStringToTSQuery :: "string option \<Rightarrow> string" where
  "SearchStringToTSQuery s = (case s of None \<Rightarrow> [] | Some x \<Rightarrow>
     if length x = 0 then []
     else (let v = strings_TrimSpace (filter (\<lambda>c. c \<noteq> CHR 0x27) x) in
       if length v = 0 then []
       else [CHR 0x27] @ re_replace ([CHR 0x27] @ '':* & '' @ [CHR 0x27]) v @ [CHR 0x27] @ '':*''))"

section \<open>What a search finds\<close>

text \<open>
  What PostgreSQL documents of \<open>ILIKE\<close>: \<open>%\<close> matches any sequence, a backslash quotes the next character,
  and a character that is not special matches itself, up to the case that \<open>lc\<close> removes.
\<close>

definition like_laws :: "(char \<Rightarrow> char) \<Rightarrow> (string \<Rightarrow> string \<Rightarrow> bool) \<Rightarrow> bool" where
  "like_laws lc like \<longleftrightarrow>
     (\<forall>s. like [] s \<longleftrightarrow> s = []) \<and>
     (\<forall>p s. like (CHR ''%'' # p) s \<longleftrightarrow> (\<exists>k \<le> length s. like p (drop k s))) \<and>
     (\<forall>c p s. like (CHR 0x5C # c # p) s \<longleftrightarrow> s \<noteq> [] \<and> lc (hd s) = lc c \<and> like p (tl s)) \<and>
     (\<forall>c p s. c \<noteq> CHR ''%'' \<and> c \<noteq> CHR ''_'' \<and> c \<noteq> CHR 0x5C \<longrightarrow>
        (like (c # p) s \<longleftrightarrow> s \<noteq> [] \<and> lc (hd s) = lc c \<and> like p (tl s)))"

fun row_matches :: "(string \<Rightarrow> string \<Rightarrow> bool) \<Rightarrow> string \<Rightarrow> query_mod \<Rightarrow> bool" where
  "row_matches like value (QWhere clause pattern) = like pattern value"
| "row_matches like value (QExpr ms) = list_all (row_matches like value) ms"

lemma prefix_map_Cons:
  "(\<exists>a r. d # s = a @ r \<and> map f a = f c # map f t \<and> P r) \<longleftrightarrow>
    f d = f c \<and> (\<exists>a r. s = a @ r \<and> map f a = map f t \<and> P r)"
proof
  assume "\<exists>a r. d # s = a @ r \<and> map f a = f c # map f t \<and> P r"
  then show "f d = f c \<and> (\<exists>a r. s = a @ r \<and> map f a = map f t \<and> P r)"
    by (auto simp: Cons_eq_append_conv)
next
  assume "f d = f c \<and> (\<exists>a r. s = a @ r \<and> map f a = map f t \<and> P r)"
  then obtain a r where "f d = f c" "s = a @ r" "map f a = map f t" "P r" by blast
  then show "\<exists>a r. d # s = a @ r \<and> map f a = f c # map f t \<and> P r"
    by (intro exI [of _ "d # a"] exI [of _ r]) simp
qed

lemma like_escaped:
  assumes laws: "like_laws lc like"
  shows "CHR 0x5C \<notin> set t \<Longrightarrow> like (EscapeLike t @ p) s \<longleftrightarrow>
    (\<exists>s' r. s = s' @ r \<and> map lc s' = map lc t \<and> like p r)"
proof (induction t arbitrary: s)
  case Nil
  then show ?case by (simp add: EscapeLike_def)
next
  case (Cons c t)
  have esc: "EscapeLike (c # t) = (if c = CHR ''%'' \<or> c = CHR ''_'' then [CHR 0x5C, c] else [c]) @ EscapeLike t"
    by (simp add: EscapeLike_def)
  have step: "like (EscapeLike (c # t) @ p) s \<longleftrightarrow> s \<noteq> [] \<and> lc (hd s) = lc c \<and> like (EscapeLike t @ p) (tl s)"
    using laws Cons.prems unfolding like_laws_def esc by auto
  show ?case
  proof (cases s)
    case (Cons d s')
    then show ?thesis unfolding step using Cons.IH [of s'] Cons.prems prefix_map_Cons [of d s' lc c t "like p"] by simp
  qed (use step in auto)
qed

lemma like_contains:
  assumes laws: "like_laws lc like" and "CHR 0x5C \<notin> set t"
  shows "like (''%'' @ EscapeLike t @ ''%'') s \<longleftrightarrow> sublist (map lc t) (map lc s)"
proof -
  have anything: "like ''%'' r" for r
  proof -
    have "like [] (drop (length r) r)" using laws by (simp add: like_laws_def)
    moreover have "like ''%'' r \<longleftrightarrow> (\<exists>k \<le> length r. like [] (drop k r))" using laws by (simp add: like_laws_def)
    ultimately show ?thesis by blast
  qed
  have "like (''%'' @ EscapeLike t @ ''%'') s \<longleftrightarrow> (\<exists>k \<le> length s. like (EscapeLike t @ ''%'') (drop k s))"
    using laws by (simp add: like_laws_def)
  also have "\<dots> \<longleftrightarrow> (\<exists>k \<le> length s. \<exists>s' r. drop k s = s' @ r \<and> map lc s' = map lc t)"
    by (simp add: like_escaped [OF laws assms(2)] anything)
  also have "\<dots> \<longleftrightarrow> (\<exists>a s' r. s = a @ s' @ r \<and> map lc s' = map lc t)"
  proof
    assume "\<exists>k \<le> length s. \<exists>s' r. drop k s = s' @ r \<and> map lc s' = map lc t"
    then show "\<exists>a s' r. s = a @ s' @ r \<and> map lc s' = map lc t" by (metis append_take_drop_id)
  next
    assume "\<exists>a s' r. s = a @ s' @ r \<and> map lc s' = map lc t"
    then obtain a s' r where "s = a @ s' @ r" "map lc s' = map lc t" by blast
    then show "\<exists>k \<le> length s. \<exists>s' r. drop k s = s' @ r \<and> map lc s' = map lc t"
      by (intro exI [of _ "length a"] conjI exI [of _ s'] exI [of _ r]) auto
  qed
  also have "\<dots> \<longleftrightarrow> sublist (map lc t) (map lc s)"
    by (auto simp: sublist_def map_eq_append_conv append_eq_map_conv) (metis map_append)+
  finally show ?thesis .
qed

definition search_words :: "string \<Rightarrow> string list" where
  "search_words query = re_split (strings_TrimSpace query)"

text \<open>
  C31: a search finds the rows that contain every word.  When the text that is searched for has no
  backslash, the \<open>ILIKE\<close> clauses made of it hold of a value exactly when each of its words occurs in the
  value up to case; per cent signs and underscores in the text stand for themselves.
\<close>

theorem ILikeSearch_finds_words:
  assumes "like_laws lc like" "CHR 0x5C \<notin> set query"
  shows "row_matches like value (ILikeSearch query path) \<longleftrightarrow>
    (\<forall>t \<in> set (search_words query). sublist (map lc t) (map lc value))"
proof -
  have "set (strings_TrimSpace query) \<subseteq> set query"
    unfolding strings_TrimSpace_def trim_left_def trim_right_def by (auto dest!: set_dropWhileD)
  then have "CHR 0x5C \<notin> set t" if "t \<in> set (search_words query)" for t
    using re_split_chars that assms(2) unfolding search_words_def by blast
  then show ?thesis
    using like_contains [OF assms(1)]
    unfolding ILikeSearch_def search_words_def [symmetric] by (auto simp: ILike_def list_all_iff)
qed

text \<open>A matcher with the documented behaviour.\<close>

fun ilike :: "string \<Rightarrow> string \<Rightarrow> bool" where
  "ilike [] s = (s = [])"
| "ilike (c # p) s =
     (if c = CHR ''%'' then list_ex (\<lambda>k. ilike p (drop k s)) [0..<Suc (length s)]
      else if c = CHR ''_'' then s \<noteq> [] \<and> ilike p (tl s)
      else if c = CHR 0x5C then
        (case p of [] \<Rightarrow> False | d # q \<Rightarrow> s \<noteq> [] \<and> lower_char (hd s) = lower_char d \<and> ilike q (tl s))
      else s \<noteq> [] \<and> lower_char (hd s) = lower_char c \<and> ilike p (tl s))"

lemma ilike_percent: "ilike (CHR ''%'' # p) s \<longleftrightarrow> (\<exists>k \<le> length s. ilike p (drop k s))"
proof -
  have "set [0..<Suc (length s)] = {..length s}" by auto
  then show ?thesis by (simp only: ilike.simps list_ex_iff if_True) auto
qed

lemma ilike_laws: "like_laws lower_char ilike"
  unfolding like_laws_def ilike_percent by simp

theorem ILikeSearch_finds_words_witness:
  "row_matches ilike ''Rate 100% A_B'' (ILikeSearch '' 100%  a_'' [''users'', ''name'']) \<longleftrightarrow> True"
  unfolding ILikeSearch_finds_words [OF ilike_laws, of "'' 100%  a_''", simplified]
  by code_simp

text \<open>
  \<open>EscapeLike\<close> leaves backslashes alone: the search for a backslash becomes a pattern that asks for a
  per cent sign at the end, and the text of a backslash and a per cent sign keeps its wildcard.
\<close>

lemma EscapeLike_backslash:
  "EscapeLike [CHR 0x5C] = [CHR 0x5C]"
  "row_matches ilike ''100%'' (ILikeSearch [CHR 0x5C] [''name''])"
  "\<not> row_matches ilike (''a'' @ [CHR 0x5C] @ ''b'') (ILikeSearch [CHR 0x5C] [''name''])"
  by code_simp+

section \<open>Text search\<close>

text \<open>Every word, without its quotes, becomes a quoted prefix term, and the terms are joined by \<open>&\<close>.\<close>

definition ts_term :: "string \<Rightarrow> string" where
  "ts_term w = [CHR 0x27] @ w @ [CHR 0x27] @ '':*''"

lemma Join_terms: "ws \<noteq> [] \<Longrightarrow>
  [CHR 0x27] @ strings_Join ws ([CHR 0x27] @ '':* & '' @ [CHR 0x27]) @ [CHR 0x27] @ '':*'' =
    strings_Join (map ts_term ws) '' & ''"
proof (induction ws rule: list_nonempty_induct)
  case (cons w ws)
  then show ?case by (cases ws) (simp_all add: ts_term_def)
qed (simp add: ts_term_def)

lemma SearchStringToTSQuery_terms:
  assumes "v = strings_TrimSpace (filter (\<lambda>c. c \<noteq> CHR 0x27) x)" "v \<noteq> []"
  shows "SearchStringToTSQuery (Some x) = strings_Join (map ts_term (re_split v)) '' & ''"
    and "\<forall>w \<in> set (re_split v). CHR 0x27 \<notin> set w"
proof -
  have x: "x \<noteq> []" using assms by (auto simp: strings_TrimSpace_def trim_left_def trim_right_def)
  then show "SearchStringToTSQuery (Some x) = strings_Join (map ts_term (re_split v)) '' & ''"
    using assms Join_terms [of "re_split v"] by (simp add: SearchStringToTSQuery_def re_replace_join Let_def)
  have "set v \<subseteq> {c. c \<noteq> CHR 0x27}"
    unfolding assms(1) strings_TrimSpace_def trim_left_def trim_right_def by (auto dest!: set_dropWhileD)
  then show "\<forall>w \<in> set (re_split v). CHR 0x27 \<notin> set w" using re_split_chars by blast
qed

end
