(* ===== verification/Shared_Errors.thy ===== *)
theory Shared_Errors
  imports Http_Errors
begin

text \<open>
  The error handler of internal/api/router/handlers.go writes into the error value it found, and the
  values of internal/api/httperrors and of echo are package variables that later requests return again.
  What the handler left in such a value does not show in the later responses.
\<close>

definition kind_pred :: "(go_error \<Rightarrow> bool) \<Rightarrow> bool" where
  "kind_pred P \<longleftrightarrow> P = is_HTTPError \<or> P = is_HTTPValidationError \<or> P = is_EchoHTTPError"

lemmas kind_defs = kind_pred_def is_HTTPError_def is_HTTPValidationError_def is_EchoHTTPError_def

lemma kind_pred_wrap [simp]: "kind_pred P \<Longrightarrow> \<not> P (ErrWrap m e)"
  by (auto simp: kind_defs)

lemma kind_pred_plain [simp]: "kind_pred P \<Longrightarrow> \<not> P (ErrPlain m)"
  by (auto simp: kind_defs)

lemma kind_pred_echo: "kind_pred P \<Longrightarrow> P (EchoHTTPError c m i) = P (EchoHTTPError c m j)"
  by (auto simp: kind_defs)

lemma hide_kind [simp]: "kind_pred P \<Longrightarrow> P (hide_details pr x) = P x"
  by (cases x) (auto simp: kind_defs hide_details_def Let_def)

lemma errors_as_echo: "kind_pred P \<Longrightarrow> \<not> P (EchoHTTPError c m (Some e)) \<Longrightarrow>
    errors_as P (EchoHTTPError c m (Some e)) = errors_as P e"
  by (simp add: errors_as_def)

lemma hide_chain: "unwrap e = None \<Longrightarrow> \<not> is_EchoHTTPError e \<Longrightarrow> err_chain (hide_details pr e) = [hide_details pr e]"
  by (cases e) (auto simp: hide_details_def is_EchoHTTPError_def Let_def)

text \<open>The value that \<open>errors.As\<close> finds after the write is the written one.\<close>

lemma errors_as_map_first:
  assumes "kind_pred P"
  shows "errors_as P (map_first P (hide_details pr) e) = map_option (hide_details pr) (errors_as P e)"
proof (induction e)
  case (ErrWrap m e)
  then show ?case using assms by simp
next
  case (EchoHTTPError c m i)
  show ?case
  proof (cases "P (EchoHTTPError c m i)")
    case True
    then show ?thesis using assms by (cases i) simp_all
  next
    case False
    then have "\<not> P (EchoHTTPError c m j)" for j using kind_pred_echo [OF assms, of c m i j] by simp
    then show ?thesis using EchoHTTPError assms by (cases i) (auto simp: errors_as_echo errors_as_def)
  qed
qed (use assms in \<open>auto simp: errors_as_def hide_chain is_EchoHTTPError_def\<close>)

text \<open>No error of another kind appears in the chain.\<close>

lemma errors_as_none_map_first:
  assumes "kind_pred P" "kind_pred Q" "errors_as Q e = None"
  shows "errors_as Q (map_first P (hide_details pr) e) = None"
  using assms(3)
proof (induction e)
  case (ErrWrap m e)
  then show ?case using assms by simp
next
  case (EchoHTTPError c m i)
  have q: "\<not> Q (EchoHTTPError c m j)" for j
    using EchoHTTPError.prems kind_pred_echo [OF assms(2), of c m i j] by (auto dest: errors_as_here)
  show ?case
  proof (cases i)
    case None
    then show ?thesis using q assms by (auto simp: errors_as_def hide_details_def Let_def)
  next
    case (Some e)
    then have "errors_as Q e = None" using EchoHTTPError.prems q assms by (simp add: errors_as_echo)
    then show ?thesis using EchoHTTPError.IH Some q assms by (auto simp: errors_as_echo hide_details_def Let_def)
  qed
qed (use assms in \<open>auto simp: errors_as_def hide_chain is_EchoHTTPError_def\<close>)

lemma kinds [simp]: "kind_pred is_HTTPError" "kind_pred is_HTTPValidationError" "kind_pred is_EchoHTTPError"
  by (simp_all add: kind_pred_def)

lemma hide_code [simp]: "error_code (hide_details pr x) = error_code x"
  by (cases x) (auto simp: error_code_def hide_details_def Let_def)

text \<open>So the response to an error does not depend on whether the handler has had it before.\<close>

lemma handled_error_response:
  "public_part (result_error pr hide (handled_error pr hide err)) = public_part (result_error pr hide err)"
proof (cases "errors_as is_HTTPError err")
  case (Some x)
  then have "is_HTTPError x" by (auto simp: errors_as_def dest: find_SomeD)
  then obtain c ty ti de i ad where x: "x = HTTPError c ty ti de i ad" by (cases x) (auto simp: is_HTTPError_def)
  show ?thesis
    using Some by (auto simp: handled_error_def result_error_def errors_as_map_first x error_code_def hide_details_def public_part_def Let_def)
next
  case None
  note N = this
  show ?thesis
  proof (cases "errors_as is_HTTPValidationError err")
    case (Some x)
    then have "is_HTTPValidationError x" by (auto simp: errors_as_def dest: find_SomeD)
    then obtain c ty ti de es i ad where x: "x = HTTPValidationError c ty ti de es i ad"
      by (cases x) (auto simp: is_HTTPValidationError_def)
    show ?thesis
      using Some N
      by (auto simp: handled_error_def result_error_def errors_as_map_first errors_as_none_map_first x error_code_def
          hide_details_def public_part_def Let_def)
  next
    case none: None
    show ?thesis
    proof (cases "errors_as is_EchoHTTPError err")
      case (Some x)
      then have "is_EchoHTTPError x" by (auto simp: errors_as_def dest: find_SomeD)
      then obtain c m i where x: "x = EchoHTTPError c m i" by (cases x) (auto simp: is_EchoHTTPError_def)
      show ?thesis
        using Some N none
        by (auto simp: handled_error_def result_error_def errors_as_map_first errors_as_none_map_first x error_code_def
            hide_details_def public_part_def Let_def)
    qed (use N none in \<open>simp add: handled_error_def\<close>)
  qed
qed

text \<open>What stays in the shared value is the text of the first error, which only the log shows.\<close>

lemma handled_error_keeps_first:
  "handled_error pr True (handled_error pr True (HTTPError 500 ty ti de None ad)) =
    HTTPError 500 ty (http_StatusText 500) de
      (Some (ErrPlain (''internal error: '' @ error_Error pr (HTTPError 500 ty ti de None ad)))) ad"
  by (simp add: handled_error_def errors_as_def is_HTTPError_def error_code_def hide_details_def Let_def)

end
