(* ===== verification/Uploads.thy ===== *)
theory Uploads
  imports Http_Errors
begin

text \<open>
  The file helpers of internal/util/http.go: receiving an uploaded file (\<open>ParseFileUpload\<close>) and the
  headers of a file that is sent (\<open>SetOrAppendHeader\<close>).  The multipart form, the file system and the
  detection of MIME types are parameters; the state is the list of the file handles that are open.
\<close>

section \<open>Receiving a file\<close>

record file_header =
  fh_filename :: string
  fh_size :: int

record 'm upload_lib =
  ul_FormFile :: "string \<Rightarrow> go_error + file_header"
  ul_Open :: "file_header \<Rightarrow> go_error + nat"
  ul_DetectReader :: "nat \<Rightarrow> go_error + 'm"
  ul_Seek :: "nat \<Rightarrow> go_error option"
  ul_Is :: "'m \<Rightarrow> string \<Rightarrow> bool"

definition file_Open :: "'m upload_lib \<Rightarrow> file_header \<Rightarrow> (nat list, nat) prog" where
  "file_Open lib h = (\<lambda>s. case ul_Open lib h of Inl x \<Rightarrow> (Err x, s) | Inr f \<Rightarrow> (Ok f, f # s))"

definition file_Close :: "nat \<Rightarrow> (nat list, unit) prog" where
  "file_Close f = (\<lambda>s. (Ok (), remove1 f s))"

definition echo_ErrUnsupportedMediaType :: go_error where
  "echo_ErrUnsupportedMediaType = EchoHTTPError 415 (MsgString ''Unsupported Media Type'') None"

fun mime_allowed :: "'m upload_lib \<Rightarrow> 'm \<Rightarrow> string list \<Rightarrow> bool" where
  "mime_allowed lib mime [] = False"
| "mime_allowed lib mime (allowedType # ts) = (if ul_Is lib mime allowedType then True else mime_allowed lib mime ts)"

definition ParseFileUpload ::
    "'m upload_lib \<Rightarrow> string \<Rightarrow> string list \<Rightarrow> (nat list, file_header \<times> nat \<times> 'm) prog" where
  "ParseFileUpload lib formNameFile allowedMIMETypes = (case ul_FormFile lib formNameFile of
      Inl x \<Rightarrow> errP (ErrWrap ''failed to get form file'' x)
    | Inr fileHeader \<Rightarrow> bindP (wrapP ''failed to open uploaded file'' (file_Open lib fileHeader)) (\<lambda>file.
        if fh_size fileHeader < 1 then errP ErrBadRequestZeroFileSize
        else (case ul_DetectReader lib file of
          Inl x \<Rightarrow> thenP (file_Close file) (errP (ErrWrap ''failed to detect MIME type of uploaded file'' x))
        | Inr mime \<Rightarrow> (case ul_Seek lib file of
            Some x \<Rightarrow> thenP (file_Close file) (errP (ErrWrap ''failed to reset reader of uploaded file to start'' x))
          | None \<Rightarrow>
              if \<not> mime_allowed lib mime allowedMIMETypes
              then thenP (file_Close file) (errP echo_ErrUnsupportedMediaType)
              else okP (fileHeader, file, mime)))))"

lemma mime_allowed_ex: "mime_allowed lib mime ts \<longleftrightarrow> (\<exists>t \<in> set ts. ul_Is lib mime t)"
  by (induction ts) auto

text \<open>
  A file is handed out open, read from its start, not empty and of an allowed type; an upload that is
  refused leaves no handle open, except for an empty file, whose handle is never closed.
\<close>

lemma ParseFileUpload_cases:
  assumes "ParseFileUpload lib name allowed s = (r, t)"
  shows "(\<exists>h f m. r = Ok (h, f, m) \<and> t = f # s \<and> ul_FormFile lib name = Inr h \<and> fh_size h \<ge> 1 \<and>
      ul_Seek lib f = None \<and> (\<exists>a \<in> set allowed. ul_Is lib m a)) \<or>
    (\<exists>x. r = Err x \<and> (t = s \<or> x = ErrBadRequestZeroFileSize \<and> (\<exists>f. t = f # s)))"
  using assms
  by (auto simp: ParseFileUpload_def file_Open_def file_Close_def bindP_def thenP_def wrapP_def tryP_def errP_def okP_def
      mime_allowed_ex split: sum.splits option.splits if_splits)

lemma ParseFileUpload_empty_file_leaks:
  assumes "ul_FormFile lib name = Inr h" "ul_Open lib h = Inr f" "fh_size h < 1"
  shows "ParseFileUpload lib name allowed s = (Err ErrBadRequestZeroFileSize, f # s)"
  using assms by (simp add: ParseFileUpload_def file_Open_def bindP_def wrapP_def tryP_def errP_def okP_def)

section \<open>Headers\<close>

text \<open>
  A header is a map from keys to their values; \<open>Get\<close> reads the first value, which is empty for a key that
  is absent.
\<close>

definition header_Get :: "(string \<Rightarrow> string list) \<Rightarrow> string \<Rightarrow> string" where
  "header_Get h k = (case h k of [] \<Rightarrow> [] | v # _ \<Rightarrow> v)"

definition SetOrAppendHeader ::
    "(string \<Rightarrow> string list) \<Rightarrow> string \<Rightarrow> string list \<Rightarrow> (string \<Rightarrow> string list)" where
  "SetOrAppendHeader header key values =
     (let headerSet = header_Get header key; headerValue = strings_Join values '', '' in
      if headerSet = [] then header(key := header key @ [headerValue])
      else header(key := [strings_Join [headerSet, headerValue] '', '']))"

lemma SetOrAppendHeader_Get:
  assumes "header key = [] \<or> hd (header key) \<noteq> []"
  shows "header_Get (SetOrAppendHeader header key values) key =
    (if header key = [] then strings_Join values '', ''
     else hd (header key) @ '', '' @ strings_Join values '', '')"
  using assms by (cases "header key") (auto simp: SetOrAppendHeader_def header_Get_def Let_def)

text \<open>
  A first value that is empty hides the appended ones from \<open>Get\<close>, and further values of the key are
  dropped when there is a first one.
\<close>

lemma SetOrAppendHeader_drops:
  "header key = v # vs \<Longrightarrow> v \<noteq> [] \<Longrightarrow> SetOrAppendHeader header key [x] key = [v @ '', '' @ x]"
  by (simp add: SetOrAppendHeader_def header_Get_def Let_def)

end
