(* ===== verification/Go_Paths.thy ===== *)
theory Go_Paths
  imports Go_Strings "HOL-Library.Sublist"
begin

text \<open>
  The packages path and path/filepath of the standard library, as far as the repository calls them, and
  internal/util/path.go: names and extensions of files.  Paths are slash separated.
\<close>

section \<open>path.Clean and path.Join\<close>

text \<open>
  \<open>clean_step\<close> reads one component; the stack holds the components kept so far, the last one first.
\<close>

definition clean_step :: "bool \<Rightarrow> string list \<Rightarrow> string \<Rightarrow> string list" where
  "clean_step rooted stack x =
     (if x = [] \<or> x = ''.'' then stack
      else if x = ''..'' then
        (if stack \<noteq> [] \<and> hd stack \<noteq> ''..'' then tl stack
         else if rooted then stack else x # stack)
      else x # stack)"

definition is_rooted :: "string \<Rightarrow> bool" where
  "is_rooted p \<longleftrightarrow> (case p of [] \<Rightarrow> False | c # _ \<Rightarrow> c = CHR ''/'')"

definition clean_parts :: "bool \<Rightarrow> string list \<Rightarrow> string list" where
  "clean_parts rooted xs = rev (foldl (clean_step rooted) [] xs)"

definition build_path :: "bool \<Rightarrow> string list \<Rightarrow> string" where
  "build_path rooted xs =
     (let p = (if rooted then ''/'' else []) @ strings_Join xs ''/'' in if p = [] then ''.'' else p)"

definition path_Clean :: "string \<Rightarrow> string" where
  "path_Clean p = build_path (is_rooted p) (clean_parts (is_rooted p) (split_char CHR ''/'' p))"

definition path_Join :: "string list \<Rightarrow> string" where
  "path_Join elems = (let xs = filter (\<lambda>x. x \<noteq> []) elems in
     if xs = [] then [] else path_Clean (strings_Join xs ''/''))"

section \<open>Base, Ext and Dir\<close>

text \<open>What follows the last occurrence of a character, and what comes up to and including it.\<close>

definition after_last :: "char \<Rightarrow> string \<Rightarrow> string" where
  "after_last c p = rev (takeWhile (\<lambda>x. x \<noteq> c) (rev p))"

definition upto_last :: "char \<Rightarrow> string \<Rightarrow> string" where
  "upto_last c p = rev (dropWhile (\<lambda>x. x \<noteq> c) (rev p))"

definition path_Base :: "string \<Rightarrow> string" where
  "path_Base p = (if p = [] then ''.'' else
     (let b = after_last CHR ''/'' (trim_right (\<lambda>c. c = CHR ''/'') p) in if b = [] then ''/'' else b))"

text \<open>The extension starts at the last dot of the text after the last slash.\<close>

definition path_Ext :: "string \<Rightarrow> string" where
  "path_Ext p = (let b = after_last CHR ''/'' p in
     if CHR ''.'' \<in> set b then CHR ''.'' # after_last CHR ''.'' b else [])"

definition path_Dir :: "string \<Rightarrow> string" where
  "path_Dir p = path_Clean (upto_last CHR ''/'' p)"

definition strings_TrimSuffix :: "string \<Rightarrow> string \<Rightarrow> string" where
  "strings_TrimSuffix s suf = (if strings_HasSuffix s suf then take (length s - length suf) s else s)"

section \<open>internal/util/path.go\<close>

definition FileNameWithoutExtension :: "string \<Rightarrow> string" where
  "FileNameWithoutExtension path = (let base = path_Base path in
     if base = ''.'' \<or> base = ''/'' then [] else strings_TrimSuffix base (path_Ext path))"

definition FileNameAndExtension :: "string \<Rightarrow> string \<times> string" where
  "FileNameAndExtension path = (let base = path_Base path in
     if base = ''.'' \<or> base = ''/'' then ([], [])
     else (let extension = path_Ext path; fileName = strings_TrimSuffix base extension in (fileName, extension)))"

section \<open>Facts\<close>

lemma takeWhile_dropWhile_rev: "upto_last c p @ after_last c p = p"
proof -
  have "rev (upto_last c p @ after_last c p) = rev p" by (simp add: upto_last_def after_last_def)
  then show ?thesis by (simp only: rev_is_rev_conv)
qed

lemma after_last_no_char: "c \<notin> set (after_last c p)"
  by (auto simp: after_last_def dest: set_takeWhileD)

lemma upto_last_ends: "upto_last c p = [] \<or> last (upto_last c p) = c"
proof -
  have "dropWhile (\<lambda>x. x \<noteq> c) (rev p) = [] \<or> hd (dropWhile (\<lambda>x. x \<noteq> c) (rev p)) = c"
    using hd_dropWhile [of "\<lambda>x. x \<noteq> c" "rev p"] by blast
  then show ?thesis by (auto simp: upto_last_def last_rev)
qed

lemma strings_HasSuffix_iff: "strings_HasSuffix s suf \<longleftrightarrow> (\<exists>p. s = p @ suf)"
  by (simp add: strings_HasSuffix_def suffix_def)

lemma TrimSuffix_append [simp]: "strings_TrimSuffix (p @ suf) suf = p"
  by (auto simp: strings_TrimSuffix_def strings_HasSuffix_iff)

lemma path_Ext_split:
  assumes "CHR ''.'' \<in> set (after_last CHR ''/'' p)"
  shows "\<exists>name. after_last CHR ''/'' p = name @ path_Ext p"
proof -
  let ?b = "after_last CHR ''/'' p"
  have split: "upto_last CHR ''.'' ?b @ after_last CHR ''.'' ?b = ?b" by (rule takeWhile_dropWhile_rev)
  have "upto_last CHR ''.'' ?b \<noteq> []"
    using assms split after_last_no_char [of "CHR ''.''" ?b] by (metis append_Nil)
  then have "upto_last CHR ''.'' ?b = butlast (upto_last CHR ''.'' ?b) @ ''.''"
    using upto_last_ends [of "CHR ''.''" ?b] by (metis append_butlast_last_id)
  then have "?b = butlast (upto_last CHR ''.'' ?b) @ (CHR ''.'' # after_last CHR ''.'' ?b)"
    using split by (metis append.assoc append_Cons append_Nil)
  then show ?thesis using assms by (auto simp: path_Ext_def Let_def)
qed

text \<open>
  The name and the extension of a file put together are its base name, when the path does not end in a
  slash; the file name alone is the first component of the pair.
\<close>

lemma path_Base_no_slash:
  assumes "p \<noteq> []" "last p \<noteq> CHR ''/''"
  shows "path_Base p = after_last CHR ''/'' p"
proof -
  obtain q c where p: "p = q @ [c]" "c \<noteq> CHR ''/''" using assms by (metis append_butlast_last_id)
  have "trim_right (\<lambda>c. c = CHR ''/'') p = p" using p by (simp add: trim_right_def)
  moreover have "after_last CHR ''/'' p \<noteq> []" using p by (simp add: after_last_def)
  ultimately show ?thesis using assms(1) by (simp add: path_Base_def Let_def)
qed

lemma FileNameAndExtension_join:
  assumes "p \<noteq> []" "last p \<noteq> CHR ''/''" "path_Base p \<noteq> ''.''"
  shows "fst (FileNameAndExtension p) @ snd (FileNameAndExtension p) = path_Base p"
proof -
  let ?b = "after_last CHR ''/'' p"
  have base: "path_Base p = ?b" by (rule path_Base_no_slash) (rule assms)+
  have slash: "?b \<noteq> ''/''" using after_last_no_char [of "CHR ''/''" p] by auto
  have "strings_TrimSuffix ?b (path_Ext p) @ path_Ext p = ?b"
  proof (cases "CHR ''.'' \<in> set ?b")
    case True
    from path_Ext_split [OF this] show ?thesis by auto
  next
    case False
    then have "path_Ext p = []" by (simp add: path_Ext_def)
    then show ?thesis by (simp add: strings_TrimSuffix_def)
  qed
  then show ?thesis using assms(3) base slash by (simp add: FileNameAndExtension_def Let_def)
qed

lemma FileNameWithoutExtension_fst: "FileNameWithoutExtension p = fst (FileNameAndExtension p)"
  by (simp add: FileNameWithoutExtension_def FileNameAndExtension_def Let_def)

text \<open>With a trailing slash the extension is not seen: the name keeps it.\<close>

lemma FileName_trailing_slash:
  "FileNameAndExtension ''a/b.txt/'' = (''b.txt'', [])" "FileNameAndExtension ''a/b.txt'' = (''b'', ''.txt'')"
  by code_simp+

lemma path_Join_examples:
  "path_Join [''/app/assets/mnt'', ''.healthy''] = ''/app/assets/mnt/.healthy''"
  "path_Join [''/app'', ''/web//i18n/../x''] = ''/app/web/x''"
  "path_Join [[], []] = []" "path_Clean ''../a/./..'' = ''..''"
  by code_simp+

end
