(* ===== verification/Server_Lifecycle.thy ===== *)
theory Server_Lifecycle
  imports Push
begin

text \<open>
  Building, starting and stopping the server: internal/api/server.go, providers.go, providers_mpc.go and
  wire_gen.go, internal/persistence/postgres.go, \<open>IsStructInitialized\<close> of internal/util/struct.go,
  internal/util/command/command.go, cmd/server/server.go and cmd/db/migrate.go.

  The record \<open>boot\<close> holds the outcomes of the libraries; the state is the trace of what was done.  An exit
  of the process through \<open>log.Fatal\<close> is the outcome \<open>Panic exit_status_1\<close>; log output is left out.
\<close>

section \<open>The state of the process\<close>

datatype action =
    OpenDB | CloseDB
  | ServeGRPC string | StopGRPC
  | StartEcho string | StopEcho
  | ProbeReady | Migrate | Seed | InitRouter

type_synonym trace = "action list"

definition act :: "action \<Rightarrow> go_error option \<Rightarrow> (trace, unit) prog" where
  "act a res = (\<lambda>s. (case res of None \<Rightarrow> Ok () | Some x \<Rightarrow> Err x, s @ [a]))"

definition attempt :: "go_error option \<Rightarrow> (trace, unit) prog" where
  "attempt res = (case res of None \<Rightarrow> okP () | Some x \<Rightarrow> errP x)"

definition exit_status_1 :: string where
  "exit_status_1 = ''exit status 1''"

definition log_Fatal :: "(trace, 'a) prog" where
  "log_Fatal = panicP exit_status_1"

record boot =
  bt_sql_open :: "go_error option"
  bt_ping :: "go_error option"
  bt_mailer :: "go_error option"
  bt_fcm :: "go_error option"
  bt_i18n :: "go_error option"
  bt_webauthn :: "go_error option"
  bt_dial :: "go_error option"
  bt_db_close :: "go_error option"
  bt_echo_start :: go_error
  bt_echo_shutdown :: "go_error option"
  bt_probe :: "go_error + go_error list"
  bt_migrate :: "go_error option"
  bt_seed :: "go_error option"
  bt_router :: "go_error option"

record lifecycle_config =
  lc_use_fcm :: bool
  lc_use_mock :: bool
  lc_mpc_ca_cert_file :: string
  lc_grpc_listen :: string
  lc_echo_listen :: string

section \<open>The components\<close>

text \<open>
  \<open>Server\<close> with, for every field, whether it is different from the zero value, and the providers of the
  push service; the connection of the MPC clients may be missing.
\<close>

record server_parts =
  sp_echo :: bool
  sp_router :: bool
  sp_grpc :: bool
  sp_config :: bool
  sp_db :: bool
  sp_mailer :: bool
  sp_push :: bool
  sp_i18n :: bool
  sp_clock :: bool
  sp_auth :: bool
  sp_local :: bool
  sp_metrics :: bool
  sp_webauthn :: bool
  sp_vault :: bool
  sp_signing :: bool
  sp_organization :: bool
  sp_providers :: "(string \<times> provider) list"
  sp_mpc_connected :: bool

definition server_fields :: "server_parts \<Rightarrow> (string \<times> bool) list" where
  "server_fields s =
     [(''Echo'', sp_echo s), (''Router'', sp_router s), (''GRPC'', sp_grpc s), (''Config'', sp_config s),
      (''DB'', sp_db s), (''Mailer'', sp_mailer s), (''Push'', sp_push s), (''I18n'', sp_i18n s),
      (''Clock'', sp_clock s), (''Auth'', sp_auth s), (''Local'', sp_local s), (''Metrics'', sp_metrics s),
      (''WebAuthn'', sp_webauthn s), (''Vault'', sp_vault s), (''Signing'', sp_signing s),
      (''Organization'', sp_organization s)]"

text \<open>
  \<open>IsStructInitialized\<close> on the fields of a struct with whether they are set; the errors that are joined.
\<close>

fun IsStructInitialized :: "(string \<times> bool) list \<Rightarrow> go_error list" where
  "IsStructInitialized [] = []"
| "IsStructInitialized ((name, is_set) # fs) =
     (if is_set then IsStructInitialized fs
      else ErrPlain (name @ '' is not initialized'') # IsStructInitialized fs)"

definition Ready :: "server_parts \<Rightarrow> bool" where
  "Ready s \<longleftrightarrow> IsStructInitialized (server_fields s) = []"

lemma IsStructInitialized_iff: "IsStructInitialized fs = [] \<longleftrightarrow> (\<forall>f \<in> set fs. snd f)"
  by (induction fs rule: IsStructInitialized.induct) auto

lemma Ready_iff:
  "Ready s \<longleftrightarrow> sp_echo s \<and> sp_router s \<and> sp_grpc s \<and> sp_config s \<and> sp_db s \<and> sp_mailer s \<and> sp_push s \<and>
     sp_i18n s \<and> sp_clock s \<and> sp_auth s \<and> sp_local s \<and> sp_metrics s \<and> sp_webauthn s \<and> sp_vault s \<and>
     sp_signing s \<and> sp_organization s"
  by (auto simp: Ready_def server_fields_def)

section \<open>Providers\<close>

definition NewDB :: "boot \<Rightarrow> (trace, unit) prog" where
  "NewDB b = thenP (wrapP ''failed to open db connection'' (act OpenDB (bt_sql_open b)))
     (wrapP ''failed to ping DB'' (attempt (bt_ping b)))"

definition NewPush :: "boot \<Rightarrow> lifecycle_config \<Rightarrow> provider \<Rightarrow> (trace, (string \<times> provider) list) prog" where
  "NewPush b cfg fcm =
     bindP (if lc_use_fcm cfg
            then thenP (wrapP ''failed to create FCM provider'' (attempt (bt_fcm b))) (okP (RegisterProvider fcm []))
            else okP []) (\<lambda>ps.
     okP (if lc_use_mock cfg then RegisterProvider (Mock ''fcm'') ps else ps))"

text \<open>Whether there is a connection: without a certificate of the authority none is made, and no error returned.\<close>

definition NewMpcClientConnection :: "boot \<Rightarrow> lifecycle_config \<Rightarrow> (trace, bool) prog" where
  "NewMpcClientConnection b cfg =
     (if lc_mpc_ca_cert_file cfg = [] then okP False
      else thenP (attempt (bt_dial b)) (okP True))"

definition NewMpcAuthService :: "boot \<Rightarrow> (trace, unit) prog" where
  "NewMpcAuthService b = wrapP ''failed to init webauthn'' (attempt (bt_webauthn b))"

definition newServerWithComponents :: "(string \<times> provider) list \<Rightarrow> bool \<Rightarrow> server_parts" where
  "newServerWithComponents ps conn =
     \<lparr>sp_echo = False, sp_router = False, sp_grpc = True, sp_config = True, sp_db = True, sp_mailer = True,
      sp_push = True, sp_i18n = True, sp_clock = True, sp_auth = True, sp_local = True, sp_metrics = True,
      sp_webauthn = True, sp_vault = True, sp_signing = True, sp_organization = True,
      sp_providers = ps, sp_mpc_connected = conn\<rparr>"

definition InitNewServer :: "boot \<Rightarrow> lifecycle_config \<Rightarrow> provider \<Rightarrow> (trace, server_parts) prog" where
  "InitNewServer b cfg fcm =
     thenP (NewDB b)
    (thenP (attempt (bt_mailer b))
    (bindP (NewPush b cfg fcm) (\<lambda>ps.
     thenP (attempt (bt_i18n b))
    (thenP (NewMpcAuthService b)
    (bindP (NewMpcClientConnection b cfg) (\<lambda>conn.
     okP (newServerWithComponents ps conn)))))))"

section \<open>Start and Shutdown\<close>

text \<open>\<open>Start\<close> returns only when echo stops serving, with the error \<open>bt_echo_start\<close>.\<close>

definition Start :: "boot \<Rightarrow> lifecycle_config \<Rightarrow> server_parts \<Rightarrow> (trace, unit) prog" where
  "Start b cfg s =
     (if \<not> Ready s then errP (ErrPlain ''server is not ready'')
      else thenP (if sp_grpc s then act (ServeGRPC (lc_grpc_listen cfg)) None else okP ())
        (wrapP ''failed to start echo server'' (act (StartEcho (lc_echo_listen cfg)) (Some (bt_echo_start b)))))"

definition ErrConnDone :: go_error where
  "ErrConnDone = ErrPlain ''sql: connection is already closed''"

definition ErrServerClosed :: go_error where
  "ErrServerClosed = ErrPlain ''http: Server closed''"

text \<open>Runs an action and collects its error unless it is the expected one.\<close>

definition collect :: "action \<Rightarrow> go_error option \<Rightarrow> go_error \<Rightarrow> (trace, go_error list) prog" where
  "collect a res expected = tryP (act a res) (\<lambda>r. case r of
      Inl x \<Rightarrow> okP (if errors_is x expected then [] else [x])
    | Inr _ \<Rightarrow> okP [])"

definition Shutdown :: "boot \<Rightarrow> server_parts \<Rightarrow> (trace, go_error list) prog" where
  "Shutdown b s =
     thenP (if sp_grpc s then act StopGRPC None else okP ())
    (bindP (if sp_db s then collect CloseDB (bt_db_close b) ErrConnDone else okP []) (\<lambda>e1.
     bindP (if sp_echo s then collect StopEcho (bt_echo_shutdown b) ErrServerClosed else okP []) (\<lambda>e2.
     okP (e1 @ e2))))"

section \<open>Commands\<close>

text \<open>\<open>command.WithServer\<close>; a list of errors is what \<open>errors.Join\<close> joins.\<close>

definition WithServer ::
    "boot \<Rightarrow> lifecycle_config \<Rightarrow> provider \<Rightarrow> (server_parts \<Rightarrow> (trace, server_parts) prog) \<Rightarrow> (trace, go_error list) prog" where
  "WithServer b cfg fcm handler =
     tryP (InitNewServer b cfg fcm) (\<lambda>r. case r of
       Inl _ \<Rightarrow> log_Fatal
     | Inr s \<Rightarrow> tryP (handler s) (\<lambda>r. case r of
         Inl x \<Rightarrow> okP [x]
       | Inr s' \<Rightarrow> Shutdown b s'))"

record server_flags =
  fl_probe_readiness :: bool
  fl_apply_migrations :: bool
  fl_seed_fixtures :: bool

text \<open>An action whose error ends the process.\<close>

definition must :: "action \<Rightarrow> go_error option \<Rightarrow> (trace, unit) prog" where
  "must a res = tryP (act a res) (\<lambda>r. case r of Inl _ \<Rightarrow> log_Fatal | Inr _ \<Rightarrow> okP ())"

definition probe_failure :: "boot \<Rightarrow> go_error option" where
  "probe_failure b = (case bt_probe b of Inl x \<Rightarrow> Some x | Inr [] \<Rightarrow> None | Inr (x # _) \<Rightarrow> Some x)"

text \<open>
  The handler of the command \<open>server\<close>.  \<open>Start\<close> runs in a goroutine: it is shown at the point where it is
  started, its \<open>http.ErrServerClosed\<close> is expected and any other error ends the process.
\<close>

definition run_server_handler :: "boot \<Rightarrow> lifecycle_config \<Rightarrow> server_flags \<Rightarrow> server_parts \<Rightarrow> (trace, server_parts) prog" where
  "run_server_handler b cfg flags s =
     thenP (if fl_probe_readiness flags then must ProbeReady (probe_failure b) else okP ())
    (thenP (if fl_apply_migrations flags then must Migrate (bt_migrate b) else okP ())
    (thenP (if fl_seed_fixtures flags then must Seed (bt_seed b) else okP ())
    (thenP (must InitRouter (bt_router b))
     (let s' = s\<lparr>sp_echo := True, sp_router := True\<rparr> in
      tryP (Start b cfg s') (\<lambda>r. case r of
         Inl x \<Rightarrow> if errors_is x ErrServerClosed then okP s' else log_Fatal
       | Inr _ \<Rightarrow> okP s')))))"

definition runServer :: "boot \<Rightarrow> lifecycle_config \<Rightarrow> provider \<Rightarrow> server_flags \<Rightarrow> (trace, unit) prog" where
  "runServer b cfg fcm flags =
     bindP (WithServer b cfg fcm (run_server_handler b cfg flags)) (\<lambda>errs.
     if errs = [] then okP () else log_Fatal)"

section \<open>Outcomes\<close>

lemma act_Ok_iff [outcome_simps]: "act a res s = (Ok x, t) \<longleftrightarrow> res = None \<and> t = s @ [a]"
  by (auto simp: act_def split: option.splits)

lemma act_Err_iff [outcome_simps]: "act a res s = (Err x, t) \<longleftrightarrow> res = Some x \<and> t = s @ [a]"
  by (auto simp: act_def split: option.splits)

lemma attempt_Ok_iff [outcome_simps]: "attempt res s = (Ok x, t) \<longleftrightarrow> res = None \<and> t = s"
  by (auto simp: attempt_def okP_def errP_def split: option.splits)

lemma log_Fatal_iff [outcome_simps]: "log_Fatal s = (r, t) \<longleftrightarrow> r = Panic exit_status_1 \<and> t = s"
  by (auto simp: log_Fatal_def panicP_def)

lemma must_Ok_iff [outcome_simps]: "must a res s = (Ok x, t) \<longleftrightarrow> res = None \<and> t = s @ [a]"
  by (auto simp: must_def outcome_simps)

lemma collect_Ok_iff [outcome_simps]:
  "collect a res expected s = (Ok es, t) \<longleftrightarrow>
     t = s @ [a] \<and> es = (case res of None \<Rightarrow> [] | Some x \<Rightarrow> if errors_is x expected then [] else [x])"
  by (cases res) (auto simp: collect_def outcome_simps)

lemma NewPush_Ok_iff [outcome_simps]:
  "NewPush b cfg fcm s = (Ok ps, t) \<longleftrightarrow> t = s \<and> (lc_use_fcm cfg \<longrightarrow> bt_fcm b = None) \<and>
     ps = (let qs = (if lc_use_fcm cfg then RegisterProvider fcm [] else []) in
           if lc_use_mock cfg then RegisterProvider (Mock ''fcm'') qs else qs)"
  by (auto simp: NewPush_def outcome_simps Let_def)

lemma NewMpcClientConnection_Ok_iff [outcome_simps]:
  "NewMpcClientConnection b cfg s = (Ok c, t) \<longleftrightarrow>
     (c \<longrightarrow> bt_dial b = None) \<and> c = (lc_mpc_ca_cert_file cfg \<noteq> []) \<and> t = s"
  by (auto simp: NewMpcClientConnection_def outcome_simps)

lemma InitNewServer_Ok:
  assumes "InitNewServer b cfg fcm s = (Ok srv, t)"
  shows "t = s @ [OpenDB] \<and> (\<exists>ps. NewPush b cfg fcm (s @ [OpenDB]) = (Ok ps, s @ [OpenDB]) \<and>
     srv = newServerWithComponents ps (lc_mpc_ca_cert_file cfg \<noteq> []))"
  using assms by (simp add: InitNewServer_def NewDB_def NewMpcAuthService_def outcome_simps)

lemma Start_not_ready: "\<not> Ready s \<Longrightarrow> Start b cfg s t = (Err (ErrPlain ''server is not ready''), t)"
  by (simp add: Start_def errP_def)

lemma Start_ready:
  "Ready s \<Longrightarrow> Start b cfg s t =
     (Err (ErrWrap ''failed to start echo server'' (bt_echo_start b)),
      t @ [ServeGRPC (lc_grpc_listen cfg), StartEcho (lc_echo_listen cfg)])"
  by (auto simp: Start_def Ready_iff thenP_def bindP_def act_def wrapP_def tryP_def errP_def)

lemma Shutdown_trace:
  "sp_grpc s \<Longrightarrow> sp_db s \<Longrightarrow> sp_echo s \<Longrightarrow> Shutdown b s t = (r, u) \<Longrightarrow>
     is_ok r \<and> u = t @ [StopGRPC, CloseDB, StopEcho]"
  by (cases "bt_db_close b"; cases "bt_echo_shutdown b")
    (auto simp: Shutdown_def thenP_def bindP_def collect_def tryP_def act_def okP_def)

text \<open>A server that has just been built is not ready: its routes are missing.\<close>

lemma Init_not_ready:
  "InitNewServer b cfg fcm s = (Ok srv, t) \<Longrightarrow> Start b cfg srv u = (Err (ErrPlain ''server is not ready''), u)"
  by (rule Start_not_ready) (auto dest: InitNewServer_Ok simp: newServerWithComponents_def Ready_iff)

text \<open>With both providers configured, which the default of the mock makes so, Firebase is never asked.\<close>

lemma mock_replaces_fcm:
  assumes "lc_use_mock cfg" "pv_type fcm = ''fcm''" "NewPush b cfg fcm s = (Ok ps, t)"
  shows "ps = [(''fcm'', Mock ''fcm'')]"
  using assms by (simp add: NewPush_Ok_iff RegisterProvider_def Mock_def Let_def)

text \<open>A handler that fails leaves the server running: nothing is closed.\<close>

lemma failed_handler_leaks:
  assumes "InitNewServer b cfg fcm [] = (Ok srv, t)" and "handler srv t = (Err x, u)"
  shows "WithServer b cfg fcm handler [] = (Ok [x], u)"
  using assms by (simp add: WithServer_def tryP_def okP_def)

section \<open>The command server\<close>

definition startup :: "server_flags \<Rightarrow> action list" where
  "startup flags =
     (if fl_probe_readiness flags then [ProbeReady] else []) @
     (if fl_apply_migrations flags then [Migrate] else []) @
     (if fl_seed_fixtures flags then [Seed] else []) @ [InitRouter]"

lemma run_server_handler_Ok:
  assumes "run_server_handler b cfg flags (newServerWithComponents ps conn) t = (Ok srv, u)"
  shows "sp_grpc srv \<and> sp_db srv \<and> sp_echo srv \<and>
    u = t @ startup flags @ [ServeGRPC (lc_grpc_listen cfg), StartEcho (lc_echo_listen cfg)]"
proof -
  let ?s = "(newServerWithComponents ps conn)\<lparr>sp_echo := True, sp_router := True\<rparr>"
  have ready: "Ready ?s" by (simp add: Ready_iff newServerWithComponents_def)
  obtain v where v: "v = t @ startup flags" and
    run: "tryP (Start b cfg ?s) (\<lambda>r. case r of
         Inl x \<Rightarrow> if errors_is x ErrServerClosed then okP ?s else log_Fatal
       | Inr _ \<Rightarrow> okP ?s) v = (Ok srv, u)"
    using assms by (auto simp: run_server_handler_def outcome_simps startup_def Let_def split: if_splits)
  have "srv = ?s" "u = v @ [ServeGRPC (lc_grpc_listen cfg), StartEcho (lc_echo_listen cfg)]"
    using run by (auto simp: tryP_def Start_ready [OF ready] okP_def log_Fatal_def panicP_def split: if_splits)
  then show ?thesis using v by (simp add: newServerWithComponents_def)
qed

text \<open>
  What the command server does.  When it ends without an error, it has opened the database, done the
  steps its flags ask for in the order probe, migrate, seed, prepared the routes, started both servers,
  and on the signal stopped the gRPC server, closed the database and only then stopped the HTTP server:
  the requests the HTTP server still works on lose their database.
\<close>

theorem runServer_actions:
  assumes "runServer b cfg fcm flags [] = (Ok (), t)"
  shows "t = [OpenDB] @ startup flags @ [ServeGRPC (lc_grpc_listen cfg), StartEcho (lc_echo_listen cfg)] @
    [StopGRPC, CloseDB, StopEcho]"
proof -
  from assms obtain srv u where init: "InitNewServer b cfg fcm [] = (Ok srv, u)"
    and rest: "tryP (run_server_handler b cfg flags srv) (\<lambda>r. case r of
         Inl x \<Rightarrow> okP [x] | Inr s' \<Rightarrow> Shutdown b s') u = (Ok [], t)"
    by (auto simp: runServer_def WithServer_def outcome_simps split: if_splits)
  from InitNewServer_Ok [OF init] obtain ps conn where srv: "srv = newServerWithComponents ps conn" and u: "u = [OpenDB]"
    by auto
  from rest obtain srv' v where run: "run_server_handler b cfg flags srv u = (Ok srv', v)"
    and stop: "Shutdown b srv' v = (Ok [], t)"
    by (auto simp: outcome_simps)
  have h: "sp_grpc srv' \<and> sp_db srv' \<and> sp_echo srv' \<and>
    v = u @ startup flags @ [ServeGRPC (lc_grpc_listen cfg), StartEcho (lc_echo_listen cfg)]"
    using run run_server_handler_Ok unfolding srv by blast
  then have "t = v @ [StopGRPC, CloseDB, StopEcho]"
    using Shutdown_trace [of srv' b v "Ok []" t] stop by simp
  then show ?thesis using h u by simp
qed

definition quiet_boot :: boot where
  "quiet_boot = \<lparr>bt_sql_open = None, bt_ping = None, bt_mailer = None, bt_fcm = None, bt_i18n = None,
     bt_webauthn = None, bt_dial = None, bt_db_close = None, bt_echo_start = ErrServerClosed,
     bt_echo_shutdown = None, bt_probe = Inr [], bt_migrate = None, bt_seed = None, bt_router = None\<rparr>"

definition default_lifecycle :: lifecycle_config where
  "default_lifecycle = \<lparr>lc_use_fcm = False, lc_use_mock = True, lc_mpc_ca_cert_file = [],
     lc_grpc_listen = '':9090'', lc_echo_listen = '':8080''\<rparr>"

lemmas run_defs = runServer_def WithServer_def InitNewServer_def NewDB_def NewPush_def NewMpcAuthService_def
  NewMpcClientConnection_def newServerWithComponents_def run_server_handler_def must_def Start_def Shutdown_def
  collect_def act_def attempt_def log_Fatal_def bindP_def thenP_def tryP_def wrapP_def okP_def errP_def panicP_def Let_def

theorem runServer_actions_witness:
  "\<exists>t. runServer quiet_boot default_lifecycle (Mock ''fcm'') \<lparr>fl_probe_readiness = True,
       fl_apply_migrations = True, fl_seed_fixtures = False\<rparr> [] = (Ok (), t) \<and>
    t = [OpenDB, ProbeReady, Migrate, InitRouter, ServeGRPC '':9090'', StartEcho '':8080'', StopGRPC, CloseDB, StopEcho]"
proof -
  let ?run = "runServer quiet_boot default_lifecycle (Mock ''fcm'') \<lparr>fl_probe_readiness = True,
       fl_apply_migrations = True, fl_seed_fixtures = False\<rparr>"
  have "is_ok (fst (?run []))"
    by (simp add: run_defs quiet_boot_def default_lifecycle_def probe_failure_def Ready_iff)
  from ok_run [of ?run "[]", OF this] obtain t where "?run [] = (Ok (), t)" by auto
  from this runServer_actions [OF this] show ?thesis by (simp add: startup_def default_lifecycle_def)
qed

section \<open>Migrations\<close>

text \<open>
  \<open>ApplyMigrations\<close> after its connection has been opened.  \<open>plan\<close> and \<open>exec_max\<close> are the calls of
  sql-migrate on the state of the database: the number of migrations that are missing, and the execution
  of one of them with the number that was executed.
\<close>

fun apply_loop :: "('d \<Rightarrow> (go_error + nat) \<times> 'd) \<Rightarrow> nat \<Rightarrow> nat \<Rightarrow> 'd \<Rightarrow> (go_error + nat) \<times> 'd" where
  "apply_loop exec_max 0 count d = (Inr count, d)"
| "apply_loop exec_max (Suc missing) count d = (case exec_max d of
      (Inl x, d') \<Rightarrow> (Inl (ErrWrap ''failed to apply migration'' x), d')
    | (Inr n, d') \<Rightarrow> if n = 0 then (Inr (count + n), d') else apply_loop exec_max missing (count + n) d')"

definition ApplyMigrations ::
    "go_error option \<Rightarrow> go_error option \<Rightarrow> ('d \<Rightarrow> go_error + 'd) \<Rightarrow> ('d \<Rightarrow> go_error + nat) \<Rightarrow>
      ('d \<Rightarrow> (go_error + nat) \<times> 'd) \<Rightarrow> 'd \<Rightarrow> (go_error + nat) \<times> 'd" where
  "ApplyMigrations open_err ping_err rename plan exec_max d =
     (case open_err of Some x \<Rightarrow> (Inl (ErrWrap ''failed to open the database'' x), d)
      | None \<Rightarrow> (case ping_err of Some x \<Rightarrow> (Inl (ErrWrap ''failed to ping the database'' x), d)
      | None \<Rightarrow> (case rename d of Inl x \<Rightarrow> (Inl (ErrWrap ''failed to rename migrations table'' x), d)
      | Inr d1 \<Rightarrow> (case plan d1 of Inl x \<Rightarrow> (Inl (ErrWrap ''failed to plan migrations'' x), d1)
      | Inr missing \<Rightarrow> apply_loop exec_max missing 0 d1))))"

text \<open>The documented behaviour: one execution applies the first missing migration, or fails and applies none.\<close>

definition migrate_laws :: "('d \<Rightarrow> string list) \<Rightarrow> ('d \<Rightarrow> (go_error + nat) \<times> 'd) \<Rightarrow> bool" where
  "migrate_laws missing exec_max \<longleftrightarrow> (\<forall>d. case exec_max d of
      (Inl _, d') \<Rightarrow> missing d' = missing d
    | (Inr n, d') \<Rightarrow> missing d' = drop n (missing d) \<and> n = min 1 (length (missing d)))"

lemma apply_loop_spec:
  assumes "migrate_laws missing exec_max"
  shows "\<exists>k \<le> m. missing (snd (apply_loop exec_max m c d)) = drop k (missing d) \<and>
    (\<forall>n. fst (apply_loop exec_max m c d) = Inr n \<longrightarrow> n = c + min m (length (missing d)) \<and> k = min m (length (missing d)))"
proof (induction m arbitrary: c d)
  case (Suc m)
  obtain r d' where e: "exec_max d = (r, d')" by (cases "exec_max d")
  have law: "case (r, d') of (Inl _, d') \<Rightarrow> missing d' = missing d
      | (Inr n, d') \<Rightarrow> missing d' = drop n (missing d) \<and> n = min 1 (length (missing d))"
    using spec [OF assms [unfolded migrate_laws_def], of d] unfolding e .
  show ?case
  proof (cases r)
    case (Inl x)
    then show ?thesis using e law by (intro exI [of _ 0]) simp
  next
    case (Inr n)
    show ?thesis
    proof (cases "n = 0")
      case True
      then have "missing d = []" using law Inr by (cases "missing d") simp_all
      then show ?thesis using e law Inr True by (intro exI [of _ 0]) simp
    next
      case False
      then have n: "n = 1" and len: "length (missing d) = Suc (length (missing d'))" and tl: "missing d' = drop 1 (missing d)"
        using law Inr by (cases "missing d"; simp)+
      obtain k where k: "k \<le> m" "missing (snd (apply_loop exec_max m (c + 1) d')) = drop k (missing d')"
        "\<forall>j. fst (apply_loop exec_max m (c + 1) d') = Inr j \<longrightarrow>
           j = c + 1 + min m (length (missing d')) \<and> k = min m (length (missing d'))"
        using Suc.IH [of "c + 1" d'] by (elim exE conjE) (rule that)
      have step: "apply_loop exec_max (Suc m) c d = apply_loop exec_max m (c + 1) d'"
        using e Inr n by simp
      have "missing (snd (apply_loop exec_max (Suc m) c d)) = drop (Suc k) (missing d)"
        unfolding step k(2) tl by simp
      moreover have "j = c + min (Suc m) (length (missing d)) \<and> Suc k = min (Suc m) (length (missing d))"
        if "fst (apply_loop exec_max (Suc m) c d) = Inr j" for j
        using k(3) that unfolding step len by simp
      ultimately show ?thesis using k(1) by (intro exI [of _ "Suc k"]) simp
    qed
  qed
qed simp

text \<open>
  When \<open>ApplyMigrations\<close> reports success no migration is missing and the number is that of all that were;
  a failure leaves a prefix of them applied, though the number reported with it is zero.
\<close>

lemma ApplyMigrations_complete:
  assumes "migrate_laws missing exec_max" and "\<And>d n. plan d = Inr n \<Longrightarrow> n = length (missing d)"
    and "rename d = Inr d1" and "ApplyMigrations None None rename plan exec_max d = (Inr n, d')"
  shows "missing d' = [] \<and> n = length (missing d1)"
proof -
  obtain m where plan: "plan d1 = Inr m" and run: "apply_loop exec_max m 0 d1 = (Inr n, d')"
    using assms(3,4) by (auto simp: ApplyMigrations_def split: sum.splits)
  have "m = length (missing d1)" by (rule assms(2) [OF plan])
  then show ?thesis using apply_loop_spec [OF assms(1), of m 0 d1] run by auto
qed

end
