(* ===== verification/Probes.thy ===== *)
theory Probes
  imports Go_Paths Server_Lifecycle
begin

text \<open>
  internal/api/handlers/common: the probes (probes.go) and the management routes ready, healthy and
  version, with \<open>WaitTimeout\<close> (internal/util/wait_group.go), \<open>TouchFile\<close> (internal/util/fs.go), the build
  arguments (internal/config/build_args.go) and the commands of cmd/probe.

  A probe runs its call in a goroutine and waits for it until the deadline of the context.  The record
  \<open>probe_env\<close> says how long call number \<open>n\<close> takes, what it answers and, when nobody waits for it any more,
  whether it still takes effect; texts of durations and errors are parameters.
\<close>

section \<open>Contexts, the clock and the calls\<close>

record probe_ctx =
  cx_deadline :: "time option"
  cx_cancelled :: "time option"

record probe_env =
  pe_delay :: "nat \<Rightarrow> nat"
  pe_tie :: "nat \<Rightarrow> bool"
  pe_late :: "nat \<Rightarrow> bool"
  pe_ping :: "nat \<Rightarrow> go_error option"
  pe_nextval :: "nat \<Rightarrow> go_error option"
  pe_access :: "nat \<Rightarrow> string \<Rightarrow> go_error option"
  pe_stat :: "nat \<Rightarrow> string \<Rightarrow> go_error option"
  pe_create :: "nat \<Rightarrow> string \<Rightarrow> go_error option"
  pe_fstat :: "nat \<Rightarrow> string \<Rightarrow> go_error option"
  pe_chtimes :: "nat \<Rightarrow> string \<Rightarrow> go_error option"
  pe_since :: "duration \<Rightarrow> string"
  pe_text :: "go_error \<Rightarrow> string"

text \<open>The world of the probes: the time, the calls made, the sequence \<open>seq_health\<close> and the times of the files.\<close>

record probe_world =
  pw_now :: time
  pw_calls :: nat
  pw_seq :: int
  pw_files :: "string \<Rightarrow> time option"

definition reached :: "time option \<Rightarrow> time \<Rightarrow> bool" where
  "reached x t = (case x of None \<Rightarrow> False | Some d \<Rightarrow> d \<le> t)"

definition context_Canceled :: go_error where
  "context_Canceled = ErrPlain ''context canceled''"

definition context_DeadlineExceeded :: go_error where
  "context_DeadlineExceeded = ErrPlain ''context deadline exceeded''"

text \<open>\<open>ctx.Err()\<close> at a time: what came first, the cancellation or the deadline.\<close>

definition ctx_Err :: "probe_ctx \<Rightarrow> time \<Rightarrow> go_error option" where
  "ctx_Err c t =
     (if reached (cx_cancelled c) t \<and> (\<not> reached (cx_deadline c) t \<or> the (cx_cancelled c) < the (cx_deadline c))
      then Some context_Canceled
      else if reached (cx_deadline c) t then Some context_DeadlineExceeded else None)"

definition ErrWaitTimeout :: go_error where
  "ErrWaitTimeout = ErrPlain ''WaitGroup has timed out''"

text \<open>
  \<open>WaitTimeout\<close>: the call that is waited for is the one just started.  When it ends at the very moment of
  the timeout, the \<open>select\<close> takes either branch.
\<close>

definition WaitTimeout :: "probe_env \<Rightarrow> duration \<Rightarrow> (probe_world, unit) prog" where
  "WaitTimeout e timeout = (\<lambda>w.
     let n = pw_calls w; delay = int (pe_delay e n); limit = max 0 timeout in
     if delay < limit \<or> (delay = limit \<and> pe_tie e n)
     then (Ok (), w\<lparr>pw_now := pw_now w + delay, pw_calls := Suc n\<rparr>)
     else (Err ErrWaitTimeout, w\<lparr>pw_now := pw_now w + limit, pw_calls := Suc n\<rparr>))"

text \<open>
  A call in a goroutine with \<open>WaitTimeout\<close>.  It gets its number and the world at its start; its effects on
  the sequence and the files are there when it was waited for, and may be there when it was not.
\<close>

definition detached ::
    "probe_env \<Rightarrow> (nat \<Rightarrow> probe_world \<Rightarrow> (go_error + 'a) \<times> probe_world) \<Rightarrow> duration \<Rightarrow>
      (probe_world, go_error + 'a) prog" where
  "detached e call timeout = (\<lambda>w.
     let (r, w1) = call (pw_calls w) w; done = (\<lambda>t. t\<lparr>pw_seq := pw_seq w1, pw_files := pw_files w1\<rparr>) in
     case WaitTimeout e timeout w of
       (Ok _, t) \<Rightarrow> (Ok r, done t)
     | (Err x, t) \<Rightarrow> (Err x, if pe_late e (pw_calls w) then done t else t)
     | (Panic c, t) \<Rightarrow> (Panic c, t))"

section \<open>TouchFile\<close>

definition ErrNotExist :: go_error where
  "ErrNotExist = ErrPlain ''file does not exist''"

definition TouchFile :: "probe_env \<Rightarrow> string \<Rightarrow> nat \<Rightarrow> probe_world \<Rightarrow> (go_error + time) \<times> probe_world" where
  "TouchFile e path n w =
     (let touched = w\<lparr>pw_files := (pw_files w)(path := Some (pw_now w))\<rparr> in
      if pw_files w path = None \<and> pe_stat e n path = None then
        (case pe_create e n path of
           Some x \<Rightarrow> (Inl (ErrWrap ''failed to create file'' x), w)
         | None \<Rightarrow> (case pe_fstat e n path of
             Some x \<Rightarrow> (Inl (ErrWrap ''failed to stat file'' x), touched)
           | None \<Rightarrow> (Inr (pw_now w), touched)))
      else
        (case pe_chtimes e n path of
           Some x \<Rightarrow> (Inl (ErrWrap ''failed to change file time'' x), w)
         | None \<Rightarrow> if pw_files w path = None then (Inl (ErrWrap ''failed to change file time'' ErrNotExist), w)
                   else (Inr (pw_now w), touched)))"

section \<open>The probes\<close>

definition ensureProbeDeadlineFromContext :: "probe_ctx \<Rightarrow> time \<Rightarrow> time" where
  "ensureProbeDeadlineFromContext c now = (case cx_deadline c of Some d \<Rightarrow> d | None \<Rightarrow> now + 1 * second)"

abbreviation newline :: string where
  "newline \<equiv> [CHR 0x0A]"

definition quoted :: "string \<Rightarrow> string" where
  "quoted s = [CHR 0x27] @ s @ [CHR 0x27]"

definition probe_line :: "probe_env \<Rightarrow> string \<Rightarrow> duration \<Rightarrow> go_error option \<Rightarrow> string" where
  "probe_line e what since res = what @ '' after '' @ pe_since e since @
     (case res of None \<Rightarrow> [] | Some x \<Rightarrow> '', error='' @ pe_text e x) @ ''.'' @ newline"

text \<open>
  What the four probes have in common: run the call, and report the deadline, its error or its result.
\<close>

definition run_probe ::
    "probe_env \<Rightarrow> probe_ctx \<Rightarrow> string \<Rightarrow> string \<Rightarrow> (nat \<Rightarrow> probe_world \<Rightarrow> (go_error + 'a) \<times> probe_world) \<Rightarrow>
      (duration \<Rightarrow> 'a \<Rightarrow> string) \<Rightarrow> probe_world \<Rightarrow> (string \<times> go_error option) \<times> probe_world" where
  "run_probe e c subject what call report w =
     (let start = pw_now w; ctxDeadline = ensureProbeDeadlineFromContext c start in
      case detached e call (ctxDeadline - start) w of
        (Ok (Inr x), t) \<Rightarrow> ((subject @ what @ '' succeeded in '' @ report (pw_now t - start) x, None), t)
      | (Ok (Inl x), t) \<Rightarrow> ((probe_line e (subject @ what @ '' errored'') (pw_now t - start) (Some x), Some x), t)
      | (Err x, t) \<Rightarrow> ((probe_line e (subject @ what @ '' deadline'') (pw_now t - start) (Some x), Some x), t)
      | (Panic m, t) \<Rightarrow> (([], None), t))"

definition probeDatabasePingable ::
    "probe_env \<Rightarrow> probe_ctx \<Rightarrow> probe_world \<Rightarrow> (string \<times> go_error option) \<times> probe_world" where
  "probeDatabasePingable e c =
     run_probe e c ''Probe db: '' ''Ping''
       (\<lambda>n w. (case pe_ping e n of Some x \<Rightarrow> Inl x | None \<Rightarrow> Inr (), w))
       (\<lambda>d _. pe_since e d @ ''.'' @ newline)"

definition probeDatabaseNextHealthSequence ::
    "probe_env \<Rightarrow> probe_ctx \<Rightarrow> probe_world \<Rightarrow> (string \<times> go_error option) \<times> probe_world" where
  "probeDatabaseNextHealthSequence e c =
     run_probe e c ''Probe db: '' ''Next health sequence''
       (\<lambda>n w. case pe_nextval e n of
          Some x \<Rightarrow> (Inl x, w)
        | None \<Rightarrow> (Inr (pw_seq w + 1), w\<lparr>pw_seq := pw_seq w + 1\<rparr>))
       (\<lambda>d v. pe_since e d @ '', seq_health='' @ show_int v @ ''.'' @ newline)"

text \<open>The probes of paths look at the context before they start their call.\<close>

definition unless_cancelled ::
    "probe_env \<Rightarrow> probe_ctx \<Rightarrow> string \<Rightarrow> string \<Rightarrow>
      (probe_world \<Rightarrow> (string \<times> go_error option) \<times> probe_world) \<Rightarrow>
      probe_world \<Rightarrow> (string \<times> go_error option) \<times> probe_world" where
  "unless_cancelled e c subject what probe w = (case ctx_Err c (pw_now w) of
      Some x \<Rightarrow> ((probe_line e (subject @ what @ '' cancelled'') 0 (Some x), Some x), w)
    | None \<Rightarrow> probe w)"

definition probePathWriteablePermission ::
    "probe_env \<Rightarrow> probe_ctx \<Rightarrow> string \<Rightarrow> probe_world \<Rightarrow> (string \<times> go_error option) \<times> probe_world" where
  "probePathWriteablePermission e c writeablePath =
     (let subject = ''Probe path '' @ quoted writeablePath @ '': '' in
      unless_cancelled e c subject ''W_OK check''
        (run_probe e c subject ''W_OK check''
          (\<lambda>n w. (case pe_access e n writeablePath of Some x \<Rightarrow> Inl x | None \<Rightarrow> Inr (), w))
          (\<lambda>d _. pe_since e d @ ''.'' @ newline)))"

definition probePathWriteableTouch ::
    "probe_env \<Rightarrow> probe_ctx \<Rightarrow> string \<Rightarrow> string \<Rightarrow> probe_world \<Rightarrow> (string \<times> go_error option) \<times> probe_world" where
  "probePathWriteableTouch e c writeablePath touch =
     (let fsTouchNameAbs = path_Join [writeablePath, touch];
          subject = ''Probe path '' @ quoted fsTouchNameAbs @ '': '' in
      unless_cancelled e c subject ''Touch''
        (run_probe e c subject ''Touch'' (TouchFile e fsTouchNameAbs)
          (\<lambda>d m. pe_since e d @ '', modTime='' @ show_int (m div second) @ ''.'' @ newline)))"

text \<open>Runs probes one after the other; the texts are put together and the errors collected.\<close>

fun run_probes ::
    "(probe_world \<Rightarrow> (string \<times> go_error option) \<times> probe_world) list \<Rightarrow> probe_world \<Rightarrow>
      (string \<times> go_error list) \<times> probe_world" where
  "run_probes [] w = (([], []), w)"
| "run_probes (p # ps) w =
     (let ((str, err), w1) = p w; ((strs, errs), w2) = run_probes ps w1 in
      ((str @ strs, (case err of None \<Rightarrow> errs | Some x \<Rightarrow> x # errs)), w2))"

definition ProbeReadiness ::
    "probe_env \<Rightarrow> probe_ctx \<Rightarrow> string list \<Rightarrow> probe_world \<Rightarrow> (string \<times> go_error list) \<times> probe_world" where
  "ProbeReadiness e c writeablePaths =
     run_probes (probeDatabasePingable e c # map (probePathWriteablePermission e c) writeablePaths)"

definition ProbeLiveness ::
    "probe_env \<Rightarrow> probe_ctx \<Rightarrow> string list \<Rightarrow> string \<Rightarrow> probe_world \<Rightarrow> (string \<times> go_error list) \<times> probe_world" where
  "ProbeLiveness e c writeablePaths touch w =
     (let ((readinessStr, readinessErrs), w1) = ProbeReadiness e c writeablePaths w in
      if readinessErrs \<noteq> [] then ((readinessStr, readinessErrs), w1)
      else (let ((str, errs), w2) = run_probes (probeDatabaseNextHealthSequence e c #
                  map (\<lambda>p. probePathWriteableTouch e c p touch) writeablePaths) w1 in
            ((readinessStr @ str, errs), w2)))"

section \<open>The routes\<close>

definition httpStatusDown :: int where
  "httpStatusDown = 521"

record management_config =
  mc_readiness_timeout :: duration
  mc_liveness_timeout :: duration
  mc_writeable_paths :: "string list"
  mc_touchfile :: string

text \<open>\<open>context.WithTimeout\<close>: the earlier of the two deadlines.\<close>

definition WithTimeout :: "probe_ctx \<Rightarrow> duration \<Rightarrow> time \<Rightarrow> probe_ctx" where
  "WithTimeout c d now = c\<lparr>cx_deadline := Some (case cx_deadline c of None \<Rightarrow> now + d | Some x \<Rightarrow> min x (now + d))\<rparr>"

definition getReadyHandler ::
    "probe_env \<Rightarrow> management_config \<Rightarrow> server_parts \<Rightarrow> probe_ctx \<Rightarrow> probe_world \<Rightarrow> (int \<times> string) \<times> probe_world" where
  "getReadyHandler e cfg s req w =
     (if \<not> Ready s then ((httpStatusDown, ''Not ready.''), w)
      else (let ctx = WithTimeout req (mc_readiness_timeout cfg) (pw_now w);
                ((_, errs), w1) = ProbeReadiness e ctx (mc_writeable_paths cfg) w in
            if ctx_Err ctx (pw_now w1) \<noteq> None \<or> errs \<noteq> [] then ((httpStatusDown, ''Not ready.''), w1)
            else ((200, ''Ready.''), w1)))"

definition getHealthyHandler ::
    "probe_env \<Rightarrow> management_config \<Rightarrow> server_parts \<Rightarrow> probe_ctx \<Rightarrow> probe_world \<Rightarrow> (int \<times> string) \<times> probe_world" where
  "getHealthyHandler e cfg s req w =
     (if \<not> Ready s then ((httpStatusDown, ''Not ready.''), w)
      else (let ctx = WithTimeout req (mc_liveness_timeout cfg) (pw_now w);
                ((healthyStr, errs), w1) = ProbeLiveness e ctx (mc_writeable_paths cfg) (mc_touchfile cfg) w;
                str = ''Ready.'' @ newline @ healthyStr in
            if ctx_Err ctx (pw_now w1) \<noteq> None \<or> errs \<noteq> []
            then ((httpStatusDown, str @ ''Probes failed.'' @ newline), w1)
            else ((200, str @ ''Probes succeeded.'' @ newline), w1)))"

definition GetFormattedBuildArgs :: "string \<Rightarrow> string \<Rightarrow> string \<Rightarrow> string" where
  "GetFormattedBuildArgs ModuleName Commit BuildDate = ModuleName @ '' @ '' @ Commit @ '' ('' @ BuildDate @ '')''"

definition getVersionHandler :: "string \<Rightarrow> string \<Rightarrow> string \<Rightarrow> int \<times> string" where
  "getVersionHandler ModuleName Commit BuildDate = (200, GetFormattedBuildArgs ModuleName Commit BuildDate)"

section \<open>The commands of cmd/probe\<close>

definition RunReadiness ::
    "probe_env \<Rightarrow> management_config \<Rightarrow> go_error option \<Rightarrow> probe_world \<Rightarrow> (go_error + go_error list) \<times> probe_world" where
  "RunReadiness e cfg open_err w = (case open_err of
      Some x \<Rightarrow> (Inl (ErrWrap ''failed to open the database'' x), w)
    | None \<Rightarrow>
        (let ctx = WithTimeout \<lparr>cx_deadline = None, cx_cancelled = None\<rparr> (mc_readiness_timeout cfg) (pw_now w);
             ((_, errs), w1) = ProbeReadiness e ctx (mc_writeable_paths cfg) w in (Inr errs, w1)))"

definition runLiveness ::
    "probe_env \<Rightarrow> management_config \<Rightarrow> go_error option \<Rightarrow> probe_world \<Rightarrow> (go_error + go_error list) \<times> probe_world" where
  "runLiveness e cfg open_err w = (case open_err of
      Some x \<Rightarrow> (Inl (ErrWrap ''failed to open the database'' x), w)
    | None \<Rightarrow>
        (let ctx = WithTimeout \<lparr>cx_deadline = None, cx_cancelled = None\<rparr> (mc_liveness_timeout cfg) (pw_now w);
             ((_, errs), w1) = ProbeLiveness e ctx (mc_writeable_paths cfg) (mc_touchfile cfg) w in (Inr errs, w1)))"

end
