(* ===== verification/Probe_Theorems.thy ===== *)
theory Probe_Theorems
  imports Probes
begin

text \<open>
  What the management routes guarantee: their probes end by the deadline whatever the database and the
  file system do, the readiness route only reads and tells nothing, and a healthy answer means that the
  database was written to and every writeable path was touched during the request.
\<close>

type_synonym probe = "probe_world \<Rightarrow> (string \<times> go_error option) \<times> probe_world"

section \<open>Deadlines\<close>

text \<open>Time passes, but not beyond the deadline unless it had been reached before.\<close>

definition prompt :: "probe_ctx \<Rightarrow> (probe_world \<Rightarrow> 'a \<times> probe_world) \<Rightarrow> bool" where
  "prompt c p \<longleftrightarrow> (\<forall>w. pw_now w \<le> pw_now (snd (p w)) \<and>
     (\<forall>d. cx_deadline c = Some d \<longrightarrow> pw_now (snd (p w)) \<le> max (pw_now w) d))"

lemma promptI:
  assumes "\<And>w. pw_now w \<le> pw_now (snd (p w))"
    and "\<And>w d. cx_deadline c = Some d \<Longrightarrow> pw_now (snd (p w)) \<le> max (pw_now w) d"
  shows "prompt c p"
  using assms by (simp add: prompt_def)

lemma detached_now: "pw_now w \<le> pw_now (snd (detached e call limit w))"
  "pw_now (snd (detached e call limit w)) \<le> pw_now w + max 0 limit"
  by (auto simp: detached_def WaitTimeout_def Let_def split: prod.split)

lemma run_probe_state: "snd (run_probe e c subj what call report w) =
    snd (detached e call (ensureProbeDeadlineFromContext c (pw_now w) - pw_now w) w)"
  by (auto simp: run_probe_def Let_def split: prod.split outcome.split sum.split)

lemma prompt_run_probe: "prompt c (run_probe e c subj what call report)"
proof (rule promptI)
  fix w :: probe_world
  show "pw_now w \<le> pw_now (snd (run_probe e c subj what call report w))"
    unfolding run_probe_state by (rule detached_now)
next
  fix w :: probe_world and d assume "cx_deadline c = Some d"
  then have "ensureProbeDeadlineFromContext c (pw_now w) = d"
    by (simp add: ensureProbeDeadlineFromContext_def)
  then show "pw_now (snd (run_probe e c subj what call report w)) \<le> max (pw_now w) d"
    using detached_now(2) [of e call "d - pw_now w" w] unfolding run_probe_state by simp
qed

lemma prompt_unless_cancelled: "prompt c p \<Longrightarrow> prompt c (unless_cancelled e c' subj what p)"
  by (auto simp: prompt_def unless_cancelled_def split: option.split)

lemma prompt_run_probes: "\<forall>p \<in> set ps. prompt c p \<Longrightarrow> prompt c (run_probes ps)"
proof (induction ps)
  case Nil
  then show ?case by (simp add: prompt_def)
next
  case (Cons p ps)
  have state: "snd (run_probes (p # ps) w) = snd (run_probes ps (snd (p w)))" for w
    by (simp add: Let_def split: prod.split)
  have p: "prompt c p" and ps: "prompt c (run_probes ps)" using Cons by simp_all
  show ?case
  proof (rule promptI)
    fix w :: probe_world show "pw_now w \<le> pw_now (snd (run_probes (p # ps) w))"
      unfolding state using p ps unfolding prompt_def by (meson order_trans)
  next
    fix w :: probe_world and d assume d: "cx_deadline c = Some d"
    have "pw_now (snd (p w)) \<le> max (pw_now w) d"
      "pw_now (snd (run_probes ps (snd (p w)))) \<le> max (pw_now (snd (p w))) d"
      using p ps d unfolding prompt_def by blast+
    then show "pw_now (snd (run_probes (p # ps) w)) \<le> max (pw_now w) d"
      unfolding state by simp
  qed
qed

lemmas probe_defs = probeDatabasePingable_def probeDatabaseNextHealthSequence_def
  probePathWriteablePermission_def probePathWriteableTouch_def

lemma prompt_probes:
  "prompt c (probeDatabasePingable e c)" "prompt c (probeDatabaseNextHealthSequence e c)"
  "prompt c (probePathWriteablePermission e c p)" "prompt c (probePathWriteableTouch e c p touch)"
  unfolding probe_defs Let_def by (intro prompt_run_probe prompt_unless_cancelled)+

lemma prompt_ProbeReadiness: "prompt c (ProbeReadiness e c paths)"
  unfolding ProbeReadiness_def by (rule prompt_run_probes) (auto intro: prompt_probes)

lemma ProbeLiveness_state:
  "snd (ProbeLiveness e c paths touch w) =
     (if snd (fst (ProbeReadiness e c paths w)) \<noteq> [] then snd (ProbeReadiness e c paths w)
      else snd (run_probes (probeDatabaseNextHealthSequence e c # map (\<lambda>p. probePathWriteableTouch e c p touch) paths)
             (snd (ProbeReadiness e c paths w))))"
  by (simp add: ProbeLiveness_def Let_def split: prod.split)

lemma prompt_ProbeLiveness: "prompt c (ProbeLiveness e c paths touch)"
proof -
  let ?ps = "probeDatabaseNextHealthSequence e c # map (\<lambda>p. probePathWriteableTouch e c p touch) paths"
  have ps: "prompt c (run_probes ?ps)" by (rule prompt_run_probes) (auto intro: prompt_probes)
  note r = prompt_ProbeReadiness [of c e paths]
  show ?thesis
  proof (rule promptI)
    fix w :: probe_world show "pw_now w \<le> pw_now (snd (ProbeLiveness e c paths touch w))"
      using r ps unfolding ProbeLiveness_state prompt_def by (auto intro: order_trans simp del: run_probes.simps)
  next
    fix w :: probe_world and d assume d: "cx_deadline c = Some d"
    have "pw_now (snd (ProbeReadiness e c paths w)) \<le> max (pw_now w) d"
      "pw_now (snd (run_probes ?ps (snd (ProbeReadiness e c paths w)))) \<le> max (pw_now (snd (ProbeReadiness e c paths w))) d"
      using r ps d unfolding prompt_def by blast+
    then show "pw_now (snd (ProbeLiveness e c paths touch w)) \<le> max (pw_now w) d"
      unfolding ProbeLiveness_state by (simp del: run_probes.simps add: max_def split: if_splits)
  qed
qed

lemma WithTimeout_deadline:
  "\<exists>d. cx_deadline (WithTimeout c d' now) = Some d \<and> d \<le> now + d'"
  by (auto simp: WithTimeout_def split: option.split)

lemma prompt_WithTimeout:
  assumes "prompt (WithTimeout c d (pw_now w)) p"
  shows "pw_now (snd (p w)) \<le> pw_now w + max 0 d"
proof -
  obtain x where "cx_deadline (WithTimeout c d (pw_now w)) = Some x" "x \<le> pw_now w + d"
    using WithTimeout_deadline by blast
  then have "pw_now (snd (p w)) \<le> max (pw_now w) x" using assms unfolding prompt_def by blast
  then show ?thesis using \<open>x \<le> pw_now w + d\<close> by simp
qed

lemma getReadyHandler_state:
  "snd (getReadyHandler e cfg s req w) = (if Ready s
     then snd (ProbeReadiness e (WithTimeout req (mc_readiness_timeout cfg) (pw_now w)) (mc_writeable_paths cfg) w) else w)"
  by (simp add: getReadyHandler_def Let_def split: prod.split)

lemma getHealthyHandler_state:
  "snd (getHealthyHandler e cfg s req w) = (if Ready s
     then snd (ProbeLiveness e (WithTimeout req (mc_liveness_timeout cfg) (pw_now w)) (mc_writeable_paths cfg)
       (mc_touchfile cfg) w) else w)"
  by (simp add: getHealthyHandler_def Let_def split: prod.split)

text \<open>
  C34: the management routes answer in time.  However long the database and the file system take, and
  also when they never answer, the readiness route has its answer after at most the readiness timeout and
  the health route after at most the liveness timeout.
\<close>

theorem probes_meet_deadline:
  "pw_now (snd (getReadyHandler e cfg s req w)) \<le> pw_now w + max 0 (mc_readiness_timeout cfg) \<and>
   pw_now (snd (getHealthyHandler e cfg s req w)) \<le> pw_now w + max 0 (mc_liveness_timeout cfg)"
  unfolding getReadyHandler_state getHealthyHandler_state
  using prompt_WithTimeout [OF prompt_ProbeReadiness] prompt_WithTimeout [OF prompt_ProbeLiveness] by simp

section \<open>Effects\<close>

definition silent :: "(probe_world \<Rightarrow> 'a \<times> probe_world) \<Rightarrow> bool" where
  "silent p \<longleftrightarrow> (\<forall>w. pw_seq (snd (p w)) = pw_seq w \<and> pw_files (snd (p w)) = pw_files w)"

lemma silent_run_probe:
  "(\<And>n w. snd (call n w) = w) \<Longrightarrow> silent (run_probe e c subj what call report)"
  unfolding silent_def run_probe_state
  by (auto simp: detached_def WaitTimeout_def Let_def split: prod.split) (metis snd_conv)+

lemma silent_unless_cancelled: "silent p \<Longrightarrow> silent (unless_cancelled e c subj what p)"
  by (auto simp: silent_def unless_cancelled_def split: option.split)

lemma silent_run_probes: "\<forall>p \<in> set ps. silent p \<Longrightarrow> silent (run_probes ps)"
  by (induction ps) (auto simp: silent_def Let_def split: prod.split, (metis snd_conv)+)

lemma silent_ProbeReadiness: "silent (ProbeReadiness e c paths)"
proof -
  have "silent (probeDatabasePingable e c)" "silent (probePathWriteablePermission e c p)" for p
    unfolding probe_defs Let_def by (intro silent_run_probe silent_unless_cancelled, simp)+
  then show ?thesis unfolding ProbeReadiness_def by (intro silent_run_probes) auto
qed

text \<open>The readiness route, open to everybody, has two answers and no effects.\<close>

lemma getReady_reveals_nothing:
  "fst (getReadyHandler e cfg s req w) \<in> {(200, ''Ready.''), (521, ''Not ready.'')} \<and>
   pw_seq (snd (getReadyHandler e cfg s req w)) = pw_seq w \<and> pw_files (snd (getReadyHandler e cfg s req w)) = pw_files w"
proof -
  have "fst (getReadyHandler e cfg s req w) \<in> {(200, ''Ready.''), (521, ''Not ready.'')}"
    by (simp add: getReadyHandler_def httpStatusDown_def Let_def split: prod.split)
  then show ?thesis
    using silent_ProbeReadiness unfolding getReadyHandler_state silent_def by auto
qed

text \<open>Nothing is written when a probe of the readiness has failed.\<close>

lemma ProbeLiveness_writes_after_readiness:
  "snd (fst (ProbeReadiness e c paths w)) \<noteq> [] \<Longrightarrow>
    pw_seq (snd (ProbeLiveness e c paths touch w)) = pw_seq w \<and> pw_files (snd (ProbeLiveness e c paths touch w)) = pw_files w"
  using silent_ProbeReadiness unfolding ProbeLiveness_state silent_def by simp

section \<open>A healthy answer\<close>

text \<open>A probe without error was waited for, so its call took effect.\<close>

lemma run_probe_success:
  assumes "run_probe e c subj what call report w = ((str, None), t)"
  shows "\<exists>x w1. call (pw_calls w) w = (Inr x, w1) \<and> pw_seq t = pw_seq w1 \<and> pw_files t = pw_files w1 \<and> pw_now w \<le> pw_now t"
  using assms
  by (auto simp: run_probe_def detached_def WaitTimeout_def Let_def split: prod.splits sum.splits if_splits)

definition fresh :: "time \<Rightarrow> string \<Rightarrow> probe_world \<Rightarrow> bool" where
  "fresh since path w \<longleftrightarrow> (\<exists>m. pw_files w path = Some m \<and> since \<le> m \<and> m \<le> pw_now w)"

lemma TouchFile_success:
  assumes "TouchFile e path n w = (Inr x, w1)"
  shows "pw_seq w1 = pw_seq w \<and> pw_files w1 = (pw_files w)(path := Some (pw_now w))"
  using assms by (auto simp: TouchFile_def Let_def split: if_splits option.splits)

lemma touch_success:
  assumes "probePathWriteableTouch e c p touch w = ((str, None), t)"
  shows "pw_seq t = pw_seq w \<and> pw_now w \<le> pw_now t \<and>
    pw_files t = (pw_files w)(path_Join [p, touch] := Some (pw_now w))"
proof -
  let ?f = "path_Join [p, touch]" and ?s = "''Probe path '' @ quoted (path_Join [p, touch]) @ '': ''"
  let ?report = "\<lambda>d m. pe_since e d @ '', modTime='' @ show_int (m div second) @ ''.'' @ newline"
  have "run_probe e c ?s ''Touch'' (TouchFile e ?f) ?report w = ((str, None), t)"
    using assms by (simp add: probePathWriteableTouch_def unless_cancelled_def Let_def split: option.splits)
  from run_probe_success [OF this] obtain x w1 where "TouchFile e ?f (pw_calls w) w = (Inr x, w1)"
    "pw_seq t = pw_seq w1" "pw_files t = pw_files w1" "pw_now w \<le> pw_now t" by blast
  with TouchFile_success show ?thesis by metis
qed

lemma touches_success:
  assumes "run_probes (map (\<lambda>p. probePathWriteableTouch e c p touch) paths) w = ((str, []), t)"
    and "since \<le> pw_now w"
  shows "pw_seq t = pw_seq w \<and> pw_now w \<le> pw_now t \<and>
    (\<forall>f. f \<in> (\<lambda>p. path_Join [p, touch]) ` set paths \<or> fresh since f w \<longrightarrow> fresh since f t)"
  using assms
proof (induction paths arbitrary: w str)
  case (Cons p paths)
  obtain s err w1 where p: "probePathWriteableTouch e c p touch w = ((s, err), w1)"
    by (metis prod.exhaust)
  obtain s2 errs w2 where rest: "run_probes (map (\<lambda>p. probePathWriteableTouch e c p touch) paths) w1 = ((s2, errs), w2)"
    by (metis prod.exhaust)
  have "err = None" "errs = []" "w2 = t" using Cons.prems(1) p rest by (auto split: option.splits)
  note p = p [unfolded this] and rest = rest [unfolded this]
  from touch_success [OF p] have w1: "pw_seq w1 = pw_seq w" "pw_now w \<le> pw_now w1"
    "pw_files w1 = (pw_files w)(path_Join [p, touch] := Some (pw_now w))" by auto
  have "fresh since f w1" if "f = path_Join [p, touch] \<or> fresh since f w" for f
    using that w1(2,3) Cons.prems(2) by (auto simp: fresh_def)
  moreover have "pw_seq t = pw_seq w1 \<and> pw_now w1 \<le> pw_now t \<and>
    (\<forall>f. f \<in> (\<lambda>p. path_Join [p, touch]) ` set paths \<or> fresh since f w1 \<longrightarrow> fresh since f t)"
    using Cons.IH [OF rest] Cons.prems(2) w1(2) by simp
  ultimately show ?case using w1 by auto
qed auto

lemma ProbeLiveness_success:
  assumes "ProbeLiveness e c paths touch w = ((str, []), t)"
  shows "pw_seq t = pw_seq w + 1 \<and> (\<forall>p \<in> set paths. fresh (pw_now w) (path_Join [p, touch]) t)"
proof -
  obtain s1 w1 where r: "ProbeReadiness e c paths w = ((s1, []), w1)"
    using assms by (auto simp: ProbeLiveness_def Let_def split: prod.splits if_splits)
  obtain s2 err w2 where q: "probeDatabaseNextHealthSequence e c w1 = ((s2, err), w2)"
    by (metis prod.exhaust)
  obtain s3 errs w3 where ts: "run_probes (map (\<lambda>p. probePathWriteableTouch e c p touch) paths) w2 = ((s3, errs), w3)"
    by (metis prod.exhaust)
  have "err = None" "errs = []" "w3 = t"
    using assms r q ts by (auto simp: ProbeLiveness_def split: option.splits)
  note q = q [unfolded this] and ts = ts [unfolded this]
  have w1: "pw_seq w1 = pw_seq w" "pw_now w \<le> pw_now w1"
    using silent_ProbeReadiness [of e c paths] prompt_ProbeReadiness [of c e paths] r
    unfolding silent_def prompt_def by (metis snd_conv)+
  have "pw_seq w2 = pw_seq w1 + 1 \<and> pw_now w1 \<le> pw_now w2"
    using run_probe_success [OF q [unfolded probeDatabaseNextHealthSequence_def]] by (auto split: option.splits)
  moreover from this w1 have "pw_now w \<le> pw_now w2" by simp
  note touches_success [OF ts this]
  ultimately show ?thesis using w1(1) by auto
qed

text \<open>
  healthy means written.  When the health route answers 200, the server was ready, the sequence of the
  database advanced by one, every writeable path has its touch file with a time within the request, and
  the liveness timeout has not passed.
\<close>

theorem getHealthy_checks:
  assumes "getHealthyHandler e cfg s req w = ((200, body), t)"
  shows "Ready s \<and> pw_seq t = pw_seq w + 1 \<and> pw_now t < pw_now w + mc_liveness_timeout cfg \<and>
    (\<forall>p \<in> set (mc_writeable_paths cfg). \<exists>m. pw_files t (path_Join [p, mc_touchfile cfg]) = Some m \<and>
       pw_now w \<le> m \<and> m \<le> pw_now t)"
proof -
  let ?ctx = "WithTimeout req (mc_liveness_timeout cfg) (pw_now w)"
  have ready: "Ready s" using assms by (auto simp: getHealthyHandler_def httpStatusDown_def split: if_splits)
  obtain str where live: "ProbeLiveness e ?ctx (mc_writeable_paths cfg) (mc_touchfile cfg) w = ((str, []), t)"
    and ok: "ctx_Err ?ctx (pw_now t) = None"
    using assms ready by (auto simp: getHealthyHandler_def httpStatusDown_def Let_def split: prod.splits if_splits)
  obtain d where d: "cx_deadline ?ctx = Some d" "d \<le> pw_now w + mc_liveness_timeout cfg"
    using WithTimeout_deadline by blast
  have "pw_now t < d" using ok d(1) by (auto simp: ctx_Err_def reached_def split: if_splits)
  then show ?thesis using ready ProbeLiveness_success [OF live] d(2) by (auto simp: fresh_def)
qed

definition example_probe_env :: probe_env where
  "example_probe_env = \<lparr>pe_delay = (\<lambda>_. 10), pe_tie = (\<lambda>_. True), pe_late = (\<lambda>_. False), pe_ping = (\<lambda>_. None),
     pe_nextval = (\<lambda>_. None), pe_access = (\<lambda>_ _. None), pe_stat = (\<lambda>_ _. None), pe_create = (\<lambda>_ _. None),
     pe_fstat = (\<lambda>_ _. None), pe_chtimes = (\<lambda>_ _. None), pe_since = (\<lambda>_. ''1ms''), pe_text = (\<lambda>_. ''error'')\<rparr>"

theorem getHealthy_checks_witness:
  "\<exists>body t. getHealthyHandler example_probe_env
      \<lparr>mc_readiness_timeout = 4000, mc_liveness_timeout = 9000, mc_writeable_paths = [''/mnt''], mc_touchfile = ''.healthy''\<rparr>
      ((newServerWithComponents [] False)\<lparr>sp_echo := True, sp_router := True\<rparr>)
      \<lparr>cx_deadline = None, cx_cancelled = None\<rparr>
      \<lparr>pw_now = 0, pw_calls = 0, pw_seq = 7, pw_files = (\<lambda>_. None)\<rparr> = ((200, body), t) \<and> pw_seq t = 8"
proof -
  let ?run = "getHealthyHandler example_probe_env
      \<lparr>mc_readiness_timeout = 4000, mc_liveness_timeout = 9000, mc_writeable_paths = [''/mnt''], mc_touchfile = ''.healthy''\<rparr>
      ((newServerWithComponents [] False)\<lparr>sp_echo := True, sp_router := True\<rparr>)
      \<lparr>cx_deadline = None, cx_cancelled = None\<rparr>
      \<lparr>pw_now = 0, pw_calls = 0, pw_seq = 7, pw_files = (\<lambda>_. None)\<rparr>"
  have "fst (fst ?run) = 200" by code_simp
  then obtain body t where run: "?run = ((200, body), t)" by (metis prod.collapse)
  from getHealthy_checks [OF run] run show ?thesis by auto
qed

end
