(* ===== verification/Request_Logging.thy ===== *)
theory Request_Logging
  imports Http_Errors
begin

text \<open>
  internal/api/middleware/logger.go and no_cache.go, the values of internal/util/context.go and log.go
  they use, and the configuration internal/api/router/router.go gives to the logger.  A log is the list of
  its entries; the next handler is an arbitrary program on the response and the log.  The level and the
  caller of an entry are left out.
\<close>

section \<open>Headers\<close>

type_synonym multi = "(string \<times> string list) list" \<comment> \<open>\<open>http.Header\<close> and \<open>url.Values\<close>\<close>

text \<open>\<open>textproto.CanonicalMIMEHeaderKey\<close>: upper case at the start and after a hyphen; other keys stay.\<close>

definition token_char :: "char \<Rightarrow> bool" where
  "token_char c \<longleftrightarrow> is_upper c \<or> is_lower c \<or> is_digit c \<or> c \<in> set ''!#$%&*+-.^_`|~'' \<or> c = CHR 0x27"

fun canonical_chars :: "bool \<Rightarrow> string \<Rightarrow> string" where
  "canonical_chars up [] = []"
| "canonical_chars up (c # s) = (if up then upper_char c else lower_char c) # canonical_chars (c = CHR ''-'') s"

definition canonical_key :: "string \<Rightarrow> string" where
  "canonical_key k = (if k \<noteq> [] \<and> list_all token_char k then canonical_chars True k else k)"

definition values_of :: "multi \<Rightarrow> string \<Rightarrow> string list" where
  "values_of h k = (case map_of h k of None \<Rightarrow> [] | Some vs \<Rightarrow> vs)"

definition hdr_Get :: "multi \<Rightarrow> string \<Rightarrow> string" where
  "hdr_Get h k = (case values_of h (canonical_key k) of [] \<Rightarrow> [] | v # _ \<Rightarrow> v)"

definition hdr_Set :: "string \<Rightarrow> string \<Rightarrow> multi \<Rightarrow> multi" where
  "hdr_Set k v h = filter (\<lambda>(k', _). k' \<noteq> canonical_key k) h @ [(canonical_key k, [v])]"

definition hdr_Del :: "string \<Rightarrow> multi \<Rightarrow> multi" where
  "hdr_Del k h = filter (\<lambda>(k', _). k' \<noteq> canonical_key k) h"

definition hdr_Add :: "string \<Rightarrow> string \<Rightarrow> multi \<Rightarrow> multi" where
  "hdr_Add k v h = (let c = canonical_key k in
     if map_of h c = None then h @ [(c, [v])]
     else map (\<lambda>(k', vs). (k', if k' = c then vs @ [v] else vs)) h)"

definition EqualFold :: "string \<Rightarrow> string \<Rightarrow> bool" where
  "EqualFold s t \<longleftrightarrow> strings_ToLower s = strings_ToLower t"

section \<open>Contexts\<close>

text \<open>The values of a context by their key; \<open>CtxOther\<close> is a value of another type.\<close>

datatype ctx_value = CtxString string | CtxBool bool | CtxOther

record go_context =
  gc_value :: "string \<Rightarrow> ctx_value option"
  gc_deadline :: "time option"
  gc_err :: "go_error option"

definition DetachContext :: "go_context \<Rightarrow> go_context" where
  "DetachContext c = \<lparr>gc_value = gc_value c, gc_deadline = None, gc_err = None\<rparr>"

definition WithValue :: "string \<Rightarrow> ctx_value \<Rightarrow> go_context \<Rightarrow> go_context" where
  "WithValue k v c = c\<lparr>gc_value := (gc_value c)(k := Some v)\<rparr>"

definition RequestIDFromContext :: "go_context \<Rightarrow> go_error + string" where
  "RequestIDFromContext c = (case gc_value c ''request_id'' of
      None \<Rightarrow> Inl (ErrPlain ''no request id present in context'')
    | Some (CtxString i) \<Rightarrow> Inr i
    | Some _ \<Rightarrow> Inl (ErrPlain ''request id in context is not a string''))"

definition ShouldDisableLogger :: "go_context \<Rightarrow> bool" where
  "ShouldDisableLogger c = (case gc_value c ''disable_logger'' of Some (CtxBool b) \<Rightarrow> b | _ \<Rightarrow> False)"

definition DisableLogger :: "go_context \<Rightarrow> bool \<Rightarrow> go_context" where
  "DisableLogger c b = WithValue ''disable_logger'' (CtxBool b) c"

text \<open>\<open>LogFromContext\<close>: the logger of the context, or the global one unless logging is to be disabled.\<close>

datatype logger = CtxLogger | GlobalLogger | DisabledLogger

definition LogFromContext :: "bool \<Rightarrow> go_context \<Rightarrow> logger" where
  "LogFromContext has_logger c =
     (if has_logger then CtxLogger else if ShouldDisableLogger c then DisabledLogger else GlobalLogger)"

section \<open>Requests, responses and entries\<close>

record log_request =
  lr_method :: string
  lr_host :: string
  lr_url :: string
  lr_path :: string
  lr_route :: string
  lr_header :: multi
  lr_query :: multi
  lr_body :: "(go_error + string) option"
  lr_context :: go_context

record log_response =
  ls_status :: int
  ls_header :: multi
  ls_body :: string

datatype log_entry =
    RequestEntry (re_id: string) (re_host: string) (re_method: string) (re_url: string) (re_bytes_in: string)
      (re_body: "string option") (re_header: "multi option") (re_query: "multi option")
  | ResponseEntry (rs_status: int) (rs_bytes_out: nat) (rs_err: "go_error option")
      (rs_body: "string option") (rs_header: "multi option")
  | ErrorEntry go_error

record log_world =
  lw_log :: "log_entry list"
  lw_response :: log_response

section \<open>Configuration of the logger\<close>

definition DefaultRequestBodyLogSkipper :: "log_request \<Rightarrow> bool" where
  "DefaultRequestBodyLogSkipper req =
     (let contentType = hdr_Get (lr_header req) ''Content-Type'' in
      strings_HasPrefix contentType ''application/x-www-form-urlencoded'' \<or>
      strings_HasPrefix contentType ''multipart/form-data'')"

definition DefaultResponseBodyLogSkipper :: "log_request \<Rightarrow> log_response \<Rightarrow> bool" where
  "DefaultResponseBodyLogSkipper req res =
     (\<not> strings_HasPrefix (hdr_Get (ls_header res) ''Content-Type'') ''application/json'')"

definition DefaultBodyLogReplacer :: "string \<Rightarrow> string" where
  "DefaultBodyLogReplacer body = body"

definition redacted :: string where
  "redacted = ''*****REDACTED*****''"

definition shouldRedact :: "string \<Rightarrow> bool" where
  "shouldRedact key \<longleftrightarrow> EqualFold key ''Authorization'' \<or> EqualFold key ''X-Csrf-Token'' \<or>
     EqualFold key ''Proxy-Authorization''"

definition DefaultHeaderLogReplacer :: "multi \<Rightarrow> multi" where
  "DefaultHeaderLogReplacer headers =
     fold (\<lambda>(key, vs). fold (\<lambda>v. hdr_Add key (if shouldRedact key then redacted else v)) vs) headers []"

definition DefaultQueryLogReplacer :: "multi \<Rightarrow> multi" where
  "DefaultQueryLogReplacer q = q"

record logger_config =
  lg_skipper :: "(log_request \<Rightarrow> bool) option"
  lg_log_request_body :: bool
  lg_log_request_header :: bool
  lg_log_request_query :: bool
  lg_request_body_skipper :: "(log_request \<Rightarrow> bool) option"
  lg_request_body_replacer :: "(string \<Rightarrow> string) option"
  lg_request_header_replacer :: "(multi \<Rightarrow> multi) option"
  lg_request_query_replacer :: "(multi \<Rightarrow> multi) option"
  lg_log_response_body :: bool
  lg_log_response_header :: bool
  lg_response_body_skipper :: "(log_request \<Rightarrow> log_response \<Rightarrow> bool) option"
  lg_response_body_replacer :: "(string \<Rightarrow> string) option"
  lg_response_header_replacer :: "(multi \<Rightarrow> multi) option"

definition or_default :: "'a option \<Rightarrow> 'a \<Rightarrow> 'a option" where
  "or_default x d = (case x of None \<Rightarrow> Some d | Some y \<Rightarrow> Some y)"

text \<open>The defaults \<open>LoggerWithConfig\<close> fills in.\<close>

definition complete_config :: "logger_config \<Rightarrow> logger_config" where
  "complete_config c = c\<lparr>
     lg_skipper := or_default (lg_skipper c) (\<lambda>_. False),
     lg_request_body_skipper := or_default (lg_request_body_skipper c) DefaultRequestBodyLogSkipper,
     lg_request_body_replacer := or_default (lg_request_body_replacer c) DefaultBodyLogReplacer,
     lg_request_header_replacer := or_default (lg_request_header_replacer c) DefaultHeaderLogReplacer,
     lg_request_query_replacer := or_default (lg_request_query_replacer c) DefaultQueryLogReplacer,
     lg_response_body_skipper := or_default (lg_response_body_skipper c) DefaultResponseBodyLogSkipper,
     lg_response_body_replacer := or_default (lg_response_body_replacer c) DefaultBodyLogReplacer,
     lg_response_header_replacer := or_default (lg_response_header_replacer c) DefaultHeaderLogReplacer\<rparr>"

text \<open>Calling a function value: a call of nil panics.\<close>

definition nil_call :: string where
  "nil_call = ''runtime error: invalid memory address or nil pointer dereference''"

definition call_fun :: "('a \<Rightarrow> 'b) option \<Rightarrow> 'a \<Rightarrow> (log_world, 'b) prog" where
  "call_fun f x = (case f of None \<Rightarrow> panicP nil_call | Some g \<Rightarrow> okP (g x))"

definition log_msg :: "log_entry \<Rightarrow> (log_world, unit) prog" where
  "log_msg x = (\<lambda>w. (Ok (), w\<lparr>lw_log := lw_log w @ [x]\<rparr>))"

definition get_response :: "(log_world, log_response) prog" where
  "get_response = (\<lambda>w. (Ok (lw_response w), w))"

section \<open>The logger middleware\<close>

definition request_id :: "log_request \<Rightarrow> log_response \<Rightarrow> string" where
  "request_id req res = (let i = hdr_Get (lr_header req) ''X-Request-Id'' in
     if i = [] then hdr_Get (ls_header res) ''X-Request-Id'' else i)"

text \<open>The body for the log: read to its end and put back.\<close>

definition read_body :: "logger_config \<Rightarrow> log_request \<Rightarrow> (log_world, string option) prog" where
  "read_body cfg req =
     (if lg_log_request_body cfg \<and> \<not> the (lg_request_body_skipper cfg) req
      then (case lr_body req of
          None \<Rightarrow> bindP (call_fun (lg_request_body_replacer cfg) []) (\<lambda>b. okP (Some b))
        | Some (Inl x) \<Rightarrow> thenP (log_msg (ErrorEntry x))
            (errP (ErrWrap ''failed to read body while logging request'' x))
        | Some (Inr body) \<Rightarrow> bindP (call_fun (lg_request_body_replacer cfg) body) (\<lambda>b. okP (Some b)))
      else okP None)"

definition optional :: "bool \<Rightarrow> (log_world, 'a) prog \<Rightarrow> (log_world, 'a option) prog" where
  "optional b m = (if b then bindP m (\<lambda>x. okP (Some x)) else okP None)"

definition log_received :: "logger_config \<Rightarrow> log_request \<Rightarrow> string \<Rightarrow> (log_world, unit) prog" where
  "log_received cfg req requestID =
     (let contentLength = (let l = hdr_Get (lr_header req) ''Content-Length'' in if l = [] then ''0'' else l) in
      bindP (read_body cfg req) (\<lambda>body.
      bindP (optional (lg_log_request_header cfg) (call_fun (lg_request_header_replacer cfg) (lr_header req))) (\<lambda>header.
      log_msg (RequestEntry requestID (lr_host req) (lr_method req) (lr_url req) contentLength body header
        (if lg_log_request_query cfg then Some (lr_query req) else None)))))"

definition log_sent :: "logger_config \<Rightarrow> log_request \<Rightarrow> go_error option \<Rightarrow> (log_world, unit) prog" where
  "log_sent cfg req err =
     bindP get_response (\<lambda>res.
     bindP (optional (lg_log_response_body cfg \<and> \<not> the (lg_response_body_skipper cfg) req res)
              (call_fun (lg_response_body_replacer cfg) (ls_body res))) (\<lambda>body.
     bindP (optional (lg_log_response_header cfg) (call_fun (lg_response_header_replacer cfg) (ls_header res))) (\<lambda>header.
     log_msg (ResponseEntry (ls_status res) (length (ls_body res)) err body header))))"

text \<open>\<open>c.Error(err)\<close>: the error handler writes the response.\<close>

definition ctx_Error :: "(go_error \<Rightarrow> log_response \<Rightarrow> log_response) \<Rightarrow> go_error option \<Rightarrow> (log_world, unit) prog" where
  "ctx_Error on_error err = (\<lambda>w. (Ok (), case err of None \<Rightarrow> w | Some x \<Rightarrow> w\<lparr>lw_response := on_error x (lw_response w)\<rparr>))"

definition LoggerWithConfig ::
    "logger_config \<Rightarrow> (go_error \<Rightarrow> log_response \<Rightarrow> log_response) \<Rightarrow> (log_request \<Rightarrow> (log_world, unit) prog) \<Rightarrow>
      log_request \<Rightarrow> (log_world, unit) prog" where
  "LoggerWithConfig config on_error next req0 =
     (let cfg = complete_config config in
      if the (lg_skipper cfg) req0 then next req0
      else
        bindP get_response (\<lambda>res0.
        let requestID = request_id req0 res0;
            req = req0\<lparr>lr_context := WithValue ''request_id'' (CtxString requestID) (lr_context req0)\<rparr> in
        thenP (log_received cfg req requestID)
          (tryP (next req) (\<lambda>r.
             let err = (case r of Inl x \<Rightarrow> Some x | Inr _ \<Rightarrow> None) in
             thenP (ctx_Error on_error err) (log_sent cfg req err)))))"

text \<open>The configuration of the server: six switches from the environment and the skippers of router.go.\<close>

record logger_switches =
  sw_request_body :: bool
  sw_request_header :: bool
  sw_request_query :: bool
  sw_response_body :: bool
  sw_response_header :: bool

definition router_logger_config :: "logger_switches \<Rightarrow> logger_config" where
  "router_logger_config sw = \<lparr>
     lg_skipper = Some (\<lambda>req. lr_route req = ''/-/ready'' \<or> lr_route req = ''/-/healthy''),
     lg_log_request_body = sw_request_body sw, lg_log_request_header = sw_request_header sw,
     lg_log_request_query = sw_request_query sw,
     lg_request_body_skipper = Some (\<lambda>req. strings_HasPrefix (lr_path req) ''/api/v1/auth'' \<or> DefaultRequestBodyLogSkipper req),
     lg_request_body_replacer = None, lg_request_header_replacer = None, lg_request_query_replacer = None,
     lg_log_response_body = sw_response_body sw, lg_log_response_header = sw_response_header sw,
     lg_response_body_skipper = Some (\<lambda>req res. strings_HasPrefix (lr_path req) ''/api/v1/auth'' \<or> DefaultResponseBodyLogSkipper req res),
     lg_response_body_replacer = None, lg_response_header_replacer = None\<rparr>"

section \<open>No cache\<close>

definition etagHeaders :: "string list" where
  "etagHeaders = [''ETag'', ''If-Modified-Since'', ''If-Match'', ''If-None-Match'', ''If-Range'', ''If-Unmodified-Since'']"

definition noCacheHeaders :: "string \<Rightarrow> (string \<times> string) list" where
  "noCacheHeaders epoch = [(''Expires'', epoch), (''Cache-Control'', ''no-cache, private, max-age=0''),
     (''Pragma'', ''no-cache''), (''X-Accel-Expires'', ''0'')]"

definition NoCacheWithConfig ::
    "string \<Rightarrow> (log_request \<Rightarrow> bool) option \<Rightarrow> (log_request \<Rightarrow> (log_world, unit) prog) \<Rightarrow> log_request \<Rightarrow> (log_world, unit) prog" where
  "NoCacheWithConfig epoch skipper next req =
     (if (case skipper of None \<Rightarrow> False | Some f \<Rightarrow> f req) then next req
      else thenP (\<lambda>w. (Ok (), w\<lparr>lw_response := (lw_response w)\<lparr>ls_header :=
               fold (\<lambda>(k, v). hdr_Set k v) (noCacheHeaders epoch) (ls_header (lw_response w))\<rparr>\<rparr>))
        (next (req\<lparr>lr_header := fold (\<lambda>v h. if hdr_Get h v \<noteq> [] then hdr_Del v h else h) etagHeaders (lr_header req)\<rparr>)))"

section \<open>Keys of the management routes\<close>

text \<open>
  The management group and, when it is configured so, the pprof routes: the validator that is handed to
  echo's key authentication, and the route it skips.
\<close>

definition mgmt_validator :: "string \<Rightarrow> string \<Rightarrow> bool" where
  "mgmt_validator secret key \<longleftrightarrow> key = secret"

definition mgmt_skipper :: "log_request \<Rightarrow> bool" where
  "mgmt_skipper req \<longleftrightarrow> lr_route req = ''/-/ready''"

section \<open>Outcomes\<close>

lemma log_msg_iff [outcome_simps]: "log_msg x w = (r, t) \<longleftrightarrow> r = Ok () \<and> t = w\<lparr>lw_log := lw_log w @ [x]\<rparr>"
  by (auto simp: log_msg_def)

lemma get_response_iff [outcome_simps]: "get_response w = (r, t) \<longleftrightarrow> r = Ok (lw_response w) \<and> t = w"
  by (auto simp: get_response_def)

lemma call_fun_Some [simp]: "call_fun (Some g) x = okP (g x)"
  by (simp add: call_fun_def)

lemma call_fun_None [simp]: "call_fun None x = panicP nil_call"
  by (simp add: call_fun_def)

lemma complete_config_simps [simp]:
  "lg_log_request_body (complete_config c) = lg_log_request_body c"
  "lg_log_request_header (complete_config c) = lg_log_request_header c"
  "lg_log_request_query (complete_config c) = lg_log_request_query c"
  "lg_log_response_body (complete_config c) = lg_log_response_body c"
  "lg_log_response_header (complete_config c) = lg_log_response_header c"
  by (simp_all add: complete_config_def)

lemma complete_config_total:
  "\<exists>f. lg_skipper (complete_config c) = Some f" "\<exists>f. lg_request_body_replacer (complete_config c) = Some f"
  "\<exists>f. lg_request_header_replacer (complete_config c) = Some f" "\<exists>f. lg_response_body_replacer (complete_config c) = Some f"
  "\<exists>f. lg_response_header_replacer (complete_config c) = Some f"
  by (auto simp: complete_config_def or_default_def split: option.split)

text \<open>The text of the request's body for the log, when it can be read.\<close>

lemma read_body_ok:
  assumes "lr_body req \<notin> range (\<lambda>x. Some (Inl x)) \<or> \<not> lg_log_request_body cfg"
    and "lg_request_body_replacer cfg = Some f"
  shows "\<exists>b. read_body cfg req = okP b \<and> (the (lg_request_body_skipper cfg) req \<longrightarrow> b = None)"
proof (cases "lr_body req")
  case None
  then show ?thesis using assms(2) by (auto simp: read_body_def bindP_def okP_def)
next
  case (Some r)
  then show ?thesis using assms by (cases r) (auto simp: read_body_def bindP_def okP_def)
qed

lemma log_received_run:
  assumes "lr_body req \<notin> range (\<lambda>x. Some (Inl x)) \<or> \<not> lg_log_request_body c"
  shows "\<exists>bytes b header. log_received (complete_config c) req i w = (Ok (), w\<lparr>lw_log := lw_log w @
      [RequestEntry i (lr_host req) (lr_method req) (lr_url req) bytes b header
         (if lg_log_request_query c then Some (lr_query req) else None)]\<rparr>) \<and>
    (the (lg_request_body_skipper (complete_config c)) req \<longrightarrow> b = None) \<and>
    (\<forall>h. header = Some h \<longrightarrow> h = the (lg_request_header_replacer (complete_config c)) (lr_header req))"
proof -
  let ?c = "complete_config c"
  obtain f g where f: "lg_request_body_replacer ?c = Some f" and g: "lg_request_header_replacer ?c = Some g"
    using complete_config_total [of c] by auto
  have "lr_body req \<notin> range (\<lambda>x. Some (Inl x)) \<or> \<not> lg_log_request_body ?c" using assms by simp
  from read_body_ok [OF this f] obtain b where b: "read_body ?c req = okP b"
    "the (lg_request_body_skipper ?c) req \<longrightarrow> b = None" by blast
  have h: "optional (lg_log_request_header ?c) (call_fun (lg_request_header_replacer ?c) (lr_header req)) =
    okP (if lg_log_request_header c then Some (g (lr_header req)) else None)"
    by (auto simp: optional_def g bindP_def okP_def)
  have "log_received ?c req i w = (Ok (), w\<lparr>lw_log := lw_log w @
      [RequestEntry i (lr_host req) (lr_method req) (lr_url req)
         (let l = hdr_Get (lr_header req) ''Content-Length'' in if l = [] then ''0'' else l) b
         (if lg_log_request_header c then Some (g (lr_header req)) else None)
         (if lg_log_request_query c then Some (lr_query req) else None)]\<rparr>)"
    unfolding log_received_def b(1) h by (simp add: bindP_def okP_def log_msg_def Let_def)
  then show ?thesis using b(2) g by (intro exI conjI) (auto split: if_splits)
qed

lemma log_sent_run:
  "log_sent (complete_config c) req err w =
     (Ok (), w\<lparr>lw_log := lw_log w @ [ResponseEntry (ls_status (lw_response w)) (length (ls_body (lw_response w))) err
        (if lg_log_response_body c \<and> \<not> the (lg_response_body_skipper (complete_config c)) req (lw_response w)
         then Some (the (lg_response_body_replacer (complete_config c)) (ls_body (lw_response w))) else None)
        (if lg_log_response_header c
         then Some (the (lg_response_header_replacer (complete_config c)) (ls_header (lw_response w))) else None)]\<rparr>)"
proof -
  obtain g h where h: "lg_response_body_replacer (complete_config c) = Some h"
    and g: "lg_response_header_replacer (complete_config c) = Some g"
    using complete_config_total [of c] by auto
  show ?thesis by (simp add: log_sent_def get_response_def optional_def h g bindP_def okP_def log_msg_def)
qed

text \<open>The request the next handler gets.\<close>

definition identified :: "log_world \<Rightarrow> log_request \<Rightarrow> log_request" where
  "identified w req = req\<lparr>lr_context := WithValue ''request_id'' (CtxString (request_id req (lw_response w))) (lr_context req)\<rparr>"

lemma LoggerWithConfig_skip: "the (lg_skipper (complete_config c)) req \<Longrightarrow> LoggerWithConfig c on_error next req = next req"
  by (simp add: LoggerWithConfig_def Let_def)

lemma LoggerWithConfig_run:
  assumes "\<not> the (lg_skipper (complete_config c)) req"
  shows "LoggerWithConfig c on_error next req w =
    thenP (log_received (complete_config c) (identified w req) (request_id req (lw_response w)))
      (tryP (next (identified w req)) (\<lambda>r.
         let err = (case r of Inl x \<Rightarrow> Some x | Inr _ \<Rightarrow> None) in
         thenP (ctx_Error on_error err) (log_sent (complete_config c) (identified w req) err))) w"
  using assms by (simp add: LoggerWithConfig_def Let_def identified_def bindP_def get_response_def)

section \<open>What the logger does to a request\<close>

definition readable :: "logger_config \<Rightarrow> log_request \<Rightarrow> bool" where
  "readable c req \<longleftrightarrow> lr_body req \<notin> range (\<lambda>x. Some (Inl x)) \<or> \<not> lg_log_request_body c"

lemma identified_simps [simp]:
  "lr_body (identified w req) = lr_body req" "lr_header (identified w req) = lr_header req"
  "lr_path (identified w req) = lr_path req" "lr_url (identified w req) = lr_url req"
  "lr_route (identified w req) = lr_route req"
  by (simp_all add: identified_def)

lemma identified_RequestID:
  "RequestIDFromContext (lr_context (identified w req)) = Inr (request_id req (lw_response w))"
  by (simp add: identified_def RequestIDFromContext_def WithValue_def)

text \<open>
  The whole run around a handler that does not panic: the first entry is written, the handler answers with
  the log as it is then, the error handler turns its error into a response, and the second entry is written.
\<close>

lemma logger_around:
  assumes "\<not> the (lg_skipper (complete_config c)) req" and "readable c req"
  shows "\<exists>x. (\<exists>i bytes b header. x = RequestEntry i (lr_host req) (lr_method req) (lr_url req) bytes b header
        (if lg_log_request_query c then Some (lr_query req) else None) \<and>
      (the (lg_request_body_skipper (complete_config c)) (identified w req) \<longrightarrow> b = None) \<and>
      (\<forall>h. header = Some h \<longrightarrow> h = the (lg_request_header_replacer (complete_config c)) (lr_header req))) \<and>
    (\<forall>r t. next (identified w req) (w\<lparr>lw_log := lw_log w @ [x]\<rparr>) = (r, t) \<longrightarrow> \<not> (\<exists>m. r = Panic m) \<longrightarrow>
      LoggerWithConfig c on_error next req w =
        (let err = (case r of Err y \<Rightarrow> Some y | _ \<Rightarrow> None) in
         log_sent (complete_config c) (identified w req) err
           (case err of None \<Rightarrow> t | Some y \<Rightarrow> t\<lparr>lw_response := on_error y (lw_response t)\<rparr>)))"
proof -
  let ?c = "complete_config c" and ?i = "request_id req (lw_response w)" and ?q = "identified w req"
  have "lr_body ?q \<notin> range (\<lambda>x. Some (Inl x)) \<or> \<not> lg_log_request_body c"
    using assms(2) by (simp add: readable_def)
  from log_received_run [OF this, of ?i w] obtain bytes b header where
    run: "log_received ?c ?q ?i w = (Ok (), w\<lparr>lw_log := lw_log w @
      [RequestEntry ?i (lr_host ?q) (lr_method ?q) (lr_url ?q) bytes b header
         (if lg_log_request_query c then Some (lr_query ?q) else None)]\<rparr>)"
    and bh: "the (lg_request_body_skipper ?c) ?q \<longrightarrow> b = None"
      "\<forall>h. header = Some h \<longrightarrow> h = the (lg_request_header_replacer ?c) (lr_header ?q)" by blast
  let ?x = "RequestEntry ?i (lr_host ?q) (lr_method ?q) (lr_url ?q) bytes b header
         (if lg_log_request_query c then Some (lr_query ?q) else None)"
  have "LoggerWithConfig c on_error next req w =
      (let err = (case r of Err y \<Rightarrow> Some y | _ \<Rightarrow> None) in
       log_sent ?c ?q err (case err of None \<Rightarrow> t | Some y \<Rightarrow> t\<lparr>lw_response := on_error y (lw_response t)\<rparr>))"
    if "next ?q (w\<lparr>lw_log := lw_log w @ [?x]\<rparr>) = (r, t)" "\<not> (\<exists>m. r = Panic m)" for r t
    using that unfolding LoggerWithConfig_run [OF assms(1)] thenP_def bindP_def run tryP_def
    by (cases r) (simp_all add: ctx_Error_def)
  then show ?thesis using bh
    by (intro exI [of _ ?x] conjI) (auto simp: identified_def)
qed

section \<open>Redaction\<close>

lemma lower_upper_char [simp]: "lower_char (upper_char c) = lower_char c"
  by (auto simp: lower_char_def upper_char_def is_upper_def is_lower_def code_char_of)

lemma canonical_chars_lower: "map lower_char (canonical_chars up s) = map lower_char s"
  by (induction up s rule: canonical_chars.induct) simp_all

lemma canonical_key_lower: "strings_ToLower (canonical_key k) = strings_ToLower k"
  by (simp add: canonical_key_def strings_ToLower_def canonical_chars_lower)

lemma shouldRedact_canonical [simp]: "shouldRedact (canonical_key k) = shouldRedact k"
  by (simp add: shouldRedact_def EqualFold_def canonical_key_lower)

definition clean_header :: "multi \<Rightarrow> bool" where
  "clean_header h \<longleftrightarrow> (\<forall>x \<in> set h. shouldRedact (fst x) \<longrightarrow> set (snd x) \<subseteq> {redacted})"

lemma clean_header_Add:
  assumes clean: "clean_header h" and v: "shouldRedact key \<Longrightarrow> v = redacted"
  shows "clean_header (hdr_Add key v h)"
  unfolding clean_header_def
proof (intro ballI impI)
  fix x assume x: "x \<in> set (hdr_Add key v h)" and red: "shouldRedact (fst x)"
  have old: "set vs \<subseteq> {redacted}" if "(k, vs) \<in> set h" "shouldRedact k" for k vs
    using clean that by (fastforce simp: clean_header_def)
  show "set (snd x) \<subseteq> {redacted}"
  proof (cases "map_of h (canonical_key key) = None")
    case True
    then have "x \<in> set h \<or> x = (canonical_key key, [v])" using x by (auto simp: hdr_Add_def)
    then show ?thesis using old [of "fst x" "snd x"] red v by auto
  next
    case False
    then have "x \<in> (\<lambda>(k', vs). (k', if k' = canonical_key key then vs @ [v] else vs)) ` set h"
      using x unfolding hdr_Add_def Let_def by (simp only: False if_False set_map)
    then obtain k vs where k: "(k, vs) \<in> set h" "x = (k, if k = canonical_key key then vs @ [v] else vs)" by auto
    then show ?thesis using old [of k vs] red v by auto
  qed
qed

lemma clean_header_fold:
  "clean_header h \<Longrightarrow> clean_header (fold (\<lambda>v. hdr_Add key (if shouldRedact key then redacted else v)) vs h)"
  by (induction vs arbitrary: h) (simp_all add: clean_header_Add)

lemma clean_header_Default: "clean_header (DefaultHeaderLogReplacer headers)"
proof -
  have "clean_header h \<Longrightarrow> clean_header (fold (\<lambda>(key, vs). fold (\<lambda>v. hdr_Add key (if shouldRedact key then redacted else v)) vs) headers h)" for h
    by (induction headers arbitrary: h) (simp_all add: clean_header_fold case_prod_unfold)
  from this [of "[]"] show ?thesis by (simp add: DefaultHeaderLogReplacer_def clean_header_def)
qed

section \<open>The logger of the server\<close>

text \<open>An entry without secrets of the authentication: no body of its routes and no credentials in its header.\<close>

definition discreet :: "bool \<Rightarrow> log_entry \<Rightarrow> bool" where
  "discreet on_auth x \<longleftrightarrow> (case x of
      RequestEntry _ _ _ _ _ body header _ \<Rightarrow> (on_auth \<longrightarrow> body = None) \<and> (\<forall>h. header = Some h \<longrightarrow> clean_header h)
    | ResponseEntry _ _ _ body header \<Rightarrow> (on_auth \<longrightarrow> body = None) \<and> (\<forall>h. header = Some h \<longrightarrow> clean_header h)
    | ErrorEntry _ \<Rightarrow> True)"

lemma router_config_simps [simp]:
  "the (lg_skipper (complete_config (router_logger_config sw))) req \<longleftrightarrow> lr_route req = ''/-/ready'' \<or> lr_route req = ''/-/healthy''"
  "the (lg_request_header_replacer (complete_config (router_logger_config sw))) = DefaultHeaderLogReplacer"
  "strings_HasPrefix (lr_path req) ''/api/v1/auth'' \<Longrightarrow> the (lg_request_body_skipper (complete_config (router_logger_config sw))) req"
  "strings_HasPrefix (lr_path req) ''/api/v1/auth'' \<Longrightarrow> the (lg_response_body_skipper (complete_config (router_logger_config sw))) req res"
  "the (lg_response_header_replacer (complete_config (router_logger_config sw))) = DefaultHeaderLogReplacer"
  by (simp_all add: complete_config_def router_logger_config_def or_default_def)

lemma log_sent_discreet:
  assumes "log_sent (complete_config (router_logger_config sw)) q err w = (r, t)"
  shows "\<exists>x. lw_log t = lw_log w @ [x] \<and> discreet (strings_HasPrefix (lr_path q) ''/api/v1/auth'') x"
  using assms clean_header_Default unfolding log_sent_run
  by (intro exI conjI) (auto simp: discreet_def)

text \<open>
  C33: the log of the server is discreet.  Whatever the switches of the configuration, for a request to a
  route that is logged and a handler that does not log by itself, every entry that is added has no body
  when the path is one of the authentication routes, and has nothing but the redaction text under the
  headers Authorization, X-CSRF-Token and Proxy-Authorization of the request and of the response.
\<close>

theorem server_log_is_discreet:
  fixes "next" :: "log_request \<Rightarrow> (log_world, unit) prog"
  assumes "readable (router_logger_config sw) req" and "\<And>q. frame lw_log (next q)"
    and "lr_route req \<noteq> ''/-/ready''" "lr_route req \<noteq> ''/-/healthy''"
    and "LoggerWithConfig (router_logger_config sw) on_error next req w = (r, t)"
  shows "\<exists>xs. lw_log t = lw_log w @ xs \<and>
    (\<forall>x \<in> set xs. discreet (strings_HasPrefix (lr_path req) ''/api/v1/auth'') x)"
proof -
  let ?c = "router_logger_config sw" and ?q = "identified w req" and ?auth = "strings_HasPrefix (lr_path req) ''/api/v1/auth''"
  have noskip: "\<not> the (lg_skipper (complete_config ?c)) req" using assms(3,4) by simp
  from assms(1) have "lr_body ?q \<notin> range (\<lambda>x. Some (Inl x)) \<or> \<not> lg_log_request_body ?c" by (simp add: readable_def)
  from log_received_run [OF this, of "request_id req (lw_response w)" w] obtain bytes b header where
    run: "log_received (complete_config ?c) ?q (request_id req (lw_response w)) w = (Ok (), w\<lparr>lw_log := lw_log w @
      [RequestEntry (request_id req (lw_response w)) (lr_host ?q) (lr_method ?q) (lr_url ?q) bytes b header
         (if lg_log_request_query ?c then Some (lr_query ?q) else None)]\<rparr>)"
    and bh: "the (lg_request_body_skipper (complete_config ?c)) ?q \<longrightarrow> b = None"
      "\<forall>h. header = Some h \<longrightarrow> h = DefaultHeaderLogReplacer (lr_header ?q)" by auto
  let ?x = "RequestEntry (request_id req (lw_response w)) (lr_host ?q) (lr_method ?q) (lr_url ?q) bytes b header
         (if lg_log_request_query ?c then Some (lr_query ?q) else None)"
  let ?w1 = "w\<lparr>lw_log := lw_log w @ [?x]\<rparr>"
  have x: "discreet ?auth ?x" using bh clean_header_Default by (auto simp: discreet_def)
  obtain r1 w2 where n: "next ?q ?w1 = (r1, w2)" by (cases "next ?q ?w1")
  have log2: "lw_log w2 = lw_log w @ [?x]" using frameD [OF assms(2) n] by simp
  have whole: "LoggerWithConfig ?c on_error next req w =
    tryP (next ?q) (\<lambda>r. let err = (case r of Inl x \<Rightarrow> Some x | Inr _ \<Rightarrow> None) in
       thenP (ctx_Error on_error err) (log_sent (complete_config ?c) ?q err)) ?w1"
    unfolding LoggerWithConfig_run [OF noskip] thenP_def bindP_def run by simp
  have "lw_log t = lw_log w2 \<or> (\<exists>err w3 r3. lw_log w3 = lw_log w2 \<and> log_sent (complete_config ?c) ?q err w3 = (r3, t))"
    using assms(5) unfolding whole tryP_def n thenP_def bindP_def
    by (cases r1) (auto simp: ctx_Error_def Let_def)
  then show ?thesis
  proof (elim disjE exE conjE)
    assume "lw_log t = lw_log w2"
    then show ?thesis using x log2 by (intro exI [of _ "[?x]"]) simp
  next
    fix err w3 r3 assume w3: "lw_log w3 = lw_log w2" and sent: "log_sent (complete_config ?c) ?q err w3 = (r3, t)"
    obtain y where "lw_log t = lw_log w3 @ [y]" "discreet ?auth y" using log_sent_discreet [OF sent] by auto
    then show ?thesis using x log2 w3 by (intro exI [of _ "[?x, y]"]) simp
  qed
qed

section \<open>Examples, and what is logged as it is\<close>

definition quiet_request :: log_request where
  "quiet_request = \<lparr>lr_method = ''POST'', lr_host = ''vault'', lr_url = ''/api/v1/auth/login'', lr_path = ''/api/v1/auth/login'',
     lr_route = ''/api/v1/auth/login'', lr_header = [(''Authorization'', [''Bearer secret''])], lr_query = [],
     lr_body = Some (Inr ''password''), lr_context = \<lparr>gc_value = (\<lambda>_. None), gc_deadline = None, gc_err = None\<rparr>\<rparr>"

definition empty_log :: log_world where
  "empty_log = \<lparr>lw_log = [], lw_response = \<lparr>ls_status = 200, ls_header = [], ls_body = []\<rparr>\<rparr>"

definition all_switches :: logger_switches where
  "all_switches = \<lparr>sw_request_body = True, sw_request_header = True, sw_request_query = True,
     sw_response_body = True, sw_response_header = True\<rparr>"

theorem server_log_is_discreet_witness:
  "\<exists>xs. lw_log (snd (LoggerWithConfig (router_logger_config all_switches) (\<lambda>_ r. r) (\<lambda>_. okP ()) quiet_request empty_log)) = xs \<and>
    length xs = 2 \<and> list_all (discreet True) xs"
proof -
  let ?run = "LoggerWithConfig (router_logger_config all_switches) (\<lambda>_ r. r) (\<lambda>_. okP ()) quiet_request empty_log"
  obtain r t where run: "?run = (r, t)" by (cases ?run)
  have auth: "strings_HasPrefix (lr_path quiet_request) ''/api/v1/auth''" by code_simp
  have "readable (router_logger_config all_switches) quiet_request" by (auto simp: readable_def quiet_request_def)
  from server_log_is_discreet [OF this frame_okP _ _ run] auth
  obtain xs where xs: "lw_log t = lw_log empty_log @ xs" "\<forall>x \<in> set xs. discreet True x"
    by (auto simp: quiet_request_def)
  have "length (lw_log (snd ?run)) = 2" by code_simp
  then show ?thesis using xs run by (auto simp: empty_log_def list_all_iff)
qed

text \<open>The query and the address of a request are logged as they are: the query replacer is never called.\<close>

lemma query_is_logged_raw:
  "log_received (c\<lparr>lg_request_query_replacer := f\<rparr>) req i w = log_received c req i w"
proof -
  have "read_body (c\<lparr>lg_request_query_replacer := f\<rparr>) req = read_body c req"
    by (cases "lr_body req") (auto simp: read_body_def split: sum.split)
  then show ?thesis by (simp add: log_received_def)
qed

lemma management_secret_is_logged:
  "re_url (hd (lw_log (snd (LoggerWithConfig (router_logger_config \<lparr>sw_request_body = False, sw_request_header = False,
      sw_request_query = False, sw_response_body = False, sw_response_header = False\<rparr>) (\<lambda>_ r. r) (\<lambda>_. okP ())
      (quiet_request\<lparr>lr_url := ''/-/version?mgmt-secret=s3cret'', lr_route := ''/-/version''\<rparr>) empty_log))))
    = ''/-/version?mgmt-secret=s3cret''"
  by code_simp

section \<open>No cache\<close>

lemma canonical_no_cache:
  "map canonical_key (map fst (noCacheHeaders e)) = map fst (noCacheHeaders e)"
  unfolding noCacheHeaders_def list.map fst_conv by code_simp

text \<open>The handler behind the middleware sees a request without the validators and a response that is not to be cached.\<close>

lemma NoCache_headers:
  "NoCacheWithConfig e None next req w =
     next (req\<lparr>lr_header := fold (\<lambda>v h. if hdr_Get h v \<noteq> [] then hdr_Del v h else h) etagHeaders (lr_header req)\<rparr>)
       (w\<lparr>lw_response := (lw_response w)\<lparr>ls_header := fold (\<lambda>(k, v). hdr_Set k v) (noCacheHeaders e) (ls_header (lw_response w))\<rparr>\<rparr>)"
  by (simp add: NoCacheWithConfig_def thenP_def bindP_def)

lemma NoCache_example:
  "map_of (fold (\<lambda>(k, v). hdr_Set k v) (noCacheHeaders ''0'') [(''Cache-Control'', [''public''])]) ''Cache-Control''
     = Some [''no-cache, private, max-age=0'']"
  "fold (\<lambda>v h. if hdr_Get h v \<noteq> [] then hdr_Del v h else h) etagHeaders [(''Etag'', [''1'']), (''If-Match'', [''2'']), (''Accept'', [''3''])]
     = [(''Accept'', [''3''])]"
  by code_simp+

end
