(* ===== verification/Calendar.thy ===== *)
theory Calendar
  imports Prelude
begin

text \<open>
  internal/util/time.go: days, weeks, months and quarters of a time.  The calendar of Go's \<open>time\<close> is the
  proleptic Gregorian one; a location is a zone with a constant distance from UTC (in seconds), so the
  transitions of summer time are not modelled.  A \<open>time\<close> is a number of nanoseconds from the Unix epoch.
  The parsing of dates (\<open>TimeFromString\<close>, \<open>DateFromString\<close>) is left to Go.
\<close>

section \<open>The calendar\<close>

type_synonym location = int

abbreviation day_ns :: duration where
  "day_ns \<equiv> 86400 * second"

definition leap :: "int \<Rightarrow> bool" where
  "leap y \<longleftrightarrow> 4 dvd y \<and> (\<not> 100 dvd y \<or> 400 dvd y)"

text \<open>Days from January 1 of the year 1 to January 1 of a year, and within a year to the first of a month.\<close>

definition days_before_year :: "int \<Rightarrow> int" where
  "days_before_year y = 365 * (y - 1) + (y - 1) div 4 - (y - 1) div 100 + (y - 1) div 400"

definition days_before_month :: "int \<Rightarrow> int \<Rightarrow> int" where
  "days_before_month y m = [0, 31, 59, 90, 120, 151, 181, 212, 243, 273, 304, 334, 365] ! nat (m - 1) +
     (if leap y \<and> m > 2 then 1 else 0)"

definition epoch_day :: int where
  "epoch_day = 719162"

definition year_of :: "int \<Rightarrow> int" where
  "year_of n = (let y = n * 400 div 146097 + 1 in if days_before_year (y + 1) \<le> n then y + 1 else y)"

definition month_of :: "int \<Rightarrow> int \<Rightarrow> int" where
  "month_of y r = int (length (filter (\<lambda>m. days_before_month y m \<le> r) [1, 2, 3, 4, 5, 6, 7, 8, 9, 10, 11, 12]))"

text \<open>The number of the day of a time in a zone, from January 1 of the year 1, and the time of the day.\<close>

definition day_number :: "location \<Rightarrow> time \<Rightarrow> int" where
  "day_number loc t = (t + loc * second) div day_ns + epoch_day"

definition time_of_day :: "location \<Rightarrow> time \<Rightarrow> duration" where
  "time_of_day loc t = (t + loc * second) mod day_ns"

definition Year :: "location \<Rightarrow> time \<Rightarrow> int" where
  "Year loc t = year_of (day_number loc t)"

definition Month :: "location \<Rightarrow> time \<Rightarrow> int" where
  "Month loc t = month_of (Year loc t) (day_number loc t - days_before_year (Year loc t))"

definition Day :: "location \<Rightarrow> time \<Rightarrow> int" where
  "Day loc t = day_number loc t - days_before_year (Year loc t) - days_before_month (Year loc t) (Month loc t) + 1"

text \<open>Sunday is 0; January 1 of the year 1 is a Monday.\<close>

definition Weekday :: "location \<Rightarrow> time \<Rightarrow> int" where
  "Weekday loc t = (day_number loc t + 1) mod 7"

text \<open>
  \<open>time.Date\<close> with its hour, minute, second and nanosecond as one duration: values out of range are
  carried over, the month into the year and everything else linearly.
\<close>

definition time_Date :: "int \<Rightarrow> int \<Rightarrow> int \<Rightarrow> duration \<Rightarrow> location \<Rightarrow> time" where
  "time_Date year month day clock loc =
     (let y = year + (month - 1) div 12; m = (month - 1) mod 12 + 1 in
      (days_before_year y + days_before_month y m + day - 1 - epoch_day) * day_ns + clock - loc * second)"

definition AddDate :: "location \<Rightarrow> time \<Rightarrow> int \<Rightarrow> int \<Rightarrow> int \<Rightarrow> time" where
  "AddDate loc t years months days =
     time_Date (Year loc t + years) (Month loc t + months) (Day loc t + days) (time_of_day loc t) loc"

section \<open>internal/util/time.go\<close>

definition monthsPerQuarter :: int where
  "monthsPerQuarter = 3"

definition daysPerWeek :: int where
  "daysPerWeek = 7"

definition EndOfMonth :: "location \<Rightarrow> time \<Rightarrow> time" where
  "EndOfMonth loc d = time_Date (Year loc d) (Month loc d + 1) 1 (- 1) loc"

definition EndOfPreviousMonth :: "location \<Rightarrow> time \<Rightarrow> time" where
  "EndOfPreviousMonth loc d = time_Date (Year loc d) (Month loc d) 1 (- 1) loc"

definition EndOfDay :: "location \<Rightarrow> time \<Rightarrow> time" where
  "EndOfDay loc d = time_Date (Year loc d) (Month loc d) (Day loc d + 1) (- 1) loc"

definition StartOfDay :: "location \<Rightarrow> time \<Rightarrow> time" where
  "StartOfDay loc d = time_Date (Year loc d) (Month loc d) (Day loc d) 0 loc"

definition StartOfMonth :: "location \<Rightarrow> time \<Rightarrow> time" where
  "StartOfMonth loc d = time_Date (Year loc d) (Month loc d) 1 0 loc"

definition StartOfQuarter :: "location \<Rightarrow> time \<Rightarrow> time" where
  "StartOfQuarter loc d =
     (let quarter = (Month loc d - 1) div monthsPerQuarter; m = quarter * monthsPerQuarter + 1 in
      time_Date (Year loc d) m 1 0 loc)"

definition StartOfWeek :: "location \<Rightarrow> time \<Rightarrow> time" where
  "StartOfWeek loc date =
     (let dayOffset = Weekday loc date - 1; dayOffset = (if dayOffset < 0 then 6 else dayOffset) in
      time_Date (Year loc date) (Month loc date) (Day loc date - dayOffset) 0 loc)"

definition Date :: "int \<Rightarrow> int \<Rightarrow> int \<Rightarrow> location \<Rightarrow> time" where
  "Date year month day loc = time_Date year month day 0 loc"

definition AddWeeks :: "location \<Rightarrow> time \<Rightarrow> int \<Rightarrow> time" where
  "AddWeeks loc d weeks = AddDate loc d 0 0 (daysPerWeek * weeks)"

definition AddMonths :: "location \<Rightarrow> time \<Rightarrow> int \<Rightarrow> time" where
  "AddMonths loc d months = AddDate loc d 0 months 0"

definition DayBefore :: "location \<Rightarrow> time \<Rightarrow> time" where
  "DayBefore loc d = time_Date (Year loc d) (Month loc d) (Day loc d) (- 1) loc"

definition TruncateTime :: "location \<Rightarrow> time \<Rightarrow> time" where
  "TruncateTime loc d = time_Date (Year loc d) (Month loc d) (Day loc d) 0 loc"

text \<open>\<open>MaxTime\<close> starts from the zero time.\<close>

definition MaxTime :: "time \<Rightarrow> time list \<Rightarrow> time" where
  "MaxTime zero ts = foldl (\<lambda>latestTime t. if t > latestTime then t else latestTime) zero ts"

definition NonZeroTimeOrNil :: "time \<Rightarrow> time \<Rightarrow> time option" where
  "NonZeroTimeOrNil zero t = (if t = zero then None else Some t)"

section \<open>Years\<close>

lemma div_bounds: "0 < n \<Longrightarrow> k - n < n * (k div n)" "0 < n \<Longrightarrow> n * (k div n) \<le> (k :: int)"
  using mult_div_mod_eq [of n k] pos_mod_bound [of n k] pos_mod_sign [of n k] by linarith+

lemma div_pred:
  assumes "0 < (n :: int)"
  shows "y div n = (y - 1) div n + (if n dvd y then 1 else 0)"
proof -
  let ?q = "(y - 1) div n" and ?r = "(y - 1) mod n"
  have y: "y = n * ?q + (?r + 1)" using mult_div_mod_eq [of n "y - 1"] by linarith
  have r: "0 \<le> ?r" "?r < n" using assms by simp_all
  show ?thesis
  proof (cases "?r + 1 = n")
    case True
    then have "y = n * (?q + 1)" using y by (simp add: algebra_simps)
    then have "n dvd y" "y div n = ?q + 1" using assms by (metis dvd_triv_left, metis nonzero_mult_div_cancel_left less_irrefl)
    then show ?thesis by simp
  next
    case False
    then have "0 \<le> ?r + 1" "?r + 1 < n" using r by linarith+
    then have "y div n = ?q" "y mod n = ?r + 1" using int_div_pos_eq [OF y] int_mod_pos_eq [OF y] by blast+
    moreover from this r have "\<not> n dvd y" by (simp add: dvd_eq_mod_eq_0)
    ultimately show ?thesis by simp
  qed
qed

lemma days_before_year_bounds:
  "146097 * (y - 1) - 699 \<le> 400 * days_before_year y" "400 * days_before_year y \<le> 146097 * (y - 1) + 396"
  using div_bounds [of 4 "y - 1"] div_bounds [of 100 "y - 1"] div_bounds [of 400 "y - 1"]
  by (simp_all add: days_before_year_def)

lemma year_length: "days_before_year (y + 1) = days_before_year y + (if leap y then 366 else 365)"
proof -
  have "100 dvd y \<Longrightarrow> 4 dvd y" by (rule dvd_trans [of 4 100]) auto
  moreover have "400 dvd y \<Longrightarrow> 100 dvd y" by (rule dvd_trans [of 100 400]) auto
  ultimately show ?thesis
    by (auto simp: days_before_year_def leap_def div_pred [of 4 y] div_pred [of 100 y] div_pred [of 400 y])
qed

lemma year_of_correct: "days_before_year (year_of n) \<le> n \<and> n < days_before_year (year_of n + 1)"
proof -
  define y where "y = n * 400 div 146097 + 1"
  have q: "146097 * (y - 1) \<le> 400 * n" "400 * n < 146097 * y"
    using div_bounds [of 146097 "n * 400"] by (simp_all add: y_def)
  have "400 * days_before_year y \<le> 400 * n + 396" using q(1) days_before_year_bounds(2) [of y] by linarith
  then have low: "days_before_year y \<le> n" by linarith
  define z where "z = y + 1 + 1"
  have "146097 * y + 145398 \<le> 400 * days_before_year z"
    using days_before_year_bounds(1) [of z] by (simp add: z_def)
  then have "n < days_before_year z" using q(2) by linarith
  then show ?thesis using low unfolding z_def by (auto simp: year_of_def Let_def y_def [symmetric])
qed

lemma days_before_year_mono:
  assumes "y < z"
  shows "days_before_year y < days_before_year z"
  using assms
proof (induction z rule: int_gr_induct)
  case (step z)
  then show ?case by (simp add: year_length [of z])
qed (simp add: year_length)

lemma year_of_unique:
  assumes "days_before_year y \<le> n" "n < days_before_year (y + 1)"
  shows "year_of n = y"
proof (rule ccontr)
  assume "year_of n \<noteq> y"
  then consider "year_of n + 1 \<le> y" | "y + 1 \<le> year_of n" by linarith
  then show False
  proof cases
    case 1
    then have "days_before_year (year_of n + 1) \<le> days_before_year y"
      using days_before_year_mono [of "year_of n + 1" y] by (cases "year_of n + 1 = y") auto
    then show ?thesis using year_of_correct [of n] assms by linarith
  next
    case 2
    then have "days_before_year (y + 1) \<le> days_before_year (year_of n)"
      using days_before_year_mono [of "y + 1" "year_of n"] by (cases "y + 1 = year_of n") auto
    then show ?thesis using year_of_correct [of n] assms by linarith
  qed
qed

section \<open>Months\<close>

lemma month_cases: "1 \<le> m \<Longrightarrow> m \<le> (12 :: int) \<Longrightarrow> m \<in> {1, 2, 3, 4, 5, 6, 7, 8, 9, 10, 11, 12}"
  by (simp only: insert_iff empty_iff) presburger

lemma days_before_month_simps [simp]:
  "days_before_month y 1 = 0" "days_before_month y 2 = 31" "days_before_month y 3 = 59 + (if leap y then 1 else 0)"
  "days_before_month y 4 = 90 + (if leap y then 1 else 0)" "days_before_month y 5 = 120 + (if leap y then 1 else 0)"
  "days_before_month y 6 = 151 + (if leap y then 1 else 0)" "days_before_month y 7 = 181 + (if leap y then 1 else 0)"
  "days_before_month y 8 = 212 + (if leap y then 1 else 0)" "days_before_month y 9 = 243 + (if leap y then 1 else 0)"
  "days_before_month y 10 = 273 + (if leap y then 1 else 0)" "days_before_month y 11 = 304 + (if leap y then 1 else 0)"
  "days_before_month y 12 = 334 + (if leap y then 1 else 0)" "days_before_month y 13 = 365 + (if leap y then 1 else 0)"
  by (simp_all add: days_before_month_def nth_Cons' eval_nat_numeral)

lemma month_of_correct:
  assumes "0 \<le> r" "r < days_before_month y 13"
  shows "1 \<le> month_of y r \<and> month_of y r \<le> 12 \<and> days_before_month y (month_of y r) \<le> r \<and>
    r < days_before_month y (month_of y r + 1)"
  using assms by (cases "leap y") (auto simp: month_of_def)

lemma month_of_unique:
  assumes "1 \<le> m" "m \<le> 12" "days_before_month y m \<le> r" "r < days_before_month y (m + 1)"
  shows "month_of y r = m"
  using month_cases [OF assms(1,2)] assms(3,4) by (cases "leap y") (auto simp: month_of_def)

section \<open>Days\<close>

text \<open>The first moment of day number \<open>k\<close>.\<close>

definition midnight :: "location \<Rightarrow> int \<Rightarrow> time" where
  "midnight loc k = (k - epoch_day) * day_ns - loc * second"

lemma day_number_bounds: "midnight loc (day_number loc t) \<le> t \<and> t < midnight loc (day_number loc t + 1)"
  using div_bounds [of day_ns "t + loc * second"] by (simp add: midnight_def day_number_def algebra_simps)

lemma day_number_midnight:
  assumes "0 \<le> c" "c < day_ns"
  shows "day_number loc (midnight loc k + c) = k"
proof -
  have "midnight loc k + c + loc * second = day_ns * (k - epoch_day) + c" by (simp add: midnight_def)
  then have "(midnight loc k + c + loc * second) div day_ns = k - epoch_day"
    by (rule int_div_pos_eq) (use assms in auto)
  then show ?thesis by (simp add: day_number_def)
qed

lemma day_number_midnight0 [simp]: "day_number loc (midnight loc k) = k"
  using day_number_midnight [of 0 loc k] by simp

lemma date_parts:
  shows "1 \<le> Month loc t" "Month loc t \<le> 12"
    and "days_before_year (Year loc t) + days_before_month (Year loc t) (Month loc t) \<le> day_number loc t"
    and "day_number loc t < days_before_year (Year loc t) + days_before_month (Year loc t) (Month loc t + 1)"
proof -
  let ?n = "day_number loc t" and ?y = "Year loc t"
  have y: "days_before_year ?y \<le> ?n" "?n < days_before_year (?y + 1)"
    using year_of_correct [of ?n] by (simp_all add: Year_def)
  then have "?n - days_before_year ?y < days_before_month ?y 13" by (simp add: year_length split: if_splits)
  from month_of_correct [OF _ this] y(1)
  show "1 \<le> Month loc t" "Month loc t \<le> 12"
    and "days_before_year ?y + days_before_month ?y (Month loc t) \<le> ?n"
    and "?n < days_before_year ?y + days_before_month ?y (Month loc t + 1)"
    by (simp_all add: Month_def)
qed

lemma day_number_parts:
  "days_before_year (Year loc t) + days_before_month (Year loc t) (Month loc t) + Day loc t - 1 = day_number loc t"
  by (simp add: Day_def)

text \<open>\<open>time.Date\<close> in a month of the year, and in the month after the last one.\<close>

lemma time_Date_month:
  assumes "1 \<le> m" "m \<le> 12"
  shows "time_Date y m d c loc = midnight loc (days_before_year y + days_before_month y m + d - 1) + c"
  using assms by (simp add: time_Date_def midnight_def)

lemma time_Date_next_month:
  assumes "1 \<le> m" "m \<le> 12"
  shows "time_Date y (m + 1) 1 c loc = midnight loc (days_before_year y + days_before_month y (m + 1)) + c"
proof (cases "m = 12")
  case True
  then show ?thesis by (simp add: time_Date_def midnight_def year_length)
next
  case False
  then show ?thesis using time_Date_month [of "m + 1" y 1 c loc] assms by simp
qed

text \<open>A day within a month is read back as it was written.\<close>

lemma parts_of_midnight:
  assumes m: "1 \<le> m" "m \<le> 12" and k: "days_before_year y + days_before_month y m \<le> k"
    "k < days_before_year y + days_before_month y (m + 1)"
  shows "Year loc (midnight loc k) = y" "Month loc (midnight loc k) = m"
    "Day loc (midnight loc k) = k - days_before_year y - days_before_month y m + 1"
proof -
  have len: "0 \<le> days_before_month y m" "days_before_month y (m + 1) \<le> days_before_month y 13"
    using month_cases [OF m] by auto
  have "days_before_year y \<le> k" "k < days_before_year (y + 1)"
    using k len by (auto simp: year_length)
  then show y: "Year loc (midnight loc k) = y" by (simp add: Year_def year_of_unique)
  show "Month loc (midnight loc k) = m" using month_of_unique [OF m, of y "k - days_before_year y"] k by (simp add: Month_def y)
  then show "Day loc (midnight loc k) = k - days_before_year y - days_before_month y m + 1" by (simp add: Day_def y)
qed

lemma days_in_month: "1 \<le> m \<Longrightarrow> m \<le> 12 \<Longrightarrow> days_before_month y m < days_before_month y (m + 1)"
  using month_cases [of m] by auto

section \<open>The functions of the repository\<close>

lemma StartOfDay_midnight: "StartOfDay loc t = midnight loc (day_number loc t)"
  using date_parts [of loc t] day_number_parts [of loc t] by (simp add: StartOfDay_def time_Date_month)

lemma EndOfDay_midnight: "EndOfDay loc t = midnight loc (day_number loc t + 1) - 1"
  using date_parts [of loc t] day_number_parts [of loc t] by (simp add: EndOfDay_def time_Date_month algebra_simps)

lemma DayBefore_midnight: "DayBefore loc t = StartOfDay loc t - 1"
  using date_parts [of loc t] by (simp add: DayBefore_def StartOfDay_def time_Date_month)

lemma TruncateTime_StartOfDay: "TruncateTime loc t = StartOfDay loc t"
  by (simp add: TruncateTime_def StartOfDay_def)

lemma StartOfMonth_midnight:
  "StartOfMonth loc t = midnight loc (days_before_year (Year loc t) + days_before_month (Year loc t) (Month loc t))"
  using date_parts [of loc t] by (simp add: StartOfMonth_def time_Date_month)

lemma EndOfMonth_midnight:
  "EndOfMonth loc t = midnight loc (days_before_year (Year loc t) + days_before_month (Year loc t) (Month loc t + 1)) - 1"
  using date_parts [of loc t] by (simp add: EndOfMonth_def time_Date_next_month)

lemma EndOfPreviousMonth_StartOfMonth: "EndOfPreviousMonth loc t = StartOfMonth loc t - 1"
  using date_parts [of loc t] by (simp add: EndOfPreviousMonth_def StartOfMonth_def time_Date_month)

lemma StartOfWeek_midnight: "StartOfWeek loc t = midnight loc (day_number loc t - day_number loc t mod 7)"
proof -
  let ?n = "day_number loc t"
  have "(?n + 1) mod 7 - 1 = (if ?n mod 7 = 6 then - 1 else ?n mod 7)" by presburger
  then have "(let dayOffset = Weekday loc t - 1 in if dayOffset < 0 then 6 else dayOffset) = ?n mod 7"
    by (auto simp: Weekday_def Let_def)
  then have "StartOfWeek loc t = time_Date (Year loc t) (Month loc t) (Day loc t - ?n mod 7) 0 loc"
    by (simp add: StartOfWeek_def Let_def)
  then show ?thesis using date_parts [of loc t] day_number_parts [of loc t] by (simp add: time_Date_month algebra_simps)
qed

lemma StartOfQuarter_midnight:
  "StartOfQuarter loc t = midnight loc (days_before_year (Year loc t) +
     days_before_month (Year loc t) ((Month loc t - 1) div 3 * 3 + 1))"
proof -
  have "1 \<le> (Month loc t - 1) div 3 * 3 + 1" "(Month loc t - 1) div 3 * 3 + 1 \<le> 12"
    using date_parts(1,2) [of loc t] by presburger+
  then show ?thesis by (simp add: StartOfQuarter_def monthsPerQuarter_def time_Date_month)
qed

lemma midnight_mono: "k \<le> l \<Longrightarrow> midnight loc k \<le> midnight loc l"
  by (simp add: midnight_def)

lemma midnight_plus: "midnight loc (k + n) = midnight loc k + n * day_ns"
  by (simp add: midnight_def algebra_simps)

lemma AddWeeks_days: "AddWeeks loc t n = t + n * 7 * day_ns"
proof -
  have "t = midnight loc (day_number loc t) + time_of_day loc t"
    using mult_div_mod_eq [of day_ns "t + loc * second"]
    by (simp add: midnight_def day_number_def time_of_day_def algebra_simps)
  moreover have "AddWeeks loc t n = midnight loc (day_number loc t + 7 * n) + time_of_day loc t"
  proof -
    have "AddWeeks loc t n = time_Date (Year loc t) (Month loc t) (Day loc t + 7 * n) (time_of_day loc t) loc"
      by (simp add: AddWeeks_def AddDate_def daysPerWeek_def)
    moreover have "days_before_year (Year loc t) + days_before_month (Year loc t) (Month loc t) + (Day loc t + 7 * n) - 1 =
        day_number loc t + 7 * n"
      using day_number_parts [of loc t] by linarith
    ultimately show ?thesis using time_Date_month [OF date_parts(1,2)] by metis
  qed
  ultimately show ?thesis by (simp add: midnight_def algebra_simps)
qed

text \<open>A month later than January 30 is March 1 in a leap year, as the tests of the repository expect.\<close>

lemma AddMonths_overflow:
  "AddMonths 0 (Date 2020 1 30 0) 1 = Date 2020 3 1 0" "AddMonths 0 (Date 2020 3 12 0) 25 = Date 2022 4 12 0"
  "EndOfMonth 0 (Date 2020 12 35 0) = Date 2021 2 1 0 - 1" "StartOfWeek 0 (Date 2020 6 21 0) = Date 2020 6 15 0"
  by code_simp+

lemma MaxTime_Max: "\<forall>t \<in> set ts. zero \<le> t \<Longrightarrow> ts \<noteq> [] \<Longrightarrow> MaxTime zero ts = Max (set ts)"
proof -
  assume "\<forall>t \<in> set ts. zero \<le> t" "ts \<noteq> []"
  moreover have "foldl (\<lambda>l t. if t > l then t else l) z ts = fold max ts z" for z
    by (induction ts arbitrary: z) (auto simp: max_def)
  moreover have "fold max ts z = Max (set (z # ts))" for z
    by (rule Max.set_eq_fold [symmetric])
  moreover have "Max (set (zero # ts)) = max zero (Max (set ts))" using \<open>ts \<noteq> []\<close> by simp
  ultimately show ?thesis by (auto simp: MaxTime_def max_absorb2)
qed

text \<open>
  the periods of a time.  In every zone with a constant offset: a time lies between the start and the
  end of its day and its month and after the start of its week and its quarter; the day has 24 hours, the
  week starts on a Monday at most seven days ago, the month on a first, the moment after its end starts
  another month, and a quarter starts with January, April, July or October of the same year.
\<close>

theorem periods:
  "StartOfDay loc t \<le> t \<and> t \<le> EndOfDay loc t \<and> EndOfDay loc t + 1 = StartOfDay loc t + day_ns \<and>
   StartOfWeek loc t \<le> t \<and> t < StartOfWeek loc t + 7 * day_ns \<and> Weekday loc (StartOfWeek loc t) = 1 \<and>
   StartOfMonth loc t \<le> t \<and> t \<le> EndOfMonth loc t \<and> Day loc (StartOfMonth loc t) = 1 \<and>
   Month loc (StartOfMonth loc t) = Month loc t \<and> StartOfMonth loc (EndOfMonth loc t + 1) = EndOfMonth loc t + 1 \<and>
   StartOfQuarter loc t \<le> StartOfMonth loc t \<and> Month loc (StartOfQuarter loc t) \<in> {1, 4, 7, 10} \<and>
   Year loc (StartOfQuarter loc t) = Year loc t"
proof (intro conjI)
  let ?n = "day_number loc t" and ?y = "Year loc t" and ?m = "Month loc t" and ?q = "(Month loc t - 1) div 3 * 3 + 1"
  note n = day_number_bounds [of loc t] and parts = date_parts [of loc t]
  show "StartOfDay loc t \<le> t" "t \<le> EndOfDay loc t" using n by (simp_all add: StartOfDay_midnight EndOfDay_midnight)
  show "EndOfDay loc t + 1 = StartOfDay loc t + day_ns"
    by (simp add: StartOfDay_midnight EndOfDay_midnight midnight_def algebra_simps)
  have "0 \<le> ?n mod 7" "?n mod 7 \<le> 6" by simp_all
  then show "StartOfWeek loc t \<le> t" "t < StartOfWeek loc t + 7 * day_ns"
    using n midnight_mono [of "?n - ?n mod 7" ?n loc] midnight_mono [of "?n + 1" "?n - ?n mod 7 + 7" loc]
      midnight_plus [of loc "?n - ?n mod 7" 7]
    unfolding StartOfWeek_midnight by linarith+
  show "Weekday loc (StartOfWeek loc t) = 1" unfolding StartOfWeek_midnight Weekday_def day_number_midnight0 by presburger
  show "StartOfMonth loc t \<le> t" unfolding StartOfMonth_midnight using n midnight_mono [OF parts(3), of loc] by simp
  have "midnight loc (?n + 1) \<le> midnight loc (days_before_year ?y + days_before_month ?y (?m + 1))"
    using parts(4) by (intro midnight_mono) simp
  then show "t \<le> EndOfMonth loc t" unfolding EndOfMonth_midnight using n by simp
  have month: "days_before_year ?y + days_before_month ?y ?m < days_before_year ?y + days_before_month ?y (?m + 1)"
    using days_in_month [OF parts(1,2)] by simp
  show "Day loc (StartOfMonth loc t) = 1" "Month loc (StartOfMonth loc t) = ?m"
    unfolding StartOfMonth_midnight using parts_of_midnight [OF parts(1,2) order_refl month] by simp_all
  show "StartOfMonth loc (EndOfMonth loc t + 1) = EndOfMonth loc t + 1"
  proof (cases "?m = 12")
    case True
    have "EndOfMonth loc t + 1 = midnight loc (days_before_year (?y + 1) + days_before_month (?y + 1) 1)"
      by (simp add: EndOfMonth_midnight True year_length)
    then show ?thesis
      using parts_of_midnight [of 1 "?y + 1" "days_before_year (?y + 1) + days_before_month (?y + 1) 1" loc]
      by (simp add: StartOfMonth_midnight)
  next
    case False
    then have m: "1 \<le> ?m + 1" "?m + 1 \<le> 12" using parts(1,2) by simp_all
    have "EndOfMonth loc t + 1 = midnight loc (days_before_year ?y + days_before_month ?y (?m + 1))"
      by (simp add: EndOfMonth_midnight)
    then show ?thesis
      using parts_of_midnight(1,2) [OF m order_refl, of ?y loc] days_in_month [OF m, of ?y]
      by (simp add: StartOfMonth_midnight)
  qed
  have q: "1 \<le> ?q" "?q \<le> 12" "?q \<le> ?m" "?q \<in> {1, 4, 7, 10}"
    using parts(1,2) month_cases [of ?m] by (presburger, presburger, presburger, auto)
  have less: "days_before_year ?y + days_before_month ?y ?q < days_before_year ?y + days_before_month ?y (?q + 1)"
    using days_in_month [OF q(1,2)] by simp
  show "Month loc (StartOfQuarter loc t) \<in> {1, 4, 7, 10}" "Year loc (StartOfQuarter loc t) = ?y"
    unfolding StartOfQuarter_midnight using parts_of_midnight(1,2) [OF q(1,2) order_refl less] q(4) by simp_all
  have "days_before_month ?y ?q \<le> days_before_month ?y ?m"
    using q(3) month_cases [OF q(1,2)] month_cases [OF parts(1,2)] by auto
  then show "StartOfQuarter loc t \<le> StartOfMonth loc t"
    unfolding StartOfQuarter_midnight StartOfMonth_midnight by (intro midnight_mono) simp
qed

end
