(* ===== verification/Boil_Sql.thy ===== *)
theory Boil_Sql
  imports Models Go_Strings "HOL-Library.AList"
begin

text \<open>
  What the generated code of internal/models works with: column values, objects on the heap, the
  statements it sends and what they do to the tables, and the functions of sqlboiler it calls.

  A statement is its syntax tree: names where the text has quoted identifiers, the numbers of the
  placeholders where it has \<open>$1\<close>, \<open>$2\<close>, ...; the arguments are a separate list, as in the code.  What
  PostgreSQL decides (failures, defaults, constraints, the order of rows) is the record \<open>boil_env\<close>.
  The functions of sqlboiler and strmangle are the record \<open>boil_lib\<close> with their documented behaviour
  \<open>lib_laws\<close>; a library \<open>reference_lib\<close> shows that the laws can be met.
\<close>

section \<open>Values and objects\<close>

datatype sql_value =
    VNull | VText string | VInt int | VBool bool | VTime time | VArray "string list" | VJson string
  | VDecimal "string option"

text \<open>The Go type of a field; \<open>KNullable\<close> are the types of package null, \<open>NullDecimal\<close> and \<open>StringArray\<close>.\<close>

datatype col_kind = KText | KInt | KBool | KTime | KDecimal | KNullable

fun zero_value :: "col_kind \<Rightarrow> sql_value" where
  "zero_value KText = VText []"
| "zero_value KInt = VInt 0"
| "zero_value KBool = VBool False"
| "zero_value KTime = VTime zero_time"
| "zero_value KDecimal = VDecimal None"
| "zero_value KNullable = VNull"

type_synonym obj = "(string \<times> sql_value) list" \<comment> \<open>fields of a struct or of a row, by their column\<close>

definition fld :: "obj \<Rightarrow> string \<Rightarrow> sql_value" where
  "fld ob c = (case map_of ob c of None \<Rightarrow> VNull | Some v \<Rightarrow> v)"

definition set_fld :: "string \<Rightarrow> sql_value \<Rightarrow> obj \<Rightarrow> obj" where
  "set_fld c v ob = AList.update c v ob"

text \<open>\<open>IsZero\<close> of a \<open>time.Time\<close>, and of \<open>queries.MustTime\<close> of a \<open>null.Time\<close>.\<close>

definition is_zero_time :: "sql_value \<Rightarrow> bool" where
  "is_zero_time v = (case v of VTime t \<Rightarrow> t = zero_time | _ \<Rightarrow> True)"

lemma fld_set_fld [simp]: "fld (set_fld c v ob) c' = (if c' = c then v else fld ob c')"
  by (simp add: fld_def set_fld_def update_conv')

lemma keys_set_fld [simp]: "c \<in> fst ` set ob \<Longrightarrow> map fst (set_fld c v ob) = map fst ob"
  by (auto simp: set_fld_def update_keys)

section \<open>Tables\<close>

text \<open>The description of a table in its generated file: names in messages, fields and lists of columns.\<close>

record boil_table =
  tb_name :: string
  tb_model :: string
  tb_query :: string
  tb_fields :: "(string \<times> col_kind) list"
  tb_all :: "string list"
  tb_without_default :: "string list"
  tb_with_default :: "string list"
  tb_pk :: "string list"

definition zero_obj :: "boil_table \<Rightarrow> obj" where
  "zero_obj t = map (\<lambda>(c, k). (c, zero_value k)) (tb_fields t)"

text \<open>\<open>queries.Bind\<close> of a row into a struct: the columns selected get the values of the row.\<close>

definition bind_row :: "boil_table \<Rightarrow> obj \<Rightarrow> obj" where
  "bind_row t row = map (\<lambda>(c, k). (c, case map_of row c of None \<Rightarrow> zero_value k | Some v \<Rightarrow> v)) (tb_fields t)"

section \<open>Statements\<close>

datatype cond =
    CompareC string string sql_value \<comment> \<open>column, operator, value\<close>
  | EqualC string bool sql_value \<comment> \<open>\<open>WhereNullEQ\<close>: IS (NOT) NULL for a null value, else \<open>=\<close> or \<open>!=\<close>\<close>
  | InC string bool "sql_value list"
  | NullC string bool

text \<open>\<open>queries.Query\<close>, the fields the generated code sets.\<close>

record query_obj =
  qo_from :: "string list"
  qo_where :: "cond list"
  qo_select :: "string list"
  qo_count :: bool
  qo_limit :: "nat option"
  qo_delete :: bool
  qo_update :: "(string \<times> sql_value) list"

type_synonym param = "string \<times> nat" \<comment> \<open>a column and the number of its placeholder\<close>

record upsert_options =
  uo_conflict_target :: string
  uo_update_set :: string

datatype stmt =
    InsertS string "string list" "nat list" "string list" \<comment> \<open>table, columns (none: DEFAULT VALUES), placeholders, RETURNING\<close>
  | UpdateS string "param list" "param list list" \<comment> \<open>table, SET, WHERE: alternatives of conjunctions\<close>
  | DeleteS string "param list list"
  | SelectS string "string list" "param list list" \<comment> \<open>no columns: all of them\<close>
  | ExistsS string "param list"
  | UpsertS string "string list" "nat list" upsert_options "string list" bool "string list" "string list"
      \<comment> \<open>table, columns, placeholders, raw texts, conflict columns, DO UPDATE, its columns, RETURNING\<close>
  | DetachS string string param \<comment> \<open>table, column that becomes NULL, condition\<close>
  | QueryS query_obj

fun stmt_params :: "stmt \<Rightarrow> nat list" where
  "stmt_params (InsertS _ _ ps _) = ps"
| "stmt_params (UpdateS _ s w) = map snd s @ map snd (concat w)"
| "stmt_params (DeleteS _ w) = map snd (concat w)"
| "stmt_params (SelectS _ _ w) = map snd (concat w)"
| "stmt_params (ExistsS _ w) = map snd w"
| "stmt_params (UpsertS _ _ ps _ _ _ _ _) = ps"
| "stmt_params (DetachS _ _ p) = [snd p]"
| "stmt_params (QueryS _) = []"

fun cond_col :: "cond \<Rightarrow> string" where
  "cond_col (CompareC c _ _) = c"
| "cond_col (EqualC c _ _) = c"
| "cond_col (InC c _ _) = c"
| "cond_col (NullC c _) = c"

fun stmt_cols :: "stmt \<Rightarrow> string list" where
  "stmt_cols (InsertS _ cs _ ret) = cs @ ret"
| "stmt_cols (UpdateS _ s w) = map fst s @ map fst (concat w)"
| "stmt_cols (DeleteS _ w) = map fst (concat w)"
| "stmt_cols (SelectS _ cs w) = cs @ map fst (concat w)"
| "stmt_cols (ExistsS _ w) = map fst w"
| "stmt_cols (UpsertS _ cs _ _ conf _ upd ret) = cs @ conf @ upd @ ret"
| "stmt_cols (DetachS _ c p) = [c, fst p]"
| "stmt_cols (QueryS q) = map cond_col (qo_where q) @ map fst (qo_update q)"

fun stmt_table :: "stmt \<Rightarrow> string" where
  "stmt_table (InsertS t _ _ _) = t"
| "stmt_table (UpdateS t _ _) = t"
| "stmt_table (DeleteS t _) = t"
| "stmt_table (SelectS t _ _) = t"
| "stmt_table (ExistsS t _) = t"
| "stmt_table (UpsertS t _ _ _ _ _ _ _) = t"
| "stmt_table (DetachS t _ _) = t"
| "stmt_table (QueryS q) = (case qo_from q of [] \<Rightarrow> [] | t # _ \<Rightarrow> t)"

text \<open>A statement binds its arguments when its placeholders are exactly the numbers of the arguments.\<close>

definition binds :: "stmt \<Rightarrow> sql_value list \<Rightarrow> bool" where
  "binds s args \<longleftrightarrow> set (stmt_params s) = set [1..<Suc (length args)]"

definition arg :: "sql_value list \<Rightarrow> nat \<Rightarrow> sql_value" where
  "arg args i = args ! (i - 1)"

section \<open>What PostgreSQL does\<close>

type_synonym store = "(string \<times> obj list) list" \<comment> \<open>the rows of each table\<close>

definition rows :: "store \<Rightarrow> string \<Rightarrow> obj list" where
  "rows d t = (case map_of d t of None \<Rightarrow> [] | Some rs \<Rightarrow> rs)"

definition set_rows :: "string \<Rightarrow> obj list \<Rightarrow> store \<Rightarrow> store" where
  "set_rows t rs d = AList.update t rs d"

lemma rows_set_rows [simp]: "rows (set_rows t rs d) t' = (if t' = t then rs else rows d t')"
  by (simp add: rows_def set_rows_def update_conv')

record boil_env =
  be_skip_timestamps :: bool
  be_now :: "nat \<Rightarrow> time"
  be_fault :: "nat \<Rightarrow> go_error option"
  be_lost :: "nat \<Rightarrow> go_error option"
  be_columns :: "string \<Rightarrow> string list"
  be_default :: "nat \<Rightarrow> string \<Rightarrow> string \<Rightarrow> sql_value"
  be_check :: "store \<Rightarrow> string \<Rightarrow> obj list \<Rightarrow> obj \<Rightarrow> go_error option"
  be_deleted :: "string \<Rightarrow> obj list \<Rightarrow> store \<Rightarrow> go_error + store"
  be_order :: "nat \<Rightarrow> obj list \<Rightarrow> obj list"
  be_compare :: "string \<Rightarrow> sql_value \<Rightarrow> sql_value \<Rightarrow> bool"
  be_raw :: "nat \<Rightarrow> stmt \<Rightarrow> sql_value list \<Rightarrow> store \<Rightarrow> go_error + (obj list \<times> nat) \<times> store"

definition bind_error :: go_error where
  "bind_error = ErrDriver ''pq: bind message supplies a wrong number of parameters''"

definition undefined_column :: go_error where
  "undefined_column = ErrDriver ''pq: column does not exist''"

text \<open>Equality in a WHERE clause: NULL is equal to nothing.\<close>

definition sql_eq :: "sql_value \<Rightarrow> sql_value \<Rightarrow> bool" where
  "sql_eq a b \<longleftrightarrow> a \<noteq> VNull \<and> a = b"

definition where_holds :: "sql_value list \<Rightarrow> param list list \<Rightarrow> obj \<Rightarrow> bool" where
  "where_holds args w r = list_ex (list_all (\<lambda>(c, i). sql_eq (fld r c) (arg args i))) w"

fun cond_holds :: "boil_env \<Rightarrow> obj \<Rightarrow> cond \<Rightarrow> bool" where
  "cond_holds e r (CompareC c op v) = be_compare e op (fld r c) v"
| "cond_holds e r (EqualC c neg v) =
     (if v = VNull then (fld r c = VNull) \<noteq> neg else fld r c \<noteq> VNull \<and> ((fld r c = v) \<noteq> neg))"
| "cond_holds e r (InC c neg vs) = (fld r c \<noteq> VNull \<and> ((fld r c \<in> set vs) \<noteq> neg))"
| "cond_holds e r (NullC c neg) = ((fld r c = VNull) \<noteq> neg)"

text \<open>The rows of a table changed by \<open>f\<close> where \<open>p\<close> holds, unless one of them violates a constraint.\<close>

fun change_rows ::
    "boil_env \<Rightarrow> store \<Rightarrow> string \<Rightarrow> (obj \<Rightarrow> bool) \<Rightarrow> (obj \<Rightarrow> obj) \<Rightarrow> obj list \<Rightarrow> obj list \<Rightarrow> go_error + obj list" where
  "change_rows e d t p f done [] = Inr done"
| "change_rows e d t p f done (r # rs) =
     (if p r then (case be_check e d t (done @ rs) (f r) of
          Some x \<Rightarrow> Inl x
        | None \<Rightarrow> change_rows e d t p f (done @ [f r]) rs)
      else change_rows e d t p f (done @ [r]) rs)"

definition pg_update ::
    "boil_env \<Rightarrow> string \<Rightarrow> (obj \<Rightarrow> bool) \<Rightarrow> (obj \<Rightarrow> obj) \<Rightarrow> store \<Rightarrow> go_error + (obj list \<times> nat) \<times> store" where
  "pg_update e t p f d = (case change_rows e d t p f [] (rows d t) of
      Inl x \<Rightarrow> Inl x
    | Inr rs \<Rightarrow> Inr (([], length (filter p (rows d t))), set_rows t rs d))"

definition pg_delete ::
    "boil_env \<Rightarrow> string \<Rightarrow> (obj \<Rightarrow> bool) \<Rightarrow> store \<Rightarrow> go_error + (obj list \<times> nat) \<times> store" where
  "pg_delete e t p d = (let gone = filter p (rows d t) in
     case be_deleted e t gone (set_rows t (filter (\<lambda>r. \<not> p r) (rows d t)) d) of
       Inl x \<Rightarrow> Inl x
     | Inr d' \<Rightarrow> Inr (([], length gone), d'))"

definition new_row :: "boil_env \<Rightarrow> nat \<Rightarrow> string \<Rightarrow> string list \<Rightarrow> nat list \<Rightarrow> sql_value list \<Rightarrow> obj" where
  "new_row e n t cols ps args = map (\<lambda>c. (c, case map_of (zip cols ps) c of
      None \<Rightarrow> be_default e n t c | Some i \<Rightarrow> arg args i)) (be_columns e t)"

definition returned :: "string list \<Rightarrow> obj \<Rightarrow> obj" where
  "returned ret r = map (\<lambda>c. (c, fld r c)) ret"

definition pg_insert ::
    "boil_env \<Rightarrow> nat \<Rightarrow> string \<Rightarrow> string list \<Rightarrow> nat list \<Rightarrow> string list \<Rightarrow> sql_value list \<Rightarrow> store \<Rightarrow>
      go_error + (obj list \<times> nat) \<times> store" where
  "pg_insert e n t cols ps ret args d = (let r = new_row e n t cols ps args in
     case be_check e d t (rows d t) r of
       Some x \<Rightarrow> Inl x
     | None \<Rightarrow> Inr (([returned ret r], 1), set_rows t (rows d t @ [r]) d))"

definition same_key :: "string list \<Rightarrow> obj \<Rightarrow> obj \<Rightarrow> bool" where
  "same_key cols r s = list_all (\<lambda>c. sql_eq (fld r c) (fld s c)) cols"

text \<open>
  \<open>INSERT ... ON CONFLICT\<close> with a list of conflict columns; with none, as with raw texts, what happens is
  left to \<open>be_raw\<close>.
\<close>

definition pg_upsert ::
    "boil_env \<Rightarrow> nat \<Rightarrow> string \<Rightarrow> string list \<Rightarrow> nat list \<Rightarrow> string list \<Rightarrow> bool \<Rightarrow> string list \<Rightarrow> string list \<Rightarrow>
      sql_value list \<Rightarrow> store \<Rightarrow> go_error + (obj list \<times> nat) \<times> store" where
  "pg_upsert e n t cols ps conflict update upd ret args d =
     (let r = new_row e n t cols ps args in
      if filter (same_key conflict r) (rows d t) = [] then pg_insert e n t cols ps ret args d
      else if \<not> update then Inr (([], 0), d)
      else (let f = (\<lambda>s. fold (\<lambda>c. set_fld c (fld r c)) upd s); p = same_key conflict r in
            case pg_update e t p f d of
              Inl x \<Rightarrow> Inl x
            | Inr ((_, k), d') \<Rightarrow> Inr ((map (\<lambda>s. returned ret (f s)) (filter p (rows d t)), k), d')))"

definition pg_query :: "boil_env \<Rightarrow> nat \<Rightarrow> query_obj \<Rightarrow> store \<Rightarrow> go_error + (obj list \<times> nat) \<times> store" where
  "pg_query e n q d =
     (let t = stmt_table (QueryS q); p = (\<lambda>r. list_all (cond_holds e r) (qo_where q)) in
      if qo_delete q then pg_delete e t p d
      else if qo_update q \<noteq> [] then pg_update e t p (\<lambda>r. fold (\<lambda>(c, v). set_fld c v) (qo_update q) r) d
      else if qo_count q then Inr (([[(''count'', VInt (int (length (filter p (rows d t)))))]], 1), d)
      else (let rs = be_order e n (filter p (rows d t)); rs = (case qo_limit q of None \<Rightarrow> rs | Some k \<Rightarrow> take k rs) in
            Inr ((rs, length rs), d)))"

fun pg_effect :: "boil_env \<Rightarrow> nat \<Rightarrow> stmt \<Rightarrow> sql_value list \<Rightarrow> store \<Rightarrow> go_error + (obj list \<times> nat) \<times> store" where
  "pg_effect e n (InsertS t cols ps ret) args d = pg_insert e n t cols ps ret args d"
| "pg_effect e n (UpdateS t s w) args d =
     pg_update e t (where_holds args w) (\<lambda>r. fold (\<lambda>(c, i). set_fld c (arg args i)) s r) d"
| "pg_effect e n (DeleteS t w) args d = pg_delete e t (where_holds args w) d"
| "pg_effect e n (SelectS t cols w) args d =
     (let rs = be_order e n (filter (where_holds args w) (rows d t)) in
      Inr ((if cols = [] then rs else map (returned cols) rs, length rs), d))"
| "pg_effect e n (ExistsS t w) args d =
     Inr (([[(''exists'', VBool (list_ex (where_holds args [w]) (rows d t)))]], 1), d)"
| "pg_effect e n (UpsertS t cols ps opts conflict update upd ret) args d =
     (if uo_conflict_target opts \<noteq> [] \<or> uo_update_set opts \<noteq> [] \<or> conflict = []
      then be_raw e n (UpsertS t cols ps opts conflict update upd ret) args d
      else pg_upsert e n t cols ps conflict update upd ret args d)"
| "pg_effect e n (DetachS t c p) args d = pg_update e t (where_holds args [[p]]) (set_fld c VNull) d"
| "pg_effect e n (QueryS q) args d = pg_query e n q d"

definition pg_run :: "boil_env \<Rightarrow> nat \<Rightarrow> stmt \<Rightarrow> sql_value list \<Rightarrow> store \<Rightarrow> go_error + (obj list \<times> nat) \<times> store" where
  "pg_run e n s args d =
     (if \<not> binds s args then Inl bind_error
      else if \<not> set (stmt_cols s) \<subseteq> set (be_columns e (stmt_table s)) then Inl undefined_column
      else pg_effect e n s args d)"

end
