(* ===== verification/Boil_World.thy ===== *)
theory Boil_World
  imports Boil_Sql
begin

text \<open>
  The process around the generated models: objects on the heap (addresses are positions in a list; a pointer
  of the code is valid), the statement caches of every table, the
  connection, and the functions of sqlboiler the generated code calls.
\<close>

section \<open>The library\<close>

datatype columns_kind = ColumnsNone | ColumnsInfer | ColumnsWhitelist | ColumnsGreylist | ColumnsBlacklist

record boil_columns =
  co_kind :: columns_kind
  co_cols :: "string list"

definition Infer :: boil_columns where
  "Infer = \<lparr>co_kind = ColumnsInfer, co_cols = []\<rparr>"

definition Whitelist :: "string list \<Rightarrow> boil_columns" where
  "Whitelist cs = \<lparr>co_kind = ColumnsWhitelist, co_cols = cs\<rparr>"

record boil_lib =
  bl_Kind :: "columns_kind \<Rightarrow> nat"
  bl_InsertColumnSet :: "boil_columns \<Rightarrow> string list \<Rightarrow> string list \<Rightarrow> string list \<Rightarrow> string list \<Rightarrow> string list \<times> string list"
  bl_UpdateColumnSet :: "boil_columns \<Rightarrow> string list \<Rightarrow> string list \<Rightarrow> string list"
  bl_NonZeroDefaultSet :: "(string \<times> col_kind) list \<Rightarrow> string list \<Rightarrow> obj \<Rightarrow> string list"
  bl_BindMapping :: "string list \<Rightarrow> string list \<Rightarrow> go_error + string list"
  bl_Equal :: "sql_value \<Rightarrow> sql_value \<Rightarrow> bool"
  bl_IsNil :: "sql_value \<Rightarrow> bool"
  bl_SetComplement :: "string list \<Rightarrow> string list \<Rightarrow> string list"
  bl_SetIntersect :: "string list \<Rightarrow> string list \<Rightarrow> string list"
  bl_Placeholders :: "nat \<Rightarrow> nat \<Rightarrow> nat list"
  bl_SetParamNames :: "nat \<Rightarrow> string list \<Rightarrow> param list"
  bl_WhereClause :: "nat \<Rightarrow> string list \<Rightarrow> param list"
  bl_WhereClauseRepeated :: "nat \<Rightarrow> string list \<Rightarrow> nat \<Rightarrow> param list list"

text \<open>
  The documented behaviour: which columns are inserted, returned and updated for each kind of column
  list, and the numbering of the placeholders.
\<close>

definition insert_set_law :: "boil_columns \<Rightarrow> string list \<Rightarrow> string list \<Rightarrow> string list \<Rightarrow> string list \<times> string list \<Rightarrow> bool" where
  "insert_set_law cs wd wo nz res = (case res of (wl, ret) \<Rightarrow>
     (case co_kind cs of
        ColumnsNone \<Rightarrow> wl = [] \<and> ret = []
      | ColumnsInfer \<Rightarrow> set wl = set wo \<union> set nz
      | ColumnsWhitelist \<Rightarrow> wl = co_cols cs
      | ColumnsGreylist \<Rightarrow> set wl = set wo \<union> set nz \<union> set (co_cols cs)
      | ColumnsBlacklist \<Rightarrow> set wl = (set wo \<union> set nz) - set (co_cols cs)) \<and>
     (co_kind cs \<noteq> ColumnsNone \<longrightarrow> set ret = set wd - set wl) \<and>
     (co_kind cs \<noteq> ColumnsWhitelist \<longrightarrow> distinct wl) \<and> (distinct wd \<longrightarrow> distinct ret))"

definition update_set_law :: "boil_columns \<Rightarrow> string list \<Rightarrow> string list \<Rightarrow> string list \<Rightarrow> bool" where
  "update_set_law cs all pk wl =
     ((case co_kind cs of
        ColumnsNone \<Rightarrow> wl = []
      | ColumnsInfer \<Rightarrow> set wl = set all - set pk
      | ColumnsWhitelist \<Rightarrow> wl = co_cols cs
      | ColumnsGreylist \<Rightarrow> set wl = (set all - set pk) \<union> set (co_cols cs)
      | ColumnsBlacklist \<Rightarrow> set wl = set all - set pk - set (co_cols cs)) \<and>
      (co_kind cs \<noteq> ColumnsWhitelist \<and> distinct all \<longrightarrow> distinct wl))"

definition non_zero :: "(string \<times> col_kind) list \<Rightarrow> obj \<Rightarrow> string \<Rightarrow> bool" where
  "non_zero kinds ob c = (case map_of kinds c of None \<Rightarrow> False | Some k \<Rightarrow> fld ob c \<noteq> zero_value k)"

definition lib_laws :: "boil_lib \<Rightarrow> bool" where
  "lib_laws L \<longleftrightarrow>
     inj (bl_Kind L) \<and>
     (\<forall>cs all wd wo nz. distinct wo \<longrightarrow> distinct nz \<longrightarrow> insert_set_law cs wd wo nz (bl_InsertColumnSet L cs all wd wo nz)) \<and>
     (\<forall>cs all pk. update_set_law cs all pk (bl_UpdateColumnSet L cs all pk)) \<and>
     (\<forall>fs ds ob. bl_NonZeroDefaultSet L fs ds ob = filter (non_zero fs ob) ds) \<and>
     (\<forall>fs cs. if set cs \<subseteq> set fs then bl_BindMapping L fs cs = Inr cs else \<exists>x. bl_BindMapping L fs cs = Inl x) \<and>
     (\<forall>a b. bl_Equal L a b \<longleftrightarrow> a = b) \<and> (\<forall>a. bl_IsNil L a \<longleftrightarrow> a = VNull) \<and>
     (\<forall>a b. bl_SetComplement L a b = filter (\<lambda>c. c \<notin> set b) a) \<and>
     (\<forall>a b. bl_SetIntersect L a b = filter (\<lambda>c. c \<in> set b) a) \<and>
     (\<forall>n i. bl_Placeholders L n i = [i..<i + n]) \<and>
     (\<forall>i cs. bl_SetParamNames L i cs = zip cs [i..<i + length cs]) \<and>
     (\<forall>i cs. bl_WhereClause L i cs = zip cs [i..<i + length cs]) \<and>
     (\<forall>i cs n. bl_WhereClauseRepeated L i cs n =
        map (\<lambda>k. zip cs [i + k * length cs..<i + Suc k * length cs]) [0..<n])"

section \<open>The state\<close>

type_synonym addr = nat
type_synonym ptr = "addr option" \<comment> \<open>a pointer to an object, or nil\<close>

text \<open>An object with its relationship struct \<open>R\<close>: nil, or the objects under the name of each relationship.\<close>

record boil_object =
  bo_fields :: obj
  bo_R :: "(string \<Rightarrow> ptr list) option"

record insert_cache =
  ic_query :: stmt
  ic_values :: "string list"
  ic_ret :: "string list"

record update_cache =
  uc_query :: stmt
  uc_values :: "string list"

record boil_world =
  bw_store :: store
  bw_tick :: nat
  bw_sent :: "(stmt \<times> sql_value list) list"
  bw_heap :: "boil_object list"
  bw_insert_cache :: "((string \<times> string) \<times> insert_cache) list"
  bw_update_cache :: "((string \<times> string) \<times> update_cache) list"
  bw_upsert_cache :: "((string \<times> string) \<times> insert_cache) list"

definition nil_deref :: string where
  "nil_deref = ''runtime error: invalid memory address or nil pointer dereference''"

definition boil_now :: "boil_env \<Rightarrow> (boil_world, time) prog" where
  "boil_now e = (\<lambda>w. (Ok (be_now e (bw_tick w)), w\<lparr>bw_tick := Suc (bw_tick w)\<rparr>))"

definition alloc :: "obj \<Rightarrow> (boil_world, addr) prog" where
  "alloc ob = (\<lambda>w. (Ok (length (bw_heap w)), w\<lparr>bw_heap := bw_heap w @ [\<lparr>bo_fields = ob, bo_R = None\<rparr>]\<rparr>))"

fun alloc_all :: "obj list \<Rightarrow> (boil_world, addr list) prog" where
  "alloc_all [] = okP []"
| "alloc_all (x # xs) = bindP (alloc x) (\<lambda>a. bindP (alloc_all xs) (\<lambda>as. okP (a # as)))"

definition object :: "boil_world \<Rightarrow> addr \<Rightarrow> boil_object" where
  "object w a = (if a < length (bw_heap w) then bw_heap w ! a else \<lparr>bo_fields = [], bo_R = None\<rparr>)"

definition load :: "ptr \<Rightarrow> (boil_world, obj) prog" where
  "load p = (case p of None \<Rightarrow> panicP nil_deref | Some a \<Rightarrow> (\<lambda>w. (Ok (bo_fields (object w a)), w)))"

definition write_fields :: "(obj \<Rightarrow> obj) \<Rightarrow> boil_object \<Rightarrow> boil_object" where
  "write_fields f x = x\<lparr>bo_fields := f (bo_fields x)\<rparr>"

definition modify :: "ptr \<Rightarrow> (obj \<Rightarrow> obj) \<Rightarrow> (boil_world, unit) prog" where
  "modify p f = (case p of None \<Rightarrow> panicP nil_deref
     | Some a \<Rightarrow> (\<lambda>w. (Ok (), w\<lparr>bw_heap := (bw_heap w)[a := write_fields f (object w a)]\<rparr>)))"

text \<open>A statement on the connection: its rows and the number of rows affected.\<close>

definition exec_context :: "boil_env \<Rightarrow> stmt \<Rightarrow> sql_value list \<Rightarrow> (boil_world, obj list \<times> nat) prog" where
  "exec_context e s args = (\<lambda>w.
     let n = bw_tick w; w1 = w\<lparr>bw_tick := Suc n, bw_sent := bw_sent w @ [(s, args)]\<rparr> in
     case be_fault e n of
       Some x \<Rightarrow> (Err x, w1)
     | None \<Rightarrow> (case pg_run e n s args (bw_store w) of
         Inl x \<Rightarrow> (Err x, w1)
       | Inr (res, d) \<Rightarrow> (Ok res, w1\<lparr>bw_store := d\<rparr>)))"

text \<open>What comes back after the statement: \<open>RowsAffected\<close> and \<open>Scan\<close> may fail although it took effect.\<close>

definition receive :: "boil_env \<Rightarrow> 'a \<Rightarrow> (boil_world, 'a) prog" where
  "receive e x = (\<lambda>w. (case be_lost e (bw_tick w) of Some y \<Rightarrow> Err y | None \<Rightarrow> Ok x, w\<lparr>bw_tick := Suc (bw_tick w)\<rparr>))"

definition query_row :: "boil_env \<Rightarrow> stmt \<Rightarrow> sql_value list \<Rightarrow> (boil_world, obj) prog" where
  "query_row e s args = bindP (exec_context e s args) (\<lambda>(rows, _).
     case rows of [] \<Rightarrow> errP ErrNoRows | r # _ \<Rightarrow> receive e r)"

definition query_all :: "boil_env \<Rightarrow> stmt \<Rightarrow> sql_value list \<Rightarrow> (boil_world, obj list) prog" where
  "query_all e s args = bindP (exec_context e s args) (\<lambda>(rows, _). receive e rows)"

definition liftS :: "go_error + 'a \<Rightarrow> ('s, 'a) prog" where
  "liftS r = (case r of Inl x \<Rightarrow> errP x | Inr y \<Rightarrow> okP y)"

section \<open>boil\_types.go: the key of a cached statement\<close>

definition makeCacheKey :: "boil_lib \<Rightarrow> boil_columns \<Rightarrow> string list \<Rightarrow> string" where
  "makeCacheKey L cols nzDefaults =
     show_nat (bl_Kind L (co_kind cols)) @ concat (co_cols cols) @
     (if nzDefaults \<noteq> [] then ''.'' else []) @ concat nzDefaults"

end
