(* ===== verification/Boil_Crud.thy ===== *)
theory Boil_Crud
  imports Boil_World
begin

text \<open>
  The operations sqlboiler generates for every table, once for an arbitrary table: the functions
  \<open>One\<close>, \<open>All\<close>, \<open>Count\<close>, \<open>Exists\<close>, \<open>Find\<close>, \<open>Insert\<close>, \<open>Update\<close>, \<open>UpdateAll\<close>, \<open>Upsert\<close>, \<open>Delete\<close>,
  \<open>DeleteAll\<close>, \<open>Reload\<close> and \<open>ReloadAll\<close> of internal/models/*.go, which differ from table to table only in
  what the record \<open>boil_table\<close> holds.  Debug output is left out.
\<close>

section \<open>Queries\<close>

type_synonym query_mod = "query_obj \<Rightarrow> query_obj"

definition empty_query :: query_obj where
  "empty_query = \<lparr>qo_from = [], qo_where = [], qo_select = [], qo_count = False, qo_limit = None,
     qo_delete = False, qo_update = []\<rparr>"

definition NewQuery :: "query_mod list \<Rightarrow> query_obj" where
  "NewQuery mods = fold (\<lambda>m q. m q) mods empty_query"

definition qm_From :: "string \<Rightarrow> query_mod" where
  "qm_From t q = q\<lparr>qo_from := qo_from q @ [t]\<rparr>"

definition qm_Where :: "cond \<Rightarrow> query_mod" where
  "qm_Where c q = q\<lparr>qo_where := qo_where q @ [c]\<rparr>"

definition boil_Query :: "boil_table \<Rightarrow> query_mod list \<Rightarrow> query_obj" where
  "boil_Query t mods =
     (let q = NewQuery (mods @ [qm_From (tb_name t)]) in
      if qo_select q = [] then q\<lparr>qo_select := [tb_name t @ ''.*'']\<rparr> else q)"

text \<open>Into a new object: the first row, or \<open>sql.ErrNoRows\<close>.\<close>

definition bind_one :: "boil_env \<Rightarrow> boil_table \<Rightarrow> stmt \<Rightarrow> sql_value list \<Rightarrow> addr \<Rightarrow> (boil_world, unit) prog" where
  "bind_one e t s args a = bindP (query_row e s args) (\<lambda>r. modify (Some a) (\<lambda>_. bind_row t r))"

text \<open>What \<open>One\<close> and \<open>Find\<close> do with an error: \<open>sql.ErrNoRows\<close> is passed on as it is.\<close>

definition or_no_rows :: "string \<Rightarrow> (boil_world, unit) prog \<Rightarrow> 'a \<Rightarrow> (boil_world, 'a) prog" where
  "or_no_rows msg m x = tryP m (\<lambda>r. case r of
      Inl err \<Rightarrow> if errors_is err ErrNoRows then errP ErrNoRows else errP (ErrWrap msg err)
    | Inr _ \<Rightarrow> okP x)"

definition boil_One :: "boil_env \<Rightarrow> boil_table \<Rightarrow> query_obj \<Rightarrow> (boil_world, addr) prog" where
  "boil_One e t q = bindP (alloc (zero_obj t)) (\<lambda>a.
     or_no_rows (''models: failed to execute a one query for '' @ tb_name t)
       (bind_one e t (QueryS (q\<lparr>qo_limit := Some 1\<rparr>)) [] a) a)"

definition boil_All :: "boil_env \<Rightarrow> boil_table \<Rightarrow> query_obj \<Rightarrow> (boil_world, addr list) prog" where
  "boil_All e t q =
     wrapP (''models: failed to assign all query results to '' @ tb_model t @ '' slice'')
       (bindP (query_all e (QueryS q) []) (\<lambda>rows. alloc_all (map (bind_row t) rows)))"

definition count_query :: "query_obj \<Rightarrow> query_obj" where
  "count_query q = q\<lparr>qo_select := [], qo_count := True\<rparr>"

definition scan_count :: "boil_env \<Rightarrow> query_obj \<Rightarrow> (boil_world, int) prog" where
  "scan_count e q = bindP (query_row e (QueryS q) []) (\<lambda>r. case fld r ''count'' of
      VInt k \<Rightarrow> okP k | _ \<Rightarrow> errP (ErrDriver ''sql: Scan error''))"

definition boil_Count :: "boil_env \<Rightarrow> boil_table \<Rightarrow> query_obj \<Rightarrow> (boil_world, int) prog" where
  "boil_Count e t q =
     wrapP (''models: failed to count '' @ tb_name t @ '' rows'') (scan_count e (count_query q))"

definition boil_Exists :: "boil_env \<Rightarrow> boil_table \<Rightarrow> query_obj \<Rightarrow> (boil_world, bool) prog" where
  "boil_Exists e t q = bindP
     (wrapP (''models: failed to check if '' @ tb_name t @ '' exists'')
       (scan_count e ((count_query q)\<lparr>qo_limit := Some 1\<rparr>)))
     (\<lambda>count. okP (count > 0))"

section \<open>Find and Exists by primary key\<close>

text \<open>The conditions on the primary key, whose placeholders are written out in the code: \<open>$1\<close>, \<open>$2\<close>.\<close>

definition pk_params :: "boil_table \<Rightarrow> param list" where
  "pk_params t = zip (tb_pk t) [1..<Suc (length (tb_pk t))]"

definition boil_Find :: "boil_env \<Rightarrow> boil_table \<Rightarrow> sql_value list \<Rightarrow> string list \<Rightarrow> (boil_world, addr) prog" where
  "boil_Find e t keys selectCols = bindP (alloc (zero_obj t)) (\<lambda>a.
     or_no_rows (''models: unable to select from '' @ tb_name t)
       (bind_one e t (SelectS (tb_name t) selectCols [pk_params t]) keys a) a)"

definition boil_ExistsByPK :: "boil_env \<Rightarrow> boil_table \<Rightarrow> sql_value list \<Rightarrow> (boil_world, bool) prog" where
  "boil_ExistsByPK e t keys =
     wrapP (''models: unable to check if '' @ tb_name t @ '' exists'')
       (bindP (query_row e (ExistsS (tb_name t) (pk_params t)) keys)
         (\<lambda>r. okP (fld r ''exists'' = VBool True)))"

definition pk_of :: "boil_table \<Rightarrow> obj \<Rightarrow> sql_value list" where
  "pk_of t ob = map (fld ob) (tb_pk t)"

definition boil_ObjExists :: "boil_env \<Rightarrow> boil_table \<Rightarrow> ptr \<Rightarrow> (boil_world, bool) prog" where
  "boil_ObjExists e t p = bindP (load p) (\<lambda>ob. boil_ExistsByPK e t (pk_of t ob))"

section \<open>Cached statements\<close>

text \<open>
  The frame of \<open>Insert\<close>, \<open>Update\<close> and \<open>Upsert\<close>: take the cached statement or make a new plan, run it,
  and keep a new plan that has worked.
\<close>

definition with_cache ::
    "(boil_world \<Rightarrow> 'c option) \<Rightarrow> go_error + 'c \<Rightarrow> ('c \<Rightarrow> boil_world \<Rightarrow> boil_world) \<Rightarrow>
      ('c \<Rightarrow> (boil_world, 'a) prog) \<Rightarrow> (boil_world, 'a) prog" where
  "with_cache lookup plan keep run =
     bindP (\<lambda>w. (Ok (lookup w), w)) (\<lambda>cached.
     bindP (case cached of Some cache \<Rightarrow> okP cache | None \<Rightarrow> liftS plan) (\<lambda>cache.
     bindP (run cache) (\<lambda>x.
     thenP (if cached = None then (\<lambda>w. (Ok (), keep cache w)) else okP ()) (okP x))))"

section \<open>Insert\<close>

definition has_col :: "boil_table \<Rightarrow> string \<Rightarrow> bool" where
  "has_col t c \<longleftrightarrow> c \<in> set (map fst (tb_fields t))"

text \<open>\<open>created_at\<close> and \<open>updated_at\<close>: which of them a table has decides what is generated.\<close>

definition set_if_zero :: "boil_table \<Rightarrow> string \<Rightarrow> time \<Rightarrow> obj \<Rightarrow> obj" where
  "set_if_zero t c now ob = (if has_col t c \<and> is_zero_time (fld ob c) then set_fld c (VTime now) ob else ob)"

definition set_always :: "boil_table \<Rightarrow> string \<Rightarrow> time \<Rightarrow> obj \<Rightarrow> obj" where
  "set_always t c now ob = (if has_col t c then set_fld c (VTime now) ob else ob)"

definition insert_timestamps :: "boil_env \<Rightarrow> boil_table \<Rightarrow> ptr \<Rightarrow> (boil_world, unit) prog" where
  "insert_timestamps e t p =
     (if be_skip_timestamps e \<or> \<not> has_col t ''created_at'' \<and> \<not> has_col t ''updated_at'' then okP ()
      else bindP (boil_now e) (\<lambda>currTime.
        modify p (set_if_zero t ''updated_at'' currTime \<circ> set_if_zero t ''created_at'' currTime)))"

text \<open>What is built when the statement is not cached.\<close>

definition insert_plan :: "boil_lib \<Rightarrow> boil_table \<Rightarrow> boil_columns \<Rightarrow> string list \<Rightarrow> go_error + insert_cache" where
  "insert_plan L t columns nzDefaults =
     (let (wl, returnColumns) = bl_InsertColumnSet L columns (tb_all t) (tb_with_default t) (tb_without_default t) nzDefaults in
      case bl_BindMapping L (map fst (tb_fields t)) wl of
        Inl x \<Rightarrow> Inl x
      | Inr valueMapping \<Rightarrow> (case bl_BindMapping L (map fst (tb_fields t)) returnColumns of
          Inl x \<Rightarrow> Inl x
        | Inr retMapping \<Rightarrow>
            Inr \<lparr>ic_query = InsertS (tb_name t) wl (if wl \<noteq> [] then bl_Placeholders L (length wl) 1 else [])
                   (if retMapping \<noteq> [] then returnColumns else []),
                 ic_values = valueMapping, ic_ret = retMapping\<rparr>))"

text \<open>\<open>Scan(queries.PtrsFromMapping(value, mapping)...)\<close>: the returned values into the fields.\<close>

definition scan_fields :: "string list \<Rightarrow> obj \<Rightarrow> obj \<Rightarrow> obj" where
  "scan_fields mapping r ob = fold (\<lambda>c. set_fld c (fld r c)) mapping ob"

definition run_insert :: "boil_env \<Rightarrow> ptr \<Rightarrow> insert_cache \<Rightarrow> (boil_world, unit) prog" where
  "run_insert e p cache = bindP (load p) (\<lambda>value.
     let vals = map (fld value) (ic_values cache) in
     if ic_ret cache \<noteq> []
     then bindP (query_row e (ic_query cache) vals) (\<lambda>r. modify p (scan_fields (ic_ret cache) r))
     else thenP (exec_context e (ic_query cache) vals) (okP ()))"

definition store_insert :: "boil_table \<Rightarrow> string \<Rightarrow> insert_cache \<Rightarrow> boil_world \<Rightarrow> boil_world" where
  "store_insert t key cache w = w\<lparr>bw_insert_cache := ((tb_name t, key), cache) # bw_insert_cache w\<rparr>"

definition boil_Insert :: "boil_lib \<Rightarrow> boil_env \<Rightarrow> boil_table \<Rightarrow> ptr \<Rightarrow> boil_columns \<Rightarrow> (boil_world, unit) prog" where
  "boil_Insert L e t p columns =
     (if p = None then errP (ErrPlain (''models: no '' @ tb_name t @ '' provided for insertion''))
      else
        thenP (insert_timestamps e t p)
       (bindP (load p) (\<lambda>ob.
        let nzDefaults = bl_NonZeroDefaultSet L (tb_fields t) (tb_with_default t) ob;
            key = makeCacheKey L columns nzDefaults in
        with_cache (\<lambda>w. map_of (bw_insert_cache w) (tb_name t, key)) (insert_plan L t columns nzDefaults) (store_insert t key)
          (\<lambda>cache. wrapP (''models: unable to insert into '' @ tb_name t) (run_insert e p cache)))))"

section \<open>Update\<close>

definition update_timestamps :: "boil_env \<Rightarrow> boil_table \<Rightarrow> ptr \<Rightarrow> (boil_world, unit) prog" where
  "update_timestamps e t p =
     (if be_skip_timestamps e \<or> \<not> has_col t ''updated_at'' then okP ()
      else bindP (boil_now e) (\<lambda>currTime. modify p (set_always t ''updated_at'' currTime)))"

definition update_plan :: "boil_lib \<Rightarrow> boil_table \<Rightarrow> boil_columns \<Rightarrow> go_error + update_cache" where
  "update_plan L t columns =
     (let wl = bl_UpdateColumnSet L columns (tb_all t) (tb_pk t);
          wl = (if co_kind columns \<noteq> ColumnsWhitelist then bl_SetComplement L wl [''created_at''] else wl) in
      if wl = [] then Inl (ErrPlain (''models: unable to update '' @ tb_name t @ '', could not build whitelist''))
      else (case bl_BindMapping L (map fst (tb_fields t)) (wl @ tb_pk t) of
          Inl x \<Rightarrow> Inl x
        | Inr valueMapping \<Rightarrow>
            Inr \<lparr>uc_query = UpdateS (tb_name t) (bl_SetParamNames L 1 wl) [bl_WhereClause L (length wl + 1) (tb_pk t)],
                 uc_values = valueMapping\<rparr>))"

definition affected :: "boil_env \<Rightarrow> string \<Rightarrow> string \<Rightarrow> (boil_world, obj list \<times> nat) prog \<Rightarrow> (boil_world, int) prog" where
  "affected e msg_exec msg_rows m =
     bindP (wrapP msg_exec m) (\<lambda>(_, k). wrapP msg_rows (receive e (int k)))"

definition store_update :: "boil_table \<Rightarrow> string \<Rightarrow> update_cache \<Rightarrow> boil_world \<Rightarrow> boil_world" where
  "store_update t key cache w = w\<lparr>bw_update_cache := ((tb_name t, key), cache) # bw_update_cache w\<rparr>"

definition run_update :: "boil_env \<Rightarrow> boil_table \<Rightarrow> ptr \<Rightarrow> update_cache \<Rightarrow> (boil_world, int) prog" where
  "run_update e t p cache = bindP (load p) (\<lambda>ob.
     affected e (''models: unable to update '' @ tb_name t @ '' row'')
       (''models: failed to get rows affected by update for '' @ tb_name t)
       (exec_context e (uc_query cache) (map (fld ob) (uc_values cache))))"

definition boil_Update :: "boil_lib \<Rightarrow> boil_env \<Rightarrow> boil_table \<Rightarrow> ptr \<Rightarrow> boil_columns \<Rightarrow> (boil_world, int) prog" where
  "boil_Update L e t p columns =
     thenP (update_timestamps e t p)
    (let key = makeCacheKey L columns [] in
     with_cache (\<lambda>w. map_of (bw_update_cache w) (tb_name t, key)) (update_plan L t columns) (store_update t key) (run_update e t p))"

section \<open>UpdateAll\<close>

definition boil_QueryUpdateAll :: "boil_env \<Rightarrow> boil_table \<Rightarrow> query_obj \<Rightarrow> (string \<times> sql_value) list \<Rightarrow> (boil_world, int) prog" where
  "boil_QueryUpdateAll e t q cols =
     affected e (''models: unable to update all for '' @ tb_name t)
       (''models: unable to retrieve rows affected for '' @ tb_name t)
       (exec_context e (QueryS (q\<lparr>qo_update := cols\<rparr>)) [])"

fun load_all :: "ptr list \<Rightarrow> (boil_world, obj list) prog" where
  "load_all [] = okP []"
| "load_all (p # ps) = bindP (load p) (\<lambda>x. bindP (load_all ps) (\<lambda>xs. okP (x # xs)))"

text \<open>The columns are a map, \<open>cols\<close> its entries in the order of one iteration.\<close>

definition boil_SliceUpdateAll ::
    "boil_lib \<Rightarrow> boil_env \<Rightarrow> boil_table \<Rightarrow> ptr list \<Rightarrow> (string \<times> sql_value) list \<Rightarrow> (boil_world, int) prog" where
  "boil_SliceUpdateAll L e t ps cols =
     (if ps = [] then okP 0
      else if cols = [] then errP (ErrPlain ''models: update all requires at least one column argument'')
      else bindP (load_all ps) (\<lambda>obs.
        affected e (''models: unable to update all in '' @ tb_query t @ '' slice'')
          (''models: unable to retrieve rows affected all in update all '' @ tb_query t)
          (exec_context e
            (UpdateS (tb_name t) (bl_SetParamNames L 1 (map fst cols))
               (bl_WhereClauseRepeated L (length cols + 1) (tb_pk t) (length ps)))
            (map snd cols @ concat (map (pk_of t) obs)))))"

section \<open>Upsert\<close>

definition upsert_timestamps :: "boil_env \<Rightarrow> boil_table \<Rightarrow> ptr \<Rightarrow> (boil_world, unit) prog" where
  "upsert_timestamps e t p =
     (if be_skip_timestamps e \<or> \<not> has_col t ''created_at'' \<and> \<not> has_col t ''updated_at'' then okP ()
      else bindP (boil_now e) (\<lambda>currTime.
        modify p (set_always t ''updated_at'' currTime \<circ> set_if_zero t ''created_at'' currTime)))"

definition upsert_key ::
    "boil_lib \<Rightarrow> bool \<Rightarrow> string list \<Rightarrow> boil_columns \<Rightarrow> boil_columns \<Rightarrow> string list \<Rightarrow> string" where
  "upsert_key L updateOnConflict conflictColumns updateColumns insertColumns nzDefaults =
     (if updateOnConflict then ''t'' else ''f'') @ ''.'' @ concat conflictColumns @ ''.'' @
     show_nat (bl_Kind L (co_kind updateColumns)) @ concat (co_cols updateColumns) @ ''.'' @
     show_nat (bl_Kind L (co_kind insertColumns)) @ concat (co_cols insertColumns) @ ''.'' @ concat nzDefaults"

text \<open>
  \<open>buildUpsertQueryPostgres\<close>: the options are applied one after the other; without update columns the
  statement does nothing on a conflict.
\<close>

definition buildUpsertQueryPostgres ::
    "boil_lib \<Rightarrow> string \<Rightarrow> bool \<Rightarrow> string list \<Rightarrow> string list \<Rightarrow> string list \<Rightarrow> string list \<Rightarrow>
      (upsert_options \<Rightarrow> upsert_options) list \<Rightarrow> stmt" where
  "buildUpsertQueryPostgres L tableName updateOnConflict ret update conflict whitelist opts =
     (let upsertOpts = fold (\<lambda>f x. f x) opts \<lparr>uo_conflict_target = [], uo_update_set = []\<rparr>;
          do_update = (updateOnConflict \<and> update \<noteq> []) in
      UpsertS tableName whitelist (if whitelist \<noteq> [] then bl_Placeholders L (length whitelist) 1 else [])
        upsertOpts conflict do_update
        (if do_update \<and> uo_update_set upsertOpts = [] then filter (\<lambda>v. v \<noteq> []) update else []) ret)"

definition UpsertConflictTarget :: "string \<Rightarrow> upsert_options \<Rightarrow> upsert_options" where
  "UpsertConflictTarget target x = x\<lparr>uo_conflict_target := target\<rparr>"

definition UpsertUpdateSet :: "string \<Rightarrow> upsert_options \<Rightarrow> upsert_options" where
  "UpsertUpdateSet upd x = x\<lparr>uo_update_set := upd\<rparr>"

definition upsert_plan ::
    "boil_lib \<Rightarrow> boil_table \<Rightarrow> bool \<Rightarrow> string list \<Rightarrow> boil_columns \<Rightarrow> boil_columns \<Rightarrow>
      (upsert_options \<Rightarrow> upsert_options) list \<Rightarrow> string list \<Rightarrow> go_error + insert_cache" where
  "upsert_plan L t updateOnConflict conflictColumns updateColumns insertColumns opts nzDefaults =
     (let (insert, _) = bl_InsertColumnSet L insertColumns (tb_all t) (tb_with_default t) (tb_without_default t) nzDefaults;
          update = bl_UpdateColumnSet L updateColumns (tb_all t) (tb_pk t);
          ret = bl_SetComplement L (tb_all t) (bl_SetIntersect L insert update);
          no_conflict = (conflictColumns = [] \<and> updateOnConflict \<and> update \<noteq> []);
          conflict = (if no_conflict then tb_pk t else conflictColumns) in
      if updateOnConflict \<and> update = []
      then Inl (ErrPlain (''models: unable to upsert '' @ tb_name t @ '', could not build update column list''))
      else if no_conflict \<and> tb_pk t = []
      then Inl (ErrPlain (''models: unable to upsert '' @ tb_name t @ '', could not build conflict column list''))
      else (case bl_BindMapping L (map fst (tb_fields t)) insert of
          Inl x \<Rightarrow> Inl x
        | Inr valueMapping \<Rightarrow>
            (case (if ret \<noteq> [] then bl_BindMapping L (map fst (tb_fields t)) ret else Inr []) of
               Inl x \<Rightarrow> Inl x
             | Inr retMapping \<Rightarrow>
                 Inr \<lparr>ic_query = buildUpsertQueryPostgres L (tb_name t) updateOnConflict ret update conflict insert opts,
                      ic_values = valueMapping, ic_ret = retMapping\<rparr>)))"

text \<open>No returned row means that there was nothing to update, which is no error.\<close>

definition run_upsert :: "boil_env \<Rightarrow> ptr \<Rightarrow> insert_cache \<Rightarrow> (boil_world, unit) prog" where
  "run_upsert e p cache = bindP (load p) (\<lambda>value.
     let vals = map (fld value) (ic_values cache) in
     if ic_ret cache \<noteq> []
     then tryP (query_row e (ic_query cache) vals) (\<lambda>r. case r of
         Inl err \<Rightarrow> if errors_is err ErrNoRows then okP () else errP err
       | Inr row \<Rightarrow> modify p (scan_fields (ic_ret cache) row))
     else thenP (exec_context e (ic_query cache) vals) (okP ()))"

definition store_upsert :: "boil_table \<Rightarrow> string \<Rightarrow> insert_cache \<Rightarrow> boil_world \<Rightarrow> boil_world" where
  "store_upsert t key cache w = w\<lparr>bw_upsert_cache := ((tb_name t, key), cache) # bw_upsert_cache w\<rparr>"

definition boil_Upsert ::
    "boil_lib \<Rightarrow> boil_env \<Rightarrow> boil_table \<Rightarrow> ptr \<Rightarrow> bool \<Rightarrow> string list \<Rightarrow> boil_columns \<Rightarrow> boil_columns \<Rightarrow>
      (upsert_options \<Rightarrow> upsert_options) list \<Rightarrow> (boil_world, unit) prog" where
  "boil_Upsert L e t p updateOnConflict conflictColumns updateColumns insertColumns opts =
     (if p = None then errP (ErrPlain (''models: no '' @ tb_name t @ '' provided for upsert''))
      else
        thenP (upsert_timestamps e t p)
       (bindP (load p) (\<lambda>ob.
        let nzDefaults = bl_NonZeroDefaultSet L (tb_fields t) (tb_with_default t) ob;
            key = upsert_key L updateOnConflict conflictColumns updateColumns insertColumns nzDefaults in
        with_cache (\<lambda>w. map_of (bw_upsert_cache w) (tb_name t, key))
          (upsert_plan L t updateOnConflict conflictColumns updateColumns insertColumns opts nzDefaults) (store_upsert t key)
          (\<lambda>cache. wrapP (''models: unable to upsert '' @ tb_name t) (run_upsert e p cache)))))"

section \<open>Delete\<close>

definition boil_Delete :: "boil_env \<Rightarrow> boil_table \<Rightarrow> ptr \<Rightarrow> (boil_world, int) prog" where
  "boil_Delete e t p =
     (if p = None then errP (ErrPlain (''models: no '' @ tb_model t @ '' provided for delete''))
      else bindP (load p) (\<lambda>ob.
        affected e (''models: unable to delete from '' @ tb_name t)
          (''models: failed to get rows affected by delete for '' @ tb_name t)
          (exec_context e (DeleteS (tb_name t) [pk_params t]) (pk_of t ob))))"

definition boil_QueryDeleteAll :: "boil_env \<Rightarrow> boil_table \<Rightarrow> query_obj option \<Rightarrow> (boil_world, int) prog" where
  "boil_QueryDeleteAll e t q = (case q of
      None \<Rightarrow> errP (ErrPlain (''models: no '' @ tb_query t @ ''Query provided for delete all''))
    | Some q \<Rightarrow> affected e (''models: unable to delete all from '' @ tb_name t)
        (''models: failed to get rows affected by deleteall for '' @ tb_name t)
        (exec_context e (QueryS (q\<lparr>qo_delete := True\<rparr>)) []))"

definition boil_SliceDeleteAll :: "boil_lib \<Rightarrow> boil_env \<Rightarrow> boil_table \<Rightarrow> ptr list \<Rightarrow> (boil_world, int) prog" where
  "boil_SliceDeleteAll L e t ps =
     (if ps = [] then okP 0
      else bindP (load_all ps) (\<lambda>obs.
        affected e (''models: unable to delete all from '' @ tb_query t @ '' slice'')
          (''models: failed to get rows affected by deleteall for '' @ tb_name t)
          (exec_context e (DeleteS (tb_name t) (bl_WhereClauseRepeated L 1 (tb_pk t) (length ps)))
            (concat (map (pk_of t) obs)))))"

section \<open>Reload\<close>

definition boil_Reload :: "boil_env \<Rightarrow> boil_table \<Rightarrow> ptr \<Rightarrow> (boil_world, unit) prog" where
  "boil_Reload e t p = bindP (load p) (\<lambda>ob.
     bindP (boil_Find e t (pk_of t ob) []) (\<lambda>ret.
     (\<lambda>w. case p of None \<Rightarrow> (Panic nil_deref, w)
        | Some a \<Rightarrow> (Ok (), w\<lparr>bw_heap := (bw_heap w)[a := object w ret]\<rparr>))))"

text \<open>\<open>ReloadAll\<close> of a pointer to a slice; the slice afterwards.\<close>

definition boil_ReloadAll :: "boil_lib \<Rightarrow> boil_env \<Rightarrow> boil_table \<Rightarrow> ptr list option \<Rightarrow> (boil_world, ptr list option) prog" where
  "boil_ReloadAll L e t slice = (case slice of
      None \<Rightarrow> okP None
    | Some ps \<Rightarrow>
        if ps = [] then okP (Some ps)
        else bindP (load_all ps) (\<lambda>obs.
          bindP (wrapP (''models: unable to reload all in '' @ tb_model t @ ''Slice'')
            (bindP (query_all e (SelectS (tb_name t) [] (bl_WhereClauseRepeated L 1 (tb_pk t) (length ps)))
                      (concat (map (pk_of t) obs)))
              (\<lambda>rows. alloc_all (map (bind_row t) rows))))
          (\<lambda>as. okP (Some (map Some as)))))"

end
