(* ===== verification/Boil_Facts.thy ===== *)
theory Boil_Facts
  imports Boil_Crud "HOL-Library.Sublist"
begin

text \<open>
  What the generated operations rely on: the laws of the library as rules, the conditions on the
  description of a table (locale \<open>boil_model\<close>), and that the key of a cached statement determines what it
  was made from.
\<close>

section \<open>The library\<close>

lemma lib_laws_simps:
  assumes "lib_laws L"
  shows "bl_NonZeroDefaultSet L fs ds ob = filter (non_zero fs ob) ds"
    and "bl_SetComplement L a b = filter (\<lambda>c. c \<notin> set b) a"
    and "bl_SetIntersect L a b = filter (\<lambda>c. c \<in> set b) a"
    and "bl_Placeholders L n i = [i..<i + n]"
    and "bl_SetParamNames L i cs = zip cs [i..<i + length cs]"
    and "bl_WhereClause L i cs = zip cs [i..<i + length cs]"
    and "bl_WhereClauseRepeated L i cs n = map (\<lambda>k. zip cs [i + k * length cs..<i + Suc k * length cs]) [0..<n]"
    and "bl_Equal L v v' \<longleftrightarrow> v = v'" "bl_IsNil L v \<longleftrightarrow> v = VNull"
  using assms by (simp_all add: lib_laws_def)

lemma lib_Kind_inj: "lib_laws L \<Longrightarrow> bl_Kind L k = bl_Kind L k' \<longleftrightarrow> k = k'"
  by (simp add: lib_laws_def inj_eq)

lemma lib_insert_set:
  "lib_laws L \<Longrightarrow> distinct wo \<Longrightarrow> distinct nz \<Longrightarrow> insert_set_law cs wd wo nz (bl_InsertColumnSet L cs all wd wo nz)"
  by (simp add: lib_laws_def)

lemma lib_update_set: "lib_laws L \<Longrightarrow> update_set_law cs all pk (bl_UpdateColumnSet L cs all pk)"
  by (simp add: lib_laws_def)

lemma lib_BindMapping_Inr:
  assumes "lib_laws L"
  shows "bl_BindMapping L fs cs = Inr m \<longleftrightarrow> set cs \<subseteq> set fs \<and> m = cs"
proof -
  have "if set cs \<subseteq> set fs then bl_BindMapping L fs cs = Inr cs else \<exists>x. bl_BindMapping L fs cs = Inl x"
    using assms by (simp add: lib_laws_def)
  then show ?thesis by (auto split: if_splits)
qed

text \<open>A library with the documented behaviour.\<close>

definition reference_insert :: "boil_columns \<Rightarrow> string list \<Rightarrow> string list \<Rightarrow> string list \<Rightarrow> string list \<Rightarrow> string list \<times> string list" where
  "reference_insert cs all wd wo nz =
     (let minus = (\<lambda>a b. filter (\<lambda>c. c \<notin> set b) a); base = remdups (wo @ nz);
          wl = (case co_kind cs of
              ColumnsNone \<Rightarrow> []
            | ColumnsInfer \<Rightarrow> base
            | ColumnsWhitelist \<Rightarrow> co_cols cs
            | ColumnsGreylist \<Rightarrow> remdups (base @ co_cols cs)
            | ColumnsBlacklist \<Rightarrow> minus base (co_cols cs)) in
      (wl, if co_kind cs = ColumnsNone then [] else minus wd wl))"

definition reference_update :: "boil_columns \<Rightarrow> string list \<Rightarrow> string list \<Rightarrow> string list" where
  "reference_update cs all pk =
     (let minus = (\<lambda>a b. filter (\<lambda>c. c \<notin> set b) a) in
      case co_kind cs of
        ColumnsNone \<Rightarrow> []
      | ColumnsInfer \<Rightarrow> minus all pk
      | ColumnsWhitelist \<Rightarrow> co_cols cs
      | ColumnsGreylist \<Rightarrow> remdups (minus all pk @ co_cols cs)
      | ColumnsBlacklist \<Rightarrow> minus (minus all pk) (co_cols cs))"

fun reference_kind :: "columns_kind \<Rightarrow> nat" where
  "reference_kind ColumnsNone = 0"
| "reference_kind ColumnsInfer = 1"
| "reference_kind ColumnsWhitelist = 2"
| "reference_kind ColumnsGreylist = 3"
| "reference_kind ColumnsBlacklist = 4"

definition reference_lib :: boil_lib where
  "reference_lib = \<lparr>bl_Kind = reference_kind, bl_InsertColumnSet = reference_insert,
     bl_UpdateColumnSet = reference_update, bl_NonZeroDefaultSet = (\<lambda>fs ds ob. filter (non_zero fs ob) ds),
     bl_BindMapping = (\<lambda>fs cs. if list_all (\<lambda>c. c \<in> set fs) cs then Inr cs else Inl (ErrPlain ''bad mapping'')),
     bl_Equal = (=), bl_IsNil = (\<lambda>v. v = VNull),
     bl_SetComplement = (\<lambda>a b. filter (\<lambda>c. c \<notin> set b) a),
     bl_SetIntersect = (\<lambda>a b. filter (\<lambda>c. c \<in> set b) a),
     bl_Placeholders = (\<lambda>n i. [i..<i + n]),
     bl_SetParamNames = (\<lambda>i cs. zip cs [i..<i + length cs]),
     bl_WhereClause = (\<lambda>i cs. zip cs [i..<i + length cs]),
     bl_WhereClauseRepeated = (\<lambda>i cs n. map (\<lambda>k. zip cs [i + k * length cs..<i + Suc k * length cs]) [0..<n])\<rparr>"

lemma reference_lib_laws: "lib_laws reference_lib"
proof -
  have kind: "reference_kind k = reference_kind k' \<Longrightarrow> k = k'" for k k'
    by (cases k; cases k') simp_all
  have ins: "insert_set_law cs wd wo nz (reference_insert cs all wd wo nz)" for cs all wd wo nz
    by (cases "co_kind cs") (auto simp: insert_set_law_def reference_insert_def Let_def)
  have upd: "update_set_law cs all pk (reference_update cs all pk)" for cs all pk
    by (cases "co_kind cs") (auto simp: update_set_law_def reference_update_def Let_def)
  show ?thesis
    using ins upd by (simp add: lib_laws_def reference_lib_def inj_def kind list_all_iff subset_code(1))
qed

section \<open>Tables\<close>

definition is_digit_start :: "string \<Rightarrow> bool" where
  "is_digit_start s \<longleftrightarrow> (case s of [] \<Rightarrow> False | c # _ \<Rightarrow> is_digit c)"

text \<open>
  What holds of every table of the schema: its lists of columns fit together, no column name is the
  beginning of another one, and none starts with a digit or has a dot.
\<close>

definition prefix_free :: "string list \<Rightarrow> bool" where
  "prefix_free cs \<longleftrightarrow> list_all (\<lambda>a. list_all (\<lambda>b. a = b \<or> \<not> prefix a b) cs) cs"

definition table_ok :: "boil_table \<Rightarrow> bool" where
  "table_ok t \<longleftrightarrow> map fst (tb_fields t) = tb_all t \<and> distinct (tb_all t) \<and>
     distinct (tb_without_default t) \<and> distinct (tb_with_default t) \<and> distinct (tb_pk t) \<and> tb_pk t \<noteq> [] \<and>
     list_all (\<lambda>c. (c \<in> set (tb_without_default t)) \<noteq> (c \<in> set (tb_with_default t))) (tb_all t) \<and>
     list_all (\<lambda>c. c \<in> set (tb_all t)) (tb_without_default t @ tb_with_default t @ tb_pk t) \<and>
     prefix_free (tb_all t) \<and> list_all (\<lambda>c. c \<noteq> [] \<and> \<not> is_digit_start c \<and> CHR ''.'' \<notin> set c) (tb_all t) \<and>
     list_ex (\<lambda>c. c \<notin> set (tb_pk t) \<and> c \<noteq> ''created_at'') (tb_all t) \<and>
     ''created_at'' \<notin> set (tb_pk t) \<and> ''updated_at'' \<notin> set (tb_pk t)"

section \<open>Keys of cached statements\<close>

lemma prefix_freeD: "prefix_free cs \<Longrightarrow> a \<in> set cs \<Longrightarrow> b \<in> set cs \<Longrightarrow> prefix a b \<Longrightarrow> a = b"
  by (auto simp: prefix_free_def list_all_iff)

text \<open>Names of a prefix-free set can be read back from their concatenation.\<close>

lemma concat_inject:
  assumes "prefix_free cs" "[] \<notin> set cs" "set xs \<subseteq> set cs" "set ys \<subseteq> set cs" "concat xs = concat ys"
  shows "xs = ys"
  using assms(3-5)
proof (induction xs arbitrary: ys)
  case Nil
  then show ?case using assms(2) by (cases ys) auto
next
  case (Cons x xs)
  then obtain y ys' where ys: "ys = y # ys'" using assms(2) by (cases ys) auto
  have "prefix x (y @ concat ys')" "prefix y (y @ concat ys')" using Cons.prems(3) ys by (metis concat.simps(2) prefixI)+
  then have "prefix x y \<or> prefix y x" by (rule prefix_same_cases)
  then have "x = y" using Cons.prems ys prefix_freeD [OF assms(1)] by fastforce
  then show ?case using Cons ys by auto
qed

lemma split_at_char:
  "c \<notin> set a \<Longrightarrow> c \<notin> set b \<Longrightarrow> a @ c # x = b @ c # y \<Longrightarrow> a = b \<and> x = y"
  by (induction a arbitrary: b) (auto simp: Cons_eq_append_conv)

lemma show_nat_inject: "show_nat n = show_nat m \<longleftrightarrow> n = m"
  by (metis read_show_nat)

lemma digits_then_name:
  assumes "list_all is_digit ds" "list_all is_digit es" "\<not> is_digit_start x" "\<not> is_digit_start y" "ds @ x = es @ y"
  shows "ds = es \<and> x = y"
proof -
  have "takeWhile is_digit (ds @ x) = ds"
    using assms(1,3) by (cases x) (auto simp: takeWhile_append2 list_all_iff is_digit_start_def takeWhile_tail)
  moreover have "takeWhile is_digit (es @ y) = es"
    using assms(2,4) by (cases y) (auto simp: takeWhile_append2 list_all_iff is_digit_start_def takeWhile_tail)
  ultimately have "ds = es" using assms(5) by simp
  then show ?thesis using assms(5) by simp
qed

locale boil_model =
  fixes t :: boil_table
  assumes ok: "table_ok t"
begin

lemma fields_all [simp]: "map fst (tb_fields t) = tb_all t"
  using ok by (simp add: table_ok_def)

lemma distincts [simp]:
  "distinct (tb_all t)" "distinct (tb_without_default t)" "distinct (tb_with_default t)" "distinct (tb_pk t)"
  using ok by (simp_all add: table_ok_def)

lemma columns_split: "set (tb_without_default t) \<union> set (tb_with_default t) = set (tb_all t)"
  using ok by (fastforce simp: table_ok_def list_all_iff)

lemma pk_columns: "set (tb_pk t) \<subseteq> set (tb_all t)" "tb_pk t \<noteq> []"
  using ok by (auto simp: table_ok_def list_all_iff)

lemma no_timestamps_in_pk: "''created_at'' \<notin> set (tb_pk t)" "''updated_at'' \<notin> set (tb_pk t)"
  using ok by (simp_all add: table_ok_def)

lemma names: "prefix_free (tb_all t)" "[] \<notin> set (tb_all t)"
  using ok by (auto simp: table_ok_def list_all_iff)

lemma names_text:
  assumes "set cs \<subseteq> set (tb_all t)"
  shows "\<not> is_digit_start (concat cs)" "CHR ''.'' \<notin> set (concat cs)" "concat cs = [] \<longleftrightarrow> cs = []"
proof -
  have each: "c \<noteq> [] \<and> \<not> is_digit_start c \<and> CHR ''.'' \<notin> set c" if "c \<in> set cs" for c
    using ok assms that by (auto simp: table_ok_def list_all_iff)
  then show "CHR ''.'' \<notin> set (concat cs)" by auto
  from each show "concat cs = [] \<longleftrightarrow> cs = []" by (cases cs) auto
  show "\<not> is_digit_start (concat cs)"
  proof (cases cs)
    case (Cons c rest)
    then show ?thesis using each [of c] by (cases c) (auto simp: is_digit_start_def)
  qed (simp add: is_digit_start_def)
qed

lemma names_inject:
  "set xs \<subseteq> set (tb_all t) \<Longrightarrow> set ys \<subseteq> set (tb_all t) \<Longrightarrow> concat xs = concat ys \<Longrightarrow> xs = ys"
  by (rule concat_inject [OF names])

text \<open>Kind and names of a column list from their text.\<close>

lemma kind_names_inject:
  fixes c1 c2 :: boil_columns
  assumes L: "lib_laws L" and c: "set (co_cols c1) \<subseteq> set (tb_all t)" "set (co_cols c2) \<subseteq> set (tb_all t)"
    and eq: "show_nat (bl_Kind L (co_kind c1)) @ concat (co_cols c1) = show_nat (bl_Kind L (co_kind c2)) @ concat (co_cols c2)"
  shows "c1 = c2"
proof -
  have "list_all is_digit (show_nat n)" for n using show_nat_digits by (simp add: list_all_iff)
  from digits_then_name [OF this this names_text(1) [OF c(1)] names_text(1) [OF c(2)] eq]
  have "bl_Kind L (co_kind c1) = bl_Kind L (co_kind c2)" "co_cols c1 = co_cols c2"
    using names_inject [OF c] by (simp_all add: show_nat_inject)
  then show ?thesis using lib_Kind_inj [OF L] by (cases c1; cases c2) simp
qed

lemma kind_no_dot:
  assumes "set (co_cols c) \<subseteq> set (tb_all t)"
  shows "CHR ''.'' \<notin> set (show_nat (bl_Kind L (co_kind c)) @ concat (co_cols c))"
proof -
  have "\<not> is_digit (CHR ''.'')" by code_simp
  then have "CHR ''.'' \<notin> set (show_nat n)" for n using show_nat_digits by blast
  then show ?thesis using names_text(2) [OF assms] by simp
qed

lemma key_inject:
  fixes c1 c2 :: boil_columns
  assumes L: "lib_laws L" and c: "set (co_cols c1) \<subseteq> set (tb_all t)" "set (co_cols c2) \<subseteq> set (tb_all t)"
    and nz: "set nz1 \<subseteq> set (tb_all t)" "set nz2 \<subseteq> set (tb_all t)"
    and eq: "makeCacheKey L c1 nz1 = makeCacheKey L c2 nz2"
  shows "c1 = c2 \<and> nz1 = nz2"
proof -
  let ?a = "show_nat (bl_Kind L (co_kind c1)) @ concat (co_cols c1)" and ?b = "show_nat (bl_Kind L (co_kind c2)) @ concat (co_cols c2)"
  let ?tail = "\<lambda>nz. (if nz \<noteq> [] then ''.'' else []) @ concat nz"
  note a = kind_no_dot [OF c(1), of L] and b = kind_no_dot [OF c(2), of L]
  have eq: "?a @ ?tail nz1 = ?b @ ?tail nz2" using eq by (simp add: makeCacheKey_def)
  have dot: "CHR ''.'' \<in> set (x @ ?tail nz) \<longleftrightarrow> nz \<noteq> []" if "CHR ''.'' \<notin> set x" for x nz
    using that by simp
  have same: "nz1 = [] \<longleftrightarrow> nz2 = []" using dot [OF a, of nz1] dot [OF b, of nz2] unfolding eq by blast
  have "?a = ?b \<and> concat nz1 = concat nz2"
  proof (cases "nz1 = [] \<or> nz2 = []")
    case True
    then have "nz1 = []" "nz2 = []" using same by blast+
    then show ?thesis using eq by simp
  next
    case False
    then have "?a @ CHR ''.'' # concat nz1 = ?b @ CHR ''.'' # concat nz2" using eq by simp
    from split_at_char [OF a b this] show ?thesis .
  qed
  then show ?thesis by (intro conjI kind_names_inject [OF L c] names_inject [OF nz]) simp_all
qed

lemma upsert_key_inject:
  fixes u1 u2 i1 i2 :: boil_columns
  assumes L: "lib_laws L"
    and cols: "set conf1 \<subseteq> set (tb_all t)" "set conf2 \<subseteq> set (tb_all t)"
      "set (co_cols u1) \<subseteq> set (tb_all t)" "set (co_cols u2) \<subseteq> set (tb_all t)"
      "set (co_cols i1) \<subseteq> set (tb_all t)" "set (co_cols i2) \<subseteq> set (tb_all t)"
      "set nz1 \<subseteq> set (tb_all t)" "set nz2 \<subseteq> set (tb_all t)"
    and eq: "upsert_key L b1 conf1 u1 i1 nz1 = upsert_key L b2 conf2 u2 i2 nz2"
  shows "b1 = b2 \<and> conf1 = conf2 \<and> u1 = u2 \<and> i1 = i2 \<and> nz1 = nz2"
proof -
  let ?k = "\<lambda>c. show_nat (bl_Kind L (co_kind c)) @ concat (co_cols c)"
  have b: "b1 = b2" using eq by (auto simp: upsert_key_def split: if_splits)
  have "concat conf1 @ CHR ''.'' # ?k u1 @ CHR ''.'' # ?k i1 @ CHR ''.'' # concat nz1 =
    concat conf2 @ CHR ''.'' # ?k u2 @ CHR ''.'' # ?k i2 @ CHR ''.'' # concat nz2"
    using eq unfolding b upsert_key_def by simp
  from split_at_char [OF names_text(2) [OF cols(1)] names_text(2) [OF cols(2)] this]
  have conf: "concat conf1 = concat conf2" and
    "?k u1 @ CHR ''.'' # ?k i1 @ CHR ''.'' # concat nz1 = ?k u2 @ CHR ''.'' # ?k i2 @ CHR ''.'' # concat nz2" by blast+
  from split_at_char [OF kind_no_dot [OF cols(3)] kind_no_dot [OF cols(4)] this(2)]
  have u: "?k u1 = ?k u2" and "?k i1 @ CHR ''.'' # concat nz1 = ?k i2 @ CHR ''.'' # concat nz2" by blast+
  from split_at_char [OF kind_no_dot [OF cols(5)] kind_no_dot [OF cols(6)] this(2)]
  have i: "?k i1 = ?k i2" and nz: "concat nz1 = concat nz2" by blast+
  show ?thesis
    by (intro conjI b names_inject [OF cols(1,2) conf] kind_names_inject [OF L cols(3,4) u]
        kind_names_inject [OF L cols(5,6) i] names_inject [OF cols(7,8) nz])
qed

end

end
