(* ===== verification/Boil_Tables.thy ===== *)
theory Boil_Tables
  imports Boil_Facts
begin

text \<open>
  The tables: what the generated file of each one says of its columns (internal/models/*.go).  Every table
  meets the conditions of the locale \<open>boil_model\<close>.
\<close>

definition access_tokens_fields :: "(string \<times> col_kind) list" where
  "access_tokens_fields = [(''token'', KText), (''valid_until'', KTime), (''user_id'', KText), (''created_at'', KTime),
        (''updated_at'', KTime)]"

definition access_tokens_table :: boil_table where
  "access_tokens_table = \<lparr>tb_name = ''access_tokens'', tb_model = ''AccessToken'', tb_query = ''accessToken'',
     tb_fields = access_tokens_fields,
     tb_all = [''token'', ''valid_until'', ''user_id'', ''created_at'', ''updated_at''],
     tb_without_default = [''valid_until'', ''user_id'', ''created_at'', ''updated_at''],
     tb_with_default = [''token''],
     tb_pk = [''token'']\<rparr>"

interpretation access_tokens: boil_model access_tokens_table
  by unfold_locales code_simp

definition address_book_fields :: "(string \<times> col_kind) list" where
  "address_book_fields = [(''id'', KText), (''organization_id'', KNullable), (''chain_id'', KNullable), (''address'', KText),
        (''name'', KText), (''is_whitelisted'', KNullable), (''created_by'', KNullable),
        (''created_at'', KNullable), (''updated_at'', KNullable)]"

definition address_book_table :: boil_table where
  "address_book_table = \<lparr>tb_name = ''address_book'', tb_model = ''AddressBook'', tb_query = ''addressBook'',
     tb_fields = address_book_fields,
     tb_all = [''id'', ''organization_id'', ''chain_id'', ''address'', ''name'', ''is_whitelisted'',
        ''created_by'', ''created_at'', ''updated_at''],
     tb_without_default = [''address'', ''name''],
     tb_with_default = [''id'', ''organization_id'', ''chain_id'', ''is_whitelisted'', ''created_by'', ''created_at'',
        ''updated_at''],
     tb_pk = [''id'']\<rparr>"

interpretation address_book: boil_model address_book_table
  by unfold_locales code_simp

definition app_user_profiles_fields :: "(string \<times> col_kind) list" where
  "app_user_profiles_fields = [(''user_id'', KText), (''legal_accepted_at'', KNullable), (''created_at'', KTime),
        (''updated_at'', KTime)]"

definition app_user_profiles_table :: boil_table where
  "app_user_profiles_table = \<lparr>tb_name = ''app_user_profiles'', tb_model = ''AppUserProfile'', tb_query = ''appUserProfile'',
     tb_fields = app_user_profiles_fields,
     tb_all = [''user_id'', ''legal_accepted_at'', ''created_at'', ''updated_at''],
     tb_without_default = [''user_id'', ''created_at'', ''updated_at''],
     tb_with_default = [''legal_accepted_at''],
     tb_pk = [''user_id'']\<rparr>"

interpretation app_user_profiles: boil_model app_user_profiles_table
  by unfold_locales code_simp

definition approvals_fields :: "(string \<times> col_kind) list" where
  "approvals_fields = [(''id'', KText), (''request_id'', KNullable), (''user_id'', KNullable), (''action'', KText),
        (''comment'', KNullable), (''created_at'', KNullable), (''updated_at'', KNullable)]"

definition approvals_table :: boil_table where
  "approvals_table = \<lparr>tb_name = ''approvals'', tb_model = ''Approval'', tb_query = ''approval'',
     tb_fields = approvals_fields,
     tb_all = [''id'', ''request_id'', ''user_id'', ''action'', ''comment'', ''created_at'', ''updated_at''],
     tb_without_default = [''action''],
     tb_with_default = [''id'', ''request_id'', ''user_id'', ''comment'', ''created_at'', ''updated_at''],
     tb_pk = [''id'']\<rparr>"

interpretation approvals: boil_model approvals_table
  by unfold_locales code_simp

definition assets_fields :: "(string \<times> col_kind) list" where
  "assets_fields = [(''id'', KText), (''chain_id'', KNullable), (''symbol'', KText), (''name'', KText),
        (''type'', KText), (''contract_address'', KNullable), (''decimals'', KInt),
        (''icon_url'', KNullable), (''is_active'', KNullable), (''created_at'', KNullable),
        (''updated_at'', KNullable)]"

definition assets_table :: boil_table where
  "assets_table = \<lparr>tb_name = ''assets'', tb_model = ''Asset'', tb_query = ''asset'',
     tb_fields = assets_fields,
     tb_all = [''id'', ''chain_id'', ''symbol'', ''name'', ''type'', ''contract_address'', ''decimals'',
        ''icon_url'', ''is_active'', ''created_at'', ''updated_at''],
     tb_without_default = [''symbol'', ''name'', ''type''],
     tb_with_default = [''id'', ''chain_id'', ''contract_address'', ''decimals'', ''icon_url'', ''is_active'',
        ''created_at'', ''updated_at''],
     tb_pk = [''id'']\<rparr>"

interpretation assets: boil_model assets_table
  by unfold_locales code_simp

definition audit_logs_fields :: "(string \<times> col_kind) list" where
  "audit_logs_fields = [(''id'', KText), (''organization_id'', KNullable), (''user_id'', KNullable), (''action'', KText),
        (''resource_type'', KNullable), (''resource_id'', KNullable), (''ip_address'', KNullable),
        (''user_agent'', KNullable), (''details'', KNullable), (''created_at'', KNullable)]"

definition audit_logs_table :: boil_table where
  "audit_logs_table = \<lparr>tb_name = ''audit_logs'', tb_model = ''AuditLog'', tb_query = ''auditLog'',
     tb_fields = audit_logs_fields,
     tb_all = [''id'', ''organization_id'', ''user_id'', ''action'', ''resource_type'', ''resource_id'',
        ''ip_address'', ''user_agent'', ''details'', ''created_at''],
     tb_without_default = [''action''],
     tb_with_default = [''id'', ''organization_id'', ''user_id'', ''resource_type'', ''resource_id'', ''ip_address'',
        ''user_agent'', ''details'', ''created_at''],
     tb_pk = [''id'']\<rparr>"

interpretation audit_logs: boil_model audit_logs_table
  by unfold_locales code_simp

definition chains_fields :: "(string \<times> col_kind) list" where
  "chains_fields = [(''id'', KText), (''name'', KText), (''type'', KText), (''chain_id'', KNullable),
        (''algorithm'', KText), (''curve'', KText), (''currency_symbol'', KText), (''rpc_url'', KNullable),
        (''explorer_url'', KNullable), (''icon_url'', KNullable), (''is_testnet'', KNullable),
        (''created_at'', KNullable), (''updated_at'', KNullable)]"

definition chains_table :: boil_table where
  "chains_table = \<lparr>tb_name = ''chains'', tb_model = ''Chain'', tb_query = ''chain'',
     tb_fields = chains_fields,
     tb_all = [''id'', ''name'', ''type'', ''chain_id'', ''algorithm'', ''curve'', ''currency_symbol'',
        ''rpc_url'', ''explorer_url'', ''icon_url'', ''is_testnet'', ''created_at'', ''updated_at''],
     tb_without_default = [''id'', ''name'', ''type'', ''algorithm'', ''curve'', ''currency_symbol''],
     tb_with_default = [''chain_id'', ''rpc_url'', ''explorer_url'', ''icon_url'', ''is_testnet'', ''created_at'',
        ''updated_at''],
     tb_pk = [''id'']\<rparr>"

interpretation chains: boil_model chains_table
  by unfold_locales code_simp

definition confirmation_tokens_fields :: "(string \<times> col_kind) list" where
  "confirmation_tokens_fields = [(''token'', KText), (''valid_until'', KTime), (''user_id'', KText), (''created_at'', KTime),
        (''updated_at'', KTime)]"

definition confirmation_tokens_table :: boil_table where
  "confirmation_tokens_table = \<lparr>tb_name = ''confirmation_tokens'', tb_model = ''ConfirmationToken'', tb_query = ''confirmationToken'',
     tb_fields = confirmation_tokens_fields,
     tb_all = [''token'', ''valid_until'', ''user_id'', ''created_at'', ''updated_at''],
     tb_without_default = [''valid_until'', ''user_id'', ''created_at'', ''updated_at''],
     tb_with_default = [''token''],
     tb_pk = [''token'']\<rparr>"

interpretation confirmation_tokens: boil_model confirmation_tokens_table
  by unfold_locales code_simp

definition organization_members_fields :: "(string \<times> col_kind) list" where
  "organization_members_fields = [(''organization_id'', KText), (''user_id'', KText), (''role'', KText), (''created_at'', KNullable)]"

definition organization_members_table :: boil_table where
  "organization_members_table = \<lparr>tb_name = ''organization_members'', tb_model = ''OrganizationMember'', tb_query = ''organizationMember'',
     tb_fields = organization_members_fields,
     tb_all = [''organization_id'', ''user_id'', ''role'', ''created_at''],
     tb_without_default = [''organization_id'', ''user_id'', ''role''],
     tb_with_default = [''created_at''],
     tb_pk = [''organization_id'', ''user_id'']\<rparr>"

interpretation organization_members: boil_model organization_members_table
  by unfold_locales code_simp

definition organizations_fields :: "(string \<times> col_kind) list" where
  "organizations_fields = [(''id'', KText), (''name'', KText), (''owner_id'', KText), (''created_at'', KNullable),
        (''updated_at'', KNullable)]"

definition organizations_table :: boil_table where
  "organizations_table = \<lparr>tb_name = ''organizations'', tb_model = ''Organization'', tb_query = ''organization'',
     tb_fields = organizations_fields,
     tb_all = [''id'', ''name'', ''owner_id'', ''created_at'', ''updated_at''],
     tb_without_default = [''name'', ''owner_id''],
     tb_with_default = [''id'', ''created_at'', ''updated_at''],
     tb_pk = [''id'']\<rparr>"

interpretation organizations: boil_model organizations_table
  by unfold_locales code_simp

definition password_reset_tokens_fields :: "(string \<times> col_kind) list" where
  "password_reset_tokens_fields = [(''token'', KText), (''valid_until'', KTime), (''user_id'', KText), (''created_at'', KTime),
        (''updated_at'', KTime)]"

definition password_reset_tokens_table :: boil_table where
  "password_reset_tokens_table = \<lparr>tb_name = ''password_reset_tokens'', tb_model = ''PasswordResetToken'', tb_query = ''passwordResetToken'',
     tb_fields = password_reset_tokens_fields,
     tb_all = [''token'', ''valid_until'', ''user_id'', ''created_at'', ''updated_at''],
     tb_without_default = [''valid_until'', ''user_id'', ''created_at'', ''updated_at''],
     tb_with_default = [''token''],
     tb_pk = [''token'']\<rparr>"

interpretation password_reset_tokens: boil_model password_reset_tokens_table
  by unfold_locales code_simp

definition push_tokens_fields :: "(string \<times> col_kind) list" where
  "push_tokens_fields = [(''id'', KText), (''token'', KText), (''provider'', KText), (''user_id'', KText),
        (''created_at'', KTime), (''updated_at'', KTime)]"

definition push_tokens_table :: boil_table where
  "push_tokens_table = \<lparr>tb_name = ''push_tokens'', tb_model = ''PushToken'', tb_query = ''pushToken'',
     tb_fields = push_tokens_fields,
     tb_all = [''id'', ''token'', ''provider'', ''user_id'', ''created_at'', ''updated_at''],
     tb_without_default = [''token'', ''provider'', ''user_id'', ''created_at'', ''updated_at''],
     tb_with_default = [''id''],
     tb_pk = [''id'']\<rparr>"

interpretation push_tokens: boil_model push_tokens_table
  by unfold_locales code_simp

definition refresh_tokens_fields :: "(string \<times> col_kind) list" where
  "refresh_tokens_fields = [(''token'', KText), (''user_id'', KText), (''created_at'', KTime), (''updated_at'', KTime)]"

definition refresh_tokens_table :: boil_table where
  "refresh_tokens_table = \<lparr>tb_name = ''refresh_tokens'', tb_model = ''RefreshToken'', tb_query = ''refreshToken'',
     tb_fields = refresh_tokens_fields,
     tb_all = [''token'', ''user_id'', ''created_at'', ''updated_at''],
     tb_without_default = [''user_id'', ''created_at'', ''updated_at''],
     tb_with_default = [''token''],
     tb_pk = [''token'']\<rparr>"

interpretation refresh_tokens: boil_model refresh_tokens_table
  by unfold_locales code_simp

definition signing_requests_fields :: "(string \<times> col_kind) list" where
  "signing_requests_fields = [(''id'', KText), (''vault_id'', KNullable), (''wallet_id'', KNullable),
        (''initiator_id'', KNullable), (''tx_data'', KText), (''tx_hash'', KNullable),
        (''amount'', KNullable), (''to_address'', KNullable), (''note'', KNullable),
        (''status'', KNullable), (''mpc_session_id'', KNullable), (''signature'', KNullable),
        (''created_at'', KNullable), (''updated_at'', KNullable)]"

definition signing_requests_table :: boil_table where
  "signing_requests_table = \<lparr>tb_name = ''signing_requests'', tb_model = ''SigningRequest'', tb_query = ''signingRequest'',
     tb_fields = signing_requests_fields,
     tb_all = [''id'', ''vault_id'', ''wallet_id'', ''initiator_id'', ''tx_data'', ''tx_hash'', ''amount'',
        ''to_address'', ''note'', ''status'', ''mpc_session_id'', ''signature'', ''created_at'',
        ''updated_at''],
     tb_without_default = [''tx_data''],
     tb_with_default = [''id'', ''vault_id'', ''wallet_id'', ''initiator_id'', ''tx_hash'', ''amount'', ''to_address'',
        ''note'', ''status'', ''mpc_session_id'', ''signature'', ''created_at'', ''updated_at''],
     tb_pk = [''id'']\<rparr>"

interpretation signing_requests: boil_model signing_requests_table
  by unfold_locales code_simp

definition spending_limits_fields :: "(string \<times> col_kind) list" where
  "spending_limits_fields = [(''id'', KText), (''vault_id'', KNullable), (''asset_id'', KNullable), (''amount'', KDecimal),
        (''window_seconds'', KInt), (''action'', KNullable), (''created_at'', KNullable),
        (''updated_at'', KNullable)]"

definition spending_limits_table :: boil_table where
  "spending_limits_table = \<lparr>tb_name = ''spending_limits'', tb_model = ''SpendingLimit'', tb_query = ''spendingLimit'',
     tb_fields = spending_limits_fields,
     tb_all = [''id'', ''vault_id'', ''asset_id'', ''amount'', ''window_seconds'', ''action'', ''created_at'',
        ''updated_at''],
     tb_without_default = [''amount'', ''window_seconds''],
     tb_with_default = [''id'', ''vault_id'', ''asset_id'', ''action'', ''created_at'', ''updated_at''],
     tb_pk = [''id'']\<rparr>"

interpretation spending_limits: boil_model spending_limits_table
  by unfold_locales code_simp

definition user_credentials_fields :: "(string \<times> col_kind) list" where
  "user_credentials_fields = [(''id'', KText), (''user_id'', KText), (''credential_id'', KText), (''public_key'', KText),
        (''attestation_type'', KNullable), (''aaguid'', KNullable), (''sign_count'', KNullable),
        (''device_name'', KNullable), (''last_used_at'', KNullable), (''created_at'', KNullable),
        (''updated_at'', KNullable)]"

definition user_credentials_table :: boil_table where
  "user_credentials_table = \<lparr>tb_name = ''user_credentials'', tb_model = ''UserCredential'', tb_query = ''userCredential'',
     tb_fields = user_credentials_fields,
     tb_all = [''id'', ''user_id'', ''credential_id'', ''public_key'', ''attestation_type'', ''aaguid'',
        ''sign_count'', ''device_name'', ''last_used_at'', ''created_at'', ''updated_at''],
     tb_without_default = [''user_id'', ''credential_id'', ''public_key''],
     tb_with_default = [''id'', ''attestation_type'', ''aaguid'', ''sign_count'', ''device_name'', ''last_used_at'',
        ''created_at'', ''updated_at''],
     tb_pk = [''id'']\<rparr>"

interpretation user_credentials: boil_model user_credentials_table
  by unfold_locales code_simp

definition users_fields :: "(string \<times> col_kind) list" where
  "users_fields = [(''id'', KText), (''username'', KNullable), (''password'', KNullable), (''is_active'', KBool),
        (''scopes'', KNullable), (''last_authenticated_at'', KNullable), (''created_at'', KTime),
        (''updated_at'', KTime), (''requires_confirmation'', KBool)]"

definition users_table :: boil_table where
  "users_table = \<lparr>tb_name = ''users'', tb_model = ''User'', tb_query = ''user'',
     tb_fields = users_fields,
     tb_all = [''id'', ''username'', ''password'', ''is_active'', ''scopes'', ''last_authenticated_at'',
        ''created_at'', ''updated_at'', ''requires_confirmation''],
     tb_without_default = [''is_active'', ''scopes'', ''created_at'', ''updated_at''],
     tb_with_default = [''id'', ''username'', ''password'', ''last_authenticated_at'', ''requires_confirmation''],
     tb_pk = [''id'']\<rparr>"

interpretation users: boil_model users_table
  by unfold_locales code_simp

definition vault_keys_fields :: "(string \<times> col_kind) list" where
  "vault_keys_fields = [(''id'', KText), (''vault_id'', KNullable), (''key_id'', KText), (''algorithm'', KText),
        (''curve'', KText), (''public_key_hex'', KText), (''created_at'', KNullable),
        (''updated_at'', KNullable)]"

definition vault_keys_table :: boil_table where
  "vault_keys_table = \<lparr>tb_name = ''vault_keys'', tb_model = ''VaultKey'', tb_query = ''vaultKey'',
     tb_fields = vault_keys_fields,
     tb_all = [''id'', ''vault_id'', ''key_id'', ''algorithm'', ''curve'', ''public_key_hex'', ''created_at'',
        ''updated_at''],
     tb_without_default = [''key_id'', ''algorithm'', ''curve'', ''public_key_hex''],
     tb_with_default = [''id'', ''vault_id'', ''created_at'', ''updated_at''],
     tb_pk = [''id'']\<rparr>"

interpretation vault_keys: boil_model vault_keys_table
  by unfold_locales code_simp

definition vaults_fields :: "(string \<times> col_kind) list" where
  "vaults_fields = [(''id'', KText), (''organization_id'', KNullable), (''name'', KText), (''threshold'', KInt),
        (''created_at'', KNullable), (''updated_at'', KNullable)]"

definition vaults_table :: boil_table where
  "vaults_table = \<lparr>tb_name = ''vaults'', tb_model = ''Vault'', tb_query = ''vault'',
     tb_fields = vaults_fields,
     tb_all = [''id'', ''organization_id'', ''name'', ''threshold'', ''created_at'', ''updated_at''],
     tb_without_default = [''name''],
     tb_with_default = [''id'', ''organization_id'', ''threshold'', ''created_at'', ''updated_at''],
     tb_pk = [''id'']\<rparr>"

interpretation vaults: boil_model vaults_table
  by unfold_locales code_simp

definition wallet_balances_fields :: "(string \<times> col_kind) list" where
  "wallet_balances_fields = [(''id'', KText), (''wallet_id'', KNullable), (''asset_id'', KNullable), (''balance'', KNullable),
        (''raw_balance'', KNullable), (''updated_at'', KNullable)]"

definition wallet_balances_table :: boil_table where
  "wallet_balances_table = \<lparr>tb_name = ''wallet_balances'', tb_model = ''WalletBalance'', tb_query = ''walletBalance'',
     tb_fields = wallet_balances_fields,
     tb_all = [''id'', ''wallet_id'', ''asset_id'', ''balance'', ''raw_balance'', ''updated_at''],
     tb_without_default = [],
     tb_with_default = [''id'', ''wallet_id'', ''asset_id'', ''balance'', ''raw_balance'', ''updated_at''],
     tb_pk = [''id'']\<rparr>"

interpretation wallet_balances: boil_model wallet_balances_table
  by unfold_locales code_simp

definition wallets_fields :: "(string \<times> col_kind) list" where
  "wallets_fields = [(''id'', KText), (''vault_id'', KNullable), (''chain_id'', KNullable), (''key_id'', KText),
        (''address'', KText), (''derive_path'', KText), (''derive_index'', KInt),
        (''created_at'', KNullable), (''updated_at'', KNullable)]"

definition wallets_table :: boil_table where
  "wallets_table = \<lparr>tb_name = ''wallets'', tb_model = ''Wallet'', tb_query = ''wallet'',
     tb_fields = wallets_fields,
     tb_all = [''id'', ''vault_id'', ''chain_id'', ''key_id'', ''address'', ''derive_path'', ''derive_index'',
        ''created_at'', ''updated_at''],
     tb_without_default = [''key_id'', ''address'', ''derive_path'', ''derive_index''],
     tb_with_default = [''id'', ''vault_id'', ''chain_id'', ''created_at'', ''updated_at''],
     tb_pk = [''id'']\<rparr>"

interpretation wallets: boil_model wallets_table
  by unfold_locales code_simp

definition all_tables :: "boil_table list" where
  "all_tables = [access_tokens_table, address_book_table, app_user_profiles_table, approvals_table,
     assets_table, audit_logs_table, chains_table, confirmation_tokens_table,
     organization_members_table, organizations_table, password_reset_tokens_table, push_tokens_table,
     refresh_tokens_table, signing_requests_table, spending_limits_table, user_credentials_table,
     users_table, vault_keys_table, vaults_table, wallet_balances_table,
     wallets_table]"

lemma all_tables_ok: "t \<in> set all_tables \<Longrightarrow> table_ok t"
  using access_tokens.ok address_book.ok app_user_profiles.ok approvals.ok assets.ok audit_logs.ok chains.ok confirmation_tokens.ok organization_members.ok organizations.ok password_reset_tokens.ok push_tokens.ok refresh_tokens.ok signing_requests.ok spending_limits.ok user_credentials.ok users.ok vault_keys.ok vaults.ok wallet_balances.ok wallets.ok
  by (auto simp: all_tables_def)

lemma all_tables_names: "distinct (map tb_name all_tables)"
  by code_simp

end
