(* ===== verification/Boil_Models.thy ===== *)
theory Boil_Models
  imports Boil_Tables
begin

text \<open>
  The functions of internal/models/*.go: the generated operations at the table of each file.  A key with
  several columns has a parameter for each of them.
\<close>

section \<open>access_tokens\<close>

definition AccessToken_Query where
  "AccessToken_Query mods = boil_Query access_tokens_table mods"

definition AccessToken_One where
  "AccessToken_One e q = boil_One e access_tokens_table q"

definition AccessToken_All where
  "AccessToken_All e q = boil_All e access_tokens_table q"

definition AccessToken_Count where
  "AccessToken_Count e q = boil_Count e access_tokens_table q"

definition AccessToken_Exists where
  "AccessToken_Exists e q = boil_Exists e access_tokens_table q"

definition AccessToken_Find where
  "AccessToken_Find e token selectCols = boil_Find e access_tokens_table [token] selectCols"

definition AccessToken_Insert where
  "AccessToken_Insert L e p columns = boil_Insert L e access_tokens_table p columns"

definition AccessToken_Update where
  "AccessToken_Update L e p columns = boil_Update L e access_tokens_table p columns"

definition AccessToken_QueryUpdateAll where
  "AccessToken_QueryUpdateAll e q cols = boil_QueryUpdateAll e access_tokens_table q cols"

definition AccessToken_SliceUpdateAll where
  "AccessToken_SliceUpdateAll L e ps cols = boil_SliceUpdateAll L e access_tokens_table ps cols"

definition AccessToken_Upsert where
  "AccessToken_Upsert L e p updateOnConflict conflictColumns updateColumns insertColumns opts = 
     boil_Upsert L e access_tokens_table p updateOnConflict conflictColumns updateColumns insertColumns opts"

definition AccessToken_Delete where
  "AccessToken_Delete e p = boil_Delete e access_tokens_table p"

definition AccessToken_QueryDeleteAll where
  "AccessToken_QueryDeleteAll e q = boil_QueryDeleteAll e access_tokens_table q"

definition AccessToken_SliceDeleteAll where
  "AccessToken_SliceDeleteAll L e ps = boil_SliceDeleteAll L e access_tokens_table ps"

definition AccessToken_Reload where
  "AccessToken_Reload e p = boil_Reload e access_tokens_table p"

definition AccessToken_ReloadAll where
  "AccessToken_ReloadAll L e slice = boil_ReloadAll L e access_tokens_table slice"

definition AccessToken_ExistsByPK where
  "AccessToken_ExistsByPK e token = boil_ExistsByPK e access_tokens_table [token]"

definition AccessToken_ObjExists where
  "AccessToken_ObjExists e p = boil_ObjExists e access_tokens_table p"

section \<open>address_book\<close>

definition AddressBook_Query where
  "AddressBook_Query mods = boil_Query address_book_table mods"

definition AddressBook_One where
  "AddressBook_One e q = boil_One e address_book_table q"

definition AddressBook_All where
  "AddressBook_All e q = boil_All e address_book_table q"

definition AddressBook_Count where
  "AddressBook_Count e q = boil_Count e address_book_table q"

definition AddressBook_Exists where
  "AddressBook_Exists e q = boil_Exists e address_book_table q"

definition AddressBook_Find where
  "AddressBook_Find e iD selectCols = boil_Find e address_book_table [iD] selectCols"

definition AddressBook_Insert where
  "AddressBook_Insert L e p columns = boil_Insert L e address_book_table p columns"

definition AddressBook_Update where
  "AddressBook_Update L e p columns = boil_Update L e address_book_table p columns"

definition AddressBook_QueryUpdateAll where
  "AddressBook_QueryUpdateAll e q cols = boil_QueryUpdateAll e address_book_table q cols"

definition AddressBook_SliceUpdateAll where
  "AddressBook_SliceUpdateAll L e ps cols = boil_SliceUpdateAll L e address_book_table ps cols"

definition AddressBook_Upsert where
  "AddressBook_Upsert L e p updateOnConflict conflictColumns updateColumns insertColumns opts = 
     boil_Upsert L e address_book_table p updateOnConflict conflictColumns updateColumns insertColumns opts"

definition AddressBook_Delete where
  "AddressBook_Delete e p = boil_Delete e address_book_table p"

definition AddressBook_QueryDeleteAll where
  "AddressBook_QueryDeleteAll e q = boil_QueryDeleteAll e address_book_table q"

definition AddressBook_SliceDeleteAll where
  "AddressBook_SliceDeleteAll L e ps = boil_SliceDeleteAll L e address_book_table ps"

definition AddressBook_Reload where
  "AddressBook_Reload e p = boil_Reload e address_book_table p"

definition AddressBook_ReloadAll where
  "AddressBook_ReloadAll L e slice = boil_ReloadAll L e address_book_table slice"

definition AddressBook_ExistsByPK where
  "AddressBook_ExistsByPK e iD = boil_ExistsByPK e address_book_table [iD]"

definition AddressBook_ObjExists where
  "AddressBook_ObjExists e p = boil_ObjExists e address_book_table p"

section \<open>app_user_profiles\<close>

definition AppUserProfile_Query where
  "AppUserProfile_Query mods = boil_Query app_user_profiles_table mods"

definition AppUserProfile_One where
  "AppUserProfile_One e q = boil_One e app_user_profiles_table q"

definition AppUserProfile_All where
  "AppUserProfile_All e q = boil_All e app_user_profiles_table q"

definition AppUserProfile_Count where
  "AppUserProfile_Count e q = boil_Count e app_user_profiles_table q"

definition AppUserProfile_Exists where
  "AppUserProfile_Exists e q = boil_Exists e app_user_profiles_table q"

definition AppUserProfile_Find where
  "AppUserProfile_Find e userID selectCols = boil_Find e app_user_profiles_table [userID] selectCols"

definition AppUserProfile_Insert where
  "AppUserProfile_Insert L e p columns = boil_Insert L e app_user_profiles_table p columns"

definition AppUserProfile_Update where
  "AppUserProfile_Update L e p columns = boil_Update L e app_user_profiles_table p columns"

definition AppUserProfile_QueryUpdateAll where
  "AppUserProfile_QueryUpdateAll e q cols = boil_QueryUpdateAll e app_user_profiles_table q cols"

definition AppUserProfile_SliceUpdateAll where
  "AppUserProfile_SliceUpdateAll L e ps cols = boil_SliceUpdateAll L e app_user_profiles_table ps cols"

definition AppUserProfile_Upsert where
  "AppUserProfile_Upsert L e p updateOnConflict conflictColumns updateColumns insertColumns opts = 
     boil_Upsert L e app_user_profiles_table p updateOnConflict conflictColumns updateColumns insertColumns opts"

definition AppUserProfile_Delete where
  "AppUserProfile_Delete e p = boil_Delete e app_user_profiles_table p"

definition AppUserProfile_QueryDeleteAll where
  "AppUserProfile_QueryDeleteAll e q = boil_QueryDeleteAll e app_user_profiles_table q"

definition AppUserProfile_SliceDeleteAll where
  "AppUserProfile_SliceDeleteAll L e ps = boil_SliceDeleteAll L e app_user_profiles_table ps"

definition AppUserProfile_Reload where
  "AppUserProfile_Reload e p = boil_Reload e app_user_profiles_table p"

definition AppUserProfile_ReloadAll where
  "AppUserProfile_ReloadAll L e slice = boil_ReloadAll L e app_user_profiles_table slice"

definition AppUserProfile_ExistsByPK where
  "AppUserProfile_ExistsByPK e userID = boil_ExistsByPK e app_user_profiles_table [userID]"

definition AppUserProfile_ObjExists where
  "AppUserProfile_ObjExists e p = boil_ObjExists e app_user_profiles_table p"

section \<open>approvals\<close>

definition Approval_Query where
  "Approval_Query mods = boil_Query approvals_table mods"

definition Approval_One where
  "Approval_One e q = boil_One e approvals_table q"

definition Approval_All where
  "Approval_All e q = boil_All e approvals_table q"

definition Approval_Count where
  "Approval_Count e q = boil_Count e approvals_table q"

definition Approval_Exists where
  "Approval_Exists e q = boil_Exists e approvals_table q"

definition Approval_Find where
  "Approval_Find e iD selectCols = boil_Find e approvals_table [iD] selectCols"

definition Approval_Insert where
  "Approval_Insert L e p columns = boil_Insert L e approvals_table p columns"

definition Approval_Update where
  "Approval_Update L e p columns = boil_Update L e approvals_table p columns"

definition Approval_QueryUpdateAll where
  "Approval_QueryUpdateAll e q cols = boil_QueryUpdateAll e approvals_table q cols"

definition Approval_SliceUpdateAll where
  "Approval_SliceUpdateAll L e ps cols = boil_SliceUpdateAll L e approvals_table ps cols"

definition Approval_Upsert where
  "Approval_Upsert L e p updateOnConflict conflictColumns updateColumns insertColumns opts = 
     boil_Upsert L e approvals_table p updateOnConflict conflictColumns updateColumns insertColumns opts"

definition Approval_Delete where
  "Approval_Delete e p = boil_Delete e approvals_table p"

definition Approval_QueryDeleteAll where
  "Approval_QueryDeleteAll e q = boil_QueryDeleteAll e approvals_table q"

definition Approval_SliceDeleteAll where
  "Approval_SliceDeleteAll L e ps = boil_SliceDeleteAll L e approvals_table ps"

definition Approval_Reload where
  "Approval_Reload e p = boil_Reload e approvals_table p"

definition Approval_ReloadAll where
  "Approval_ReloadAll L e slice = boil_ReloadAll L e approvals_table slice"

definition Approval_ExistsByPK where
  "Approval_ExistsByPK e iD = boil_ExistsByPK e approvals_table [iD]"

definition Approval_ObjExists where
  "Approval_ObjExists e p = boil_ObjExists e approvals_table p"

section \<open>assets\<close>

definition Asset_Query where
  "Asset_Query mods = boil_Query assets_table mods"

definition Asset_One where
  "Asset_One e q = boil_One e assets_table q"

definition Asset_All where
  "Asset_All e q = boil_All e assets_table q"

definition Asset_Count where
  "Asset_Count e q = boil_Count e assets_table q"

definition Asset_Exists where
  "Asset_Exists e q = boil_Exists e assets_table q"

definition Asset_Find where
  "Asset_Find e iD selectCols = boil_Find e assets_table [iD] selectCols"

definition Asset_Insert where
  "Asset_Insert L e p columns = boil_Insert L e assets_table p columns"

definition Asset_Update where
  "Asset_Update L e p columns = boil_Update L e assets_table p columns"

definition Asset_QueryUpdateAll where
  "Asset_QueryUpdateAll e q cols = boil_QueryUpdateAll e assets_table q cols"

definition Asset_SliceUpdateAll where
  "Asset_SliceUpdateAll L e ps cols = boil_SliceUpdateAll L e assets_table ps cols"

definition Asset_Upsert where
  "Asset_Upsert L e p updateOnConflict conflictColumns updateColumns insertColumns opts = 
     boil_Upsert L e assets_table p updateOnConflict conflictColumns updateColumns insertColumns opts"

definition Asset_Delete where
  "Asset_Delete e p = boil_Delete e assets_table p"

definition Asset_QueryDeleteAll where
  "Asset_QueryDeleteAll e q = boil_QueryDeleteAll e assets_table q"

definition Asset_SliceDeleteAll where
  "Asset_SliceDeleteAll L e ps = boil_SliceDeleteAll L e assets_table ps"

definition Asset_Reload where
  "Asset_Reload e p = boil_Reload e assets_table p"

definition Asset_ReloadAll where
  "Asset_ReloadAll L e slice = boil_ReloadAll L e assets_table slice"

definition Asset_ExistsByPK where
  "Asset_ExistsByPK e iD = boil_ExistsByPK e assets_table [iD]"

definition Asset_ObjExists where
  "Asset_ObjExists e p = boil_ObjExists e assets_table p"

section \<open>audit_logs\<close>

definition AuditLog_Query where
  "AuditLog_Query mods = boil_Query audit_logs_table mods"

definition AuditLog_One where
  "AuditLog_One e q = boil_One e audit_logs_table q"

definition AuditLog_All where
  "AuditLog_All e q = boil_All e audit_logs_table q"

definition AuditLog_Count where
  "AuditLog_Count e q = boil_Count e audit_logs_table q"

definition AuditLog_Exists where
  "AuditLog_Exists e q = boil_Exists e audit_logs_table q"

definition AuditLog_Find where
  "AuditLog_Find e iD selectCols = boil_Find e audit_logs_table [iD] selectCols"

definition AuditLog_Insert where
  "AuditLog_Insert L e p columns = boil_Insert L e audit_logs_table p columns"

definition AuditLog_Update where
  "AuditLog_Update L e p columns = boil_Update L e audit_logs_table p columns"

definition AuditLog_QueryUpdateAll where
  "AuditLog_QueryUpdateAll e q cols = boil_QueryUpdateAll e audit_logs_table q cols"

definition AuditLog_SliceUpdateAll where
  "AuditLog_SliceUpdateAll L e ps cols = boil_SliceUpdateAll L e audit_logs_table ps cols"

definition AuditLog_Upsert where
  "AuditLog_Upsert L e p updateOnConflict conflictColumns updateColumns insertColumns opts = 
     boil_Upsert L e audit_logs_table p updateOnConflict conflictColumns updateColumns insertColumns opts"

definition AuditLog_Delete where
  "AuditLog_Delete e p = boil_Delete e audit_logs_table p"

definition AuditLog_QueryDeleteAll where
  "AuditLog_QueryDeleteAll e q = boil_QueryDeleteAll e audit_logs_table q"

definition AuditLog_SliceDeleteAll where
  "AuditLog_SliceDeleteAll L e ps = boil_SliceDeleteAll L e audit_logs_table ps"

definition AuditLog_Reload where
  "AuditLog_Reload e p = boil_Reload e audit_logs_table p"

definition AuditLog_ReloadAll where
  "AuditLog_ReloadAll L e slice = boil_ReloadAll L e audit_logs_table slice"

definition AuditLog_ExistsByPK where
  "AuditLog_ExistsByPK e iD = boil_ExistsByPK e audit_logs_table [iD]"

definition AuditLog_ObjExists where
  "AuditLog_ObjExists e p = boil_ObjExists e audit_logs_table p"

section \<open>chains\<close>

definition Chain_Query where
  "Chain_Query mods = boil_Query chains_table mods"

definition Chain_One where
  "Chain_One e q = boil_One e chains_table q"

definition Chain_All where
  "Chain_All e q = boil_All e chains_table q"

definition Chain_Count where
  "Chain_Count e q = boil_Count e chains_table q"

definition Chain_Exists where
  "Chain_Exists e q = boil_Exists e chains_table q"

definition Chain_Find where
  "Chain_Find e iD selectCols = boil_Find e chains_table [iD] selectCols"

definition Chain_Insert where
  "Chain_Insert L e p columns = boil_Insert L e chains_table p columns"

definition Chain_Update where
  "Chain_Update L e p columns = boil_Update L e chains_table p columns"

definition Chain_QueryUpdateAll where
  "Chain_QueryUpdateAll e q cols = boil_QueryUpdateAll e chains_table q cols"

definition Chain_SliceUpdateAll where
  "Chain_SliceUpdateAll L e ps cols = boil_SliceUpdateAll L e chains_table ps cols"

definition Chain_Upsert where
  "Chain_Upsert L e p updateOnConflict conflictColumns updateColumns insertColumns opts = 
     boil_Upsert L e chains_table p updateOnConflict conflictColumns updateColumns insertColumns opts"

definition Chain_Delete where
  "Chain_Delete e p = boil_Delete e chains_table p"

definition Chain_QueryDeleteAll where
  "Chain_QueryDeleteAll e q = boil_QueryDeleteAll e chains_table q"

definition Chain_SliceDeleteAll where
  "Chain_SliceDeleteAll L e ps = boil_SliceDeleteAll L e chains_table ps"

definition Chain_Reload where
  "Chain_Reload e p = boil_Reload e chains_table p"

definition Chain_ReloadAll where
  "Chain_ReloadAll L e slice = boil_ReloadAll L e chains_table slice"

definition Chain_ExistsByPK where
  "Chain_ExistsByPK e iD = boil_ExistsByPK e chains_table [iD]"

definition Chain_ObjExists where
  "Chain_ObjExists e p = boil_ObjExists e chains_table p"

section \<open>confirmation_tokens\<close>

definition ConfirmationToken_Query where
  "ConfirmationToken_Query mods = boil_Query confirmation_tokens_table mods"

definition ConfirmationToken_One where
  "ConfirmationToken_One e q = boil_One e confirmation_tokens_table q"

definition ConfirmationToken_All where
  "ConfirmationToken_All e q = boil_All e confirmation_tokens_table q"

definition ConfirmationToken_Count where
  "ConfirmationToken_Count e q = boil_Count e confirmation_tokens_table q"

definition ConfirmationToken_Exists where
  "ConfirmationToken_Exists e q = boil_Exists e confirmation_tokens_table q"

definition ConfirmationToken_Find where
  "ConfirmationToken_Find e token selectCols = boil_Find e confirmation_tokens_table [token] selectCols"

definition ConfirmationToken_Insert where
  "ConfirmationToken_Insert L e p columns = boil_Insert L e confirmation_tokens_table p columns"

definition ConfirmationToken_Update where
  "ConfirmationToken_Update L e p columns = boil_Update L e confirmation_tokens_table p columns"

definition ConfirmationToken_QueryUpdateAll where
  "ConfirmationToken_QueryUpdateAll e q cols = boil_QueryUpdateAll e confirmation_tokens_table q cols"

definition ConfirmationToken_SliceUpdateAll where
  "ConfirmationToken_SliceUpdateAll L e ps cols = boil_SliceUpdateAll L e confirmation_tokens_table ps cols"

definition ConfirmationToken_Upsert where
  "ConfirmationToken_Upsert L e p updateOnConflict conflictColumns updateColumns insertColumns opts = 
     boil_Upsert L e confirmation_tokens_table p updateOnConflict conflictColumns updateColumns insertColumns opts"

definition ConfirmationToken_Delete where
  "ConfirmationToken_Delete e p = boil_Delete e confirmation_tokens_table p"

definition ConfirmationToken_QueryDeleteAll where
  "ConfirmationToken_QueryDeleteAll e q = boil_QueryDeleteAll e confirmation_tokens_table q"

definition ConfirmationToken_SliceDeleteAll where
  "ConfirmationToken_SliceDeleteAll L e ps = boil_SliceDeleteAll L e confirmation_tokens_table ps"

definition ConfirmationToken_Reload where
  "ConfirmationToken_Reload e p = boil_Reload e confirmation_tokens_table p"

definition ConfirmationToken_ReloadAll where
  "ConfirmationToken_ReloadAll L e slice = boil_ReloadAll L e confirmation_tokens_table slice"

definition ConfirmationToken_ExistsByPK where
  "ConfirmationToken_ExistsByPK e token = boil_ExistsByPK e confirmation_tokens_table [token]"

definition ConfirmationToken_ObjExists where
  "ConfirmationToken_ObjExists e p = boil_ObjExists e confirmation_tokens_table p"

section \<open>organization_members\<close>

definition OrganizationMember_Query where
  "OrganizationMember_Query mods = boil_Query organization_members_table mods"

definition OrganizationMember_One where
  "OrganizationMember_One e q = boil_One e organization_members_table q"

definition OrganizationMember_All where
  "OrganizationMember_All e q = boil_All e organization_members_table q"

definition OrganizationMember_Count where
  "OrganizationMember_Count e q = boil_Count e organization_members_table q"

definition OrganizationMember_Exists where
  "OrganizationMember_Exists e q = boil_Exists e organization_members_table q"

definition OrganizationMember_Find where
  "OrganizationMember_Find e organizationID userID selectCols = boil_Find e organization_members_table [organizationID, userID] selectCols"

definition OrganizationMember_Insert where
  "OrganizationMember_Insert L e p columns = boil_Insert L e organization_members_table p columns"

definition OrganizationMember_Update where
  "OrganizationMember_Update L e p columns = boil_Update L e organization_members_table p columns"

definition OrganizationMember_QueryUpdateAll where
  "OrganizationMember_QueryUpdateAll e q cols = boil_QueryUpdateAll e organization_members_table q cols"

definition OrganizationMember_SliceUpdateAll where
  "OrganizationMember_SliceUpdateAll L e ps cols = boil_SliceUpdateAll L e organization_members_table ps cols"

definition OrganizationMember_Upsert where
  "OrganizationMember_Upsert L e p updateOnConflict conflictColumns updateColumns insertColumns opts = 
     boil_Upsert L e organization_members_table p updateOnConflict conflictColumns updateColumns insertColumns opts"

definition OrganizationMember_Delete where
  "OrganizationMember_Delete e p = boil_Delete e organization_members_table p"

definition OrganizationMember_QueryDeleteAll where
  "OrganizationMember_QueryDeleteAll e q = boil_QueryDeleteAll e organization_members_table q"

definition OrganizationMember_SliceDeleteAll where
  "OrganizationMember_SliceDeleteAll L e ps = boil_SliceDeleteAll L e organization_members_table ps"

definition OrganizationMember_Reload where
  "OrganizationMember_Reload e p = boil_Reload e organization_members_table p"

definition OrganizationMember_ReloadAll where
  "OrganizationMember_ReloadAll L e slice = boil_ReloadAll L e organization_members_table slice"

definition OrganizationMember_ExistsByPK where
  "OrganizationMember_ExistsByPK e organizationID userID = boil_ExistsByPK e organization_members_table [organizationID, userID]"

definition OrganizationMember_ObjExists where
  "OrganizationMember_ObjExists e p = boil_ObjExists e organization_members_table p"

section \<open>organizations\<close>

definition Organization_Query where
  "Organization_Query mods = boil_Query organizations_table mods"

definition Organization_One where
  "Organization_One e q = boil_One e organizations_table q"

definition Organization_All where
  "Organization_All e q = boil_All e organizations_table q"

definition Organization_Count where
  "Organization_Count e q = boil_Count e organizations_table q"

definition Organization_Exists where
  "Organization_Exists e q = boil_Exists e organizations_table q"

definition Organization_Find where
  "Organization_Find e iD selectCols = boil_Find e organizations_table [iD] selectCols"

definition Organization_Insert where
  "Organization_Insert L e p columns = boil_Insert L e organizations_table p columns"

definition Organization_Update where
  "Organization_Update L e p columns = boil_Update L e organizations_table p columns"

definition Organization_QueryUpdateAll where
  "Organization_QueryUpdateAll e q cols = boil_QueryUpdateAll e organizations_table q cols"

definition Organization_SliceUpdateAll where
  "Organization_SliceUpdateAll L e ps cols = boil_SliceUpdateAll L e organizations_table ps cols"

definition Organization_Upsert where
  "Organization_Upsert L e p updateOnConflict conflictColumns updateColumns insertColumns opts = 
     boil_Upsert L e organizations_table p updateOnConflict conflictColumns updateColumns insertColumns opts"

definition Organization_Delete where
  "Organization_Delete e p = boil_Delete e organizations_table p"

definition Organization_QueryDeleteAll where
  "Organization_QueryDeleteAll e q = boil_QueryDeleteAll e organizations_table q"

definition Organization_SliceDeleteAll where
  "Organization_SliceDeleteAll L e ps = boil_SliceDeleteAll L e organizations_table ps"

definition Organization_Reload where
  "Organization_Reload e p = boil_Reload e organizations_table p"

definition Organization_ReloadAll where
  "Organization_ReloadAll L e slice = boil_ReloadAll L e organizations_table slice"

definition Organization_ExistsByPK where
  "Organization_ExistsByPK e iD = boil_ExistsByPK e organizations_table [iD]"

definition Organization_ObjExists where
  "Organization_ObjExists e p = boil_ObjExists e organizations_table p"

section \<open>password_reset_tokens\<close>

definition PasswordResetToken_Query where
  "PasswordResetToken_Query mods = boil_Query password_reset_tokens_table mods"

definition PasswordResetToken_One where
  "PasswordResetToken_One e q = boil_One e password_reset_tokens_table q"

definition PasswordResetToken_All where
  "PasswordResetToken_All e q = boil_All e password_reset_tokens_table q"

definition PasswordResetToken_Count where
  "PasswordResetToken_Count e q = boil_Count e password_reset_tokens_table q"

definition PasswordResetToken_Exists where
  "PasswordResetToken_Exists e q = boil_Exists e password_reset_tokens_table q"

definition PasswordResetToken_Find where
  "PasswordResetToken_Find e token selectCols = boil_Find e password_reset_tokens_table [token] selectCols"

definition PasswordResetToken_Insert where
  "PasswordResetToken_Insert L e p columns = boil_Insert L e password_reset_tokens_table p columns"

definition PasswordResetToken_Update where
  "PasswordResetToken_Update L e p columns = boil_Update L e password_reset_tokens_table p columns"

definition PasswordResetToken_QueryUpdateAll where
  "PasswordResetToken_QueryUpdateAll e q cols = boil_QueryUpdateAll e password_reset_tokens_table q cols"

definition PasswordResetToken_SliceUpdateAll where
  "PasswordResetToken_SliceUpdateAll L e ps cols = boil_SliceUpdateAll L e password_reset_tokens_table ps cols"

definition PasswordResetToken_Upsert where
  "PasswordResetToken_Upsert L e p updateOnConflict conflictColumns updateColumns insertColumns opts = 
     boil_Upsert L e password_reset_tokens_table p updateOnConflict conflictColumns updateColumns insertColumns opts"

definition PasswordResetToken_Delete where
  "PasswordResetToken_Delete e p = boil_Delete e password_reset_tokens_table p"

definition PasswordResetToken_QueryDeleteAll where
  "PasswordResetToken_QueryDeleteAll e q = boil_QueryDeleteAll e password_reset_tokens_table q"

definition PasswordResetToken_SliceDeleteAll where
  "PasswordResetToken_SliceDeleteAll L e ps = boil_SliceDeleteAll L e password_reset_tokens_table ps"

definition PasswordResetToken_Reload where
  "PasswordResetToken_Reload e p = boil_Reload e password_reset_tokens_table p"

definition PasswordResetToken_ReloadAll where
  "PasswordResetToken_ReloadAll L e slice = boil_ReloadAll L e password_reset_tokens_table slice"

definition PasswordResetToken_ExistsByPK where
  "PasswordResetToken_ExistsByPK e token = boil_ExistsByPK e password_reset_tokens_table [token]"

definition PasswordResetToken_ObjExists where
  "PasswordResetToken_ObjExists e p = boil_ObjExists e password_reset_tokens_table p"

section \<open>push_tokens\<close>

definition PushToken_Query where
  "PushToken_Query mods = boil_Query push_tokens_table mods"

definition PushToken_One where
  "PushToken_One e q = boil_One e push_tokens_table q"

definition PushToken_All where
  "PushToken_All e q = boil_All e push_tokens_table q"

definition PushToken_Count where
  "PushToken_Count e q = boil_Count e push_tokens_table q"

definition PushToken_Exists where
  "PushToken_Exists e q = boil_Exists e push_tokens_table q"

definition PushToken_Find where
  "PushToken_Find e iD selectCols = boil_Find e push_tokens_table [iD] selectCols"

definition PushToken_Insert where
  "PushToken_Insert L e p columns = boil_Insert L e push_tokens_table p columns"

definition PushToken_Update where
  "PushToken_Update L e p columns = boil_Update L e push_tokens_table p columns"

definition PushToken_QueryUpdateAll where
  "PushToken_QueryUpdateAll e q cols = boil_QueryUpdateAll e push_tokens_table q cols"

definition PushToken_SliceUpdateAll where
  "PushToken_SliceUpdateAll L e ps cols = boil_SliceUpdateAll L e push_tokens_table ps cols"

definition PushToken_Upsert where
  "PushToken_Upsert L e p updateOnConflict conflictColumns updateColumns insertColumns opts = 
     boil_Upsert L e push_tokens_table p updateOnConflict conflictColumns updateColumns insertColumns opts"

definition PushToken_Delete where
  "PushToken_Delete e p = boil_Delete e push_tokens_table p"

definition PushToken_QueryDeleteAll where
  "PushToken_QueryDeleteAll e q = boil_QueryDeleteAll e push_tokens_table q"

definition PushToken_SliceDeleteAll where
  "PushToken_SliceDeleteAll L e ps = boil_SliceDeleteAll L e push_tokens_table ps"

definition PushToken_Reload where
  "PushToken_Reload e p = boil_Reload e push_tokens_table p"

definition PushToken_ReloadAll where
  "PushToken_ReloadAll L e slice = boil_ReloadAll L e push_tokens_table slice"

definition PushToken_ExistsByPK where
  "PushToken_ExistsByPK e iD = boil_ExistsByPK e push_tokens_table [iD]"

definition PushToken_ObjExists where
  "PushToken_ObjExists e p = boil_ObjExists e push_tokens_table p"

section \<open>refresh_tokens\<close>

definition RefreshToken_Query where
  "RefreshToken_Query mods = boil_Query refresh_tokens_table mods"

definition RefreshToken_One where
  "RefreshToken_One e q = boil_One e refresh_tokens_table q"

definition RefreshToken_All where
  "RefreshToken_All e q = boil_All e refresh_tokens_table q"

definition RefreshToken_Count where
  "RefreshToken_Count e q = boil_Count e refresh_tokens_table q"

definition RefreshToken_Exists where
  "RefreshToken_Exists e q = boil_Exists e refresh_tokens_table q"

definition RefreshToken_Find where
  "RefreshToken_Find e token selectCols = boil_Find e refresh_tokens_table [token] selectCols"

definition RefreshToken_Insert where
  "RefreshToken_Insert L e p columns = boil_Insert L e refresh_tokens_table p columns"

definition RefreshToken_Update where
  "RefreshToken_Update L e p columns = boil_Update L e refresh_tokens_table p columns"

definition RefreshToken_QueryUpdateAll where
  "RefreshToken_QueryUpdateAll e q cols = boil_QueryUpdateAll e refresh_tokens_table q cols"

definition RefreshToken_SliceUpdateAll where
  "RefreshToken_SliceUpdateAll L e ps cols = boil_SliceUpdateAll L e refresh_tokens_table ps cols"

definition RefreshToken_Upsert where
  "RefreshToken_Upsert L e p updateOnConflict conflictColumns updateColumns insertColumns opts = 
     boil_Upsert L e refresh_tokens_table p updateOnConflict conflictColumns updateColumns insertColumns opts"

definition RefreshToken_Delete where
  "RefreshToken_Delete e p = boil_Delete e refresh_tokens_table p"

definition RefreshToken_QueryDeleteAll where
  "RefreshToken_QueryDeleteAll e q = boil_QueryDeleteAll e refresh_tokens_table q"

definition RefreshToken_SliceDeleteAll where
  "RefreshToken_SliceDeleteAll L e ps = boil_SliceDeleteAll L e refresh_tokens_table ps"

definition RefreshToken_Reload where
  "RefreshToken_Reload e p = boil_Reload e refresh_tokens_table p"

definition RefreshToken_ReloadAll where
  "RefreshToken_ReloadAll L e slice = boil_ReloadAll L e refresh_tokens_table slice"

definition RefreshToken_ExistsByPK where
  "RefreshToken_ExistsByPK e token = boil_ExistsByPK e refresh_tokens_table [token]"

definition RefreshToken_ObjExists where
  "RefreshToken_ObjExists e p = boil_ObjExists e refresh_tokens_table p"

section \<open>signing_requests\<close>

definition SigningRequest_Query where
  "SigningRequest_Query mods = boil_Query signing_requests_table mods"

definition SigningRequest_One where
  "SigningRequest_One e q = boil_One e signing_requests_table q"

definition SigningRequest_All where
  "SigningRequest_All e q = boil_All e signing_requests_table q"

definition SigningRequest_Count where
  "SigningRequest_Count e q = boil_Count e signing_requests_table q"

definition SigningRequest_Exists where
  "SigningRequest_Exists e q = boil_Exists e signing_requests_table q"

definition SigningRequest_Find where
  "SigningRequest_Find e iD selectCols = boil_Find e signing_requests_table [iD] selectCols"

definition SigningRequest_Insert where
  "SigningRequest_Insert L e p columns = boil_Insert L e signing_requests_table p columns"

definition SigningRequest_Update where
  "SigningRequest_Update L e p columns = boil_Update L e signing_requests_table p columns"

definition SigningRequest_QueryUpdateAll where
  "SigningRequest_QueryUpdateAll e q cols = boil_QueryUpdateAll e signing_requests_table q cols"

definition SigningRequest_SliceUpdateAll where
  "SigningRequest_SliceUpdateAll L e ps cols = boil_SliceUpdateAll L e signing_requests_table ps cols"

definition SigningRequest_Upsert where
  "SigningRequest_Upsert L e p updateOnConflict conflictColumns updateColumns insertColumns opts = 
     boil_Upsert L e signing_requests_table p updateOnConflict conflictColumns updateColumns insertColumns opts"

definition SigningRequest_Delete where
  "SigningRequest_Delete e p = boil_Delete e signing_requests_table p"

definition SigningRequest_QueryDeleteAll where
  "SigningRequest_QueryDeleteAll e q = boil_QueryDeleteAll e signing_requests_table q"

definition SigningRequest_SliceDeleteAll where
  "SigningRequest_SliceDeleteAll L e ps = boil_SliceDeleteAll L e signing_requests_table ps"

definition SigningRequest_Reload where
  "SigningRequest_Reload e p = boil_Reload e signing_requests_table p"

definition SigningRequest_ReloadAll where
  "SigningRequest_ReloadAll L e slice = boil_ReloadAll L e signing_requests_table slice"

definition SigningRequest_ExistsByPK where
  "SigningRequest_ExistsByPK e iD = boil_ExistsByPK e signing_requests_table [iD]"

definition SigningRequest_ObjExists where
  "SigningRequest_ObjExists e p = boil_ObjExists e signing_requests_table p"

section \<open>spending_limits\<close>

definition SpendingLimit_Query where
  "SpendingLimit_Query mods = boil_Query spending_limits_table mods"

definition SpendingLimit_One where
  "SpendingLimit_One e q = boil_One e spending_limits_table q"

definition SpendingLimit_All where
  "SpendingLimit_All e q = boil_All e spending_limits_table q"

definition SpendingLimit_Count where
  "SpendingLimit_Count e q = boil_Count e spending_limits_table q"

definition SpendingLimit_Exists where
  "SpendingLimit_Exists e q = boil_Exists e spending_limits_table q"

definition SpendingLimit_Find where
  "SpendingLimit_Find e iD selectCols = boil_Find e spending_limits_table [iD] selectCols"

definition SpendingLimit_Insert where
  "SpendingLimit_Insert L e p columns = boil_Insert L e spending_limits_table p columns"

definition SpendingLimit_Update where
  "SpendingLimit_Update L e p columns = boil_Update L e spending_limits_table p columns"

definition SpendingLimit_QueryUpdateAll where
  "SpendingLimit_QueryUpdateAll e q cols = boil_QueryUpdateAll e spending_limits_table q cols"

definition SpendingLimit_SliceUpdateAll where
  "SpendingLimit_SliceUpdateAll L e ps cols = boil_SliceUpdateAll L e spending_limits_table ps cols"

definition SpendingLimit_Upsert where
  "SpendingLimit_Upsert L e p updateOnConflict conflictColumns updateColumns insertColumns opts = 
     boil_Upsert L e spending_limits_table p updateOnConflict conflictColumns updateColumns insertColumns opts"

definition SpendingLimit_Delete where
  "SpendingLimit_Delete e p = boil_Delete e spending_limits_table p"

definition SpendingLimit_QueryDeleteAll where
  "SpendingLimit_QueryDeleteAll e q = boil_QueryDeleteAll e spending_limits_table q"

definition SpendingLimit_SliceDeleteAll where
  "SpendingLimit_SliceDeleteAll L e ps = boil_SliceDeleteAll L e spending_limits_table ps"

definition SpendingLimit_Reload where
  "SpendingLimit_Reload e p = boil_Reload e spending_limits_table p"

definition SpendingLimit_ReloadAll where
  "SpendingLimit_ReloadAll L e slice = boil_ReloadAll L e spending_limits_table slice"

definition SpendingLimit_ExistsByPK where
  "SpendingLimit_ExistsByPK e iD = boil_ExistsByPK e spending_limits_table [iD]"

definition SpendingLimit_ObjExists where
  "SpendingLimit_ObjExists e p = boil_ObjExists e spending_limits_table p"

section \<open>user_credentials\<close>

definition UserCredential_Query where
  "UserCredential_Query mods = boil_Query user_credentials_table mods"

definition UserCredential_One where
  "UserCredential_One e q = boil_One e user_credentials_table q"

definition UserCredential_All where
  "UserCredential_All e q = boil_All e user_credentials_table q"

definition UserCredential_Count where
  "UserCredential_Count e q = boil_Count e user_credentials_table q"

definition UserCredential_Exists where
  "UserCredential_Exists e q = boil_Exists e user_credentials_table q"

definition UserCredential_Find where
  "UserCredential_Find e iD selectCols = boil_Find e user_credentials_table [iD] selectCols"

definition UserCredential_Insert where
  "UserCredential_Insert L e p columns = boil_Insert L e user_credentials_table p columns"

definition UserCredential_Update where
  "UserCredential_Update L e p columns = boil_Update L e user_credentials_table p columns"

definition UserCredential_QueryUpdateAll where
  "UserCredential_QueryUpdateAll e q cols = boil_QueryUpdateAll e user_credentials_table q cols"

definition UserCredential_SliceUpdateAll where
  "UserCredential_SliceUpdateAll L e ps cols = boil_SliceUpdateAll L e user_credentials_table ps cols"

definition UserCredential_Upsert where
  "UserCredential_Upsert L e p updateOnConflict conflictColumns updateColumns insertColumns opts = 
     boil_Upsert L e user_credentials_table p updateOnConflict conflictColumns updateColumns insertColumns opts"

definition UserCredential_Delete where
  "UserCredential_Delete e p = boil_Delete e user_credentials_table p"

definition UserCredential_QueryDeleteAll where
  "UserCredential_QueryDeleteAll e q = boil_QueryDeleteAll e user_credentials_table q"

definition UserCredential_SliceDeleteAll where
  "UserCredential_SliceDeleteAll L e ps = boil_SliceDeleteAll L e user_credentials_table ps"

definition UserCredential_Reload where
  "UserCredential_Reload e p = boil_Reload e user_credentials_table p"

definition UserCredential_ReloadAll where
  "UserCredential_ReloadAll L e slice = boil_ReloadAll L e user_credentials_table slice"

definition UserCredential_ExistsByPK where
  "UserCredential_ExistsByPK e iD = boil_ExistsByPK e user_credentials_table [iD]"

definition UserCredential_ObjExists where
  "UserCredential_ObjExists e p = boil_ObjExists e user_credentials_table p"

section \<open>users\<close>

definition User_Query where
  "User_Query mods = boil_Query users_table mods"

definition User_One where
  "User_One e q = boil_One e users_table q"

definition User_All where
  "User_All e q = boil_All e users_table q"

definition User_Count where
  "User_Count e q = boil_Count e users_table q"

definition User_Exists where
  "User_Exists e q = boil_Exists e users_table q"

definition User_Find where
  "User_Find e iD selectCols = boil_Find e users_table [iD] selectCols"

definition User_Insert where
  "User_Insert L e p columns = boil_Insert L e users_table p columns"

definition User_Update where
  "User_Update L e p columns = boil_Update L e users_table p columns"

definition User_QueryUpdateAll where
  "User_QueryUpdateAll e q cols = boil_QueryUpdateAll e users_table q cols"

definition User_SliceUpdateAll where
  "User_SliceUpdateAll L e ps cols = boil_SliceUpdateAll L e users_table ps cols"

definition User_Upsert where
  "User_Upsert L e p updateOnConflict conflictColumns updateColumns insertColumns opts = 
     boil_Upsert L e users_table p updateOnConflict conflictColumns updateColumns insertColumns opts"

definition User_Delete where
  "User_Delete e p = boil_Delete e users_table p"

definition User_QueryDeleteAll where
  "User_QueryDeleteAll e q = boil_QueryDeleteAll e users_table q"

definition User_SliceDeleteAll where
  "User_SliceDeleteAll L e ps = boil_SliceDeleteAll L e users_table ps"

definition User_Reload where
  "User_Reload e p = boil_Reload e users_table p"

definition User_ReloadAll where
  "User_ReloadAll L e slice = boil_ReloadAll L e users_table slice"

definition User_ExistsByPK where
  "User_ExistsByPK e iD = boil_ExistsByPK e users_table [iD]"

definition User_ObjExists where
  "User_ObjExists e p = boil_ObjExists e users_table p"

section \<open>vault_keys\<close>

definition VaultKey_Query where
  "VaultKey_Query mods = boil_Query vault_keys_table mods"

definition VaultKey_One where
  "VaultKey_One e q = boil_One e vault_keys_table q"

definition VaultKey_All where
  "VaultKey_All e q = boil_All e vault_keys_table q"

definition VaultKey_Count where
  "VaultKey_Count e q = boil_Count e vault_keys_table q"

definition VaultKey_Exists where
  "VaultKey_Exists e q = boil_Exists e vault_keys_table q"

definition VaultKey_Find where
  "VaultKey_Find e iD selectCols = boil_Find e vault_keys_table [iD] selectCols"

definition VaultKey_Insert where
  "VaultKey_Insert L e p columns = boil_Insert L e vault_keys_table p columns"

definition VaultKey_Update where
  "VaultKey_Update L e p columns = boil_Update L e vault_keys_table p columns"

definition VaultKey_QueryUpdateAll where
  "VaultKey_QueryUpdateAll e q cols = boil_QueryUpdateAll e vault_keys_table q cols"

definition VaultKey_SliceUpdateAll where
  "VaultKey_SliceUpdateAll L e ps cols = boil_SliceUpdateAll L e vault_keys_table ps cols"

definition VaultKey_Upsert where
  "VaultKey_Upsert L e p updateOnConflict conflictColumns updateColumns insertColumns opts = 
     boil_Upsert L e vault_keys_table p updateOnConflict conflictColumns updateColumns insertColumns opts"

definition VaultKey_Delete where
  "VaultKey_Delete e p = boil_Delete e vault_keys_table p"

definition VaultKey_QueryDeleteAll where
  "VaultKey_QueryDeleteAll e q = boil_QueryDeleteAll e vault_keys_table q"

definition VaultKey_SliceDeleteAll where
  "VaultKey_SliceDeleteAll L e ps = boil_SliceDeleteAll L e vault_keys_table ps"

definition VaultKey_Reload where
  "VaultKey_Reload e p = boil_Reload e vault_keys_table p"

definition VaultKey_ReloadAll where
  "VaultKey_ReloadAll L e slice = boil_ReloadAll L e vault_keys_table slice"

definition VaultKey_ExistsByPK where
  "VaultKey_ExistsByPK e iD = boil_ExistsByPK e vault_keys_table [iD]"

definition VaultKey_ObjExists where
  "VaultKey_ObjExists e p = boil_ObjExists e vault_keys_table p"

section \<open>vaults\<close>

definition Vault_Query where
  "Vault_Query mods = boil_Query vaults_table mods"

definition Vault_One where
  "Vault_One e q = boil_One e vaults_table q"

definition Vault_All where
  "Vault_All e q = boil_All e vaults_table q"

definition Vault_Count where
  "Vault_Count e q = boil_Count e vaults_table q"

definition Vault_Exists where
  "Vault_Exists e q = boil_Exists e vaults_table q"

definition Vault_Find where
  "Vault_Find e iD selectCols = boil_Find e vaults_table [iD] selectCols"

definition Vault_Insert where
  "Vault_Insert L e p columns = boil_Insert L e vaults_table p columns"

definition Vault_Update where
  "Vault_Update L e p columns = boil_Update L e vaults_table p columns"

definition Vault_QueryUpdateAll where
  "Vault_QueryUpdateAll e q cols = boil_QueryUpdateAll e vaults_table q cols"

definition Vault_SliceUpdateAll where
  "Vault_SliceUpdateAll L e ps cols = boil_SliceUpdateAll L e vaults_table ps cols"

definition Vault_Upsert where
  "Vault_Upsert L e p updateOnConflict conflictColumns updateColumns insertColumns opts = 
     boil_Upsert L e vaults_table p updateOnConflict conflictColumns updateColumns insertColumns opts"

definition Vault_Delete where
  "Vault_Delete e p = boil_Delete e vaults_table p"

definition Vault_QueryDeleteAll where
  "Vault_QueryDeleteAll e q = boil_QueryDeleteAll e vaults_table q"

definition Vault_SliceDeleteAll where
  "Vault_SliceDeleteAll L e ps = boil_SliceDeleteAll L e vaults_table ps"

definition Vault_Reload where
  "Vault_Reload e p = boil_Reload e vaults_table p"

definition Vault_ReloadAll where
  "Vault_ReloadAll L e slice = boil_ReloadAll L e vaults_table slice"

definition Vault_ExistsByPK where
  "Vault_ExistsByPK e iD = boil_ExistsByPK e vaults_table [iD]"

definition Vault_ObjExists where
  "Vault_ObjExists e p = boil_ObjExists e vaults_table p"

section \<open>wallet_balances\<close>

definition WalletBalance_Query where
  "WalletBalance_Query mods = boil_Query wallet_balances_table mods"

definition WalletBalance_One where
  "WalletBalance_One e q = boil_One e wallet_balances_table q"

definition WalletBalance_All where
  "WalletBalance_All e q = boil_All e wallet_balances_table q"

definition WalletBalance_Count where
  "WalletBalance_Count e q = boil_Count e wallet_balances_table q"

definition WalletBalance_Exists where
  "WalletBalance_Exists e q = boil_Exists e wallet_balances_table q"

definition WalletBalance_Find where
  "WalletBalance_Find e iD selectCols = boil_Find e wallet_balances_table [iD] selectCols"

definition WalletBalance_Insert where
  "WalletBalance_Insert L e p columns = boil_Insert L e wallet_balances_table p columns"

definition WalletBalance_Update where
  "WalletBalance_Update L e p columns = boil_Update L e wallet_balances_table p columns"

definition WalletBalance_QueryUpdateAll where
  "WalletBalance_QueryUpdateAll e q cols = boil_QueryUpdateAll e wallet_balances_table q cols"

definition WalletBalance_SliceUpdateAll where
  "WalletBalance_SliceUpdateAll L e ps cols = boil_SliceUpdateAll L e wallet_balances_table ps cols"

definition WalletBalance_Upsert where
  "WalletBalance_Upsert L e p updateOnConflict conflictColumns updateColumns insertColumns opts = 
     boil_Upsert L e wallet_balances_table p updateOnConflict conflictColumns updateColumns insertColumns opts"

definition WalletBalance_Delete where
  "WalletBalance_Delete e p = boil_Delete e wallet_balances_table p"

definition WalletBalance_QueryDeleteAll where
  "WalletBalance_QueryDeleteAll e q = boil_QueryDeleteAll e wallet_balances_table q"

definition WalletBalance_SliceDeleteAll where
  "WalletBalance_SliceDeleteAll L e ps = boil_SliceDeleteAll L e wallet_balances_table ps"

definition WalletBalance_Reload where
  "WalletBalance_Reload e p = boil_Reload e wallet_balances_table p"

definition WalletBalance_ReloadAll where
  "WalletBalance_ReloadAll L e slice = boil_ReloadAll L e wallet_balances_table slice"

definition WalletBalance_ExistsByPK where
  "WalletBalance_ExistsByPK e iD = boil_ExistsByPK e wallet_balances_table [iD]"

definition WalletBalance_ObjExists where
  "WalletBalance_ObjExists e p = boil_ObjExists e wallet_balances_table p"

section \<open>wallets\<close>

definition Wallet_Query where
  "Wallet_Query mods = boil_Query wallets_table mods"

definition Wallet_One where
  "Wallet_One e q = boil_One e wallets_table q"

definition Wallet_All where
  "Wallet_All e q = boil_All e wallets_table q"

definition Wallet_Count where
  "Wallet_Count e q = boil_Count e wallets_table q"

definition Wallet_Exists where
  "Wallet_Exists e q = boil_Exists e wallets_table q"

definition Wallet_Find where
  "Wallet_Find e iD selectCols = boil_Find e wallets_table [iD] selectCols"

definition Wallet_Insert where
  "Wallet_Insert L e p columns = boil_Insert L e wallets_table p columns"

definition Wallet_Update where
  "Wallet_Update L e p columns = boil_Update L e wallets_table p columns"

definition Wallet_QueryUpdateAll where
  "Wallet_QueryUpdateAll e q cols = boil_QueryUpdateAll e wallets_table q cols"

definition Wallet_SliceUpdateAll where
  "Wallet_SliceUpdateAll L e ps cols = boil_SliceUpdateAll L e wallets_table ps cols"

definition Wallet_Upsert where
  "Wallet_Upsert L e p updateOnConflict conflictColumns updateColumns insertColumns opts = 
     boil_Upsert L e wallets_table p updateOnConflict conflictColumns updateColumns insertColumns opts"

definition Wallet_Delete where
  "Wallet_Delete e p = boil_Delete e wallets_table p"

definition Wallet_QueryDeleteAll where
  "Wallet_QueryDeleteAll e q = boil_QueryDeleteAll e wallets_table q"

definition Wallet_SliceDeleteAll where
  "Wallet_SliceDeleteAll L e ps = boil_SliceDeleteAll L e wallets_table ps"

definition Wallet_Reload where
  "Wallet_Reload e p = boil_Reload e wallets_table p"

definition Wallet_ReloadAll where
  "Wallet_ReloadAll L e slice = boil_ReloadAll L e wallets_table slice"

definition Wallet_ExistsByPK where
  "Wallet_ExistsByPK e iD = boil_ExistsByPK e wallets_table [iD]"

definition Wallet_ObjExists where
  "Wallet_ObjExists e p = boil_ObjExists e wallets_table p"

end
