(* ===== verification/Boil_Relations.thy ===== *)
theory Boil_Relations
  imports Boil_Facts
begin

text \<open>
  The relationships sqlboiler generates for every foreign key, once for an arbitrary key: the getters and
  queries of both sides, eager loading, and the functions that set, add and remove related objects.  They
  differ from key to key only in what the record \<open>boil_fk\<close> holds.  The relationship struct of an object
  holds one list per name: at most one pointer on the side that has the foreign key, a slice on the other.
  Slices are values here: no two of them share their elements.
\<close>

record boil_fk =
  fk_local :: boil_table \<comment> \<open>has the column\<close>
  fk_column :: string
  fk_nullable :: bool
  fk_unique :: bool
  fk_foreign :: boil_table \<comment> \<open>has the key\<close>
  fk_key :: string
  fk_one :: string \<comment> \<open>name of the relationship in the local model\<close>
  fk_many :: string \<comment> \<open>name of the relationship in the foreign model\<close>

text \<open>Both tables belong to the schema and have the columns.\<close>

definition fk_ok :: "boil_table list \<Rightarrow> boil_fk \<Rightarrow> bool" where
  "fk_ok ts fk \<longleftrightarrow> fk_local fk \<in> set ts \<and> fk_foreign fk \<in> set ts \<and>
     fk_column fk \<in> set (tb_all (fk_local fk)) \<and> fk_key fk \<in> set (tb_all (fk_foreign fk))"

section \<open>The relationship struct\<close>

text \<open>The methods \<open>Get\<close> of the model and of its relationship struct: nil at a nil pointer or struct.\<close>

definition boil_Get :: "string \<Rightarrow> ptr \<Rightarrow> (boil_world, ptr list) prog" where
  "boil_Get name p = (\<lambda>w. (Ok (case p of None \<Rightarrow> [] | Some a \<Rightarrow>
     (case bo_R (object w a) of None \<Rightarrow> [] | Some R \<Rightarrow> R name)), w))"

definition get_R :: "ptr \<Rightarrow> (boil_world, (string \<Rightarrow> ptr list) option) prog" where
  "get_R p = (case p of None \<Rightarrow> panicP nil_deref | Some a \<Rightarrow> (\<lambda>w. (Ok (bo_R (object w a)), w)))"

definition put_R :: "ptr \<Rightarrow> (string \<Rightarrow> ptr list) \<Rightarrow> (boil_world, unit) prog" where
  "put_R p R = (case p of None \<Rightarrow> panicP nil_deref
     | Some a \<Rightarrow> (\<lambda>w. (Ok (), w\<lparr>bw_heap := (bw_heap w)[a := (object w a)\<lparr>bo_R := Some R\<rparr>]\<rparr>)))"

text \<open>With a new struct where there is none.\<close>

definition ensure_R :: "ptr \<Rightarrow> (boil_world, unit) prog" where
  "ensure_R p = bindP (get_R p) (\<lambda>r. case r of None \<Rightarrow> put_R p (\<lambda>_. []) | Some _ \<Rightarrow> okP ())"

definition change_rel :: "string \<Rightarrow> (ptr list \<Rightarrow> ptr list) \<Rightarrow> ptr \<Rightarrow> (boil_world, unit) prog" where
  "change_rel name f p = bindP (get_R p) (\<lambda>r. case r of
      None \<Rightarrow> put_R p ((\<lambda>_. [])(name := f []))
    | Some R \<Rightarrow> put_R p (R(name := f (R name))))"

text \<open>Only where there is a struct.\<close>

definition change_rel_if :: "string \<Rightarrow> (ptr list \<Rightarrow> ptr list) \<Rightarrow> ptr \<Rightarrow> (boil_world, unit) prog" where
  "change_rel_if name f p = bindP (get_R p) (\<lambda>r. case r of None \<Rightarrow> okP () | Some R \<Rightarrow> put_R p (R(name := f (R name))))"

fun for_each :: "('a \<Rightarrow> ('s, unit) prog) \<Rightarrow> 'a list \<Rightarrow> ('s, unit) prog" where
  "for_each f [] = okP ()"
| "for_each f (x # xs) = thenP (f x) (for_each f xs)"

section \<open>Queries\<close>

definition boil_RelOne :: "boil_fk \<Rightarrow> ptr \<Rightarrow> query_mod list \<Rightarrow> (boil_world, query_obj) prog" where
  "boil_RelOne fk p mods = bindP (load p) (\<lambda>ob.
     okP (boil_Query (fk_foreign fk) (qm_Where (CompareC (fk_key fk) ''='' (fld ob (fk_column fk))) # mods)))"

definition boil_RelMany :: "boil_fk \<Rightarrow> ptr \<Rightarrow> query_mod list \<Rightarrow> (boil_world, query_obj) prog" where
  "boil_RelMany fk p mods = bindP (load p) (\<lambda>ob.
     let cond = qm_Where (CompareC (fk_column fk) ''='' (fld ob (fk_key fk))) in
     okP (boil_Query (fk_local fk) (if fk_unique fk then cond # mods else mods @ [cond])))"

section \<open>Eager loading\<close>

text \<open>The objects to load for: one, or a slice of them.  (Embedded structs are found by reflection.)\<close>

datatype load_target = Singular ptr | Slice "ptr list"

definition targets :: "load_target \<Rightarrow> ptr list" where
  "targets tgt = (case tgt of Singular p \<Rightarrow> [p] | Slice ps \<Rightarrow> ps)"

text \<open>
  The keys to look for, in \<open>args\<close>, a map: each once, in the order of some iteration (here the order of
  the last occurrences).
\<close>

fun eager_args :: "boil_lib \<Rightarrow> bool \<Rightarrow> string \<Rightarrow> ptr list \<Rightarrow> (boil_world, sql_value list) prog" where
  "eager_args L nullable c [] = okP []"
| "eager_args L nullable c (p # ps) =
     thenP (ensure_R p) (bindP (load p) (\<lambda>ob. bindP (eager_args L nullable c ps) (\<lambda>args.
       okP (if nullable \<and> bl_IsNil L (fld ob c) then args else List.insert (fld ob c) args))))"

definition eager_select :: "boil_table \<Rightarrow> string \<Rightarrow> sql_value list \<Rightarrow> query_mod option \<Rightarrow> query_obj" where
  "eager_select t c args mods =
     (let q = NewQuery [qm_From (tb_name t), qm_Where (InC c False args)] in
      case mods of None \<Rightarrow> q | Some m \<Rightarrow> m q)"

definition eager_query ::
    "boil_env \<Rightarrow> boil_table \<Rightarrow> string \<Rightarrow> string \<Rightarrow> query_obj \<Rightarrow> (boil_world, ptr list) prog" where
  "eager_query e t what close q =
     bindP (wrapP (''failed to eager load '' @ what) (exec_context e (QueryS q) [])) (\<lambda>(results, _).
     bindP (wrapP (''failed to bind eager loaded slice '' @ what)
       (bindP (receive e results) (\<lambda>results. alloc_all (map (bind_row t) results)))) (\<lambda>resultSlice.
     thenP (wrapP (close @ tb_name t) (receive e ()))
    (thenP (wrapP (''error occurred during iteration of eager loaded relations for '' @ tb_name t) (receive e ()))
       (okP (map Some resultSlice)))))"

text \<open>\<open>queries.Equal\<close> where the column may be NULL, the comparison of Go otherwise.\<close>

definition fk_equal :: "boil_lib \<Rightarrow> boil_fk \<Rightarrow> sql_value \<Rightarrow> sql_value \<Rightarrow> bool" where
  "fk_equal L fk a b = (if fk_nullable fk then bl_Equal L a b else a = b)"

text \<open>An object and the object it refers to get to know each other.\<close>

definition link_foreign :: "boil_fk \<Rightarrow> ptr \<Rightarrow> ptr \<Rightarrow> (boil_world, unit) prog" where
  "link_foreign fk p foreign =
     thenP (change_rel (fk_one fk) (\<lambda>_. [foreign]) p)
    (thenP (ensure_R foreign)
       (change_rel (fk_many fk) (\<lambda>xs. if fk_unique fk then [p] else xs @ [p]) foreign))"

fun find_foreign :: "boil_lib \<Rightarrow> boil_fk \<Rightarrow> ptr \<Rightarrow> ptr list \<Rightarrow> (boil_world, unit) prog" where
  "find_foreign L fk p [] = okP ()"
| "find_foreign L fk p (foreign # rest) = bindP (load p) (\<lambda>lo. bindP (load foreign) (\<lambda>fo.
     if fk_equal L fk (fld lo (fk_column fk)) (fld fo (fk_key fk)) then link_foreign fk p foreign
     else find_foreign L fk p rest))"

definition boil_LoadOne ::
    "boil_lib \<Rightarrow> boil_env \<Rightarrow> boil_fk \<Rightarrow> load_target \<Rightarrow> query_mod option \<Rightarrow> (boil_world, unit) prog" where
  "boil_LoadOne L e fk tgt mods =
     bindP (eager_args L (fk_nullable fk) (fk_column fk) (targets tgt)) (\<lambda>args.
     if args = [] then okP ()
     else bindP (eager_query e (fk_foreign fk) (tb_model (fk_foreign fk)) ''failed to close results of eager load for ''
                  (eager_select (fk_foreign fk) (fk_key fk) args mods)) (\<lambda>resultSlice.
       if resultSlice = [] then okP ()
       else case tgt of
           Singular p \<Rightarrow> link_foreign fk p (hd resultSlice)
         | Slice ps \<Rightarrow> for_each (\<lambda>p. find_foreign L fk p resultSlice) ps))"

text \<open>The other direction: \<open>local\<close> is the object with the key, \<open>foreign\<close> the one that refers to it.\<close>

definition link_local :: "boil_fk \<Rightarrow> ptr \<Rightarrow> ptr \<Rightarrow> (boil_world, unit) prog" where
  "link_local fk p foreign =
     thenP (change_rel (fk_many fk) (\<lambda>xs. if fk_unique fk then [foreign] else xs @ [foreign]) p)
    (thenP (ensure_R foreign) (change_rel (fk_one fk) (\<lambda>_. [p]) foreign))"

fun find_local :: "boil_lib \<Rightarrow> boil_fk \<Rightarrow> ptr list \<Rightarrow> ptr \<Rightarrow> (boil_world, unit) prog" where
  "find_local L fk [] foreign = okP ()"
| "find_local L fk (p # rest) foreign = bindP (load p) (\<lambda>lo. bindP (load foreign) (\<lambda>fo.
     if fk_equal L fk (fld lo (fk_key fk)) (fld fo (fk_column fk)) then link_local fk p foreign
     else find_local L fk rest foreign))"

text \<open>In a one-to-one relationship the loop over the slice looks for the object of each local one.\<close>

fun find_unique :: "boil_lib \<Rightarrow> boil_fk \<Rightarrow> ptr \<Rightarrow> ptr list \<Rightarrow> (boil_world, unit) prog" where
  "find_unique L fk p [] = okP ()"
| "find_unique L fk p (foreign # rest) = bindP (load p) (\<lambda>lo. bindP (load foreign) (\<lambda>fo.
     if fk_equal L fk (fld lo (fk_key fk)) (fld fo (fk_column fk)) then link_local fk p foreign
     else find_unique L fk p rest))"

definition boil_LoadMany ::
    "boil_lib \<Rightarrow> boil_env \<Rightarrow> boil_fk \<Rightarrow> load_target \<Rightarrow> query_mod option \<Rightarrow> (boil_world, unit) prog" where
  "boil_LoadMany L e fk tgt mods =
     bindP (eager_args L False (fk_key fk) (targets tgt)) (\<lambda>args.
     if args = [] then okP ()
     else bindP (eager_query e (fk_local fk) (if fk_unique fk then tb_model (fk_local fk) else tb_name (fk_local fk))
                  (if fk_unique fk then ''failed to close results of eager load for '' else ''failed to close results in eager load on '')
                  (eager_select (fk_local fk) (fk_column fk) args mods)) (\<lambda>resultSlice.
       if fk_unique fk then
         (if resultSlice = [] then okP ()
          else case tgt of
              Singular p \<Rightarrow> link_local fk p (hd resultSlice)
            | Slice ps \<Rightarrow> for_each (\<lambda>p. find_unique L fk p resultSlice) ps)
       else case tgt of
           Singular p \<Rightarrow> thenP (change_rel (fk_many fk) (\<lambda>_. resultSlice) p)
             (for_each (\<lambda>foreign. thenP (ensure_R foreign) (change_rel (fk_one fk) (\<lambda>_. [p]) foreign)) resultSlice)
         | Slice ps \<Rightarrow> for_each (find_local L fk ps) resultSlice))"

section \<open>Setting and adding\<close>

text \<open>
  The functions that change rows use \<open>Insert\<close> and \<open>Update\<close> of the other model.  Here these are
  arguments, so that what they do can be compared with and without statement caches; the functions of the
  code are the instances with \<open>boil_Insert\<close> and \<open>boil_Update\<close>.
\<close>

type_synonym insert_op = "boil_table \<Rightarrow> ptr \<Rightarrow> boil_columns \<Rightarrow> (boil_world, unit) prog"
type_synonym update_op = "boil_table \<Rightarrow> ptr \<Rightarrow> boil_columns \<Rightarrow> (boil_world, int) prog"

text \<open>\<open>UPDATE ... SET column WHERE key\<close>, built with the numbers 1 and 2.\<close>

definition point_stmt :: "boil_lib \<Rightarrow> boil_fk \<Rightarrow> stmt" where
  "point_stmt L fk = UpdateS (tb_name (fk_local fk)) (bl_SetParamNames L 1 [fk_column fk])
     [bl_WhereClause L 2 (tb_pk (fk_local fk))]"

definition SetOne_with :: "insert_op \<Rightarrow> boil_lib \<Rightarrow> boil_env \<Rightarrow> boil_fk \<Rightarrow> ptr \<Rightarrow> bool \<Rightarrow> ptr \<Rightarrow> (boil_world, unit) prog" where
  "SetOne_with ins_op L e fk p ins related =
     thenP (if ins then wrapP ''failed to insert into foreign table'' (ins_op (fk_foreign fk) related Infer) else okP ())
    (bindP (load related) (\<lambda>r. bindP (load p) (\<lambda>ob.
     thenP (wrapP ''failed to update local table''
       (exec_context e (point_stmt L fk) (fld r (fk_key fk) # pk_of (fk_local fk) ob)))
    (thenP (modify p (set_fld (fk_column fk) (fld r (fk_key fk))))
    (thenP (change_rel (fk_one fk) (\<lambda>_. [related]) p)
       (change_rel (fk_many fk) (\<lambda>xs. if fk_unique fk then [p] else xs @ [p]) related))))))"

text \<open>The row and the field of an object that is to refer to \<open>p\<close>.\<close>

definition attach :: "insert_op \<Rightarrow> boil_lib \<Rightarrow> boil_env \<Rightarrow> boil_fk \<Rightarrow> ptr \<Rightarrow> bool \<Rightarrow> ptr \<Rightarrow> (boil_world, unit) prog" where
  "attach ins_op L e fk p ins rel = bindP (load p) (\<lambda>ob.
     let assign = modify rel (set_fld (fk_column fk) (fld ob (fk_key fk))) in
     if ins
     then thenP assign (wrapP ''failed to insert into foreign table'' (ins_op (fk_local fk) rel Infer))
     else bindP (load rel) (\<lambda>r.
       thenP (wrapP ''failed to update foreign table''
         (exec_context e (point_stmt L fk) (fld ob (fk_key fk) # pk_of (fk_local fk) r))) assign))"

definition AddMany_with :: "insert_op \<Rightarrow> boil_lib \<Rightarrow> boil_env \<Rightarrow> boil_fk \<Rightarrow> ptr \<Rightarrow> bool \<Rightarrow> ptr list \<Rightarrow> (boil_world, unit) prog" where
  "AddMany_with ins_op L e fk p ins related =
     thenP (for_each (attach ins_op L e fk p ins) related)
    (thenP (change_rel (fk_many fk) (\<lambda>xs. xs @ related) p)
       (for_each (change_rel (fk_one fk) (\<lambda>_. [p])) related))"

text \<open>\<open>Set\<close> of a one-to-one relationship, from the side that has the key.\<close>

definition SetUnique_with :: "insert_op \<Rightarrow> boil_lib \<Rightarrow> boil_env \<Rightarrow> boil_fk \<Rightarrow> ptr \<Rightarrow> bool \<Rightarrow> ptr \<Rightarrow> (boil_world, unit) prog" where
  "SetUnique_with ins_op L e fk p ins related =
     thenP (attach ins_op L e fk p ins related)
    (thenP (change_rel (fk_many fk) (\<lambda>_. [related]) p) (change_rel (fk_one fk) (\<lambda>_. [p]) related))"

text \<open>\<open>Set\<close> of a slice, where the column may be NULL: what was related before is detached.\<close>

definition SetMany_with :: "insert_op \<Rightarrow> boil_lib \<Rightarrow> boil_env \<Rightarrow> boil_fk \<Rightarrow> ptr \<Rightarrow> bool \<Rightarrow> ptr list \<Rightarrow> (boil_world, unit) prog" where
  "SetMany_with ins_op L e fk p ins related = bindP (load p) (\<lambda>ob.
     thenP (wrapP ''failed to remove relationships before set''
       (exec_context e (DetachS (tb_name (fk_local fk)) (fk_column fk) (fk_column fk, 1)) [fld ob (fk_key fk)]))
    (bindP (get_R p) (\<lambda>R.
     thenP (case R of None \<Rightarrow> okP ()
       | Some R \<Rightarrow> thenP
           (for_each (\<lambda>rel. thenP (modify rel (set_fld (fk_column fk) VNull)) (change_rel_if (fk_one fk) (\<lambda>_. []) rel))
             (R (fk_many fk)))
           (change_rel_if (fk_many fk) (\<lambda>_. []) p))
       (AddMany_with ins_op L e fk p ins related))))"

section \<open>Removing\<close>

text \<open>
  The loop that removes from a slice the first element with a property: its place is taken by the last
  one.
\<close>

fun index_of :: "('a \<Rightarrow> bool) \<Rightarrow> 'a list \<Rightarrow> nat" where
  "index_of P [] = 0"
| "index_of P (x # xs) = (if P x then 0 else Suc (index_of P xs))"

definition swap_remove :: "('a \<Rightarrow> bool) \<Rightarrow> 'a list \<Rightarrow> 'a list" where
  "swap_remove P xs = (let i = index_of P xs; ln = length xs in
     if i < ln then take (ln - 1) (if ln > 1 \<and> i < ln - 1 then xs[i := xs ! (ln - 1)] else xs) else xs)"

text \<open>The fields of the elements are read in the loop.\<close>

definition field_of :: "boil_world \<Rightarrow> string \<Rightarrow> ptr \<Rightarrow> sql_value" where
  "field_of w c p = (case p of None \<Rightarrow> VNull | Some a \<Rightarrow> fld (bo_fields (object w a)) c)"

definition RemoveOne_with :: "update_op \<Rightarrow> boil_lib \<Rightarrow> boil_fk \<Rightarrow> ptr \<Rightarrow> ptr \<Rightarrow> (boil_world, unit) prog" where
  "RemoveOne_with upd_op L fk p related =
     thenP (modify p (set_fld (fk_column fk) VNull))
    (thenP (wrapP ''failed to update local table'' (upd_op (fk_local fk) p (Whitelist [fk_column fk])))
    (thenP (change_rel_if (fk_one fk) (\<lambda>_. []) p)
    (if related = None then okP ()
     else (\<lambda>w. change_rel_if (fk_many fk)
       (swap_remove (\<lambda>ri. \<not> bl_Equal L (field_of w (fk_column fk) p) (field_of w (fk_column fk) ri))) related w))))"

definition RemoveMany_with :: "update_op \<Rightarrow> boil_lib \<Rightarrow> boil_fk \<Rightarrow> ptr \<Rightarrow> ptr list \<Rightarrow> (boil_world, unit) prog" where
  "RemoveMany_with upd_op L fk p related =
     (if related = [] then okP ()
      else
        thenP (for_each (\<lambda>rel.
          thenP (modify rel (set_fld (fk_column fk) VNull))
         (thenP (change_rel_if (fk_one fk) (\<lambda>_. []) rel)
         (thenP (upd_op (fk_local fk) rel (Whitelist [fk_column fk])) (okP ())))) related)
       (for_each (\<lambda>rel. change_rel_if (fk_many fk) (swap_remove (\<lambda>ri. ri = rel)) p) related))"

section \<open>The functions of the code\<close>

definition boil_SetOne :: "boil_lib \<Rightarrow> boil_env \<Rightarrow> boil_fk \<Rightarrow> ptr \<Rightarrow> bool \<Rightarrow> ptr \<Rightarrow> (boil_world, unit) prog" where
  "boil_SetOne L e = SetOne_with (boil_Insert L e) L e"

definition boil_AddMany :: "boil_lib \<Rightarrow> boil_env \<Rightarrow> boil_fk \<Rightarrow> ptr \<Rightarrow> bool \<Rightarrow> ptr list \<Rightarrow> (boil_world, unit) prog" where
  "boil_AddMany L e = AddMany_with (boil_Insert L e) L e"

definition boil_SetUnique :: "boil_lib \<Rightarrow> boil_env \<Rightarrow> boil_fk \<Rightarrow> ptr \<Rightarrow> bool \<Rightarrow> ptr \<Rightarrow> (boil_world, unit) prog" where
  "boil_SetUnique L e = SetUnique_with (boil_Insert L e) L e"

definition boil_SetMany :: "boil_lib \<Rightarrow> boil_env \<Rightarrow> boil_fk \<Rightarrow> ptr \<Rightarrow> bool \<Rightarrow> ptr list \<Rightarrow> (boil_world, unit) prog" where
  "boil_SetMany L e = SetMany_with (boil_Insert L e) L e"

definition boil_RemoveOne :: "boil_lib \<Rightarrow> boil_env \<Rightarrow> boil_fk \<Rightarrow> ptr \<Rightarrow> ptr \<Rightarrow> (boil_world, unit) prog" where
  "boil_RemoveOne L e = RemoveOne_with (boil_Update L e) L"

definition boil_RemoveMany :: "boil_lib \<Rightarrow> boil_env \<Rightarrow> boil_fk \<Rightarrow> ptr \<Rightarrow> ptr list \<Rightarrow> (boil_world, unit) prog" where
  "boil_RemoveMany L e = RemoveMany_with (boil_Update L e) L"

end
