(* ===== verification/Boil_Keys.thy ===== *)
theory Boil_Keys
  imports Boil_Tables Boil_Relations
begin

text \<open>
  The foreign keys: the relationships of internal/models/*.go, each with the names of its two directions
  and whether the column may be NULL or is unique.  All of them are keys between tables of the schema.
\<close>

lemma fk_okI:
  "fk_local fk \<in> set ts \<Longrightarrow> fk_foreign fk \<in> set ts \<Longrightarrow> fk_column fk \<in> set (tb_all (fk_local fk)) \<Longrightarrow>
    fk_key fk \<in> set (tb_all (fk_foreign fk)) \<Longrightarrow> fk_ok ts fk"
  by (simp add: fk_ok_def)

definition access_tokens_user_id_fk :: boil_fk where
  "access_tokens_user_id_fk = \<lparr>fk_local = access_tokens_table, fk_column = ''user_id'', fk_nullable = False, fk_unique = False,
     fk_foreign = users_table, fk_key = ''id'', fk_one = ''User'', fk_many = ''AccessTokens''\<rparr>"

lemma access_tokens_user_id_fk_ok: "fk_ok all_tables access_tokens_user_id_fk"
  by (rule fk_okI, simp add: access_tokens_user_id_fk_def all_tables_def, simp add: access_tokens_user_id_fk_def all_tables_def, code_simp, code_simp)

definition address_book_chain_id_fk :: boil_fk where
  "address_book_chain_id_fk = \<lparr>fk_local = address_book_table, fk_column = ''chain_id'', fk_nullable = True, fk_unique = False,
     fk_foreign = chains_table, fk_key = ''id'', fk_one = ''Chain'', fk_many = ''AddressBooks''\<rparr>"

lemma address_book_chain_id_fk_ok: "fk_ok all_tables address_book_chain_id_fk"
  by (rule fk_okI, simp add: address_book_chain_id_fk_def all_tables_def, simp add: address_book_chain_id_fk_def all_tables_def, code_simp, code_simp)

definition address_book_created_by_fk :: boil_fk where
  "address_book_created_by_fk = \<lparr>fk_local = address_book_table, fk_column = ''created_by'', fk_nullable = True, fk_unique = False,
     fk_foreign = users_table, fk_key = ''id'', fk_one = ''CreatedByUser'', fk_many = ''CreatedByAddressBooks''\<rparr>"

lemma address_book_created_by_fk_ok: "fk_ok all_tables address_book_created_by_fk"
  by (rule fk_okI, simp add: address_book_created_by_fk_def all_tables_def, simp add: address_book_created_by_fk_def all_tables_def, code_simp, code_simp)

definition address_book_organization_id_fk :: boil_fk where
  "address_book_organization_id_fk = \<lparr>fk_local = address_book_table, fk_column = ''organization_id'', fk_nullable = True, fk_unique = False,
     fk_foreign = organizations_table, fk_key = ''id'', fk_one = ''Organization'', fk_many = ''AddressBooks''\<rparr>"

lemma address_book_organization_id_fk_ok: "fk_ok all_tables address_book_organization_id_fk"
  by (rule fk_okI, simp add: address_book_organization_id_fk_def all_tables_def, simp add: address_book_organization_id_fk_def all_tables_def, code_simp, code_simp)

definition app_user_profiles_user_id_fk :: boil_fk where
  "app_user_profiles_user_id_fk = \<lparr>fk_local = app_user_profiles_table, fk_column = ''user_id'', fk_nullable = False, fk_unique = True,
     fk_foreign = users_table, fk_key = ''id'', fk_one = ''User'', fk_many = ''AppUserProfile''\<rparr>"

lemma app_user_profiles_user_id_fk_ok: "fk_ok all_tables app_user_profiles_user_id_fk"
  by (rule fk_okI, simp add: app_user_profiles_user_id_fk_def all_tables_def, simp add: app_user_profiles_user_id_fk_def all_tables_def, code_simp, code_simp)

definition approvals_request_id_fk :: boil_fk where
  "approvals_request_id_fk = \<lparr>fk_local = approvals_table, fk_column = ''request_id'', fk_nullable = True, fk_unique = False,
     fk_foreign = signing_requests_table, fk_key = ''id'', fk_one = ''Request'', fk_many = ''RequestApprovals''\<rparr>"

lemma approvals_request_id_fk_ok: "fk_ok all_tables approvals_request_id_fk"
  by (rule fk_okI, simp add: approvals_request_id_fk_def all_tables_def, simp add: approvals_request_id_fk_def all_tables_def, code_simp, code_simp)

definition approvals_user_id_fk :: boil_fk where
  "approvals_user_id_fk = \<lparr>fk_local = approvals_table, fk_column = ''user_id'', fk_nullable = True, fk_unique = False,
     fk_foreign = users_table, fk_key = ''id'', fk_one = ''User'', fk_many = ''Approvals''\<rparr>"

lemma approvals_user_id_fk_ok: "fk_ok all_tables approvals_user_id_fk"
  by (rule fk_okI, simp add: approvals_user_id_fk_def all_tables_def, simp add: approvals_user_id_fk_def all_tables_def, code_simp, code_simp)

definition assets_chain_id_fk :: boil_fk where
  "assets_chain_id_fk = \<lparr>fk_local = assets_table, fk_column = ''chain_id'', fk_nullable = True, fk_unique = False,
     fk_foreign = chains_table, fk_key = ''id'', fk_one = ''Chain'', fk_many = ''Assets''\<rparr>"

lemma assets_chain_id_fk_ok: "fk_ok all_tables assets_chain_id_fk"
  by (rule fk_okI, simp add: assets_chain_id_fk_def all_tables_def, simp add: assets_chain_id_fk_def all_tables_def, code_simp, code_simp)

definition audit_logs_organization_id_fk :: boil_fk where
  "audit_logs_organization_id_fk = \<lparr>fk_local = audit_logs_table, fk_column = ''organization_id'', fk_nullable = True, fk_unique = False,
     fk_foreign = organizations_table, fk_key = ''id'', fk_one = ''Organization'', fk_many = ''AuditLogs''\<rparr>"

lemma audit_logs_organization_id_fk_ok: "fk_ok all_tables audit_logs_organization_id_fk"
  by (rule fk_okI, simp add: audit_logs_organization_id_fk_def all_tables_def, simp add: audit_logs_organization_id_fk_def all_tables_def, code_simp, code_simp)

definition audit_logs_user_id_fk :: boil_fk where
  "audit_logs_user_id_fk = \<lparr>fk_local = audit_logs_table, fk_column = ''user_id'', fk_nullable = True, fk_unique = False,
     fk_foreign = users_table, fk_key = ''id'', fk_one = ''User'', fk_many = ''AuditLogs''\<rparr>"

lemma audit_logs_user_id_fk_ok: "fk_ok all_tables audit_logs_user_id_fk"
  by (rule fk_okI, simp add: audit_logs_user_id_fk_def all_tables_def, simp add: audit_logs_user_id_fk_def all_tables_def, code_simp, code_simp)

definition confirmation_tokens_user_id_fk :: boil_fk where
  "confirmation_tokens_user_id_fk = \<lparr>fk_local = confirmation_tokens_table, fk_column = ''user_id'', fk_nullable = False, fk_unique = False,
     fk_foreign = users_table, fk_key = ''id'', fk_one = ''User'', fk_many = ''ConfirmationTokens''\<rparr>"

lemma confirmation_tokens_user_id_fk_ok: "fk_ok all_tables confirmation_tokens_user_id_fk"
  by (rule fk_okI, simp add: confirmation_tokens_user_id_fk_def all_tables_def, simp add: confirmation_tokens_user_id_fk_def all_tables_def, code_simp, code_simp)

definition organization_members_organization_id_fk :: boil_fk where
  "organization_members_organization_id_fk = \<lparr>fk_local = organization_members_table, fk_column = ''organization_id'', fk_nullable = False, fk_unique = False,
     fk_foreign = organizations_table, fk_key = ''id'', fk_one = ''Organization'', fk_many = ''OrganizationMembers''\<rparr>"

lemma organization_members_organization_id_fk_ok: "fk_ok all_tables organization_members_organization_id_fk"
  by (rule fk_okI, simp add: organization_members_organization_id_fk_def all_tables_def, simp add: organization_members_organization_id_fk_def all_tables_def, code_simp, code_simp)

definition organization_members_user_id_fk :: boil_fk where
  "organization_members_user_id_fk = \<lparr>fk_local = organization_members_table, fk_column = ''user_id'', fk_nullable = False, fk_unique = False,
     fk_foreign = users_table, fk_key = ''id'', fk_one = ''User'', fk_many = ''OrganizationMembers''\<rparr>"

lemma organization_members_user_id_fk_ok: "fk_ok all_tables organization_members_user_id_fk"
  by (rule fk_okI, simp add: organization_members_user_id_fk_def all_tables_def, simp add: organization_members_user_id_fk_def all_tables_def, code_simp, code_simp)

definition organizations_owner_id_fk :: boil_fk where
  "organizations_owner_id_fk = \<lparr>fk_local = organizations_table, fk_column = ''owner_id'', fk_nullable = False, fk_unique = False,
     fk_foreign = users_table, fk_key = ''id'', fk_one = ''Owner'', fk_many = ''OwnerOrganizations''\<rparr>"

lemma organizations_owner_id_fk_ok: "fk_ok all_tables organizations_owner_id_fk"
  by (rule fk_okI, simp add: organizations_owner_id_fk_def all_tables_def, simp add: organizations_owner_id_fk_def all_tables_def, code_simp, code_simp)

definition password_reset_tokens_user_id_fk :: boil_fk where
  "password_reset_tokens_user_id_fk = \<lparr>fk_local = password_reset_tokens_table, fk_column = ''user_id'', fk_nullable = False, fk_unique = False,
     fk_foreign = users_table, fk_key = ''id'', fk_one = ''User'', fk_many = ''PasswordResetTokens''\<rparr>"

lemma password_reset_tokens_user_id_fk_ok: "fk_ok all_tables password_reset_tokens_user_id_fk"
  by (rule fk_okI, simp add: password_reset_tokens_user_id_fk_def all_tables_def, simp add: password_reset_tokens_user_id_fk_def all_tables_def, code_simp, code_simp)

definition push_tokens_user_id_fk :: boil_fk where
  "push_tokens_user_id_fk = \<lparr>fk_local = push_tokens_table, fk_column = ''user_id'', fk_nullable = False, fk_unique = False,
     fk_foreign = users_table, fk_key = ''id'', fk_one = ''User'', fk_many = ''PushTokens''\<rparr>"

lemma push_tokens_user_id_fk_ok: "fk_ok all_tables push_tokens_user_id_fk"
  by (rule fk_okI, simp add: push_tokens_user_id_fk_def all_tables_def, simp add: push_tokens_user_id_fk_def all_tables_def, code_simp, code_simp)

definition refresh_tokens_user_id_fk :: boil_fk where
  "refresh_tokens_user_id_fk = \<lparr>fk_local = refresh_tokens_table, fk_column = ''user_id'', fk_nullable = False, fk_unique = False,
     fk_foreign = users_table, fk_key = ''id'', fk_one = ''User'', fk_many = ''RefreshTokens''\<rparr>"

lemma refresh_tokens_user_id_fk_ok: "fk_ok all_tables refresh_tokens_user_id_fk"
  by (rule fk_okI, simp add: refresh_tokens_user_id_fk_def all_tables_def, simp add: refresh_tokens_user_id_fk_def all_tables_def, code_simp, code_simp)

definition signing_requests_initiator_id_fk :: boil_fk where
  "signing_requests_initiator_id_fk = \<lparr>fk_local = signing_requests_table, fk_column = ''initiator_id'', fk_nullable = True, fk_unique = False,
     fk_foreign = users_table, fk_key = ''id'', fk_one = ''Initiator'', fk_many = ''InitiatorSigningRequests''\<rparr>"

lemma signing_requests_initiator_id_fk_ok: "fk_ok all_tables signing_requests_initiator_id_fk"
  by (rule fk_okI, simp add: signing_requests_initiator_id_fk_def all_tables_def, simp add: signing_requests_initiator_id_fk_def all_tables_def, code_simp, code_simp)

definition signing_requests_vault_id_fk :: boil_fk where
  "signing_requests_vault_id_fk = \<lparr>fk_local = signing_requests_table, fk_column = ''vault_id'', fk_nullable = True, fk_unique = False,
     fk_foreign = vaults_table, fk_key = ''id'', fk_one = ''Vault'', fk_many = ''SigningRequests''\<rparr>"

lemma signing_requests_vault_id_fk_ok: "fk_ok all_tables signing_requests_vault_id_fk"
  by (rule fk_okI, simp add: signing_requests_vault_id_fk_def all_tables_def, simp add: signing_requests_vault_id_fk_def all_tables_def, code_simp, code_simp)

definition signing_requests_wallet_id_fk :: boil_fk where
  "signing_requests_wallet_id_fk = \<lparr>fk_local = signing_requests_table, fk_column = ''wallet_id'', fk_nullable = True, fk_unique = False,
     fk_foreign = wallets_table, fk_key = ''id'', fk_one = ''Wallet'', fk_many = ''SigningRequests''\<rparr>"

lemma signing_requests_wallet_id_fk_ok: "fk_ok all_tables signing_requests_wallet_id_fk"
  by (rule fk_okI, simp add: signing_requests_wallet_id_fk_def all_tables_def, simp add: signing_requests_wallet_id_fk_def all_tables_def, code_simp, code_simp)

definition spending_limits_asset_id_fk :: boil_fk where
  "spending_limits_asset_id_fk = \<lparr>fk_local = spending_limits_table, fk_column = ''asset_id'', fk_nullable = True, fk_unique = False,
     fk_foreign = assets_table, fk_key = ''id'', fk_one = ''Asset'', fk_many = ''SpendingLimits''\<rparr>"

lemma spending_limits_asset_id_fk_ok: "fk_ok all_tables spending_limits_asset_id_fk"
  by (rule fk_okI, simp add: spending_limits_asset_id_fk_def all_tables_def, simp add: spending_limits_asset_id_fk_def all_tables_def, code_simp, code_simp)

definition spending_limits_vault_id_fk :: boil_fk where
  "spending_limits_vault_id_fk = \<lparr>fk_local = spending_limits_table, fk_column = ''vault_id'', fk_nullable = True, fk_unique = False,
     fk_foreign = vaults_table, fk_key = ''id'', fk_one = ''Vault'', fk_many = ''SpendingLimits''\<rparr>"

lemma spending_limits_vault_id_fk_ok: "fk_ok all_tables spending_limits_vault_id_fk"
  by (rule fk_okI, simp add: spending_limits_vault_id_fk_def all_tables_def, simp add: spending_limits_vault_id_fk_def all_tables_def, code_simp, code_simp)

definition user_credentials_user_id_fk :: boil_fk where
  "user_credentials_user_id_fk = \<lparr>fk_local = user_credentials_table, fk_column = ''user_id'', fk_nullable = False, fk_unique = False,
     fk_foreign = users_table, fk_key = ''id'', fk_one = ''User'', fk_many = ''UserCredentials''\<rparr>"

lemma user_credentials_user_id_fk_ok: "fk_ok all_tables user_credentials_user_id_fk"
  by (rule fk_okI, simp add: user_credentials_user_id_fk_def all_tables_def, simp add: user_credentials_user_id_fk_def all_tables_def, code_simp, code_simp)

definition vault_keys_vault_id_fk :: boil_fk where
  "vault_keys_vault_id_fk = \<lparr>fk_local = vault_keys_table, fk_column = ''vault_id'', fk_nullable = True, fk_unique = False,
     fk_foreign = vaults_table, fk_key = ''id'', fk_one = ''Vault'', fk_many = ''VaultKeys''\<rparr>"

lemma vault_keys_vault_id_fk_ok: "fk_ok all_tables vault_keys_vault_id_fk"
  by (rule fk_okI, simp add: vault_keys_vault_id_fk_def all_tables_def, simp add: vault_keys_vault_id_fk_def all_tables_def, code_simp, code_simp)

definition vaults_organization_id_fk :: boil_fk where
  "vaults_organization_id_fk = \<lparr>fk_local = vaults_table, fk_column = ''organization_id'', fk_nullable = True, fk_unique = False,
     fk_foreign = organizations_table, fk_key = ''id'', fk_one = ''Organization'', fk_many = ''Vaults''\<rparr>"

lemma vaults_organization_id_fk_ok: "fk_ok all_tables vaults_organization_id_fk"
  by (rule fk_okI, simp add: vaults_organization_id_fk_def all_tables_def, simp add: vaults_organization_id_fk_def all_tables_def, code_simp, code_simp)

definition wallet_balances_asset_id_fk :: boil_fk where
  "wallet_balances_asset_id_fk = \<lparr>fk_local = wallet_balances_table, fk_column = ''asset_id'', fk_nullable = True, fk_unique = False,
     fk_foreign = assets_table, fk_key = ''id'', fk_one = ''Asset'', fk_many = ''WalletBalances''\<rparr>"

lemma wallet_balances_asset_id_fk_ok: "fk_ok all_tables wallet_balances_asset_id_fk"
  by (rule fk_okI, simp add: wallet_balances_asset_id_fk_def all_tables_def, simp add: wallet_balances_asset_id_fk_def all_tables_def, code_simp, code_simp)

definition wallet_balances_wallet_id_fk :: boil_fk where
  "wallet_balances_wallet_id_fk = \<lparr>fk_local = wallet_balances_table, fk_column = ''wallet_id'', fk_nullable = True, fk_unique = False,
     fk_foreign = wallets_table, fk_key = ''id'', fk_one = ''Wallet'', fk_many = ''WalletBalances''\<rparr>"

lemma wallet_balances_wallet_id_fk_ok: "fk_ok all_tables wallet_balances_wallet_id_fk"
  by (rule fk_okI, simp add: wallet_balances_wallet_id_fk_def all_tables_def, simp add: wallet_balances_wallet_id_fk_def all_tables_def, code_simp, code_simp)

definition wallets_chain_id_fk :: boil_fk where
  "wallets_chain_id_fk = \<lparr>fk_local = wallets_table, fk_column = ''chain_id'', fk_nullable = True, fk_unique = False,
     fk_foreign = chains_table, fk_key = ''id'', fk_one = ''Chain'', fk_many = ''Wallets''\<rparr>"

lemma wallets_chain_id_fk_ok: "fk_ok all_tables wallets_chain_id_fk"
  by (rule fk_okI, simp add: wallets_chain_id_fk_def all_tables_def, simp add: wallets_chain_id_fk_def all_tables_def, code_simp, code_simp)

definition wallets_vault_id_fk :: boil_fk where
  "wallets_vault_id_fk = \<lparr>fk_local = wallets_table, fk_column = ''vault_id'', fk_nullable = True, fk_unique = False,
     fk_foreign = vaults_table, fk_key = ''id'', fk_one = ''Vault'', fk_many = ''Wallets''\<rparr>"

lemma wallets_vault_id_fk_ok: "fk_ok all_tables wallets_vault_id_fk"
  by (rule fk_okI, simp add: wallets_vault_id_fk_def all_tables_def, simp add: wallets_vault_id_fk_def all_tables_def, code_simp, code_simp)

definition all_fks :: "boil_fk list" where
  "all_fks = [access_tokens_user_id_fk, address_book_chain_id_fk, address_book_created_by_fk,
     address_book_organization_id_fk, app_user_profiles_user_id_fk, approvals_request_id_fk,
     approvals_user_id_fk, assets_chain_id_fk, audit_logs_organization_id_fk,
     audit_logs_user_id_fk, confirmation_tokens_user_id_fk, organization_members_organization_id_fk,
     organization_members_user_id_fk, organizations_owner_id_fk, password_reset_tokens_user_id_fk,
     push_tokens_user_id_fk, refresh_tokens_user_id_fk, signing_requests_initiator_id_fk,
     signing_requests_vault_id_fk, signing_requests_wallet_id_fk, spending_limits_asset_id_fk,
     spending_limits_vault_id_fk, user_credentials_user_id_fk, vault_keys_vault_id_fk,
     vaults_organization_id_fk, wallet_balances_asset_id_fk, wallet_balances_wallet_id_fk,
     wallets_chain_id_fk, wallets_vault_id_fk]"

lemma all_fks_ok: "fk \<in> set all_fks \<Longrightarrow> fk_ok all_tables fk"
  by (auto simp: all_fks_def access_tokens_user_id_fk_ok address_book_chain_id_fk_ok address_book_created_by_fk_ok
      address_book_organization_id_fk_ok app_user_profiles_user_id_fk_ok approvals_request_id_fk_ok
      approvals_user_id_fk_ok assets_chain_id_fk_ok audit_logs_organization_id_fk_ok
      audit_logs_user_id_fk_ok confirmation_tokens_user_id_fk_ok organization_members_organization_id_fk_ok
      organization_members_user_id_fk_ok organizations_owner_id_fk_ok password_reset_tokens_user_id_fk_ok
      push_tokens_user_id_fk_ok refresh_tokens_user_id_fk_ok signing_requests_initiator_id_fk_ok
      signing_requests_vault_id_fk_ok signing_requests_wallet_id_fk_ok spending_limits_asset_id_fk_ok
      spending_limits_vault_id_fk_ok user_credentials_user_id_fk_ok vault_keys_vault_id_fk_ok
      vaults_organization_id_fk_ok wallet_balances_asset_id_fk_ok wallet_balances_wallet_id_fk_ok
      wallets_chain_id_fk_ok wallets_vault_id_fk_ok)

end
