(* ===== verification/Boil_Links.thy ===== *)
theory Boil_Links
  imports Boil_Keys
begin

text \<open>
  The relationship functions of internal/models/*.go: the generated functions at each foreign key.  A query
  for related objects is \<open><Model>_rel_<Name>\<close>.
\<close>

section \<open>access_tokens\<close>

definition AccessToken_GetUser where
  "AccessToken_GetUser p = boil_Get ''User'' p"

definition AccessToken_rel_User where
  "AccessToken_rel_User p mods = boil_RelOne access_tokens_user_id_fk p mods"

definition AccessToken_LoadUser where
  "AccessToken_LoadUser L e tgt mods = boil_LoadOne L e access_tokens_user_id_fk tgt mods"

definition AccessToken_SetUser where
  "AccessToken_SetUser L e p ins related = boil_SetOne L e access_tokens_user_id_fk p ins related"

section \<open>users\<close>

definition User_GetAccessTokens where
  "User_GetAccessTokens p = boil_Get ''AccessTokens'' p"

definition User_rel_AccessTokens where
  "User_rel_AccessTokens p mods = boil_RelMany access_tokens_user_id_fk p mods"

definition User_LoadAccessTokens where
  "User_LoadAccessTokens L e tgt mods = boil_LoadMany L e access_tokens_user_id_fk tgt mods"

definition User_AddAccessTokens where
  "User_AddAccessTokens L e p ins related = boil_AddMany L e access_tokens_user_id_fk p ins related"

definition User_GetCreatedByAddressBooks where
  "User_GetCreatedByAddressBooks p = boil_Get ''CreatedByAddressBooks'' p"

definition User_rel_CreatedByAddressBooks where
  "User_rel_CreatedByAddressBooks p mods = boil_RelMany address_book_created_by_fk p mods"

definition User_LoadCreatedByAddressBooks where
  "User_LoadCreatedByAddressBooks L e tgt mods = boil_LoadMany L e address_book_created_by_fk tgt mods"

definition User_AddCreatedByAddressBooks where
  "User_AddCreatedByAddressBooks L e p ins related = boil_AddMany L e address_book_created_by_fk p ins related"

definition User_SetCreatedByAddressBooks where
  "User_SetCreatedByAddressBooks L e p ins related = boil_SetMany L e address_book_created_by_fk p ins related"

definition User_RemoveCreatedByAddressBooks where
  "User_RemoveCreatedByAddressBooks L e p related = boil_RemoveMany L e address_book_created_by_fk p related"

definition User_GetAppUserProfile where
  "User_GetAppUserProfile p = boil_Get ''AppUserProfile'' p"

definition User_rel_AppUserProfile where
  "User_rel_AppUserProfile p mods = boil_RelMany app_user_profiles_user_id_fk p mods"

definition User_LoadAppUserProfile where
  "User_LoadAppUserProfile L e tgt mods = boil_LoadMany L e app_user_profiles_user_id_fk tgt mods"

definition User_SetAppUserProfile where
  "User_SetAppUserProfile L e p ins related = boil_SetUnique L e app_user_profiles_user_id_fk p ins related"

definition User_GetApprovals where
  "User_GetApprovals p = boil_Get ''Approvals'' p"

definition User_rel_Approvals where
  "User_rel_Approvals p mods = boil_RelMany approvals_user_id_fk p mods"

definition User_LoadApprovals where
  "User_LoadApprovals L e tgt mods = boil_LoadMany L e approvals_user_id_fk tgt mods"

definition User_AddApprovals where
  "User_AddApprovals L e p ins related = boil_AddMany L e approvals_user_id_fk p ins related"

definition User_SetApprovals where
  "User_SetApprovals L e p ins related = boil_SetMany L e approvals_user_id_fk p ins related"

definition User_RemoveApprovals where
  "User_RemoveApprovals L e p related = boil_RemoveMany L e approvals_user_id_fk p related"

definition User_GetAuditLogs where
  "User_GetAuditLogs p = boil_Get ''AuditLogs'' p"

definition User_rel_AuditLogs where
  "User_rel_AuditLogs p mods = boil_RelMany audit_logs_user_id_fk p mods"

definition User_LoadAuditLogs where
  "User_LoadAuditLogs L e tgt mods = boil_LoadMany L e audit_logs_user_id_fk tgt mods"

definition User_AddAuditLogs where
  "User_AddAuditLogs L e p ins related = boil_AddMany L e audit_logs_user_id_fk p ins related"

definition User_SetAuditLogs where
  "User_SetAuditLogs L e p ins related = boil_SetMany L e audit_logs_user_id_fk p ins related"

definition User_RemoveAuditLogs where
  "User_RemoveAuditLogs L e p related = boil_RemoveMany L e audit_logs_user_id_fk p related"

definition User_GetConfirmationTokens where
  "User_GetConfirmationTokens p = boil_Get ''ConfirmationTokens'' p"

definition User_rel_ConfirmationTokens where
  "User_rel_ConfirmationTokens p mods = boil_RelMany confirmation_tokens_user_id_fk p mods"

definition User_LoadConfirmationTokens where
  "User_LoadConfirmationTokens L e tgt mods = boil_LoadMany L e confirmation_tokens_user_id_fk tgt mods"

definition User_AddConfirmationTokens where
  "User_AddConfirmationTokens L e p ins related = boil_AddMany L e confirmation_tokens_user_id_fk p ins related"

definition User_GetOrganizationMembers where
  "User_GetOrganizationMembers p = boil_Get ''OrganizationMembers'' p"

definition User_rel_OrganizationMembers where
  "User_rel_OrganizationMembers p mods = boil_RelMany organization_members_user_id_fk p mods"

definition User_LoadOrganizationMembers where
  "User_LoadOrganizationMembers L e tgt mods = boil_LoadMany L e organization_members_user_id_fk tgt mods"

definition User_AddOrganizationMembers where
  "User_AddOrganizationMembers L e p ins related = boil_AddMany L e organization_members_user_id_fk p ins related"

definition User_GetOwnerOrganizations where
  "User_GetOwnerOrganizations p = boil_Get ''OwnerOrganizations'' p"

definition User_rel_OwnerOrganizations where
  "User_rel_OwnerOrganizations p mods = boil_RelMany organizations_owner_id_fk p mods"

definition User_LoadOwnerOrganizations where
  "User_LoadOwnerOrganizations L e tgt mods = boil_LoadMany L e organizations_owner_id_fk tgt mods"

definition User_AddOwnerOrganizations where
  "User_AddOwnerOrganizations L e p ins related = boil_AddMany L e organizations_owner_id_fk p ins related"

definition User_GetPasswordResetTokens where
  "User_GetPasswordResetTokens p = boil_Get ''PasswordResetTokens'' p"

definition User_rel_PasswordResetTokens where
  "User_rel_PasswordResetTokens p mods = boil_RelMany password_reset_tokens_user_id_fk p mods"

definition User_LoadPasswordResetTokens where
  "User_LoadPasswordResetTokens L e tgt mods = boil_LoadMany L e password_reset_tokens_user_id_fk tgt mods"

definition User_AddPasswordResetTokens where
  "User_AddPasswordResetTokens L e p ins related = boil_AddMany L e password_reset_tokens_user_id_fk p ins related"

definition User_GetPushTokens where
  "User_GetPushTokens p = boil_Get ''PushTokens'' p"

definition User_rel_PushTokens where
  "User_rel_PushTokens p mods = boil_RelMany push_tokens_user_id_fk p mods"

definition User_LoadPushTokens where
  "User_LoadPushTokens L e tgt mods = boil_LoadMany L e push_tokens_user_id_fk tgt mods"

definition User_AddPushTokens where
  "User_AddPushTokens L e p ins related = boil_AddMany L e push_tokens_user_id_fk p ins related"

definition User_GetRefreshTokens where
  "User_GetRefreshTokens p = boil_Get ''RefreshTokens'' p"

definition User_rel_RefreshTokens where
  "User_rel_RefreshTokens p mods = boil_RelMany refresh_tokens_user_id_fk p mods"

definition User_LoadRefreshTokens where
  "User_LoadRefreshTokens L e tgt mods = boil_LoadMany L e refresh_tokens_user_id_fk tgt mods"

definition User_AddRefreshTokens where
  "User_AddRefreshTokens L e p ins related = boil_AddMany L e refresh_tokens_user_id_fk p ins related"

definition User_GetInitiatorSigningRequests where
  "User_GetInitiatorSigningRequests p = boil_Get ''InitiatorSigningRequests'' p"

definition User_rel_InitiatorSigningRequests where
  "User_rel_InitiatorSigningRequests p mods = boil_RelMany signing_requests_initiator_id_fk p mods"

definition User_LoadInitiatorSigningRequests where
  "User_LoadInitiatorSigningRequests L e tgt mods = boil_LoadMany L e signing_requests_initiator_id_fk tgt mods"

definition User_AddInitiatorSigningRequests where
  "User_AddInitiatorSigningRequests L e p ins related = boil_AddMany L e signing_requests_initiator_id_fk p ins related"

definition User_SetInitiatorSigningRequests where
  "User_SetInitiatorSigningRequests L e p ins related = boil_SetMany L e signing_requests_initiator_id_fk p ins related"

definition User_RemoveInitiatorSigningRequests where
  "User_RemoveInitiatorSigningRequests L e p related = boil_RemoveMany L e signing_requests_initiator_id_fk p related"

definition User_GetUserCredentials where
  "User_GetUserCredentials p = boil_Get ''UserCredentials'' p"

definition User_rel_UserCredentials where
  "User_rel_UserCredentials p mods = boil_RelMany user_credentials_user_id_fk p mods"

definition User_LoadUserCredentials where
  "User_LoadUserCredentials L e tgt mods = boil_LoadMany L e user_credentials_user_id_fk tgt mods"

definition User_AddUserCredentials where
  "User_AddUserCredentials L e p ins related = boil_AddMany L e user_credentials_user_id_fk p ins related"

section \<open>address_book\<close>

definition AddressBook_GetChain where
  "AddressBook_GetChain p = boil_Get ''Chain'' p"

definition AddressBook_rel_Chain where
  "AddressBook_rel_Chain p mods = boil_RelOne address_book_chain_id_fk p mods"

definition AddressBook_LoadChain where
  "AddressBook_LoadChain L e tgt mods = boil_LoadOne L e address_book_chain_id_fk tgt mods"

definition AddressBook_SetChain where
  "AddressBook_SetChain L e p ins related = boil_SetOne L e address_book_chain_id_fk p ins related"

definition AddressBook_RemoveChain where
  "AddressBook_RemoveChain L e p related = boil_RemoveOne L e address_book_chain_id_fk p related"

definition AddressBook_GetCreatedByUser where
  "AddressBook_GetCreatedByUser p = boil_Get ''CreatedByUser'' p"

definition AddressBook_rel_CreatedByUser where
  "AddressBook_rel_CreatedByUser p mods = boil_RelOne address_book_created_by_fk p mods"

definition AddressBook_LoadCreatedByUser where
  "AddressBook_LoadCreatedByUser L e tgt mods = boil_LoadOne L e address_book_created_by_fk tgt mods"

definition AddressBook_SetCreatedByUser where
  "AddressBook_SetCreatedByUser L e p ins related = boil_SetOne L e address_book_created_by_fk p ins related"

definition AddressBook_RemoveCreatedByUser where
  "AddressBook_RemoveCreatedByUser L e p related = boil_RemoveOne L e address_book_created_by_fk p related"

definition AddressBook_GetOrganization where
  "AddressBook_GetOrganization p = boil_Get ''Organization'' p"

definition AddressBook_rel_Organization where
  "AddressBook_rel_Organization p mods = boil_RelOne address_book_organization_id_fk p mods"

definition AddressBook_LoadOrganization where
  "AddressBook_LoadOrganization L e tgt mods = boil_LoadOne L e address_book_organization_id_fk tgt mods"

definition AddressBook_SetOrganization where
  "AddressBook_SetOrganization L e p ins related = boil_SetOne L e address_book_organization_id_fk p ins related"

definition AddressBook_RemoveOrganization where
  "AddressBook_RemoveOrganization L e p related = boil_RemoveOne L e address_book_organization_id_fk p related"

section \<open>chains\<close>

definition Chain_GetAddressBooks where
  "Chain_GetAddressBooks p = boil_Get ''AddressBooks'' p"

definition Chain_rel_AddressBooks where
  "Chain_rel_AddressBooks p mods = boil_RelMany address_book_chain_id_fk p mods"

definition Chain_LoadAddressBooks where
  "Chain_LoadAddressBooks L e tgt mods = boil_LoadMany L e address_book_chain_id_fk tgt mods"

definition Chain_AddAddressBooks where
  "Chain_AddAddressBooks L e p ins related = boil_AddMany L e address_book_chain_id_fk p ins related"

definition Chain_SetAddressBooks where
  "Chain_SetAddressBooks L e p ins related = boil_SetMany L e address_book_chain_id_fk p ins related"

definition Chain_RemoveAddressBooks where
  "Chain_RemoveAddressBooks L e p related = boil_RemoveMany L e address_book_chain_id_fk p related"

definition Chain_GetAssets where
  "Chain_GetAssets p = boil_Get ''Assets'' p"

definition Chain_rel_Assets where
  "Chain_rel_Assets p mods = boil_RelMany assets_chain_id_fk p mods"

definition Chain_LoadAssets where
  "Chain_LoadAssets L e tgt mods = boil_LoadMany L e assets_chain_id_fk tgt mods"

definition Chain_AddAssets where
  "Chain_AddAssets L e p ins related = boil_AddMany L e assets_chain_id_fk p ins related"

definition Chain_SetAssets where
  "Chain_SetAssets L e p ins related = boil_SetMany L e assets_chain_id_fk p ins related"

definition Chain_RemoveAssets where
  "Chain_RemoveAssets L e p related = boil_RemoveMany L e assets_chain_id_fk p related"

definition Chain_GetWallets where
  "Chain_GetWallets p = boil_Get ''Wallets'' p"

definition Chain_rel_Wallets where
  "Chain_rel_Wallets p mods = boil_RelMany wallets_chain_id_fk p mods"

definition Chain_LoadWallets where
  "Chain_LoadWallets L e tgt mods = boil_LoadMany L e wallets_chain_id_fk tgt mods"

definition Chain_AddWallets where
  "Chain_AddWallets L e p ins related = boil_AddMany L e wallets_chain_id_fk p ins related"

definition Chain_SetWallets where
  "Chain_SetWallets L e p ins related = boil_SetMany L e wallets_chain_id_fk p ins related"

definition Chain_RemoveWallets where
  "Chain_RemoveWallets L e p related = boil_RemoveMany L e wallets_chain_id_fk p related"

section \<open>organizations\<close>

definition Organization_GetAddressBooks where
  "Organization_GetAddressBooks p = boil_Get ''AddressBooks'' p"

definition Organization_rel_AddressBooks where
  "Organization_rel_AddressBooks p mods = boil_RelMany address_book_organization_id_fk p mods"

definition Organization_LoadAddressBooks where
  "Organization_LoadAddressBooks L e tgt mods = boil_LoadMany L e address_book_organization_id_fk tgt mods"

definition Organization_AddAddressBooks where
  "Organization_AddAddressBooks L e p ins related = boil_AddMany L e address_book_organization_id_fk p ins related"

definition Organization_SetAddressBooks where
  "Organization_SetAddressBooks L e p ins related = boil_SetMany L e address_book_organization_id_fk p ins related"

definition Organization_RemoveAddressBooks where
  "Organization_RemoveAddressBooks L e p related = boil_RemoveMany L e address_book_organization_id_fk p related"

definition Organization_GetAuditLogs where
  "Organization_GetAuditLogs p = boil_Get ''AuditLogs'' p"

definition Organization_rel_AuditLogs where
  "Organization_rel_AuditLogs p mods = boil_RelMany audit_logs_organization_id_fk p mods"

definition Organization_LoadAuditLogs where
  "Organization_LoadAuditLogs L e tgt mods = boil_LoadMany L e audit_logs_organization_id_fk tgt mods"

definition Organization_AddAuditLogs where
  "Organization_AddAuditLogs L e p ins related = boil_AddMany L e audit_logs_organization_id_fk p ins related"

definition Organization_SetAuditLogs where
  "Organization_SetAuditLogs L e p ins related = boil_SetMany L e audit_logs_organization_id_fk p ins related"

definition Organization_RemoveAuditLogs where
  "Organization_RemoveAuditLogs L e p related = boil_RemoveMany L e audit_logs_organization_id_fk p related"

definition Organization_GetOrganizationMembers where
  "Organization_GetOrganizationMembers p = boil_Get ''OrganizationMembers'' p"

definition Organization_rel_OrganizationMembers where
  "Organization_rel_OrganizationMembers p mods = boil_RelMany organization_members_organization_id_fk p mods"

definition Organization_LoadOrganizationMembers where
  "Organization_LoadOrganizationMembers L e tgt mods = boil_LoadMany L e organization_members_organization_id_fk tgt mods"

definition Organization_AddOrganizationMembers where
  "Organization_AddOrganizationMembers L e p ins related = boil_AddMany L e organization_members_organization_id_fk p ins related"

definition Organization_GetOwner where
  "Organization_GetOwner p = boil_Get ''Owner'' p"

definition Organization_rel_Owner where
  "Organization_rel_Owner p mods = boil_RelOne organizations_owner_id_fk p mods"

definition Organization_LoadOwner where
  "Organization_LoadOwner L e tgt mods = boil_LoadOne L e organizations_owner_id_fk tgt mods"

definition Organization_SetOwner where
  "Organization_SetOwner L e p ins related = boil_SetOne L e organizations_owner_id_fk p ins related"

definition Organization_GetVaults where
  "Organization_GetVaults p = boil_Get ''Vaults'' p"

definition Organization_rel_Vaults where
  "Organization_rel_Vaults p mods = boil_RelMany vaults_organization_id_fk p mods"

definition Organization_LoadVaults where
  "Organization_LoadVaults L e tgt mods = boil_LoadMany L e vaults_organization_id_fk tgt mods"

definition Organization_AddVaults where
  "Organization_AddVaults L e p ins related = boil_AddMany L e vaults_organization_id_fk p ins related"

definition Organization_SetVaults where
  "Organization_SetVaults L e p ins related = boil_SetMany L e vaults_organization_id_fk p ins related"

definition Organization_RemoveVaults where
  "Organization_RemoveVaults L e p related = boil_RemoveMany L e vaults_organization_id_fk p related"

section \<open>app_user_profiles\<close>

definition AppUserProfile_GetUser where
  "AppUserProfile_GetUser p = boil_Get ''User'' p"

definition AppUserProfile_rel_User where
  "AppUserProfile_rel_User p mods = boil_RelOne app_user_profiles_user_id_fk p mods"

definition AppUserProfile_LoadUser where
  "AppUserProfile_LoadUser L e tgt mods = boil_LoadOne L e app_user_profiles_user_id_fk tgt mods"

definition AppUserProfile_SetUser where
  "AppUserProfile_SetUser L e p ins related = boil_SetOne L e app_user_profiles_user_id_fk p ins related"

section \<open>approvals\<close>

definition Approval_GetRequest where
  "Approval_GetRequest p = boil_Get ''Request'' p"

definition Approval_rel_Request where
  "Approval_rel_Request p mods = boil_RelOne approvals_request_id_fk p mods"

definition Approval_LoadRequest where
  "Approval_LoadRequest L e tgt mods = boil_LoadOne L e approvals_request_id_fk tgt mods"

definition Approval_SetRequest where
  "Approval_SetRequest L e p ins related = boil_SetOne L e approvals_request_id_fk p ins related"

definition Approval_RemoveRequest where
  "Approval_RemoveRequest L e p related = boil_RemoveOne L e approvals_request_id_fk p related"

definition Approval_GetUser where
  "Approval_GetUser p = boil_Get ''User'' p"

definition Approval_rel_User where
  "Approval_rel_User p mods = boil_RelOne approvals_user_id_fk p mods"

definition Approval_LoadUser where
  "Approval_LoadUser L e tgt mods = boil_LoadOne L e approvals_user_id_fk tgt mods"

definition Approval_SetUser where
  "Approval_SetUser L e p ins related = boil_SetOne L e approvals_user_id_fk p ins related"

definition Approval_RemoveUser where
  "Approval_RemoveUser L e p related = boil_RemoveOne L e approvals_user_id_fk p related"

section \<open>signing_requests\<close>

definition SigningRequest_GetRequestApprovals where
  "SigningRequest_GetRequestApprovals p = boil_Get ''RequestApprovals'' p"

definition SigningRequest_rel_RequestApprovals where
  "SigningRequest_rel_RequestApprovals p mods = boil_RelMany approvals_request_id_fk p mods"

definition SigningRequest_LoadRequestApprovals where
  "SigningRequest_LoadRequestApprovals L e tgt mods = boil_LoadMany L e approvals_request_id_fk tgt mods"

definition SigningRequest_AddRequestApprovals where
  "SigningRequest_AddRequestApprovals L e p ins related = boil_AddMany L e approvals_request_id_fk p ins related"

definition SigningRequest_SetRequestApprovals where
  "SigningRequest_SetRequestApprovals L e p ins related = boil_SetMany L e approvals_request_id_fk p ins related"

definition SigningRequest_RemoveRequestApprovals where
  "SigningRequest_RemoveRequestApprovals L e p related = boil_RemoveMany L e approvals_request_id_fk p related"

definition SigningRequest_GetInitiator where
  "SigningRequest_GetInitiator p = boil_Get ''Initiator'' p"

definition SigningRequest_rel_Initiator where
  "SigningRequest_rel_Initiator p mods = boil_RelOne signing_requests_initiator_id_fk p mods"

definition SigningRequest_LoadInitiator where
  "SigningRequest_LoadInitiator L e tgt mods = boil_LoadOne L e signing_requests_initiator_id_fk tgt mods"

definition SigningRequest_SetInitiator where
  "SigningRequest_SetInitiator L e p ins related = boil_SetOne L e signing_requests_initiator_id_fk p ins related"

definition SigningRequest_RemoveInitiator where
  "SigningRequest_RemoveInitiator L e p related = boil_RemoveOne L e signing_requests_initiator_id_fk p related"

definition SigningRequest_GetVault where
  "SigningRequest_GetVault p = boil_Get ''Vault'' p"

definition SigningRequest_rel_Vault where
  "SigningRequest_rel_Vault p mods = boil_RelOne signing_requests_vault_id_fk p mods"

definition SigningRequest_LoadVault where
  "SigningRequest_LoadVault L e tgt mods = boil_LoadOne L e signing_requests_vault_id_fk tgt mods"

definition SigningRequest_SetVault where
  "SigningRequest_SetVault L e p ins related = boil_SetOne L e signing_requests_vault_id_fk p ins related"

definition SigningRequest_RemoveVault where
  "SigningRequest_RemoveVault L e p related = boil_RemoveOne L e signing_requests_vault_id_fk p related"

definition SigningRequest_GetWallet where
  "SigningRequest_GetWallet p = boil_Get ''Wallet'' p"

definition SigningRequest_rel_Wallet where
  "SigningRequest_rel_Wallet p mods = boil_RelOne signing_requests_wallet_id_fk p mods"

definition SigningRequest_LoadWallet where
  "SigningRequest_LoadWallet L e tgt mods = boil_LoadOne L e signing_requests_wallet_id_fk tgt mods"

definition SigningRequest_SetWallet where
  "SigningRequest_SetWallet L e p ins related = boil_SetOne L e signing_requests_wallet_id_fk p ins related"

definition SigningRequest_RemoveWallet where
  "SigningRequest_RemoveWallet L e p related = boil_RemoveOne L e signing_requests_wallet_id_fk p related"

section \<open>assets\<close>

definition Asset_GetChain where
  "Asset_GetChain p = boil_Get ''Chain'' p"

definition Asset_rel_Chain where
  "Asset_rel_Chain p mods = boil_RelOne assets_chain_id_fk p mods"

definition Asset_LoadChain where
  "Asset_LoadChain L e tgt mods = boil_LoadOne L e assets_chain_id_fk tgt mods"

definition Asset_SetChain where
  "Asset_SetChain L e p ins related = boil_SetOne L e assets_chain_id_fk p ins related"

definition Asset_RemoveChain where
  "Asset_RemoveChain L e p related = boil_RemoveOne L e assets_chain_id_fk p related"

definition Asset_GetSpendingLimits where
  "Asset_GetSpendingLimits p = boil_Get ''SpendingLimits'' p"

definition Asset_rel_SpendingLimits where
  "Asset_rel_SpendingLimits p mods = boil_RelMany spending_limits_asset_id_fk p mods"

definition Asset_LoadSpendingLimits where
  "Asset_LoadSpendingLimits L e tgt mods = boil_LoadMany L e spending_limits_asset_id_fk tgt mods"

definition Asset_AddSpendingLimits where
  "Asset_AddSpendingLimits L e p ins related = boil_AddMany L e spending_limits_asset_id_fk p ins related"

definition Asset_SetSpendingLimits where
  "Asset_SetSpendingLimits L e p ins related = boil_SetMany L e spending_limits_asset_id_fk p ins related"

definition Asset_RemoveSpendingLimits where
  "Asset_RemoveSpendingLimits L e p related = boil_RemoveMany L e spending_limits_asset_id_fk p related"

definition Asset_GetWalletBalances where
  "Asset_GetWalletBalances p = boil_Get ''WalletBalances'' p"

definition Asset_rel_WalletBalances where
  "Asset_rel_WalletBalances p mods = boil_RelMany wallet_balances_asset_id_fk p mods"

definition Asset_LoadWalletBalances where
  "Asset_LoadWalletBalances L e tgt mods = boil_LoadMany L e wallet_balances_asset_id_fk tgt mods"

definition Asset_AddWalletBalances where
  "Asset_AddWalletBalances L e p ins related = boil_AddMany L e wallet_balances_asset_id_fk p ins related"

definition Asset_SetWalletBalances where
  "Asset_SetWalletBalances L e p ins related = boil_SetMany L e wallet_balances_asset_id_fk p ins related"

definition Asset_RemoveWalletBalances where
  "Asset_RemoveWalletBalances L e p related = boil_RemoveMany L e wallet_balances_asset_id_fk p related"

section \<open>audit_logs\<close>

definition AuditLog_GetOrganization where
  "AuditLog_GetOrganization p = boil_Get ''Organization'' p"

definition AuditLog_rel_Organization where
  "AuditLog_rel_Organization p mods = boil_RelOne audit_logs_organization_id_fk p mods"

definition AuditLog_LoadOrganization where
  "AuditLog_LoadOrganization L e tgt mods = boil_LoadOne L e audit_logs_organization_id_fk tgt mods"

definition AuditLog_SetOrganization where
  "AuditLog_SetOrganization L e p ins related = boil_SetOne L e audit_logs_organization_id_fk p ins related"

definition AuditLog_RemoveOrganization where
  "AuditLog_RemoveOrganization L e p related = boil_RemoveOne L e audit_logs_organization_id_fk p related"

definition AuditLog_GetUser where
  "AuditLog_GetUser p = boil_Get ''User'' p"

definition AuditLog_rel_User where
  "AuditLog_rel_User p mods = boil_RelOne audit_logs_user_id_fk p mods"

definition AuditLog_LoadUser where
  "AuditLog_LoadUser L e tgt mods = boil_LoadOne L e audit_logs_user_id_fk tgt mods"

definition AuditLog_SetUser where
  "AuditLog_SetUser L e p ins related = boil_SetOne L e audit_logs_user_id_fk p ins related"

definition AuditLog_RemoveUser where
  "AuditLog_RemoveUser L e p related = boil_RemoveOne L e audit_logs_user_id_fk p related"

section \<open>confirmation_tokens\<close>

definition ConfirmationToken_GetUser where
  "ConfirmationToken_GetUser p = boil_Get ''User'' p"

definition ConfirmationToken_rel_User where
  "ConfirmationToken_rel_User p mods = boil_RelOne confirmation_tokens_user_id_fk p mods"

definition ConfirmationToken_LoadUser where
  "ConfirmationToken_LoadUser L e tgt mods = boil_LoadOne L e confirmation_tokens_user_id_fk tgt mods"

definition ConfirmationToken_SetUser where
  "ConfirmationToken_SetUser L e p ins related = boil_SetOne L e confirmation_tokens_user_id_fk p ins related"

section \<open>organization_members\<close>

definition OrganizationMember_GetOrganization where
  "OrganizationMember_GetOrganization p = boil_Get ''Organization'' p"

definition OrganizationMember_rel_Organization where
  "OrganizationMember_rel_Organization p mods = boil_RelOne organization_members_organization_id_fk p mods"

definition OrganizationMember_LoadOrganization where
  "OrganizationMember_LoadOrganization L e tgt mods = boil_LoadOne L e organization_members_organization_id_fk tgt mods"

definition OrganizationMember_SetOrganization where
  "OrganizationMember_SetOrganization L e p ins related = boil_SetOne L e organization_members_organization_id_fk p ins related"

definition OrganizationMember_GetUser where
  "OrganizationMember_GetUser p = boil_Get ''User'' p"

definition OrganizationMember_rel_User where
  "OrganizationMember_rel_User p mods = boil_RelOne organization_members_user_id_fk p mods"

definition OrganizationMember_LoadUser where
  "OrganizationMember_LoadUser L e tgt mods = boil_LoadOne L e organization_members_user_id_fk tgt mods"

definition OrganizationMember_SetUser where
  "OrganizationMember_SetUser L e p ins related = boil_SetOne L e organization_members_user_id_fk p ins related"

section \<open>password_reset_tokens\<close>

definition PasswordResetToken_GetUser where
  "PasswordResetToken_GetUser p = boil_Get ''User'' p"

definition PasswordResetToken_rel_User where
  "PasswordResetToken_rel_User p mods = boil_RelOne password_reset_tokens_user_id_fk p mods"

definition PasswordResetToken_LoadUser where
  "PasswordResetToken_LoadUser L e tgt mods = boil_LoadOne L e password_reset_tokens_user_id_fk tgt mods"

definition PasswordResetToken_SetUser where
  "PasswordResetToken_SetUser L e p ins related = boil_SetOne L e password_reset_tokens_user_id_fk p ins related"

section \<open>push_tokens\<close>

definition PushToken_GetUser where
  "PushToken_GetUser p = boil_Get ''User'' p"

definition PushToken_rel_User where
  "PushToken_rel_User p mods = boil_RelOne push_tokens_user_id_fk p mods"

definition PushToken_LoadUser where
  "PushToken_LoadUser L e tgt mods = boil_LoadOne L e push_tokens_user_id_fk tgt mods"

definition PushToken_SetUser where
  "PushToken_SetUser L e p ins related = boil_SetOne L e push_tokens_user_id_fk p ins related"

section \<open>refresh_tokens\<close>

definition RefreshToken_GetUser where
  "RefreshToken_GetUser p = boil_Get ''User'' p"

definition RefreshToken_rel_User where
  "RefreshToken_rel_User p mods = boil_RelOne refresh_tokens_user_id_fk p mods"

definition RefreshToken_LoadUser where
  "RefreshToken_LoadUser L e tgt mods = boil_LoadOne L e refresh_tokens_user_id_fk tgt mods"

definition RefreshToken_SetUser where
  "RefreshToken_SetUser L e p ins related = boil_SetOne L e refresh_tokens_user_id_fk p ins related"

section \<open>vaults\<close>

definition Vault_GetSigningRequests where
  "Vault_GetSigningRequests p = boil_Get ''SigningRequests'' p"

definition Vault_rel_SigningRequests where
  "Vault_rel_SigningRequests p mods = boil_RelMany signing_requests_vault_id_fk p mods"

definition Vault_LoadSigningRequests where
  "Vault_LoadSigningRequests L e tgt mods = boil_LoadMany L e signing_requests_vault_id_fk tgt mods"

definition Vault_AddSigningRequests where
  "Vault_AddSigningRequests L e p ins related = boil_AddMany L e signing_requests_vault_id_fk p ins related"

definition Vault_SetSigningRequests where
  "Vault_SetSigningRequests L e p ins related = boil_SetMany L e signing_requests_vault_id_fk p ins related"

definition Vault_RemoveSigningRequests where
  "Vault_RemoveSigningRequests L e p related = boil_RemoveMany L e signing_requests_vault_id_fk p related"

definition Vault_GetSpendingLimits where
  "Vault_GetSpendingLimits p = boil_Get ''SpendingLimits'' p"

definition Vault_rel_SpendingLimits where
  "Vault_rel_SpendingLimits p mods = boil_RelMany spending_limits_vault_id_fk p mods"

definition Vault_LoadSpendingLimits where
  "Vault_LoadSpendingLimits L e tgt mods = boil_LoadMany L e spending_limits_vault_id_fk tgt mods"

definition Vault_AddSpendingLimits where
  "Vault_AddSpendingLimits L e p ins related = boil_AddMany L e spending_limits_vault_id_fk p ins related"

definition Vault_SetSpendingLimits where
  "Vault_SetSpendingLimits L e p ins related = boil_SetMany L e spending_limits_vault_id_fk p ins related"

definition Vault_RemoveSpendingLimits where
  "Vault_RemoveSpendingLimits L e p related = boil_RemoveMany L e spending_limits_vault_id_fk p related"

definition Vault_GetVaultKeys where
  "Vault_GetVaultKeys p = boil_Get ''VaultKeys'' p"

definition Vault_rel_VaultKeys where
  "Vault_rel_VaultKeys p mods = boil_RelMany vault_keys_vault_id_fk p mods"

definition Vault_LoadVaultKeys where
  "Vault_LoadVaultKeys L e tgt mods = boil_LoadMany L e vault_keys_vault_id_fk tgt mods"

definition Vault_AddVaultKeys where
  "Vault_AddVaultKeys L e p ins related = boil_AddMany L e vault_keys_vault_id_fk p ins related"

definition Vault_SetVaultKeys where
  "Vault_SetVaultKeys L e p ins related = boil_SetMany L e vault_keys_vault_id_fk p ins related"

definition Vault_RemoveVaultKeys where
  "Vault_RemoveVaultKeys L e p related = boil_RemoveMany L e vault_keys_vault_id_fk p related"

definition Vault_GetOrganization where
  "Vault_GetOrganization p = boil_Get ''Organization'' p"

definition Vault_rel_Organization where
  "Vault_rel_Organization p mods = boil_RelOne vaults_organization_id_fk p mods"

definition Vault_LoadOrganization where
  "Vault_LoadOrganization L e tgt mods = boil_LoadOne L e vaults_organization_id_fk tgt mods"

definition Vault_SetOrganization where
  "Vault_SetOrganization L e p ins related = boil_SetOne L e vaults_organization_id_fk p ins related"

definition Vault_RemoveOrganization where
  "Vault_RemoveOrganization L e p related = boil_RemoveOne L e vaults_organization_id_fk p related"

definition Vault_GetWallets where
  "Vault_GetWallets p = boil_Get ''Wallets'' p"

definition Vault_rel_Wallets where
  "Vault_rel_Wallets p mods = boil_RelMany wallets_vault_id_fk p mods"

definition Vault_LoadWallets where
  "Vault_LoadWallets L e tgt mods = boil_LoadMany L e wallets_vault_id_fk tgt mods"

definition Vault_AddWallets where
  "Vault_AddWallets L e p ins related = boil_AddMany L e wallets_vault_id_fk p ins related"

definition Vault_SetWallets where
  "Vault_SetWallets L e p ins related = boil_SetMany L e wallets_vault_id_fk p ins related"

definition Vault_RemoveWallets where
  "Vault_RemoveWallets L e p related = boil_RemoveMany L e wallets_vault_id_fk p related"

section \<open>wallets\<close>

definition Wallet_GetSigningRequests where
  "Wallet_GetSigningRequests p = boil_Get ''SigningRequests'' p"

definition Wallet_rel_SigningRequests where
  "Wallet_rel_SigningRequests p mods = boil_RelMany signing_requests_wallet_id_fk p mods"

definition Wallet_LoadSigningRequests where
  "Wallet_LoadSigningRequests L e tgt mods = boil_LoadMany L e signing_requests_wallet_id_fk tgt mods"

definition Wallet_AddSigningRequests where
  "Wallet_AddSigningRequests L e p ins related = boil_AddMany L e signing_requests_wallet_id_fk p ins related"

definition Wallet_SetSigningRequests where
  "Wallet_SetSigningRequests L e p ins related = boil_SetMany L e signing_requests_wallet_id_fk p ins related"

definition Wallet_RemoveSigningRequests where
  "Wallet_RemoveSigningRequests L e p related = boil_RemoveMany L e signing_requests_wallet_id_fk p related"

definition Wallet_GetWalletBalances where
  "Wallet_GetWalletBalances p = boil_Get ''WalletBalances'' p"

definition Wallet_rel_WalletBalances where
  "Wallet_rel_WalletBalances p mods = boil_RelMany wallet_balances_wallet_id_fk p mods"

definition Wallet_LoadWalletBalances where
  "Wallet_LoadWalletBalances L e tgt mods = boil_LoadMany L e wallet_balances_wallet_id_fk tgt mods"

definition Wallet_AddWalletBalances where
  "Wallet_AddWalletBalances L e p ins related = boil_AddMany L e wallet_balances_wallet_id_fk p ins related"

definition Wallet_SetWalletBalances where
  "Wallet_SetWalletBalances L e p ins related = boil_SetMany L e wallet_balances_wallet_id_fk p ins related"

definition Wallet_RemoveWalletBalances where
  "Wallet_RemoveWalletBalances L e p related = boil_RemoveMany L e wallet_balances_wallet_id_fk p related"

definition Wallet_GetChain where
  "Wallet_GetChain p = boil_Get ''Chain'' p"

definition Wallet_rel_Chain where
  "Wallet_rel_Chain p mods = boil_RelOne wallets_chain_id_fk p mods"

definition Wallet_LoadChain where
  "Wallet_LoadChain L e tgt mods = boil_LoadOne L e wallets_chain_id_fk tgt mods"

definition Wallet_SetChain where
  "Wallet_SetChain L e p ins related = boil_SetOne L e wallets_chain_id_fk p ins related"

definition Wallet_RemoveChain where
  "Wallet_RemoveChain L e p related = boil_RemoveOne L e wallets_chain_id_fk p related"

definition Wallet_GetVault where
  "Wallet_GetVault p = boil_Get ''Vault'' p"

definition Wallet_rel_Vault where
  "Wallet_rel_Vault p mods = boil_RelOne wallets_vault_id_fk p mods"

definition Wallet_LoadVault where
  "Wallet_LoadVault L e tgt mods = boil_LoadOne L e wallets_vault_id_fk tgt mods"

definition Wallet_SetVault where
  "Wallet_SetVault L e p ins related = boil_SetOne L e wallets_vault_id_fk p ins related"

definition Wallet_RemoveVault where
  "Wallet_RemoveVault L e p related = boil_RemoveOne L e wallets_vault_id_fk p related"

section \<open>spending_limits\<close>

definition SpendingLimit_GetAsset where
  "SpendingLimit_GetAsset p = boil_Get ''Asset'' p"

definition SpendingLimit_rel_Asset where
  "SpendingLimit_rel_Asset p mods = boil_RelOne spending_limits_asset_id_fk p mods"

definition SpendingLimit_LoadAsset where
  "SpendingLimit_LoadAsset L e tgt mods = boil_LoadOne L e spending_limits_asset_id_fk tgt mods"

definition SpendingLimit_SetAsset where
  "SpendingLimit_SetAsset L e p ins related = boil_SetOne L e spending_limits_asset_id_fk p ins related"

definition SpendingLimit_RemoveAsset where
  "SpendingLimit_RemoveAsset L e p related = boil_RemoveOne L e spending_limits_asset_id_fk p related"

definition SpendingLimit_GetVault where
  "SpendingLimit_GetVault p = boil_Get ''Vault'' p"

definition SpendingLimit_rel_Vault where
  "SpendingLimit_rel_Vault p mods = boil_RelOne spending_limits_vault_id_fk p mods"

definition SpendingLimit_LoadVault where
  "SpendingLimit_LoadVault L e tgt mods = boil_LoadOne L e spending_limits_vault_id_fk tgt mods"

definition SpendingLimit_SetVault where
  "SpendingLimit_SetVault L e p ins related = boil_SetOne L e spending_limits_vault_id_fk p ins related"

definition SpendingLimit_RemoveVault where
  "SpendingLimit_RemoveVault L e p related = boil_RemoveOne L e spending_limits_vault_id_fk p related"

section \<open>user_credentials\<close>

definition UserCredential_GetUser where
  "UserCredential_GetUser p = boil_Get ''User'' p"

definition UserCredential_rel_User where
  "UserCredential_rel_User p mods = boil_RelOne user_credentials_user_id_fk p mods"

definition UserCredential_LoadUser where
  "UserCredential_LoadUser L e tgt mods = boil_LoadOne L e user_credentials_user_id_fk tgt mods"

definition UserCredential_SetUser where
  "UserCredential_SetUser L e p ins related = boil_SetOne L e user_credentials_user_id_fk p ins related"

section \<open>vault_keys\<close>

definition VaultKey_GetVault where
  "VaultKey_GetVault p = boil_Get ''Vault'' p"

definition VaultKey_rel_Vault where
  "VaultKey_rel_Vault p mods = boil_RelOne vault_keys_vault_id_fk p mods"

definition VaultKey_LoadVault where
  "VaultKey_LoadVault L e tgt mods = boil_LoadOne L e vault_keys_vault_id_fk tgt mods"

definition VaultKey_SetVault where
  "VaultKey_SetVault L e p ins related = boil_SetOne L e vault_keys_vault_id_fk p ins related"

definition VaultKey_RemoveVault where
  "VaultKey_RemoveVault L e p related = boil_RemoveOne L e vault_keys_vault_id_fk p related"

section \<open>wallet_balances\<close>

definition WalletBalance_GetAsset where
  "WalletBalance_GetAsset p = boil_Get ''Asset'' p"

definition WalletBalance_rel_Asset where
  "WalletBalance_rel_Asset p mods = boil_RelOne wallet_balances_asset_id_fk p mods"

definition WalletBalance_LoadAsset where
  "WalletBalance_LoadAsset L e tgt mods = boil_LoadOne L e wallet_balances_asset_id_fk tgt mods"

definition WalletBalance_SetAsset where
  "WalletBalance_SetAsset L e p ins related = boil_SetOne L e wallet_balances_asset_id_fk p ins related"

definition WalletBalance_RemoveAsset where
  "WalletBalance_RemoveAsset L e p related = boil_RemoveOne L e wallet_balances_asset_id_fk p related"

definition WalletBalance_GetWallet where
  "WalletBalance_GetWallet p = boil_Get ''Wallet'' p"

definition WalletBalance_rel_Wallet where
  "WalletBalance_rel_Wallet p mods = boil_RelOne wallet_balances_wallet_id_fk p mods"

definition WalletBalance_LoadWallet where
  "WalletBalance_LoadWallet L e tgt mods = boil_LoadOne L e wallet_balances_wallet_id_fk tgt mods"

definition WalletBalance_SetWallet where
  "WalletBalance_SetWallet L e p ins related = boil_SetOne L e wallet_balances_wallet_id_fk p ins related"

definition WalletBalance_RemoveWallet where
  "WalletBalance_RemoveWallet L e p related = boil_RemoveOne L e wallet_balances_wallet_id_fk p related"

end
