(* ===== verification/Boil_Caches.thy ===== *)
theory Boil_Caches
  imports Boil_Tables Boil_Relations
begin

text \<open>
  The statement caches of the generated models do not show: a process that caches its statements behaves
  like one that plans each of them anew.
\<close>

section \<open>Programs that do not touch the caches\<close>

definition forget :: "boil_world \<Rightarrow> boil_world" where
  "forget w = w\<lparr>bw_insert_cache := [], bw_update_cache := [], bw_upsert_cache := []\<rparr>"

definition same_caches :: "boil_world \<Rightarrow> boil_world \<Rightarrow> bool" where
  "same_caches v w \<longleftrightarrow> bw_insert_cache v = bw_insert_cache w \<and> bw_update_cache v = bw_update_cache w \<and>
     bw_upsert_cache v = bw_upsert_cache w"

definition cache_free :: "(boil_world, 'a) prog \<Rightarrow> bool" where
  "cache_free m \<longleftrightarrow> (\<forall>w. m (forget w) = (fst (m w), forget (snd (m w))) \<and> same_caches (snd (m w)) w)"

named_theorems cache_free_intros \<open>programs that do not touch the caches\<close>

lemma forget_simps [simp]:
  "bw_store (forget w) = bw_store w" "bw_tick (forget w) = bw_tick w" "bw_sent (forget w) = bw_sent w"
  "bw_heap (forget w) = bw_heap w" "object (forget w) = object w" "forget (forget w) = forget w"
  "bw_insert_cache (forget w) = []" "bw_update_cache (forget w) = []"
  "bw_upsert_cache (forget w) = []"
  by (simp_all add: forget_def object_def fun_eq_iff)

lemma forget_updates [simp]:
  "forget (w\<lparr>bw_tick := n\<rparr>) = (forget w)\<lparr>bw_tick := n\<rparr>" "forget (w\<lparr>bw_store := d\<rparr>) = (forget w)\<lparr>bw_store := d\<rparr>"
  "forget (w\<lparr>bw_sent := xs\<rparr>) = (forget w)\<lparr>bw_sent := xs\<rparr>" "forget (w\<lparr>bw_heap := h\<rparr>) = (forget w)\<lparr>bw_heap := h\<rparr>"
  by (simp_all add: forget_def)

lemma same_caches_refl [simp]: "same_caches w w"
  by (simp add: same_caches_def)

lemma cache_free_ends [cache_free_intros]: "cache_free (okP x)" "cache_free (errP y)" "cache_free (panicP c)" "cache_free (liftS r)"
  by (cases r; simp add: cache_free_def okP_def errP_def panicP_def liftS_def)+

lemma cache_freeD:
  "cache_free m \<Longrightarrow> m w = (r, t) \<Longrightarrow> m (forget w) = (r, forget t) \<and> same_caches t w"
  unfolding cache_free_def by (metis fst_conv snd_conv)

lemma cache_freeI:
  "(\<And>w r t. m w = (r, t) \<Longrightarrow> m (forget w) = (r, forget t) \<and> same_caches t w) \<Longrightarrow> cache_free m"
  unfolding cache_free_def by (metis prod.collapse)

lemma same_caches_trans: "same_caches u v \<Longrightarrow> same_caches v w \<Longrightarrow> same_caches u w"
  by (simp add: same_caches_def)

lemma cache_free_tryP [cache_free_intros]:
  assumes "cache_free m" and "\<And>x. cache_free (k x)"
  shows "cache_free (tryP m k)"
proof (rule cache_freeI)
  fix w r t assume run: "tryP m k w = (r, t)"
  obtain q u where m: "m w = (q, u)" by (cases "m w")
  note m' = cache_freeD [OF assms(1) m]
  show "tryP m k (forget w) = (r, forget t) \<and> same_caches t w"
  proof (cases q)
    case (Ok x)
    then have "k (Inr x) u = (r, t)" using run m by (simp add: tryP_def)
    from cache_freeD [OF assms(2) this] show ?thesis using m' Ok by (auto simp: tryP_def intro: same_caches_trans)
  next
    case (Err x)
    then have "k (Inl x) u = (r, t)" using run m by (simp add: tryP_def)
    from cache_freeD [OF assms(2) this] show ?thesis using m' Err by (auto simp: tryP_def intro: same_caches_trans)
  next
    case (Panic c)
    then show ?thesis using run m m' by (auto simp: tryP_def)
  qed
qed

lemma bindP_as_tryP: "bindP m f = tryP m (\<lambda>r. case r of Inl x \<Rightarrow> errP x | Inr x \<Rightarrow> f x)"
  by (rule ext) (auto simp: bindP_def tryP_def errP_def split: prod.split outcome.split)

lemma cache_free_bindP [cache_free_intros]: "cache_free m \<Longrightarrow> (\<And>x. cache_free (f x)) \<Longrightarrow> cache_free (bindP m f)"
  unfolding bindP_as_tryP by (rule cache_free_tryP) (auto split: sum.split intro: cache_free_intros)

lemma cache_free_thenP [cache_free_intros]: "cache_free m \<Longrightarrow> cache_free n \<Longrightarrow> cache_free (thenP m n)"
  unfolding thenP_def by (rule cache_free_bindP)

lemma cache_free_wrapP [cache_free_intros]: "cache_free m \<Longrightarrow> cache_free (wrapP msg m)"
  unfolding wrapP_def by (rule cache_free_tryP) (auto split: sum.split intro: cache_free_intros)

lemma cache_free_branches [cache_free_intros]:
  "cache_free m \<Longrightarrow> cache_free n \<Longrightarrow> cache_free (if b then m else n)"
  "cache_free m \<Longrightarrow> (\<And>x. cache_free (f x)) \<Longrightarrow> cache_free (case z of None \<Rightarrow> m | Some x \<Rightarrow> f x)"
  "(\<And>x. cache_free (g x)) \<Longrightarrow> (\<And>x. cache_free (h x)) \<Longrightarrow> cache_free (case s of Inl x \<Rightarrow> g x | Inr x \<Rightarrow> h x)"
  "(\<And>x y. cache_free (k x y)) \<Longrightarrow> cache_free (case p of (x, y) \<Rightarrow> k x y)"
  by (simp_all split: option.split sum.split prod.split)

lemma cache_free_basics [cache_free_intros]:
  "cache_free (boil_now e)" "cache_free (alloc ob)" "cache_free (load p)" "cache_free (modify p f)"
  "cache_free (receive e x)" "cache_free (exec_context e s args)"
  by (auto simp: cache_free_def boil_now_def alloc_def load_def modify_def receive_def exec_context_def panicP_def
      same_caches_def Let_def split: option.split sum.split)

lemma cache_free_query [cache_free_intros]: "cache_free (query_row e s args)" "cache_free (query_all e s args)"
  unfolding query_row_def query_all_def by (auto split: list.split intro!: cache_free_intros)

lemma cache_free_lists [cache_free_intros]: "cache_free (alloc_all obs)" "cache_free (load_all ps)"
  by (induction obs) (auto intro!: cache_free_intros, induction ps, auto intro!: cache_free_intros)

lemma cache_free_parts [cache_free_intros]:
  "cache_free (insert_timestamps e t p)" "cache_free (update_timestamps e t p)" "cache_free (upsert_timestamps e t p)"
  "cache_free (run_insert e p c)" "cache_free (run_update e t p u)" "cache_free (run_upsert e p c)"
  "cache_free m \<Longrightarrow> cache_free (affected e msg1 msg2 m)" "cache_free n \<Longrightarrow> cache_free (or_no_rows msg n x)"
  "cache_free (bind_one e t s args a)"
  unfolding insert_timestamps_def update_timestamps_def upsert_timestamps_def run_insert_def run_update_def
    run_upsert_def affected_def or_no_rows_def bind_one_def Let_def
  by (auto intro!: cache_free_intros)

lemma cache_free_scan_count [cache_free_intros]: "cache_free (scan_count e q)"
  unfolding scan_count_def by (auto split: sql_value.split intro!: cache_free_intros)

lemma cache_free_operations [cache_free_intros]:
  "cache_free (boil_One e t q)" "cache_free (boil_All e t q)" "cache_free (boil_Count e t q)" "cache_free (boil_Exists e t q)"
  "cache_free (boil_Find e t keys cs)" "cache_free (boil_ExistsByPK e t keys)" "cache_free (boil_ObjExists e t p)"
  "cache_free (boil_QueryUpdateAll e t q cols)" "cache_free (boil_SliceUpdateAll L e t ps cols)"
  "cache_free (boil_Delete e t p)" "cache_free (boil_QueryDeleteAll e t qo)" "cache_free (boil_SliceDeleteAll L e t ps)"
  unfolding boil_One_def boil_All_def boil_Count_def boil_Exists_def boil_Find_def boil_ExistsByPK_def boil_ObjExists_def
    boil_QueryUpdateAll_def boil_SliceUpdateAll_def boil_Delete_def boil_QueryDeleteAll_def boil_SliceDeleteAll_def
  by (auto intro!: cache_free_intros)

lemma cache_free_reload [cache_free_intros]: "cache_free (boil_Reload e t p)" "cache_free (boil_ReloadAll L e t slice)"
proof -
  have "cache_free (\<lambda>w. case p of None \<Rightarrow> (Panic nil_deref, w)
      | Some a \<Rightarrow> (Ok (), w\<lparr>bw_heap := (bw_heap w)[a := object w ret]\<rparr>))" for ret
    by (cases p) (auto simp: cache_free_def same_caches_def)
  then show "cache_free (boil_Reload e t p)" unfolding boil_Reload_def by (auto intro!: cache_free_intros)
  show "cache_free (boil_ReloadAll L e t slice)" unfolding boil_ReloadAll_def by (auto intro!: cache_free_intros)
qed

lemma cache_free_struct [cache_free_intros]:
  "cache_free (get_R p)" "cache_free (put_R p R)" "cache_free (boil_Get name p)"
  by (auto simp: cache_free_def get_R_def put_R_def boil_Get_def panicP_def same_caches_def split: option.split)

lemma cache_free_rel [cache_free_intros]:
  "cache_free (ensure_R p)" "cache_free (change_rel name f p)" "cache_free (change_rel_if name f p)"
  unfolding ensure_R_def change_rel_def change_rel_if_def by (intro cache_free_intros)+

lemma cache_free_for_each [cache_free_intros]: "(\<And>x. cache_free (f x)) \<Longrightarrow> cache_free (for_each f xs)"
  by (induction xs) (simp_all add: cache_free_intros)

lemma cache_free_links [cache_free_intros]: "cache_free (link_foreign fk p f)" "cache_free (link_local fk p f)"
  unfolding link_foreign_def link_local_def by (intro cache_free_intros)+

lemma cache_free_find [cache_free_intros]:
  "cache_free (find_foreign L fk p fs)" "cache_free (find_local L fk ps f)" "cache_free (find_unique L fk p fs)"
proof -
  show "cache_free (find_foreign L fk p fs)" by (induction fs) (auto intro!: cache_free_intros)
  show "cache_free (find_local L fk ps f)" by (induction ps) (auto intro!: cache_free_intros)
  show "cache_free (find_unique L fk p fs)" by (induction fs) (auto intro!: cache_free_intros)
qed

lemma cache_free_eager [cache_free_intros]:
  "cache_free (eager_args L b c ps)" "cache_free (eager_query e t what close q)"
proof -
  show "cache_free (eager_args L b c ps)" by (induction ps) (auto intro!: cache_free_intros)
  show "cache_free (eager_query e t what close q)"
    unfolding eager_query_def by (auto intro!: cache_free_intros)
qed

lemma cache_free_load [cache_free_intros]: "cache_free (boil_LoadOne L e fk tgt mods)" "cache_free (boil_LoadMany L e fk tgt mods)"
  unfolding boil_LoadOne_def boil_LoadMany_def by (auto split: load_target.split intro!: cache_free_intros)

section \<open>Operations without caches\<close>

definition plain_Insert :: "boil_lib \<Rightarrow> boil_env \<Rightarrow> boil_table \<Rightarrow> ptr \<Rightarrow> boil_columns \<Rightarrow> (boil_world, unit) prog" where
  "plain_Insert L e t p columns =
     (if p = None then errP (ErrPlain (''models: no '' @ tb_name t @ '' provided for insertion''))
      else thenP (insert_timestamps e t p) (bindP (load p) (\<lambda>ob.
        bindP (liftS (insert_plan L t columns (bl_NonZeroDefaultSet L (tb_fields t) (tb_with_default t) ob))) (\<lambda>plan.
        wrapP (''models: unable to insert into '' @ tb_name t) (run_insert e p plan)))))"

definition plain_Update :: "boil_lib \<Rightarrow> boil_env \<Rightarrow> boil_table \<Rightarrow> ptr \<Rightarrow> boil_columns \<Rightarrow> (boil_world, int) prog" where
  "plain_Update L e t p columns =
     thenP (update_timestamps e t p) (bindP (liftS (update_plan L t columns)) (run_update e t p))"

definition plain_Upsert ::
    "boil_lib \<Rightarrow> boil_env \<Rightarrow> boil_table \<Rightarrow> ptr \<Rightarrow> bool \<Rightarrow> string list \<Rightarrow> boil_columns \<Rightarrow> boil_columns \<Rightarrow> (boil_world, unit) prog" where
  "plain_Upsert L e t p updateOnConflict conflict updateColumns insertColumns =
     (if p = None then errP (ErrPlain (''models: no '' @ tb_name t @ '' provided for upsert''))
      else thenP (upsert_timestamps e t p) (bindP (load p) (\<lambda>ob.
        bindP (liftS (upsert_plan L t updateOnConflict conflict updateColumns insertColumns []
            (bl_NonZeroDefaultSet L (tb_fields t) (tb_with_default t) ob))) (\<lambda>plan.
        wrapP (''models: unable to upsert '' @ tb_name t) (run_upsert e p plan)))))"

section \<open>Sound caches\<close>

text \<open>Every cached statement is the one that would be planned.\<close>

definition insert_cached :: "boil_lib \<Rightarrow> boil_table \<Rightarrow> boil_world \<Rightarrow> bool" where
  "insert_cached L t w \<longleftrightarrow> (\<forall>key c. map_of (bw_insert_cache w) (tb_name t, key) = Some c \<longrightarrow>
     (\<exists>cols nz. set (co_cols cols) \<subseteq> set (tb_all t) \<and> set nz \<subseteq> set (tb_all t) \<and>
        key = makeCacheKey L cols nz \<and> insert_plan L t cols nz = Inr c))"

definition update_cached :: "boil_lib \<Rightarrow> boil_table \<Rightarrow> boil_world \<Rightarrow> bool" where
  "update_cached L t w \<longleftrightarrow> (\<forall>key c. map_of (bw_update_cache w) (tb_name t, key) = Some c \<longrightarrow>
     (\<exists>cols. set (co_cols cols) \<subseteq> set (tb_all t) \<and> key = makeCacheKey L cols [] \<and> update_plan L t cols = Inr c))"

definition upsert_source :: "boil_lib \<Rightarrow> boil_table \<Rightarrow> string \<Rightarrow> insert_cache \<Rightarrow> bool" where
  "upsert_source L t key c \<longleftrightarrow>
     (\<exists>b conf u i nz. set conf \<subseteq> set (tb_all t) \<and> set (co_cols u) \<subseteq> set (tb_all t) \<and>
        set (co_cols i) \<subseteq> set (tb_all t) \<and> set nz \<subseteq> set (tb_all t) \<and>
        key = upsert_key L b conf u i nz \<and> upsert_plan L t b conf u i [] nz = Inr c)"

definition upsert_cached :: "boil_lib \<Rightarrow> boil_table \<Rightarrow> boil_world \<Rightarrow> bool" where
  "upsert_cached L t w \<longleftrightarrow> (\<forall>key c. map_of (bw_upsert_cache w) (tb_name t, key) = Some c \<longrightarrow> upsert_source L t key c)"

definition caches_ok :: "boil_lib \<Rightarrow> boil_table list \<Rightarrow> boil_world \<Rightarrow> bool" where
  "caches_ok L ts w \<longleftrightarrow> (\<forall>t \<in> set ts. insert_cached L t w \<and> update_cached L t w \<and> upsert_cached L t w)"

lemma caches_ok_forget: "caches_ok L ts (forget w)"
  by (simp add: caches_ok_def insert_cached_def update_cached_def upsert_cached_def)

lemma caches_ok_same: "same_caches v w \<Longrightarrow> caches_ok L ts w \<Longrightarrow> caches_ok L ts v"
  by (simp add: caches_ok_def insert_cached_def update_cached_def upsert_cached_def same_caches_def)

text \<open>A program behaves like one that has no caches, and keeps its caches sound.\<close>

definition like :: "boil_lib \<Rightarrow> boil_table list \<Rightarrow> (boil_world, 'a) prog \<Rightarrow> (boil_world, 'a) prog \<Rightarrow> bool" where
  "like L ts m n \<longleftrightarrow> (\<forall>w. caches_ok L ts w \<longrightarrow>
     n (forget w) = (fst (m w), forget (snd (m w))) \<and> caches_ok L ts (snd (m w)))"

lemma likeD: "like L ts m n \<Longrightarrow> caches_ok L ts w \<Longrightarrow> m w = (r, t) \<Longrightarrow> n (forget w) = (r, forget t) \<and> caches_ok L ts t"
  unfolding like_def by (metis fst_conv snd_conv)

lemma likeI:
  "(\<And>w r t. caches_ok L ts w \<Longrightarrow> m w = (r, t) \<Longrightarrow> n (forget w) = (r, forget t) \<and> caches_ok L ts t) \<Longrightarrow> like L ts m n"
  unfolding like_def by (metis prod.collapse)

lemma like_cache_free: "cache_free m \<Longrightarrow> like L ts m m"
  by (rule likeI) (meson cache_freeD caches_ok_same)

lemma like_bindP:
  assumes "like L ts m n" and "\<And>x. like L ts (f x) (g x)"
  shows "like L ts (bindP m f) (bindP n g)"
proof (rule likeI)
  fix w r t assume inv: "caches_ok L ts w" and run: "bindP m f w = (r, t)"
  obtain q u where m: "m w = (q, u)" by (cases "m w")
  note m' = likeD [OF assms(1) inv m]
  show "bindP n g (forget w) = (r, forget t) \<and> caches_ok L ts t"
  proof (cases q)
    case (Ok x)
    then have "f x u = (r, t)" using run m by (simp add: bindP_def)
    from likeD [OF assms(2) _ this] show ?thesis using m' Ok by (simp add: bindP_def)
  qed (use run m m' in \<open>auto simp: bindP_def\<close>)
qed

lemma like_thenP: "cache_free m \<Longrightarrow> like L ts f g \<Longrightarrow> like L ts (thenP m f) (thenP m g)"
  unfolding thenP_def by (rule like_bindP [OF like_cache_free])

lemma like_wrapP: "like L ts m n \<Longrightarrow> like L ts (wrapP msg m) (wrapP msg n)"
proof (rule likeI)
  fix w r t assume "like L ts m n" and inv: "caches_ok L ts w" and run: "wrapP msg m w = (r, t)"
  obtain q u where m: "m w = (q, u)" by (cases "m w")
  from likeD [OF \<open>like L ts m n\<close> inv m] run m show "wrapP msg n (forget w) = (r, forget t) \<and> caches_ok L ts t"
    by (cases q) (auto simp: wrapP_def tryP_def okP_def errP_def)
qed

lemma like_if: "like L ts m n \<Longrightarrow> like L ts m' n' \<Longrightarrow> like L ts (if b then m else m') (if b then n else n')"
  by simp

lemma like_for_each: "(\<And>x. like L ts (f x) (g x)) \<Longrightarrow> like L ts (for_each f xs) (for_each g xs)"
  by (induction xs) (auto simp: thenP_def intro!: like_bindP like_cache_free cache_free_intros)

lemma like_seq: "like L ts m n \<Longrightarrow> like L ts f g \<Longrightarrow> like L ts (thenP m f) (thenP n g)"
  unfolding thenP_def by (rule like_bindP)

text \<open>The frame of the three operations, when the cache answers with the plan and may keep it.\<close>

lemma like_with_cache:
  assumes hit: "\<And>w c. caches_ok L ts w \<Longrightarrow> lookup w = Some c \<Longrightarrow> plan = Inr c"
    and keep: "\<And>w c. caches_ok L ts w \<Longrightarrow> plan = Inr c \<Longrightarrow> caches_ok L ts (keep c w) \<and> forget (keep c w) = forget w"
    and run: "\<And>c. cache_free (run c)"
  shows "like L ts (with_cache lookup plan keep run) (bindP (liftS plan) run)"
proof (rule likeI)
  fix w r t assume inv: "caches_ok L ts w" and go: "with_cache lookup plan keep run w = (r, t)"
  show "bindP (liftS plan) run (forget w) = (r, forget t) \<and> caches_ok L ts t"
  proof (cases "plan")
    case (Inl x)
    then have "lookup w = None" using hit [OF inv] by (cases "lookup w") auto
    then show ?thesis using go inv Inl by (simp add: with_cache_def bindP_def liftS_def errP_def)
  next
    case (Inr c)
    obtain q u where q: "run c w = (q, u)" by (cases "run c w")
    note q' = cache_freeD [OF run q]
    have inv': "caches_ok L ts u" using caches_ok_same q' inv by blast
    have plain: "bindP (liftS plan) run (forget w) = (q, forget u)" using q' Inr by (simp add: bindP_def liftS_def okP_def)
    show ?thesis
    proof (cases "lookup w")
      case None
      then show ?thesis
        using go q Inr plain inv' keep [OF inv' Inr]
        by (cases q) (auto simp: with_cache_def bindP_def thenP_def liftS_def okP_def)
    next
      case (Some c')
      then have "c' = c" using hit [OF inv Some] Inr by simp
      then show ?thesis
        using go q Some plain inv' by (cases q) (auto simp: with_cache_def bindP_def thenP_def okP_def)
    qed
  qed
qed

section \<open>The operations on the tables of a schema\<close>

locale boil_schema =
  fixes ts :: "boil_table list"
  assumes tables: "\<And>t. t \<in> set ts \<Longrightarrow> table_ok t"
    and table_names: "distinct (map tb_name ts)"
begin

lemma same_name: "t \<in> set ts \<Longrightarrow> s \<in> set ts \<Longrightarrow> tb_name s = tb_name t \<longleftrightarrow> s = t"
  using table_names by (auto simp: distinct_map inj_on_def)

lemma defaults_columns:
  assumes "lib_laws L" "t \<in> set ts"
  shows "set (bl_NonZeroDefaultSet L (tb_fields t) (tb_with_default t) ob) \<subseteq> set (tb_all t)"
  using boil_model.columns_split [OF boil_model.intro [OF tables [OF assms(2)]]] lib_laws_simps(1) [OF assms(1)] by auto

lemma keep_insert:
  assumes "caches_ok L ts w" "t \<in> set ts" "set (co_cols cols) \<subseteq> set (tb_all t)" "set nz \<subseteq> set (tb_all t)"
    and "insert_plan L t cols nz = Inr c"
  shows "caches_ok L ts (store_insert t (makeCacheKey L cols nz) c w)"
  using assms same_name [OF assms(2)]
  by (auto simp: caches_ok_def insert_cached_def update_cached_def upsert_cached_def store_insert_def)

lemma keep_update:
  assumes "caches_ok L ts w" "t \<in> set ts" "set (co_cols cols) \<subseteq> set (tb_all t)" "update_plan L t cols = Inr c"
  shows "caches_ok L ts (store_update t (makeCacheKey L cols []) c w)"
  using assms same_name [OF assms(2)]
  by (auto simp: caches_ok_def insert_cached_def update_cached_def upsert_cached_def store_update_def)

lemma keep_upsert:
  assumes "caches_ok L ts w" "t \<in> set ts" "set conf \<subseteq> set (tb_all t)" "set (co_cols u) \<subseteq> set (tb_all t)"
    and "set (co_cols i) \<subseteq> set (tb_all t)" "set nz \<subseteq> set (tb_all t)" "upsert_plan L t b conf u i [] nz = Inr c"
  shows "caches_ok L ts (store_upsert t (upsert_key L b conf u i nz) c w)"
proof -
  have "upsert_source L t (upsert_key L b conf u i nz) c"
    unfolding upsert_source_def using assms(3-7) by (intro exI conjI) (assumption | rule refl)+
  then show ?thesis
    using assms(1) same_name [OF assms(2)]
    by (auto simp: caches_ok_def insert_cached_def update_cached_def upsert_cached_def store_upsert_def)
qed

lemma forget_store [simp]:
  "forget (store_insert t key c w) = forget w" "forget (store_update t key u w) = forget w"
  "forget (store_upsert t key c w) = forget w"
  by (simp_all add: forget_def store_insert_def store_update_def store_upsert_def)

lemma model: "t \<in> set ts \<Longrightarrow> boil_model t"
  by (rule boil_model.intro [OF tables])

text \<open>What is found under a key is the plan of what the key was made from.\<close>

lemma insert_hit:
  assumes L: "lib_laws L" and inv: "caches_ok L ts w" and t: "t \<in> set ts" and cols: "set (co_cols cols) \<subseteq> set (tb_all t)"
    and nz: "set nz \<subseteq> set (tb_all t)" and c: "map_of (bw_insert_cache w) (tb_name t, (makeCacheKey L cols nz)) = Some c"
  shows "insert_plan L t cols nz = Inr c"
proof -
  from inv t have "insert_cached L t w" by (simp add: caches_ok_def)
  from this [unfolded insert_cached_def, rule_format, OF c]
  obtain cols' nz' where old: "set (co_cols cols') \<subseteq> set (tb_all t)" "set nz' \<subseteq> set (tb_all t)"
    "makeCacheKey L cols nz = makeCacheKey L cols' nz'" "insert_plan L t cols' nz' = Inr c"
    by (elim exE conjE) (rule that)
  have "cols = cols' \<and> nz = nz'" by (rule boil_model.key_inject [OF model [OF t] L cols old(1) nz old(2,3)])
  then show ?thesis using old(4) by simp
qed

lemma update_hit:
  assumes L: "lib_laws L" and inv: "caches_ok L ts w" and t: "t \<in> set ts" and cols: "set (co_cols cols) \<subseteq> set (tb_all t)"
    and c: "map_of (bw_update_cache w) (tb_name t, (makeCacheKey L cols [])) = Some c"
  shows "update_plan L t cols = Inr c"
proof -
  from inv t have "update_cached L t w" by (simp add: caches_ok_def)
  from this [unfolded update_cached_def, rule_format, OF c]
  obtain cols' where old: "set (co_cols cols') \<subseteq> set (tb_all t)"
    "makeCacheKey L cols [] = makeCacheKey L cols' []" "update_plan L t cols' = Inr c"
    by (elim exE conjE) (rule that)
  have "cols = cols' \<and> [] = ([] :: string list)"
    by (rule boil_model.key_inject [OF model [OF t] L cols old(1) _ _ old(2)]) simp_all
  then show ?thesis using old(3) by simp
qed

lemma upsert_hit:
  assumes L: "lib_laws L" and inv: "caches_ok L ts w" and t: "t \<in> set ts"
    and cols: "set conf \<subseteq> set (tb_all t)" "set (co_cols u) \<subseteq> set (tb_all t)" "set (co_cols i) \<subseteq> set (tb_all t)"
    and nz: "set nz \<subseteq> set (tb_all t)" and c: "map_of (bw_upsert_cache w) (tb_name t, (upsert_key L b conf u i nz)) = Some c"
  shows "upsert_plan L t b conf u i [] nz = Inr c"
proof -
  from inv t have "upsert_cached L t w" by (simp add: caches_ok_def)
  from this [unfolded upsert_cached_def, rule_format, OF c, unfolded upsert_source_def]
  obtain b' conf' u' i' nz' where old: "set conf' \<subseteq> set (tb_all t)" "set (co_cols u') \<subseteq> set (tb_all t)"
    "set (co_cols i') \<subseteq> set (tb_all t)" "set nz' \<subseteq> set (tb_all t)"
    "upsert_key L b conf u i nz = upsert_key L b' conf' u' i' nz'" "upsert_plan L t b' conf' u' i' [] nz' = Inr c"
    by (elim exE conjE) (rule that)
  have "b = b' \<and> conf = conf' \<and> u = u' \<and> i = i' \<and> nz = nz'"
    by (rule boil_model.upsert_key_inject [OF model [OF t] L cols(1) old(1) cols(2) old(2) cols(3) old(3) nz old(4,5)])
  then show ?thesis using old(6) by simp
qed

lemma like_Insert:
  assumes L: "lib_laws L" and t: "t \<in> set ts" and cols: "set (co_cols columns) \<subseteq> set (tb_all t)"
  shows "like L ts (boil_Insert L e t p columns) (plain_Insert L e t p columns)"
proof -
  have step: "like L ts
      (with_cache (\<lambda>w. map_of (bw_insert_cache w) (tb_name t, (makeCacheKey L columns nz))) (insert_plan L t columns nz)
        (store_insert t (makeCacheKey L columns nz)) (\<lambda>c. wrapP msg (run_insert e p c)))
      (bindP (liftS (insert_plan L t columns nz)) (\<lambda>c. wrapP msg (run_insert e p c)))"
    if nz: "set nz \<subseteq> set (tb_all t)" for nz msg
    using insert_hit [OF L _ t cols nz] keep_insert [OF _ t cols nz]
    by (intro like_with_cache cache_free_intros) simp_all
  show ?thesis
  proof (cases "p = None")
    case True
    then show ?thesis by (simp add: boil_Insert_def plain_Insert_def like_cache_free cache_free_intros)
  next
    case False
    show ?thesis
      unfolding boil_Insert_def plain_Insert_def Let_def if_not_P [OF False]
      by (intro like_thenP like_bindP [OF like_cache_free] step defaults_columns [OF L t] cache_free_intros)
  qed
qed

lemma like_Update:
  assumes L: "lib_laws L" and t: "t \<in> set ts" and cols: "set (co_cols columns) \<subseteq> set (tb_all t)"
  shows "like L ts (boil_Update L e t p columns) (plain_Update L e t p columns)"
proof -
  have "like L ts
      (with_cache (\<lambda>w. map_of (bw_update_cache w) (tb_name t, (makeCacheKey L columns []))) (update_plan L t columns)
        (store_update t (makeCacheKey L columns [])) (run_update e t p))
      (bindP (liftS (update_plan L t columns)) (run_update e t p))"
    using update_hit [OF L _ t cols] keep_update [OF _ t cols]
    by (intro like_with_cache cache_free_intros) simp_all
  then show ?thesis unfolding boil_Update_def plain_Update_def Let_def by (intro like_thenP cache_free_intros)
qed

lemma like_Upsert:
  assumes L: "lib_laws L" and t: "t \<in> set ts" and conf: "set conf \<subseteq> set (tb_all t)"
    and cols: "set (co_cols u) \<subseteq> set (tb_all t)" "set (co_cols i) \<subseteq> set (tb_all t)"
  shows "like L ts (boil_Upsert L e t p b conf u i []) (plain_Upsert L e t p b conf u i)"
proof -
  have step: "like L ts
      (with_cache (\<lambda>w. map_of (bw_upsert_cache w) (tb_name t, (upsert_key L b conf u i nz))) (upsert_plan L t b conf u i [] nz)
        (store_upsert t (upsert_key L b conf u i nz)) (\<lambda>c. wrapP msg (run_upsert e p c)))
      (bindP (liftS (upsert_plan L t b conf u i [] nz)) (\<lambda>c. wrapP msg (run_upsert e p c)))"
    if nz: "set nz \<subseteq> set (tb_all t)" for nz msg
    using upsert_hit [OF L _ t conf cols nz] keep_upsert [OF _ t conf cols nz]
    by (intro like_with_cache cache_free_intros) simp_all
  show ?thesis
  proof (cases "p = None")
    case True
    then show ?thesis by (simp add: boil_Upsert_def plain_Upsert_def like_cache_free cache_free_intros)
  next
    case False
    show ?thesis
      unfolding boil_Upsert_def plain_Upsert_def Let_def if_not_P [OF False]
      by (intro like_thenP like_bindP [OF like_cache_free] step defaults_columns [OF L t] cache_free_intros)
  qed
qed

lemma like_ops:
  assumes L: "lib_laws L" and fk: "fk_ok ts fk"
  shows "like L ts (boil_Insert L e (fk_local fk) p Infer) (plain_Insert L e (fk_local fk) p Infer)"
    "like L ts (boil_Insert L e (fk_foreign fk) p Infer) (plain_Insert L e (fk_foreign fk) p Infer)"
    "like L ts (boil_Update L e (fk_local fk) p (Whitelist [fk_column fk])) (plain_Update L e (fk_local fk) p (Whitelist [fk_column fk]))"
  using fk by (auto simp: fk_ok_def Infer_def Whitelist_def intro!: like_Insert [OF L] like_Update [OF L])

lemma like_attach:
  assumes "lib_laws L" and "fk_ok ts fk"
  shows "like L ts (attach (boil_Insert L e) L e fk p b rel) (attach (plain_Insert L e) L e fk p b rel)"
  unfolding attach_def Let_def
  by (intro like_bindP like_if like_seq like_wrapP like_ops [OF assms]; intro like_cache_free cache_free_intros)

lemma like_AddMany:
  assumes "lib_laws L" and "fk_ok ts fk"
  shows "like L ts (AddMany_with (boil_Insert L e) L e fk p b rels) (AddMany_with (plain_Insert L e) L e fk p b rels)"
  unfolding AddMany_with_def
  by (intro like_seq like_for_each like_attach [OF assms]; intro like_cache_free cache_free_intros)

lemma like_setters:
  assumes "lib_laws L" and "fk_ok ts fk"
  shows "like L ts (SetOne_with (boil_Insert L e) L e fk p b rel) (SetOne_with (plain_Insert L e) L e fk p b rel)"
    "like L ts (SetUnique_with (boil_Insert L e) L e fk p b rel) (SetUnique_with (plain_Insert L e) L e fk p b rel)"
    "like L ts (SetMany_with (boil_Insert L e) L e fk p b rels) (SetMany_with (plain_Insert L e) L e fk p b rels)"
proof -
  show "like L ts (SetOne_with (boil_Insert L e) L e fk p b rel) (SetOne_with (plain_Insert L e) L e fk p b rel)"
    unfolding SetOne_with_def
    by (intro like_seq like_if like_wrapP like_ops [OF assms]; intro like_cache_free cache_free_intros)
  show "like L ts (SetUnique_with (boil_Insert L e) L e fk p b rel) (SetUnique_with (plain_Insert L e) L e fk p b rel)"
    unfolding SetUnique_with_def by (intro like_seq like_attach [OF assms]; intro like_cache_free cache_free_intros)
  show "like L ts (SetMany_with (boil_Insert L e) L e fk p b rels) (SetMany_with (plain_Insert L e) L e fk p b rels)"
    unfolding SetMany_with_def
    by (intro like_bindP like_seq like_AddMany [OF assms]; intro like_cache_free cache_free_intros)
qed

lemma like_removers:
  assumes "lib_laws L" and "fk_ok ts fk"
  shows "like L ts (RemoveOne_with (boil_Update L e) L fk p rel) (RemoveOne_with (plain_Update L e) L fk p rel)"
    "like L ts (RemoveMany_with (boil_Update L e) L fk p rels) (RemoveMany_with (plain_Update L e) L fk p rels)"
proof -
  have step: "cache_free (\<lambda>w. change_rel_if name (g w) rel w)" if "\<And>w. g (forget w) = g w" for name and g :: "boil_world \<Rightarrow> ptr list \<Rightarrow> ptr list"
    using cache_free_rel(3) [of name "g _" rel] that by (simp add: cache_free_def)
  have last: "cache_free (\<lambda>w. change_rel_if (fk_many fk)
       (swap_remove (\<lambda>ri. \<not> bl_Equal L (field_of w (fk_column fk) p) (field_of w (fk_column fk) ri))) rel w)"
    by (rule step) (simp add: field_of_def cong: option.case_cong)
  show "like L ts (RemoveOne_with (boil_Update L e) L fk p rel) (RemoveOne_with (plain_Update L e) L fk p rel)"
    unfolding RemoveOne_with_def
    by (intro like_seq like_wrapP like_ops [OF assms]; intro like_cache_free cache_free_intros last)
  show "like L ts (RemoveMany_with (boil_Update L e) L fk p rels) (RemoveMany_with (plain_Update L e) L fk p rels)"
    unfolding RemoveMany_with_def
    by (intro like_if like_seq like_for_each like_ops [OF assms]; intro like_cache_free cache_free_intros)
qed

end

interpretation schema: boil_schema all_tables
  by unfold_locales (simp_all add: all_tables_ok all_tables_names)

section \<open>Sequences of calls\<close>

datatype boil_call =
    CallOne boil_table query_obj
  | CallAll boil_table query_obj
  | CallCount boil_table query_obj
  | CallExists boil_table query_obj
  | CallFind boil_table "sql_value list" "string list"
  | CallInsert boil_table ptr boil_columns
  | CallUpdate boil_table ptr boil_columns
  | CallQueryUpdateAll boil_table query_obj "(string \<times> sql_value) list"
  | CallSliceUpdateAll boil_table "ptr list" "(string \<times> sql_value) list"
  | CallUpsert boil_table ptr bool "string list" boil_columns boil_columns
  | CallDelete boil_table ptr
  | CallQueryDeleteAll boil_table query_obj
  | CallSliceDeleteAll boil_table "ptr list"
  | CallReload boil_table ptr
  | CallReloadAll boil_table "ptr list"
  | CallExistsByPK boil_table "sql_value list"
  | CallLoadOne boil_fk load_target "query_mod option"
  | CallLoadMany boil_fk load_target "query_mod option"
  | CallSetOne boil_fk ptr bool ptr
  | CallAddMany boil_fk ptr bool "ptr list"
  | CallSetUnique boil_fk ptr bool ptr
  | CallSetMany boil_fk ptr bool "ptr list"
  | CallRemoveOne boil_fk ptr ptr
  | CallRemoveMany boil_fk ptr "ptr list"

datatype boil_result = RUnit | RInt int | RBool bool | RPtr addr | RPtrs "ptr list"

definition returns :: "('a \<Rightarrow> boil_result) \<Rightarrow> (boil_world, 'a) prog \<Rightarrow> (boil_world, boil_result) prog" where
  "returns f m = bindP m (\<lambda>x. okP (f x))"

text \<open>A call, with the caches or without.\<close>

definition run_call :: "bool \<Rightarrow> boil_lib \<Rightarrow> boil_env \<Rightarrow> boil_call \<Rightarrow> (boil_world, boil_result) prog" where
  "run_call cached L e call = (case call of
      CallOne t q \<Rightarrow> returns RPtr (boil_One e t q)
    | CallAll t q \<Rightarrow> returns (\<lambda>as. RPtrs (map Some as)) (boil_All e t q)
    | CallCount t q \<Rightarrow> returns RInt (boil_Count e t q)
    | CallExists t q \<Rightarrow> returns RBool (boil_Exists e t q)
    | CallFind t keys cs \<Rightarrow> returns RPtr (boil_Find e t keys cs)
    | CallInsert t p cs \<Rightarrow> returns (\<lambda>_. RUnit) (if cached then boil_Insert L e t p cs else plain_Insert L e t p cs)
    | CallUpdate t p cs \<Rightarrow> returns RInt (if cached then boil_Update L e t p cs else plain_Update L e t p cs)
    | CallQueryUpdateAll t q cols \<Rightarrow> returns RInt (boil_QueryUpdateAll e t q cols)
    | CallSliceUpdateAll t ps cols \<Rightarrow> returns RInt (boil_SliceUpdateAll L e t ps cols)
    | CallUpsert t p b conf u i \<Rightarrow>
        returns (\<lambda>_. RUnit) (if cached then boil_Upsert L e t p b conf u i [] else plain_Upsert L e t p b conf u i)
    | CallDelete t p \<Rightarrow> returns RInt (boil_Delete e t p)
    | CallQueryDeleteAll t q \<Rightarrow> returns RInt (boil_QueryDeleteAll e t (Some q))
    | CallSliceDeleteAll t ps \<Rightarrow> returns RInt (boil_SliceDeleteAll L e t ps)
    | CallReload t p \<Rightarrow> returns (\<lambda>_. RUnit) (boil_Reload e t p)
    | CallReloadAll t ps \<Rightarrow> returns (\<lambda>x. RPtrs (case x of None \<Rightarrow> [] | Some qs \<Rightarrow> qs)) (boil_ReloadAll L e t (Some ps))
    | CallExistsByPK t keys \<Rightarrow> returns RBool (boil_ExistsByPK e t keys)
    | CallLoadOne fk tgt mods \<Rightarrow> returns (\<lambda>_. RUnit) (boil_LoadOne L e fk tgt mods)
    | CallLoadMany fk tgt mods \<Rightarrow> returns (\<lambda>_. RUnit) (boil_LoadMany L e fk tgt mods)
    | CallSetOne fk p ins rel \<Rightarrow> returns (\<lambda>_. RUnit) (if cached then boil_SetOne L e fk p ins rel else SetOne_with (plain_Insert L e) L e fk p ins rel)
    | CallAddMany fk p ins rels \<Rightarrow>
        returns (\<lambda>_. RUnit) (if cached then boil_AddMany L e fk p ins rels else AddMany_with (plain_Insert L e) L e fk p ins rels)
    | CallSetUnique fk p ins rel \<Rightarrow>
        returns (\<lambda>_. RUnit) (if cached then boil_SetUnique L e fk p ins rel else SetUnique_with (plain_Insert L e) L e fk p ins rel)
    | CallSetMany fk p ins rels \<Rightarrow>
        returns (\<lambda>_. RUnit) (if cached then boil_SetMany L e fk p ins rels else SetMany_with (plain_Insert L e) L e fk p ins rels)
    | CallRemoveOne fk p rel \<Rightarrow> returns (\<lambda>_. RUnit) (if cached then boil_RemoveOne L e fk p rel else RemoveOne_with (plain_Update L e) L fk p rel)
    | CallRemoveMany fk p rels \<Rightarrow>
        returns (\<lambda>_. RUnit) (if cached then boil_RemoveMany L e fk p rels else RemoveMany_with (plain_Update L e) L fk p rels))"

fun run_calls :: "bool \<Rightarrow> boil_lib \<Rightarrow> boil_env \<Rightarrow> boil_call list \<Rightarrow> boil_world \<Rightarrow> boil_result outcome list \<times> boil_world" where
  "run_calls cached L e [] w = ([], w)"
| "run_calls cached L e (c # cs) w =
     (let (r, w1) = run_call cached L e c w; (rs, w2) = run_calls cached L e cs w1 in (r # rs, w2))"

text \<open>The columns a call of \<open>Insert\<close>, \<open>Update\<close> or \<open>Upsert\<close> names are columns of its table, one of the schema.\<close>

fun names_columns :: "boil_table list \<Rightarrow> boil_call \<Rightarrow> bool" where
  "names_columns ts (CallInsert t _ cs) = (t \<in> set ts \<and> set (co_cols cs) \<subseteq> set (tb_all t))"
| "names_columns ts (CallUpdate t _ cs) = (t \<in> set ts \<and> set (co_cols cs) \<subseteq> set (tb_all t))"
| "names_columns ts (CallUpsert t _ _ conf u i) =
     (t \<in> set ts \<and> set conf \<subseteq> set (tb_all t) \<and> set (co_cols u) \<subseteq> set (tb_all t) \<and> set (co_cols i) \<subseteq> set (tb_all t))"
| "names_columns ts (CallSetOne fk _ _ _) = fk_ok ts fk"
| "names_columns ts (CallAddMany fk _ _ _) = fk_ok ts fk"
| "names_columns ts (CallSetUnique fk _ _ _) = fk_ok ts fk"
| "names_columns ts (CallSetMany fk _ _ _) = fk_ok ts fk"
| "names_columns ts (CallRemoveOne fk _ _) = fk_ok ts fk"
| "names_columns ts (CallRemoveMany fk _ _) = fk_ok ts fk"
| "names_columns ts _ = True"

lemma like_returns: "like L ts m n \<Longrightarrow> like L ts (returns f m) (returns f n)"
  unfolding returns_def by (intro like_bindP like_cache_free cache_free_intros)

lemma like_run_call:
  assumes "lib_laws L" "names_columns all_tables c"
  shows "like L all_tables (run_call True L e c) (run_call False L e c)"
  using assms
  by (cases c) (simp_all add: run_call_def schema.like_Insert schema.like_Update schema.like_Upsert like_returns
      like_cache_free cache_free_intros boil_SetOne_def boil_AddMany_def boil_SetUnique_def boil_SetMany_def boil_RemoveOne_def
      boil_RemoveMany_def schema.like_setters schema.like_AddMany schema.like_removers)

lemma like_run_calls:
  assumes "lib_laws L" "\<forall>c \<in> set cs. names_columns all_tables c" "caches_ok L all_tables w"
  shows "run_calls False L e cs (forget w) = (fst (run_calls True L e cs w), forget (snd (run_calls True L e cs w)))"
  using assms(2,3)
proof (induction cs arbitrary: w)
  case (Cons c cs)
  obtain r u where c: "run_call True L e c w = (r, u)" by (cases "run_call True L e c w")
  have "like L all_tables (run_call True L e c) (run_call False L e c)"
    using like_run_call [OF assms(1)] Cons.prems(1) by simp
  from likeD [OF this Cons.prems(2) c] have c': "run_call False L e c (forget w) = (r, forget u)" "caches_ok L all_tables u"
    by blast+
  have "\<forall>c \<in> set cs. names_columns all_tables c" using Cons.prems(1) by simp
  from Cons.IH [OF this c'(2)] show ?case using c c'(1) by (simp add: case_prod_unfold Let_def)
qed simp

text \<open>
  C35: caching statements changes nothing.  Whatever calls of the generated models on the 21 tables a
  process makes, in whatever order and whatever fails on the way, as long as the columns named are columns
  of the table and \<open>Upsert\<close> gets no raw texts: every call returns the same, sends the same statement with
  the same arguments and leaves the same objects and tables as in a process that plans every statement
  anew.
\<close>

theorem caches_are_transparent:
  assumes "lib_laws L" and "\<forall>c \<in> set cs. names_columns all_tables c" and "run_calls True L e cs (forget w) = (rs, v)"
  shows "run_calls False L e cs (forget w) = (rs, forget v)"
  using like_run_calls [OF assms(1,2) caches_ok_forget, of e w] assms(3) by simp

section \<open>Examples\<close>

text \<open>A server without failures that has one table and keeps its primary key unique and not null.\<close>

definition calm_env :: "boil_table \<Rightarrow> boil_env" where
  "calm_env t = \<lparr>be_skip_timestamps = False, be_now = int, be_fault = (\<lambda>_. None), be_lost = (\<lambda>_. None),
     be_columns = (\<lambda>_. tb_all t), be_default = (\<lambda>n _ _. VText (replicate n (CHR ''x''))),
     be_check = (\<lambda>d n others r.
       if list_ex (\<lambda>c. fld r c = VNull) (tb_pk t) \<or> list_ex (\<lambda>s. pk_of t s = pk_of t r) others
       then Some (unique_violation (tb_name t)) else None),
     be_deleted = (\<lambda>_ _ d. Inr d), be_order = (\<lambda>_ rs. rs), be_compare = (\<lambda>_ _ _. False),
     be_raw = (\<lambda>_ _ _ _. Inl (ErrDriver ''pq: syntax error''))\<rparr>"

definition boil_boot :: "boil_object list \<Rightarrow> boil_world" where
  "boil_boot xs = \<lparr>bw_store = [], bw_tick = 1, bw_sent = [], bw_heap = xs,
     bw_insert_cache = [], bw_update_cache = [], bw_upsert_cache = []\<rparr>"

lemma forget_boot [simp]: "forget (boil_boot xs) = boil_boot xs"
  by (simp add: forget_def boil_boot_def)

definition acme :: boil_object where
  "acme = \<lparr>bo_fields = set_fld ''name'' (VText ''acme'') (set_fld ''owner_id'' (VText ''u1'') (zero_obj organizations_table)),
     bo_R = None\<rparr>"

lemma length_run_calls: "length (fst (run_calls cached L e cs w)) = length cs"
  by (induction cs arbitrary: w) (simp_all add: case_prod_unfold Let_def)

theorem caches_are_transparent_witness:
  "\<exists>rs v. run_calls True reference_lib (calm_env organizations_table)
       [CallInsert organizations_table (Some 0) Infer, CallInsert organizations_table (Some 1) Infer] (boil_boot [acme, acme]) = (rs, v) \<and>
     run_calls False reference_lib (calm_env organizations_table)
       [CallInsert organizations_table (Some 0) Infer, CallInsert organizations_table (Some 1) Infer] (boil_boot [acme, acme]) = (rs, forget v) \<and>
     length rs = 2"
proof -
  let ?calls = "[CallInsert organizations_table (Some 0) Infer, CallInsert organizations_table (Some 1) Infer]"
  let ?run = "run_calls True reference_lib (calm_env organizations_table) ?calls (boil_boot [acme, acme])"
  have calls: "\<forall>c \<in> set ?calls. names_columns all_tables c" by (simp add: Infer_def all_tables_def)
  obtain rs v where run: "?run = (rs, v)" by (cases ?run)
  have plain: "run_calls False reference_lib (calm_env organizations_table) ?calls (boil_boot [acme, acme]) = (rs, forget v)"
    using caches_are_transparent [OF reference_lib_laws calls, of "calm_env organizations_table" "boil_boot [acme, acme]" rs v] run
    unfolding forget_boot .
  have "length rs = 2" using length_run_calls [of True reference_lib "calm_env organizations_table" ?calls "boil_boot [acme, acme]"]
    unfolding run by simp
  then show ?thesis by (intro exI conjI) (rule run, rule plain)
qed

lemma first_insert_works:
  "is_ok (fst (boil_Insert reference_lib (calm_env organizations_table) organizations_table (Some 0) Infer (boil_boot [acme])))"
  by code_simp

section \<open>What the key of an upsert leaves out\<close>

lemma with_cache_hit: "lookup w = Some c \<Longrightarrow> with_cache lookup plan keep run w = with_cache lookup plan' keep run w"
  by (simp add: with_cache_def bindP_def)

text \<open>
  Once the statement is cached, the raw texts of a later call (a conflict target, an update clause) have no
  effect, although another statement would be planned for them.
\<close>

lemma cached_upsert_ignores_options:
  assumes "be_skip_timestamps e"
    and "map_of (bw_upsert_cache w) (tb_name t, upsert_key L b conf u i
           (bl_NonZeroDefaultSet L (tb_fields t) (tb_with_default t) (bo_fields (object w a)))) = Some c"
  shows "boil_Upsert L e t (Some a) b conf u i opts w = boil_Upsert L e t (Some a) b conf u i opts' w"
  using assms
  by (simp add: boil_Upsert_def upsert_timestamps_def thenP_def bindP_def okP_def load_def Let_def with_cache_def)

lemma options_change_the_plan:
  "update \<noteq> [] \<Longrightarrow> buildUpsertQueryPostgres L name True ret update conflict wl [UpsertUpdateSet (x # xs)] \<noteq>
     buildUpsertQueryPostgres L name True ret update conflict wl []"
  by (simp add: buildUpsertQueryPostgres_def UpsertUpdateSet_def)

end
