(* ===== verification/Boil_Statements.thy ===== *)
theory Boil_Statements
  imports Boil_Caches
begin

text \<open>
  Every statement the generated models send binds its arguments and names columns of its table: the
  numbers of the placeholders and the lists of columns of the code fit together.
\<close>

section \<open>What a program sends\<close>

definition sends :: "(stmt \<times> sql_value list \<Rightarrow> bool) \<Rightarrow> (boil_world, 'a) prog \<Rightarrow> bool" where
  "sends P m \<longleftrightarrow> (\<forall>w. \<exists>new. bw_sent (snd (m w)) = bw_sent w @ new \<and> list_all P new)"

named_theorems sends_intros \<open>composition rules for what is sent\<close>

lemma sendsI: "(\<And>w r t. m w = (r, t) \<Longrightarrow> \<exists>new. bw_sent t = bw_sent w @ new \<and> list_all P new) \<Longrightarrow> sends P m"
  unfolding sends_def by (metis prod.collapse)

lemma sendsD: "sends P m \<Longrightarrow> m w = (r, t) \<Longrightarrow> \<exists>new. bw_sent t = bw_sent w @ new \<and> list_all P new"
  unfolding sends_def by (metis snd_conv)

lemma sends_nothing: "frame bw_sent m \<Longrightarrow> sends P m"
  by (rule sendsI) (auto dest: frameD)

lemma sends_ends [sends_intros]: "sends P (okP x)" "sends P (errP y)" "sends P (panicP c)" "sends P (liftS r)"
  by (cases r; auto intro!: sends_nothing frame_intros simp: liftS_def)+

lemma sends_tryP [sends_intros]:
  assumes "sends P m" and "\<And>x. sends P (k x)"
  shows "sends P (tryP m k)"
proof (rule sendsI)
  fix w r t assume run: "tryP m k w = (r, t)"
  obtain q u where m: "m w = (q, u)" by (cases "m w")
  from sendsD [OF assms(1) m] obtain a where a: "bw_sent u = bw_sent w @ a" "list_all P a" by blast
  have more: "\<exists>new. bw_sent t = bw_sent w @ new \<and> list_all P new" if "k x u = (r, t)" for x
    using sendsD [OF assms(2) that] a by auto
  show "\<exists>new. bw_sent t = bw_sent w @ new \<and> list_all P new"
    using run m more a by (cases q) (auto simp: tryP_def)
qed

lemma sends_bindP [sends_intros]: "sends P m \<Longrightarrow> (\<And>x. sends P (f x)) \<Longrightarrow> sends P (bindP m f)"
  unfolding bindP_as_tryP by (rule sends_tryP) (auto split: sum.split intro: sends_intros)

lemma sends_thenP [sends_intros]: "sends P m \<Longrightarrow> sends P n \<Longrightarrow> sends P (thenP m n)"
  unfolding thenP_def by (rule sends_bindP)

lemma sends_wrapP [sends_intros]: "sends P m \<Longrightarrow> sends P (wrapP msg m)"
  unfolding wrapP_def by (rule sends_tryP) (auto split: sum.split intro: sends_intros)

lemma sends_branches [sends_intros]:
  "sends P m \<Longrightarrow> sends P n \<Longrightarrow> sends P (if b then m else n)"
  "sends P m \<Longrightarrow> (\<And>x. sends P (f x)) \<Longrightarrow> sends P (case z of None \<Rightarrow> m | Some x \<Rightarrow> f x)"
  "(\<And>x. sends P (g x)) \<Longrightarrow> (\<And>x. sends P (h x)) \<Longrightarrow> sends P (case s of Inl x \<Rightarrow> g x | Inr x \<Rightarrow> h x)"
  "(\<And>x y. sends P (k x y)) \<Longrightarrow> sends P (case p of (x, y) \<Rightarrow> k x y)"
  by (simp_all split: option.split sum.split prod.split)

lemma sends_basics [sends_intros]:
  "sends P (boil_now e)" "sends P (alloc ob)" "sends P (load p)" "sends P (modify p f)" "sends P (receive e x)"
  by (auto intro!: sends_nothing simp: frame_def boil_now_def alloc_def load_def modify_def receive_def panicP_def
      split: option.split)

lemma sends_exec [sends_intros]: "P (s, args) \<Longrightarrow> sends P (exec_context e s args)"
  by (rule sendsI) (auto simp: exec_context_def Let_def split: option.splits sum.splits prod.splits)

lemma sends_query [sends_intros]:
  "P (s, args) \<Longrightarrow> sends P (query_row e s args)" "P (s, args) \<Longrightarrow> sends P (query_all e s args)"
  unfolding query_row_def query_all_def by (auto split: list.split intro!: sends_intros)

lemma sends_lists [sends_intros]: "sends P (alloc_all obs)" "sends P (load_all ps)"
  by (induction obs) (auto intro!: sends_intros, induction ps, auto intro!: sends_intros)

lemma sends_timestamps [sends_intros]:
  "sends P (insert_timestamps e t p)" "sends P (update_timestamps e t p)" "sends P (upsert_timestamps e t p)"
  unfolding insert_timestamps_def update_timestamps_def upsert_timestamps_def by (auto intro!: sends_intros)

lemma sends_frames [sends_intros]:
  "sends P m \<Longrightarrow> sends P (affected e msg1 msg2 m)" "sends P n \<Longrightarrow> sends P (or_no_rows msg n x)"
  unfolding affected_def or_no_rows_def by (auto intro!: sends_intros)

lemma sends_struct [sends_intros]: "sends P (get_R p)" "sends P (put_R p R)"
  by (auto intro!: sends_nothing simp: frame_def get_R_def put_R_def panicP_def split: option.split)

lemma sends_rel [sends_intros]:
  "sends P (ensure_R p)" "sends P (change_rel name f p)" "sends P (change_rel_if name f p)"
  unfolding ensure_R_def change_rel_def change_rel_if_def by (intro sends_intros)+

lemma sends_for_each [sends_intros]: "(\<And>x. sends P (f x)) \<Longrightarrow> sends P (for_each f xs)"
  by (induction xs) (simp_all add: sends_intros)

lemma sends_links [sends_intros]: "sends P (link_foreign fk p f)" "sends P (link_local fk p f)"
  unfolding link_foreign_def link_local_def by (intro sends_intros)+

lemma sends_find [sends_intros]:
  "sends P (find_foreign L fk p fs)" "sends P (find_local L fk ps f)" "sends P (find_unique L fk p fs)"
proof -
  show "sends P (find_foreign L fk p fs)" by (induction fs) (auto intro!: sends_intros)
  show "sends P (find_local L fk ps f)" by (induction ps) (auto intro!: sends_intros)
  show "sends P (find_unique L fk p fs)" by (induction fs) (auto intro!: sends_intros)
qed

lemma sends_eager [sends_intros]:
  "sends P (eager_args L b c ps)" "P (QueryS q, []) \<Longrightarrow> sends P (eager_query e t what close q)"
proof -
  show "sends P (eager_args L b c ps)" by (induction ps) (auto intro!: sends_intros)
  show "P (QueryS q, []) \<Longrightarrow> sends P (eager_query e t what close q)"
    unfolding eager_query_def by (auto intro!: sends_intros)
qed

section \<open>Statements that fit\<close>

definition fits :: "boil_table \<Rightarrow> stmt \<times> sql_value list \<Rightarrow> bool" where
  "fits t = (\<lambda>(s, args). binds s args \<and> stmt_table s = tb_name t \<and> set (stmt_cols s) \<subseteq> set (tb_all t))"

lemma zip_snd_range [simp]: "map snd (zip cs [i..<i + length cs]) = [i..<i + length cs]"
  "map fst (zip cs [i..<i + length cs]) = cs"
  by simp_all

lemma repeated_params:
  "map snd (concat (map (\<lambda>k. zip cs [i + k * length cs..<i + Suc k * length cs]) [0..<n])) = [i..<i + n * length cs]"
  "set (map fst (concat (map (\<lambda>k. zip cs [i + k * length cs..<i + Suc k * length cs]) [0..<n]))) \<subseteq> set cs"
proof -
  show "map snd (concat (map (\<lambda>k. zip cs [i + k * length cs..<i + Suc k * length cs]) [0..<n])) = [i..<i + n * length cs]"
  proof (induction n)
    case (Suc n)
    have "[i..<i + Suc n * length cs] = [i..<i + n * length cs] @ [i + n * length cs..<i + n * length cs + length cs]"
      using upt_add_eq_append [of i "i + n * length cs" "length cs"] by (simp add: algebra_simps)
    moreover have "map snd (zip cs [i + n * length cs..<i + Suc n * length cs]) = [i + n * length cs..<i + n * length cs + length cs]"
      by (simp add: algebra_simps)
    ultimately show ?case using Suc by simp
  qed simp
  show "set (map fst (concat (map (\<lambda>k. zip cs [i + k * length cs..<i + Suc k * length cs]) [0..<n]))) \<subseteq> set cs"
    by (auto dest: set_zip_leftD)
qed

lemma one_to: "[1..<Suc n] = [Suc 0..<Suc n]"
  by simp

lemma two_ranges: "set [1..<1 + n] \<union> set [n + 1..<n + 1 + m] = set [1..<Suc (n + m)]"
  by auto

context boil_model
begin

lemma pk_params_simps [simp]: "map snd (pk_params t) = [1..<Suc (length (tb_pk t))]" "map fst (pk_params t) = tb_pk t"
  by (simp_all add: pk_params_def del: upt_Suc)

lemma length_pk_of [simp]: "length (pk_of t ob) = length (tb_pk t)"
  by (simp add: pk_of_def)

lemma length_pks: "length (concat (map (pk_of t) obs)) = length obs * length (tb_pk t)"
  by (induction obs) simp_all

lemma fits_pk:
  "length keys = length (tb_pk t) \<Longrightarrow> set cs \<subseteq> set (tb_all t) \<Longrightarrow> fits t (SelectS (tb_name t) cs [pk_params t], keys)"
  "length keys = length (tb_pk t) \<Longrightarrow> fits t (ExistsS (tb_name t) (pk_params t), keys)"
  "length keys = length (tb_pk t) \<Longrightarrow> fits t (DeleteS (tb_name t) [pk_params t], keys)"
  using pk_columns(1) by (simp_all add: fits_def binds_def del: upt_Suc)

lemma fits_insert_plan:
  assumes L: "lib_laws L" and plan: "insert_plan L t columns nz = Inr c"
  shows "fits t (ic_query c, map (fld ob) (ic_values c))"
proof -
  obtain wl ret where cols: "bl_InsertColumnSet L columns (tb_all t) (tb_with_default t) (tb_without_default t) nz = (wl, ret)"
    by (cases "bl_InsertColumnSet L columns (tb_all t) (tb_with_default t) (tb_without_default t) nz")
  from plan have "set wl \<subseteq> set (tb_all t)" "set ret \<subseteq> set (tb_all t)" and
    c: "c = \<lparr>ic_query = InsertS (tb_name t) wl (if wl \<noteq> [] then [1..<1 + length wl] else []) (if ret \<noteq> [] then ret else []),
             ic_values = wl, ic_ret = ret\<rparr>"
    by (auto simp: insert_plan_def cols lib_BindMapping_Inr [OF L] lib_laws_simps(4) [OF L] split: sum.splits)
  then show ?thesis by (auto simp: fits_def binds_def c simp del: upt_Suc)
qed

lemma fits_update_plan:
  assumes L: "lib_laws L" and plan: "update_plan L t columns = Inr c"
  shows "fits t (uc_query c, map (fld ob) (uc_values c))"
proof -
  let ?wl = "bl_UpdateColumnSet L columns (tb_all t) (tb_pk t)"
  define wl where "wl = (if co_kind columns \<noteq> ColumnsWhitelist then filter (\<lambda>c. c \<noteq> ''created_at'') ?wl else ?wl)"
  have wl': "(if co_kind columns \<noteq> ColumnsWhitelist then bl_SetComplement L ?wl [''created_at''] else ?wl) = wl"
    by (simp add: wl_def lib_laws_simps(2) [OF L])
  from plan have cols: "set wl \<subseteq> set (tb_all t)" and
    c: "c = \<lparr>uc_query = UpdateS (tb_name t) (zip wl [1..<1 + length wl]) [zip (tb_pk t) [length wl + 1..<length wl + 1 + length (tb_pk t)]],
             uc_values = wl @ tb_pk t\<rparr>"
    unfolding update_plan_def Let_def wl'
    by (auto simp: lib_BindMapping_Inr [OF L] lib_laws_simps(5,6) [OF L] simp del: upt_Suc split: sum.splits if_splits)
  have "set [1..<1 + length wl] \<union> set [length wl + 1..<length wl + 1 + length (tb_pk t)] = set [1..<Suc (length wl + length (tb_pk t))]"
    by (rule two_ranges)
  then show ?thesis using cols pk_columns(1) by (simp add: fits_def binds_def c del: upt_Suc)
qed

lemma fits_upsert_plan:
  assumes L: "lib_laws L" and conf: "set conf \<subseteq> set (tb_all t)" and plan: "upsert_plan L t b conf u i [] nz = Inr c"
    and upd: "set (co_cols u) \<subseteq> set (tb_all t)"
  shows "fits t (ic_query c, map (fld ob) (ic_values c))"
proof -
  obtain wl x where cols: "bl_InsertColumnSet L i (tb_all t) (tb_with_default t) (tb_without_default t) nz = (wl, x)"
    by (cases "bl_InsertColumnSet L i (tb_all t) (tb_with_default t) (tb_without_default t) nz")
  define upds where "upds = bl_UpdateColumnSet L u (tb_all t) (tb_pk t)"
  have upds: "set upds \<subseteq> set (tb_all t)"
    using lib_update_set [OF L, of u "tb_all t" "tb_pk t"] upd
    by (cases "co_kind u") (auto simp: upds_def update_set_law_def)
  define ret where "ret = bl_SetComplement L (tb_all t) (bl_SetIntersect L wl upds)"
  have ret: "set ret \<subseteq> set (tb_all t)" by (auto simp: ret_def lib_laws_simps(2) [OF L])
  define conf' where "conf' = (if conf = [] \<and> b \<and> upds \<noteq> [] then tb_pk t else conf)"
  have conf': "set conf' \<subseteq> set (tb_all t)" using conf pk_columns(1) by (simp add: conf'_def)
  from plan have wl: "set wl \<subseteq> set (tb_all t)" and c: "ic_values c = wl"
    "ic_query c = buildUpsertQueryPostgres L (tb_name t) b ret upds conf' wl []"
    unfolding upsert_plan_def Let_def cols prod.case upds_def [symmetric] ret_def [symmetric] conf'_def [symmetric]
    by (auto simp: lib_BindMapping_Inr [OF L] split: sum.splits if_splits)
  show ?thesis
    using wl ret conf' upds
    by (auto simp: c fits_def binds_def buildUpsertQueryPostgres_def Let_def lib_laws_simps(4) [OF L] simp del: upt_Suc)
qed

lemma fits_slice_update:
  assumes L: "lib_laws L" and cols: "set (map fst cols) \<subseteq> set (tb_all t)" and len: "length obs = n"
  shows "fits t (UpdateS (tb_name t) (bl_SetParamNames L 1 (map fst cols))
      (bl_WhereClauseRepeated L (length cols + 1) (tb_pk t) n), map snd cols @ concat (map (pk_of t) obs))"
proof -
  let ?m = "length (tb_pk t)" and ?w = "bl_WhereClauseRepeated L (length cols + 1) (tb_pk t) n"
  have w: "map snd (concat ?w) = [length cols + 1..<length cols + 1 + n * ?m]" "set (map fst (concat ?w)) \<subseteq> set (tb_all t)"
    unfolding lib_laws_simps(7) [OF L] using repeated_params [of "tb_pk t" "length cols + 1" n] pk_columns(1) by (simp, blast)
  have s: "map snd (bl_SetParamNames L 1 (map fst cols)) = [1..<1 + length cols]"
    "map fst (bl_SetParamNames L 1 (map fst cols)) = map fst cols"
    using zip_snd_range [of "map fst cols" 1] unfolding lib_laws_simps(5) [OF L] by simp_all
  have "set [1..<1 + length cols] \<union> set [length cols + 1..<length cols + 1 + n * ?m] = set [1..<Suc (length cols + n * ?m)]"
    by (rule two_ranges)
  then show ?thesis
    using w cols unfolding fits_def binds_def prod.case stmt_params.simps stmt_cols.simps stmt_table.simps s w(1)
    by (simp add: length_pks len del: upt_Suc)
qed

lemma fits_slice:
  assumes L: "lib_laws L" and len: "length obs = n"
  shows "fits t (DeleteS (tb_name t) (bl_WhereClauseRepeated L 1 (tb_pk t) n), concat (map (pk_of t) obs))"
    "fits t (SelectS (tb_name t) [] (bl_WhereClauseRepeated L 1 (tb_pk t) n), concat (map (pk_of t) obs))"
proof -
  have w: "map snd (concat (bl_WhereClauseRepeated L 1 (tb_pk t) n)) = [1..<1 + n * length (tb_pk t)]"
    "set (map fst (concat (bl_WhereClauseRepeated L 1 (tb_pk t) n))) \<subseteq> set (tb_all t)"
    unfolding lib_laws_simps(7) [OF L] using repeated_params [of "tb_pk t" 1 n] pk_columns(1) by (simp, blast)
  then show "fits t (DeleteS (tb_name t) (bl_WhereClauseRepeated L 1 (tb_pk t) n), concat (map (pk_of t) obs))"
    "fits t (SelectS (tb_name t) [] (bl_WhereClauseRepeated L 1 (tb_pk t) n), concat (map (pk_of t) obs))"
    unfolding fits_def binds_def prod.case stmt_params.simps stmt_cols.simps stmt_table.simps w(1)
    by (simp_all add: length_pks len del: upt_Suc)
qed

end

section \<open>The operations\<close>

text \<open>A query on a table whose conditions and changes name its columns.\<close>

definition query_fits :: "boil_table \<Rightarrow> query_obj \<Rightarrow> bool" where
  "query_fits t q \<longleftrightarrow> qo_from q = [tb_name t] \<and> set (map cond_col (qo_where q)) \<subseteq> set (tb_all t) \<and>
     set (map fst (qo_update q)) \<subseteq> set (tb_all t)"

lemma fits_query: "query_fits t q \<Longrightarrow> fits t (QueryS q, [])"
  by (simp add: query_fits_def fits_def binds_def)

lemma query_fits_updates [simp]:
  "query_fits t (q\<lparr>qo_limit := n\<rparr>) = query_fits t q" "query_fits t (count_query q) = query_fits t q"
  "query_fits t (q\<lparr>qo_delete := b\<rparr>) = query_fits t q"
  by (simp_all add: query_fits_def count_query_def)

text \<open>Query mods of an eager load that keep that.\<close>

definition mods_fit :: "boil_table \<Rightarrow> query_mod option \<Rightarrow> bool" where
  "mods_fit t mods \<longleftrightarrow> (case mods of None \<Rightarrow> True | Some m \<Rightarrow> \<forall>q. query_fits t q \<longrightarrow> query_fits t (m q))"

lemma query_fits_eager:
  assumes "c \<in> set (tb_all t)" "mods_fit t mods"
  shows "query_fits t (eager_select t c args mods)"
proof -
  have "query_fits t (NewQuery [qm_From (tb_name t), qm_Where (InC c False args)])"
    using assms(1) by (simp add: query_fits_def NewQuery_def qm_From_def qm_Where_def empty_query_def)
  then show ?thesis using assms(2) by (simp add: eager_select_def Let_def mods_fit_def split: option.splits)
qed

text \<open>What a call needs: a table of the schema, columns of it, and as many keys as its primary key has columns.\<close>

fun call_fits :: "boil_table list \<Rightarrow> boil_call \<Rightarrow> bool" where
  "call_fits ts (CallOne t q) = (t \<in> set ts \<and> query_fits t q)"
| "call_fits ts (CallAll t q) = (t \<in> set ts \<and> query_fits t q)"
| "call_fits ts (CallCount t q) = (t \<in> set ts \<and> query_fits t q)"
| "call_fits ts (CallExists t q) = (t \<in> set ts \<and> query_fits t q)"
| "call_fits ts (CallFind t keys cs) = (t \<in> set ts \<and> length keys = length (tb_pk t) \<and> set cs \<subseteq> set (tb_all t))"
| "call_fits ts (CallQueryUpdateAll t q cols) =
     (t \<in> set ts \<and> query_fits t q \<and> set (map fst cols) \<subseteq> set (tb_all t))"
| "call_fits ts (CallSliceUpdateAll t ps cols) = (t \<in> set ts \<and> set (map fst cols) \<subseteq> set (tb_all t))"
| "call_fits ts (CallDelete t p) = (t \<in> set ts)"
| "call_fits ts (CallQueryDeleteAll t q) = (t \<in> set ts \<and> query_fits t q)"
| "call_fits ts (CallSliceDeleteAll t ps) = (t \<in> set ts)"
| "call_fits ts (CallReload t p) = (t \<in> set ts)"
| "call_fits ts (CallReloadAll t ps) = (t \<in> set ts)"
| "call_fits ts (CallExistsByPK t keys) = (t \<in> set ts \<and> length keys = length (tb_pk t))"
| "call_fits ts (CallLoadOne fk tgt mods) = (fk_ok ts fk \<and> mods_fit (fk_foreign fk) mods)"
| "call_fits ts (CallLoadMany fk tgt mods) = (fk_ok ts fk \<and> mods_fit (fk_local fk) mods)"
| "call_fits ts c = names_columns ts c"

lemma load_all_length: "load_all ps w = (Ok obs, v) \<Longrightarrow> length obs = length ps"
  by (induction ps arbitrary: obs w) (auto simp: outcome_simps)

text \<open>A program that continues with what it has loaded need only be looked at for lists of that length.\<close>

lemma sends_load_all:
  assumes "\<And>obs. length obs = length ps \<Longrightarrow> sends P (f obs)"
  shows "sends P (bindP (load_all ps) f)"
proof (rule sendsI)
  fix w r t assume run: "bindP (load_all ps) f w = (r, t)"
  obtain q u where m: "load_all ps w = (q, u)" by (cases "load_all ps w")
  obtain a where a: "bw_sent u = bw_sent w @ a" "list_all P a" using sendsD [OF sends_lists(2) m] by blast
  show "\<exists>new. bw_sent t = bw_sent w @ new \<and> list_all P new"
  proof (cases q)
    case (Ok obs)
    then have "f obs u = (r, t)" using run m by (simp add: bindP_def)
    from sendsD [OF assms this] load_all_length m Ok a show ?thesis by auto
  qed (use run m a in \<open>auto simp: bindP_def\<close>)
qed

lemma sends_planned: "(\<And>c. plan = Inr c \<Longrightarrow> sends P (f c)) \<Longrightarrow> sends P (bindP (liftS plan) f)"
  by (cases plan) (simp_all add: sends_def liftS_def bindP_def okP_def errP_def)

lemma sends_run:
  "(\<And>ob. P (ic_query c, map (fld ob) (ic_values c))) \<Longrightarrow> sends P (run_insert e p c)"
  "(\<And>ob. P (ic_query c, map (fld ob) (ic_values c))) \<Longrightarrow> sends P (run_upsert e p c)"
  "(\<And>ob. P (uc_query d, map (fld ob) (uc_values d))) \<Longrightarrow> sends P (run_update e t p d)"
  unfolding run_insert_def run_upsert_def run_update_def Let_def by (intro sends_intros; simp)+

context boil_model
begin

lemma sends_plain:
  assumes "lib_laws L"
  shows "sends (fits t) (plain_Insert L e t p columns)" "sends (fits t) (plain_Update L e t p columns)"
    and "set conf \<subseteq> set (tb_all t) \<Longrightarrow> set (co_cols u) \<subseteq> set (tb_all t) \<Longrightarrow> sends (fits t) (plain_Upsert L e t p b conf u i)"
  unfolding plain_Insert_def plain_Update_def plain_Upsert_def
  by (intro sends_intros sends_planned sends_run fits_insert_plan [OF assms] fits_update_plan [OF assms]
      fits_upsert_plan [OF assms]; assumption)+

lemma sends_queries:
  assumes "query_fits t q"
  shows "sends (fits t) (boil_One e t q)" "sends (fits t) (boil_All e t q)" "sends (fits t) (boil_Count e t q)"
    "sends (fits t) (boil_Exists e t q)" "sends (fits t) (boil_QueryDeleteAll e t (Some q))"
proof -
  have scan: "sends (fits t) (scan_count e q')" if "query_fits t q'" for q'
    unfolding scan_count_def using fits_query [OF that] by (auto split: sql_value.split intro!: sends_intros)
  show "sends (fits t) (boil_One e t q)" "sends (fits t) (boil_All e t q)" "sends (fits t) (boil_QueryDeleteAll e t (Some q))"
    unfolding boil_One_def boil_All_def boil_QueryDeleteAll_def bind_one_def using assms
    by (auto intro!: sends_intros fits_query)
  show "sends (fits t) (boil_Count e t q)" "sends (fits t) (boil_Exists e t q)"
    unfolding boil_Count_def boil_Exists_def using assms by (intro sends_intros scan; simp)+
qed

lemma sends_keys:
  assumes "length keys = length (tb_pk t)"
  shows "set cs \<subseteq> set (tb_all t) \<Longrightarrow> sends (fits t) (boil_Find e t keys cs)" "sends (fits t) (boil_ExistsByPK e t keys)"
  unfolding boil_Find_def boil_ExistsByPK_def bind_one_def using fits_pk [OF assms] by (intro sends_intros; simp)+

lemma sends_objects: "sends (fits t) (boil_Delete e t p)" "sends (fits t) (boil_Reload e t p)"
proof -
  show "sends (fits t) (boil_Delete e t p)"
    unfolding boil_Delete_def using fits_pk(3) by (intro sends_intros; simp)
  have "sends (fits t) (\<lambda>w. case p of None \<Rightarrow> (Panic nil_deref, w) | Some a \<Rightarrow> (Ok (), w\<lparr>bw_heap := (bw_heap w)[a := object w ret]\<rparr>))" for ret
    by (rule sends_nothing) (simp add: frame_def split: option.split)
  then show "sends (fits t) (boil_Reload e t p)"
    unfolding boil_Reload_def using sends_keys(1) by (intro sends_intros; simp)
qed

lemma sends_updates:
  assumes "query_fits t q" "set (map fst cols) \<subseteq> set (tb_all t)"
  shows "sends (fits t) (boil_QueryUpdateAll e t q cols)"
proof -
  have "query_fits t (q\<lparr>qo_update := cols\<rparr>)" using assms by (simp add: query_fits_def)
  then show ?thesis unfolding boil_QueryUpdateAll_def by (intro sends_intros fits_query)
qed

lemma sends_slices:
  assumes "lib_laws L"
  shows "set (map fst cols) \<subseteq> set (tb_all t) \<Longrightarrow> sends (fits t) (boil_SliceUpdateAll L e t ps cols)"
    "sends (fits t) (boil_SliceDeleteAll L e t ps)" "sends (fits t) (boil_ReloadAll L e t (Some qs))"
  unfolding boil_SliceUpdateAll_def boil_SliceDeleteAll_def boil_ReloadAll_def option.case
  by (intro sends_intros sends_load_all fits_slice_update [OF assms] fits_slice [OF assms]; assumption)+

end

definition fits_some :: "boil_table list \<Rightarrow> stmt \<times> sql_value list \<Rightarrow> bool" where
  "fits_some ts x \<longleftrightarrow> list_ex (\<lambda>t. fits t x) ts"

lemma sends_mono: "sends P m \<Longrightarrow> (\<And>x. P x \<Longrightarrow> Q x) \<Longrightarrow> sends Q m"
  unfolding sends_def by (metis list.pred_mono_strong)

lemma sends_returns [sends_intros]: "sends P m \<Longrightarrow> sends P (returns f m)"
  unfolding returns_def by (intro sends_intros)

text \<open>The table of a call; a relationship has two.\<close>

fun call_table :: "boil_call \<Rightarrow> boil_table option" where
  "call_table (CallOne t q) = Some t"
| "call_table (CallAll t q) = Some t"
| "call_table (CallCount t q) = Some t"
| "call_table (CallExists t q) = Some t"
| "call_table (CallFind t keys cs) = Some t"
| "call_table (CallInsert t p cs) = Some t"
| "call_table (CallUpdate t p cs) = Some t"
| "call_table (CallQueryUpdateAll t q cols) = Some t"
| "call_table (CallSliceUpdateAll t ps cols) = Some t"
| "call_table (CallUpsert t p b conf u i) = Some t"
| "call_table (CallDelete t p) = Some t"
| "call_table (CallQueryDeleteAll t q) = Some t"
| "call_table (CallSliceDeleteAll t ps) = Some t"
| "call_table (CallReload t p) = Some t"
| "call_table (CallReloadAll t ps) = Some t"
| "call_table (CallExistsByPK t keys) = Some t"
| "call_table _ = None"

lemma call_fits_table: "call_fits ts c \<Longrightarrow> call_table c = Some t \<Longrightarrow> t \<in> set ts \<and> call_fits [t] c"
  by (cases c) auto

lemma call_fits_names: "call_fits ts c \<Longrightarrow> names_columns ts c"
  by (cases c) simp_all

context boil_model
begin

lemma sends_call:
  assumes "lib_laws L" "call_table c = Some t" "call_fits [t] c"
  shows "sends (fits t) (run_call False L e c)"
  using assms(2,3)
  by (cases c) (auto simp: run_call_def
      intro!: sends_returns sends_queries sends_keys sends_plain [OF assms(1)] sends_objects sends_updates sends_slices [OF assms(1)])

end

lemma fits_someI: "t \<in> set ts \<Longrightarrow> fits t x \<Longrightarrow> fits_some ts x"
  by (auto simp: fits_some_def list_ex_iff)

context boil_schema
begin

lemma fk_models:
  assumes "fk_ok ts fk"
  shows "boil_model (fk_local fk)" "boil_model (fk_foreign fk)"
  using assms model by (simp_all add: fk_ok_def)

lemma fits_point:
  assumes L: "lib_laws L" and fk: "fk_ok ts fk"
  shows "fits_some ts (point_stmt L fk, v # pk_of (fk_local fk) ob)"
proof -
  let ?t = "fk_local fk"
  note m = fk_models(1) [OF fk]
  have "set (tb_pk ?t) \<subseteq> set (tb_all ?t)" by (rule boil_model.pk_columns(1) [OF m])
  moreover have "fk_column fk \<in> set (tb_all ?t)" "?t \<in> set ts" using fk by (simp_all add: fk_ok_def)
  moreover have "[1..<Suc (length (v # pk_of ?t ob))] = 1 # [2..<2 + length (tb_pk ?t)]"
    by (simp add: pk_of_def upt_conv_Cons numeral_2_eq_2 del: upt_Suc)
  moreover have "[1..<1 + length [fk_column fk]] = [1]" by simp
  ultimately have "fits ?t (point_stmt L fk, v # pk_of ?t ob)"
    unfolding fits_def point_stmt_def lib_laws_simps(5,6) [OF L] binds_def prod.case
    by (simp del: upt_Suc)
  then show ?thesis by (rule fits_someI [OF \<open>?t \<in> set ts\<close>])
qed

lemma fits_detach:
  assumes "fk_ok ts fk"
  shows "fits_some ts (DetachS (tb_name (fk_local fk)) (fk_column fk) (fk_column fk, 1), [v])"
  using assms by (intro fits_someI [of "fk_local fk"]) (auto simp: fk_ok_def fits_def binds_def)

lemma sends_plain_ops:
  assumes "lib_laws L" "t \<in> set ts"
  shows "sends (fits_some ts) (plain_Insert L e t p columns)" "sends (fits_some ts) (plain_Update L e t p columns)"
  using boil_model.sends_plain(1,2) [OF model [OF assms(2)] assms(1)] fits_someI [OF assms(2)]
  by (blast intro: sends_mono)+

lemma sends_loads:
  assumes "fk_ok ts fk"
  shows "mods_fit (fk_foreign fk) mods \<Longrightarrow> sends (fits_some ts) (boil_LoadOne L e fk tgt mods)"
    "mods_fit (fk_local fk) mods \<Longrightarrow> sends (fits_some ts) (boil_LoadMany L e fk tgt mods)"
proof -
  have "fits_some ts (QueryS (eager_select (fk_foreign fk) (fk_key fk) args mods), [])" if "mods_fit (fk_foreign fk) mods" for args
    using assms that by (intro fits_someI [of "fk_foreign fk"] fits_query query_fits_eager) (simp_all add: fk_ok_def)
  then show "mods_fit (fk_foreign fk) mods \<Longrightarrow> sends (fits_some ts) (boil_LoadOne L e fk tgt mods)"
    unfolding boil_LoadOne_def by (auto split: load_target.split intro!: sends_intros)
  have "fits_some ts (QueryS (eager_select (fk_local fk) (fk_column fk) args mods), [])" if "mods_fit (fk_local fk) mods" for args
    using assms that by (intro fits_someI [of "fk_local fk"] fits_query query_fits_eager) (simp_all add: fk_ok_def)
  then show "mods_fit (fk_local fk) mods \<Longrightarrow> sends (fits_some ts) (boil_LoadMany L e fk tgt mods)"
    unfolding boil_LoadMany_def by (auto split: load_target.split intro!: sends_intros)
qed

lemma sends_attach:
  assumes L: "lib_laws L" and fk: "fk_ok ts fk"
  shows "sends (fits_some ts) (attach (plain_Insert L e) L e fk p b rel)"
proof -
  have "fk_local fk \<in> set ts" using fk by (simp add: fk_ok_def)
  then show ?thesis
    unfolding attach_def Let_def by (intro sends_intros sends_plain_ops [OF L] fits_point [OF L fk])
qed

lemma sends_AddMany:
  assumes "lib_laws L" and "fk_ok ts fk"
  shows "sends (fits_some ts) (AddMany_with (plain_Insert L e) L e fk p b rels)"
  unfolding AddMany_with_def by (intro sends_intros sends_attach [OF assms])

lemma sends_setters:
  assumes L: "lib_laws L" and fk: "fk_ok ts fk"
  shows "sends (fits_some ts) (SetOne_with (plain_Insert L e) L e fk p b rel)"
    "sends (fits_some ts) (SetUnique_with (plain_Insert L e) L e fk p b rel)"
    "sends (fits_some ts) (SetMany_with (plain_Insert L e) L e fk p b rels)"
proof -
  have "fk_foreign fk \<in> set ts" using fk by (simp add: fk_ok_def)
  then show "sends (fits_some ts) (SetOne_with (plain_Insert L e) L e fk p b rel)"
    unfolding SetOne_with_def by (intro sends_intros sends_plain_ops [OF L] fits_point [OF L fk])
  show "sends (fits_some ts) (SetUnique_with (plain_Insert L e) L e fk p b rel)"
    unfolding SetUnique_with_def by (intro sends_intros sends_attach [OF L fk])
  show "sends (fits_some ts) (SetMany_with (plain_Insert L e) L e fk p b rels)"
    unfolding SetMany_with_def by (intro sends_intros sends_AddMany [OF L fk] fits_detach [OF fk])
qed

lemma sends_removers:
  assumes L: "lib_laws L" and fk: "fk_ok ts fk"
  shows "sends (fits_some ts) (RemoveOne_with (plain_Update L e) L fk p rel)"
    "sends (fits_some ts) (RemoveMany_with (plain_Update L e) L fk p rels)"
proof -
  have t: "fk_local fk \<in> set ts" using fk by (simp add: fk_ok_def)
  have "sends P (\<lambda>w. change_rel_if name (g w) rel w)" for P name and g :: "boil_world \<Rightarrow> ptr list \<Rightarrow> ptr list"
    using sends_rel(3) [of P name "g _" rel] by (simp add: sends_def)
  then show "sends (fits_some ts) (RemoveOne_with (plain_Update L e) L fk p rel)"
    unfolding RemoveOne_with_def by (intro sends_intros sends_plain_ops [OF L t])
  show "sends (fits_some ts) (RemoveMany_with (plain_Update L e) L fk p rels)"
    unfolding RemoveMany_with_def by (intro sends_intros sends_plain_ops [OF L t])
qed

lemma sends_fk_call:
  assumes "lib_laws L" "call_table c = None" "call_fits ts c"
  shows "sends (fits_some ts) (run_call False L e c)"
  using assms(2,3)
  by (cases c) (auto simp: run_call_def
      intro!: sends_returns sends_loads sends_setters [OF assms(1)] sends_AddMany [OF assms(1)] sends_removers [OF assms(1)])

end

lemma sends_run_call:
  assumes L: "lib_laws L" and fit: "call_fits all_tables c"
  shows "sends (fits_some all_tables) (run_call False L e c)"
proof (cases "call_table c")
  case None
  then show ?thesis by (rule schema.sends_fk_call [OF L _ fit])
next
  case (Some t)
  note t = call_fits_table [OF fit Some]
  have "sends (fits t) (run_call False L e c)"
    by (rule boil_model.sends_call [OF schema.model L Some]) (use t in blast)+
  then show ?thesis by (rule sends_mono) (use t in \<open>auto intro: fits_someI\<close>)
qed

lemma sends_run_calls:
  assumes "lib_laws L" "\<forall>c \<in> set cs. call_fits all_tables c"
  shows "\<exists>new. bw_sent (snd (run_calls False L e cs w)) = bw_sent w @ new \<and> list_all (fits_some all_tables) new"
  using assms(2)
proof (induction cs arbitrary: w)
  case (Cons c cs)
  obtain r u where c: "run_call False L e c w = (r, u)" by (cases "run_call False L e c w")
  have "sends (fits_some all_tables) (run_call False L e c)" using sends_run_call [OF assms(1)] Cons.prems by simp
  from sendsD [OF this c] obtain a where a: "bw_sent u = bw_sent w @ a" "list_all (fits_some all_tables) a" by blast
  obtain b where "bw_sent (snd (run_calls False L e cs u)) = bw_sent u @ b" "list_all (fits_some all_tables) b"
    using Cons.IH [of u] Cons.prems by auto
  then show ?case using c a by (simp add: case_prod_unfold Let_def)
qed simp

text \<open>
  C36: statements and arguments fit.  Whatever calls of the generated models a process makes on the 21
  tables, with columns of the table and a value for each column of its primary key, whatever the caches
  hold by then and whatever fails: every statement that reaches the connection has exactly one argument for
  each of its placeholders, numbered from one, and names only columns of one table of the schema.
\<close>

theorem statements_bind:
  assumes "lib_laws L" and "\<forall>c \<in> set cs. call_fits all_tables c" and "run_calls True L e cs (forget w) = (rs, v)"
    and "bw_sent w = []" and "(s, args) \<in> set (bw_sent v)"
  shows "set (stmt_params s) = {1..length args} \<and>
    (\<exists>t \<in> set all_tables. stmt_table s = tb_name t \<and> set (stmt_cols s) \<subseteq> set (tb_all t))"
proof -
  have names: "\<forall>c \<in> set cs. names_columns all_tables c" using assms(2) call_fits_names by blast
  have "run_calls False L e cs (forget w) = (rs, forget v)"
    using like_run_calls [OF assms(1) names caches_ok_forget, of e w] assms(3) by simp
  then have "list_all (fits_some all_tables) (bw_sent v)"
    using sends_run_calls [OF assms(1,2), of e "forget w"] assms(4) by auto
  then have "fits_some all_tables (s, args)" using assms(5) by (auto simp: list_all_iff)
  then obtain t where t: "t \<in> set all_tables" "fits t (s, args)" by (auto simp: fits_some_def list_ex_iff)
  have "set [1..<Suc (length args)] = {1..length args}" by auto
  then show ?thesis using t by (auto simp: fits_def binds_def simp del: upt_Suc)
qed

theorem statements_bind_witness:
  "set (stmt_params (UpdateS ''organizations'' [(''name'', 1)] [[(''id'', 2)]])) = {1..length [VText ''acme'', VText []]} \<and>
   (\<exists>t. t \<in> set all_tables \<and> ''organizations'' = tb_name t)"
proof -
  let ?s = "UpdateS ''organizations'' [(''name'', 1)] [[(''id'', 2)]]" and ?args = "[VText ''acme'', VText []]"
  let ?calls = "[CallUpdate organizations_table (Some 0) (Whitelist [''name''])]"
  let ?run = "run_calls True reference_lib (calm_env organizations_table) ?calls (forget (boil_boot [acme]))"
  have name: "''name'' \<in> set (tb_all organizations_table)" by code_simp
  have calls: "\<forall>c \<in> set ?calls. call_fits all_tables c" using name by (simp add: Whitelist_def all_tables_def)
  obtain rs v where run: "?run = (rs, v)" by (cases ?run)
  have "bw_sent (snd ?run) = [(?s, ?args)]" by code_simp
  then have "(?s, ?args) \<in> set (bw_sent v)" using run by simp
  from statements_bind [OF reference_lib_laws calls run _ this] show ?thesis
    by (auto simp: boil_boot_def)
qed

end
