(* ===== verification/Boil_Roundtrip.thy ===== *)
theory Boil_Roundtrip
  imports Boil_Statements "HOL-Library.Multiset"
begin

text \<open>
  What the generated operations do to the rows: an object that was inserted is its row and is found again,
  \<open>Update\<close> writes its columns to the row with its primary key and no other, \<open>Delete\<close> removes that row.
\<close>

section \<open>Objects and rows\<close>

definition row_ok :: "boil_table \<Rightarrow> obj \<Rightarrow> bool" where
  "row_ok t r \<longleftrightarrow> map fst r = tb_all t"

lemma fld_Cons [simp]: "fld ((c, v) # ob) c' = (if c' = c then v else fld ob c')"
  by (simp add: fld_def)

lemma obj_eqI:
  assumes "map fst x = map fst y" "distinct (map fst x)" "\<And>c. c \<in> set (map fst x) \<Longrightarrow> fld x c = fld y c"
  shows "x = y"
  using assms
proof (induction x arbitrary: y)
  case (Cons p x)
  obtain c v where p: "p = (c, v)" by (cases p)
  obtain u y' where y: "y = (c, u) # y'" using Cons.prems(1) p by (cases y) auto
  have v: "v = u" using Cons.prems(3) [of c] by (simp add: p y)
  have "fld x d = fld y' d" if "d \<in> set (map fst x)" for d
  proof -
    have "d \<noteq> c" using Cons.prems(2) that by (auto simp: p)
    then show ?thesis using Cons.prems(3) [of d] that by (auto simp: p y)
  qed
  moreover have "map fst x = map fst y'" "distinct (map fst x)" using Cons.prems(1,2) by (simp_all add: p y)
  ultimately have "x = y'" by (rule Cons.IH [rotated 2])
  then show ?case using v by (simp add: p y)
qed simp

lemma fld_map: "c \<in> set cs \<Longrightarrow> fld (map (\<lambda>c. (c, f c)) cs) c = f c"
  by (induction cs) (auto simp: fld_def)

lemma fold_set_fld_keys: "set cs \<subseteq> fst ` set ob \<Longrightarrow> map fst (fold (\<lambda>c. set_fld c (f c)) cs ob) = map fst ob"
proof (induction cs arbitrary: ob)
  case (Cons c cs)
  have c: "c \<in> fst ` set ob" using Cons.prems by simp
  have "fst ` set (set_fld c (f c) ob) = fst ` set ob" using keys_set_fld [OF c] by (metis list.set_map)
  then show ?case using Cons.IH [of "set_fld c (f c) ob"] Cons.prems keys_set_fld [OF c] by simp
qed simp

lemma fld_fold_set_fld: "fld (fold (\<lambda>c. set_fld c (f c)) cs ob) c = (if c \<in> set cs then f c else fld ob c)"
  by (induction cs arbitrary: ob) simp_all

lemma fold_params:
  assumes "distinct cs" "c \<in> set cs"
  shows "\<exists>i. map_of (zip cs [k..<k + length cs]) c = Some i \<and> k \<le> i \<and> i < k + length cs \<and> cs ! (i - k) = c"
  using assms
proof (induction cs arbitrary: k)
  case (Cons d cs)
  have range: "[k..<k + length (d # cs)] = k # [Suc k..<Suc k + length cs]" by (simp add: upt_conv_Cons del: upt_Suc)
  show ?case
  proof (cases "c = d")
    case True
    then show ?thesis unfolding range by (intro exI [of _ k]) simp
  next
    case False
    then obtain i where i: "map_of (zip cs [Suc k..<Suc k + length cs]) c = Some i" "Suc k \<le> i" "i < Suc k + length cs"
      "cs ! (i - Suc k) = c"
      using Cons.IH [of "Suc k"] Cons.prems by auto
    then have "i - k = Suc (i - Suc k)" by simp
    then have "(d # cs) ! (i - k) = c" using i(4) by simp
    then show ?thesis using i False unfolding range by (intro exI [of _ i]) simp
  qed
qed simp

section \<open>The server\<close>

text \<open>
  The columns of the table are those of the model, its primary key is unique and not null, the order of a
  result is some order, and deleting rows of the table has no other effect on it.
\<close>

definition server_ok :: "boil_env \<Rightarrow> boil_table \<Rightarrow> bool" where
  "server_ok e t \<longleftrightarrow> be_columns e (tb_name t) = tb_all t \<and>
     (\<forall>d others r. be_check e d (tb_name t) others r = None \<longrightarrow>
        (\<forall>c \<in> set (tb_pk t). fld r c \<noteq> VNull) \<and> (\<forall>s \<in> set others. pk_of t s \<noteq> pk_of t r)) \<and>
     (\<forall>n rs. mset (be_order e n rs) = mset rs) \<and>
     (\<forall>gone d d'. be_deleted e (tb_name t) gone d = Inr d' \<longrightarrow> rows d' (tb_name t) = rows d (tb_name t))"

text \<open>The rows of the table are objects of the model with a unique primary key without nulls.\<close>

definition rows_ok :: "boil_table \<Rightarrow> store \<Rightarrow> bool" where
  "rows_ok t d \<longleftrightarrow> (\<forall>r \<in> set (rows d (tb_name t)). row_ok t r \<and> (\<forall>c \<in> set (tb_pk t). fld r c \<noteq> VNull)) \<and>
     distinct (map (pk_of t) (rows d (tb_name t)))"

lemma server_okD:
  assumes "server_ok e t"
  shows "be_columns e (tb_name t) = tb_all t" "mset (be_order e n rs) = mset rs"
    and "be_deleted e (tb_name t) gone d = Inr d' \<Longrightarrow> rows d' (tb_name t) = rows d (tb_name t)"
    and "be_check e d (tb_name t) others r = None \<Longrightarrow> c \<in> set (tb_pk t) \<Longrightarrow> fld r c \<noteq> VNull"
    and "be_check e d (tb_name t) others r = None \<Longrightarrow> s \<in> set others \<Longrightarrow> pk_of t s \<noteq> pk_of t r"
  using assms by (simp_all add: server_ok_def)

context boil_model
begin

text \<open>The condition on the primary key holds of the rows that have it.\<close>

lemma where_key:
  assumes keys: "length keys = length (tb_pk t)"
  shows "where_holds (xs @ keys) [zip (tb_pk t) [length xs + 1..<length xs + 1 + length (tb_pk t)]] r \<longleftrightarrow>
    pk_of t r = keys \<and> VNull \<notin> set keys"
proof -
  have "zip (tb_pk t) [length xs + 1..<length xs + 1 + length (tb_pk t)] =
      map (\<lambda>k. (tb_pk t ! k, length xs + Suc k)) [0..<length keys]"
    by (rule nth_equalityI) (simp_all add: keys del: upt_Suc)
  then have each: "where_holds (xs @ keys) [zip (tb_pk t) [length xs + 1..<length xs + 1 + length (tb_pk t)]] r \<longleftrightarrow>
      (\<forall>k < length keys. sql_eq (fld r (tb_pk t ! k)) (keys ! k))"
    by (auto simp: where_holds_def arg_def list_all_iff nth_append)
  have "pk_of t r = keys \<longleftrightarrow> (\<forall>k < length keys. fld r (tb_pk t ! k) = keys ! k)"
    by (auto simp: list_eq_iff_nth_eq pk_of_def keys)
  then show ?thesis unfolding each by (auto simp: sql_eq_def in_set_conv_nth)
qed

lemma where_pk:
  "length keys = length (tb_pk t) \<Longrightarrow> where_holds keys [pk_params t] r \<longleftrightarrow> pk_of t r = keys \<and> VNull \<notin> set keys"
  using where_key [of keys "[]"] by (simp add: pk_params_def del: upt_Suc)

lemma new_row_keys: "be_columns e (tb_name t) = tb_all t \<Longrightarrow> row_ok t (new_row e n (tb_name t) wl ps args)"
  by (simp add: row_ok_def new_row_def comp_def)

text \<open>A new row has the values of the inserted columns and defaults in the others.\<close>

lemma new_row_fld:
  assumes "be_columns e (tb_name t) = tb_all t" "distinct wl" "c \<in> set (tb_all t)"
  shows "fld (new_row e n (tb_name t) wl [1..<1 + length wl] (map f wl)) c =
    (if c \<in> set wl then f c else be_default e n (tb_name t) c)"
proof (cases "c \<in> set wl")
  case True
  obtain i where i: "map_of (zip wl [1..<1 + length wl]) c = Some i" "1 \<le> i" "i < 1 + length wl" "wl ! (i - 1) = c"
    using fold_params [OF assms(2) True, of 1] by (elim exE conjE) (rule that)
  then have "arg (map f wl) i = f c" by (simp add: arg_def)
  then show ?thesis using True assms(3) unfolding new_row_def assms(1) fld_map [OF assms(3)] i(1) by simp
next
  case False
  then have "map_of (zip wl [1..<1 + length wl]) c = None" by (subst map_of_eq_None_iff) (auto dest: set_zip_leftD)
  then show ?thesis using False unfolding new_row_def assms(1) fld_map [OF assms(3)] by simp
qed

end

section \<open>Insert\<close>

lemma map_of_map_fields: "map_of (map (\<lambda>(c, k). (c, f c k)) xs) c = map_option (f c) (map_of xs c)"
  by (induction xs) auto

lemma liftS_Ok [outcome_simps]: "liftS r w = (Ok x, v) \<longleftrightarrow> r = Inr x \<and> v = w"
  by (cases r) (auto simp: liftS_def outcome_simps)

lemma query_row_Ok:
  assumes "query_row e s args w = (Ok r, v)"
  obtains rs k d where "pg_run e (bw_tick w) s args (bw_store w) = Inr ((r # rs, k), d)" "bw_store v = d" "bw_heap v = bw_heap w"
proof -
  obtain q u where x: "exec_context e s args w = (q, u)" by (cases "exec_context e s args w")
  then obtain rs k where q: "q = Ok (rs, k)" using assms by (cases q) (auto simp: query_row_def bindP_def)
  obtain rs' where rs: "rs = r # rs'" "bw_store v = bw_store u" "bw_heap v = bw_heap u"
    using assms x q by (cases rs) (auto simp: query_row_def bindP_def receive_def errP_def split: option.splits)
  show ?thesis
    using x q rs that [of rs' k "bw_store v"]
    by (auto simp: exec_context_def Let_def split: option.splits sum.splits prod.splits)
qed

lemma exec_context_Ok:
  assumes "exec_context e s args w = (Ok res, v)"
  shows "pg_run e (bw_tick w) s args (bw_store w) = Inr (res, bw_store v)" "bw_heap v = bw_heap w"
  using assms by (auto simp: exec_context_def Let_def split: option.splits sum.splits prod.splits)

lemma keys_scan_fields: "set ret \<subseteq> fst ` set ob \<Longrightarrow> map fst (scan_fields ret r ob) = map fst ob"
  unfolding scan_fields_def by (rule fold_set_fld_keys)

lemma fld_returned: "c \<in> set ret \<Longrightarrow> fld (returned ret r) c = fld r c"
  unfolding returned_def by (rule fld_map)

context boil_model
begin

text \<open>Which columns the statement of \<open>Insert\<close> has when none is left out.\<close>

lemma insert_plan_all:
  assumes L: "lib_laws L" and kind: "co_kind columns = ColumnsInfer \<or> co_kind columns = ColumnsGreylist"
    and nz: "distinct nz" and plan: "insert_plan L t columns nz = Inr c"
  obtains wl ret where "c = \<lparr>ic_query = InsertS (tb_name t) wl [1..<1 + length wl] ret, ic_values = wl, ic_ret = ret\<rparr>"
    and "distinct wl" "set wl \<union> set ret = set (tb_all t)"
proof -
  obtain wl ret where cols: "bl_InsertColumnSet L columns (tb_all t) (tb_with_default t) (tb_without_default t) nz = (wl, ret)"
    by (cases "bl_InsertColumnSet L columns (tb_all t) (tb_with_default t) (tb_without_default t) nz")
  from plan have sub: "set wl \<subseteq> set (tb_all t)" and
    c: "c = \<lparr>ic_query = InsertS (tb_name t) wl (if wl \<noteq> [] then [1..<1 + length wl] else []) (if ret \<noteq> [] then ret else []),
             ic_values = wl, ic_ret = ret\<rparr>"
    by (auto simp: insert_plan_def cols lib_BindMapping_Inr [OF L] lib_laws_simps(4) [OF L] simp del: upt_Suc split: sum.splits)
  have "insert_set_law columns (tb_with_default t) (tb_without_default t) nz (wl, ret)"
    using lib_insert_set [OF L distincts(2) nz, of columns "tb_with_default t" "tb_all t"] unfolding cols .
  then have "distinct wl" "set (tb_without_default t) \<subseteq> set wl" "set ret = set (tb_with_default t) - set wl"
    using kind by (auto simp: insert_set_law_def)
  then have "set wl \<union> set ret = set (tb_all t)" using sub columns_split by auto
  moreover have "c = \<lparr>ic_query = InsertS (tb_name t) wl [1..<1 + length wl] ret, ic_values = wl, ic_ret = ret\<rparr>"
    unfolding c by (cases "wl = []"; cases "ret = []") simp_all
  ultimately show ?thesis using \<open>distinct wl\<close> that by blast
qed

text \<open>The object is the row afterwards: what was not sent has been read back.\<close>

lemma run_insert_row:
  assumes L: "lib_laws L" and server: "server_ok e t" and kind: "co_kind columns = ColumnsInfer \<or> co_kind columns = ColumnsGreylist"
    and nz: "distinct nz" and plan: "insert_plan L t columns nz = Inr c"
    and a: "a < length (bw_heap w)" "row_ok t (bo_fields (object w a))"
    and run: "run_insert e (Some a) c w = (Ok (), v)"
  shows "bw_store v = set_rows (tb_name t) (rows (bw_store w) (tb_name t) @ [bo_fields (object v a)]) (bw_store w) \<and>
    row_ok t (bo_fields (object v a)) \<and>
    be_check e (bw_store w) (tb_name t) (rows (bw_store w) (tb_name t)) (bo_fields (object v a)) = None"
proof -
  obtain wl ret where c: "c = \<lparr>ic_query = InsertS (tb_name t) wl [1..<1 + length wl] ret, ic_values = wl, ic_ret = ret\<rparr>"
    and wl: "distinct wl" "set wl \<union> set ret = set (tb_all t)"
    using insert_plan_all [OF L kind nz plan] .
  let ?ob = "bo_fields (object w a)" and ?n = "tb_name t"
  define r where "r = new_row e (bw_tick w) ?n wl [1..<1 + length wl] (map (fld ?ob) wl)"
  have r: "row_ok t r" unfolding r_def by (rule new_row_keys [OF server_okD(1) [OF server]])
  have ob: "fst ` set ?ob = set (tb_all t)" using a(2) by (metis list.set_map row_ok_def)
  have fld_r: "fld r d = fld ?ob d" if "d \<in> set wl" for d
  proof -
    have "d \<in> set (tb_all t)" using that wl(2) by blast
    from new_row_fld [OF server_okD(1) [OF server] wl(1) this] that show ?thesis unfolding r_def by presburger
  qed
  have scanned: "scan_fields ret (returned ret r) ?ob = r"
  proof (rule obj_eqI)
    have keys: "map fst (scan_fields ret (returned ret r) ?ob) = tb_all t"
      using keys_scan_fields [of ret ?ob] ob wl(2) a(2) by (auto simp: row_ok_def)
    then show "map fst (scan_fields ret (returned ret r) ?ob) = map fst r" "distinct (map fst (scan_fields ret (returned ret r) ?ob))"
      using r by (simp_all add: row_ok_def)
    fix d assume "d \<in> set (map fst (scan_fields ret (returned ret r) ?ob))"
    then have "d \<in> set wl \<union> set ret" unfolding keys wl(2) .
    then show "fld (scan_fields ret (returned ret r) ?ob) d = fld r d"
      using fld_r by (auto simp: scan_fields_def fld_fold_set_fld fld_returned)
  qed
  have effect: "be_check e (bw_store w) ?n (rows (bw_store w) ?n) r = None \<and> res = ([returned ret r], 1) \<and>
      d = set_rows ?n (rows (bw_store w) ?n @ [r]) (bw_store w)"
    if "pg_run e (bw_tick w) (ic_query c) (map (fld ?ob) wl) (bw_store w) = Inr (res, d)" for res d
    using that unfolding c r_def
    by (simp add: pg_run_def pg_insert_def Let_def split: if_splits option.splits)
  show ?thesis
  proof (cases "ret = []")
    case True
    from run True obtain res where x: "exec_context e (ic_query c) (map (fld ?ob) wl) w = (Ok res, v)"
      by (auto simp: run_insert_def load_def c outcome_simps Let_def)
    have "object v a = object w a" using exec_context_Ok(2) [OF x] by (simp add: object_def)
    then show ?thesis using effect [OF exec_context_Ok(1) [OF x]] scanned True r by (simp add: scan_fields_def)
  next
    case False
    from run False obtain s u where x: "query_row e (ic_query c) (map (fld ?ob) wl) w = (Ok s, u)"
      and v: "v = u\<lparr>bw_heap := (bw_heap u)[a := write_fields (scan_fields ret s) (object u a)]\<rparr>"
      by (auto simp: run_insert_def load_def modify_def c outcome_simps Let_def)
    obtain rs k d where y: "pg_run e (bw_tick w) (ic_query c) (map (fld ?ob) wl) (bw_store w) = Inr ((s # rs, k), d)"
      "bw_store u = d" "bw_heap u = bw_heap w" using query_row_Ok [OF x] .
    have "object u a = object w a" using y(3) by (simp add: object_def)
    moreover have "s = returned ret r" "bw_store v = d" using effect [OF y(1)] y(2) v by simp_all
    ultimately have "bo_fields (object v a) = r" using a(1) y(3) scanned by (simp add: v object_def write_fields_def)
    then show ?thesis using effect [OF y(1)] r \<open>bw_store v = d\<close> by simp
  qed
qed

text \<open>\<open>Find\<close> by the primary key when the connection works: the row with the key, or \<open>sql.ErrNoRows\<close>.\<close>

lemma select_pk:
  assumes server: "server_ok e t" and keys: "length keys = length (tb_pk t)"
  shows "pg_run e n (SelectS (tb_name t) [] [pk_params t]) keys d =
    (let rs = be_order e n (filter (\<lambda>r. pk_of t r = keys \<and> VNull \<notin> set keys) (rows d (tb_name t))) in Inr ((rs, length rs), d))"
proof -
  have "fits t (SelectS (tb_name t) [] [pk_params t], keys)" using fits_pk(1) [OF keys, of "[]"] by simp
  moreover have "where_holds keys [pk_params t] = (\<lambda>r. pk_of t r = keys \<and> VNull \<notin> set keys)" using where_pk [OF keys] by blast
  ultimately show ?thesis using server_okD(1) [OF server] by (simp add: pg_run_def fits_def Let_def del: upt_Suc)
qed

lemma bind_row_id:
  assumes "row_ok t r"
  shows "bind_row t r = r"
proof (rule obj_eqI)
  show keys: "map fst (bind_row t r) = map fst r" using assms by (simp add: bind_row_def row_ok_def case_prod_unfold comp_def)
  show "distinct (map fst (bind_row t r))" using assms unfolding keys by (simp add: row_ok_def)
  fix c assume "c \<in> set (map fst (bind_row t r))"
  then have c: "c \<in> set (map fst r)" unfolding keys .
  then obtain v where v: "map_of r c = Some v" by (metis domD dom_map_of_conv_image_fst list.set_map)
  have "map_of (bind_row t r) = (\<lambda>c. map_option (\<lambda>k. case map_of r c of None \<Rightarrow> zero_value k | Some v \<Rightarrow> v) (map_of (tb_fields t) c))"
    unfolding bind_row_def by (rule ext) (rule map_of_map_fields)
  moreover obtain k where "map_of (tb_fields t) c = Some k"
    using c assms fields_all by (metis row_ok_def domD dom_map_of_conv_image_fst list.set_map)
  ultimately show "fld (bind_row t r) c = fld r c" using v by (simp add: fld_def)
qed

lemma Find_found:
  assumes server: "server_ok e t" and r: "row_ok t r" "VNull \<notin> set (pk_of t r)"
    and only: "filter (\<lambda>s. pk_of t s = pk_of t r) (rows (bw_store w) (tb_name t)) = [r]"
    and works: "be_fault e (bw_tick w) = None" "be_lost e (Suc (bw_tick w)) = None"
  shows "\<exists>b u. boil_Find e t (pk_of t r) [] w = (Ok b, u) \<and> bo_fields (object u b) = r \<and> bw_store u = bw_store w"
proof -
  have "mset (be_order e n [r]) = {#r#}" for n using server_okD(2) [OF server, of n "[r]"] by simp
  then have "be_order e n [r] = [r]" for n by (metis mset_single_iff)
  then have "pg_run e (bw_tick w) (SelectS (tb_name t) [] [pk_params t]) (pk_of t r) (bw_store w) = Inr (([r], 1), bw_store w)"
    using select_pk [OF server length_pk_of] r(2) only by simp
  then show ?thesis
    using works bind_row_id [OF r(1)]
    by (simp add: boil_Find_def or_no_rows_def bind_one_def query_row_def exec_context_def receive_def alloc_def modify_def
        bindP_def tryP_def okP_def Let_def object_def write_fields_def)
qed

lemma Find_missing:
  assumes server: "server_ok e t" and keys: "length keys = length (tb_pk t)"
    and none: "filter (\<lambda>s. pk_of t s = keys) (rows (bw_store w) (tb_name t)) = []" and works: "be_fault e (bw_tick w) = None"
  shows "fst (boil_Find e t keys [] w) = Err ErrNoRows"
proof -
  have "mset (be_order e n []) = {#}" for n using server_okD(2) [OF server, of n "[]"] by simp
  then have "be_order e n [] = []" for n by simp
  moreover have "filter (\<lambda>s. pk_of t s = keys \<and> VNull \<notin> set keys) (rows (bw_store w) (tb_name t)) = []"
    using none by (auto simp: filter_empty_conv)
  ultimately have "pg_run e (bw_tick w) (SelectS (tb_name t) [] [pk_params t]) keys (bw_store w) = Inr (([], 0), bw_store w)"
    using select_pk [OF server keys] by simp
  then show ?thesis
    using works
    by (simp add: boil_Find_def or_no_rows_def bind_one_def query_row_def exec_context_def alloc_def
        bindP_def tryP_def errP_def Let_def errors_is_def)
qed

text \<open>The timestamps keep the columns of the object, and the tables.\<close>

lemma timestamps_ob:
  assumes a: "a < length (bw_heap w)" "row_ok t (bo_fields (object w a))"
    and run: "insert_timestamps e t (Some a) w = (Ok x, v) \<or> update_timestamps e t (Some a) w = (Ok x, v)"
  shows "bw_store v = bw_store w \<and> length (bw_heap v) = length (bw_heap w) \<and> row_ok t (bo_fields (object v a))"
proof -
  have keys: "has_col t c \<Longrightarrow> map fst ob = tb_all t \<Longrightarrow> map fst (set_fld c y ob) = tb_all t" for c y ob
    using keys_set_fld [of c ob y] by (metis fields_all has_col_def list.set_map)
  show ?thesis
    using run a
    by (auto simp: insert_timestamps_def update_timestamps_def boil_now_def modify_def outcome_simps object_def row_ok_def
        write_fields_def set_if_zero_def set_always_def keys split: if_splits)
qed

lemma plain_Insert_row:
  assumes L: "lib_laws L" and server: "server_ok e t" and kind: "co_kind columns = ColumnsInfer \<or> co_kind columns = ColumnsGreylist"
    and a: "a < length (bw_heap w)" "row_ok t (bo_fields (object w a))"
    and run: "plain_Insert L e t (Some a) columns w = (Ok (), v)"
  shows "bw_store v = set_rows (tb_name t) (rows (bw_store w) (tb_name t) @ [bo_fields (object v a)]) (bw_store w) \<and>
    row_ok t (bo_fields (object v a)) \<and>
    be_check e (bw_store w) (tb_name t) (rows (bw_store w) (tb_name t)) (bo_fields (object v a)) = None"
proof -
  let ?nz = "\<lambda>u. bl_NonZeroDefaultSet L (tb_fields t) (tb_with_default t) (bo_fields (object u a))"
  from run obtain x u c where u: "insert_timestamps e t (Some a) w = (Ok x, u)"
    and c: "insert_plan L t columns (?nz u) = Inr c" and go: "run_insert e (Some a) c u = (Ok (), v)"
    by (auto simp: plain_Insert_def load_def outcome_simps)
  have "distinct (?nz u)" by (simp add: lib_laws_simps(1) [OF L])
  note keep = timestamps_ob [OF a disjI1 [OF u]]
  then have "a < length (bw_heap u)" "row_ok t (bo_fields (object u a))" using a(1) by simp_all
  from run_insert_row [OF L server kind \<open>distinct (?nz u)\<close> c this go] keep show ?thesis by simp
qed

lemma fresh_row:
  assumes server: "server_ok e t" and old: "be_check e d (tb_name t) rs r = None"
  shows "filter (\<lambda>s. pk_of t s = pk_of t r) (rs @ [r]) = [r]" "VNull \<notin> set (pk_of t r)"
  using server_okD(5) [OF server old] server_okD(4) [OF server old]
  by (simp_all add: filter_empty_conv) (auto simp: pk_of_def image_iff eq_commute [of VNull])

end


text \<open>On a calm server with no organizations: the object is found again, with the id the server gave it.\<close>

lemma calm_env_ok: "server_ok (calm_env t) t"
  by (auto simp: server_ok_def calm_env_def list_ex_iff split: if_splits)


section \<open>Update and Delete\<close>

lemma change_rows_Inr:
  "change_rows e d n p f done rs = Inr out \<Longrightarrow> out = done @ map (\<lambda>r. if p r then f r else r) rs"
proof (induction rs arbitrary: "done")
  case (Cons r rs)
  then have "change_rows e d n p f (done @ [if p r then f r else r]) rs = Inr out" by (auto split: if_splits option.splits)
  from Cons.IH [OF this] show ?case by simp
qed simp

lemma fold_arguments:
  "fold (\<lambda>(c, i). set_fld c (arg (xs @ map f wl @ ys) i)) (zip wl [length xs + 1..<length xs + 1 + length wl]) r =
    fold (\<lambda>c. set_fld c (f c)) wl r"
proof (induction wl arbitrary: xs r)
  case (Cons c wl)
  have "[length xs + 1..<length xs + 1 + length (c # wl)] = (length xs + 1) # [length (xs @ [f c]) + 1..<length (xs @ [f c]) + 1 + length wl]"
    by (simp add: upt_conv_Cons del: upt_Suc)
  moreover have "arg (xs @ map f (c # wl) @ ys) (length xs + 1) = f c" by (simp add: arg_def)
  ultimately show ?case using Cons.IH [of "xs @ [f c]" "set_fld c (f c) r"] by (simp del: upt_Suc)
qed simp

text \<open>A row after \<open>Update\<close>: everything but \<open>created_at\<close> is taken from the object.\<close>

definition overwritten :: "obj \<Rightarrow> obj \<Rightarrow> obj" where
  "overwritten ob r = map (\<lambda>(c, x). (c, if c = ''created_at'' then x else fld ob c)) r"

lemma one_of_distinct: "distinct (map f rs) \<Longrightarrow> length (filter (\<lambda>r. f r = x) rs) \<le> 1"
proof (induction rs)
  case (Cons r rs)
  have "filter (\<lambda>s. f s = x) rs = []" if "f r = x"
    using Cons.prems that by (simp add: filter_empty_conv) (metis image_eqI)
  then show ?case using Cons by simp
qed simp

lemma affected_Ok:
  assumes "affected e msg1 msg2 m w = (Ok k, v)"
  obtains res k' u where "m w = (Ok (res, k'), u)" "k = int k'" "bw_store v = bw_store u" "bw_heap v = bw_heap u"
  using assms by (auto simp: affected_def receive_def outcome_simps split: prod.splits option.splits)

context boil_model
begin

lemma update_plan_infer:
  assumes L: "lib_laws L" and plan: "update_plan L t Infer = Inr c"
  obtains wl where "c = \<lparr>uc_query = UpdateS (tb_name t) (zip wl [1..<1 + length wl])
        [zip (tb_pk t) [length wl + 1..<length wl + 1 + length (tb_pk t)]], uc_values = wl @ tb_pk t\<rparr>"
    and "set wl = set (tb_all t) - set (tb_pk t) - {''created_at''}"
proof -
  let ?wl = "bl_UpdateColumnSet L Infer (tb_all t) (tb_pk t)"
  have "set ?wl = set (tb_all t) - set (tb_pk t)"
    using lib_update_set [OF L, of Infer "tb_all t" "tb_pk t"] by (simp add: update_set_law_def Infer_def)
  then have "set (filter (\<lambda>c. c \<noteq> ''created_at'') ?wl) = set (tb_all t) - set (tb_pk t) - {''created_at''}" by auto
  moreover from plan have "c = \<lparr>uc_query = UpdateS (tb_name t) (zip (filter (\<lambda>c. c \<noteq> ''created_at'') ?wl)
        [1..<1 + length (filter (\<lambda>c. c \<noteq> ''created_at'') ?wl)])
        [zip (tb_pk t) [length (filter (\<lambda>c. c \<noteq> ''created_at'') ?wl) + 1..<length (filter (\<lambda>c. c \<noteq> ''created_at'') ?wl) + 1 + length (tb_pk t)]],
        uc_values = filter (\<lambda>c. c \<noteq> ''created_at'') ?wl @ tb_pk t\<rparr>"
    unfolding update_plan_def
    by (auto simp: Let_def Infer_def lib_BindMapping_Inr [OF L] lib_laws_simps(2,5,6) [OF L] simp del: upt_Suc split: sum.splits if_splits)
  ultimately show ?thesis using that by blast
qed

text \<open>What the columns of the statement make of the row with the key of the object.\<close>

lemma updated_row:
  assumes wl: "set wl = set (tb_all t) - set (tb_pk t) - {''created_at''}" and r: "row_ok t r" and same: "pk_of t r = pk_of t ob"
  shows "fold (\<lambda>c. set_fld c (fld ob c)) wl r = overwritten ob r"
proof (rule obj_eqI)
  have cols: "fst ` set r = set (tb_all t)" using r by (metis list.set_map row_ok_def)
  have keys: "map fst (fold (\<lambda>c. set_fld c (fld ob c)) wl r) = tb_all t"
    using fold_set_fld_keys [of wl r] cols wl r by (auto simp: row_ok_def)
  then show "map fst (fold (\<lambda>c. set_fld c (fld ob c)) wl r) = map fst (overwritten ob r)"
    using r by (simp add: overwritten_def row_ok_def case_prod_unfold comp_def)
  show "distinct (map fst (fold (\<lambda>c. set_fld c (fld ob c)) wl r))" unfolding keys by simp
  fix c assume "c \<in> set (map fst (fold (\<lambda>c. set_fld c (fld ob c)) wl r))"
  then have c: "c \<in> set (tb_all t)" unfolding keys .
  then obtain x where x: "map_of r c = Some x" using cols by (metis domD dom_map_of_conv_image_fst)
  have "map_of (overwritten ob r) c = Some (if c = ''created_at'' then x else fld ob c)"
    unfolding overwritten_def map_of_map_fields x by simp
  then have new: "fld (overwritten ob r) c = (if c = ''created_at'' then fld r c else fld ob c)"
    using x by (cases "c = ''created_at''") (simp_all add: fld_def)
  have pk: "fld r c = fld ob c" if "c \<in> set (tb_pk t)" using same that by (simp add: pk_of_def)
  show "fld (fold (\<lambda>c. set_fld c (fld ob c)) wl r) c = fld (overwritten ob r) c"
  proof (cases "c \<in> set wl")
    case True
    then show ?thesis using wl by (simp add: fld_fold_set_fld new)
  next
    case False
    then have "c = ''created_at'' \<or> c \<in> set (tb_pk t)" using c unfolding wl by blast
    then show ?thesis using False pk by (auto simp: fld_fold_set_fld new)
  qed
qed

text \<open>The row with the key of an object, in a table whose keys have no nulls.\<close>

lemma null_key:
  assumes "rows_ok t d" "r \<in> set (rows d (tb_name t))" "pk_of t r = keys"
  shows "VNull \<notin> set keys"
  using assms by (auto simp: rows_ok_def pk_of_def image_iff eq_commute [of VNull])

lemma plain_Update_rows:
  assumes L: "lib_laws L" and server: "server_ok e t" and old: "rows_ok t (bw_store w)"
    and a: "a < length (bw_heap w)" "row_ok t (bo_fields (object w a))"
    and run: "plain_Update L e t (Some a) Infer w = (Ok k, v)"
  shows "let ob = bo_fields (object v a); hit = (\<lambda>r. pk_of t r = pk_of t ob); rs = rows (bw_store w) (tb_name t) in
    bw_store v = set_rows (tb_name t) (map (\<lambda>r. if hit r then overwritten ob r else r) rs) (bw_store w) \<and>
    k = int (length (filter hit rs))"
proof -
  from run obtain x u c where u: "update_timestamps e t (Some a) w = (Ok x, u)"
    and c: "update_plan L t Infer = Inr c" and go: "run_update e t (Some a) c u = (Ok k, v)"
    by (auto simp: plain_Update_def outcome_simps)
  note keep = timestamps_ob [OF a disjI2 [OF u]]
  let ?ob = "bo_fields (object u a)" and ?rs = "rows (bw_store w) (tb_name t)"
  from go have "affected e (''models: unable to update '' @ tb_name t @ '' row'')
       (''models: failed to get rows affected by update for '' @ tb_name t)
       (exec_context e (uc_query c) (map (fld ?ob) (uc_values c))) u = (Ok k, v)"
    by (simp add: run_update_def load_def bindP_def)
  from affected_Ok [OF this] obtain res k' y where
    y: "exec_context e (uc_query c) (map (fld ?ob) (uc_values c)) u = (Ok (res, k'), y)" "k = int k'"
      "bw_store v = bw_store y" "bw_heap v = bw_heap y" .
  obtain wl where c': "c = \<lparr>uc_query = UpdateS (tb_name t) (zip wl [1..<1 + length wl])
        [zip (tb_pk t) [length wl + 1..<length wl + 1 + length (tb_pk t)]], uc_values = wl @ tb_pk t\<rparr>"
    and wl: "set wl = set (tb_all t) - set (tb_pk t) - {''created_at''}" using update_plan_infer [OF L c] .
  define hit where "hit = where_holds (map (fld ?ob) wl @ pk_of t ?ob) [zip (tb_pk t) [length wl + 1..<length wl + 1 + length (tb_pk t)]]"
  have hit: "hit r \<longleftrightarrow> pk_of t r = pk_of t ?ob" if "r \<in> set ?rs" for r
    using where_key [of "pk_of t ?ob" "map (fld ?ob) wl" r] null_key [OF old that, of "pk_of t ?ob"]
    by (auto simp: hit_def simp del: upt_Suc)
  define f where "f = (\<lambda>r. fold (\<lambda>c. set_fld c (fld ?ob c)) wl r)"
  have "(\<lambda>r. fold (\<lambda>(c, i). set_fld c (arg (map (fld ?ob) wl @ pk_of t ?ob) i)) (zip wl [1..<1 + length wl]) r) = f"
    using fold_arguments [of "[]" "fld ?ob" wl "pk_of t ?ob"] unfolding f_def by (simp del: upt_Suc)
  moreover have "map (fld ?ob) (uc_values c) = map (fld ?ob) wl @ pk_of t ?ob" by (simp add: c' pk_of_def)
  ultimately have "pg_update e (tb_name t) hit f (bw_store u) = Inr ((res, k'), bw_store y)"
    using exec_context_Ok(1) [OF y(1)] by (simp add: pg_run_def c' hit_def del: upt_Suc split: if_splits)
  then have k: "k' = length (filter hit ?rs)"
    and store: "bw_store y = set_rows (tb_name t) (map (\<lambda>r. if hit r then f r else r) ?rs) (bw_store w)"
    using keep by (auto simp: pg_update_def dest: change_rows_Inr split: sum.splits)
  have ob: "object v a = object u a" using y(4) exec_context_Ok(2) [OF y(1)] by (simp add: object_def)
  have "f r = overwritten ?ob r" if "r \<in> set ?rs" "pk_of t r = pk_of t ?ob" for r
    unfolding f_def using old that by (intro updated_row [OF wl]) (simp_all add: rows_ok_def)
  then have rs: "map (\<lambda>r. if hit r then f r else r) ?rs = map (\<lambda>r. if pk_of t r = pk_of t ?ob then overwritten ?ob r else r) ?rs"
    using hit by simp
  have "filter hit ?rs = filter (\<lambda>r. pk_of t r = pk_of t ?ob) ?rs" using hit by (simp cong: filter_cong)
  then show ?thesis using k store [unfolded rs] y(2,3) by (simp add: ob Let_def)
qed

end


text \<open>
  C39: a deleted object is gone.  When \<open>Delete\<close> of an object of one of the 21 tables has worked, exactly the
  rows with its primary key have left the table, the number returned is their number (none or one), and
  \<open>Find\<close> by that key says \<open>sql.ErrNoRows\<close> whenever the connection works.
\<close>

theorem delete_then_find:
  assumes "t \<in> set all_tables" and "server_ok e t" and "rows_ok t (bw_store w)"
    and "boil_Delete e t (Some a) w = (Ok k, v)" and "be_fault e (bw_tick v) = None"
    and "keys = pk_of t (bo_fields (object w a))" and "rs = rows (bw_store w) (tb_name t)"
  shows "rows (bw_store v) (tb_name t) = filter (\<lambda>r. pk_of t r \<noteq> keys) rs \<and>
    k = int (length (filter (\<lambda>r. pk_of t r = keys) rs)) \<and> k \<le> 1 \<and>
    fst (boil_Find e t keys [] v) = Err ErrNoRows"
proof -
  note model = schema.model [OF assms(1)]
  have len: "length keys = length (tb_pk t)" by (simp add: assms(6) pk_of_def)
  from assms(4) have "affected e (''models: unable to delete from '' @ tb_name t)
      (''models: failed to get rows affected by delete for '' @ tb_name t)
      (exec_context e (DeleteS (tb_name t) [pk_params t]) keys) w = (Ok k, v)"
    by (simp add: boil_Delete_def load_def bindP_def assms(6))
  from affected_Ok [OF this] obtain res k' y where
    y: "exec_context e (DeleteS (tb_name t) [pk_params t]) keys w = (Ok (res, k'), y)" "k = int k'" "bw_store v = bw_store y" .
  define hit where "hit = where_holds keys [pk_params t]"
  have hit: "hit r \<longleftrightarrow> pk_of t r = keys" if "r \<in> set rs" for r
    using boil_model.where_pk [OF model len] boil_model.null_key [OF model assms(3) that [unfolded assms(7)], of keys]
    by (auto simp: hit_def)
  have "pg_delete e (tb_name t) hit (bw_store w) = Inr ((res, k'), bw_store y)"
    using exec_context_Ok(1) [OF y(1)] by (simp add: pg_run_def hit_def split: if_splits)
  then have "k' = length (filter hit rs)" "rows (bw_store y) (tb_name t) = filter (\<lambda>r. \<not> hit r) rs"
    by (auto simp: pg_delete_def Let_def assms(7) server_okD(3) [OF assms(2)] split: sum.splits)
  moreover have "filter hit rs = filter (\<lambda>r. pk_of t r = keys) rs" "filter (\<lambda>r. \<not> hit r) rs = filter (\<lambda>r. pk_of t r \<noteq> keys) rs"
    using hit by (simp_all cong: filter_cong)
  ultimately have rs: "rows (bw_store v) (tb_name t) = filter (\<lambda>r. pk_of t r \<noteq> keys) rs"
    "k = int (length (filter (\<lambda>r. pk_of t r = keys) rs))" using y(2,3) by simp_all
  have "length (filter (\<lambda>r. pk_of t r = keys) rs) \<le> 1"
    using assms(3,7) one_of_distinct [of "pk_of t" rs] by (simp add: rows_ok_def)
  moreover have "filter (\<lambda>r. pk_of t r = keys) (rows (bw_store v) (tb_name t)) = []" by (auto simp: rs(1) filter_empty_conv)
  ultimately show ?thesis using rs boil_model.Find_missing [OF model assms(2) len _ assms(5)] by simp
qed

section \<open>Examples\<close>

definition acme_row :: obj where
  "acme_row = set_fld ''id'' (VText ''o1'') (bo_fields acme)"

definition acme_world :: boil_world where
  "acme_world = (boil_boot [acme\<lparr>bo_fields := set_fld ''name'' (VText ''acme inc'') acme_row\<rparr>])
     \<lparr>bw_store := [(''organizations'', [acme_row])]\<rparr>"

lemma acme_world_ok:
  "rows_ok organizations_table (bw_store acme_world)" "row_ok organizations_table (bo_fields (object acme_world 0))"
  "0 < length (bw_heap acme_world)" "caches_ok reference_lib all_tables acme_world"
  "organizations_table \<in> set all_tables"
proof -
  show "rows_ok organizations_table (bw_store acme_world)" by code_simp
  show "row_ok organizations_table (bo_fields (object acme_world 0))" by code_simp
  show "0 < length (bw_heap acme_world)" by code_simp
  have "forget acme_world = acme_world" by (simp add: forget_def acme_world_def boil_boot_def)
  then show "caches_ok reference_lib all_tables acme_world" using caches_ok_forget [of _ _ acme_world] by simp
  show "organizations_table \<in> set all_tables" by (simp add: all_tables_def)
qed


theorem delete_then_find_witness:
  "\<exists>v. boil_Delete (calm_env organizations_table) organizations_table (Some 0) acme_world = (Ok 1, v) \<and>
     rows (bw_store v) ''organizations'' = [] \<and>
     fst (boil_Find (calm_env organizations_table) organizations_table [VText ''o1''] [] v) = Err ErrNoRows"
proof -
  let ?run = "boil_Delete (calm_env organizations_table) organizations_table (Some 0) acme_world"
  have "fst ?run = Ok 1" by code_simp
  then obtain v where run: "?run = (Ok 1, v)" by (cases ?run) auto
  have "pk_of organizations_table (bo_fields (object acme_world 0)) = [VText ''o1'']"
    "rows (bw_store acme_world) (tb_name organizations_table) = [acme_row]"
    "pk_of organizations_table acme_row = [VText ''o1'']" by code_simp+
  moreover have "tb_name organizations_table = ''organizations''" by (simp add: organizations_table_def)
  moreover have "be_fault (calm_env organizations_table) n = None" for n by (simp add: calm_env_def)
  ultimately show ?thesis
    using delete_then_find [OF acme_world_ok(5) calm_env_ok acme_world_ok(1) run _ refl refl] run by simp
qed

end
