(* ===== verification/Boil_Loading.thy ===== *)
theory Boil_Loading
  imports Boil_Keys Boil_Roundtrip
begin

text \<open>
  What eager loading leaves on the heap: every object gets the rows that refer to it, and they point back;
  and what the removal of a single relationship does instead.
\<close>

section \<open>Relationships of an object\<close>

definition related_to :: "boil_world \<Rightarrow> string \<Rightarrow> addr \<Rightarrow> ptr list" where
  "related_to w name a = (case bo_R (object w a) of None \<Rightarrow> [] | Some R \<Rightarrow> R name)"

text \<open>Only relationship structs differ.\<close>

definition same_fields :: "boil_world \<Rightarrow> boil_world \<Rightarrow> bool" where
  "same_fields v w \<longleftrightarrow> length (bw_heap v) = length (bw_heap w) \<and> bw_store v = bw_store w \<and>
     (\<forall>a. bo_fields (object v a) = bo_fields (object w a))"

lemma same_fields_refl: "same_fields w w"
  by (simp add: same_fields_def)

lemma same_fields_trans: "same_fields u v \<Longrightarrow> same_fields v w \<Longrightarrow> same_fields u w"
  by (simp add: same_fields_def)

lemma ensure_R_run:
  assumes "a < length (bw_heap w)"
  obtains v where "ensure_R (Some a) w = (Ok (), v)" "same_fields v w" "related_to v = related_to w"
proof (cases "bo_R (object w a)")
  case None
  let ?v = "w\<lparr>bw_heap := (bw_heap w)[a := (object w a)\<lparr>bo_R := Some (\<lambda>_. [])\<rparr>]\<rparr>"
  have "ensure_R (Some a) w = (Ok (), ?v)" using None by (simp add: ensure_R_def get_R_def put_R_def bindP_def)
  moreover have "same_fields ?v w" using assms by (auto simp: same_fields_def object_def nth_list_update)
  moreover have "related_to ?v = related_to w"
    using None assms by (auto simp: related_to_def object_def nth_list_update fun_eq_iff split: option.split)
  ultimately show ?thesis by (rule that)
next
  case (Some R)
  then have "ensure_R (Some a) w = (Ok (), w)" by (simp add: ensure_R_def get_R_def bindP_def okP_def)
  then show ?thesis using same_fields_refl by (rule that) simp
qed

lemma change_rel_run:
  assumes "a < length (bw_heap w)"
  obtains v where "change_rel name f (Some a) w = (Ok (), v)" "same_fields v w"
    "\<And>n c. related_to v n c = (if c = a \<and> n = name then f (related_to w name a) else related_to w n c)"
proof -
  let ?R = "case bo_R (object w a) of None \<Rightarrow> (\<lambda>_. []) | Some R \<Rightarrow> R"
  let ?v = "w\<lparr>bw_heap := (bw_heap w)[a := (object w a)\<lparr>bo_R := Some (?R(name := f (?R name)))\<rparr>]\<rparr>"
  have "change_rel name f (Some a) w = (Ok (), ?v)"
    by (simp add: change_rel_def get_R_def put_R_def bindP_def split: option.split)
  moreover have "same_fields ?v w" using assms by (auto simp: same_fields_def object_def nth_list_update)
  moreover have "related_to ?v n c = (if c = a \<and> n = name then f (related_to w name a) else related_to w n c)" for n c
    using assms by (auto simp: related_to_def object_def nth_list_update split: option.split)
  ultimately show ?thesis by (rule that)
qed

lemma link_local_run:
  assumes "a < length (bw_heap w)" "b < length (bw_heap w)" "a \<noteq> b" "\<not> fk_unique fk"
  obtains v where "link_local fk (Some a) (Some b) w = (Ok (), v)" "same_fields v w"
    "\<And>n c. related_to v n c = (if c = a \<and> n = fk_many fk then related_to w n a @ [Some b]
       else if c = b \<and> n = fk_one fk then [Some a] else related_to w n c)"
proof -
  obtain u1 where u1: "change_rel (fk_many fk) (\<lambda>xs. xs @ [Some b]) (Some a) w = (Ok (), u1)" "same_fields u1 w"
    "\<And>n c. related_to u1 n c = (if c = a \<and> n = fk_many fk then related_to w (fk_many fk) a @ [Some b] else related_to w n c)"
    using change_rel_run [OF assms(1), of "fk_many fk" "\<lambda>xs. xs @ [Some b]"] by blast
  have "b < length (bw_heap u1)" using u1(2) assms(2) by (simp add: same_fields_def)
  then obtain u2 where u2: "ensure_R (Some b) u1 = (Ok (), u2)" "same_fields u2 u1" "related_to u2 = related_to u1"
    by (rule ensure_R_run)
  have "b < length (bw_heap u2)" using u2(2) \<open>b < length (bw_heap u1)\<close> by (simp add: same_fields_def)
  then obtain v where v: "change_rel (fk_one fk) (\<lambda>_. [Some a]) (Some b) u2 = (Ok (), v)" "same_fields v u2"
    "\<And>n c. related_to v n c = (if c = b \<and> n = fk_one fk then [Some a] else related_to u2 n c)"
    using change_rel_run [of b u2 "fk_one fk" "\<lambda>_. [Some a]"] by blast
  have "link_local fk (Some a) (Some b) w = (Ok (), v)"
    using u1(1) u2(1) v(1) assms(4) by (simp add: link_local_def thenP_def bindP_def)
  moreover have "same_fields v w" using v(2) u2(2) u1(2) by (blast intro: same_fields_trans)
  moreover have "related_to v n c = (if c = a \<and> n = fk_many fk then related_to w n a @ [Some b]
       else if c = b \<and> n = fk_one fk then [Some a] else related_to w n c)" for n c
    using v(3) u2(3) u1(3) assms(3) by auto
  ultimately show ?thesis by (rule that)
qed

section \<open>The loops\<close>

definition key_at :: "boil_world \<Rightarrow> string \<Rightarrow> addr \<Rightarrow> sql_value" where
  "key_at w c a = fld (bo_fields (object w a)) c"

lemma same_fields_key: "same_fields v w \<Longrightarrow> key_at v = key_at w"
  by (simp add: same_fields_def key_at_def fun_eq_iff)

lemma fk_equal_eq: "lib_laws L \<Longrightarrow> fk_equal L fk a b \<longleftrightarrow> a = b"
  by (simp add: fk_equal_def lib_laws_simps)

text \<open>One row that came back: the first object with its key gets it.\<close>

lemma find_local_run:
  assumes L: "lib_laws L" and "\<not> fk_unique fk" "b < length (bw_heap w)" "b \<notin> set as" "\<forall>a \<in> set as. a < length (bw_heap w)"
  obtains v where "find_local L fk (map Some as) (Some b) w = (Ok (), v)" "same_fields v w"
    "\<And>n c. related_to v n c = (case find (\<lambda>a. key_at w (fk_key fk) a = key_at w (fk_column fk) b) as of
         None \<Rightarrow> related_to w n c
       | Some a \<Rightarrow> if c = a \<and> n = fk_many fk then related_to w n a @ [Some b]
           else if c = b \<and> n = fk_one fk then [Some a] else related_to w n c)"
  using assms(4,5)
proof (induction as arbitrary: thesis)
  case Nil
  show ?case by (rule Nil.prems(1) [of w]) (simp_all add: okP_def same_fields_refl)
next
  case (Cons a as)
  have step: "find_local L fk (map Some (a # as)) (Some b) w =
      (if key_at w (fk_key fk) a = key_at w (fk_column fk) b then link_local fk (Some a) (Some b) w
       else find_local L fk (map Some as) (Some b) w)"
    by (simp add: load_def bindP_def fk_equal_eq [OF L] key_at_def)
  show ?case
  proof (cases "key_at w (fk_key fk) a = key_at w (fk_column fk) b")
    case True
    have "a < length (bw_heap w)" "a \<noteq> b" using Cons.prems(2,3) by auto
    then obtain v where "link_local fk (Some a) (Some b) w = (Ok (), v)" "same_fields v w"
      "\<And>n c. related_to v n c = (if c = a \<and> n = fk_many fk then related_to w n a @ [Some b]
         else if c = b \<and> n = fk_one fk then [Some a] else related_to w n c)"
      using link_local_run [OF _ assms(3) _ assms(2)] by blast
    then show ?thesis using True step by (intro Cons.prems(1) [of v]) simp_all
  next
    case False
    obtain v where "find_local L fk (map Some as) (Some b) w = (Ok (), v)" "same_fields v w"
      "\<And>n c. related_to v n c = (case find (\<lambda>a. key_at w (fk_key fk) a = key_at w (fk_column fk) b) as of
           None \<Rightarrow> related_to w n c
         | Some a \<Rightarrow> if c = a \<and> n = fk_many fk then related_to w n a @ [Some b]
             else if c = b \<and> n = fk_one fk then [Some a] else related_to w n c)"
      using Cons.IH Cons.prems(2,3) by auto
    then show ?thesis using False step by (intro Cons.prems(1) [of v]) simp_all
  qed
qed

lemma find_unique_key:
  assumes "inj_on f (set as)" "a \<in> set as"
  shows "find (\<lambda>x. f x = f a) as = Some a"
  using assms by (induction as) (auto simp: inj_on_def)

text \<open>All rows: with different keys, every object has got exactly its rows, in their order.\<close>

lemma find_locals_run:
  assumes L: "lib_laws L" and "\<not> fk_unique fk" and "inj_on (key_at w (fk_key fk)) (set as)"
    and "\<forall>b \<in> set bs. b < length (bw_heap w) \<and> b \<notin> set as" "\<forall>a \<in> set as. a < length (bw_heap w)" "distinct bs"
  shows "\<exists>v. for_each (find_local L fk (map Some as)) (map Some bs) w = (Ok (), v) \<and> same_fields v w \<and>
    (\<forall>a \<in> set as. related_to v (fk_many fk) a = related_to w (fk_many fk) a @
       map Some (filter (\<lambda>b. key_at w (fk_column fk) b = key_at w (fk_key fk) a) bs)) \<and>
    (\<forall>a \<in> set as. \<forall>b \<in> set bs. key_at w (fk_column fk) b = key_at w (fk_key fk) a \<longrightarrow> related_to v (fk_one fk) b = [Some a]) \<and>
    (\<forall>n c. c \<notin> set as \<union> set bs \<longrightarrow> related_to v n c = related_to w n c)"
  using assms(3-6)
proof (induction bs arbitrary: w)
  case Nil
  then show ?case by (auto simp: okP_def same_fields_refl)
next
  case (Cons b bs)
  let ?k = "key_at w (fk_key fk)" and ?c = "key_at w (fk_column fk)"
  obtain u where u: "find_local L fk (map Some as) (Some b) w = (Ok (), u)" "same_fields u w"
    and rel: "\<And>n c. related_to u n c = (case find (\<lambda>a. ?k a = ?c b) as of
         None \<Rightarrow> related_to w n c
       | Some a \<Rightarrow> if c = a \<and> n = fk_many fk then related_to w n a @ [Some b]
           else if c = b \<and> n = fk_one fk then [Some a] else related_to w n c)"
    using find_local_run [OF L assms(2), of b w as] Cons.prems(2,3) by auto
  note keys = same_fields_key [OF u(2)]
  have "length (bw_heap u) = length (bw_heap w)" using u(2) by (simp add: same_fields_def)
  then have "\<exists>v. for_each (find_local L fk (map Some as)) (map Some bs) u = (Ok (), v) \<and> same_fields v u \<and>
    (\<forall>a \<in> set as. related_to v (fk_many fk) a = related_to u (fk_many fk) a @ map Some (filter (\<lambda>b. ?c b = ?k a) bs)) \<and>
    (\<forall>a \<in> set as. \<forall>b \<in> set bs. ?c b = ?k a \<longrightarrow> related_to v (fk_one fk) b = [Some a]) \<and>
    (\<forall>n c. c \<notin> set as \<union> set bs \<longrightarrow> related_to v n c = related_to u n c)"
    using Cons.IH [of u] Cons.prems unfolding keys by simp
  then obtain v where v: "for_each (find_local L fk (map Some as)) (map Some bs) u = (Ok (), v)" "same_fields v u"
    and many: "\<forall>a \<in> set as. related_to v (fk_many fk) a = related_to u (fk_many fk) a @ map Some (filter (\<lambda>b. ?c b = ?k a) bs)"
    and one: "\<forall>a \<in> set as. \<forall>b \<in> set bs. ?c b = ?k a \<longrightarrow> related_to v (fk_one fk) b = [Some a]"
    and rest: "\<forall>n c. c \<notin> set as \<union> set bs \<longrightarrow> related_to v n c = related_to u n c" by blast
  have hit: "find (\<lambda>x. ?k x = ?c b) as = Some a" if "a \<in> set as" "?c b = ?k a" for a
    using find_unique_key [OF Cons.prems(1) that(1)] that(2) by simp
  have b: "b \<notin> set as" "b \<notin> set bs" using Cons.prems by auto
  have mine: "related_to u (fk_many fk) a = related_to w (fk_many fk) a @ (if ?c b = ?k a then [Some b] else [])" if a: "a \<in> set as" for a
  proof (cases "?c b = ?k a")
    case True
    then show ?thesis using rel [of "fk_many fk" a] hit [OF a] by simp
  next
    case False
    have "find (\<lambda>x. ?k x = ?c b) as \<noteq> Some a" using False by (auto simp: find_Some_iff)
    then show ?thesis using rel [of "fk_many fk" a] False a b(1) by (auto split: option.split)
  qed
  have "for_each (find_local L fk (map Some as)) (map Some (b # bs)) w = (Ok (), v)"
    using u(1) v(1) by (simp add: thenP_def bindP_def)
  moreover have "same_fields v w" using v(2) u(2) by (rule same_fields_trans)
  moreover have "related_to v (fk_many fk) a = related_to w (fk_many fk) a @ map Some (filter (\<lambda>b. ?c b = ?k a) (b # bs))"
    if "a \<in> set as" for a using many mine that by auto
  moreover have "related_to v (fk_one fk) b' = [Some a]" if "a \<in> set as" "b' \<in> set (b # bs)" "?c b' = ?k a" for a b'
  proof (cases "b' = b")
    case True
    have "related_to v (fk_one fk) b = related_to u (fk_one fk) b" using rest b by simp
    moreover have "b \<noteq> a" using b(1) that(1) by blast
    ultimately show ?thesis using True rel [of "fk_one fk" b] hit [OF that(1)] that(3) by simp
  qed (use one that in auto)
  moreover have "related_to v n c = related_to w n c" if "c \<notin> set as \<union> set (b # bs)" for n c
  proof -
    have "c \<noteq> a" if "find (\<lambda>x. ?k x = ?c b) as = Some a" for a
      using that \<open>c \<notin> set as \<union> set (b # bs)\<close> by (auto simp: find_Some_iff)
    then show ?thesis using rest rel [of n c] that by (auto split: option.split)
  qed
  ultimately show ?case by blast
qed

section \<open>The query\<close>

lemma eager_args_run:
  assumes "\<forall>a \<in> set as. a < length (bw_heap w)"
  shows "\<exists>args v. eager_args L False c (map Some as) w = (Ok args, v) \<and> same_fields v w \<and> related_to v = related_to w \<and>
    set args = key_at w c ` set as"
  using assms
proof (induction as arbitrary: w)
  case Nil
  then show ?case by (simp add: okP_def same_fields_refl)
next
  case (Cons a as)
  then have "a < length (bw_heap w)" by simp
  then obtain u where u: "ensure_R (Some a) w = (Ok (), u)" "same_fields u w" "related_to u = related_to w"
    by (rule ensure_R_run)
  have "\<forall>a \<in> set as. a < length (bw_heap u)" using Cons.prems u(2) by (simp add: same_fields_def)
  from Cons.IH [OF this] obtain args v where v: "eager_args L False c (map Some as) u = (Ok args, v)" "same_fields v u"
    "related_to v = related_to u" "set args = key_at u c ` set as" by blast
  have "eager_args L False c (map Some (a # as)) w = (Ok (List.insert (key_at u c a) args), v)"
    using u(1) v(1) by (simp add: thenP_def bindP_def load_def key_at_def okP_def)
  then show ?case using u v same_fields_trans [OF v(2) u(2)] same_fields_key [OF u(2)] by simp
qed

lemma alloc_all_run:
  "alloc_all obs w = (Ok [length (bw_heap w)..<length (bw_heap w) + length obs],
     w\<lparr>bw_heap := bw_heap w @ map (\<lambda>ob. \<lparr>bo_fields = ob, bo_R = None\<rparr>) obs\<rparr>)"
proof (induction obs arbitrary: w)
  case (Cons ob obs)
  then show ?case by (simp add: bindP_def alloc_def okP_def upt_conv_Cons del: upt_Suc)
qed (simp add: okP_def)

lemma receive_Ok: "receive e x w = (Ok y, v) \<longleftrightarrow> be_lost e (bw_tick w) = None \<and> y = x \<and> v = w\<lparr>bw_tick := Suc (bw_tick w)\<rparr>"
  by (auto simp: receive_def split: option.split)

lemma eager_query_run:
  assumes "eager_query e t what close q w = (Ok res, v)"
  obtains rs k where "pg_run e (bw_tick w) (QueryS q) [] (bw_store w) = Inr ((rs, k), bw_store v)"
    "res = map Some [length (bw_heap w)..<length (bw_heap w) + length rs]"
    "bw_heap v = bw_heap w @ map (\<lambda>r. \<lparr>bo_fields = bind_row t r, bo_R = None\<rparr>) rs"
proof -
  from assms obtain rs k u where u: "exec_context e (QueryS q) [] w = (Ok (rs, k), u)"
    and res: "res = map Some [length (bw_heap u)..<length (bw_heap u) + length rs]"
    and v: "bw_heap v = bw_heap u @ map (\<lambda>r. \<lparr>bo_fields = bind_row t r, bo_R = None\<rparr>) rs" "bw_store v = bw_store u"
    by (auto simp: eager_query_def outcome_simps receive_Ok alloc_all_run comp_def split: prod.splits)
  show ?thesis using exec_context_Ok [OF u] res v by (intro that [of rs k]) simp_all
qed

lemma eager_select_rows:
  assumes "server_ok e t" "c \<in> set (tb_all t)"
    and "pg_run e n (QueryS (eager_select t c args None)) [] d = Inr ((rs, k), d')"
  shows "d' = d \<and> mset rs = mset (filter (\<lambda>r. fld r c \<noteq> VNull \<and> fld r c \<in> set args) (rows d (tb_name t)))"
  using assms server_okD(2) [OF assms(1)]
  by (auto simp: pg_run_def pg_query_def eager_select_def NewQuery_def qm_From_def qm_Where_def empty_query_def Let_def
      split: if_splits)

section \<open>Eager loading\<close>

text \<open>
  C40: eager loading finds what belongs together.  When the load of a to-many relationship for a slice of
  different objects with different keys has worked, the list of each object has grown by one object for
  every row of the other table that refers to it and by nothing else, with the fields of these rows, and
  each of these objects points back to it; the fields of the objects are as before.
\<close>

theorem eager_load_is_lookup:
  assumes "lib_laws L" and "fk \<in> set all_fks" and "\<not> fk_unique fk" and "server_ok e (fk_local fk)"
    and "\<forall>r \<in> set (rows (bw_store w) (tb_name (fk_local fk))). row_ok (fk_local fk) r"
    and "\<forall>a \<in> set as. a < length (bw_heap w)" and "inj_on (\<lambda>a. fld (bo_fields (object w a)) (fk_key fk)) (set as)"
    and "boil_LoadMany L e fk (Slice (map Some as)) None w = (Ok (), v)"
    and "a \<in> set as" and "key = fld (bo_fields (object w a)) (fk_key fk)" and "key \<noteq> VNull"
  shows "\<exists>new. related_to v (fk_many fk) a = related_to w (fk_many fk) a @ map Some new \<and>
    mset (map (\<lambda>b. bo_fields (object v b)) new) =
      mset (filter (\<lambda>r. fld r (fk_column fk) = key) (rows (bw_store w) (tb_name (fk_local fk)))) \<and>
    (\<forall>b \<in> set new. related_to v (fk_one fk) b = [Some a]) \<and> bo_fields (object v a) = bo_fields (object w a)"
proof -
  let ?t = "fk_local fk" and ?c = "fk_column fk"
  have fk: "fk_ok all_tables fk" by (rule all_fks_ok [OF assms(2)])
  note model = schema.fk_models(1) [OF fk]
  have column: "?c \<in> set (tb_all ?t)" using fk by (simp add: fk_ok_def)
  obtain args u1 where u1: "eager_args L False (fk_key fk) (map Some as) w = (Ok args, u1)" "same_fields u1 w"
    "related_to u1 = related_to w" "set args = key_at w (fk_key fk) ` set as" using eager_args_run [OF assms(6)] by blast
  have key: "key_at w (fk_key fk) a = key" by (simp add: key_at_def assms(10))
  have "args \<noteq> []" using u1(4) assms(9) by auto
  with assms(3,8) u1(1) obtain res u2 close where u2: "eager_query e ?t (tb_name ?t) close (eager_select ?t ?c args None) u1 = (Ok res, u2)"
    and go: "for_each (find_local L fk (map Some as)) res u2 = (Ok (), v)"
    by (auto simp: boil_LoadMany_def targets_def outcome_simps)
  obtain rs k where rs: "pg_run e (bw_tick u1) (QueryS (eager_select ?t ?c args None)) [] (bw_store u1) = Inr ((rs, k), bw_store u2)"
    "res = map Some [length (bw_heap u1)..<length (bw_heap u1) + length rs]"
    "bw_heap u2 = bw_heap u1 @ map (\<lambda>r. \<lparr>bo_fields = bind_row ?t r, bo_R = None\<rparr>) rs"
    using eager_query_run [OF u2] .
  have found: "mset rs = mset (filter (\<lambda>r. fld r ?c \<noteq> VNull \<and> fld r ?c \<in> set args) (rows (bw_store w) (tb_name ?t)))"
    using eager_select_rows [OF assms(4) column rs(1)] u1(2) by (simp add: same_fields_def)
  define n where "n = length (bw_heap w)"
  have n: "length (bw_heap u1) = n" using u1(2) by (simp add: same_fields_def n_def)
  define bs where "bs = [n..<n + length rs]"
  have old: "object u2 b = object u1 b" if "b < n" for b using that n by (simp add: object_def rs(3) nth_append)
  have new: "object u2 (n + i) = \<lparr>bo_fields = bind_row ?t (rs ! i), bo_R = None\<rparr>" if "i < length rs" for i
    using that n by (simp add: object_def rs(3) nth_append)
  have as: "a \<in> set as \<Longrightarrow> a < n" for a using assms(6) by (simp add: n_def)
  have keys: "key_at u2 (fk_key fk) a = key_at w (fk_key fk) a" if "a \<in> set as" for a
    using old [OF as [OF that]] u1(2) by (simp add: key_at_def same_fields_def)
  have "inj_on (key_at u2 (fk_key fk)) (set as)" using assms(7) keys by (simp add: inj_on_def key_at_def)
  moreover have "\<forall>b \<in> set bs. b < length (bw_heap u2) \<and> b \<notin> set as" using as by (fastforce simp: bs_def rs(3) n)
  moreover have "\<forall>a \<in> set as. a < length (bw_heap u2)" using as by (fastforce simp: rs(3) n)
  moreover have "distinct bs" by (simp add: bs_def)
  ultimately have "\<exists>v. for_each (find_local L fk (map Some as)) (map Some bs) u2 = (Ok (), v) \<and> same_fields v u2 \<and>
    (\<forall>a \<in> set as. related_to v (fk_many fk) a = related_to u2 (fk_many fk) a @
       map Some (filter (\<lambda>b. key_at u2 ?c b = key_at u2 (fk_key fk) a) bs)) \<and>
    (\<forall>a \<in> set as. \<forall>b \<in> set bs. key_at u2 ?c b = key_at u2 (fk_key fk) a \<longrightarrow> related_to v (fk_one fk) b = [Some a]) \<and>
    (\<forall>n c. c \<notin> set as \<union> set bs \<longrightarrow> related_to v n c = related_to u2 n c)"
    by (rule find_locals_run [OF assms(1,3)])
  moreover have "res = map Some bs" by (simp add: rs(2) n bs_def)
  ultimately have v: "same_fields v u2"
    and many: "related_to v (fk_many fk) a = related_to u2 (fk_many fk) a @ map Some (filter (\<lambda>b. key_at u2 ?c b = key) bs)"
    and one: "\<And>b. b \<in> set bs \<Longrightarrow> key_at u2 ?c b = key \<Longrightarrow> related_to v (fk_one fk) b = [Some a]"
    using go assms(9) keys [OF assms(9)] key by auto
  have rows: "map (\<lambda>b. bo_fields (object v b)) bs = rs"
  proof (rule nth_equalityI)
    fix i assume "i < length (map (\<lambda>b. bo_fields (object v b)) bs)"
    then have i: "i < length rs" by (simp add: bs_def)
    have "rs ! i \<in># mset rs" using i by simp
    then have "rs ! i \<in> set (rows (bw_store w) (tb_name ?t))" unfolding found by simp
    then have "bind_row ?t (rs ! i) = rs ! i" using boil_model.bind_row_id [OF model] assms(5) by blast
    then show "map (\<lambda>b. bo_fields (object v b)) bs ! i = rs ! i" using i v new [OF i] by (simp add: bs_def same_fields_def)
  qed (simp add: bs_def)
  have columns: "key_at u2 ?c b = fld (bo_fields (object v b)) ?c" for b using v by (simp add: key_at_def same_fields_def)
  have "map (\<lambda>b. bo_fields (object v b)) (filter (\<lambda>b. key_at u2 ?c b = key) bs) = filter (\<lambda>r. fld r ?c = key) rs"
    unfolding columns rows [symmetric] filter_map comp_def ..
  then have "mset (map (\<lambda>b. bo_fields (object v b)) (filter (\<lambda>b. key_at u2 ?c b = key) bs)) =
      filter_mset (\<lambda>r. fld r ?c = key) (mset rs)" by simp
  also have "\<dots> = mset (filter (\<lambda>r. fld r ?c = key) (rows (bw_store w) (tb_name ?t)))"
  proof -
    have "key \<in> set args" using u1(4) assms(9) key by blast
    then show ?thesis unfolding found mset_filter filter_filter_mset using assms(11) by (intro filter_mset_cong) auto
  qed
  finally have fields: "mset (map (\<lambda>b. bo_fields (object v b)) (filter (\<lambda>b. key_at u2 ?c b = key) bs)) =
      mset (filter (\<lambda>r. fld r ?c = key) (rows (bw_store w) (tb_name ?t)))" .
  have "related_to u2 (fk_many fk) a = related_to w (fk_many fk) a"
    using old [OF as [OF assms(9)]] fun_cong [OF fun_cong [OF u1(3)]] by (simp add: related_to_def)
  moreover have "bo_fields (object v a) = bo_fields (object w a)"
    using old [OF as [OF assms(9)]] v u1(2) by (simp add: same_fields_def)
  ultimately show ?thesis using many one fields by (intro exI [of _ "filter (\<lambda>b. key_at u2 ?c b = key) bs"]) auto
qed

text \<open>An organization with one of the two vaults.\<close>

definition vault_row :: "string \<Rightarrow> string \<Rightarrow> obj" where
  "vault_row i org = set_fld ''id'' (VText i) (set_fld ''organization_id'' (VText org) (zero_obj vaults_table))"

definition two_vaults :: boil_world where
  "two_vaults = (boil_boot [\<lparr>bo_fields = acme_row, bo_R = None\<rparr>])
     \<lparr>bw_store := [(''vaults'', [vault_row ''v1'' ''o1'', vault_row ''v2'' ''o2''])]\<rparr>"

theorem eager_load_is_lookup_witness:
  "\<exists>v new. boil_LoadMany reference_lib (calm_env vaults_table) vaults_organization_id_fk (Slice [Some 0]) None two_vaults = (Ok (), v) \<and>
     related_to v ''Vaults'' 0 = map Some new \<and> map (\<lambda>b. bo_fields (object v b)) new = [vault_row ''v1'' ''o1'']"
proof -
  let ?run = "boil_LoadMany reference_lib (calm_env vaults_table) vaults_organization_id_fk (Slice (map Some [0])) None two_vaults"
  let ?fk = "vaults_organization_id_fk"
  have "fst ?run = Ok ()" by code_simp
  then obtain v where run: "?run = (Ok (), v)" by (cases ?run) auto
  have fk: "?fk \<in> set all_fks" "\<not> fk_unique ?fk" "fk_local ?fk = vaults_table" "fk_many ?fk = ''Vaults''"
    "fk_column ?fk = ''organization_id''" by (simp_all add: all_fks_def vaults_organization_id_fk_def)
  have name: "tb_name vaults_table = ''vaults''" by (simp add: vaults_table_def)
  have key: "fld (bo_fields (object two_vaults 0)) (fk_key ?fk) = VText ''o1''" by code_simp
  have store: "rows (bw_store two_vaults) ''vaults'' = [vault_row ''v1'' ''o1'', vault_row ''v2'' ''o2'']" by code_simp
  have ok: "\<forall>r \<in> set (rows (bw_store two_vaults) (tb_name (fk_local ?fk))). row_ok (fk_local ?fk) r" by code_simp
  have none: "related_to two_vaults ''Vaults'' 0 = []" by code_simp
  have mine: "filter (\<lambda>r. fld r ''organization_id'' = VText ''o1'') [vault_row ''v1'' ''o1'', vault_row ''v2'' ''o2''] = [vault_row ''v1'' ''o1'']"
    by code_simp
  have server: "server_ok (calm_env vaults_table) (fk_local ?fk)" using calm_env_ok [of vaults_table] fk(3) by simp
  have heap: "\<forall>a \<in> set [0]. a < length (bw_heap two_vaults)" by code_simp
  have inj: "inj_on (\<lambda>a. fld (bo_fields (object two_vaults a)) (fk_key ?fk)) (set [0])" by simp
  have a: "0 \<in> set [0 :: nat]" by simp
  obtain new where new: "related_to v (fk_many ?fk) 0 = related_to two_vaults (fk_many ?fk) 0 @ map Some new"
    "mset (map (\<lambda>b. bo_fields (object v b)) new) =
      mset (filter (\<lambda>r. fld r (fk_column ?fk) = VText ''o1'') (rows (bw_store two_vaults) (tb_name (fk_local ?fk))))"
    using eager_load_is_lookup [OF reference_lib_laws fk(1,2) server ok heap inj run a key [symmetric] sql_value.distinct(2)]
    by (elim exE conjE) (rule that)
  have "related_to v ''Vaults'' 0 = map Some new" using new(1) unfolding fk none by simp
  moreover have "mset (map (\<lambda>b. bo_fields (object v b)) new) = {#vault_row ''v1'' ''o1''#}"
    using new(2) unfolding fk name store mine by simp
  then have "map (\<lambda>b. bo_fields (object v b)) new = [vault_row ''v1'' ''o1'']" by (metis mset_single_iff)
  moreover have "?run = boil_LoadMany reference_lib (calm_env vaults_table) ?fk (Slice [Some 0]) None two_vaults" by simp
  ultimately show ?thesis using run by metis
qed

section \<open>Removing a single relationship\<close>

lemma frame_heap_parts [frame_intros]: "frame bw_heap (exec_context e s args)" "frame bw_heap (receive e x)" "frame bw_heap (liftS r)"
  by (auto simp: frame_def exec_context_def receive_def liftS_def okP_def errP_def Let_def split: option.split sum.split)

lemma frame_heap_update: "frame bw_heap (with_cache lookup plan (store_update t key) (run_update e t p))"
proof -
  have "frame bw_heap (run_update e t p c)" for c
    unfolding run_update_def affected_def by (cases p) (intro frame_intros | simp add: load_def frame_def panicP_def)+
  moreover have "frame bw_heap (\<lambda>w. (Ok (), store_update t key c w))" for c by (simp add: frame_def store_update_def)
  moreover have "frame bw_heap (\<lambda>w. (Ok (lookup w), w))" by (simp add: frame_def)
  ultimately show ?thesis unfolding with_cache_def by (intro frame_intros)
qed

text \<open>\<open>Update\<close> changes no object but its own, and of that only the time of the update.\<close>

lemma Update_objects:
  assumes "boil_Update L e t (Some a) columns w = (Ok k, v)" "a < length (bw_heap w)"
  shows "length (bw_heap v) = length (bw_heap w)" "related_to v = related_to w"
    and "c \<noteq> ''updated_at'' \<Longrightarrow> key_at v c = key_at w c"
proof -
  from assms(1) obtain x u where u: "update_timestamps e t (Some a) w = (Ok x, u)"
    and go: "with_cache (\<lambda>w. map_of (bw_update_cache w) (tb_name t, makeCacheKey L columns [])) (update_plan L t columns)
      (store_update t (makeCacheKey L columns [])) (run_update e t (Some a)) u = (Ok k, v)"
    by (auto simp: boil_Update_def outcome_simps Let_def)
  have "bw_heap v = bw_heap u" by (rule frameD [OF frame_heap_update go])
  moreover have "bw_heap u = bw_heap w \<or> (\<exists>f. bw_heap u = (bw_heap w)[a := write_fields (set_always t ''updated_at'' f) (object w a)])"
    using u by (auto simp: update_timestamps_def boil_now_def modify_def outcome_simps object_def split: if_splits)
  ultimately consider "bw_heap v = bw_heap w"
    | y where "bw_heap v = (bw_heap w)[a := write_fields (set_always t ''updated_at'' y) (object w a)]" by auto
  then show "length (bw_heap v) = length (bw_heap w)" "related_to v = related_to w"
    "c \<noteq> ''updated_at'' \<Longrightarrow> key_at v c = key_at w c"
    using assms(2)
    by (cases; simp add: object_def related_to_def key_at_def fun_eq_iff nth_list_update write_fields_def set_always_def)+
qed

lemma change_rel_if_run:
  assumes "a < length (bw_heap w)" "f [] = []"
  obtains v where "change_rel_if name f (Some a) w = (Ok (), v)" "same_fields v w"
    "\<And>n c. related_to v n c = (if c = a \<and> n = name then f (related_to w name a) else related_to w n c)"
proof (cases "bo_R (object w a)")
  case None
  then have "change_rel_if name f (Some a) w = (Ok (), w)" by (simp add: change_rel_if_def get_R_def bindP_def okP_def)
  then show ?thesis using None assms(2) same_fields_refl by (intro that [of w]) (simp_all add: related_to_def)
next
  case (Some R)
  then have "change_rel_if name f (Some a) w = change_rel name f (Some a) w"
    by (simp add: change_rel_if_def change_rel_def get_R_def bindP_def)
  then show ?thesis using change_rel_run [OF assms(1), of name f] that by metis
qed

text \<open>
  The object leaves its column first, so the comparison with itself succeeds: with another related object
  in the slice that one is taken out and the removed one stays.
\<close>

lemma RemoveOne_takes_out_another:
  assumes L: "lib_laws L" and run: "boil_RemoveOne L e fk (Some a) (Some b) w = (Ok (), v)"
    and names: "fk_column fk \<noteq> ''updated_at''" "fk_one fk \<noteq> fk_many fk \<or> a \<noteq> b"
    and heap: "a < length (bw_heap w)" "b < length (bw_heap w)" "c \<noteq> a"
    and slice: "related_to w (fk_many fk) b = [Some a, Some c]" "key_at w (fk_column fk) c \<noteq> VNull"
  shows "related_to v (fk_many fk) b = [Some a]"
proof -
  let ?c = "fk_column fk"
  define w1 where "w1 = w\<lparr>bw_heap := (bw_heap w)[a := write_fields (set_fld ?c VNull) (object w a)]\<rparr>"
  have w1: "length (bw_heap w1) = length (bw_heap w)" "related_to w1 = related_to w" "key_at w1 ?c a = VNull"
    "key_at w1 ?c c = key_at w ?c c"
    using heap by (auto simp: w1_def object_def related_to_def key_at_def write_fields_def fun_eq_iff nth_list_update)
  from run obtain k w2 w3 where w2: "boil_Update L e (fk_local fk) (Some a) (Whitelist [?c]) w1 = (Ok k, w2)"
    and w3: "change_rel_if (fk_one fk) (\<lambda>_. []) (Some a) w2 = (Ok (), w3)"
    and v: "change_rel_if (fk_many fk) (swap_remove (\<lambda>ri. \<not> bl_Equal L (field_of w3 ?c (Some a)) (field_of w3 ?c ri))) (Some b) w3 = (Ok (), v)"
    by (auto simp: boil_RemoveOne_def RemoveOne_with_def modify_def w1_def outcome_simps)
  have "a < length (bw_heap w1)" using heap(1) w1(1) by simp
  note keep = Update_objects [OF w2 this]
  have "a < length (bw_heap w2)" using keep(1) heap(1) w1(1) by simp
  then obtain w3' where w3': "change_rel_if (fk_one fk) (\<lambda>_. []) (Some a) w2 = (Ok (), w3')" "same_fields w3' w2"
    "\<And>n c. related_to w3' n c = (if c = a \<and> n = fk_one fk then [] else related_to w2 n c)"
    using change_rel_if_run [of a w2 "\<lambda>_. []" "fk_one fk"] by metis
  have "w3' = w3" using w3 w3'(1) by simp
  then have same: "same_fields w3 w2" and rel: "related_to w3 (fk_many fk) b = related_to w2 (fk_many fk) b"
    using w3'(2,3) names(2) by auto
  have key: "key_at w3 ?c d = key_at w1 ?c d" for d
    using keep(3) [OF names(1)] same_fields_key [OF same] by simp
  let ?take_out = "swap_remove (\<lambda>ri. \<not> bl_Equal L (field_of w3 ?c (Some a)) (field_of w3 ?c ri))"
  have "related_to w3 (fk_many fk) b = [Some a, Some c]" using rel keep(2) w1(2) slice(1) by simp
  moreover have "field_of w3 ?c (Some d) = key_at w3 ?c d" for d by (simp add: field_of_def key_at_def)
  ultimately have "?take_out (related_to w3 (fk_many fk) b) = [Some a]"
    using key w1(3,4) slice(2) by (simp add: swap_remove_def lib_laws_simps [OF L] Let_def)
  then have removed: "?take_out (related_to w3 (fk_many fk) b) = [Some a]" .
  have empty: "?take_out [] = []" by (simp add: swap_remove_def)
  have "b < length (bw_heap w3)" using heap(2) w1(1) keep(1) same by (simp add: same_fields_def)
  then obtain v' where v': "change_rel_if (fk_many fk) ?take_out (Some b) w3 = (Ok (), v')"
    "\<And>n c. related_to v' n c = (if c = b \<and> n = fk_many fk then ?take_out (related_to w3 (fk_many fk) b) else related_to w3 n c)"
    using change_rel_if_run [of b w3 ?take_out "fk_many fk"] empty by metis
  have "v' = v" using v v'(1) by simp
  then show ?thesis using v'(2) [of "fk_many fk" b] removed by simp
qed

end
