(* ===== verification/Membership.thy ===== *)
theory Membership
  imports Api_Runs
begin

text \<open>
  Who becomes a member of an organization: the routes of the members are behind the guard, but their
  handlers (internal/api/handlers/organization) never look at the caller.
\<close>

section \<open>A live token reaches the handler\<close>

text \<open>
  \<open>token\<close> is stored and belongs to the active user \<open>u\<close> of the application, and it has not expired when
  the guard reads the clock, after the three statements that look for the token, its user and its profile.
\<close>

definition live_token :: "services \<Rightarrow> world \<Rightarrow> string \<Rightarrow> user_row \<Rightarrow> bool" where
  "live_token sc w token u \<longleftrightarrow> token \<noteq> [] \<and> sc_is_uuid4 sc token \<and> env_parse_uuid (sc_env sc) token = Some token \<and>
     (case find (\<lambda>r. atk_token r = token) (access_tokens (db w)) of
        None \<Rightarrow> False
      | Some a \<Rightarrow> (atk_valid_until a = zero_time \<or> env_now (sc_env sc) (clk w + 3) \<le> atk_valid_until a) \<and>
          find (\<lambda>u. usr_id u = atk_user_id a) (users (db w)) = Some u) \<and>
     usr_is_active u \<and> ScopeApp \<in> set (usr_scopes u)"

lemma live_token_guarded:
  assumes ok: "\<And>n. env_fault (sc_env sc) n = None" and "live_token sc w token u"
  obtains p v where "db v = db w" "tx v = tx w" and "guarded sc handler (bearer token) w =
    handler \<lparr>ctx_user = Some (LocalUserToDTO u p), ctx_access_token = Some token\<rparr> v"
proof -
  let ?e = "sc_env sc"
  from assms(2) obtain a where a: "find (\<lambda>r. atk_token r = token) (access_tokens (db w)) = Some a"
      "find (\<lambda>u. usr_id u = atk_user_id a) (users (db w)) = Some u"
    and live: "atk_valid_until a = zero_time \<or> env_now ?e (clk w + 3) \<le> atk_valid_until a"
    and t: "token \<noteq> []" "sc_is_uuid4 sc token" "env_parse_uuid ?e token = Some token"
    and u: "usr_is_active u" "ScopeApp \<in> set (usr_scopes u)"
    by (auto simp: live_token_def split: option.splits)
  have key: "atk_token a = token" using find_SomeD [OF a(1)] by simp
  obtain p where val: "DefaultAuthTokenValidator ?e token w = (Ok \<lparr>ar_token = token, ar_user = Some (LocalUserToDTO u p),
      ar_valid_until = atk_valid_until a\<rparr>, tick (tick (tick w)))"
    using DefaultAuthTokenValidator_run [OF ok t(3) a(1,2)] key by auto
  have scopes: "CheckUserScopes [ScopeApp] (LocalUserToDTO u p)" using u by (simp add: app_scope)
  let ?v = "if atk_valid_until a = zero_time then tick (tick (tick w)) else tick (tick (tick (tick w)))"
  have "admit ?e (default_runtime ?e (sc_is_uuid4 sc) (sv_auth (sc_server sc))) (bearer token) background w =
      (Ok \<lparr>ctx_user = Some (LocalUserToDTO u p), ctx_access_token = Some token\<rparr>, ?v)"
    using val scopes t u live
    by (auto simp: admit_def auth_handler_def UserFromContext_def background_def Extract_def strip_scheme_def
        check_user_def CheckLastAuthenticatedAt_def EnrichContextWithCredentials_def outcome_simps numeral_3_eq_3)
  then show thesis
    by (intro that [of ?v p]) (simp_all add: guarded_def auth_handler_factor bindP_def)
qed

section \<open>Joining and expelling\<close>

lemma member_insert_runs:
  assumes "\<And>n. env_fault e n = None" "is_uuid e (mem_organization_id m)" "is_uuid e (mem_user_id m)"
    and "char_length (mem_role m) \<le> 50" "has_org (db w) (canon e (mem_organization_id m))" "has_user (db w) (canon e (mem_user_id m))"
    and "\<forall>q \<in> set (organization_members (db w)). mem_organization_id q = canon e (mem_organization_id m) \<longrightarrow>
      mem_user_id q \<noteq> canon e (mem_user_id m)"
  shows "\<exists>r t. organization_member_insert e Pool m w = (Ok r, t)"
  using assms
  by (auto simp: organization_member_insert_def insert_stmt_def wrapP_def tryP_def bindP_def stmt_def sys_now_def okP_def
      split: option.splits prod.splits outcome.splits)

lemma AddMember_runs:
  assumes ok: "\<And>n. env_fault e n = None" and uuids: "is_uuid e orgID" "is_uuid e userID" and role: "char_length role \<le> 50"
    and refs: "has_org (db w) (canon e orgID)" "has_user (db w) (canon e userID)"
    and new: "\<forall>q \<in> set (organization_members (db w)). mem_organization_id q = canon e orgID \<longrightarrow> mem_user_id q \<noteq> canon e userID"
  shows "\<exists>m t. AddMember e orgID userID role w = (Ok m, t)"
proof -
  obtain g where "find (\<lambda>r. org_id r = canon e orgID) (organizations (db w)) = Some g"
    using refs by (cases "find (\<lambda>r. org_id r = canon e orgID) (organizations (db w))") (auto simp: has_org_def find_None_iff)
  then obtain v where v: "FindOrganization e orgID w = (Ok g, v)" "db v = db w"
    using ok uuids by (auto simp: FindOrganization_def find_row_def outcome_simps)
  have "\<exists>r t. organization_member_insert e Pool \<lparr>mem_organization_id = orgID, mem_user_id = userID, mem_role = role,
      mem_created_at = None\<rparr> v = (Ok r, t)"
    by (rule member_insert_runs) (use ok uuids role refs new v in simp_all)
  then show ?thesis using v(1) by (auto simp: AddMember_def thenP_def bindP_def wrapP_def tryP_def okP_def)
qed

definition join_req :: "string \<Rightarrow> string \<Rightarrow> string \<Rightarrow> route" where
  "join_req orgID userID role = PostAddOrganizationMemberR orgID (Inr \<lparr>aom_user_id = Some userID, aom_role = Some role\<rparr>)"

text \<open>
  C24: the members of an organization are not protected.  Whoever holds a live token (of an outsider,
  say) adds any user, himself included, with any role that fits the column, to any organization he is
  not yet a member of: when no statement fails the answer is 200 and the membership is stored.
\<close>

theorem outsiders_join_any_organization:
  assumes "\<And>n. env_fault (sc_env sc) n = None" and "live_token sc w token u"
    and "is_uuid (sc_env sc) orgID" "is_uuid (sc_env sc) userID" and "char_length role \<le> 50"
    and "has_org (db w) (canon (sc_env sc) orgID)" "has_user (db w) (canon (sc_env sc) userID)"
    and "\<forall>q \<in> set (organization_members (db w)). mem_organization_id q = canon (sc_env sc) orgID \<longrightarrow>
      mem_user_id q \<noteq> canon (sc_env sc) userID"
  shows "\<exists>m t. run_route sc (bearer token) (join_req orgID userID role) w = (Ok 200, t) \<and>
    db t = (db w)\<lparr>organization_members := organization_members (db w) @ [m]\<rparr> \<and>
    mem_organization_id m = canon (sc_env sc) orgID \<and> mem_user_id m = canon (sc_env sc) userID \<and> mem_role m = role"
proof -
  let ?h = "\<lambda>ctx. bindP (bind_body sc AddOrganizationMemberPayload_Validate
        (Inr \<lparr>aom_user_id = Some userID, aom_role = Some role\<rparr>)) (\<lambda>body.
     bindP (postAddOrganizationMemberHandler (sc_env sc) orgID (StringValue (aom_user_id body)) (StringValue (aom_role body))) (\<lambda>ok.
       return_validated sc AddOrganizationMemberResponse_Validate \<lparr>amr_ok = ok\<rparr>))"
  obtain p v where v: "db v = db w" and
    run: "guarded sc ?h (bearer token) w = ?h \<lparr>ctx_user = Some (LocalUserToDTO u p), ctx_access_token = Some token\<rparr> v"
    by (rule live_token_guarded [OF assms(1,2)])
  obtain m t where add: "AddMember (sc_env sc) orgID userID role v = (Ok m, t)"
    using AddMember_runs [where e = "sc_env sc" and w = v, OF assms(1,3-5)] assms(6-) v by auto
  have "run_route sc (bearer token) (join_req orgID userID role) w = (Ok 200, t)"
    using run add
    by (simp add: join_req_def PostAddOrganizationMemberRoute_def status_def bind_body_def BindAndValidateBody_def
        AddOrganizationMemberPayload_Validate_def composite_def validatePayload_def thenP_def bindP_def okP_def StringValue_def postAddOrganizationMemberHandler_def
        return_validated_def ValidateAndReturn_def AddOrganizationMemberResponse_Validate_def)
  then show ?thesis using AddMember_Ok [OF add] v by auto
qed

theorem outsiders_join_any_organization_witness:
  "\<exists>m t. run_route example_services (bearer ''live'') (join_req ''org'' ''alice'' ''admin'') api_world = (Ok 200, t) \<and>
    db t = (db api_world)\<lparr>organization_members := organization_members (db api_world) @ [m]\<rparr> \<and>
    mem_organization_id m = ''org'' \<and> mem_user_id m = ''alice'' \<and> mem_role m = ''admin''"
proof -
  have "case find (\<lambda>u. usr_id u = ''alice'') (users (db api_world)) of None \<Rightarrow> False
    | Some u \<Rightarrow> live_token example_services api_world ''live'' u \<and> is_uuid example_env ''org'' \<and> is_uuid example_env ''alice'' \<and>
        canon example_env ''org'' = ''org'' \<and> canon example_env ''alice'' = ''alice'' \<and>
        char_length ''admin'' \<le> 50 \<and> has_org (db api_world) ''org'' \<and> has_user (db api_world) ''alice'' \<and>
        list_all (\<lambda>q. mem_organization_id q = ''org'' \<longrightarrow> mem_user_id q \<noteq> ''alice'') (organization_members (db api_world))"
    by code_simp
  then obtain u where u: "live_token example_services api_world ''live'' u" "is_uuid example_env ''org''" "is_uuid example_env ''alice''"
      "canon example_env ''org'' = ''org''" "canon example_env ''alice'' = ''alice''" "char_length ''admin'' \<le> 50"
      "has_org (db api_world) ''org''" "has_user (db api_world) ''alice''"
      "\<forall>q \<in> set (organization_members (db api_world)). mem_organization_id q = ''org'' \<longrightarrow> mem_user_id q \<noteq> ''alice''"
    by (auto simp: list_all_iff split: option.splits)
  have env: "sc_env example_services = example_env" by (simp add: example_services_def)
  have ok: "env_fault (sc_env example_services) n = None" for n by (simp add: example_services_def)
  from outsiders_join_any_organization [where sc = example_services, unfolded env, OF _ u(1-3,6)] u ok
  show ?thesis by (simp add: env)
qed

text \<open>Before and after the outsider has joined: the wallets of the organization.\<close>

definition wallet_req :: route where
  "wallet_req = PostCreateWalletR ''vault'' (Inr \<lparr>cwp_chain_id = Some ''ETH''\<rparr>)"

definition bare_world :: world where
  "bare_world = api_world\<lparr>db := (db api_world)\<lparr>wallets := [], signing_requests := [], approvals := []\<rparr>\<rparr>"

lemma outsider_creates_wallet:
  "case run_route example_services (bearer ''live'') wallet_req bare_world of (r, t) \<Rightarrow> r = Err echo_ErrForbidden \<and> wallets (db t) = []"
  "case serve_all example_services [(''POST'', bearer ''live'', join_req ''org'' ''alice'' ''admin'')] bare_world of w \<Rightarrow>
   (case run_route example_services (bearer ''live'') wallet_req w of (r, t) \<Rightarrow> r = Ok 200 \<and> length (wallets (db t)) = 1)"
  by code_simp+

section \<open>Deciding\<close>

text \<open>The pending request with the key \<open>i\<close>, its wallet and the vault of the wallet, as the eager loads find them.\<close>

definition signable :: "database \<Rightarrow> uuid \<Rightarrow> signing_request_row \<Rightarrow> wallet_row \<Rightarrow> vault_row \<Rightarrow> bool" where
  "signable d i req wal v \<longleftrightarrow> find (\<lambda>r. srq_id r = i) (signing_requests d) = Some req \<and> srq_status req = Some ''pending'' \<and>
     Option.bind (srq_wallet_id req) (\<lambda>j. find (\<lambda>r. wal_id r = j) (wallets d)) = Some wal \<and>
     Option.bind (wal_vault_id wal) (\<lambda>j. find (\<lambda>r. vlt_id r = j) (vaults d)) = Some v"

lemma load_rel_run:
  assumes "\<And>n. env_fault e n = None"
  obtains t where "load_rel name e tab key ref w = (Ok (Option.bind ref (\<lambda>i. find (\<lambda>r. key r = i) (tab (db w)))), t)"
    "db t = db w" "tx t = tx w"
  using assms by (cases ref) (auto simp: load_rel_def okP_iff wrapP_Ok_iff query_Ok_iff)

lemma load_request_run:
  assumes ok: "\<And>n. env_fault e n = None" and "is_uuid e i" and sig: "signable (db w) (canon e i) req wal v"
  obtains c t where "load_request e i w = (Ok \<lparr>ld_request = req, ld_wallet = Some wal, ld_vault = Some v, ld_chain = c\<rparr>, t)"
    "db t = db w" "tx t = tx w"
proof -
  obtain t0 where 0: "one_by_uuid ''signing_requests'' e Pool signing_requests srq_id i (\<lambda>_. True) w = (Ok req, t0)"
      "db t0 = db w" "tx t0 = tx w"
    using assms by (auto simp: one_by_uuid_Ok_iff is_uuid_def canon_def signable_def)
  obtain t1 where 1: "load_rel ''Wallet'' e wallets wal_id (srq_wallet_id req) t0 = (Ok (Some wal), t1)" "db t1 = db w" "tx t1 = tx w"
    by (rule load_rel_run [OF ok, of "''Wallet''" wallets wal_id "srq_wallet_id req" t0]) (use sig 0 in \<open>auto simp: signable_def\<close>)
  obtain t2 where 2: "load_rel ''Vault'' e vaults vlt_id (wal_vault_id wal) t1 = (Ok (Some v), t2)" "db t2 = db w" "tx t2 = tx w"
    by (rule load_rel_run [OF ok, of "''Vault''" vaults vlt_id "wal_vault_id wal" t1]) (use sig 1 in \<open>auto simp: signable_def\<close>)
  obtain c t where 3: "load_rel ''Chain'' e chains chn_id (wal_chain_id wal) t2 = (Ok c, t)" "db t = db w" "tx t = tx w"
    by (rule load_rel_run [OF ok, of "''Chain''" chains chn_id "wal_chain_id wal" t2]) (use 2 in auto)
  show thesis
    by (rule that [of c t]) (use 0 1 2 3 in \<open>simp_all add: load_request_def bindP_def okP_def\<close>)
qed

lemma approval_insert_run:
  assumes "\<And>n. env_fault e n = None" "is_uuid e i" "is_uuid e j" "char_length act \<le> 50"
    and "has_request (db w) (canon e i)" "has_user (db w) (canon e j)" "\<forall>q \<in> set (approvals (db w)). \<forall>n. apv_id q \<noteq> env_uuid e n"
    and "\<forall>q \<in> set (approvals (db w)). apv_request_id q = Some (canon e i) \<longrightarrow> apv_user_id q \<noteq> Some (canon e j)"
  shows "\<exists>r t. approval_insert e Pool (new_approval (env_uuid e m) i j act com) w = (Ok r, t)"
  using assms
  by (auto simp: approval_insert_def new_approval_def insert_stmt_def wrapP_def tryP_def bindP_def stmt_def sys_now_def okP_def
      bad_ref_def dangling_def default_id_def split: option.splits prod.splits outcome.splits)

lemma check_threshold_run:
  assumes "\<And>n. env_fault e n = None" "\<And>n c. \<not> isl (env_sign e n c)" "is_uuid e i" "ld_wallet ld = Some wal" "ld_vault ld = Some v"
  shows "\<exists>t. check_threshold e i ld w = (Ok (), t)"
  using assms
  by (auto simp: check_threshold_def all_approvals_def ThresholdSign_def signing_request_update_def modify_stmt_def query_def stmt_def
      sys_now_def wrapP_def tryP_def bindP_def okP_def deref_def Let_def isl_def split: sum.splits option.splits)

lemma request_approvals_snoc:
  "request_approvals i (d\<lparr>approvals := approvals d @ [a]\<rparr>) =
     request_approvals i d @ (if apv_request_id a = Some i \<and> apv_action a = ''approve'' then [a] else [])"
  by (simp add: request_approvals_def)

lemma ApproveRequest_run:
  assumes ok: "\<And>n. env_fault e n = None" and mpc: "\<And>n c. \<not> isl (env_sign e n c)" and idle: "tx w = None"
    and ids: "is_uuid e i" "is_uuid e (ap_user_id p)" and user: "has_user (db w) (canon e (ap_user_id p))"
    and fresh: "\<forall>q \<in> set (approvals (db w)). \<forall>n. apv_id q \<noteq> env_uuid e n"
    and new: "\<forall>q \<in> set (approvals (db w)). apv_request_id q = Some (canon e i) \<longrightarrow> apv_user_id q \<noteq> Some (canon e (ap_user_id p))"
    and sig: "signable (db w) (canon e i) req wal v"
  shows "\<exists>t. ApproveRequest e i p w = (Ok (), t)"
proof -
  obtain c u where ld: "load_request e i w = (Ok \<lparr>ld_request = req, ld_wallet = Some wal, ld_vault = Some v, ld_chain = c\<rparr>, u)"
      "db u = db w" "tx u = tx w"
    by (rule load_request_run [OF ok ids(1) sig])
  have apv: "user_approved e i (ap_user_id p) u = (Ok False, tick u)"
    using ok ids new ld by (auto simp: user_approved_def wrapP_Ok_iff query_Ok_iff)
  have "has_request (db w) (canon e i)"
    using sig find_SomeD by (fastforce simp: signable_def has_request_def)
  moreover have len: "char_length ''approve'' \<le> 50" by code_simp
  moreover have fresh': "\<forall>q \<in> set (approvals (db (tick (tick u)))). \<forall>n. apv_id q \<noteq> env_uuid e n" using fresh ld by simp
  moreover have new': "\<forall>q \<in> set (approvals (db (tick (tick u)))). apv_request_id q = Some (canon e i) \<longrightarrow>
      apv_user_id q \<noteq> Some (canon e (ap_user_id p))"
    using new ld by simp
  ultimately have "\<exists>a x. approval_insert e Pool (new_approval (env_uuid e (clk (tick u))) i (ap_user_id p) ''approve''
      (Some (marshal_params p))) (tick (tick u)) = (Ok a, x)"
    by (intro approval_insert_run [OF ok ids]) (simp_all add: user ld(2))
  then obtain a x where ins: "approval_insert e Pool (new_approval (env_uuid e (clk (tick u))) i (ap_user_id p) ''approve''
      (Some (marshal_params p))) (tick (tick u)) = (Ok a, x)" by blast
  obtain t where "check_threshold e i \<lparr>ld_request = req, ld_wallet = Some wal, ld_vault = Some v, ld_chain = c\<rparr> x = (Ok (), t)"
    using check_threshold_run [OF ok mpc ids(1)] by (metis loaded_request.select_convs(2,3))
  then show ?thesis
    using ld apv ins sig
    by (simp add: ApproveRequest_def thenP_def bindP_def wrapP_def tryP_def okP_def uuid_New_def signable_def string_of_def)
qed

lemma ApproveRequest_decides:
  assumes "ApproveRequest e i p w = (Ok (), t)" and "tx w = None" and sig: "signable (db w) (canon e i) req wal v"
    and ok: "\<And>n. env_fault e n = None" and id: "is_uuid e i"
  shows "\<exists>a. apv_request_id a = Some (canon e i) \<and> apv_user_id a = Some (canon e (ap_user_id p)) \<and> apv_action a = ''approve'' \<and>
    (let d = (db w)\<lparr>approvals := approvals (db w) @ [a]\<rparr> in
     if vlt_threshold v \<le> int (length (request_approvals (canon e i) (db w))) + 1
     then \<exists>n call s now. env_sign e n call = Inr s \<and> db t = complete_request req s now d
     else db t = d)"
  using assms(1,2)
proof (cases rule: ApproveRequest_trace)
  case (stored ld a x)
  obtain c u where "load_request e i w = (Ok \<lparr>ld_request = req, ld_wallet = Some wal, ld_vault = Some v, ld_chain = c\<rparr>, u)"
    by (rule load_request_run [OF ok id sig])
  then have ld: "ld = \<lparr>ld_request = req, ld_wallet = Some wal, ld_vault = Some v, ld_chain = c\<rparr>" using stored(1) by simp
  have n: "int (length (request_approvals (canon e i) (db x))) = int (length (request_approvals (canon e i) (db w))) + 1"
    using stored(4,7,9) by (simp add: request_approvals_snoc)
  show ?thesis
    using check_threshold_Ok [OF stored(3,5)] stored(7-9) unfolding n
    by (intro exI [of _ a]) (simp add: ld stored(4) Let_def split: if_splits, blast)
qed simp

definition approval_body :: "string \<Rightarrow> string \<Rightarrow> string \<Rightarrow> string \<Rightarrow> approve_signing_request_payload" where
  "approval_body credential sig authData clientData = \<lparr>asp_action = Some ''approve'', asp_authenticator_data = authData,
     asp_client_data_json = clientData, asp_comment = [], asp_credential_id = credential, asp_signature = sig\<rparr>"

text \<open>
  C23: approvals need neither membership nor a passkey.  Whoever holds a live token approves any pending
  request he has not decided on, with any bytes for the credential and the signature: when no statement
  fails and the MPC infrastructure answers, the response is 200, the approval is stored under his id and
  counts; if it is the one that reaches the threshold of the vault, the request is completed with the
  signature.  As far as the server is concerned, a vault with threshold \<open>n\<close> signs what any \<open>n\<close> of its users
  agree on; only the MPC infrastructure can still refuse the tokens it is sent.
\<close>

theorem outsiders_approve_any_request:
  assumes "\<And>n. env_fault (sc_env sc) n = None" and "\<And>n c. \<not> isl (env_sign (sc_env sc) n c)" and "tx w = None"
    and "live_token sc w token u" and "env_parse_uuid (sc_env sc) (usr_id u) = Some (usr_id u)"
    and "is_uuid (sc_env sc) requestID" and "signable (db w) (canon (sc_env sc) requestID) req wal v"
    and "\<forall>q \<in> set (approvals (db w)). \<forall>n. apv_id q \<noteq> env_uuid (sc_env sc) n"
    and "\<forall>q \<in> set (approvals (db w)). apv_request_id q = Some (canon (sc_env sc) requestID) \<longrightarrow> apv_user_id q \<noteq> Some (usr_id u)"
  shows "\<exists>a t. run_route sc (bearer token)
      (PostApproveSigningRequestR requestID (Inr (approval_body credential sig authData clientData))) w = (Ok 200, t) \<and>
    apv_request_id a = Some (canon (sc_env sc) requestID) \<and> apv_user_id a = Some (usr_id u) \<and> apv_action a = ''approve'' \<and>
    (let d = (db w)\<lparr>approvals := approvals (db w) @ [a]\<rparr> in
     if vlt_threshold v \<le> int (length (request_approvals (canon (sc_env sc) requestID) (db w))) + 1
     then \<exists>n call s now. env_sign (sc_env sc) n call = Inr s \<and> db t = complete_request req s now d
     else db t = d)"
proof -
  let ?e = "sc_env sc" and ?b = "approval_body credential sig authData clientData"
  let ?p = "\<lparr>ap_user_id = usr_id u, ap_credential_id = credential, ap_signature = sig, ap_authenticator_data = authData,
      ap_client_data_json = clientData\<rparr>"
  obtain handler where route: "PostApproveSigningRequestRoute sc requestID (Inr ?b) = guarded sc handler"
    and handler: "\<And>ctx. handler ctx = bindP (bind_body sc ApproveSigningRequestPayload_Validate (Inr ?b)) (\<lambda>body.
       bindP (postApproveSigningRequestHandler ?e (UserFromContext ctx) requestID
         \<lparr>pl_action = StringValue (asp_action body), pl_credential_id = asp_credential_id body, pl_signature = asp_signature body,
          pl_authenticator_data = asp_authenticator_data body, pl_client_data_json = asp_client_data_json body\<rparr>) (\<lambda>st.
       return_validated sc ApproveSigningResponse_Validate
         \<lparr>asr_current_approvals = 0, asr_required_approvals = 0, asr_status = st\<rparr>))"
    by (rule that [OF PostApproveSigningRequestRoute_def refl])
  obtain p x where x: "db x = db w" "tx x = None" and run: "guarded sc handler (bearer token) w =
      handler \<lparr>ctx_user = Some (LocalUserToDTO u p), ctx_access_token = Some token\<rparr> x"
    by (rule live_token_guarded [OF assms(1,4), where handler = handler]) (simp_all add: assms(3))
  have user: "canon ?e (usr_id u) = usr_id u" "is_uuid ?e (usr_id u)" "has_user (db w) (usr_id u)"
    using assms(4,5) by (auto simp: canon_def is_uuid_def has_user_def live_token_def split: option.splits dest!: find_SomeD)
  have "\<exists>t. ApproveRequest ?e requestID ?p x = (Ok (), t)"
    using assms user x by (intro ApproveRequest_run [where req = req and wal = wal and v = v]) simp_all
  then obtain t where app: "ApproveRequest ?e requestID ?p x = (Ok (), t)" ..
  then have "handler \<lparr>ctx_user = Some (LocalUserToDTO u p), ctx_access_token = Some token\<rparr> x =
      (Ok (200, \<lparr>asr_current_approvals = 0, asr_required_approvals = 0, asr_status = ''approved''\<rparr>), t)"
    unfolding handler
    by (simp add: bind_body_def BindAndValidateBody_def approval_body_def UserFromContext_def
        ApproveSigningRequestPayload_Validate_def composite_def StringValue_def postApproveSigningRequestHandler_def
        return_validated_def ValidateAndReturn_def ApproveSigningResponse_Validate_def validatePayload_def thenP_def bindP_def okP_def)
  then have "run_route sc (bearer token) (PostApproveSigningRequestR requestID (Inr ?b)) w = (Ok 200, t)"
    using run by (simp add: route status_def bindP_def okP_def)
  moreover note ApproveRequest_decides [OF app x(2) _ assms(1,6), where req = req and wal = wal and v = v]
  ultimately show ?thesis using assms(7) x(1) user(1) by auto
qed

theorem outsiders_approve_any_request_witness:
  "\<exists>a t. run_route example_services (bearer ''live'') (PostApproveSigningRequestR ''req'' (Inr (approval_body ''c'' ''s'' ''d'' ''j''))) api_world =
      (Ok 200, t) \<and>
    apv_request_id a = Some ''req'' \<and> apv_user_id a = Some ''alice'' \<and> apv_action a = ''approve'' \<and>
    (\<exists>n call s now. env_sign example_env n call = Inr s \<and>
      db t = complete_request (hd (signing_requests (db api_world))) s now
        ((db api_world)\<lparr>approvals := approvals (db api_world) @ [a]\<rparr>))"
proof -
  let ?d = "db api_world"
  have "case (find (\<lambda>u. usr_id u = ''alice'') (users ?d), wallets ?d, vaults ?d) of (Some u, [wal], [v]) \<Rightarrow>
      live_token example_services api_world ''live'' u \<and> is_uuid example_env ''req'' \<and> canon example_env ''req'' = ''req'' \<and>
      env_parse_uuid example_env (usr_id u) = Some (usr_id u) \<and> usr_id u = ''alice'' \<and>
      find (\<lambda>r. srq_id r = ''req'') (signing_requests ?d) = Some (hd (signing_requests ?d)) \<and>
      srq_status (hd (signing_requests ?d)) = Some ''pending'' \<and>
      Option.bind (srq_wallet_id (hd (signing_requests ?d))) (\<lambda>j. find (\<lambda>r. wal_id r = j) (wallets ?d)) = Some wal \<and>
      Option.bind (wal_vault_id wal) (\<lambda>j. find (\<lambda>r. vlt_id r = j) (vaults ?d)) = Some v \<and>
      vlt_threshold v \<le> int (length (request_approvals ''req'' ?d)) + 1 \<and>
      list_all (\<lambda>q. apv_id q = ''a1'' \<and> apv_user_id q \<noteq> Some ''alice'') (approvals ?d)
    | _ \<Rightarrow> False"
    by code_simp
  then obtain u wal v where u: "live_token example_services api_world ''live'' u" "usr_id u = ''alice''"
      "env_parse_uuid example_env (usr_id u) = Some (usr_id u)" "is_uuid example_env ''req''" "canon example_env ''req'' = ''req''"
    and sig: "signable ?d (canon example_env ''req'') (hd (signing_requests ?d)) wal v"
    and thr: "vlt_threshold v \<le> int (length (request_approvals ''req'' ?d)) + 1"
    and apv: "\<forall>q \<in> set (approvals ?d). apv_id q = ''a1'' \<and> apv_user_id q \<noteq> Some ''alice''"
    by (auto simp: list_all_iff signable_def split: option.splits list.splits)
  have env: "sc_env example_services = example_env" by (simp add: example_services_def)
  have ids: "\<forall>q \<in> set (approvals ?d). \<forall>n. apv_id q \<noteq> env_uuid example_env n"
    using apv by (auto simp: unary_def)
  have "tx api_world = None" by (simp add: api_world_def)
  from outsiders_approve_any_request [where sc = example_services, unfolded env, OF _ _ this u(1,3,4) sig ids] apv u thr
  show ?thesis by (simp add: Let_def)
qed

text \<open>
  Two users who are in no organization at all sign: one asks for it, and both approve.  The organization
  of the vault belongs to somebody else.
\<close>

definition strangers_world :: world where
  "strangers_world = api_world\<lparr>db := (db api_world)\<lparr>
     users := users (db api_world) @ [alice\<lparr>usr_id := ''carol'', usr_username := Some ''carol''\<rparr>,
       alice\<lparr>usr_id := ''dave'', usr_username := Some ''dave''\<rparr>],
     access_tokens := [\<lparr>atk_token = ''c'', atk_valid_until = 100 * second, atk_user_id = ''carol'', atk_created_at = 0, atk_updated_at = 0\<rparr>,
       \<lparr>atk_token = ''d'', atk_valid_until = 100 * second, atk_user_id = ''dave'', atk_created_at = 0, atk_updated_at = 0\<rparr>],
     signing_requests := [], approvals := []\<rparr>\<rparr>"

lemma strangers_sign:
  "case serve_all example_services [(''POST'', bearer ''c'', PostCreateSigningRequestR (Inr \<lparr>csp_amount = Some ''1'', csp_note = [],
      csp_to_address = Some ''0x'', csp_tx_data = ''beef'', csp_wallet_id = Some ''wallet''\<rparr>))] strangers_world of w \<Rightarrow>
    (case map srq_id (signing_requests (db w)) of
       [i] \<Rightarrow> (case serve_all example_services (map (\<lambda>token. (''POST'', bearer token,
             PostApproveSigningRequestR i (Inr (approval_body [] [] [] [])))) [''c'', ''d'']) w of
          t \<Rightarrow> map srq_signature (signing_requests (db t)) = [Some ''sigbeef''] \<and> map srq_status (signing_requests (db t)) = [Some ''completed''])
     | _ \<Rightarrow> False)"
  "list_all (\<lambda>m. mem_user_id m \<notin> {''carol'', ''dave''}) (organization_members (db strangers_world)) \<and>
   list_all (\<lambda>g. org_owner_id g \<notin> {''carol'', ''dave''}) (organizations (db strangers_world))"
  by code_simp+

end
