(* ===== verification/Router_Init.thy ===== *)
theory Router_Init
  imports Api_Runs Request_Logging
begin

text \<open>
  internal/api/router/router.go, internal/api/handlers/handlers.go and the \<open>Route\<close> functions of the
  handlers: the middleware and the routes that \<open>Init\<close> registers with echo, as a trace; what echo makes
  of a registration (prefix and middleware of the group) is its documented behaviour.
\<close>

section \<open>Registrations\<close>

record secure_settings =
  se_xss_protection :: string
  se_content_type_nosniff :: string
  se_x_frame_options :: string
  se_hsts_max_age :: int
  se_hsts_exclude_subdomains :: bool
  se_content_security_policy :: string
  se_csp_report_only :: bool
  se_hsts_preload_enabled :: bool
  se_referrer_policy :: string

text \<open>
  \<open>MLogger sw\<close> is \<open>LoggerWithConfig (router_logger_config sw)\<close>, \<open>MKeyAuth secret skip\<close> echo's key
  authentication of the query parameter mgmt-secret with \<open>mgmt_validator secret\<close>, and \<open>mgmt_skipper\<close> if
  \<open>skip\<close>; \<open>MAuth\<close> is \<open>middleware.Auth(s)\<close>.
\<close>

datatype middleware = MPrometheus | MRemoveTrailingSlash | MRecover | MSecure secure_settings | MRequestID
  | MLogger logger_switches | MCORS | MCacheControl | MKeyAuth string bool | MNoCache | MAuth | MNoop

record route_group =
  gr_prefix :: string
  gr_middleware :: "middleware list"

text \<open>\<open>Attach\<close>: method and path within the group, with the middleware of the route itself.\<close>

datatype registration = SetRenderer "string list" | Pre middleware | Use middleware
  | Attach route_group string string "middleware list" | SetBlockProfileRate int | SetMutexProfileFraction int

definition echo_root :: route_group where
  "echo_root = \<lparr>gr_prefix = [], gr_middleware = []\<rparr>"

section \<open>Groups and routes\<close>

record router =
  rtr_root :: route_group
  rtr_management :: route_group
  rtr_auth :: route_group
  rtr_push :: route_group
  rtr_vault :: route_group
  rtr_sign :: route_group
  rtr_well_known :: route_group
  rtr_org :: route_group

definition new_router :: "string \<Rightarrow> router" where
  "new_router secret = \<lparr>
     rtr_root = \<lparr>gr_prefix = [], gr_middleware = []\<rparr>,
     rtr_management = \<lparr>gr_prefix = ''/-'', gr_middleware = [MKeyAuth secret True, MNoCache]\<rparr>,
     rtr_auth = \<lparr>gr_prefix = ''/api/v1/auth'', gr_middleware = []\<rparr>,
     rtr_push = \<lparr>gr_prefix = ''/api/v1/push'', gr_middleware = [MAuth]\<rparr>,
     rtr_vault = \<lparr>gr_prefix = ''/api/v1/vaults'', gr_middleware = [MAuth]\<rparr>,
     rtr_sign = \<lparr>gr_prefix = ''/api/v1'', gr_middleware = [MAuth]\<rparr>,
     rtr_well_known = \<lparr>gr_prefix = ''/.well-known'', gr_middleware = []\<rparr>,
     rtr_org = \<lparr>gr_prefix = ''/api/v1/organizations'', gr_middleware = [MAuth]\<rparr>\<rparr>"

text \<open>The \<open>Route\<close> functions of the API, by the constructor of \<open>route\<close> that runs their handler.\<close>

primrec route_attachment :: "router \<Rightarrow> route \<Rightarrow> registration" where
  "route_attachment R (DeleteUserAccountR b) = Attach (rtr_auth R) ''DELETE'' ''/account'' []"
| "route_attachment R (GetCompleteRegisterR b) = Attach (rtr_auth R) ''GET'' ''/register'' []"
| "route_attachment R GetUserInfoR = Attach (rtr_auth R) ''GET'' ''/userinfo'' []"
| "route_attachment R (PostChangePasswordR b) = Attach (rtr_auth R) ''POST'' ''/change-password'' []"
| "route_attachment R (PostCompleteRegisterR b) = Attach (rtr_auth R) ''POST'' ''/register/:registrationToken'' []"
| "route_attachment R (PostForgotPasswordCompleteR b) = Attach (rtr_auth R) ''POST'' ''/forgot-password/complete'' []"
| "route_attachment R (PostForgotPasswordR b) = Attach (rtr_auth R) ''POST'' ''/forgot-password'' []"
| "route_attachment R (PostLoginR b) = Attach (rtr_auth R) ''POST'' ''/login'' []"
| "route_attachment R (PostLogoutR b) = Attach (rtr_auth R) ''POST'' ''/logout'' []"
| "route_attachment R (PostRefreshR b) = Attach (rtr_auth R) ''POST'' ''/refresh'' []"
| "route_attachment R (PostRegisterR b) = Attach (rtr_auth R) ''POST'' ''/register'' []"
| "route_attachment R (DeleteOrganizationMemberR i j) = Attach (rtr_org R) ''DELETE'' ''/:orgId/members/:userId'' []"
| "route_attachment R (GetListOrganizationMembersR i) = Attach (rtr_org R) ''GET'' ''/:orgId/members'' []"
| "route_attachment R GetListOrganizationsR = Attach (rtr_org R) ''GET'' [] []"
| "route_attachment R (PostAddOrganizationMemberR i b) = Attach (rtr_org R) ''POST'' ''/:orgId/members'' []"
| "route_attachment R (PostCreateOrganizationR b) = Attach (rtr_org R) ''POST'' [] []"
| "route_attachment R (GetListSigningRequestsR b) = Attach (rtr_sign R) ''GET'' ''/requests'' []"
| "route_attachment R (PutUpdatePushTokenR b) = Attach (rtr_push R) ''PUT'' ''/token'' []"
| "route_attachment R (PostApproveSigningRequestR i b) = Attach (rtr_sign R) ''POST'' ''/requests/:requestId/approve'' []"
| "route_attachment R (PostCreateSigningRequestR b) = Attach (rtr_sign R) ''POST'' ''/vaults/:vaultId/sign'' []"
| "route_attachment R (PostCreateVaultR b) = Attach (rtr_vault R) ''POST'' [] []"
| "route_attachment R (PostCreateWalletR i b) = Attach (rtr_vault R) ''POST'' ''/:vaultId/wallets'' []"

definition GetHealthyRoute :: "router \<Rightarrow> registration" where
  "GetHealthyRoute R = Attach (rtr_management R) ''GET'' ''/healthy'' []"

definition GetReadyRoute :: "router \<Rightarrow> registration" where
  "GetReadyRoute R = Attach (rtr_management R) ''GET'' ''/ready'' []"

definition GetVersionRoute :: "router \<Rightarrow> registration" where
  "GetVersionRoute R = Attach (rtr_management R) ''GET'' ''/version'' []"

definition GetSwaggerRoute :: "router \<Rightarrow> registration" where
  "GetSwaggerRoute R = Attach echo_root ''GET'' ''/swagger.yml'' [MNoCache]"

definition GetAndroidDigitalAssetLinksRoute :: "router \<Rightarrow> registration" where
  "GetAndroidDigitalAssetLinksRoute R = Attach (rtr_well_known R) ''GET'' ''/assetlinks.json'' []"

definition GetAppleAppSiteAssociationRoute :: "router \<Rightarrow> registration" where
  "GetAppleAppSiteAssociationRoute R = Attach (rtr_well_known R) ''GET'' ''/apple-app-site-association'' []"

definition nothing_bound :: "go_error + 'a" where
  "nothing_bound = Inl (ErrPlain [])"

definition AttachAllRoutes :: "router \<Rightarrow> registration list" where
  "AttachAllRoutes R = map (route_attachment R)
      [DeleteUserAccountR nothing_bound, GetCompleteRegisterR nothing_bound, GetUserInfoR, PostChangePasswordR nothing_bound,
       PostCompleteRegisterR nothing_bound, PostForgotPasswordCompleteR nothing_bound, PostForgotPasswordR nothing_bound,
       PostLoginR nothing_bound, PostLogoutR nothing_bound, PostRefreshR nothing_bound, PostRegisterR nothing_bound] @
     [GetHealthyRoute R, GetReadyRoute R, GetSwaggerRoute R, GetVersionRoute R] @
     map (route_attachment R)
      [DeleteOrganizationMemberR [] [], GetListOrganizationMembersR [], GetListOrganizationsR,
       PostAddOrganizationMemberR [] nothing_bound, PostCreateOrganizationR nothing_bound, GetListSigningRequestsR nothing_bound,
       PutUpdatePushTokenR nothing_bound, PostApproveSigningRequestR [] nothing_bound, PostCreateSigningRequestR nothing_bound,
       PostCreateVaultR nothing_bound, PostCreateWalletR [] nothing_bound] @
     [GetAndroidDigitalAssetLinksRoute R, GetAppleAppSiteAssociationRoute R]"

section \<open>Static files of the well-known group\<close>

text \<open>\<open>Inl\<close> the error, \<open>Inr\<close> the headers that are set and the file that is sent.\<close>

definition getAndroidDigitalAssetLinksHandler :: "string \<Rightarrow> go_error + (string \<times> string) list \<times> string" where
  "getAndroidDigitalAssetLinksHandler file =
     (if file = [] then Inl echo_ErrNotFound
      else Inr ([(''Cache-Control'', ''public, max-age=0, must-revalidate''), (''Content-Type'', ''application/json'')], file))"

definition getAppleAppSiteAssociationHandler :: "string \<Rightarrow> go_error + (string \<times> string) list \<times> string" where
  "getAppleAppSiteAssociationHandler file =
     (if file = [] then Inl echo_ErrNotFound
      else Inr ([(''Cache-Control'', ''public, max-age=0, must-revalidate'')], file))"

section \<open>Metrics\<close>

text \<open>
  internal/metrics: the collectors by their names; what \<open>prometheus.Register\<close> answers is a parameter.
  The trace is the list of the names that were registered.
\<close>

definition users_Metrics :: "string list" where
  "users_Metrics = [''total_users'']"

fun register_all :: "(string \<Rightarrow> go_error option) \<Rightarrow> string list \<Rightarrow> (string list, unit) prog" where
  "register_all register [] = okP ()"
| "register_all register (m # ms) = (case register m of
      Some x \<Rightarrow> errP (ErrWrap ''failed to register metric'' x)
    | None \<Rightarrow> (\<lambda>t. register_all register ms (t @ [m])))"

definition RegisterMetrics :: "(string \<Rightarrow> go_error option) \<Rightarrow> string \<Rightarrow> (string list, unit) prog" where
  "RegisterMetrics register database = register_all register (users_Metrics @ [''sqlstats '' @ database])"

section \<open>Init\<close>

text \<open>
  The settings \<open>Init\<close> reads; \<open>ri_files\<close> is what \<open>os.ReadDir\<close> finds in the directory of the views (name,
  and whether it is a directory), \<open>ri_parse\<close> what parsing a template answers.
\<close>

record init_config =
  ic_enable_metrics :: bool
  ic_trailing_slash :: bool
  ic_recover :: bool
  ic_secure :: bool
  ic_secure_settings :: secure_settings
  ic_request_id :: bool
  ic_logger :: bool
  ic_logger_switches :: logger_switches
  ic_cors :: bool
  ic_cache_control :: bool
  ic_pprof :: bool
  ic_pprof_key_auth :: bool
  ic_block_profile_rate :: int
  ic_mutex_profile_fraction :: int
  ic_secret :: string
  ic_database :: string

record init_env =
  ri_files :: "go_error + (string \<times> bool) list"
  ri_parse :: "string \<Rightarrow> go_error option"
  ri_register :: "string \<Rightarrow> go_error option"

record init_world =
  iw_echo :: "registration list"
  iw_metrics :: "string list"

definition reg :: "registration list \<Rightarrow> (init_world, unit) prog" where
  "reg rs = (\<lambda>w. (Ok (), w\<lparr>iw_echo := iw_echo w @ rs\<rparr>))"

definition on_metrics :: "(string list, unit) prog \<Rightarrow> (init_world, unit) prog" where
  "on_metrics m = (\<lambda>w. case m (iw_metrics w) of (r, t) \<Rightarrow> (r, w\<lparr>iw_metrics := t\<rparr>))"

fun parse_views :: "(string \<Rightarrow> go_error option) \<Rightarrow> (string \<times> bool) list \<Rightarrow> (init_world, string list) prog" where
  "parse_views parse [] = okP []"
| "parse_views parse ((name, is_dir) # fs) =
     (if is_dir then parse_views parse fs
      else (case parse name of
          Some x \<Rightarrow> errP (ErrWrap ''failed to parse template file'' x)
        | None \<Rightarrow> bindP (parse_views parse fs) (\<lambda>ts. okP (name # ts))))"

definition whenP :: "bool \<Rightarrow> (init_world, unit) prog \<Rightarrow> (init_world, unit) prog" where
  "whenP b m = (if b then m else okP ())"

definition pprof_routes :: "init_config \<Rightarrow> registration list" where
  "pprof_routes cfg =
     (let pprofAuth = (if ic_pprof_key_auth cfg then MKeyAuth (ic_secret cfg) False else MNoop) in
      [Attach echo_root ''GET'' ''/debug/pprof'' [pprofAuth], Attach echo_root ''ANY'' ''/debug/pprof/*'' [pprofAuth]] @
      (if ic_block_profile_rate cfg \<noteq> 0 then [SetBlockProfileRate (ic_block_profile_rate cfg)] else []) @
      (if ic_mutex_profile_fraction cfg \<noteq> 0 then [SetMutexProfileFraction (ic_mutex_profile_fraction cfg)] else []))"

definition Init :: "init_env \<Rightarrow> init_config \<Rightarrow> (init_world, router) prog" where
  "Init e cfg =
     bindP (case ri_files e of
         Inl x \<Rightarrow> errP (ErrWrap ''failed to read views templates dir'' x)
       | Inr files \<Rightarrow> parse_views (ri_parse e) files) (\<lambda>views.
     thenP (reg [SetRenderer views])
    (thenP (whenP (ic_enable_metrics cfg)
              (thenP (reg [Use MPrometheus]) (on_metrics (RegisterMetrics (ri_register e) (ic_database cfg)))))
    (thenP (whenP (ic_trailing_slash cfg) (reg [Pre MRemoveTrailingSlash]))
    (thenP (whenP (ic_recover cfg) (reg [Use MRecover]))
    (thenP (whenP (ic_secure cfg) (reg [Use (MSecure (ic_secure_settings cfg))]))
    (thenP (whenP (ic_request_id cfg) (reg [Use MRequestID]))
    (thenP (whenP (ic_logger cfg) (reg [Use (MLogger (ic_logger_switches cfg))]))
    (thenP (whenP (ic_cors cfg) (reg [Use MCORS]))
    (thenP (whenP (ic_cache_control cfg) (reg [Use MCacheControl]))
    (thenP (whenP (ic_pprof cfg) (reg (pprof_routes cfg)))
    (let R = new_router (ic_secret cfg) in
     thenP (reg (AttachAllRoutes R))
    (thenP (whenP (ic_enable_metrics cfg) (reg [Attach echo_root ''GET'' ''/metrics'' []]))
       (okP R)))))))))))))"

section \<open>What is registered\<close>

definition switched :: "bool \<Rightarrow> registration list \<Rightarrow> registration list" where
  "switched b rs = (if b then rs else [])"

text \<open>The registrations of a successful \<open>Init\<close>, in their order.\<close>

definition registrations :: "init_config \<Rightarrow> string list \<Rightarrow> registration list" where
  "registrations cfg views = SetRenderer views # switched (ic_enable_metrics cfg) [Use MPrometheus] @
     switched (ic_trailing_slash cfg) [Pre MRemoveTrailingSlash] @ switched (ic_recover cfg) [Use MRecover] @
     switched (ic_secure cfg) [Use (MSecure (ic_secure_settings cfg))] @ switched (ic_request_id cfg) [Use MRequestID] @
     switched (ic_logger cfg) [Use (MLogger (ic_logger_switches cfg))] @ switched (ic_cors cfg) [Use MCORS] @
     switched (ic_cache_control cfg) [Use MCacheControl] @ switched (ic_pprof cfg) (pprof_routes cfg) @
     AttachAllRoutes (new_router (ic_secret cfg)) @ switched (ic_enable_metrics cfg) [Attach echo_root ''GET'' ''/metrics'' []]"

lemma reg_iff [outcome_simps]: "reg rs w = (r, t) \<longleftrightarrow> r = Ok () \<and> t = w\<lparr>iw_echo := iw_echo w @ rs\<rparr>"
  by (auto simp: reg_def)

lemma whenP_reg: "whenP b (reg rs) w = (r, t) \<longleftrightarrow> r = Ok () \<and> t = w\<lparr>iw_echo := iw_echo w @ switched b rs\<rparr>"
  by (auto simp: whenP_def switched_def outcome_simps)

lemma parse_views_Ok: "parse_views parse fs w = (Ok ts, t) \<Longrightarrow> t = w \<and> ts = map fst (filter (\<lambda>f. \<not> snd f) fs)"
  by (induction fs arbitrary: ts rule: parse_views.induct) (auto simp: outcome_simps split: if_splits option.splits)

lemma on_metrics_Ok: "on_metrics m w = (Ok x, t) \<Longrightarrow> iw_echo t = iw_echo w"
  by (auto simp: on_metrics_def split: prod.splits)

lemma Init_Ok:
  assumes "Init e cfg w = (Ok R, t)"
  shows "R = new_router (ic_secret cfg) \<and>
    (\<exists>files. ri_files e = Inr files \<and>
      iw_echo t = iw_echo w @ registrations cfg (map fst (filter (\<lambda>f. \<not> snd f) files)))"
proof -
  from assms obtain files views w' where files: "ri_files e = Inr files" and run: "parse_views (ri_parse e) files w = (Ok views, w')"
    unfolding Init_def bindP_Ok_iff by (cases "ri_files e") (auto simp: errP_iff)
  have views: "parse_views (ri_parse e) files w = (Ok views, w)" using parse_views_Ok [OF run] run by simp
  have v: "views = map fst (filter (\<lambda>f. \<not> snd f) files)" using parse_views_Ok [OF views] by simp
  from assms obtain u where met: "whenP (ic_enable_metrics cfg)
      (thenP (reg [Use MPrometheus]) (on_metrics (RegisterMetrics (ri_register e) (ic_database cfg))))
      (w\<lparr>iw_echo := iw_echo w @ [SetRenderer views]\<rparr>) = (Ok (), u)"
    and rest: "R = new_router (ic_secret cfg)" "iw_echo t = iw_echo u @ drop (Suc (length (switched (ic_enable_metrics cfg) [Use MPrometheus]))) (registrations cfg views)"
    by (auto simp: Init_def files bindP_def views thenP_def [symmetric] thenP_Ok_iff reg_iff whenP_reg okP_iff Let_def registrations_def switched_def)
  have "iw_echo u = iw_echo w @ SetRenderer views # switched (ic_enable_metrics cfg) [Use MPrometheus]"
    using met by (auto simp: whenP_def switched_def outcome_simps dest: on_metrics_Ok split: if_splits)
  then show ?thesis using rest files v by (auto simp: registrations_def switched_def)
qed

section \<open>Who may call what\<close>

text \<open>What echo documents of a route in a group: its path, and the middleware that runs before its handler.\<close>

primrec attached_path :: "registration \<Rightarrow> string" where
  "attached_path (Attach g m p ms) = gr_prefix g @ p"
| "attached_path (SetRenderer ts) = []"
| "attached_path (Pre m) = []"
| "attached_path (Use m) = []"
| "attached_path (SetBlockProfileRate n) = []"
| "attached_path (SetMutexProfileFraction n) = []"

primrec attached_middleware :: "registration \<Rightarrow> middleware list" where
  "attached_middleware (Attach g m p ms) = gr_middleware g @ ms"
| "attached_middleware (SetRenderer ts) = []"
| "attached_middleware (Pre m) = []"
| "attached_middleware (Use m) = []"
| "attached_middleware (SetBlockProfileRate n) = []"
| "attached_middleware (SetMutexProfileFraction n) = []"

primrec attached_method :: "registration \<Rightarrow> string" where
  "attached_method (Attach g m p ms) = m"
| "attached_method (SetRenderer ts) = []"
| "attached_method (Pre m) = []"
| "attached_method (Use m) = []"
| "attached_method (SetBlockProfileRate n) = []"
| "attached_method (SetMutexProfileFraction n) = []"

lemma group_simps [simp]:
  "rtr_management (new_router s) = \<lparr>gr_prefix = ''/-'', gr_middleware = [MKeyAuth s True, MNoCache]\<rparr>"
  "rtr_auth (new_router s) = \<lparr>gr_prefix = ''/api/v1/auth'', gr_middleware = []\<rparr>"
  "rtr_push (new_router s) = \<lparr>gr_prefix = ''/api/v1/push'', gr_middleware = [MAuth]\<rparr>"
  "rtr_vault (new_router s) = \<lparr>gr_prefix = ''/api/v1/vaults'', gr_middleware = [MAuth]\<rparr>"
  "rtr_sign (new_router s) = \<lparr>gr_prefix = ''/api/v1'', gr_middleware = [MAuth]\<rparr>"
  "rtr_well_known (new_router s) = \<lparr>gr_prefix = ''/.well-known'', gr_middleware = []\<rparr>"
  "rtr_org (new_router s) = \<lparr>gr_prefix = ''/api/v1/organizations'', gr_middleware = [MAuth]\<rparr>"
  by (simp_all add: new_router_def)

lemmas route_lists = AttachAllRoutes_def GetHealthyRoute_def GetReadyRoute_def GetVersionRoute_def GetSwaggerRoute_def
  GetAndroidDigitalAssetLinksRoute_def GetAppleAppSiteAssociationRoute_def echo_root_def

text \<open>Every constructor of \<open>route\<close> is attached, and no two routes share method and path.\<close>

lemma route_is_attached: "route_attachment R r \<in> set (AttachAllRoutes R)"
  by (cases r) (simp_all add: AttachAllRoutes_def)

lemma routes_distinct: "distinct (map (\<lambda>a. (attached_method a, attached_path a)) (AttachAllRoutes (new_router s)))"
  by (simp add: route_lists)

lemma management_needs_key:
  "list_all (\<lambda>a. strings_HasPrefix (attached_path a) ''/-'' \<longrightarrow> {MKeyAuth s True, MNoCache} \<subseteq> set (attached_middleware a))
     (AttachAllRoutes (new_router s))"
  by (simp add: route_lists strings_HasPrefix_def)

lemma metrics_are_public:
  assumes "Init e cfg w = (Ok R, t)" and "ic_enable_metrics cfg"
  shows "Attach echo_root ''GET'' ''/metrics'' [] \<in> set (iw_echo t)"
  using Init_Ok [OF assms(1)] assms(2) by (auto simp: registrations_def switched_def)

text \<open>The routes that run their handler without the guard.\<close>

lemma unguarded_routes:
  "map attached_path (filter (\<lambda>a. MAuth \<notin> set (attached_middleware a) \<and> \<not> strings_HasPrefix (attached_path a) ''/api/v1/auth'')
      (AttachAllRoutes (new_router s))) =
    [''/-/healthy'', ''/-/ready'', ''/swagger.yml'', ''/-/version'', ''/.well-known/assetlinks.json'',
     ''/.well-known/apple-app-site-association'']"
  by (simp add: route_lists strings_HasPrefix_def)

lemma guarded_route_run:
  assumes "MAuth \<in> set (attached_middleware (route_attachment (new_router s) r))" and "run_route sc req r w = (res, t)"
  shows "\<not> is_ok res \<and> db t = db w \<and> tx t = tx w \<or> (\<exists>u. holder sc req (db w) u)"
proof -
  have *: "\<not> is_ok res \<and> db t = db w \<and> tx t = tx w \<or> (\<exists>u. holder sc req (db w) u)"
    if "status (guarded sc h req) w = (res, t)" for h :: "request_context \<Rightarrow> (world, int \<times> 'v) prog"
  proof -
    from that obtain r' where run: "guarded sc h req w = (r', t)" and "is_ok res \<longrightarrow> is_ok r'"
      by (cases "guarded sc h req w") (auto simp: status_def bindP_def okP_def split: outcome.splits)
    then show ?thesis using guarded_run [OF run] by blast
  qed
  show ?thesis
    using assms by (cases r)
      (auto simp: PutUpdatePushTokenRoute_def PostCreateVaultRoute_def PostCreateWalletRoute_def PostCreateSigningRequestRoute_def
        PostApproveSigningRequestRoute_def GetListSigningRequestsRoute_def PostCreateOrganizationRoute_def GetListOrganizationsRoute_def
        GetListOrganizationMembersRoute_def PostAddOrganizationMemberRoute_def DeleteOrganizationMemberRoute_def dest!: *)
qed

lemma api_is_guarded:
  assumes "strings_HasPrefix (attached_path (route_attachment (new_router s) r)) ''/api/v1''"
    and "\<not> strings_HasPrefix (attached_path (route_attachment (new_router s) r)) ''/api/v1/auth''"
  shows "MAuth \<in> set (attached_middleware (route_attachment (new_router s) r))"
  using assms by (cases r) (simp_all add: strings_HasPrefix_def)


definition quiet_init :: init_env where
  "quiet_init = \<lparr>ri_files = Inr [(''register.html'', False), (''partials'', True)], ri_parse = (\<lambda>_. None), ri_register = (\<lambda>_. None)\<rparr>"

definition default_secure :: secure_settings where
  "default_secure = \<lparr>se_xss_protection = ''1; mode=block'', se_content_type_nosniff = ''nosniff'', se_x_frame_options = ''SAMEORIGIN'',
     se_hsts_max_age = 0, se_hsts_exclude_subdomains = False, se_content_security_policy = [], se_csp_report_only = False,
     se_hsts_preload_enabled = False, se_referrer_policy = []\<rparr>"

definition default_init :: init_config where
  "default_init = \<lparr>ic_enable_metrics = True, ic_trailing_slash = True, ic_recover = True, ic_secure = True,
     ic_secure_settings = default_secure, ic_request_id = True, ic_logger = True,
     ic_logger_switches = \<lparr>sw_request_body = False, sw_request_header = False, sw_request_query = False, sw_response_body = False,
       sw_response_header = False\<rparr>,
     ic_cors = True, ic_cache_control = True, ic_pprof = False, ic_pprof_key_auth = True, ic_block_profile_rate = 0,
     ic_mutex_profile_fraction = 0, ic_secret = ''mgmt'', ic_database = ''development''\<rparr>"


end
