(* ===== verification/Query_Mods.thy ===== *)
theory Query_Mods
  imports Go_Strings
begin

text \<open>
  internal/util/db: the query mods that are put together from names and values (or.go, where_in.go,
  order_by.go, join.go, json.go).  A query mod of sqlboiler is the constructor that made it with its
  clause and arguments; a value that is inspected by reflection is a tree of its kinds.
\<close>

section \<open>Values and query mods\<close>

text \<open>
  \<open>GScalar k x\<close>: a value of any other kind \<open>k\<close> with its text.  A field: whether it is exported, its json
  tag and its value.  A nil pointer and a nil slice are \<open>None\<close>.
\<close>

datatype gval = GString string | GScalar string string | GStruct "gfield list" | GPtr "gval option"
    | GArray "gval list" | GSlice "gval list option"
  and gfield = GField bool string gval

datatype mod_arg = Arg gval | ArrayArg gval

datatype qmod = MWhere string "mod_arg list" | MExpr "qmod list" | MOr2 qmod | MOrderBy string
  | MInnerJoin string "gval list" | MLeftOuterJoin string "gval list"

section \<open>Combining, lists, order and joins\<close>

definition CombineWithOr :: "qmod list \<Rightarrow> qmod list" where
  "CombineWithOr qms =
     (if length qms = 0 then []
      else if length qms = 1 then qms
      else [MExpr (hd qms # map MOr2 (tl qms))])"

definition string_array :: "string list \<Rightarrow> mod_arg" where
  "string_array xs = ArrayArg (GSlice (Some (map GString xs)))"

definition IN :: "string \<Rightarrow> string list \<Rightarrow> qmod" where
  "IN path slice = MWhere (path @ '' = any(?)'') [string_array slice]"

definition NIN :: "string \<Rightarrow> string list \<Rightarrow> qmod" where
  "NIN path slice = MWhere (path @ '' <> all(?)'') [string_array slice]"

definition WhereIn :: "string \<Rightarrow> string \<Rightarrow> string list \<Rightarrow> qmod" where
  "WhereIn tableName columnName slice = IN (tableName @ ''.'' @ columnName) slice"

definition OrderBy :: "string \<Rightarrow> string list \<Rightarrow> qmod" where
  "OrderBy orderDir path = MOrderBy (strings_Join path ''.'' @ '' '' @ strings_ToUpper orderDir)"

definition OrderByLower :: "string \<Rightarrow> string list \<Rightarrow> qmod" where
  "OrderByLower orderDir path = MOrderBy (''LOWER('' @ strings_Join path ''.'' @ '') '' @ strings_ToUpper orderDir)"

definition OrderByWithNulls :: "string \<Rightarrow> string \<Rightarrow> string list \<Rightarrow> qmod" where
  "OrderByWithNulls orderDir orderByNulls path =
     MOrderBy (strings_Join path ''.'' @ '' '' @ strings_ToUpper orderDir @ '' NULLS '' @ orderByNulls)"

definition OrderByLowerWithNulls :: "string \<Rightarrow> string \<Rightarrow> string list \<Rightarrow> qmod" where
  "OrderByLowerWithNulls orderDir orderByNulls path =
     MOrderBy (''LOWER('' @ strings_Join path ''.'' @ '') '' @ strings_ToUpper orderDir @ '' NULLS '' @ orderByNulls)"

definition join_on :: "string \<Rightarrow> string \<Rightarrow> string \<Rightarrow> string \<Rightarrow> string" where
  "join_on baseTable baseColumn joinTable joinColumn =
     joinTable @ '' ON '' @ joinTable @ ''.'' @ joinColumn @ ''='' @ baseTable @ ''.'' @ baseColumn"

definition InnerJoin :: "string \<Rightarrow> string \<Rightarrow> string \<Rightarrow> string \<Rightarrow> qmod" where
  "InnerJoin baseTable baseColumn joinTable joinColumn = MInnerJoin (join_on baseTable baseColumn joinTable joinColumn) []"

definition LeftOuterJoin :: "string \<Rightarrow> string \<Rightarrow> string \<Rightarrow> string \<Rightarrow> qmod" where
  "LeftOuterJoin baseTable baseColumn joinTable joinColumn = MLeftOuterJoin (join_on baseTable baseColumn joinTable joinColumn) []"

definition filter_table :: "string \<Rightarrow> string list \<Rightarrow> string" where
  "filter_table joinTable optFilterTable = (if length optFilterTable > 0 then hd optFilterTable else joinTable)"

definition InnerJoinWithFilter ::
    "string \<Rightarrow> string \<Rightarrow> string \<Rightarrow> string \<Rightarrow> string \<Rightarrow> gval \<Rightarrow> string list \<Rightarrow> qmod" where
  "InnerJoinWithFilter baseTable baseColumn joinTable joinColumn filterColumn filterValue optFilterTable =
     MInnerJoin (join_on baseTable baseColumn joinTable joinColumn @ '' AND '' @ filter_table joinTable optFilterTable @ ''.'' @
       filterColumn @ ''=?'') [filterValue]"

definition LeftOuterJoinWithFilter ::
    "string \<Rightarrow> string \<Rightarrow> string \<Rightarrow> string \<Rightarrow> string \<Rightarrow> gval \<Rightarrow> string list \<Rightarrow> qmod" where
  "LeftOuterJoinWithFilter baseTable baseColumn joinTable joinColumn filterColumn filterValue optFilterTable =
     MLeftOuterJoin (join_on baseTable baseColumn joinTable joinColumn @ '' AND '' @ filter_table joinTable optFilterTable @ ''.'' @
       filterColumn @ ''=?'') [filterValue]"

section \<open>\<open>WhereJSON\<close>\<close>

definition whereJSONMaxLevel :: nat where
  "whereJSONMaxLevel = 10"

definition json_key :: "string \<Rightarrow> string" where
  "json_key tag = hd (split_char (CHR '','') tag)"

definition quoted :: "string \<Rightarrow> string" where
  "quoted key = [CHR 0x27] @ key @ [CHR 0x27]"

text \<open>The two statements at the end of the loop.\<close>

definition json_mod :: "string \<Rightarrow> string \<Rightarrow> string \<Rightarrow> bool \<Rightarrow> gval \<Rightarrow> qmod" where
  "json_mod table column jsonkey isArray val =
     (if isArray then MWhere (table @ ''.'' @ column @ ''->'' @ quoted jsonkey @ '' <@ to_jsonb(?::text[])'') [ArrayArg val]
      else MWhere (table @ ''.'' @ column @ ''->>'' @ quoted jsonkey @ '' = ?'') [Arg val])"

definition append_mods :: "qmod list \<Rightarrow> qmod list outcome \<Rightarrow> qmod list outcome" where
  "append_mods ms r = (case r of Ok ns \<Rightarrow> Ok (ms @ ns) | Err x \<Rightarrow> Err x | Panic c \<Rightarrow> Panic c)"

definition kind_text :: "gval \<Rightarrow> string" where
  "kind_text v = (case v of GString s \<Rightarrow> ''string'' | GScalar k x \<Rightarrow> k | GStruct fs \<Rightarrow> ''struct'' | GPtr p \<Rightarrow> ''ptr''
     | GArray xs \<Rightarrow> ''array'' | GSlice xs \<Rightarrow> ''slice'')"

definition is_list_kind :: "gval \<Rightarrow> bool" where
  "is_list_kind v = (case v of GArray _ \<Rightarrow> True | GSlice _ \<Rightarrow> True | _ \<Rightarrow> False)"

text \<open>
  \<open>reflect.Value.IsNil\<close> panics for an array.  A pointer's \<open>Elem\<close> of kind array or slice is passed as an
  array argument.
\<close>

fun whereJSON :: "string \<Rightarrow> string \<Rightarrow> gval \<Rightarrow> nat \<Rightarrow> qmod list outcome"
  and where_fields :: "string \<Rightarrow> string \<Rightarrow> gfield list \<Rightarrow> nat \<Rightarrow> qmod list outcome"
  and where_field :: "string \<Rightarrow> string \<Rightarrow> gfield \<Rightarrow> nat \<Rightarrow> qmod list outcome" where
  "whereJSON table column filterVal level =
     (if level \<ge> whereJSONMaxLevel then Panic ''whereJSON reached maximum recursion''
      else (case filterVal of
          GStruct fs \<Rightarrow> where_fields table column fs level
        | GString s \<Rightarrow> Ok [MWhere (table @ ''.'' @ column @ ''::text = ?'') [Arg (GString s)]]
        | v \<Rightarrow> Panic (''invalid filter type '' @ kind_text v)))"
| "where_fields table column [] level = Ok []"
| "where_fields table column (f # fs) level = (case where_field table column f level of
      Ok ms \<Rightarrow> append_mods ms (where_fields table column fs level)
    | Err x \<Rightarrow> Err x
    | Panic c \<Rightarrow> Panic c)"
| "where_field table column (GField exported tag v) level =
     (if \<not> exported then Ok []
      else if json_key tag = ''-'' then Ok []
      else (case v of
          GStruct gs \<Rightarrow> whereJSON table column (GStruct gs) (Suc level)
        | _ \<Rightarrow>
          if json_key tag = [] then Ok []
          else (case v of
              GPtr None \<Rightarrow> Ok []
            | GPtr (Some x) \<Rightarrow> Ok [json_mod table column (json_key tag) (is_list_kind x) x]
            | GArray xs \<Rightarrow> Panic ''reflect: call of reflect.Value.IsNil on array Value''
            | GSlice None \<Rightarrow> Ok []
            | GSlice (Some xs) \<Rightarrow> Ok [json_mod table column (json_key tag) True v]
            | _ \<Rightarrow> Ok [json_mod table column (json_key tag) False v])))"

text \<open>\<open>None\<close> is the nil interface, whose \<open>TypeOf\<close> is nil.\<close>

definition WhereJSON :: "string \<Rightarrow> string \<Rightarrow> gval option \<Rightarrow> qmod outcome" where
  "WhereJSON table column filterVal = (case filterVal of
      None \<Rightarrow> Panic ''invalid memory address or nil pointer dereference''
    | Some v \<Rightarrow> (case whereJSON table column v 0 of
        Ok qms \<Rightarrow> if length qms = 0 then Panic ''filter resulted in empty query'' else Ok (MExpr qms)
      | Err x \<Rightarrow> Err x | Panic c \<Rightarrow> Panic c))"

section \<open>What \<open>WhereJSON\<close> selects\<close>

text \<open>
  The conditions as the documentation describes them: of every exported field with a key other than \<open>-\<close>,
  unless it is nil, and of the fields of the structs inside.
\<close>

fun json_leaves :: "gfield \<Rightarrow> (string \<times> bool \<times> gval) list" where
  "json_leaves (GField exported tag v) =
     (if \<not> exported \<or> json_key tag = ''-'' then []
      else case v of
          GStruct fs \<Rightarrow> concat (map json_leaves fs)
        | GPtr None \<Rightarrow> []
        | GSlice None \<Rightarrow> []
        | GPtr (Some x) \<Rightarrow> if json_key tag = [] then [] else [(json_key tag, is_list_kind x, x)]
        | GSlice (Some xs) \<Rightarrow> if json_key tag = [] then [] else [(json_key tag, True, v)]
        | _ \<Rightarrow> if json_key tag = [] then [] else [(json_key tag, False, v)])"

text \<open>
  Which fields a struct at a level may have: structs that are not too deep, and no arrays (a pointer to
  an array is fine).
\<close>

fun fits :: "nat \<Rightarrow> gfield \<Rightarrow> bool" where
  "fits n (GField exported tag v) \<longleftrightarrow> \<not> exported \<or> json_key tag = ''-'' \<or>
     (case v of
        GStruct fs \<Rightarrow> Suc n < whereJSONMaxLevel \<and> list_all (fits (Suc n)) fs
      | GArray xs \<Rightarrow> json_key tag = []
      | _ \<Rightarrow> True)"

definition leaf_mod :: "string \<Rightarrow> string \<Rightarrow> string \<times> bool \<times> gval \<Rightarrow> qmod" where
  "leaf_mod table column = (\<lambda>(key, isArray, v). json_mod table column key isArray v)"

lemma append_mods_simps [simp]:
  "append_mods ms (Ok ns) = Ok (ms @ ns)" "append_mods ms (Panic c) = Panic c" "append_mods ms (Err x) = Err x"
  by (simp_all add: append_mods_def)

lemma where_fields_run:
  shows "n < whereJSONMaxLevel \<Longrightarrow> v = GStruct fs \<Longrightarrow>
      (if list_all (fits n) fs then whereJSON table column v n = Ok (map (leaf_mod table column) (concat (map json_leaves fs)))
       else \<exists>c. whereJSON table column v n = Panic c)"
    and "n < whereJSONMaxLevel \<Longrightarrow>
      (if list_all (fits n) gs then where_fields table column gs n = Ok (map (leaf_mod table column) (concat (map json_leaves gs)))
       else \<exists>c. where_fields table column gs n = Panic c)"
    and "n < whereJSONMaxLevel \<Longrightarrow>
      (if fits n g then where_field table column g n = Ok (map (leaf_mod table column) (json_leaves g))
       else \<exists>c. where_field table column g n = Panic c)"
proof (induction table column v n and table column gs n and table column g n arbitrary: fs
    rule: whereJSON_where_fields_where_field.induct)
  case (4 table column exported tag v n)
  show ?case
  proof (cases "\<exists>fs. v = GStruct fs \<and> exported \<and> json_key tag \<noteq> ''-'' \<and> Suc n < whereJSONMaxLevel")
    case True
    then show ?thesis using 4(1) by auto
  next
    case False
    then show ?thesis
      by (cases v) (auto simp: leaf_mod_def simp del: whereJSON.simps split: option.splits,
        auto simp: whereJSON.simps [of table column _ "Suc n"])
  qed
qed (auto split: if_splits)

text \<open>
  What a JSON filter asks for.  For a struct whose structs are nested at most ten deep and which has no
  array among its selected fields the query is the conjunction of one condition per selected field, in
  their order, the fields of inner structs among those of the outer one; a filter that selects nothing,
  is nested deeper or selects an array panics.
\<close>

theorem WhereJSON_selects:
  "if list_all (fits 0) fs \<and> concat (map json_leaves fs) \<noteq> []
   then WhereJSON table column (Some (GStruct fs)) = Ok (MExpr (map (leaf_mod table column) (concat (map json_leaves fs))))
   else \<exists>c. WhereJSON table column (Some (GStruct fs)) = Panic c"
proof -
  have "0 < whereJSONMaxLevel" by (simp add: whereJSONMaxLevel_def)
  from where_fields_run(1) [OF this refl, of fs table column] show ?thesis
    unfolding WhereJSON_def by (auto simp del: whereJSON.simps split: if_splits)
qed

text \<open>An array as a field panics, although arrays are said to be supported; a pointer to it is not refused.\<close>

lemma WhereJSON_array:
  "WhereJSON ''t'' ''c'' (Some (GStruct [GField True ''phones'' (GArray [GString ''1''])])) =
     Panic ''reflect: call of reflect.Value.IsNil on array Value''"
  "WhereJSON ''t'' ''c'' (Some (GStruct [GField True ''phones'' (GPtr (Some (GArray [GString ''1''])))])) =
     Ok (MExpr [json_mod ''t'' ''c'' ''phones'' True (GArray [GString ''1''])])"
  by (simp_all add: WhereJSON_def whereJSONMaxLevel_def json_key_def is_list_kind_def)

text \<open>
  What an expression means to the database, by the documentation of sqlboiler and SQL: the clauses of
  \<open>Expr\<close> stand in parentheses and are joined by AND, or by OR before an \<open>Or2\<close>, and AND binds tighter.
\<close>

fun mod_holds :: "(qmod \<Rightarrow> bool) \<Rightarrow> qmod \<Rightarrow> bool"
  and expr_holds :: "(qmod \<Rightarrow> bool) \<Rightarrow> bool \<Rightarrow> qmod list \<Rightarrow> bool" where
  "mod_holds base (MExpr ms) \<longleftrightarrow> expr_holds base True ms"
| "mod_holds base (MOr2 m) \<longleftrightarrow> mod_holds base m"
| "mod_holds base m \<longleftrightarrow> base m"
| "expr_holds base acc [] \<longleftrightarrow> acc"
| "expr_holds base acc (MOr2 m # ms) \<longleftrightarrow> acc \<or> expr_holds base (mod_holds base m) ms"
| "expr_holds base acc (m # ms) \<longleftrightarrow> expr_holds base (acc \<and> mod_holds base m) ms"

lemma expr_holds_or: "expr_holds base acc (map MOr2 ms) \<longleftrightarrow> acc \<or> list_ex (mod_holds base) ms"
  by (induction ms arbitrary: acc) auto

lemma CombineWithOr_holds:
  assumes "qms \<noteq> []" and "\<And>m. hd qms \<noteq> MOr2 m"
  shows "list_all (mod_holds base) (CombineWithOr qms) \<longleftrightarrow> list_ex (mod_holds base) qms"
proof (cases qms)
  case (Cons q ms)
  then show ?thesis
    using assms(2) by (cases q; cases ms) (auto simp: CombineWithOr_def expr_holds_or simp flip: map_map)
qed (use assms in simp)

lemma CombineWithOr_empty: "list_all (mod_holds base) (CombineWithOr [])"
  by (simp add: CombineWithOr_def)

end
