(* ===== verification/Mail_Transports.thy ===== *)
theory Mail_Transports
  imports Auth_Handlers
begin

text \<open>
  internal/mailer/transport and the construction of the mailer (mailer.go): the settings of SMTP, the
  LOGIN authentication, the mock transport of the tests, and the templates of the mails.  Sending over
  the network and parsing templates are parameters.
\<close>

section \<open>Settings\<close>

datatype SMTPAuthType = SMTPAuthTypeNone | SMTPAuthTypePlain | SMTPAuthTypeCRAMMD5 | SMTPAuthTypeLogin

fun SMTPAuthType_String :: "SMTPAuthType \<Rightarrow> string" where
  "SMTPAuthType_String SMTPAuthTypeNone = ''none''"
| "SMTPAuthType_String SMTPAuthTypePlain = ''plain''"
| "SMTPAuthType_String SMTPAuthTypeCRAMMD5 = ''cram-md5''"
| "SMTPAuthType_String SMTPAuthTypeLogin = ''login''"

definition SMTPAuthTypeFromString :: "string \<Rightarrow> SMTPAuthType" where
  "SMTPAuthTypeFromString s =
     (let t = strings_ToLower s in
      if t = ''plain'' then SMTPAuthTypePlain
      else if t = ''cram-md5'' then SMTPAuthTypeCRAMMD5
      else if t = ''login'' then SMTPAuthTypeLogin
      else SMTPAuthTypeNone)"

text \<open>\<open>SMTPEncryption\<close> is a string.\<close>

definition SMTPEncryptionFromString :: "string \<Rightarrow> string" where
  "SMTPEncryptionFromString s =
     (let t = strings_ToLower s in
      if t = ''tls'' then ''tls''
      else if t = ''starttls'' then ''starttls''
      else ''none'')"

record smtp_config =
  sm_host :: string
  sm_port :: int
  sm_auth_type :: SMTPAuthType
  sm_username :: string
  sm_password :: string
  sm_encryption :: string

lemma SMTPAuthTypeFromString_String [simp]: "SMTPAuthTypeFromString (SMTPAuthType_String t) = t"
  by (cases t) (simp_all add: SMTPAuthTypeFromString_def strings_ToLower_def lower_char_def is_upper_def code_def Let_def)

lemma SMTPEncryptionFromString_valid: "SMTPEncryptionFromString s \<in> {''none'', ''tls'', ''starttls''}"
  by (simp add: SMTPEncryptionFromString_def Let_def)

section \<open>LOGIN\<close>

record login_auth =
  la_username :: string
  la_password :: string
  la_host :: string

definition LoginAuth :: "string \<Rightarrow> string \<Rightarrow> string list \<Rightarrow> login_auth" where
  "LoginAuth username password host = \<lparr>la_username = username, la_password = password,
     la_host = (if length host > 0 then hd host else [])\<rparr>"

text \<open>\<open>smtp.ServerInfo\<close>: the name of the server and whether the connection is encrypted.\<close>

record server_info =
  si_name :: string
  si_tls :: bool

definition login_Start :: "login_auth \<Rightarrow> server_info \<Rightarrow> go_error + (string \<times> string)" where
  "login_Start a server =
     (if length (la_host a) > 0 \<and> si_name server \<noteq> la_host a then Inl (ErrPlain ''wrong host name'')
      else Inr (''LOGIN'', la_username a))"

definition login_Next :: "(string \<Rightarrow> string) \<Rightarrow> login_auth \<Rightarrow> string \<Rightarrow> bool \<Rightarrow> go_error + string" where
  "login_Next quote a fromServer go_on =
     (if go_on then
        (if fromServer = ''Username:'' then Inr (la_username a)
         else if fromServer = ''Password:'' then Inr (la_password a)
         else Inl (ErrPlain (''unknown challenge received from server: '' @ quote fromServer)))
      else Inr [])"

text \<open>
  A host check never lets the credentials go to another server; but whether the connection is encrypted
  is not looked at.
\<close>

lemma login_only_to_host:
  assumes "login_Start (LoginAuth u p [h]) server = Inr x" and "h \<noteq> []"
  shows "si_name server = h"
  using assms by (auto simp: login_Start_def LoginAuth_def split: if_splits)

lemma login_ignores_encryption:
  "login_Start (LoginAuth u p [h]) \<lparr>si_name = h, si_tls = False\<rparr> = Inr (''LOGIN'', u)"
  "login_Next q (LoginAuth u p [h]) ''Password:'' True = Inr p"
  by (simp_all add: login_Start_def login_Next_def LoginAuth_def)

section \<open>SMTP\<close>

datatype smtp_auth = PlainAuth string string string | CRAMMD5Auth string string | Login login_auth

record smtp_transport =
  st_config :: smtp_config
  st_addr :: string
  st_auth :: "smtp_auth option"

text \<open>\<open>join\<close> is \<open>net.JoinHostPort\<close>.\<close>

definition NewSMTP :: "(string \<Rightarrow> string \<Rightarrow> string) \<Rightarrow> smtp_config \<Rightarrow> smtp_transport" where
  "NewSMTP join config = \<lparr>st_config = config, st_addr = join (sm_host config) (show_int (sm_port config)),
     st_auth = (case sm_auth_type config of
        SMTPAuthTypePlain \<Rightarrow> Some (PlainAuth (sm_username config) (sm_password config) (sm_host config))
      | SMTPAuthTypeCRAMMD5 \<Rightarrow> Some (CRAMMD5Auth (sm_username config) (sm_password config))
      | SMTPAuthTypeLogin \<Rightarrow> Some (Login (LoginAuth (sm_username config) (sm_password config) [sm_host config]))
      | SMTPAuthTypeNone \<Rightarrow> None)\<rparr>"

text \<open>\<open>net\<close> is what the library answers for a mode: plain, TLS or STARTTLS.\<close>

definition smtp_Send :: "(string \<Rightarrow> string \<Rightarrow> smtp_auth option \<Rightarrow> mail \<Rightarrow> go_error option) \<Rightarrow> (string \<Rightarrow> string) \<Rightarrow>
    smtp_transport \<Rightarrow> mail \<Rightarrow> go_error option" where
  "smtp_Send net quote m ml =
     (let enc = sm_encryption (st_config m) in
      if enc \<in> set [''none'', ''tls'', ''starttls'']
      then map_option (ErrWrap ''failed to send email'') (net enc (st_addr m) (st_auth m) ml)
      else Some (ErrPlain (''invalid SMTP encryption '' @ quote enc)))"

section \<open>The mock\<close>

text \<open>
  The mails, the number that is expected and the counter of the wait group, whose \<open>Done\<close> and \<open>Add\<close> panic
  when it would become negative; \<open>on_sent\<close> is \<open>OnMailSent\<close>, which may panic.
\<close>

record mock_transport =
  mk_mails :: "mail list"
  mk_expected :: int
  mk_waiting :: int

definition NewMock :: mock_transport where
  "NewMock = \<lparr>mk_mails = [], mk_expected = 0, mk_waiting = 0\<rparr>"

definition log_Fatalf :: "string \<Rightarrow> (mock_transport, 'a) prog" where
  "log_Fatalf msg = panicP (''exit status 1: '' @ msg)"

definition wg_Add :: "int \<Rightarrow> (mock_transport, unit) prog" where
  "wg_Add n = (\<lambda>m. if mk_waiting m + n < 0 then (Panic ''sync: negative WaitGroup counter'', m\<lparr>mk_waiting := mk_waiting m + n\<rparr>)
     else (Ok (), m\<lparr>mk_waiting := mk_waiting m + n\<rparr>))"

definition recoverP :: "(string \<Rightarrow> (mock_transport, 'a) prog) \<Rightarrow> (mock_transport, 'a) prog \<Rightarrow> (mock_transport, 'a) prog" where
  "recoverP h p = (\<lambda>m. case p m of (Panic c, t) \<Rightarrow> h c t | (r, t) \<Rightarrow> (r, t))"

definition mock_Send :: "(mail \<Rightarrow> string option) \<Rightarrow> mail \<Rightarrow> (mock_transport, unit) prog" where
  "mock_Send on_sent ml = recoverP (\<lambda>c. log_Fatalf (''Unexpected email sent! MockMailTransport panicked: '' @ c))
     (\<lambda>m. let m' = m\<lparr>mk_mails := mk_mails m @ [ml]\<rparr> in
       case on_sent ml of
         Some c \<Rightarrow> (Panic c, m')
       | None \<Rightarrow> if mk_expected m > 0 then wg_Add (- 1) m' else (Ok (), m'))"

definition GetLastSentMail :: "mock_transport \<Rightarrow> mail option" where
  "GetLastSentMail m = (if length (mk_mails m) = 0 then None else Some (mk_mails m ! (length (mk_mails m) - 1)))"

definition GetSentMails :: "mock_transport \<Rightarrow> mail list" where
  "GetSentMails m = mk_mails m"

definition Expect :: "int \<Rightarrow> (mock_transport, unit) prog" where
  "Expect mailCnt = (\<lambda>m. wg_Add mailCnt (m\<lparr>mk_expected := mailCnt\<rparr>))"

text \<open>\<open>WaitWithTimeout\<close> returns once the counter is zero; \<open>arrives\<close>: whether it becomes zero in time.\<close>

definition WaitWithTimeout :: "bool \<Rightarrow> (mock_transport, unit) prog" where
  "WaitWithTimeout arrives = (\<lambda>m.
     if mk_waiting m = 0 \<or> arrives then okP () m
     else log_Fatalf (''Timeout waiting for '' @ show_int (mk_expected m) @ '' mails to be sent'') m)"

fun send_all :: "(mail \<Rightarrow> string option) \<Rightarrow> mail list \<Rightarrow> (mock_transport, unit) prog" where
  "send_all on_sent [] = okP ()"
| "send_all on_sent (ml # mls) = thenP (mock_Send on_sent ml) (send_all on_sent mls)"

lemma mock_Send_run:
  assumes "on_sent ml = None" and "mk_expected m > 0"
  shows "mock_Send on_sent ml m =
    (if mk_waiting m > 0 then (Ok (), m\<lparr>mk_mails := mk_mails m @ [ml], mk_waiting := mk_waiting m - 1\<rparr>)
     else (Panic (''exit status 1: Unexpected email sent! MockMailTransport panicked: sync: negative WaitGroup counter''),
       m\<lparr>mk_mails := mk_mails m @ [ml], mk_waiting := mk_waiting m - 1\<rparr>))"
  using assms by (simp add: mock_Send_def recoverP_def wg_Add_def log_Fatalf_def panicP_def Let_def)

text \<open>
  After \<open>Expect n\<close> the mock takes exactly \<open>n\<close> mails, in their order, and then \<open>Wait\<close> returns; one mail
  more ends the process.
\<close>

lemma send_all_run:
  assumes "\<And>ml. on_sent ml = None" and "mk_expected m > 0" and "mk_waiting m \<ge> 0"
  shows "if int (length mls) \<le> mk_waiting m
    then send_all on_sent mls m = (Ok (), m\<lparr>mk_mails := mk_mails m @ mls, mk_waiting := mk_waiting m - int (length mls)\<rparr>)
    else \<exists>c t. send_all on_sent mls m = (Panic c, t)"
  using assms(2,3)
proof (induction mls arbitrary: m)
  case Nil
  then show ?case by (simp add: okP_def)
next
  case (Cons ml mls)
  show ?case
  proof (cases "mk_waiting m > 0")
    case True
    let ?m = "m\<lparr>mk_mails := mk_mails m @ [ml], mk_waiting := mk_waiting m - 1\<rparr>"
    have "send_all on_sent (ml # mls) m = send_all on_sent mls ?m"
      using True Cons.prems by (simp add: thenP_def bindP_def mock_Send_run [OF assms(1)])
    then show ?thesis using Cons.IH [of ?m] True Cons.prems by (auto split: if_splits)
  qed (use Cons.prems in \<open>simp add: thenP_def bindP_def mock_Send_run [OF assms(1)]\<close>)
qed

lemma Expect_then_send:
  assumes "\<And>ml. on_sent ml = None" and "n > 0"
  shows "if length mls = nat n
    then \<exists>t. thenP (Expect n) (thenP (send_all on_sent mls) (WaitWithTimeout False)) NewMock = (Ok (), t) \<and> GetSentMails t = mls
    else \<exists>c t. thenP (Expect n) (thenP (send_all on_sent mls) (WaitWithTimeout False)) NewMock = (Panic c, t)"
proof -
  have "Expect n NewMock = (Ok (), \<lparr>mk_mails = [], mk_expected = n, mk_waiting = n\<rparr>)"
    using assms(2) by (simp add: Expect_def wg_Add_def NewMock_def)
  moreover have "if length mls \<le> nat n
      then send_all on_sent mls \<lparr>mk_mails = [], mk_expected = n, mk_waiting = n\<rparr> =
        (Ok (), \<lparr>mk_mails = mls, mk_expected = n, mk_waiting = n - int (length mls)\<rparr>)
      else \<exists>c t. send_all on_sent mls \<lparr>mk_mails = [], mk_expected = n, mk_waiting = n\<rparr> = (Panic c, t)"
    using send_all_run [where on_sent = on_sent and mls = mls and m = "\<lparr>mk_mails = [], mk_expected = n, mk_waiting = n\<rparr>"] assms
    by (simp add: le_nat_iff split: if_splits)
  ultimately show ?thesis
    using assms(2) by (auto simp: thenP_def bindP_def WaitWithTimeout_def log_Fatalf_def panicP_def okP_def GetSentMails_def split: if_splits)
qed

section \<open>The mailer\<close>

record mailer_config =
  mr_default_sender :: string
  mr_send :: bool
  mr_templates_dir :: string
  mr_transporter :: string

type_synonym template = "(string \<times> string) list \<Rightarrow> go_error + string"

type_synonym templates = "string \<Rightarrow> template option"

text \<open>
  \<open>files\<close> is what \<open>os.ReadDir\<close> finds (name, and whether it is a directory), \<open>glob\<close> what parsing the files of
  a directory answers.
\<close>

fun parse_dirs :: "(string \<Rightarrow> go_error + template) \<Rightarrow> (string \<times> bool) list \<Rightarrow> (templates, unit) prog" where
  "parse_dirs glob [] = okP ()"
| "parse_dirs glob ((name, is_dir) # files) =
     (if \<not> is_dir then parse_dirs glob files
      else (case glob name of
          Inl x \<Rightarrow> errP (ErrWrap ''failed to parse email template files as glob'' x)
        | Inr tmpl \<Rightarrow> (\<lambda>ts. parse_dirs glob files (ts(name \<mapsto> tmpl)))))"

definition ParseTemplates :: "go_error + (string \<times> bool) list \<Rightarrow> (string \<Rightarrow> go_error + template) \<Rightarrow> (templates, unit) prog" where
  "ParseTemplates files glob = (case files of
      Inl x \<Rightarrow> errP (ErrWrap ''failed to read email templates directory while parsing templates'' x)
    | Inr fs \<Rightarrow> parse_dirs glob fs)"

datatype transporter = MockTransporter | SMTPTransporter smtp_transport

definition NewWithConfig ::
    "(string \<Rightarrow> string \<Rightarrow> string) \<Rightarrow> go_error + (string \<times> bool) list \<Rightarrow> (string \<Rightarrow> go_error + template) \<Rightarrow>
     mailer_config \<Rightarrow> smtp_config \<Rightarrow> (templates, transporter) prog" where
  "NewWithConfig join files glob cfg smtpConfig =
     bindP (if mr_transporter cfg = ''mock'' then okP MockTransporter
            else if mr_transporter cfg = ''SMTP'' then okP (SMTPTransporter (NewSMTP join smtpConfig))
            else errP (ErrPlain (''unsupported mail transporter: '' @ mr_transporter cfg))) (\<lambda>t.
     thenP (wrapP ''failed to parse mailer templates'' (ParseTemplates files glob)) (okP t))"

lemma parse_dirs_run:
  "parse_dirs glob files ts = (Ok (), ts') \<Longrightarrow>
    ts' name = (if (name, True) \<in> set files then Some (projr (glob name)) else ts name) \<and>
    ((name, True) \<in> set files \<longrightarrow> \<not> isl (glob name))"
  by (induction files arbitrary: ts rule: parse_dirs.induct) (auto simp: outcome_simps split: if_splits sum.splits)

lemma parse_dirs_Ok:
  assumes "parse_dirs glob files ts = (Ok (), ts')"
  shows "(name, True) \<in> set files \<Longrightarrow> \<exists>tmpl. ts' name = Some tmpl \<and> glob name = Inr tmpl"
    and "(name, True) \<notin> set files \<Longrightarrow> ts' name = ts name"
  using parse_dirs_run [OF assms, of name] by (auto simp: isl_def)

text \<open>A mailer that was built has the template of every directory, so mails do not fail for want of one.\<close>

lemma NewWithConfig_templates:
  assumes "NewWithConfig join (Inr files) glob cfg smtp (\<lambda>_. None) = (Ok t, ts)"
  shows "(ts name \<noteq> None \<longleftrightarrow> (name, True) \<in> set files) \<and> mr_transporter cfg \<in> {''mock'', ''SMTP''}"
proof -
  have "parse_dirs glob files (\<lambda>_. None) = (Ok (), ts)" "mr_transporter cfg \<in> {''mock'', ''SMTP''}"
    using assms by (auto simp: NewWithConfig_def ParseTemplates_def outcome_simps split: if_splits)
  then show ?thesis
    using parse_dirs_Ok [of glob files "\<lambda>_. None" ts name] by (cases "(name, True) \<in> set files") auto
qed

end
