(* ===== verification/Configuration.thy ===== *)
theory Configuration
  imports Environment Router_Init Mail_Transports Server_Lifecycle Go_Paths
begin

text \<open>
  internal/config: the configuration of the server, read from the environment (server_config.go) after
  the variables of a .env file have been set (dot_env.go).  Parsing that file, log levels and language
  tags is left to their libraries.
\<close>

section \<open>The .env file\<close>

text \<open>\<open>file\<close>: the error of opening it, or what \<open>StrictParse\<close> answers; \<open>set_env\<close> is \<open>os.Setenv\<close>.\<close>

fun set_all :: "(string \<Rightarrow> string \<Rightarrow> go_error option) \<Rightarrow> (string \<times> string) list \<Rightarrow> (environ, unit) prog" where
  "set_all set_env [] = okP ()"
| "set_all set_env ((key, val) # kvs) = (case set_env key val of
      Some x \<Rightarrow> errP (ErrWrap ''failed to set environment variable'' x)
    | None \<Rightarrow> (\<lambda>env. set_all set_env kvs (env(key \<mapsto> val))))"

definition DotEnvLoad ::
    "(string \<Rightarrow> string \<Rightarrow> go_error option) \<Rightarrow> go_error + go_error + (string \<times> string) list \<Rightarrow> (environ, unit) prog" where
  "DotEnvLoad set_env file = (case file of
      Inl x \<Rightarrow> errP (ErrWrap ''failed to open .env file'' x)
    | Inr (Inl x) \<Rightarrow> errP (ErrWrap ''failed to parse .env file'' x)
    | Inr (Inr envs) \<Rightarrow> set_all set_env envs)"

definition DotEnvTryLoad ::
    "go_error \<Rightarrow> (string \<Rightarrow> string \<Rightarrow> go_error option) \<Rightarrow> go_error + go_error + (string \<times> string) list \<Rightarrow> (environ, unit) prog" where
  "DotEnvTryLoad os_ErrNotExist set_env file = tryP (DotEnvLoad set_env file) (\<lambda>r. case r of
      Inl x \<Rightarrow> if errors_is x os_ErrNotExist then okP () else panicP ''.env parse error!''
    | Inr _ \<Rightarrow> okP ())"

lemma set_all_map: "set_all (\<lambda>_ _. None) kvs env = (Ok (), foldl (\<lambda>m (k, v). m(k \<mapsto> v)) env kvs)"
  by (induction kvs arbitrary: env) (auto simp: okP_def)

text \<open>A missing file changes nothing and is no error; a file that cannot be parsed ends the process.\<close>

lemma DotEnvTryLoad_missing:
  assumes "errors_is x os_ErrNotExist"
  shows "DotEnvTryLoad os_ErrNotExist s (Inl x) env = (Ok (), env)"
proof -
  have "errors_is (ErrWrap m x) os_ErrNotExist" for m using assms by (simp add: errors_is_def)
  then show ?thesis by (simp add: DotEnvTryLoad_def DotEnvLoad_def tryP_def errP_def okP_def)
qed

section \<open>The project root\<close>

text \<open>\<open>exe\<close> is \<open>os.Executable\<close>; the state is the directory, once it has been asked for.\<close>

definition GetProjectRootDir :: "go_error + string \<Rightarrow> environ \<Rightarrow> (string option, string) prog" where
  "GetProjectRootDir exe lookup = (\<lambda>s. case s of
      Some dir \<Rightarrow> (Ok dir, s)
    | None \<Rightarrow> (case exe of
        Inl x \<Rightarrow> (Panic ''Failed to get executable path while retrieving project root directory'', Some [])
      | Inr ex \<Rightarrow> (let dir = GetEnv lookup ''PROJECT_ROOT_DIR'' (path_Dir ex) in (Ok dir, Some dir))))"

lemma GetProjectRootDir_stable:
  "GetProjectRootDir exe lookup s = (Ok dir, t) \<Longrightarrow> GetProjectRootDir exe' lookup' t = (Ok dir, t)"
  by (auto simp: GetProjectRootDir_def Let_def split: option.splits sum.splits)

section \<open>The records\<close>

record db_settings = database_config +
  dc_MaxOpenConns :: int
  dc_MaxIdleConns :: int
  dc_ConnMaxLifetime :: duration

record echo_server =
  es_debug :: bool
  es_listen_address :: string
  es_hide_internal_server_error_details :: bool
  es_base_url :: string
  es_cors :: bool
  es_logger :: bool
  es_recover :: bool
  es_request_id :: bool
  es_trailing_slash :: bool
  es_secure :: bool
  es_cache_control :: bool
  es_secure_middleware :: secure_settings
  es_views_dir :: string

record mpc_server =
  ms_address :: string
  ms_server_name :: string
  ms_ca_cert_file :: string
  ms_cert_file :: string
  ms_key_file :: string

record pprof_server =
  pf_enable :: bool
  pf_key_auth :: bool
  pf_block_profile_rate :: int
  pf_mutex_profile_fraction :: int

record paths_server =
  ps_api_base_dir :: string
  ps_mnt_base_dir :: string
  ps_apple_file :: string
  ps_android_file :: string

record management_server =
  mn_secret :: string
  mn_readiness_timeout :: duration
  mn_liveness_timeout :: duration
  mn_writeable_paths :: "string list"
  mn_touchfile :: string
  mn_enable_metrics :: bool

record frontend_server =
  fs_base_url :: string
  fs_password_reset_endpoint :: string

record logger_server =
  ls_level :: int
  ls_request_level :: int
  ls_switches :: logger_switches
  ls_log_caller :: bool
  ls_pretty_print :: bool

record push_service =
  pu_use_fcm :: bool
  pu_use_mock :: bool

record fcm_config =
  fc_credentials :: string
  fc_project_id :: string
  fc_validate_only :: bool

record i18n_config =
  in_default_language :: string
  in_bundle_dir :: string

record server_config =
  cf_database :: db_settings
  cf_echo :: echo_server
  cf_grpc_listen :: string
  cf_mpc :: mpc_server
  cf_pprof :: pprof_server
  cf_paths :: paths_server
  cf_auth :: auth_config
  cf_management :: management_server
  cf_mailer :: mailer_config
  cf_smtp :: smtp_config
  cf_frontend :: frontend_server
  cf_logger :: logger_server
  cf_push :: push_service
  cf_fcm :: fcm_config
  cf_i18n :: i18n_config

section \<open>Reading the configuration\<close>

text \<open>
  \<open>cl_env_file\<close>: the .env file at a path, as in \<open>DotEnvLoad\<close>; \<open>cl_level\<close> and \<open>cl_language\<close> are
  \<open>zerolog.ParseLevel\<close> and \<open>language.Parse\<close>; \<open>cl_testing\<close> is \<open>testing.Testing()\<close>.
\<close>

record config_lib =
  cl_testing :: bool
  cl_exe :: "go_error + string"
  cl_not_exist :: go_error
  cl_setenv :: "string \<Rightarrow> string \<Rightarrow> go_error option"
  cl_env_file :: "string \<Rightarrow> go_error + go_error + (string \<times> string) list"
  cl_rand :: source
  cl_num_cpu :: int
  cl_level :: "string \<Rightarrow> int option"
  cl_language :: "string \<Rightarrow> string option"

record config_world =
  cw_environ :: environ
  cw_root :: "string option"
  cw_mgmt :: mgmt

definition LogLevelFromString :: "config_lib \<Rightarrow> string \<Rightarrow> int" where
  "LogLevelFromString L s = (case cl_level L s of None \<Rightarrow> 0 | Some level \<Rightarrow> level)"

definition GetEnvAsLanguageTag :: "config_lib \<Rightarrow> environ \<Rightarrow> string \<Rightarrow> string \<Rightarrow> string option" where
  "GetEnvAsLanguageTag L lookup key defaultVal =
     (let strVal = GetEnv lookup key [] in if length strVal = 0 then Some defaultVal else cl_language L strVal)"

text \<open>\<open>time.Second * time.Duration(n)\<close> in 64 bits.\<close>

definition seconds :: "int \<Rightarrow> duration" where
  "seconds n = sint (word_of_int second * word_of_int n :: 64 word)"

definition read_database :: "config_lib \<Rightarrow> environ \<Rightarrow> db_settings" where
  "read_database L v = \<lparr>dc_Host = GetEnv v ''PGHOST'' ''postgres'', dc_Port = GetEnvAsInt v ''PGPORT'' 5432,
     dc_Username = GetEnv v ''PGUSER'' ''dbuser'', dc_Password = GetEnv v ''PGPASSWORD'' [],
     dc_Database = GetEnv v ''PGDATABASE'' ''development'',
     dc_AdditionalParams = [(''sslmode'', GetEnv v ''PGSSLMODE'' ''disable'')],
     dc_MaxOpenConns = GetEnvAsInt v ''DB_MAX_OPEN_CONNS'' (cl_num_cpu L * 2),
     dc_MaxIdleConns = GetEnvAsInt v ''DB_MAX_IDLE_CONNS'' 1,
     dc_ConnMaxLifetime = seconds (GetEnvAsInt v ''DB_CONN_MAX_LIFETIME_SEC'' 60)\<rparr>"

definition read_secure :: "environ \<Rightarrow> secure_settings" where
  "read_secure v = \<lparr>
     se_xss_protection = GetEnv v ''SERVER_ECHO_SECURE_MIDDLEWARE_XSS_PROTECTION'' ''1; mode=block'',
     se_content_type_nosniff = GetEnv v ''SERVER_ECHO_SECURE_MIDDLEWARE_CONTENT_TYPE_NOSNIFF'' ''nosniff'',
     se_x_frame_options = GetEnv v ''SERVER_ECHO_SECURE_MIDDLEWARE_X_FRAME_OPTIONS'' ''SAMEORIGIN'',
     se_hsts_max_age = GetEnvAsInt v ''SERVER_ECHO_SECURE_MIDDLEWARE_HSTS_MAX_AGE'' 0,
     se_hsts_exclude_subdomains = GetEnvAsBool v ''SERVER_ECHO_SECURE_MIDDLEWARE_HSTS_EXCLUDE_SUBDOMAINS'' False,
     se_content_security_policy = GetEnv v ''SERVER_ECHO_SECURE_MIDDLEWARE_CONTENT_SECURITY_POLICY'' [],
     se_csp_report_only = GetEnvAsBool v ''SERVER_ECHO_SECURE_MIDDLEWARE_CSP_REPORT_ONLY'' False,
     se_hsts_preload_enabled = GetEnvAsBool v ''SERVER_ECHO_SECURE_MIDDLEWARE_HSTS_PRELOAD_ENABLED'' False,
     se_referrer_policy = GetEnv v ''SERVER_ECHO_SECURE_MIDDLEWARE_REFERRER_POLICY'' []\<rparr>"

definition read_echo :: "string \<Rightarrow> environ \<Rightarrow> echo_server" where
  "read_echo root v = \<lparr>
     es_debug = GetEnvAsBool v ''SERVER_ECHO_DEBUG'' False,
     es_listen_address = GetEnv v ''SERVER_ECHO_LISTEN_ADDRESS'' '':8080'',
     es_hide_internal_server_error_details = GetEnvAsBool v ''SERVER_ECHO_HIDE_INTERNAL_SERVER_ERROR_DETAILS'' True,
     es_base_url = GetEnv v ''SERVER_ECHO_BASE_URL'' ''http://localhost:8080'',
     es_cors = GetEnvAsBool v ''SERVER_ECHO_ENABLE_CORS_MIDDLEWARE'' True,
     es_logger = GetEnvAsBool v ''SERVER_ECHO_ENABLE_LOGGER_MIDDLEWARE'' True,
     es_recover = GetEnvAsBool v ''SERVER_ECHO_ENABLE_RECOVER_MIDDLEWARE'' True,
     es_request_id = GetEnvAsBool v ''SERVER_ECHO_ENABLE_REQUEST_ID_MIDDLEWARE'' True,
     es_trailing_slash = GetEnvAsBool v ''SERVER_ECHO_ENABLE_TRAILING_SLASH_MIDDLEWARE'' True,
     es_secure = GetEnvAsBool v ''SERVER_ECHO_ENABLE_SECURE_MIDDLEWARE'' True,
     es_cache_control = GetEnvAsBool v ''SERVER_ECHO_ENABLE_CACHE_CONTROL_MIDDLEWARE'' True,
     es_secure_middleware = read_secure v,
     es_views_dir = GetEnv v ''SERVER_ECHO_WEB_TEMPLATES_VIEWS_BASE_DIR_ABS'' (path_Join [root, ''/web/templates/views''])\<rparr>"

definition read_mpc :: "environ \<Rightarrow> mpc_server" where
  "read_mpc v = \<lparr>ms_address = GetEnv v ''SERVER_MPC_ADDRESS'' ''localhost:9000'',
     ms_server_name = GetEnv v ''SERVER_MPC_SERVER_NAME'' ''mpc-server'',
     ms_ca_cert_file = GetEnv v ''SERVER_MPC_CA_CERT_FILE'' [], ms_cert_file = GetEnv v ''SERVER_MPC_CERT_FILE'' [],
     ms_key_file = GetEnv v ''SERVER_MPC_KEY_FILE'' []\<rparr>"

definition read_pprof :: "environ \<Rightarrow> pprof_server" where
  "read_pprof v = \<lparr>pf_enable = GetEnvAsBool v ''SERVER_PPROF_ENABLE'' False,
     pf_key_auth = GetEnvAsBool v ''SERVER_PPROF_ENABLE_MANAGEMENT_KEY_AUTH'' True,
     pf_block_profile_rate = GetEnvAsInt v ''SERVER_PPROF_RUNTIME_BLOCK_PROFILE_RATE'' 0,
     pf_mutex_profile_fraction = GetEnvAsInt v ''SERVER_PPROF_RUNTIME_MUTEX_PROFILE_FRACTION'' 0\<rparr>"

definition read_paths :: "string \<Rightarrow> environ \<Rightarrow> paths_server" where
  "read_paths root v = \<lparr>ps_api_base_dir = GetEnv v ''SERVER_PATHS_API_BASE_DIR_ABS'' (path_Join [root, ''/api'']),
     ps_mnt_base_dir = GetEnv v ''SERVER_PATHS_MNT_BASE_DIR_ABS'' (path_Join [root, ''/assets/mnt'']),
     ps_apple_file = GetEnv v ''SERVER_PATHS_APPLE_APP_SITE_ASSOCIATION_FILE'' [],
     ps_android_file = GetEnv v ''SERVER_PATHS_ANDROID_ASSETLINKS_FILE'' []\<rparr>"

definition read_auth :: "environ \<Rightarrow> auth_config" where
  "read_auth v = \<lparr>
     ac_access_token_validity = seconds (GetEnvAsInt v ''SERVER_AUTH_ACCESS_TOKEN_VALIDITY'' 86400),
     ac_password_reset_token_validity = seconds (GetEnvAsInt v ''SERVER_AUTH_PASSWORD_RESET_TOKEN_VALIDITY'' 900),
     ac_password_reset_token_debounce = seconds (GetEnvAsInt v ''SERVER_AUTH_PASSWORD_RESET_TOKEN_DEBOUNCE_DURATION_SECONDS'' 60),
     ac_password_reset_token_reuse = seconds (GetEnvAsInt v ''SERVER_AUTH_PASSWORD_RESET_TOKEN_REUSE_DURATION_SECONDS'' 0),
     ac_default_user_scopes = GetEnvAsStringArr v ''SERVER_AUTH_DEFAULT_USER_SCOPES'' [''app''] [],
     ac_last_authenticated_at_threshold = seconds (GetEnvAsInt v ''SERVER_AUTH_LAST_AUTHENTICATED_AT_THRESHOLD'' 900),
     ac_registration_requires_confirmation = GetEnvAsBool v ''SERVER_AUTH_REGISTRATION_REQUIRES_CONFIRMATION'' False,
     ac_confirmation_token_validity = seconds (GetEnvAsInt v ''SERVER_AUTH_CONFIRMATION_TOKEN_VALIDITY_SECONDS'' 86400),
     ac_confirmation_token_debounce = seconds (GetEnvAsInt v ''SERVER_AUTH_CONFIRMATION_TOKEN_DEBOUNCE_DURATION_SECONDS'' 60)\<rparr>"

definition read_management :: "string \<Rightarrow> environ \<Rightarrow> string \<Rightarrow> management_server" where
  "read_management root v secret = \<lparr>mn_secret = secret,
     mn_readiness_timeout = seconds (GetEnvAsInt v ''SERVER_MANAGEMENT_READINESS_TIMEOUT_SEC'' 4),
     mn_liveness_timeout = seconds (GetEnvAsInt v ''SERVER_MANAGEMENT_LIVENESS_TIMEOUT_SEC'' 9),
     mn_writeable_paths = GetEnvAsStringArr v ''SERVER_MANAGEMENT_PROBE_WRITEABLE_PATHS_ABS''
       [path_Join [root, ''/assets/mnt'']] ['',''],
     mn_touchfile = GetEnv v ''SERVER_MANAGEMENT_PROBE_WRITEABLE_TOUCHFILE'' ''.healthy'',
     mn_enable_metrics = GetEnvAsBool v ''SERVER_MANAGEMENT_ENABLE_METRICS'' False\<rparr>"

definition read_mailer :: "string \<Rightarrow> environ \<Rightarrow> mailer_config option" where
  "read_mailer root v = map_option (\<lambda>t. \<lparr>mr_default_sender = GetEnv v ''SERVER_MAILER_DEFAULT_SENDER'' ''go-starter@example.com'',
       mr_send = GetEnvAsBool v ''SERVER_MAILER_SEND'' True,
       mr_templates_dir = GetEnv v ''SERVER_MAILER_WEB_TEMPLATES_EMAIL_BASE_DIR_ABS'' (path_Join [root, ''/web/templates/email'']),
       mr_transporter = t\<rparr>)
     (GetEnvEnum v ''SERVER_MAILER_TRANSPORTER'' ''mock'' [''SMTP'', ''mock''])"

definition read_smtp :: "environ \<Rightarrow> smtp_config option" where
  "read_smtp v = map_option (\<lambda>enc. \<lparr>sm_host = GetEnv v ''SERVER_SMTP_HOST'' ''mailhog'', sm_port = GetEnvAsInt v ''SERVER_SMTP_PORT'' 1025,
       sm_auth_type = SMTPAuthTypeFromString (GetEnv v ''SERVER_SMTP_AUTH_TYPE'' (SMTPAuthType_String SMTPAuthTypeNone)),
       sm_username = GetEnv v ''SERVER_SMTP_USERNAME'' [], sm_password = GetEnv v ''SERVER_SMTP_PASSWORD'' [],
       sm_encryption = enc\<rparr>)
     (GetEnvEnum v ''SERVER_SMTP_ENCRYPTION'' ''none'' [''none'', ''tls'', ''starttls''])"

definition read_frontend :: "environ \<Rightarrow> frontend_server" where
  "read_frontend v = \<lparr>fs_base_url = GetEnv v ''SERVER_FRONTEND_BASE_URL'' ''http://localhost:3000'',
     fs_password_reset_endpoint = GetEnv v ''SERVER_FRONTEND_PASSWORD_RESET_ENDPOINT'' ''/set-new-password''\<rparr>"

definition read_logger :: "config_lib \<Rightarrow> environ \<Rightarrow> logger_server" where
  "read_logger L v = \<lparr>ls_level = LogLevelFromString L (GetEnv v ''SERVER_LOGGER_LEVEL'' ''debug''),
     ls_request_level = LogLevelFromString L (GetEnv v ''SERVER_LOGGER_REQUEST_LEVEL'' ''debug''),
     ls_switches = \<lparr>sw_request_body = GetEnvAsBool v ''SERVER_LOGGER_LOG_REQUEST_BODY'' False,
       sw_request_header = GetEnvAsBool v ''SERVER_LOGGER_LOG_REQUEST_HEADER'' False,
       sw_request_query = GetEnvAsBool v ''SERVER_LOGGER_LOG_REQUEST_QUERY'' False,
       sw_response_body = GetEnvAsBool v ''SERVER_LOGGER_LOG_RESPONSE_BODY'' False,
       sw_response_header = GetEnvAsBool v ''SERVER_LOGGER_LOG_RESPONSE_HEADER'' False\<rparr>,
     ls_log_caller = GetEnvAsBool v ''SERVER_LOGGER_LOG_CALLER'' False,
     ls_pretty_print = GetEnvAsBool v ''SERVER_LOGGER_PRETTY_PRINT_CONSOLE'' False\<rparr>"

definition read_push :: "environ \<Rightarrow> push_service" where
  "read_push v = \<lparr>pu_use_fcm = GetEnvAsBool v ''SERVER_PUSH_USE_FCM'' False,
     pu_use_mock = GetEnvAsBool v ''SERVER_PUSH_USE_MOCK'' True\<rparr>"

definition read_fcm :: "environ \<Rightarrow> fcm_config" where
  "read_fcm v = \<lparr>fc_credentials = GetEnv v ''GOOGLE_APPLICATION_CREDENTIALS'' [],
     fc_project_id = GetEnv v ''SERVER_FCM_PROJECT_ID'' ''no-fcm-project-id-set'',
     fc_validate_only = GetEnvAsBool v ''SERVER_FCM_VALIDATE_ONLY'' True\<rparr>"

definition read_i18n :: "config_lib \<Rightarrow> string \<Rightarrow> environ \<Rightarrow> i18n_config option" where
  "read_i18n L root v = map_option (\<lambda>l. \<lparr>in_default_language = l,
       in_bundle_dir = GetEnv v ''SERVER_I18N_BUNDLE_DIR_ABS'' (path_Join [root, ''/web/i18n''])\<rparr>)
     (GetEnvAsLanguageTag L v ''SERVER_I18N_DEFAULT_LANGUAGE'' ''en'')"

text \<open>A part of the configuration on its state; a setting that panics.\<close>

definition on_environ :: "(environ, 'a) prog \<Rightarrow> (config_world, 'a) prog" where
  "on_environ m = (\<lambda>w. case m (cw_environ w) of (r, v) \<Rightarrow> (r, w\<lparr>cw_environ := v\<rparr>))"

definition on_root :: "(environ \<Rightarrow> (string option, 'a) prog) \<Rightarrow> (config_world, 'a) prog" where
  "on_root m = (\<lambda>w. case m (cw_environ w) (cw_root w) of (r, s) \<Rightarrow> (r, w\<lparr>cw_root := s\<rparr>))"

definition on_mgmt :: "(environ \<Rightarrow> (mgmt, 'a) prog) \<Rightarrow> (config_world, 'a) prog" where
  "on_mgmt m = (\<lambda>w. case m (cw_environ w) (cw_mgmt w) of (r, s) \<Rightarrow> (r, w\<lparr>cw_mgmt := s\<rparr>))"

definition setting :: "string \<Rightarrow> 'a option \<Rightarrow> (config_world, 'a) prog" where
  "setting what x = (case x of None \<Rightarrow> panicP what | Some y \<Rightarrow> okP y)"

definition DefaultServiceConfigFromEnv :: "config_lib \<Rightarrow> (config_world, server_config) prog" where
  "DefaultServiceConfigFromEnv L =
     bindP (if cl_testing L then okP ()
            else bindP (on_root (GetProjectRootDir (cl_exe L))) (\<lambda>root.
              on_environ (DotEnvTryLoad (cl_not_exist L) (cl_setenv L) (cl_env_file L (path_Join [root, ''.env.local'']))))) (\<lambda>_.
     bindP (on_root (GetProjectRootDir (cl_exe L))) (\<lambda>root.
     bindP (\<lambda>w. (Ok (cw_environ w), w)) (\<lambda>v.
     bindP (on_mgmt (\<lambda>lookup. GetMgmtSecret lookup (cl_rand L) ''SERVER_MANAGEMENT_SECRET'')) (\<lambda>secret.
     bindP (setting ''SERVER_MAILER_TRANSPORTER'' (read_mailer root v)) (\<lambda>mailer.
     bindP (setting ''SERVER_SMTP_ENCRYPTION'' (read_smtp v)) (\<lambda>smtp.
     bindP (setting ''SERVER_I18N_DEFAULT_LANGUAGE'' (read_i18n L root v)) (\<lambda>i18n.
       okP \<lparr>cf_database = read_database L v, cf_echo = read_echo root v, cf_grpc_listen = GetEnv v ''SERVER_GRPC_LISTEN_ADDRESS'' '':9090'',
         cf_mpc = read_mpc v, cf_pprof = read_pprof v, cf_paths = read_paths root v, cf_auth = read_auth v,
         cf_management = read_management root v secret, cf_mailer = mailer, cf_smtp = smtp, cf_frontend = read_frontend v,
         cf_logger = read_logger L v, cf_push = read_push v, cf_fcm = read_fcm v, cf_i18n = i18n\<rparr>)))))))"

section \<open>What the settings are good for\<close>

lemma seconds_exact: "\<bar>n\<bar> \<le> 9223372036 \<Longrightarrow> seconds n = second * n"
  unfolding seconds_def wi_hom_mult sint_sbintrunc' by (rule signed_take_bit_int_eq_self) simp_all

lemma seconds_wraps: "seconds 9223372037 < 0"
  by (simp add: seconds_def)

text \<open>The settings other parts of the model take from the configuration.\<close>

definition init_config_of :: "server_config \<Rightarrow> init_config" where
  "init_config_of cf = \<lparr>ic_enable_metrics = mn_enable_metrics (cf_management cf), ic_trailing_slash = es_trailing_slash (cf_echo cf),
     ic_recover = es_recover (cf_echo cf), ic_secure = es_secure (cf_echo cf), ic_secure_settings = es_secure_middleware (cf_echo cf),
     ic_request_id = es_request_id (cf_echo cf), ic_logger = es_logger (cf_echo cf), ic_logger_switches = ls_switches (cf_logger cf),
     ic_cors = es_cors (cf_echo cf), ic_cache_control = es_cache_control (cf_echo cf), ic_pprof = pf_enable (cf_pprof cf),
     ic_pprof_key_auth = pf_key_auth (cf_pprof cf), ic_block_profile_rate = pf_block_profile_rate (cf_pprof cf),
     ic_mutex_profile_fraction = pf_mutex_profile_fraction (cf_pprof cf), ic_secret = mn_secret (cf_management cf),
     ic_database = dc_Database (cf_database cf)\<rparr>"

definition lifecycle_config_of :: "server_config \<Rightarrow> lifecycle_config" where
  "lifecycle_config_of cf = \<lparr>lc_use_fcm = pu_use_fcm (cf_push cf), lc_use_mock = pu_use_mock (cf_push cf),
     lc_mpc_ca_cert_file = ms_ca_cert_file (cf_mpc cf), lc_grpc_listen = cf_grpc_listen cf,
     lc_echo_listen = es_listen_address (cf_echo cf)\<rparr>"

lemma DefaultServiceConfigFromEnv_Ok:
  assumes "DefaultServiceConfigFromEnv L w = (Ok cf, t)"
  obtains root where "read_mailer root (cw_environ t) = Some (cf_mailer cf)" "read_smtp (cw_environ t) = Some (cf_smtp cf)"
    "read_i18n L root (cw_environ t) = Some (cf_i18n cf)" "cf_echo cf = read_echo root (cw_environ t)"
    "cf_pprof cf = read_pprof (cw_environ t)" "cf_auth cf = read_auth (cw_environ t)"
    "cf_push cf = read_push (cw_environ t)" "cf_management cf = read_management root (cw_environ t) (mn_secret (cf_management cf))"
  using assms
  by (auto simp: DefaultServiceConfigFromEnv_def bindP_Ok_iff okP_iff setting_def on_mgmt_def on_root_def read_management_def panicP_iff
      split: option.splits prod.splits if_splits intro: that)

text \<open>
  Whatever the environment, a configuration that was read names a transport the mailer knows and a mode
  of encryption the transport knows; and what it says of the middleware is what \<open>Init\<close> registers.
\<close>

lemma configuration_is_accepted:
  assumes "DefaultServiceConfigFromEnv L w = (Ok cf, t)"
  shows "mr_transporter (cf_mailer cf) \<in> {''mock'', ''SMTP''} \<and>
    smtp_Send net q (NewSMTP join (cf_smtp cf)) ml =
      map_option (ErrWrap ''failed to send email'') (net (sm_encryption (cf_smtp cf)) (st_addr (NewSMTP join (cf_smtp cf)))
        (st_auth (NewSMTP join (cf_smtp cf))) ml)"
proof -
  obtain root where m: "read_mailer root (cw_environ t) = Some (cf_mailer cf)" and s: "read_smtp (cw_environ t) = Some (cf_smtp cf)"
    by (rule DefaultServiceConfigFromEnv_Ok [OF assms])
  have "map_option mr_transporter (read_mailer root v) = GetEnvEnum v ''SERVER_MAILER_TRANSPORTER'' ''mock'' [''SMTP'', ''mock'']" for v
    by (simp add: read_mailer_def option.map_comp comp_def option.map_ident)
  then have "GetEnvEnum (cw_environ t) ''SERVER_MAILER_TRANSPORTER'' ''mock'' [''SMTP'', ''mock''] = Some (mr_transporter (cf_mailer cf))"
    using m by (metis option.simps(9))
  then have "mr_transporter (cf_mailer cf) \<in> {''mock'', ''SMTP''}" by (auto dest: GetEnvEnum_allowed)
  moreover have "map_option sm_encryption (read_smtp v) = GetEnvEnum v ''SERVER_SMTP_ENCRYPTION'' ''none'' [''none'', ''tls'', ''starttls'']" for v
    by (simp add: read_smtp_def option.map_comp comp_def option.map_ident)
  then have "GetEnvEnum (cw_environ t) ''SERVER_SMTP_ENCRYPTION'' ''none'' [''none'', ''tls'', ''starttls''] = Some (sm_encryption (cf_smtp cf))"
    using s by (metis option.simps(9))
  then have "sm_encryption (cf_smtp cf) \<in> set [''none'', ''tls'', ''starttls'']" by (rule GetEnvEnum_allowed)
  ultimately show ?thesis by (simp add: smtp_Send_def NewSMTP_def Let_def)
qed

lemma configured_middleware:
  assumes "DefaultServiceConfigFromEnv L w = (Ok cf, t)" and "Init e (init_config_of cf) w0 = (Ok R, t0)"
    and "GetEnvAsBool (cw_environ t) ''SERVER_ECHO_ENABLE_RECOVER_MIDDLEWARE'' True"
  shows "Use MRecover \<in> set (iw_echo t0) \<and> R = new_router (mn_secret (cf_management cf))"
proof -
  obtain root where "cf_echo cf = read_echo root (cw_environ t)"
    by (rule DefaultServiceConfigFromEnv_Ok [OF assms(1)])
  then show ?thesis
    using Init_Ok [OF assms(2)] assms(3) by (auto simp: registrations_def switched_def init_config_of_def read_echo_def)
qed

text \<open>Without any variable the server hides internal errors, has no profiling and mails to the mock.\<close>

definition bare_lib :: config_lib where
  "bare_lib = \<lparr>cl_testing = False, cl_exe = Inr ''/app/bin/app'', cl_not_exist = ErrPlain ''file does not exist'',
     cl_setenv = (\<lambda>_ _. None), cl_env_file = (\<lambda>_. Inl (ErrPlain ''file does not exist'')), cl_rand = (\<lambda>_ n. Inr (replicate n (CHR ''x''))),
     cl_num_cpu = 4, cl_level = (\<lambda>_. None), cl_language = (\<lambda>_. None)\<rparr>"

lemma default_configuration:
  "case DefaultServiceConfigFromEnv bare_lib \<lparr>cw_environ = (\<lambda>_. None), cw_root = None, cw_mgmt = \<lparr>mg_done = False, mg_secret = []\<rparr>\<rparr> of
     (Ok cf, t) \<Rightarrow> es_hide_internal_server_error_details (cf_echo cf) \<and> \<not> pf_enable (cf_pprof cf) \<and>
       mr_transporter (cf_mailer cf) = ''mock'' \<and> ac_access_token_validity (cf_auth cf) = 86400 * second \<and>
       ac_default_user_scopes (cf_auth cf) = [''app''] \<and> length (mn_secret (cf_management cf)) = 32 \<and>
       ps_api_base_dir (cf_paths cf) = ''/app/bin/api'' \<and> pu_use_mock (cf_push cf)
   | _ \<Rightarrow> False"
  by code_simp

end
