(* ===== verification/Edges.thy ===== *)
theory Edges
  imports Uploads Payloads Util "HOL-Library.AList"
begin

text \<open>
  Where the server meets libraries: binding of requests into several structs and streaming of files
  (util/http.go), translations (i18n.go), the connection to the MPC infrastructure (infra/mpc/client.go),
  known MIME types and the codes of PKCE.  What the libraries answer are parameters.
\<close>

section \<open>Binding\<close>

text \<open>
  echo's binding of a struct: \<open>bd_default\<close> says that it is the default one, the others bind a part of the
  request into a value.  The state is the body that can still be read; reading it leaves it empty.
\<close>

record 'v request_binder =
  bd_default :: bool
  bd_path :: "'v \<Rightarrow> go_error + 'v"
  bd_query :: "'v \<Rightarrow> go_error + 'v"
  bd_body :: "string option \<Rightarrow> 'v \<Rightarrow> go_error + 'v"

definition part :: "string \<Rightarrow> go_error + 'v \<Rightarrow> (string option, 'v) prog" where
  "part msg r = wrapP msg (case r of Inl x \<Rightarrow> errP x | Inr v \<Rightarrow> okP v)"

definition BindBody :: "'v request_binder \<Rightarrow> 'v \<Rightarrow> (string option, 'v) prog" where
  "BindBody b v = (\<lambda>s. part ''failed to bind body'' (bd_body b s v) (map_option (\<lambda>_. []) s))"

definition need_default :: "'v request_binder \<Rightarrow> (string option, 'a) prog \<Rightarrow> (string option, 'a) prog" where
  "need_default b m = (if bd_default b then m else errP (ErrPlain (''failed to get bind'' @ ''er as *echo.DefaultBinder'')))"

definition validated :: "('v \<Rightarrow> openapi_error option) \<Rightarrow> 'v \<Rightarrow> (string option, 'v) prog" where
  "validated Validate v = (case validatePayload (Validate v) of None \<Rightarrow> okP v | Some x \<Rightarrow> errP x)"

definition BindAndValidatePathParams :: "'v request_binder \<Rightarrow> ('v \<Rightarrow> openapi_error option) \<Rightarrow> 'v \<Rightarrow> (string option, 'v) prog" where
  "BindAndValidatePathParams b Validate v =
     need_default b (bindP (part ''failed to bind path params'' (bd_path b v)) (validated Validate))"

definition BindAndValidateQueryParams :: "'v request_binder \<Rightarrow> ('v \<Rightarrow> openapi_error option) \<Rightarrow> 'v \<Rightarrow> (string option, 'v) prog" where
  "BindAndValidateQueryParams b Validate v =
     need_default b (bindP (part ''failed to bind query params'' (bd_query b v)) (validated Validate))"

definition defaultEchoBindAll :: "'v request_binder \<Rightarrow> 'v \<Rightarrow> (string option, 'v) prog" where
  "defaultEchoBindAll b v =
     need_default b (bindP (part ''failed to bind path params'' (bd_path b v)) (\<lambda>v1.
       bindP (part ''failed to bind query params'' (bd_query b v1)) (BindBody b)))"

definition restoreBindAndValidate ::
    "string option \<Rightarrow> 'v request_binder \<Rightarrow> ('v \<Rightarrow> openapi_error option) \<Rightarrow> 'v \<Rightarrow> (string option, 'v) prog" where
  "restoreBindAndValidate reqBody b Validate v = (\<lambda>s.
     bindP (defaultEchoBindAll b v) (validated Validate) (case reqBody of None \<Rightarrow> s | Some body \<Rightarrow> Some body))"

text \<open>\<open>fails\<close>: the error of reading the body.  The structs come with what binds them and their \<open>Validate\<close>.\<close>

fun bind_each :: "string option \<Rightarrow> ('v request_binder \<times> ('v \<Rightarrow> openapi_error option) \<times> 'v) list \<Rightarrow> (string option, 'v list) prog" where
  "bind_each reqBody [] = okP []"
| "bind_each reqBody ((b, Validate, v) # vs) =
     bindP (wrapP ''failed to restore bind and validate'' (restoreBindAndValidate reqBody b Validate v)) (\<lambda>x.
     bindP (bind_each reqBody vs) (\<lambda>xs. okP (x # xs)))"

definition BindAndValidate ::
    "go_error option \<Rightarrow> 'v request_binder \<times> ('v \<Rightarrow> openapi_error option) \<times> 'v \<Rightarrow>
     ('v request_binder \<times> ('v \<Rightarrow> openapi_error option) \<times> 'v) list \<Rightarrow> (string option, 'v list) prog" where
  "BindAndValidate fails first validatables = (case first of (b, Validate, v) \<Rightarrow>
     if length validatables = 0
     then bindP (defaultEchoBindAll b v) (\<lambda>x. bindP (validated Validate x) (\<lambda>y. okP [y]))
     else (\<lambda>s. case s of
         None \<Rightarrow> bind_each None (first # validatables) s
       | Some body \<Rightarrow> (case fails of
           Some x \<Rightarrow> (Err (ErrWrap ''failed to read request body'' x), Some [])
         | None \<Rightarrow> bind_each (Some body) (first # validatables) (Some []))))"

text \<open>What binding one struct alone gives on a request with this body.\<close>

definition bound_alone :: "string option \<Rightarrow> 'v request_binder \<times> ('v \<Rightarrow> openapi_error option) \<times> 'v \<Rightarrow> 'v outcome" where
  "bound_alone body = (\<lambda>(b, Validate, v). fst (bindP (defaultEchoBindAll b v) (validated Validate) body))"

lemma part_run: "part msg r s = ((case r of Inl x \<Rightarrow> Err (ErrWrap msg x) | Inr v \<Rightarrow> Ok v), s)"
  by (auto simp: part_def wrapP_def tryP_def errP_def okP_def split: sum.splits)

lemma bind_each_alone:
  assumes "bind_each (Some body) vs s = (Ok xs, t)"
  shows "list_all2 (\<lambda>p x. bound_alone (Some body) p = Ok x) vs xs"
  using assms
proof (induction vs arbitrary: s xs)
  case (Cons p vs)
  obtain b Validate v where p: "p = (b, Validate, v)" by (cases p)
  then obtain x u ys where "restoreBindAndValidate (Some body) b Validate v s = (Ok x, u)" "bind_each (Some body) vs u = (Ok ys, t)"
    and xs: "xs = x # ys"
    using Cons.prems by (auto simp: outcome_simps)
  then show ?case using Cons.IH by (auto simp: p xs bound_alone_def restoreBindAndValidate_def)
qed (simp add: okP_iff)

text \<open>
  Every struct sees the whole body, whatever the others made of it: each of the values is the one that
  binding and validating it alone would give.
\<close>

lemma BindAndValidate_each_alone:
  assumes "BindAndValidate fails p ps (Some body) = (Ok xs, t)"
  shows "list_all2 (\<lambda>q x. bound_alone (Some body) q = Ok x) (p # ps) xs"
proof (cases ps)
  case Nil
  obtain b Validate v where p: "p = (b, Validate, v)" by (cases p)
  from assms obtain x u y where 1: "defaultEchoBindAll b v (Some body) = (Ok x, u)" "validated Validate x u = (Ok y, t)" "xs = [y]"
    by (auto simp: BindAndValidate_def p Nil outcome_simps)
  then show ?thesis by (simp add: p Nil bound_alone_def bindP_def)
next
  case (Cons q qs)
  then have "bind_each (Some body) (p # ps) (Some []) = (Ok xs, t)"
    using assms by (auto simp: BindAndValidate_def split: prod.splits option.splits)
  then show ?thesis by (rule bind_each_alone)
qed

section \<open>Streaming\<close>

text \<open>
  The headers of the response, and whether the reader is closed; \<open>format\<close> is \<open>mime.FormatMediaType\<close> and
  \<open>stream\<close> what \<open>c.Stream\<close> answers.
\<close>

record stream_world =
  sr_header :: "string \<Rightarrow> string list"
  sr_closed :: bool

definition StreamFile ::
    "(string \<Rightarrow> (string \<times> string) list \<Rightarrow> string) \<Rightarrow> go_error option \<Rightarrow> string \<Rightarrow> (stream_world, unit) prog" where
  "StreamFile format stream fileName = (\<lambda>w.
     let h = (sr_header w)(''Content-Disposition'' := [format ''attachment'' [(''filename'', fileName)]]);
         h' = SetOrAppendHeader h ''Access-Control-Expose-Headers'' [''Content-Disposition''];
         w' = w\<lparr>sr_header := h', sr_closed := True\<rparr> in
     case stream of Some x \<Rightarrow> (Err (ErrWrap ''failed to stream file'' x), w') | None \<Rightarrow> (Ok (), w'))"

lemma StreamFile_closes: "StreamFile format stream fileName w = (r, t) \<Longrightarrow> sr_closed t"
  by (auto simp: StreamFile_def Let_def split: option.splits)

section \<open>The connection to the MPC infrastructure\<close>

text \<open>
  \<open>read\<close> is the CA file, \<open>pem\<close> whether it holds a certificate, \<open>pair\<close> the error of loading the pair and
  \<open>dial\<close> what dialling with the certificate of the CA answers.
\<close>

definition NewClientConnection ::
    "go_error + string \<Rightarrow> (string \<Rightarrow> bool) \<Rightarrow> go_error option \<Rightarrow> go_error + 'c \<Rightarrow> go_error + 'c" where
  "NewClientConnection read pem pair dial = (case read of
      Inl x \<Rightarrow> Inl (ErrWrap ''failed to read CA cert'' x)
    | Inr caCert \<Rightarrow>
        if \<not> pem caCert then Inl (ErrPlain ''failed to append CA cert'')
        else (case pair of
          Some x \<Rightarrow> Inl (ErrWrap ''failed to load client cert/key'' x)
        | None \<Rightarrow> (case dial of
            Inl x \<Rightarrow> Inl (ErrWrap ''failed to connect to MPC server'' x)
          | Inr conn \<Rightarrow> Inr conn)))"

lemma NewClientConnection_checks:
  "NewClientConnection read pem pair dial = Inr conn \<longleftrightarrow> (\<exists>ca. read = Inr ca \<and> pem ca) \<and> pair = None \<and> dial = Inr conn"
  by (auto simp: NewClientConnection_def split: sum.splits option.splits)

section \<open>Translations\<close>

text \<open>
  go-i18n: \<open>tl_load\<close> reads a file of messages, \<open>tl_tags\<close> the languages of the bundle that has read the
  files, \<open>tl_localize\<close> the message with its error for a language, a key, a plural count and template data;
  \<open>tl_parse_accept\<close>, \<open>tl_parse\<close> and \<open>tl_match\<close> are those of golang.org/x/text/language, with \<open>und\<close> the
  undetermined tag.
\<close>

type_synonym template_data = "(string \<times> string) list"

record i18n_lib =
  tl_load :: "string \<Rightarrow> go_error option"
  tl_tags :: "string list \<Rightarrow> string list"
  tl_localize :: "string \<Rightarrow> string \<Rightarrow> string option \<Rightarrow> template_data option \<Rightarrow> string \<times> go_error option"
  tl_parse_accept :: "string \<Rightarrow> string list"
  tl_parse :: "string \<Rightarrow> string"
  tl_match :: "string list \<Rightarrow> string list \<Rightarrow> string"
  tl_und :: string

fun load_messages :: "i18n_lib \<Rightarrow> (string \<times> bool) list \<Rightarrow> go_error + string list" where
  "load_messages L [] = Inr []"
| "load_messages L ((name, is_dir) # files) =
     (if is_dir \<or> \<not> suffix ''.toml'' name then load_messages L files
      else (case tl_load L name of
          Some x \<Rightarrow> Inl (ErrWrap ''failed to load i18n message file'' x)
        | None \<Rightarrow> (case load_messages L files of Inl x \<Rightarrow> Inl x | Inr ns \<Rightarrow> Inr (name # ns))))"

text \<open>The service is the languages it matches.\<close>

definition New_i18n :: "i18n_lib \<Rightarrow> go_error + (string \<times> bool) list \<Rightarrow> go_error + string list" where
  "New_i18n L dir = (case dir of
      Inl x \<Rightarrow> Inl (ErrWrap ''failed to read i18n bundle directory'' x)
    | Inr files \<Rightarrow> (case load_messages L files of
        Inl x \<Rightarrow> Inl x
      | Inr ns \<Rightarrow> (let tags = tl_tags L ns in
          if tl_und L \<in> set tags
          then Inl (ErrWrap ''invalid i18n message bundle or default language'' (ErrPlain ''undetermined language''))
          else Inr tags)))"

definition translateConfigurable ::
    "i18n_lib \<Rightarrow> string \<Rightarrow> string \<Rightarrow> string option \<Rightarrow> template_data option \<Rightarrow> string \<times> go_error option" where
  "translateConfigurable L lang key count data = (case tl_localize L lang key count data of
      (msg, Some x) \<Rightarrow> (msg, Some (ErrWrap ''failed to localize'' x))
    | (msg, None) \<Rightarrow> (msg, None))"

definition TranslateMaybe :: "i18n_lib \<Rightarrow> string \<Rightarrow> string \<Rightarrow> template_data list \<Rightarrow> string \<times> go_error option" where
  "TranslateMaybe L key lang data =
     translateConfigurable L lang key None (if length data > 0 then Some (hd data) else None)"

definition Translate :: "i18n_lib \<Rightarrow> string \<Rightarrow> string \<Rightarrow> template_data list \<Rightarrow> string" where
  "Translate L key lang data = (case TranslateMaybe L key lang data of (msg, Some _) \<Rightarrow> key | (msg, None) \<Rightarrow> msg)"

text \<open>\<open>count\<close> with its text; the entries of the data are put over the count.\<close>

definition with_count :: "string \<Rightarrow> template_data list \<Rightarrow> template_data" where
  "with_count count data = foldl (\<lambda>m (k, v). AList.update k v m) [(''Count'', count)] (if length data > 0 then hd data else [])"

definition TranslatePluralMaybe :: "i18n_lib \<Rightarrow> string \<Rightarrow> string \<Rightarrow> string \<Rightarrow> template_data list \<Rightarrow> string \<times> go_error option" where
  "TranslatePluralMaybe L cldrKey count lang data =
     translateConfigurable L lang cldrKey (Some count) (Some (with_count count data))"

definition TranslatePlural :: "i18n_lib \<Rightarrow> string \<Rightarrow> string \<Rightarrow> string \<Rightarrow> template_data list \<Rightarrow> string" where
  "TranslatePlural L cldrKey count lang data = (case TranslatePluralMaybe L cldrKey count lang data of
      (msg, Some _) \<Rightarrow> cldrKey @ '' (count='' @ count @ '')'' | (msg, None) \<Rightarrow> msg)"

definition ParseAcceptLanguage :: "i18n_lib \<Rightarrow> string list \<Rightarrow> string \<Rightarrow> string" where
  "ParseAcceptLanguage L tags lang = tl_match L tags (tl_parse_accept L lang)"

definition ParseLang :: "i18n_lib \<Rightarrow> string list \<Rightarrow> string \<Rightarrow> string" where
  "ParseLang L tags lang = tl_match L tags [tl_parse L lang]"

text \<open>A service only knows determined languages, read from the .toml files of the directory.\<close>

lemma load_messages_files: "load_messages L files = Inr ns \<Longrightarrow> ns = map fst (filter (\<lambda>(n, d). \<not> d \<and> suffix ''.toml'' n) files)"
  by (induction files arbitrary: ns rule: load_messages.induct) (auto split: if_splits option.splits sum.splits)

lemma New_i18n_tags:
  assumes "New_i18n L (Inr files) = Inr tags"
  shows "tags = tl_tags L (map fst (filter (\<lambda>(n, d). \<not> d \<and> suffix ''.toml'' n) files)) \<and> tl_und L \<notin> set tags"
  using assms by (auto simp: New_i18n_def Let_def dest: load_messages_files split: sum.splits if_splits)

text \<open>The data wins over the count that is put in by default.\<close>

lemma map_of_updates:
  "map_of (foldl (\<lambda>m (k, v). AList.update k v m) m kvs) k = (case map_of (rev kvs) k of None \<Rightarrow> map_of m k | Some v \<Rightarrow> Some v)"
proof (induction kvs arbitrary: m)
  case (Cons kv kvs)
  then show ?case by (cases kv) (auto simp: update_conv' map_of_append map_add_def split: option.splits)
qed simp

lemma with_count_lookup:
  "map_of (with_count count [d]) k = (case map_of (rev d) k of Some v \<Rightarrow> Some v | None \<Rightarrow> if k = ''Count'' then Some count else None)"
  by (simp add: with_count_def map_of_updates split: option.split)

section \<open>Known MIME types\<close>

record known_mime =
  km_mime_type :: string
  km_file_extension :: string

definition KnownMIME_Is :: "known_mime \<Rightarrow> string \<Rightarrow> bool" where
  "KnownMIME_Is m expectedMIME \<longleftrightarrow> expectedMIME = km_mime_type m"

section \<open>PKCE\<close>

definition GetPKCECodeVerifier :: "source \<Rightarrow> nat \<Rightarrow> (go_error + string) option" where
  "GetPKCECodeVerifier rand k = map_option (\<lambda>r. case r of
       Inl x \<Rightarrow> Inl (ErrWrap ''failed to generate random string'' x) | Inr verifier \<Rightarrow> Inr verifier)
     (GenerateRandomString rand k 128 [CharRangeNumeric, CharRangeAlphaLowerCase, CharRangeAlphaUpperCase] ''-._~'')"

text \<open>\<open>sha256\<close> is \<open>sha256.Sum256\<close>.\<close>

definition GetPKCECodeChallengeS256 :: "(string \<Rightarrow> string) \<Rightarrow> string \<Rightarrow> string" where
  "GetPKCECodeChallengeS256 sha256 verifier = RawURL_EncodeToString (sha256 verifier)"

text \<open>
  With a random source that goes on delivering bytes that are accepted, the verifier is returned and is
  one of RFC 7636: 128 unreserved characters (it allows 43 to 128).
\<close>

definition unreserved :: "char \<Rightarrow> bool" where
  "unreserved c \<longleftrightarrow> is_digit c \<or> is_lower c \<or> is_upper c \<or> c \<in> set ''-._~''"

lemma GetPKCECodeVerifier_valid:
  assumes "\<And>k. \<exists>j \<ge> k. useful rand unreserved 128 j"
  shows "\<exists>r. GetPKCECodeVerifier rand k = Some r \<and> (\<forall>v. r = Inr v \<longrightarrow> length v = 128 \<and> list_all unreserved v)"
proof -
  have fn: "validateFn [CharRangeNumeric, CharRangeAlphaLowerCase, CharRangeAlphaUpperCase] ''-._~'' = unreserved"
    by (auto simp: validateFn_def unreserved_def fun_eq_iff)
  obtain r where "random_loop rand unreserved 128 k [] = Some r" "\<forall>s. r = Inr s \<longrightarrow> int (length s) = 128 \<and> (\<forall>c \<in> set s. unreserved c)"
    using random_loop_returns [of rand unreserved 128 "[]" k] assms by auto
  then show ?thesis
    by (auto simp: GetPKCECodeVerifier_def GenerateRandomString_def fn list_all_iff split: sum.splits)
qed

lemma GetPKCECodeChallengeS256_valid:
  assumes "length (sha256 v) = 32"
  shows "length (GetPKCECodeChallengeS256 sha256 v) = 43 \<and> set (GetPKCECodeChallengeS256 sha256 v) \<subseteq> set url_alphabet"
  using raw_encode_length [of url_alphabet "sha256 v"] raw_encode_chars [of url_alphabet "sha256 v"] assms
  by (simp add: GetPKCECodeChallengeS256_def RawURL_EncodeToString_def)

end
