(* ===== verification/Where_Helpers.thy ===== *)
theory Where_Helpers
  imports Boil_Tables
begin

text \<open>
  The where helpers of the generated models (internal/models): the conditions on a column by the type of
  its field, and the columns of the 21 tables.  The operators are those of package qmhelper; what the
  database makes of a condition is \<open>cond_holds\<close> of \<open>Boil_Sql\<close>.
\<close>

section \<open>Conditions by type\<close>

text \<open>The field of a helper: the quoted names of table and column; a condition keeps the column.\<close>

record where_field =
  wf_table :: string
  wf_column :: string

definition field_text :: "where_field \<Rightarrow> string" where
  "field_text w = [CHR 0x22] @ wf_table w @ [CHR 0x22, CHR ''.'', CHR 0x22] @ wf_column w @ [CHR 0x22]"

definition qmhelper_Where :: "where_field \<Rightarrow> string \<Rightarrow> sql_value \<Rightarrow> cond" where
  "qmhelper_Where w operator x = CompareC (wf_column w) operator x"

definition qmhelper_WhereNullEQ :: "where_field \<Rightarrow> bool \<Rightarrow> sql_value \<Rightarrow> cond" where
  "qmhelper_WhereNullEQ w negated x = EqualC (wf_column w) negated x"

definition qmhelper_WhereIsNull :: "where_field \<Rightarrow> cond" where
  "qmhelper_WhereIsNull w = NullC (wf_column w) False"

definition qmhelper_WhereIsNotNull :: "where_field \<Rightarrow> cond" where
  "qmhelper_WhereIsNotNull w = NullC (wf_column w) True"

subsection \<open>string\<close>

definition whereHelperstring_EQ :: "where_field \<Rightarrow> sql_value \<Rightarrow> cond" where
  "whereHelperstring_EQ w x = qmhelper_Where w ''='' x"

definition whereHelperstring_NEQ :: "where_field \<Rightarrow> sql_value \<Rightarrow> cond" where
  "whereHelperstring_NEQ w x = qmhelper_Where w ''!='' x"

definition whereHelperstring_LT :: "where_field \<Rightarrow> sql_value \<Rightarrow> cond" where
  "whereHelperstring_LT w x = qmhelper_Where w ''<'' x"

definition whereHelperstring_LTE :: "where_field \<Rightarrow> sql_value \<Rightarrow> cond" where
  "whereHelperstring_LTE w x = qmhelper_Where w ''<='' x"

definition whereHelperstring_GT :: "where_field \<Rightarrow> sql_value \<Rightarrow> cond" where
  "whereHelperstring_GT w x = qmhelper_Where w ''>'' x"

definition whereHelperstring_GTE :: "where_field \<Rightarrow> sql_value \<Rightarrow> cond" where
  "whereHelperstring_GTE w x = qmhelper_Where w ''>='' x"

definition whereHelperstring_LIKE :: "where_field \<Rightarrow> sql_value \<Rightarrow> cond" where
  "whereHelperstring_LIKE w x = qmhelper_Where w ''LIKE'' x"

definition whereHelperstring_NLIKE :: "where_field \<Rightarrow> sql_value \<Rightarrow> cond" where
  "whereHelperstring_NLIKE w x = qmhelper_Where w ''NOT LIKE'' x"

definition whereHelperstring_ILIKE :: "where_field \<Rightarrow> sql_value \<Rightarrow> cond" where
  "whereHelperstring_ILIKE w x = qmhelper_Where w ''ILIKE'' x"

definition whereHelperstring_NILIKE :: "where_field \<Rightarrow> sql_value \<Rightarrow> cond" where
  "whereHelperstring_NILIKE w x = qmhelper_Where w ''NOT ILIKE'' x"

definition whereHelperstring_SIMILAR :: "where_field \<Rightarrow> sql_value \<Rightarrow> cond" where
  "whereHelperstring_SIMILAR w x = qmhelper_Where w ''SIMILAR TO'' x"

definition whereHelperstring_NSIMILAR :: "where_field \<Rightarrow> sql_value \<Rightarrow> cond" where
  "whereHelperstring_NSIMILAR w x = qmhelper_Where w ''NOT SIMILAR TO'' x"

definition whereHelperstring_IN :: "where_field \<Rightarrow> string list \<Rightarrow> cond" where
  "whereHelperstring_IN w slice = InC (wf_column w) False (map VText slice)"

definition whereHelperstring_NIN :: "where_field \<Rightarrow> string list \<Rightarrow> cond" where
  "whereHelperstring_NIN w slice = InC (wf_column w) True (map VText slice)"

subsection \<open>time.Time\<close>

definition whereHelpertime_Time_EQ :: "where_field \<Rightarrow> sql_value \<Rightarrow> cond" where
  "whereHelpertime_Time_EQ w x = qmhelper_Where w ''='' x"

definition whereHelpertime_Time_NEQ :: "where_field \<Rightarrow> sql_value \<Rightarrow> cond" where
  "whereHelpertime_Time_NEQ w x = qmhelper_Where w ''!='' x"

definition whereHelpertime_Time_LT :: "where_field \<Rightarrow> sql_value \<Rightarrow> cond" where
  "whereHelpertime_Time_LT w x = qmhelper_Where w ''<'' x"

definition whereHelpertime_Time_LTE :: "where_field \<Rightarrow> sql_value \<Rightarrow> cond" where
  "whereHelpertime_Time_LTE w x = qmhelper_Where w ''<='' x"

definition whereHelpertime_Time_GT :: "where_field \<Rightarrow> sql_value \<Rightarrow> cond" where
  "whereHelpertime_Time_GT w x = qmhelper_Where w ''>'' x"

definition whereHelpertime_Time_GTE :: "where_field \<Rightarrow> sql_value \<Rightarrow> cond" where
  "whereHelpertime_Time_GTE w x = qmhelper_Where w ''>='' x"

subsection \<open>null.String\<close>

definition whereHelpernull_String_EQ :: "where_field \<Rightarrow> sql_value \<Rightarrow> cond" where
  "whereHelpernull_String_EQ w x = qmhelper_WhereNullEQ w False x"

definition whereHelpernull_String_NEQ :: "where_field \<Rightarrow> sql_value \<Rightarrow> cond" where
  "whereHelpernull_String_NEQ w x = qmhelper_WhereNullEQ w True x"

definition whereHelpernull_String_LT :: "where_field \<Rightarrow> sql_value \<Rightarrow> cond" where
  "whereHelpernull_String_LT w x = qmhelper_Where w ''<'' x"

definition whereHelpernull_String_LTE :: "where_field \<Rightarrow> sql_value \<Rightarrow> cond" where
  "whereHelpernull_String_LTE w x = qmhelper_Where w ''<='' x"

definition whereHelpernull_String_GT :: "where_field \<Rightarrow> sql_value \<Rightarrow> cond" where
  "whereHelpernull_String_GT w x = qmhelper_Where w ''>'' x"

definition whereHelpernull_String_GTE :: "where_field \<Rightarrow> sql_value \<Rightarrow> cond" where
  "whereHelpernull_String_GTE w x = qmhelper_Where w ''>='' x"

definition whereHelpernull_String_LIKE :: "where_field \<Rightarrow> sql_value \<Rightarrow> cond" where
  "whereHelpernull_String_LIKE w x = qmhelper_Where w ''LIKE'' x"

definition whereHelpernull_String_NLIKE :: "where_field \<Rightarrow> sql_value \<Rightarrow> cond" where
  "whereHelpernull_String_NLIKE w x = qmhelper_Where w ''NOT LIKE'' x"

definition whereHelpernull_String_ILIKE :: "where_field \<Rightarrow> sql_value \<Rightarrow> cond" where
  "whereHelpernull_String_ILIKE w x = qmhelper_Where w ''ILIKE'' x"

definition whereHelpernull_String_NILIKE :: "where_field \<Rightarrow> sql_value \<Rightarrow> cond" where
  "whereHelpernull_String_NILIKE w x = qmhelper_Where w ''NOT ILIKE'' x"

definition whereHelpernull_String_SIMILAR :: "where_field \<Rightarrow> sql_value \<Rightarrow> cond" where
  "whereHelpernull_String_SIMILAR w x = qmhelper_Where w ''SIMILAR TO'' x"

definition whereHelpernull_String_NSIMILAR :: "where_field \<Rightarrow> sql_value \<Rightarrow> cond" where
  "whereHelpernull_String_NSIMILAR w x = qmhelper_Where w ''NOT SIMILAR TO'' x"

definition whereHelpernull_String_IN :: "where_field \<Rightarrow> string list \<Rightarrow> cond" where
  "whereHelpernull_String_IN w slice = InC (wf_column w) False (map VText slice)"

definition whereHelpernull_String_NIN :: "where_field \<Rightarrow> string list \<Rightarrow> cond" where
  "whereHelpernull_String_NIN w slice = InC (wf_column w) True (map VText slice)"

definition whereHelpernull_String_IsNull :: "where_field \<Rightarrow> cond" where
  "whereHelpernull_String_IsNull w = qmhelper_WhereIsNull w"

definition whereHelpernull_String_IsNotNull :: "where_field \<Rightarrow> cond" where
  "whereHelpernull_String_IsNotNull w = qmhelper_WhereIsNotNull w"

subsection \<open>null.Bool\<close>

definition whereHelpernull_Bool_EQ :: "where_field \<Rightarrow> sql_value \<Rightarrow> cond" where
  "whereHelpernull_Bool_EQ w x = qmhelper_WhereNullEQ w False x"

definition whereHelpernull_Bool_NEQ :: "where_field \<Rightarrow> sql_value \<Rightarrow> cond" where
  "whereHelpernull_Bool_NEQ w x = qmhelper_WhereNullEQ w True x"

definition whereHelpernull_Bool_LT :: "where_field \<Rightarrow> sql_value \<Rightarrow> cond" where
  "whereHelpernull_Bool_LT w x = qmhelper_Where w ''<'' x"

definition whereHelpernull_Bool_LTE :: "where_field \<Rightarrow> sql_value \<Rightarrow> cond" where
  "whereHelpernull_Bool_LTE w x = qmhelper_Where w ''<='' x"

definition whereHelpernull_Bool_GT :: "where_field \<Rightarrow> sql_value \<Rightarrow> cond" where
  "whereHelpernull_Bool_GT w x = qmhelper_Where w ''>'' x"

definition whereHelpernull_Bool_GTE :: "where_field \<Rightarrow> sql_value \<Rightarrow> cond" where
  "whereHelpernull_Bool_GTE w x = qmhelper_Where w ''>='' x"

definition whereHelpernull_Bool_IsNull :: "where_field \<Rightarrow> cond" where
  "whereHelpernull_Bool_IsNull w = qmhelper_WhereIsNull w"

definition whereHelpernull_Bool_IsNotNull :: "where_field \<Rightarrow> cond" where
  "whereHelpernull_Bool_IsNotNull w = qmhelper_WhereIsNotNull w"

subsection \<open>null.Time\<close>

definition whereHelpernull_Time_EQ :: "where_field \<Rightarrow> sql_value \<Rightarrow> cond" where
  "whereHelpernull_Time_EQ w x = qmhelper_WhereNullEQ w False x"

definition whereHelpernull_Time_NEQ :: "where_field \<Rightarrow> sql_value \<Rightarrow> cond" where
  "whereHelpernull_Time_NEQ w x = qmhelper_WhereNullEQ w True x"

definition whereHelpernull_Time_LT :: "where_field \<Rightarrow> sql_value \<Rightarrow> cond" where
  "whereHelpernull_Time_LT w x = qmhelper_Where w ''<'' x"

definition whereHelpernull_Time_LTE :: "where_field \<Rightarrow> sql_value \<Rightarrow> cond" where
  "whereHelpernull_Time_LTE w x = qmhelper_Where w ''<='' x"

definition whereHelpernull_Time_GT :: "where_field \<Rightarrow> sql_value \<Rightarrow> cond" where
  "whereHelpernull_Time_GT w x = qmhelper_Where w ''>'' x"

definition whereHelpernull_Time_GTE :: "where_field \<Rightarrow> sql_value \<Rightarrow> cond" where
  "whereHelpernull_Time_GTE w x = qmhelper_Where w ''>='' x"

definition whereHelpernull_Time_IsNull :: "where_field \<Rightarrow> cond" where
  "whereHelpernull_Time_IsNull w = qmhelper_WhereIsNull w"

definition whereHelpernull_Time_IsNotNull :: "where_field \<Rightarrow> cond" where
  "whereHelpernull_Time_IsNotNull w = qmhelper_WhereIsNotNull w"

subsection \<open>int\<close>

definition whereHelperint_EQ :: "where_field \<Rightarrow> sql_value \<Rightarrow> cond" where
  "whereHelperint_EQ w x = qmhelper_Where w ''='' x"

definition whereHelperint_NEQ :: "where_field \<Rightarrow> sql_value \<Rightarrow> cond" where
  "whereHelperint_NEQ w x = qmhelper_Where w ''!='' x"

definition whereHelperint_LT :: "where_field \<Rightarrow> sql_value \<Rightarrow> cond" where
  "whereHelperint_LT w x = qmhelper_Where w ''<'' x"

definition whereHelperint_LTE :: "where_field \<Rightarrow> sql_value \<Rightarrow> cond" where
  "whereHelperint_LTE w x = qmhelper_Where w ''<='' x"

definition whereHelperint_GT :: "where_field \<Rightarrow> sql_value \<Rightarrow> cond" where
  "whereHelperint_GT w x = qmhelper_Where w ''>'' x"

definition whereHelperint_GTE :: "where_field \<Rightarrow> sql_value \<Rightarrow> cond" where
  "whereHelperint_GTE w x = qmhelper_Where w ''>='' x"

definition whereHelperint_IN :: "where_field \<Rightarrow> int list \<Rightarrow> cond" where
  "whereHelperint_IN w slice = InC (wf_column w) False (map VInt slice)"

definition whereHelperint_NIN :: "where_field \<Rightarrow> int list \<Rightarrow> cond" where
  "whereHelperint_NIN w slice = InC (wf_column w) True (map VInt slice)"

subsection \<open>null.JSON\<close>

definition whereHelpernull_JSON_EQ :: "where_field \<Rightarrow> sql_value \<Rightarrow> cond" where
  "whereHelpernull_JSON_EQ w x = qmhelper_WhereNullEQ w False x"

definition whereHelpernull_JSON_NEQ :: "where_field \<Rightarrow> sql_value \<Rightarrow> cond" where
  "whereHelpernull_JSON_NEQ w x = qmhelper_WhereNullEQ w True x"

definition whereHelpernull_JSON_LT :: "where_field \<Rightarrow> sql_value \<Rightarrow> cond" where
  "whereHelpernull_JSON_LT w x = qmhelper_Where w ''<'' x"

definition whereHelpernull_JSON_LTE :: "where_field \<Rightarrow> sql_value \<Rightarrow> cond" where
  "whereHelpernull_JSON_LTE w x = qmhelper_Where w ''<='' x"

definition whereHelpernull_JSON_GT :: "where_field \<Rightarrow> sql_value \<Rightarrow> cond" where
  "whereHelpernull_JSON_GT w x = qmhelper_Where w ''>'' x"

definition whereHelpernull_JSON_GTE :: "where_field \<Rightarrow> sql_value \<Rightarrow> cond" where
  "whereHelpernull_JSON_GTE w x = qmhelper_Where w ''>='' x"

definition whereHelpernull_JSON_IsNull :: "where_field \<Rightarrow> cond" where
  "whereHelpernull_JSON_IsNull w = qmhelper_WhereIsNull w"

definition whereHelpernull_JSON_IsNotNull :: "where_field \<Rightarrow> cond" where
  "whereHelpernull_JSON_IsNotNull w = qmhelper_WhereIsNotNull w"

subsection \<open>types.NullDecimal\<close>

definition whereHelpertypes_NullDecimal_EQ :: "where_field \<Rightarrow> sql_value \<Rightarrow> cond" where
  "whereHelpertypes_NullDecimal_EQ w x = qmhelper_WhereNullEQ w False x"

definition whereHelpertypes_NullDecimal_NEQ :: "where_field \<Rightarrow> sql_value \<Rightarrow> cond" where
  "whereHelpertypes_NullDecimal_NEQ w x = qmhelper_WhereNullEQ w True x"

definition whereHelpertypes_NullDecimal_LT :: "where_field \<Rightarrow> sql_value \<Rightarrow> cond" where
  "whereHelpertypes_NullDecimal_LT w x = qmhelper_Where w ''<'' x"

definition whereHelpertypes_NullDecimal_LTE :: "where_field \<Rightarrow> sql_value \<Rightarrow> cond" where
  "whereHelpertypes_NullDecimal_LTE w x = qmhelper_Where w ''<='' x"

definition whereHelpertypes_NullDecimal_GT :: "where_field \<Rightarrow> sql_value \<Rightarrow> cond" where
  "whereHelpertypes_NullDecimal_GT w x = qmhelper_Where w ''>'' x"

definition whereHelpertypes_NullDecimal_GTE :: "where_field \<Rightarrow> sql_value \<Rightarrow> cond" where
  "whereHelpertypes_NullDecimal_GTE w x = qmhelper_Where w ''>='' x"

definition whereHelpertypes_NullDecimal_IsNull :: "where_field \<Rightarrow> cond" where
  "whereHelpertypes_NullDecimal_IsNull w = qmhelper_WhereIsNull w"

definition whereHelpertypes_NullDecimal_IsNotNull :: "where_field \<Rightarrow> cond" where
  "whereHelpertypes_NullDecimal_IsNotNull w = qmhelper_WhereIsNotNull w"

subsection \<open>types.Decimal\<close>

definition whereHelpertypes_Decimal_EQ :: "where_field \<Rightarrow> sql_value \<Rightarrow> cond" where
  "whereHelpertypes_Decimal_EQ w x = qmhelper_Where w ''='' x"

definition whereHelpertypes_Decimal_NEQ :: "where_field \<Rightarrow> sql_value \<Rightarrow> cond" where
  "whereHelpertypes_Decimal_NEQ w x = qmhelper_Where w ''!='' x"

definition whereHelpertypes_Decimal_LT :: "where_field \<Rightarrow> sql_value \<Rightarrow> cond" where
  "whereHelpertypes_Decimal_LT w x = qmhelper_Where w ''<'' x"

definition whereHelpertypes_Decimal_LTE :: "where_field \<Rightarrow> sql_value \<Rightarrow> cond" where
  "whereHelpertypes_Decimal_LTE w x = qmhelper_Where w ''<='' x"

definition whereHelpertypes_Decimal_GT :: "where_field \<Rightarrow> sql_value \<Rightarrow> cond" where
  "whereHelpertypes_Decimal_GT w x = qmhelper_Where w ''>'' x"

definition whereHelpertypes_Decimal_GTE :: "where_field \<Rightarrow> sql_value \<Rightarrow> cond" where
  "whereHelpertypes_Decimal_GTE w x = qmhelper_Where w ''>='' x"

subsection \<open>null.Int\<close>

definition whereHelpernull_Int_EQ :: "where_field \<Rightarrow> sql_value \<Rightarrow> cond" where
  "whereHelpernull_Int_EQ w x = qmhelper_WhereNullEQ w False x"

definition whereHelpernull_Int_NEQ :: "where_field \<Rightarrow> sql_value \<Rightarrow> cond" where
  "whereHelpernull_Int_NEQ w x = qmhelper_WhereNullEQ w True x"

definition whereHelpernull_Int_LT :: "where_field \<Rightarrow> sql_value \<Rightarrow> cond" where
  "whereHelpernull_Int_LT w x = qmhelper_Where w ''<'' x"

definition whereHelpernull_Int_LTE :: "where_field \<Rightarrow> sql_value \<Rightarrow> cond" where
  "whereHelpernull_Int_LTE w x = qmhelper_Where w ''<='' x"

definition whereHelpernull_Int_GT :: "where_field \<Rightarrow> sql_value \<Rightarrow> cond" where
  "whereHelpernull_Int_GT w x = qmhelper_Where w ''>'' x"

definition whereHelpernull_Int_GTE :: "where_field \<Rightarrow> sql_value \<Rightarrow> cond" where
  "whereHelpernull_Int_GTE w x = qmhelper_Where w ''>='' x"

definition whereHelpernull_Int_IN :: "where_field \<Rightarrow> int list \<Rightarrow> cond" where
  "whereHelpernull_Int_IN w slice = InC (wf_column w) False (map VInt slice)"

definition whereHelpernull_Int_NIN :: "where_field \<Rightarrow> int list \<Rightarrow> cond" where
  "whereHelpernull_Int_NIN w slice = InC (wf_column w) True (map VInt slice)"

definition whereHelpernull_Int_IsNull :: "where_field \<Rightarrow> cond" where
  "whereHelpernull_Int_IsNull w = qmhelper_WhereIsNull w"

definition whereHelpernull_Int_IsNotNull :: "where_field \<Rightarrow> cond" where
  "whereHelpernull_Int_IsNotNull w = qmhelper_WhereIsNotNull w"

subsection \<open>bool\<close>

definition whereHelperbool_EQ :: "where_field \<Rightarrow> sql_value \<Rightarrow> cond" where
  "whereHelperbool_EQ w x = qmhelper_Where w ''='' x"

definition whereHelperbool_NEQ :: "where_field \<Rightarrow> sql_value \<Rightarrow> cond" where
  "whereHelperbool_NEQ w x = qmhelper_Where w ''!='' x"

definition whereHelperbool_LT :: "where_field \<Rightarrow> sql_value \<Rightarrow> cond" where
  "whereHelperbool_LT w x = qmhelper_Where w ''<'' x"

definition whereHelperbool_LTE :: "where_field \<Rightarrow> sql_value \<Rightarrow> cond" where
  "whereHelperbool_LTE w x = qmhelper_Where w ''<='' x"

definition whereHelperbool_GT :: "where_field \<Rightarrow> sql_value \<Rightarrow> cond" where
  "whereHelperbool_GT w x = qmhelper_Where w ''>'' x"

definition whereHelperbool_GTE :: "where_field \<Rightarrow> sql_value \<Rightarrow> cond" where
  "whereHelperbool_GTE w x = qmhelper_Where w ''>='' x"

subsection \<open>types.StringArray\<close>

definition whereHelpertypes_StringArray_EQ :: "where_field \<Rightarrow> sql_value \<Rightarrow> cond" where
  "whereHelpertypes_StringArray_EQ w x = qmhelper_Where w ''='' x"

definition whereHelpertypes_StringArray_NEQ :: "where_field \<Rightarrow> sql_value \<Rightarrow> cond" where
  "whereHelpertypes_StringArray_NEQ w x = qmhelper_Where w ''!='' x"

definition whereHelpertypes_StringArray_LT :: "where_field \<Rightarrow> sql_value \<Rightarrow> cond" where
  "whereHelpertypes_StringArray_LT w x = qmhelper_Where w ''<'' x"

definition whereHelpertypes_StringArray_LTE :: "where_field \<Rightarrow> sql_value \<Rightarrow> cond" where
  "whereHelpertypes_StringArray_LTE w x = qmhelper_Where w ''<='' x"

definition whereHelpertypes_StringArray_GT :: "where_field \<Rightarrow> sql_value \<Rightarrow> cond" where
  "whereHelpertypes_StringArray_GT w x = qmhelper_Where w ''>'' x"

definition whereHelpertypes_StringArray_GTE :: "where_field \<Rightarrow> sql_value \<Rightarrow> cond" where
  "whereHelpertypes_StringArray_GTE w x = qmhelper_Where w ''>='' x"

section \<open>The columns of the tables\<close>

text \<open>The type of a helper, by the type of its field.\<close>

datatype where_kind = W_string | W_time_Time | W_null_String | W_null_Bool
  | W_null_Time | W_int | W_null_JSON | W_types_NullDecimal
  | W_types_Decimal | W_null_Int | W_bool | W_types_StringArray

type_synonym where_struct = "(string \<times> where_kind \<times> where_field) list" \<comment> \<open>Go field, type, helper\<close>

definition AccessTokenWhere :: where_struct where
  "AccessTokenWhere = [
     (''Token'', W_string, \<lparr>wf_table = ''access_tokens'', wf_column = ''token''\<rparr>),
     (''ValidUntil'', W_time_Time, \<lparr>wf_table = ''access_tokens'', wf_column = ''valid_until''\<rparr>),
     (''UserID'', W_string, \<lparr>wf_table = ''access_tokens'', wf_column = ''user_id''\<rparr>),
     (''CreatedAt'', W_time_Time, \<lparr>wf_table = ''access_tokens'', wf_column = ''created_at''\<rparr>),
     (''UpdatedAt'', W_time_Time, \<lparr>wf_table = ''access_tokens'', wf_column = ''updated_at''\<rparr>)]"

definition AddressBookWhere :: where_struct where
  "AddressBookWhere = [
     (''ID'', W_string, \<lparr>wf_table = ''address_book'', wf_column = ''id''\<rparr>),
     (''OrganizationID'', W_null_String, \<lparr>wf_table = ''address_book'', wf_column = ''organization_id''\<rparr>),
     (''ChainID'', W_null_String, \<lparr>wf_table = ''address_book'', wf_column = ''chain_id''\<rparr>),
     (''Address'', W_string, \<lparr>wf_table = ''address_book'', wf_column = ''address''\<rparr>),
     (''Name'', W_string, \<lparr>wf_table = ''address_book'', wf_column = ''name''\<rparr>),
     (''IsWhitelisted'', W_null_Bool, \<lparr>wf_table = ''address_book'', wf_column = ''is_whitelisted''\<rparr>),
     (''CreatedBy'', W_null_String, \<lparr>wf_table = ''address_book'', wf_column = ''created_by''\<rparr>),
     (''CreatedAt'', W_null_Time, \<lparr>wf_table = ''address_book'', wf_column = ''created_at''\<rparr>),
     (''UpdatedAt'', W_null_Time, \<lparr>wf_table = ''address_book'', wf_column = ''updated_at''\<rparr>)]"

definition AppUserProfileWhere :: where_struct where
  "AppUserProfileWhere = [
     (''UserID'', W_string, \<lparr>wf_table = ''app_user_profiles'', wf_column = ''user_id''\<rparr>),
     (''LegalAcceptedAt'', W_null_Time, \<lparr>wf_table = ''app_user_profiles'', wf_column = ''legal_accepted_at''\<rparr>),
     (''CreatedAt'', W_time_Time, \<lparr>wf_table = ''app_user_profiles'', wf_column = ''created_at''\<rparr>),
     (''UpdatedAt'', W_time_Time, \<lparr>wf_table = ''app_user_profiles'', wf_column = ''updated_at''\<rparr>)]"

definition ApprovalWhere :: where_struct where
  "ApprovalWhere = [
     (''ID'', W_string, \<lparr>wf_table = ''approvals'', wf_column = ''id''\<rparr>),
     (''RequestID'', W_null_String, \<lparr>wf_table = ''approvals'', wf_column = ''request_id''\<rparr>),
     (''UserID'', W_null_String, \<lparr>wf_table = ''approvals'', wf_column = ''user_id''\<rparr>),
     (''Action'', W_string, \<lparr>wf_table = ''approvals'', wf_column = ''action''\<rparr>),
     (''Comment'', W_null_String, \<lparr>wf_table = ''approvals'', wf_column = ''comment''\<rparr>),
     (''CreatedAt'', W_null_Time, \<lparr>wf_table = ''approvals'', wf_column = ''created_at''\<rparr>),
     (''UpdatedAt'', W_null_Time, \<lparr>wf_table = ''approvals'', wf_column = ''updated_at''\<rparr>)]"

definition AssetWhere :: where_struct where
  "AssetWhere = [
     (''ID'', W_string, \<lparr>wf_table = ''assets'', wf_column = ''id''\<rparr>),
     (''ChainID'', W_null_String, \<lparr>wf_table = ''assets'', wf_column = ''chain_id''\<rparr>),
     (''Symbol'', W_string, \<lparr>wf_table = ''assets'', wf_column = ''symbol''\<rparr>),
     (''Name'', W_string, \<lparr>wf_table = ''assets'', wf_column = ''name''\<rparr>),
     (''Type'', W_string, \<lparr>wf_table = ''assets'', wf_column = ''type''\<rparr>),
     (''ContractAddress'', W_null_String, \<lparr>wf_table = ''assets'', wf_column = ''contract_address''\<rparr>),
     (''Decimals'', W_int, \<lparr>wf_table = ''assets'', wf_column = ''decimals''\<rparr>),
     (''IconURL'', W_null_String, \<lparr>wf_table = ''assets'', wf_column = ''icon_url''\<rparr>),
     (''IsActive'', W_null_Bool, \<lparr>wf_table = ''assets'', wf_column = ''is_active''\<rparr>),
     (''CreatedAt'', W_null_Time, \<lparr>wf_table = ''assets'', wf_column = ''created_at''\<rparr>),
     (''UpdatedAt'', W_null_Time, \<lparr>wf_table = ''assets'', wf_column = ''updated_at''\<rparr>)]"

definition AuditLogWhere :: where_struct where
  "AuditLogWhere = [
     (''ID'', W_string, \<lparr>wf_table = ''audit_logs'', wf_column = ''id''\<rparr>),
     (''OrganizationID'', W_null_String, \<lparr>wf_table = ''audit_logs'', wf_column = ''organization_id''\<rparr>),
     (''UserID'', W_null_String, \<lparr>wf_table = ''audit_logs'', wf_column = ''user_id''\<rparr>),
     (''Action'', W_string, \<lparr>wf_table = ''audit_logs'', wf_column = ''action''\<rparr>),
     (''ResourceType'', W_null_String, \<lparr>wf_table = ''audit_logs'', wf_column = ''resource_type''\<rparr>),
     (''ResourceID'', W_null_String, \<lparr>wf_table = ''audit_logs'', wf_column = ''resource_id''\<rparr>),
     (''IPAddress'', W_null_String, \<lparr>wf_table = ''audit_logs'', wf_column = ''ip_address''\<rparr>),
     (''UserAgent'', W_null_String, \<lparr>wf_table = ''audit_logs'', wf_column = ''user_agent''\<rparr>),
     (''Details'', W_null_JSON, \<lparr>wf_table = ''audit_logs'', wf_column = ''details''\<rparr>),
     (''CreatedAt'', W_null_Time, \<lparr>wf_table = ''audit_logs'', wf_column = ''created_at''\<rparr>)]"

definition ChainWhere :: where_struct where
  "ChainWhere = [
     (''ID'', W_string, \<lparr>wf_table = ''chains'', wf_column = ''id''\<rparr>),
     (''Name'', W_string, \<lparr>wf_table = ''chains'', wf_column = ''name''\<rparr>),
     (''Type'', W_string, \<lparr>wf_table = ''chains'', wf_column = ''type''\<rparr>),
     (''ChainID'', W_null_String, \<lparr>wf_table = ''chains'', wf_column = ''chain_id''\<rparr>),
     (''Algorithm'', W_string, \<lparr>wf_table = ''chains'', wf_column = ''algorithm''\<rparr>),
     (''Curve'', W_string, \<lparr>wf_table = ''chains'', wf_column = ''curve''\<rparr>),
     (''CurrencySymbol'', W_string, \<lparr>wf_table = ''chains'', wf_column = ''currency_symbol''\<rparr>),
     (''RPCURL'', W_null_String, \<lparr>wf_table = ''chains'', wf_column = ''rpc_url''\<rparr>),
     (''ExplorerURL'', W_null_String, \<lparr>wf_table = ''chains'', wf_column = ''explorer_url''\<rparr>),
     (''IconURL'', W_null_String, \<lparr>wf_table = ''chains'', wf_column = ''icon_url''\<rparr>),
     (''IsTestnet'', W_null_Bool, \<lparr>wf_table = ''chains'', wf_column = ''is_testnet''\<rparr>),
     (''CreatedAt'', W_null_Time, \<lparr>wf_table = ''chains'', wf_column = ''created_at''\<rparr>),
     (''UpdatedAt'', W_null_Time, \<lparr>wf_table = ''chains'', wf_column = ''updated_at''\<rparr>)]"

definition ConfirmationTokenWhere :: where_struct where
  "ConfirmationTokenWhere = [
     (''Token'', W_string, \<lparr>wf_table = ''confirmation_tokens'', wf_column = ''token''\<rparr>),
     (''ValidUntil'', W_time_Time, \<lparr>wf_table = ''confirmation_tokens'', wf_column = ''valid_until''\<rparr>),
     (''UserID'', W_string, \<lparr>wf_table = ''confirmation_tokens'', wf_column = ''user_id''\<rparr>),
     (''CreatedAt'', W_time_Time, \<lparr>wf_table = ''confirmation_tokens'', wf_column = ''created_at''\<rparr>),
     (''UpdatedAt'', W_time_Time, \<lparr>wf_table = ''confirmation_tokens'', wf_column = ''updated_at''\<rparr>)]"

definition OrganizationMemberWhere :: where_struct where
  "OrganizationMemberWhere = [
     (''OrganizationID'', W_string, \<lparr>wf_table = ''organization_members'', wf_column = ''organization_id''\<rparr>),
     (''UserID'', W_string, \<lparr>wf_table = ''organization_members'', wf_column = ''user_id''\<rparr>),
     (''Role'', W_string, \<lparr>wf_table = ''organization_members'', wf_column = ''role''\<rparr>),
     (''CreatedAt'', W_null_Time, \<lparr>wf_table = ''organization_members'', wf_column = ''created_at''\<rparr>)]"

definition OrganizationWhere :: where_struct where
  "OrganizationWhere = [
     (''ID'', W_string, \<lparr>wf_table = ''organizations'', wf_column = ''id''\<rparr>),
     (''Name'', W_string, \<lparr>wf_table = ''organizations'', wf_column = ''name''\<rparr>),
     (''OwnerID'', W_string, \<lparr>wf_table = ''organizations'', wf_column = ''owner_id''\<rparr>),
     (''CreatedAt'', W_null_Time, \<lparr>wf_table = ''organizations'', wf_column = ''created_at''\<rparr>),
     (''UpdatedAt'', W_null_Time, \<lparr>wf_table = ''organizations'', wf_column = ''updated_at''\<rparr>)]"

definition PasswordResetTokenWhere :: where_struct where
  "PasswordResetTokenWhere = [
     (''Token'', W_string, \<lparr>wf_table = ''password_reset_tokens'', wf_column = ''token''\<rparr>),
     (''ValidUntil'', W_time_Time, \<lparr>wf_table = ''password_reset_tokens'', wf_column = ''valid_until''\<rparr>),
     (''UserID'', W_string, \<lparr>wf_table = ''password_reset_tokens'', wf_column = ''user_id''\<rparr>),
     (''CreatedAt'', W_time_Time, \<lparr>wf_table = ''password_reset_tokens'', wf_column = ''created_at''\<rparr>),
     (''UpdatedAt'', W_time_Time, \<lparr>wf_table = ''password_reset_tokens'', wf_column = ''updated_at''\<rparr>)]"

definition PushTokenWhere :: where_struct where
  "PushTokenWhere = [
     (''ID'', W_string, \<lparr>wf_table = ''push_tokens'', wf_column = ''id''\<rparr>),
     (''Token'', W_string, \<lparr>wf_table = ''push_tokens'', wf_column = ''token''\<rparr>),
     (''Provider'', W_string, \<lparr>wf_table = ''push_tokens'', wf_column = ''provider''\<rparr>),
     (''UserID'', W_string, \<lparr>wf_table = ''push_tokens'', wf_column = ''user_id''\<rparr>),
     (''CreatedAt'', W_time_Time, \<lparr>wf_table = ''push_tokens'', wf_column = ''created_at''\<rparr>),
     (''UpdatedAt'', W_time_Time, \<lparr>wf_table = ''push_tokens'', wf_column = ''updated_at''\<rparr>)]"

definition RefreshTokenWhere :: where_struct where
  "RefreshTokenWhere = [
     (''Token'', W_string, \<lparr>wf_table = ''refresh_tokens'', wf_column = ''token''\<rparr>),
     (''UserID'', W_string, \<lparr>wf_table = ''refresh_tokens'', wf_column = ''user_id''\<rparr>),
     (''CreatedAt'', W_time_Time, \<lparr>wf_table = ''refresh_tokens'', wf_column = ''created_at''\<rparr>),
     (''UpdatedAt'', W_time_Time, \<lparr>wf_table = ''refresh_tokens'', wf_column = ''updated_at''\<rparr>)]"

definition SigningRequestWhere :: where_struct where
  "SigningRequestWhere = [
     (''ID'', W_string, \<lparr>wf_table = ''signing_requests'', wf_column = ''id''\<rparr>),
     (''VaultID'', W_null_String, \<lparr>wf_table = ''signing_requests'', wf_column = ''vault_id''\<rparr>),
     (''WalletID'', W_null_String, \<lparr>wf_table = ''signing_requests'', wf_column = ''wallet_id''\<rparr>),
     (''InitiatorID'', W_null_String, \<lparr>wf_table = ''signing_requests'', wf_column = ''initiator_id''\<rparr>),
     (''TXData'', W_string, \<lparr>wf_table = ''signing_requests'', wf_column = ''tx_data''\<rparr>),
     (''TXHash'', W_null_String, \<lparr>wf_table = ''signing_requests'', wf_column = ''tx_hash''\<rparr>),
     (''Amount'', W_types_NullDecimal, \<lparr>wf_table = ''signing_requests'', wf_column = ''amount''\<rparr>),
     (''ToAddress'', W_null_String, \<lparr>wf_table = ''signing_requests'', wf_column = ''to_address''\<rparr>),
     (''Note'', W_null_String, \<lparr>wf_table = ''signing_requests'', wf_column = ''note''\<rparr>),
     (''Status'', W_null_String, \<lparr>wf_table = ''signing_requests'', wf_column = ''status''\<rparr>),
     (''MPCSessionID'', W_null_String, \<lparr>wf_table = ''signing_requests'', wf_column = ''mpc_session_id''\<rparr>),
     (''Signature'', W_null_String, \<lparr>wf_table = ''signing_requests'', wf_column = ''signature''\<rparr>),
     (''CreatedAt'', W_null_Time, \<lparr>wf_table = ''signing_requests'', wf_column = ''created_at''\<rparr>),
     (''UpdatedAt'', W_null_Time, \<lparr>wf_table = ''signing_requests'', wf_column = ''updated_at''\<rparr>)]"

definition SpendingLimitWhere :: where_struct where
  "SpendingLimitWhere = [
     (''ID'', W_string, \<lparr>wf_table = ''spending_limits'', wf_column = ''id''\<rparr>),
     (''VaultID'', W_null_String, \<lparr>wf_table = ''spending_limits'', wf_column = ''vault_id''\<rparr>),
     (''AssetID'', W_null_String, \<lparr>wf_table = ''spending_limits'', wf_column = ''asset_id''\<rparr>),
     (''Amount'', W_types_Decimal, \<lparr>wf_table = ''spending_limits'', wf_column = ''amount''\<rparr>),
     (''WindowSeconds'', W_int, \<lparr>wf_table = ''spending_limits'', wf_column = ''window_seconds''\<rparr>),
     (''Action'', W_null_String, \<lparr>wf_table = ''spending_limits'', wf_column = ''action''\<rparr>),
     (''CreatedAt'', W_null_Time, \<lparr>wf_table = ''spending_limits'', wf_column = ''created_at''\<rparr>),
     (''UpdatedAt'', W_null_Time, \<lparr>wf_table = ''spending_limits'', wf_column = ''updated_at''\<rparr>)]"

definition UserCredentialWhere :: where_struct where
  "UserCredentialWhere = [
     (''ID'', W_string, \<lparr>wf_table = ''user_credentials'', wf_column = ''id''\<rparr>),
     (''UserID'', W_string, \<lparr>wf_table = ''user_credentials'', wf_column = ''user_id''\<rparr>),
     (''CredentialID'', W_string, \<lparr>wf_table = ''user_credentials'', wf_column = ''credential_id''\<rparr>),
     (''PublicKey'', W_string, \<lparr>wf_table = ''user_credentials'', wf_column = ''public_key''\<rparr>),
     (''AttestationType'', W_null_String, \<lparr>wf_table = ''user_credentials'', wf_column = ''attestation_type''\<rparr>),
     (''Aaguid'', W_null_String, \<lparr>wf_table = ''user_credentials'', wf_column = ''aaguid''\<rparr>),
     (''SignCount'', W_null_Int, \<lparr>wf_table = ''user_credentials'', wf_column = ''sign_count''\<rparr>),
     (''DeviceName'', W_null_String, \<lparr>wf_table = ''user_credentials'', wf_column = ''device_name''\<rparr>),
     (''LastUsedAt'', W_null_Time, \<lparr>wf_table = ''user_credentials'', wf_column = ''last_used_at''\<rparr>),
     (''CreatedAt'', W_null_Time, \<lparr>wf_table = ''user_credentials'', wf_column = ''created_at''\<rparr>),
     (''UpdatedAt'', W_null_Time, \<lparr>wf_table = ''user_credentials'', wf_column = ''updated_at''\<rparr>)]"

definition UserWhere :: where_struct where
  "UserWhere = [
     (''ID'', W_string, \<lparr>wf_table = ''users'', wf_column = ''id''\<rparr>),
     (''Username'', W_null_String, \<lparr>wf_table = ''users'', wf_column = ''username''\<rparr>),
     (''Password'', W_null_String, \<lparr>wf_table = ''users'', wf_column = ''password''\<rparr>),
     (''IsActive'', W_bool, \<lparr>wf_table = ''users'', wf_column = ''is_active''\<rparr>),
     (''Scopes'', W_types_StringArray, \<lparr>wf_table = ''users'', wf_column = ''scopes''\<rparr>),
     (''LastAuthenticatedAt'', W_null_Time, \<lparr>wf_table = ''users'', wf_column = ''last_authenticated_at''\<rparr>),
     (''CreatedAt'', W_time_Time, \<lparr>wf_table = ''users'', wf_column = ''created_at''\<rparr>),
     (''UpdatedAt'', W_time_Time, \<lparr>wf_table = ''users'', wf_column = ''updated_at''\<rparr>),
     (''RequiresConfirmation'', W_bool, \<lparr>wf_table = ''users'', wf_column = ''requires_confirmation''\<rparr>)]"

definition VaultKeyWhere :: where_struct where
  "VaultKeyWhere = [
     (''ID'', W_string, \<lparr>wf_table = ''vault_keys'', wf_column = ''id''\<rparr>),
     (''VaultID'', W_null_String, \<lparr>wf_table = ''vault_keys'', wf_column = ''vault_id''\<rparr>),
     (''KeyID'', W_string, \<lparr>wf_table = ''vault_keys'', wf_column = ''key_id''\<rparr>),
     (''Algorithm'', W_string, \<lparr>wf_table = ''vault_keys'', wf_column = ''algorithm''\<rparr>),
     (''Curve'', W_string, \<lparr>wf_table = ''vault_keys'', wf_column = ''curve''\<rparr>),
     (''PublicKeyHex'', W_string, \<lparr>wf_table = ''vault_keys'', wf_column = ''public_key_hex''\<rparr>),
     (''CreatedAt'', W_null_Time, \<lparr>wf_table = ''vault_keys'', wf_column = ''created_at''\<rparr>),
     (''UpdatedAt'', W_null_Time, \<lparr>wf_table = ''vault_keys'', wf_column = ''updated_at''\<rparr>)]"

definition VaultWhere :: where_struct where
  "VaultWhere = [
     (''ID'', W_string, \<lparr>wf_table = ''vaults'', wf_column = ''id''\<rparr>),
     (''OrganizationID'', W_null_String, \<lparr>wf_table = ''vaults'', wf_column = ''organization_id''\<rparr>),
     (''Name'', W_string, \<lparr>wf_table = ''vaults'', wf_column = ''name''\<rparr>),
     (''Threshold'', W_int, \<lparr>wf_table = ''vaults'', wf_column = ''threshold''\<rparr>),
     (''CreatedAt'', W_null_Time, \<lparr>wf_table = ''vaults'', wf_column = ''created_at''\<rparr>),
     (''UpdatedAt'', W_null_Time, \<lparr>wf_table = ''vaults'', wf_column = ''updated_at''\<rparr>)]"

definition WalletBalanceWhere :: where_struct where
  "WalletBalanceWhere = [
     (''ID'', W_string, \<lparr>wf_table = ''wallet_balances'', wf_column = ''id''\<rparr>),
     (''WalletID'', W_null_String, \<lparr>wf_table = ''wallet_balances'', wf_column = ''wallet_id''\<rparr>),
     (''AssetID'', W_null_String, \<lparr>wf_table = ''wallet_balances'', wf_column = ''asset_id''\<rparr>),
     (''Balance'', W_types_NullDecimal, \<lparr>wf_table = ''wallet_balances'', wf_column = ''balance''\<rparr>),
     (''RawBalance'', W_null_String, \<lparr>wf_table = ''wallet_balances'', wf_column = ''raw_balance''\<rparr>),
     (''UpdatedAt'', W_null_Time, \<lparr>wf_table = ''wallet_balances'', wf_column = ''updated_at''\<rparr>)]"

definition WalletWhere :: where_struct where
  "WalletWhere = [
     (''ID'', W_string, \<lparr>wf_table = ''wallets'', wf_column = ''id''\<rparr>),
     (''VaultID'', W_null_String, \<lparr>wf_table = ''wallets'', wf_column = ''vault_id''\<rparr>),
     (''ChainID'', W_null_String, \<lparr>wf_table = ''wallets'', wf_column = ''chain_id''\<rparr>),
     (''KeyID'', W_string, \<lparr>wf_table = ''wallets'', wf_column = ''key_id''\<rparr>),
     (''Address'', W_string, \<lparr>wf_table = ''wallets'', wf_column = ''address''\<rparr>),
     (''DerivePath'', W_string, \<lparr>wf_table = ''wallets'', wf_column = ''derive_path''\<rparr>),
     (''DeriveIndex'', W_int, \<lparr>wf_table = ''wallets'', wf_column = ''derive_index''\<rparr>),
     (''CreatedAt'', W_null_Time, \<lparr>wf_table = ''wallets'', wf_column = ''created_at''\<rparr>),
     (''UpdatedAt'', W_null_Time, \<lparr>wf_table = ''wallets'', wf_column = ''updated_at''\<rparr>)]"

section \<open>Columns and conditions fit\<close>

fun kind_fits :: "where_kind \<Rightarrow> col_kind \<Rightarrow> bool" where
  "kind_fits W_string k \<longleftrightarrow> k = KText"
| "kind_fits W_int k \<longleftrightarrow> k = KInt"
| "kind_fits W_bool k \<longleftrightarrow> k = KBool"
| "kind_fits W_time_Time k \<longleftrightarrow> k = KTime"
| "kind_fits W_types_Decimal k \<longleftrightarrow> k = KDecimal"
| "kind_fits _ k \<longleftrightarrow> k = KNullable"

text \<open>A where struct has one helper per field of its table, in their order and of its type.\<close>

definition struct_fits :: "boil_table \<times> where_struct \<Rightarrow> bool" where
  "struct_fits = (\<lambda>(t, ws). list_all2 (\<lambda>(g, k, w) (c, ck). wf_table w = tb_name t \<and> wf_column w = c \<and> kind_fits k ck) ws (tb_fields t))"

lemma where_structs_fit:
  "list_all struct_fits
    [(access_tokens_table, AccessTokenWhere),
     (address_book_table, AddressBookWhere),
     (app_user_profiles_table, AppUserProfileWhere),
     (approvals_table, ApprovalWhere),
     (assets_table, AssetWhere),
     (audit_logs_table, AuditLogWhere),
     (chains_table, ChainWhere),
     (confirmation_tokens_table, ConfirmationTokenWhere),
     (organization_members_table, OrganizationMemberWhere),
     (organizations_table, OrganizationWhere),
     (password_reset_tokens_table, PasswordResetTokenWhere),
     (push_tokens_table, PushTokenWhere),
     (refresh_tokens_table, RefreshTokenWhere),
     (signing_requests_table, SigningRequestWhere),
     (spending_limits_table, SpendingLimitWhere),
     (user_credentials_table, UserCredentialWhere),
     (users_table, UserWhere),
     (vault_keys_table, VaultKeyWhere),
     (vaults_table, VaultWhere),
     (wallet_balances_table, WalletBalanceWhere),
     (wallets_table, WalletWhere)]"
  by code_simp

text \<open>
  The helpers of the nullable types: \<open>EQ\<close> of the null value finds the rows without one, and \<open>NEQ\<close> of a
  value leaves these rows out, so the two do not cover all rows.
\<close>

lemma null_EQ:
  "cond_holds e r (whereHelpernull_String_EQ w VNull) \<longleftrightarrow> fld r (wf_column w) = VNull"
  "x \<noteq> VNull \<Longrightarrow> cond_holds e r (whereHelpernull_String_EQ w x) \<longleftrightarrow> fld r (wf_column w) = x"
  by (auto simp: whereHelpernull_String_EQ_def qmhelper_WhereNullEQ_def)

lemma null_NEQ:
  "cond_holds e r (whereHelpernull_String_NEQ w VNull) \<longleftrightarrow> cond_holds e r (whereHelpernull_String_IsNotNull w)"
  "x \<noteq> VNull \<Longrightarrow> cond_holds e r (whereHelpernull_String_NEQ w x) \<longleftrightarrow>
     cond_holds e r (whereHelpernull_String_IsNotNull w) \<and> \<not> cond_holds e r (whereHelpernull_String_EQ w x)"
  by (auto simp: whereHelpernull_String_NEQ_def whereHelpernull_String_EQ_def whereHelpernull_String_IsNotNull_def
      qmhelper_WhereNullEQ_def qmhelper_WhereIsNotNull_def)

lemma string_IN:
  "cond_holds e r (whereHelperstring_IN w xs) \<longleftrightarrow> (\<exists>x \<in> set xs. fld r (wf_column w) = VText x)"
  by (auto simp: whereHelperstring_IN_def)

lemma string_NIN:
  "fld r (wf_column w) \<noteq> VNull \<Longrightarrow> cond_holds e r (whereHelperstring_NIN w xs) \<longleftrightarrow> \<not> cond_holds e r (whereHelperstring_IN w xs)"
  by (auto simp: whereHelperstring_NIN_def whereHelperstring_IN_def)

end
