(* ===== verification/Spec2Isabelle.thy ===== *)
theory Spec2Isabelle
  imports Quorum Auth_Routes Util Cache_Control Environment Grpc_Theorems Sql_Search Shared_Errors Uploads
    Probe_Theorems Request_Logging Calendar Boil_Models Boil_Links Boil_Loading
    Membership Router_Init Query_Mods Mail_Transports Configuration Edges Where_Helpers
begin

text \<open>
  Verification of go-mpc-vault: a custody server in Go (module under src/) that keeps organizations,
  vaults, wallets and signing requests in PostgreSQL, authenticates its users with passwords and
  tokens (and, over gRPC, passkeys) and asks an MPC infrastructure for threshold signatures.

  \<^bold>\<open>The program and how its parts interact.\<close>  An HTTP request passes the routes of
  internal/api/router/router.go, the bearer token middleware of internal/api/middleware/auth.go (except
  under /api/v1/auth) and a handler of internal/api/handlers, which binds and validates the body
  (internal/util/http.go, internal/types) and calls a service: internal/auth (accounts and tokens),
  internal/service/organization, internal/service/vault, internal/service/signing, internal/data/local
  and internal/push (push tokens).  The services issue statements through the generated models of
  internal/models, some of them inside a transaction of internal/util/db/db.go, and call the clients of
  internal/infra/mpc.  What a handler returns is turned into a response by the error handler of
  internal/api/router/handlers.go.  The gRPC servers of internal/api/grpc call the same services.

  \<^bold>\<open>State.\<close>  \<open>Models\<close> has one record per table (the fields of the Go struct), the record \<open>database\<close>
  of all tables, and the record \<open>world\<close>: the committed database, the view of the open transaction if
  there is one, the mails sent and the calls of the MPC infrastructure, and a counter of interactions.
  A Go function with effects is a program \<open>world \<Rightarrow> outcome \<times> world\<close> (\<open>Prelude\<close>): it returns a value
  (\<open>Ok\<close>), returns an error (\<open>Err\<close>, with its chain of wrapped errors) or panics (\<open>Panic\<close>).

  \<^bold>\<open>Parameters.\<close>  What PostgreSQL, the clocks, the random source, argon2 and the MPC infrastructure
  decide is the record \<open>env\<close>: whether interaction number \<open>n\<close> fails, the time it reads, the uuid it
  generates, the answer it gets.  The properties hold for every \<open>env\<close>, hence for every pattern of
  failures, clock readings and answers; the few that need more of it (a generator of uuids that never
  returns the empty text) name it as a hypothesis.  Other
  libraries are arguments of the definitions that use them: sqlboiler (\<open>boil_lib\<close>, with its documented
  behaviour \<open>lib_laws\<close>, which \<open>reference_lib\<close> meets) and the server behind it (\<open>boil_env\<close>, where
  \<open>server_ok\<close> says that it stores values as they are given), the checks of go-openapi and strfmt, the
  texts of echo, the WebAuthn library (\<open>webauthn\<close>), Firebase, the templates and the transport of mails.

  \<^bold>\<open>Theories.\<close>
    \<^item> Foundations: \<open>Prelude\<close> (errors, outcomes, frames and invariants of programs), \<open>Go_Strings\<close>
      (package strings, strconv, fmt), \<open>Base64\<close>, \<open>Models\<close> (rows, statements, query finishers),
      \<open>Transactions\<close> (util/db/db.go), \<open>Db_Logic\<close> (a program logic for code outside transactions).
    \<^item> Accounts: \<open>Hashing\<close> (util/hashing), \<open>Auth_Data\<close> (dto, mapper, inserts and cascades of the user
      tables), \<open>Auth_Service\<close> (auth/service.go, one program per method, the transaction bodies in \<open>_tx\<close>),
      \<open>Auth_Facts\<close> and \<open>Auth_Theorems\<close> (what each method has checked and done, what a failed call
      leaves), \<open>Passkeys\<close> and \<open>Passkey_Theorems\<close> (service/auth/impl.go).
    \<^item> Custody: \<open>Custody_Data\<close> (inserts, updates and lookups with the constraints of the migrations),
      \<open>Custody\<close> (service/organization, service/vault, infra/mpc/key_service.go), \<open>Approval_Params\<close> and
      \<open>Signing\<close> (service/signing, infra/mpc/signing_service.go and their handlers), \<open>Custody_Facts\<close>
      (the invariant \<open>custody_ok\<close> and its preservation), \<open>Custody_Theorems\<close>.
    \<^item> HTTP: \<open>Http_Errors\<close> and \<open>Shared_Errors\<close> (httperrors, the error handler), \<open>Payloads\<close> (the
      \<open>Validate\<close> methods of internal/types), \<open>Auth_Middleware\<close> and \<open>Guard_Theorems\<close>, \<open>Auth_Handlers\<close>,
      \<open>Push\<close> and \<open>Push_Theorems\<close>, \<open>Routes\<close> (which group runs behind which guard), \<open>Error_Classes\<close>,
      \<open>Route_Errors\<close> and \<open>Http_Theorems\<close> (which errors reach a client), \<open>Uploads\<close>.
    \<^item> gRPC: \<open>Grpc_Servers\<close>, \<open>Grpc_Theorems\<close>.
    \<^item> Utilities: \<open>Util\<close>, \<open>Cache_Control\<close>, \<open>Environment\<close>, \<open>Sql_Search\<close>, \<open>Go_Paths\<close> (package path and
      util/path.go), \<open>Calendar\<close> (util/time.go).
    \<^item> The process: \<open>Server_Lifecycle\<close> (api/server.go, wiring, cmd/server, migrations, as a trace of
      actions), \<open>Probes\<close> and \<open>Probe_Theorems\<close> (the management routes, with the time their calls take),
      \<open>Request_Logging\<close> (middleware/logger.go and no_cache.go), \<open>Router_Init\<close> (router/router.go: what \<open>Init\<close>
      registers with echo, and that the API needs a token), \<open>Configuration\<close> (config/server_config.go from the
      variables of the environment, dot_env.go), \<open>Mail_Transports\<close> (mailer/transport and the templates).
    \<^item> The edges: \<open>Edges\<close> (the other binders of util/http.go, \<open>StreamFile\<close>, translations, the connection to
      the MPC servers, MIME types, PKCE), \<open>Query_Mods\<close> (util/db: conditions, orders and joins, \<open>WhereJSON\<close>).
    \<^item> Generated models (internal/models), one level below \<open>Models\<close>: \<open>Boil_Sql\<close> (values, statements with
      their placeholders, what PostgreSQL does with them), \<open>Boil_World\<close> (heap, statement caches, the
      functions of sqlboiler), \<open>Boil_Crud\<close> (the generated operations for any table), \<open>Boil_Tables\<close> and
      \<open>Boil_Models\<close> (the 21 tables and the functions of their files), \<open>Boil_Facts\<close>, \<open>Boil_Caches\<close> (the
      caches do not show), \<open>Boil_Statements\<close> (placeholders and arguments fit), \<open>Boil_Roundtrip\<close> (what
      \<open>Insert\<close>, \<open>Update\<close>, \<open>Delete\<close> and \<open>Find\<close> do to rows and objects); their relationships:
      \<open>Boil_Relations\<close> (getters, eager loading, \<open>Set\<close>, \<open>Add\<close> and \<open>Remove\<close> for any foreign key),
      \<open>Boil_Keys\<close> and \<open>Boil_Links\<close> (the 29 keys and the functions of both sides), \<open>Boil_Loading\<close>;
      \<open>Where_Helpers\<close> (the typed conditions of every column).
    \<^item> The whole server: \<open>Reachability\<close> (one step is one operation of a service), \<open>Signed_Run\<close> (a
      concrete run to a signature), \<open>Quorum\<close> (the abstract machine of a signing request and the
      refinement), \<open>Api_Runs\<close> (sequences of HTTP requests), \<open>Auth_Routes\<close>, \<open>Membership\<close>
      (what a user may do who belongs to no organization) and this theory.
    \<^item> \<open>Examples\<close> has the concrete environments and worlds of the witnesses.

  \<^bold>\<open>What the lemmas show.\<close>  The invariants \<open>auth_ok\<close> (keys, unique names, no dangling references of the
  user tables) and \<open>custody_ok\<close> (the same for organizations to approvals, and that a completed request
  has approvals of at least the threshold) are kept by every operation in every outcome; the locales of
  \<open>Reachability\<close> state what a database property needs for that, and are interpreted for each invariant.
  The functional theorems give the effect of each method on the tables, for normal returns and for
  failures.  \<open>Quorum\<close> relates the rows of a request to an abstract machine of votes; the theorems of this
  file combine everything for runs of the server from the freshly migrated database.  A group of
  theorems shows, on concrete runs, where the code does less than it means to; they are listed as
  findings of the manifest.

  \<^bold>\<open>Executability, bounds and fuel.\<close>  All definitions compute; the witnesses evaluate them.  Recursion
  that is not structural has a termination proof; the one loop that may not end
  (\<open>GenerateRandomString\<close> of util/string.go, whose random source need never deliver an accepted byte) is
  a \<open>partial_function (option)\<close>, where \<open>None\<close> is not returning: a theorem gives the condition under which
  it returns and a lemma an input on which it does not.  No definition needs fuel.
  Machine integers are words where wrap-around matters (argon2 parameters, cache control bits) and
  \<open>int\<close> otherwise: the lengths and limits involved stay far below the width.

  \<^bold>\<open>Not modelled.\<close>  The log apart from the request logger; the reflection by which sqlboiler
  finds fields (a law of the library); slices of the generated models that share their elements; a query object that is used twice
  (finishers like \<open>One\<close> change it, every use in the code is a fresh one); the
  isolation of transactions beyond READ COMMITTED views; encodings of JSON, protobuf and HTTP by their
  libraries; the options of the commands; the rendering of templates; the count behind the gauge of the
  metrics and amounts in floating point; the log of recovered panics; the generated messages of protobuf
  and the generated tests; locks (the mock transport, health checks) beyond what the traces order.
\<close>

section \<open>Everything that is reachable\<close>

text \<open>
  C3: from the freshly migrated database every sequence of operations of the four services, each with
  any arguments and any outcome, and with any failures of the database, the clocks and the MPC
  infrastructure, leads to a world without an open transaction in which the invariants of the user
  tables, of the custody tables and of the decisions on requests hold, and which only extends the
  history of any world passed on the way.
\<close>

theorem reachable_invariant:
  assumes "(system_step e c)\<^sup>*\<^sup>* (fresh_world cs) w" and "(system_step e c)\<^sup>*\<^sup>* w t"
  shows "tx t = None \<and> auth_ok (db t) \<and> custody_ok (db t) \<and> actors_ok (db t) \<and> history (db w) (db t)"
proof -
  have "system_ok w" using system_reachable_ok [OF assms(1) system_ok_fresh] by simp
  from system_reachable_ok [OF assms(2) this] show ?thesis by (simp add: system_ok_def)
qed

theorem reachable_invariant_witness:
  "tx signed_world = None \<and> auth_ok (db signed_world) \<and> custody_ok (db signed_world) \<and>
    actors_ok (db signed_world) \<and> history (db (fresh_world (chains custody_db))) (db signed_world)"
  by (rule reachable_invariant [OF rtranclp.rtrancl_refl signed_world_reachable])

text \<open>
  C1: no signature without its quorum.  Every completed request that a run from the freshly migrated
  database leads to belongs to a wallet in a vault, and approvals of at least \<open>threshold\<close> different
  users, each of whom still exists, are stored for it.
\<close>

theorem every_signature_is_backed:
  assumes "(system_step e c)\<^sup>*\<^sup>* (fresh_world cs) w"
    and "r \<in> set (signing_requests (db w))" and "srq_status r = Some ''completed''"
  shows "\<exists>wallet \<in> set (wallets (db w)). \<exists>vault \<in> set (vaults (db w)).
    srq_wallet_id r = Some (wal_id wallet) \<and> wal_vault_id wallet = Some (vlt_id vault) \<and>
    vlt_threshold vault \<le> int (card (apv_user_id ` set (request_approvals (srq_id r) (db w)))) \<and>
    apv_user_id ` set (request_approvals (srq_id r) (db w)) \<subseteq> Some ` usr_id ` set (users (db w))"
proof -
  let ?as = "request_approvals (srq_id r) (db w)"
  have ok: "system_ok w" using system_reachable_ok [OF assms(1) system_ok_fresh] by simp
  have "distinct (map apv_user_id ?as)"
    using ok by (auto simp: system_ok_def custody_ok_def signing_ok_def request_approvals_def intro: distinct_users_of_request)
  then have "length ?as = card (apv_user_id ` set ?as)"
    using distinct_card [of "map apv_user_id ?as"] by simp
  moreover have "\<exists>u \<in> set (users (db w)). apv_user_id a = Some (usr_id u)" if "a \<in> set (approvals (db w))" for a
  proof -
    have "\<not> dangling (has_user (db w)) (apv_user_id a)" "apv_user_id a \<noteq> None"
      using ok that by (auto simp: system_ok_def actors_ok_def custody_ok_def signing_ok_def approval_ok_def)
    then show ?thesis by (auto simp: dangling_def has_user_def)
  qed
  then have "apv_user_id ` set ?as \<subseteq> Some ` usr_id ` set (users (db w))"
    by (fastforce simp: request_approvals_def)
  moreover have "backed (db w) r" using ok assms(2,3) by (simp add: system_ok_def signatures_backed_def)
  ultimately show ?thesis unfolding backed_def by auto
qed

theorem every_signature_is_backed_witness:
  "\<exists>r \<in> set (signing_requests (db signed_world)). srq_status r = Some ''completed'' \<and>
   (\<exists>wallet \<in> set (wallets (db signed_world)). \<exists>vault \<in> set (vaults (db signed_world)).
    srq_wallet_id r = Some (wal_id wallet) \<and> wal_vault_id wallet = Some (vlt_id vault) \<and>
    vlt_threshold vault \<le> int (card (apv_user_id ` set (request_approvals (srq_id r) (db signed_world)))) \<and>
    apv_user_id ` set (request_approvals (srq_id r) (db signed_world)) \<subseteq> Some ` usr_id ` set (users (db signed_world)))"
proof -
  obtain r where r: "r \<in> set (signing_requests (db signed_world))" "srq_status r = Some ''completed''"
    using signed_world_signed by (cases "signing_requests (db signed_world)") auto
  from every_signature_is_backed [OF signed_world_reachable r] r show ?thesis by blast
qed



end
